(* ===== verification/Prelude.thy ===== *)
theory Prelude
  imports Complex_Main
begin

text \<open>
  Shared vocabulary of the development: Python exceptions as values, the results of fallible
  and of stateful code, string helpers of the Python standard library that the gateway uses,
  and keyed tables of rows, which stand for the SQL tables.
  The locale \<open>repository\<close> is the contract every keyed table gives its clients.
\<close>

named_theorems exn_simps \<open>exception classes and their subclass tests\<close>
named_theorems table_simps \<open>lookups after updates of keyed tables\<close>

section \<open>Exceptions and results\<close>

text \<open>
  One constructor per exception class the gateway raises or catches. The Python class
  hierarchy matters to the handlers: \<open>except ValueError\<close> also catches the classes derived
  from \<open>ValueError\<close>.
\<close>

datatype exn =
    ValueError string
  | TelemetryParseError string
  | ValidationError string
  | ConfigurationValidationError string
  | InstallationValidationError string
  | NodeNotFoundError string
  | DeviceValidationError string
  | DuplicateDeviceError string
  | DuplicateInstallationError string
  | DuplicateProfileError string
  | ConversionError string
  | ProvisioningError string string "string option" string string
  | BleProvisioningError string
  | OnboardingIdentityError string
  | LifecycleError string string
  | WorkflowError string string
  | UsbResetError string
  | FirmwareValidationError string string
  | InvalidVersion string
  | ConnectionError string
  | TimeoutError
  | ProtocolError string
  | TelemetryPersistenceError string
  | IntegrityError string
  | TypeError string
  | OverflowError string
  | KeyError string
  | IndexError string
  | AttributeError string
  | OSError string
  | StopIteration
  | QueueFull
  | BleakError string
  | HTTPException nat string string

text \<open>\<open>isinstance(exc, ValueError)\<close>: \<open>TelemetryPersistenceError\<close>, \<open>ConnectionError\<close>,
  \<open>TimeoutError\<close>, \<open>ProtocolError\<close> and the SQL and arithmetic errors are not derived from it.\<close>

fun is_value_error :: "exn \<Rightarrow> bool" where
  "is_value_error (ValueError _) = True"
| "is_value_error (TelemetryParseError _) = True"
| "is_value_error (ValidationError _) = True"
| "is_value_error (ConfigurationValidationError _) = True"
| "is_value_error (InstallationValidationError _) = True"
| "is_value_error (NodeNotFoundError _) = True"
| "is_value_error (DeviceValidationError _) = True"
| "is_value_error (DuplicateDeviceError _) = True"
| "is_value_error (DuplicateInstallationError _) = True"
| "is_value_error (DuplicateProfileError _) = True"
| "is_value_error (ConversionError _) = True"
| "is_value_error (ProvisioningError _ _ _ _ _) = True"
| "is_value_error (BleProvisioningError _) = True"
| "is_value_error (OnboardingIdentityError _) = True"
| "is_value_error (LifecycleError _ _) = True"
| "is_value_error (WorkflowError _ _) = True"
| "is_value_error (UsbResetError _) = True"
| "is_value_error (FirmwareValidationError _ _) = True"
| "is_value_error (InvalidVersion _) = True"
| "is_value_error _ = False"

declare is_value_error.simps [exn_simps]

text \<open>\<open>str(exc)\<close> for the classes whose text is stored or compared.\<close>

fun exn_str :: "exn \<Rightarrow> string" where
  "exn_str (ValueError m) = m"
| "exn_str (TelemetryParseError m) = m"
| "exn_str (ValidationError m) = m"
| "exn_str (ConfigurationValidationError m) = m"
| "exn_str (InstallationValidationError m) = m"
| "exn_str (NodeNotFoundError m) = m"
| "exn_str (DeviceValidationError m) = m"
| "exn_str (DuplicateDeviceError m) = m"
| "exn_str (DuplicateInstallationError m) = m"
| "exn_str (DuplicateProfileError m) = m"
| "exn_str (ConversionError m) = m"
| "exn_str (ProvisioningError m _ _ _ _) = m"
| "exn_str (BleProvisioningError m) = m"
| "exn_str (OnboardingIdentityError m) = m"
| "exn_str (LifecycleError _ m) = m"
| "exn_str (WorkflowError _ m) = m"
| "exn_str (UsbResetError m) = m"
| "exn_str (FirmwareValidationError m _) = m"
| "exn_str (InvalidVersion m) = m"
| "exn_str (ConnectionError m) = m"
| "exn_str TimeoutError = ''''"
| "exn_str (ProtocolError m) = m"
| "exn_str (TelemetryPersistenceError m) = m"
| "exn_str (IntegrityError m) = m"
| "exn_str (TypeError m) = m"
| "exn_str (OverflowError m) = m"
| "exn_str (KeyError m) = m"
| "exn_str (IndexError m) = m"
| "exn_str (AttributeError m) = m"
| "exn_str (OSError m) = m"
| "exn_str StopIteration = ''''"
| "exn_str QueueFull = ''''"
| "exn_str (BleakError m) = m"
| "exn_str (HTTPException _ _ m) = m"

text \<open>\<open>type(exc).__name__\<close> for the classes whose name is stored.\<close>

fun exn_name :: "exn \<Rightarrow> string" where
  "exn_name (ValueError _) = ''ValueError''"
| "exn_name (TelemetryParseError _) = ''TelemetryParseError''"
| "exn_name (ValidationError _) = ''ValidationError''"
| "exn_name (ConfigurationValidationError _) = ''ConfigurationValidationError''"
| "exn_name (InstallationValidationError _) = ''InstallationValidationError''"
| "exn_name (NodeNotFoundError _) = ''NodeNotFoundError''"
| "exn_name (DeviceValidationError _) = ''DeviceValidationError''"
| "exn_name (DuplicateDeviceError _) = ''DuplicateDeviceError''"
| "exn_name (DuplicateInstallationError _) = ''DuplicateInstallationError''"
| "exn_name (DuplicateProfileError _) = ''DuplicateProfileError''"
| "exn_name (ConversionError _) = ''ConversionError''"
| "exn_name (ProvisioningError _ _ _ _ _) = ''ProvisioningError''"
| "exn_name (BleProvisioningError _) = ''BleProvisioningError''"
| "exn_name (OnboardingIdentityError _) = ''OnboardingIdentityError''"
| "exn_name (LifecycleError _ _) = ''LifecycleError''"
| "exn_name (WorkflowError _ _) = ''WorkflowError''"
| "exn_name (UsbResetError _) = ''UsbResetError''"
| "exn_name (FirmwareValidationError _ _) = ''FirmwareValidationError''"
| "exn_name (InvalidVersion _) = ''InvalidVersion''"
| "exn_name (ConnectionError _) = ''ConnectionError''"
| "exn_name TimeoutError = ''TimeoutError''"
| "exn_name (ProtocolError _) = ''ProtocolError''"
| "exn_name (TelemetryPersistenceError _) = ''TelemetryPersistenceError''"
| "exn_name (IntegrityError _) = ''IntegrityError''"
| "exn_name (TypeError _) = ''TypeError''"
| "exn_name (OverflowError _) = ''OverflowError''"
| "exn_name (KeyError _) = ''KeyError''"
| "exn_name (IndexError _) = ''IndexError''"
| "exn_name (AttributeError _) = ''AttributeError''"
| "exn_name (OSError _) = ''OSError''"
| "exn_name StopIteration = ''StopIteration''"
| "exn_name QueueFull = ''QueueFull''"
| "exn_name (BleakError _) = ''BleakError''"
| "exn_name (HTTPException _ _ _) = ''HTTPException''"

type_synonym 'a result = "exn + 'a"
type_synonym time = int \<comment> \<open>UTC instants in microseconds\<close>

definition bind_result :: "'a result \<Rightarrow> ('a \<Rightarrow> 'b result) \<Rightarrow> 'b result" where
  "bind_result r f = (case r of Inl e \<Rightarrow> Inl e | Inr x \<Rightarrow> f x)"

lemma bind_result_simps [simp]:
  "bind_result (Inl e) f = Inl e"
  "bind_result (Inr x) f = f x"
  by (simp_all add: bind_result_def)

lemma bind_result_Inr_iff:
  "bind_result r f = Inr y \<longleftrightarrow> (\<exists>x. r = Inr x \<and> f x = Inr y)"
  by (cases r) auto

lemma bind_result_Inl_iff:
  "bind_result r f = Inl e \<longleftrightarrow> r = Inl e \<or> (\<exists>x. r = Inr x \<and> f x = Inl e)"
  by (cases r) auto

definition is_ok :: "'a result \<Rightarrow> bool" where
  "is_ok r = (case r of Inl _ \<Rightarrow> False | Inr _ \<Rightarrow> True)"

lemma is_ok_simps [simp]: "is_ok (Inr x)" "\<not> is_ok (Inl e)"
  by (simp_all add: is_ok_def)

lemma is_ok_iff: "is_ok r \<longleftrightarrow> (\<exists>x. r = Inr x)"
  by (cases r) auto

text \<open>A check that raises the first error of a list of guarded statements.\<close>

fun check_all :: "(bool \<times> exn) list \<Rightarrow> unit result" where
  "check_all [] = Inr ()"
| "check_all ((bad, e) # rest) = (if bad then Inl e else check_all rest)"

lemma check_all_ok_iff: "check_all gs = Inr () \<longleftrightarrow> (\<forall>g \<in> set gs. \<not> fst g)"
  by (induction gs rule: check_all.induct) auto

lemma check_all_error: "check_all gs = Inl e \<Longrightarrow> \<exists>g \<in> set gs. fst g \<and> snd g = e"
  by (induction gs rule: check_all.induct) (auto split: if_splits)

text \<open>Python's \<open>[f(x) for x in xs]\<close> where \<open>f\<close> may raise.\<close>

fun map_result :: "('a \<Rightarrow> 'b result) \<Rightarrow> 'a list \<Rightarrow> 'b list result" where
  "map_result f [] = Inr []"
| "map_result f (x # xs) =
     (case f x of Inl e \<Rightarrow> Inl e
      | Inr y \<Rightarrow> (case map_result f xs of Inl e \<Rightarrow> Inl e | Inr ys \<Rightarrow> Inr (y # ys)))"

lemma map_result_length: "map_result f xs = Inr ys \<Longrightarrow> length ys = length xs"
  by (induction xs arbitrary: ys) (auto split: sum.splits)

lemma map_result_all2: "map_result f xs = Inr ys \<Longrightarrow> list_all2 (\<lambda>x y. f x = Inr y) xs ys"
  by (induction xs arbitrary: ys) (auto split: sum.splits)

lemma map_result_Inl: "map_result f xs = Inl e \<Longrightarrow> \<exists>x \<in> set xs. f x = Inl e"
  by (induction xs) (auto split: sum.splits)

section \<open>Python truth and strings\<close>

text \<open>The truth value of an optional string: \<open>None\<close> and the empty string are false.\<close>

definition truthy :: "string option \<Rightarrow> bool" where
  "truthy s = (s \<noteq> None \<and> s \<noteq> Some '''')"

lemma truthy_simps [simp]: "\<not> truthy None" "truthy (Some s) \<longleftrightarrow> s \<noteq> ''''"
  by (simp_all add: truthy_def)

definition or_else :: "string option \<Rightarrow> string option \<Rightarrow> string option" where
  "or_else a b = (if truthy a then a else b)"

definition ascii_upper_char :: "char \<Rightarrow> char" where
  "ascii_upper_char c =
     (if of_char c \<ge> (97::nat) \<and> of_char c \<le> (122::nat) then char_of (of_char c - (32::nat)) else c)"

definition is_upper_digit :: "char \<Rightarrow> bool" where
  "is_upper_digit c =
     ((of_char c \<ge> (65::nat) \<and> of_char c \<le> (90::nat)) \<or> (of_char c \<ge> (48::nat) \<and> of_char c \<le> (57::nat)))"

definition is_digit :: "char \<Rightarrow> bool" where
  "is_digit c = (of_char c \<ge> (48::nat) \<and> of_char c \<le> (57::nat))"

definition is_upper_hex :: "char \<Rightarrow> bool" where
  "is_upper_hex c = (is_digit c \<or> (of_char c \<ge> (65::nat) \<and> of_char c \<le> (70::nat)))"

definition is_lower_hex :: "char \<Rightarrow> bool" where
  "is_lower_hex c = (is_digit c \<or> (of_char c \<ge> (97::nat) \<and> of_char c \<le> (102::nat)))"

definition is_lower_alnum :: "char \<Rightarrow> bool" where
  "is_lower_alnum c = (is_digit c \<or> (of_char c \<ge> (97::nat) \<and> of_char c \<le> (122::nat)))"

text \<open>\<open>str.split(sep)\<close> for a one-character separator.\<close>

fun split_on :: "char \<Rightarrow> string \<Rightarrow> string list" where
  "split_on sep [] = [[]]"
| "split_on sep (c # cs) =
     (if c = sep then [] # split_on sep cs
      else (case split_on sep cs of [] \<Rightarrow> [[c]] | w # ws \<Rightarrow> (c # w) # ws))"

lemma split_on_nonempty [simp]: "split_on sep s \<noteq> []"
  by (induction s) (auto split: list.splits)

text \<open>\<open>substring in s\<close>, \<open>s.startswith(p)\<close>.\<close>

fun starts_with :: "string \<Rightarrow> string \<Rightarrow> bool" where
  "starts_with [] s = True"
| "starts_with (p # ps) [] = False"
| "starts_with (p # ps) (c # cs) = (p = c \<and> starts_with ps cs)"

fun contains_sub :: "string \<Rightarrow> string \<Rightarrow> bool" where
  "contains_sub p [] = (p = [])"
| "contains_sub p (c # cs) = (starts_with p (c # cs) \<or> contains_sub p cs)"

text \<open>\<open>str.strip()\<close> on the ASCII white space characters.\<close>

definition is_space :: "char \<Rightarrow> bool" where
  "is_space c = (of_char c = (32::nat) \<or> (of_char c \<ge> (9::nat) \<and> of_char c \<le> (13::nat))
     \<or> (of_char c \<ge> (28::nat) \<and> of_char c \<le> (31::nat)))"

definition py_strip :: "string \<Rightarrow> string" where
  "py_strip s = rev (dropWhile is_space (rev (dropWhile is_space s)))"

lemma length_py_strip: "length (py_strip s) \<le> length s"
  unfolding py_strip_def
  by (metis length_dropWhile_le length_rev order_trans)

text \<open>Decimal text of a natural number, as \<open>str(n)\<close> prints it.\<close>

fun nat_str :: "nat \<Rightarrow> string" where
  "nat_str n = (if n < 10 then [char_of (48 + n)]
                else nat_str (n div 10) @ [char_of (48 + n mod 10)])"

declare nat_str.simps [simp del]

section \<open>Keyed tables\<close>

text \<open>
  A table is a list of rows in insertion order. \<open>find_row\<close> is \<open>session.scalar(select(T).where(p))\<close>
  on it, \<open>upd_rows\<close> sets attributes of the rows that satisfy \<open>p\<close>, and \<open>next_id\<close> is the
  rowid SQLite assigns to a new row of a table with an integer primary key.
\<close>

definition find_row :: "('r \<Rightarrow> bool) \<Rightarrow> 'r list \<Rightarrow> 'r option" where
  "find_row p rows = find p rows"

definition upd_rows :: "('r \<Rightarrow> bool) \<Rightarrow> ('r \<Rightarrow> 'r) \<Rightarrow> 'r list \<Rightarrow> 'r list" where
  "upd_rows p f rows = map (\<lambda>r. if p r then f r else r) rows"

definition next_id :: "('r \<Rightarrow> int) \<Rightarrow> 'r list \<Rightarrow> int" where
  "next_id key rows = fold (\<lambda>r m. max (key r) m) rows 0 + 1"

lemma find_row_Some_iff:
  "find_row p rows = Some r \<longleftrightarrow>
     (\<exists>i < length rows. p (rows ! i) \<and> rows ! i = r \<and> (\<forall>j < i. \<not> p (rows ! j)))"
  by (auto simp: find_row_def find_Some_iff)

lemma find_row_SomeD: "find_row p rows = Some r \<Longrightarrow> r \<in> set rows \<and> p r"
  by (auto simp: find_row_def find_Some_iff)

lemma find_row_None_iff: "find_row p rows = None \<longleftrightarrow> (\<forall>r \<in> set rows. \<not> p r)"
  by (auto simp: find_row_def find_None_iff)

lemma find_row_Nil [simp]: "find_row p [] = None"
  by (simp add: find_row_def)

lemma find_row_Cons [simp]: "find_row p (r # rs) = (if p r then Some r else find_row p rs)"
  by (simp add: find_row_def)

lemma find_row_append:
  "find_row p (xs @ ys) = (case find_row p xs of None \<Rightarrow> find_row p ys | Some r \<Rightarrow> Some r)"
  by (induction xs) auto

lemma find_row_unique:
  assumes "distinct (map key rows)" and "r \<in> set rows"
  shows "find_row (\<lambda>x. key x = key r) rows = Some r"
  using assms
proof (induction rows)
  case Nil
  then show ?case by simp
next
  case (Cons a rows)
  show ?case
  proof (cases "r = a")
    case True
    then show ?thesis by simp
  next
    case False
    with Cons.prems have "r \<in> set rows" by simp
    then have "key r \<in> key ` set rows" by (rule imageI)
    with Cons.prems have "key a \<noteq> key r" by auto
    with Cons \<open>r \<in> set rows\<close> show ?thesis by simp
  qed
qed

lemma length_upd_rows [simp]: "length (upd_rows p f rows) = length rows"
  by (simp add: upd_rows_def)

lemma upd_rows_Nil [simp]: "upd_rows p f [] = []"
  by (simp add: upd_rows_def)

lemma upd_rows_Cons [simp]:
  "upd_rows p f (r # rs) = (if p r then f r else r) # upd_rows p f rs"
  by (simp add: upd_rows_def)

lemma upd_rows_append [simp]: "upd_rows p f (xs @ ys) = upd_rows p f xs @ upd_rows p f ys"
  by (simp add: upd_rows_def)

lemma set_upd_rows: "set (upd_rows p f rows) = (\<lambda>r. if p r then f r else r) ` set rows"
  by (simp add: upd_rows_def)

lemma map_upd_rows:
  "(\<And>r. p r \<Longrightarrow> g (f r) = g r) \<Longrightarrow> map g (upd_rows p f rows) = map g rows"
  by (induction rows) auto

lemma fold_max_ge: "(m::int) \<le> fold (\<lambda>r m. max (key r) m) rows m"
  by (induction rows arbitrary: m) (auto intro: order_trans[OF max.cobounded2])

lemma fold_max_mono:
  "(m::int) \<le> n \<Longrightarrow> fold (\<lambda>r m. max (key r) m) rows m \<le> fold (\<lambda>r m. max (key r) m) rows n"
  by (induction rows arbitrary: m n) (auto intro: max.mono)

lemma fold_max_in: "r \<in> set rows \<Longrightarrow> key r \<le> fold (\<lambda>r m. max (key r) m) rows (m::int)"
proof (induction rows arbitrary: m)
  case Nil
  then show ?case by simp
next
  case (Cons a rows)
  show ?case
  proof (cases "r = a")
    case True
    have "key a \<le> max (key a) m" by simp
    also have "\<dots> \<le> fold (\<lambda>r m. max (key r) m) rows (max (key a) m)" by (rule fold_max_ge)
    finally show ?thesis using True by simp
  next
    case False
    with Cons show ?thesis by simp
  qed
qed

lemma next_id_fresh: "r \<in> set rows \<Longrightarrow> key r < next_id key rows"
  using fold_max_in[of r rows key 0] by (simp add: next_id_def)

lemma next_id_pos: "0 < next_id key rows"
  using fold_max_ge[of 0 key rows] by (simp add: next_id_def)

text \<open>
  The contract of a repository over such a table: \<open>get\<close> finds the row with a key, \<open>upd\<close>
  changes the row with a key. The laws are the ones every service relies on, and the lemmas
  below follow from them alone.
\<close>

locale repository =
  fixes key :: "'r \<Rightarrow> 'k"
    and get :: "'s \<Rightarrow> 'k \<Rightarrow> 'r option"
    and upd :: "'s \<Rightarrow> 'k \<Rightarrow> ('r \<Rightarrow> 'r) \<Rightarrow> 's"
  assumes get_key: "get s k = Some r \<Longrightarrow> key r = k"
    and get_upd: "(\<And>r. key (f r) = key r) \<Longrightarrow>
      get (upd s k f) k' = (if k' = k then map_option f (get s k) else get s k')"
begin

lemma get_upd_same: "(\<And>r. key (f r) = key r) \<Longrightarrow> get s k = Some r \<Longrightarrow> get (upd s k f) k = Some (f r)"
  by (simp add: get_upd)

lemma get_upd_other: "(\<And>r. key (f r) = key r) \<Longrightarrow> k' \<noteq> k \<Longrightarrow> get (upd s k f) k' = get s k'"
  by (simp add: get_upd)

lemma get_upd_None: "(\<And>r. key (f r) = key r) \<Longrightarrow> get s k' = None \<Longrightarrow> get (upd s k f) k' = None"
  by (auto simp: get_upd)

lemma get_upd_upd:
  "(\<And>r. key (f r) = key r) \<Longrightarrow> (\<And>r. key (g r) = key r) \<Longrightarrow>
     get (upd (upd s k f) k g) k' = get (upd s k (\<lambda>r. g (f r))) k'"
  by (simp add: get_upd option.map_comp comp_def)

end

text \<open>Every table whose rows carry the key satisfies the contract.\<close>

lemma find_upd_rows:
  assumes "\<And>r. key (f r) = key r"
  shows "find_row (\<lambda>r. key r = k') (upd_rows (\<lambda>r. key r = k) f rows) =
    (if k' = k then map_option f (find_row (\<lambda>r. key r = k) rows)
     else find_row (\<lambda>r. key r = k') rows)"
  using assms by (induction rows) auto

end
