(* ===== verification/Floats.thy ===== *)
theory Floats
  imports Prelude
begin

text \<open>
  Python floats. A finite float is the real number it denotes; every arithmetic operation of
  the gateway rounds its exact result with a rounding function \<open>fl\<close>, a parameter of the
  definitions that compute with floats. The locale \<open>rounding\<close> states the laws of IEEE 754
  round-to-nearest that the theorems use, and \<open>fl64\<close> is binary64 rounding to nearest, ties
  to even (gradual underflow included, exponent not bounded above), which satisfies them.
\<close>

datatype pyfloat = Fin real | PInf | NInf | NaN

definition isfinite :: "pyfloat \<Rightarrow> bool" where
  "isfinite x = (case x of Fin _ \<Rightarrow> True | _ \<Rightarrow> False)"

lemma isfinite_simps [simp]: "isfinite (Fin r)" "\<not> isfinite PInf" "\<not> isfinite NInf" "\<not> isfinite NaN"
  by (simp_all add: isfinite_def)

lemma isfinite_iff: "isfinite x \<longleftrightarrow> (\<exists>r. x = Fin r)"
  by (cases x) auto

text \<open>The largest integer \<open>float(n)\<close> accepts; beyond it Python raises \<open>OverflowError\<close>.\<close>

definition float_overflow_bound :: int where
  "float_overflow_bound = 2 ^ 1024 - 2 ^ 970"

section \<open>The contract of a rounding function\<close>

locale rounding =
  fixes fl :: "real \<Rightarrow> real"
  assumes fl_mono: "x \<le> y \<Longrightarrow> fl x \<le> fl y"
    and fl_idem: "fl (fl x) = fl x"
    and fl_int: "\<bar>n\<bar> \<le> 2 ^ 53 \<Longrightarrow> fl (of_int n) = of_int n"
    and fl_minus: "fl (- x) = - fl x"
begin

lemma fl_0 [simp]: "fl 0 = 0"
  using fl_int[of 0] by simp

lemma fl_nonneg: "0 \<le> x \<Longrightarrow> 0 \<le> fl x"
  using fl_mono[of 0 x] by simp

lemma fl_numeral: "(numeral n :: int) \<le> 2 ^ 53 \<Longrightarrow> fl (numeral n) = numeral n"
  using fl_int[of "numeral n"] by simp

lemma fl_le_int: "x \<le> of_int n \<Longrightarrow> \<bar>n\<bar> \<le> 2 ^ 53 \<Longrightarrow> fl x \<le> of_int n"
  using fl_mono[of x "of_int n"] by (simp add: fl_int)

lemma fl_ge_int: "of_int n \<le> x \<Longrightarrow> \<bar>n\<bar> \<le> 2 ^ 53 \<Longrightarrow> of_int n \<le> fl x"
  using fl_mono[of "of_int n" x] by (simp add: fl_int)

lemma fl_abs: "\<bar>fl x\<bar> = fl \<bar>x\<bar>"
proof (cases "0 \<le> x")
  case True
  then show ?thesis by (simp add: fl_nonneg)
next
  case False
  then have "0 \<le> fl (- x)" by (intro fl_nonneg) simp
  with False show ?thesis by (simp add: fl_minus)
qed

end

section \<open>Binary64 rounding\<close>

text \<open>Round to the nearest integer, ties to the even one.\<close>

definition rhe :: "real \<Rightarrow> int" where
  "rhe y = (let f = \<lfloor>y\<rfloor>; d = y - of_int f in
     if d < 1/2 then f else if d > 1/2 then f + 1 else if even f then f else f + 1)"

definition ulp_exp :: "real \<Rightarrow> int" where
  "ulp_exp x = max (- 1074) (\<lfloor>log 2 \<bar>x\<bar>\<rfloor> - 52)"

definition fl64 :: "real \<Rightarrow> real" where
  "fl64 x = (if x = 0 then 0
     else of_int (rhe (x * 2 powr (- of_int (ulp_exp x)))) * 2 powr (of_int (ulp_exp x)))"

lemma rhe_of_int [simp]: "rhe (of_int n) = n"
  by (simp add: rhe_def)

lemma rhe_mono:
  assumes "x \<le> y"
  shows "rhe x \<le> rhe y"
proof (cases "\<lfloor>x\<rfloor> = \<lfloor>y\<rfloor>")
  case True
  with assms show ?thesis by (auto simp: rhe_def Let_def)
next
  case False
  then have "\<lfloor>x\<rfloor> + 1 \<le> \<lfloor>y\<rfloor>"
    using assms floor_mono[of x y] by linarith
  moreover have "rhe x \<le> \<lfloor>x\<rfloor> + 1" and "\<lfloor>y\<rfloor> \<le> rhe y"
    by (auto simp: rhe_def Let_def)
  ultimately show ?thesis by linarith
qed

lemma rhe_minus: "rhe (- y) = - rhe y"
proof (cases "y = of_int \<lfloor>y\<rfloor>")
  case True
  then show ?thesis by (metis of_int_minus rhe_of_int)
next
  case False
  then have "\<lfloor>- y\<rfloor> = - \<lfloor>y\<rfloor> - 1"
    using ceiling_altdef[of y] by (simp add: floor_minus)
  then show ?thesis
    by (auto simp: rhe_def Let_def)
qed

lemma fl64_minus: "fl64 (- x) = - fl64 x"
  by (simp add: fl64_def ulp_exp_def rhe_minus)

lemma fl64_eqI:
  assumes "x \<noteq> 0" and "e = ulp_exp x"
  shows "fl64 x = of_int (rhe (x * 2 powr (- of_int e))) * 2 powr (of_int e)"
  using assms by (simp add: fl64_def)

text \<open>A number on the grid of its own binade is a fixed point.\<close>

lemma fl64_grid:
  assumes "x = of_int m * 2 powr (of_int e)" and "ulp_exp x \<le> e"
  shows "fl64 x = x"
proof (cases "x = 0")
  case True
  then show ?thesis by (simp add: fl64_def)
next
  case False
  define k where "k = ulp_exp x"
  have eq: "of_int e - of_int k = (real (nat (e - k)) :: real)"
    using assms(2) by (simp add: k_def)
  have "x * 2 powr (- of_int k) = of_int m * 2 powr (of_int e - of_int k)"
    by (simp add: assms(1) powr_diff powr_minus_divide)
  also have "\<dots> = of_int (m * 2 ^ nat (e - k))"
    unfolding eq powr_realpow[of 2 "nat (e - k)", simplified] by simp
  finally have scaled: "x * 2 powr (- of_int k) = of_int (m * 2 ^ nat (e - k))" .
  then have "of_int (rhe (x * 2 powr (- of_int k))) = x * 2 powr (- of_int k)"
    by (simp only: rhe_of_int)
  then have "fl64 x = x * 2 powr (- of_int k) * 2 powr (of_int k)"
    using False by (simp add: fl64_def k_def)
  then show ?thesis by (simp add: powr_minus_divide)
qed

text \<open>Where the binade lies: \<open>2 ^ t \<le> |x| < 2 ^ (t + 1)\<close> with \<open>t = \<lfloor>log 2 |x|\<rfloor>\<close>.\<close>

lemma binade:
  assumes "x > 0" and "t = \<lfloor>log 2 x\<rfloor>"
  shows "2 powr (of_int t) \<le> x" and "x < 2 powr (of_int t + 1)"
proof -
  have "of_int t \<le> log 2 x" and "log 2 x < of_int t + 1"
    using assms(2) by linarith+
  then show "2 powr (of_int t) \<le> x" and "x < 2 powr (of_int t + 1)"
    using assms(1) by (simp_all add: le_log_iff log_less_iff)
qed

lemma power_on_grid:
  assumes "k \<le> t"
  shows "\<exists>m. (2::real) powr (of_int t) = of_int m * 2 powr (of_int k)"
proof
  have "(2::real) powr (of_int t) = 2 powr (of_int (t - k)) * 2 powr (of_int k)"
    by (simp flip: powr_add)
  also have "2 powr (of_int (t - k)) = (of_int (2 ^ nat (t - k)) :: real)"
    using assms by (simp flip: powr_realpow)
  finally show "(2::real) powr (of_int t) = of_int (2 ^ nat (t - k)) * 2 powr (of_int k)" .
qed

lemma scaled_le_grid:
  assumes "x \<le> of_int m * 2 powr (of_int k)"
  shows "real_of_int (rhe (x * 2 powr (- of_int k))) * 2 powr (of_int k) \<le> of_int m * 2 powr (of_int k)"
proof -
  have "x * 2 powr (- of_int k) \<le> of_int m"
    using assms by (simp add: powr_minus_divide pos_divide_le_eq)
  then have "rhe (x * 2 powr (- of_int k)) \<le> m"
    using rhe_mono[of _ "of_int m"] by simp
  then show ?thesis by simp
qed

lemma scaled_ge_grid:
  assumes "of_int m * 2 powr (of_int k) \<le> x"
  shows "real_of_int m * 2 powr (of_int k) \<le> of_int (rhe (x * 2 powr (- of_int k))) * 2 powr (of_int k)"
proof -
  have "of_int m \<le> x * 2 powr (- of_int k)"
    using assms by (simp add: powr_minus_divide pos_le_divide_eq)
  then have "m \<le> rhe (x * 2 powr (- of_int k))"
    using rhe_mono[of "of_int m"] by simp
  then show ?thesis by simp
qed

lemma ulp_exp_mono:
  assumes "0 < x" and "x \<le> y"
  shows "ulp_exp x \<le> ulp_exp y"
proof -
  have "log 2 x \<le> log 2 y" using assms by simp
  then have "\<lfloor>log 2 x\<rfloor> \<le> \<lfloor>log 2 y\<rfloor>" by (rule floor_mono)
  with assms show ?thesis by (simp add: ulp_exp_def)
qed

lemma fl64_pos_mono:
  assumes "0 < x" and "x \<le> y"
  shows "fl64 x \<le> fl64 y"
proof (cases "ulp_exp x = ulp_exp y")
  case True
  then show ?thesis
    using assms by (simp add: fl64_def rhe_mono)
next
  case False
  define t where "t = \<lfloor>log 2 y\<rfloor>"
  define s where "s = \<lfloor>log 2 x\<rfloor>"
  have lt: "ulp_exp x < ulp_exp y"
    using ulp_exp_mono[OF assms] False by simp
  have uy: "ulp_exp y = t - 52" and ux: "ulp_exp x < t - 52" and st: "s < t"
    using lt assms by (auto simp: ulp_exp_def t_def s_def)
  have "x < 2 powr (of_int s + 1)"
    using binade(2)[OF assms(1) s_def] .
  also have "\<dots> \<le> 2 powr (of_int t)"
    using st by simp
  finally have x_le: "x \<le> 2 powr (of_int t)" by simp
  have y_ge: "2 powr (of_int t) \<le> y"
    using binade(1)[of y t] assms by (simp add: t_def)
  obtain m where m: "(2::real) powr (of_int t) = of_int m * 2 powr (of_int (ulp_exp x))"
    using power_on_grid[of "ulp_exp x" t] ux by auto
  obtain n where n: "(2::real) powr (of_int t) = of_int n * 2 powr (of_int (ulp_exp y))"
    using power_on_grid[of "ulp_exp y" t] uy by auto
  have "fl64 x \<le> 2 powr (of_int t)"
    using scaled_le_grid[OF x_le[unfolded m]] assms(1) by (simp add: fl64_def m)
  also have "\<dots> \<le> fl64 y"
    using scaled_ge_grid[OF y_ge[unfolded n]] assms by (simp add: fl64_def n)
  finally show ?thesis .
qed

lemma fl64_nonneg: "0 \<le> x \<Longrightarrow> 0 \<le> fl64 x"
proof -
  assume "0 \<le> x"
  have "rhe 0 \<le> rhe (x * 2 powr (- of_int (ulp_exp x)))"
    using \<open>0 \<le> x\<close> by (intro rhe_mono) simp
  then show ?thesis by (simp add: fl64_def rhe_def)
qed

lemma fl64_mono:
  assumes "x \<le> y"
  shows "fl64 x \<le> fl64 y"
proof -
  consider "0 < x" | "x \<le> 0" "0 \<le> y" | "y < 0" by linarith
  then show ?thesis
  proof cases
    case 1
    then show ?thesis using assms by (rule fl64_pos_mono)
  next
    case 2
    then have "0 \<le> fl64 (- x)" "0 \<le> fl64 y" by (simp_all add: fl64_nonneg)
    then show ?thesis by (simp add: fl64_minus)
  next
    case 3
    then have "fl64 (- y) \<le> fl64 (- x)" using assms by (intro fl64_pos_mono) auto
    then show ?thesis by (simp add: fl64_minus)
  qed
qed

text \<open>Rounding never leaves the closed binade, so the result is on its own grid.\<close>

lemma fl64_upper:
  assumes "0 < x" and t: "t = \<lfloor>log 2 x\<rfloor>"
  shows "fl64 x \<le> 2 powr (of_int (max (t + 1) (- 1074)))"
proof -
  let ?u = "max (t + 1) (- 1074)"
  have le: "ulp_exp x \<le> ?u" using assms by (auto simp: ulp_exp_def)
  obtain m where m: "(2::real) powr (of_int ?u) = of_int m * 2 powr (of_int (ulp_exp x))"
    using power_on_grid[OF le] by auto
  have "x \<le> 2 powr (of_int t + 1)" using binade(2)[OF assms] by simp
  also have "\<dots> \<le> 2 powr (of_int ?u)" by (intro powr_mono) auto
  finally have "x \<le> of_int m * 2 powr (of_int (ulp_exp x))" by (simp add: m)
  from scaled_le_grid[OF this] show ?thesis
    using assms(1) by (simp add: fl64_def m)
qed

lemma ulp_exp_le_of_bound:
  assumes "0 < z" and "z < 2 powr (of_int u + 1)" and "- 1074 \<le> u"
  shows "ulp_exp z \<le> max (- 1074) (u - 52)"
proof -
  have "log 2 z < of_int u + 1"
    using assms by (simp add: log_less_iff)
  then have "\<lfloor>log 2 z\<rfloor> \<le> u" by linarith
  with assms(1) show ?thesis by (auto simp: ulp_exp_def)
qed

lemma fl64_idem_pos:
  assumes "0 < x"
  shows "fl64 (fl64 x) = fl64 x"
proof (cases "fl64 x = 0")
  case True
  then show ?thesis by (simp add: fl64_def)
next
  case False
  with assms have pos: "0 < fl64 x" using fl64_nonneg[of x] by simp
  define t where "t = \<lfloor>log 2 x\<rfloor>"
  let ?u = "max (t + 1) (- 1074)"
  have up: "fl64 x \<le> 2 powr (of_int ?u)" using fl64_upper[OF assms t_def] .
  show ?thesis
  proof (cases "fl64 x = 2 powr (of_int ?u)")
    case True
    have "log 2 (2 powr (of_int ?u)) = (of_int ?u :: real)"
      by (simp del: of_int_max)
    then have "ulp_exp (fl64 x) = max (- 1074) (?u - 52)"
      unfolding True ulp_exp_def by (simp del: of_int_max)
    then have "ulp_exp (fl64 x) \<le> ?u" by auto
    then show ?thesis
      using fl64_grid[of "fl64 x" 1 ?u] True by simp
  next
    case False
    with up have less: "fl64 x < 2 powr (of_int ?u)" by simp
    have "ulp_exp (fl64 x) \<le> ulp_exp x"
    proof (cases "- 1074 \<le> t")
      case True
      then have "fl64 x < 2 powr (of_int t + 1)" using less by simp
      from ulp_exp_le_of_bound[OF pos this True] show ?thesis
        using assms by (simp add: ulp_exp_def t_def)
    next
      case f: False
      then have "fl64 x < 2 powr (of_int (- 1074))"
        using less by (simp add: max_def split: if_splits)
      also have "\<dots> \<le> 2 powr (of_int (- 1074) + 1)" by simp
      finally have "ulp_exp (fl64 x) \<le> max (- 1074) (- 1074 - 52)"
        using pos by (intro ulp_exp_le_of_bound) auto
      then show ?thesis by (auto simp: ulp_exp_def)
    qed
    moreover have "fl64 x = of_int (rhe (x * 2 powr (- of_int (ulp_exp x)))) * 2 powr (of_int (ulp_exp x))"
      using assms by (simp add: fl64_def)
    ultimately show ?thesis
      using fl64_grid by blast
  qed
qed

lemma fl64_idem: "fl64 (fl64 x) = fl64 x"
proof -
  consider "0 < x" | "x = 0" | "0 < - x" by linarith
  then show ?thesis
  proof cases
    case 3
    then have "fl64 (fl64 (- x)) = fl64 (- x)" by (rule fl64_idem_pos)
    then show ?thesis by (simp add: fl64_minus)
  next
    case 1
    then show ?thesis by (rule fl64_idem_pos)
  next
    case 2
    then show ?thesis by (simp add: fl64_def)
  qed
qed

lemma fl64_int_pos:
  assumes "0 < n" and "n \<le> 2 ^ 53"
  shows "fl64 (of_int n) = of_int n"
proof (cases "n = 2 ^ 53")
  case True
  have "(of_int n :: real) = 2 powr (of_int 53)"
    unfolding True by (simp add: powr_realpow [symmetric])
  then have "log 2 \<bar>of_int n\<bar> = log 2 \<bar>(2::real) powr (of_int 53)\<bar>"
    by (rule arg_cong)
  also have "\<dots> = of_int 53" by (simp only: abs_of_nonneg powr_ge_zero log_powr_cancel)
  finally have "log 2 \<bar>of_int n\<bar> = (of_int 53 :: real)" .
  then have "ulp_exp (of_int n) = 1"
    unfolding ulp_exp_def by (simp only: floor_of_int)
  moreover have "(of_int n :: real) = of_int (2 ^ 52) * 2 powr (of_int 1)"
    unfolding True by simp
  ultimately show ?thesis using fl64_grid[of "of_int n" "2 ^ 52" 1] by simp
next
  case False
  with assms have "n < 2 ^ 53" by simp
  then have "(of_int n :: real) < of_int (2 ^ 53)" by (simp only: of_int_less_iff)
  also have "(of_int (2 ^ 53) :: real) = 2 powr (of_int 52 + 1)" by simp
  finally have "ulp_exp (of_int n) \<le> max (- 1074) (52 - 52)"
    using assms(1) by (intro ulp_exp_le_of_bound) auto
  then have "ulp_exp (of_int n) \<le> 0" by simp
  then show ?thesis using fl64_grid[of "of_int n" n 0] by simp
qed

lemma fl64_int: "\<bar>n\<bar> \<le> 2 ^ 53 \<Longrightarrow> fl64 (of_int n) = of_int n"
proof -
  assume a: "\<bar>n\<bar> \<le> 2 ^ 53"
  consider "0 < n" | "n = 0" | "0 < - n" by linarith
  then show ?thesis
  proof cases
    case 3
    then have "fl64 (of_int (- n)) = of_int (- n)" using a by (intro fl64_int_pos) auto
    then show ?thesis by (simp add: fl64_minus)
  next
    case 1
    then show ?thesis using a by (intro fl64_int_pos) auto
  next
    case 2
    then show ?thesis by (simp add: fl64_def)
  qed
qed

interpretation ieee: rounding fl64
  by unfold_locales (simp_all add: fl64_mono fl64_idem fl64_int fl64_minus)

end
