(* ===== verification/Json.thy ===== *)
theory Json
  imports Floats
begin

text \<open>
  JSON values as \<open>json.loads\<close> returns them: integers are unbounded, floats may be infinite or
  NaN (Python's decoder accepts both), and an object is an association list in key order with
  distinct keys. The text columns of the database whose names end in \<open>_json\<close> hold the value
  they encode, so \<open>json.dumps\<close> and \<open>json.loads\<close> of a stored value do not appear.
\<close>

datatype json =
    JNull
  | JBool bool
  | JInt int
  | JFloat pyfloat
  | JStr string
  | JArr "json list"
  | JObj "(string \<times> json) list"

type_synonym dict = "(string \<times> json) list"

text \<open>\<open>d.get(k)\<close>, \<open>k in d\<close> and \<open>d.get(k, default)\<close>.\<close>

definition dget :: "dict \<Rightarrow> string \<Rightarrow> json" where
  "dget d k = (case map_of d k of None \<Rightarrow> JNull | Some v \<Rightarrow> v)"

definition has_key :: "dict \<Rightarrow> string \<Rightarrow> bool" where
  "has_key d k = (map_of d k \<noteq> None)"

definition dget_default :: "dict \<Rightarrow> string \<Rightarrow> json \<Rightarrow> json" where
  "dget_default d k v = (case map_of d k of None \<Rightarrow> v | Some w \<Rightarrow> w)"

text \<open>\<open>d[k] = v\<close>: replaces in place or appends.\<close>

fun dput :: "dict \<Rightarrow> string \<Rightarrow> json \<Rightarrow> dict" where
  "dput [] k v = [(k, v)]"
| "dput ((k', w) # d) k v = (if k' = k then (k, v) # d else (k', w) # dput d k v)"

lemma map_of_dput [simp]: "map_of (dput d k v) = (map_of d)(k \<mapsto> v)"
  by (induction d) auto

lemma dget_dput: "dget (dput d k v) k' = (if k' = k then v else dget d k')"
  by (simp add: dget_def)

lemma has_key_dput: "has_key (dput d k v) k' \<longleftrightarrow> k' = k \<or> has_key d k'"
  by (simp add: has_key_def)

text \<open>\<open>bool(value)\<close>.\<close>

fun json_truthy :: "json \<Rightarrow> bool" where
  "json_truthy JNull = False"
| "json_truthy (JBool b) = b"
| "json_truthy (JInt n) = (n \<noteq> 0)"
| "json_truthy (JFloat x) = (x \<noteq> Fin 0)"
| "json_truthy (JStr s) = (s \<noteq> [])"
| "json_truthy (JArr xs) = (xs \<noteq> [])"
| "json_truthy (JObj d) = (d \<noteq> [])"

text \<open>\<open>value == n\<close> for an integer literal: booleans and integral floats compare equal too.\<close>

fun json_eq_int :: "json \<Rightarrow> int \<Rightarrow> bool" where
  "json_eq_int (JBool b) n = ((if b then 1 else 0) = n)"
| "json_eq_int (JInt i) n = (i = n)"
| "json_eq_int (JFloat (Fin r)) n = (r = of_int n)"
| "json_eq_int _ n = False"

text \<open>\<open>value in {...}\<close> hashes the value first: lists and dictionaries raise \<open>TypeError\<close>.\<close>

fun hashable :: "json \<Rightarrow> bool" where
  "hashable (JArr _) = False"
| "hashable (JObj _) = False"
| "hashable _ = True"

definition in_str_set :: "json \<Rightarrow> string list \<Rightarrow> bool result" where
  "in_str_set v names =
     (if \<not> hashable v then Inl (TypeError ''unhashable type'')
      else Inr (case v of JStr s \<Rightarrow> s \<in> set names | _ \<Rightarrow> False))"

definition in_int_set :: "json \<Rightarrow> int list \<Rightarrow> bool result" where
  "in_int_set v ns =
     (if \<not> hashable v then Inl (TypeError ''unhashable type'')
      else Inr (\<exists>n \<in> set ns. json_eq_int v n))"

lemma in_str_set_JStr [simp]: "in_str_set (JStr s) names = Inr (s \<in> set names)"
  by (simp add: in_str_set_def)

definition json_str :: "json \<Rightarrow> string option" where
  "json_str v = (case v of JStr s \<Rightarrow> Some s | _ \<Rightarrow> None)"

lemma json_str_simps [simp]:
  "json_str (JStr s) = Some s" "json_str JNull = None" "json_str (JBool b) = None"
  "json_str (JInt i) = None" "json_str (JFloat f) = None" "json_str (JArr a) = None"
  "json_str (JObj d) = None"
  by (simp_all add: json_str_def)

lemma json_str_iff: "json_str v = Some s \<longleftrightarrow> v = JStr s"
  by (cases v) auto

text \<open>\<open>d[k]\<close> and \<open>d.update(u)\<close>; a value that has to be a text, and the error otherwise.\<close>

definition item_at :: "dict \<Rightarrow> string \<Rightarrow> json result" where
  "item_at d k = (case map_of d k of None \<Rightarrow> Inl (KeyError k) | Some v \<Rightarrow> Inr v)"

fun json_text :: "exn \<Rightarrow> json \<Rightarrow> string result" where
  "json_text e (JStr s) = Inr s"
| "json_text e _ = Inl e"

definition dupdate :: "dict \<Rightarrow> dict \<Rightarrow> dict" where
  "dupdate d u = fold (\<lambda>(k, v) d. dput d k v) u d"

lemma item_at_Inr_iff: "item_at d k = Inr v \<longleftrightarrow> map_of d k = Some v"
  by (simp add: item_at_def split: option.splits)

end
