(* ===== verification/Schemas.thy ===== *)
theory Schemas
  imports Json
begin

text \<open>
  The request, response and value models of \<open>gateway/app/schemas.py\<close>. A Pydantic model is a
  record of its fields; what Pydantic checks on construction (string lengths, numeric ranges,
  patterns, literals, the field validators) is a bool-valued predicate beside the record.
  Literals with a fixed set of strings are strings with a membership check, because the code
  compares and stores them as strings.
\<close>

definition len_between :: "nat \<Rightarrow> nat \<Rightarrow> string \<Rightarrow> bool" where
  "len_between lo hi s = (lo \<le> length s \<and> length s \<le> hi)"

definition opt_len_between :: "nat \<Rightarrow> nat \<Rightarrow> string option \<Rightarrow> bool" where
  "opt_len_between lo hi s = (case s of None \<Rightarrow> True | Some t \<Rightarrow> len_between lo hi t)"

definition int_between :: "int \<Rightarrow> int \<Rightarrow> int \<Rightarrow> bool" where
  "int_between lo hi n = (lo \<le> n \<and> n \<le> hi)"

text \<open>The patterns used by the models: \<open>^[A-Z0-9]+(?:-[A-Z0-9]+)*$\<close>, \<open>^\d+\.\d+\.\d+$\<close>,
  \<open>^0x[0-9A-F]{16}$\<close>.\<close>

definition default_device_id_pattern :: "string \<Rightarrow> bool" where
  "default_device_id_pattern s =
     (\<forall>w \<in> set (split_on (CHR ''-'') s). w \<noteq> [] \<and> list_all is_upper_digit w)"

definition semver_pattern :: "string \<Rightarrow> bool" where
  "semver_pattern s = (length (split_on (CHR ''.'') s) = 3 \<and>
     (\<forall>w \<in> set (split_on (CHR ''.'') s). w \<noteq> [] \<and> list_all is_digit w))"

definition hardware_id_pattern :: "string \<Rightarrow> bool" where
  "hardware_id_pattern s = (starts_with ''0x'' s \<and> length s = 18 \<and> list_all is_upper_hex (drop 2 s))"

section \<open>Discovery and registration requests\<close>

record discovery =
  dc_address :: string
  dc_name :: "string option"
  dc_rssi :: "int option"
  dc_service_uuids :: "string list"
  dc_compatible :: bool
  dc_compatibility_reason :: string
  dc_stable_device_id :: "string option"
  dc_temporary_id :: "string option"
  dc_last_seen_at :: time

record device_create =
  cr_device_id :: string
  cr_display_name :: string
  cr_discovery_address :: string
  cr_device_type :: string
  cr_location :: "string option"
  cr_description :: "string option"
  cr_allow_incompatible :: bool

definition not_blank :: "string \<Rightarrow> string result" where
  "not_blank v = (let s = py_strip v in
     if s = '''' then Inl (ValueError ''must not be blank'') else Inr s)"

definition device_create_valid :: "device_create \<Rightarrow> bool" where
  "device_create_valid r =
     (len_between 1 96 (cr_device_id r) \<and> len_between 1 160 (cr_display_name r)
      \<and> len_between 1 128 (cr_discovery_address r) \<and> len_between 1 64 (cr_device_type r)
      \<and> opt_len_between 0 240 (cr_location r) \<and> opt_len_between 0 1000 (cr_description r)
      \<and> not_blank (cr_device_id r) = Inr (cr_device_id r)
      \<and> not_blank (cr_display_name r) = Inr (cr_display_name r))"

text \<open>The fields of a PATCH request: \<open>None\<close> is a field that was not set
  (\<open>model_dump(exclude_unset=True)\<close> omits it), \<open>Some None\<close> is an explicit null.\<close>

record device_update =
  du_display_name :: "string option option"
  du_location :: "string option option"
  du_description :: "string option option"
  du_enabled :: "bool option option"

section \<open>Lifecycle requests\<close>

record lifecycle_confirmation_request =
  lq_operation :: string
  lq_device_id :: string
  lq_expected_hardware_id :: "string option"
  lq_expected_ble_address :: "string option"

record lifecycle_execute_request =
  lx_confirmation_token :: string
  lx_operation :: string
  lx_device_id :: string
  lx_expected_hardware_id :: "string option"
  lx_expected_ble_address :: "string option"
  lx_reason :: "string option"

definition lifecycle_confirmation_request_valid :: "lifecycle_confirmation_request \<Rightarrow> bool" where
  "lifecycle_confirmation_request_valid r =
     (lq_operation r \<in> {''remove'', ''restore''} \<and> len_between 1 96 (lq_device_id r)
      \<and> (case lq_expected_hardware_id r of None \<Rightarrow> True | Some h \<Rightarrow> hardware_id_pattern h)
      \<and> opt_len_between 3 128 (lq_expected_ble_address r))"

section \<open>Telemetry values\<close>

definition qualities :: "string list" where
  "qualities = [''good'', ''estimated'', ''uncalibrated'', ''invalid'', ''sensor_fault'', ''stale'']"

definition value_kinds :: "string list" where
  "value_kinds = [''raw'', ''filtered'', ''calibrated'', ''derived'', ''state'', ''health'']"

record channel_value =
  cv_value :: "json"
  cv_raw_value :: "json"
  cv_unit :: "string option"
  cv_quality :: string
  cv_value_kind :: string

definition channel_value_valid :: "channel_value \<Rightarrow> bool" where
  "channel_value_valid c =
     ((case cv_value c of JArr _ \<Rightarrow> False | JObj _ \<Rightarrow> False | _ \<Rightarrow> True)
      \<and> (case cv_raw_value c of JArr _ \<Rightarrow> False | JObj _ \<Rightarrow> False | JStr _ \<Rightarrow> False | _ \<Rightarrow> True)
      \<and> opt_len_between 0 32 (cv_unit c)
      \<and> cv_quality c \<in> set qualities \<and> cv_value_kind c \<in> set value_kinds)"

record vibration_summary =
  vs_schema_version :: int
  vs_algorithm_version :: int
  vs_window_sequence :: int
  vs_device_uptime_ms :: int
  vs_effective_sample_rate_hz :: real
  vs_validity :: string
  vs_accel_rms_g :: "real list"
  vs_accel_peak_g :: "real list"
  vs_crest_factor :: "real list"
  vs_kurtosis :: "real list"
  vs_dominant_frequency_hz :: "real list"
  vs_dominant_amplitude_g :: "real list"
  vs_gyro_rms_dps :: "real list"

definition uint32_max :: int where
  "uint32_max = 4294967295"

definition vibration_summary_valid :: "vibration_summary \<Rightarrow> bool" where
  "vibration_summary_valid s =
     (vs_schema_version s = 1 \<and> vs_algorithm_version s = 1
      \<and> int_between 1 uint32_max (vs_window_sequence s)
      \<and> int_between 0 uint32_max (vs_device_uptime_ms s)
      \<and> 0 < vs_effective_sample_rate_hz s \<and> vs_effective_sample_rate_hz s \<le> 500
      \<and> vs_validity s \<in> {''valid'', ''invalid''}
      \<and> (\<forall>xs \<in> set [vs_accel_rms_g s, vs_accel_peak_g s, vs_crest_factor s, vs_kurtosis s,
                      vs_dominant_frequency_hz s, vs_dominant_amplitude_g s, vs_gyro_rms_dps s].
           length xs = 3))"

definition record_type_names :: "string list" where
  "record_type_names = [''measurement'', ''event'', ''heartbeat'', ''config_ack'', ''config_error'',
     ''burst_fragment'', ''vibration'']"

record normalized_telemetry =
  nt_schema_version :: int
  nt_device_id :: "string option"
  nt_device_type :: string
  nt_record_type :: string
  nt_device_uptime_ms :: "int option"
  nt_sequence_number :: "int option"
  nt_received_at :: time
  nt_delayed :: bool
  nt_event :: "string option"
  nt_channels :: "(string \<times> channel_value) list"
  nt_metadata :: dict
  nt_vibration :: "vibration_summary option"
  nt_original_payload :: dict

definition normalized_telemetry_valid :: "normalized_telemetry \<Rightarrow> bool" where
  "normalized_telemetry_valid t =
     (int_between 1 255 (nt_schema_version t)
      \<and> opt_len_between 0 96 (nt_device_id t)
      \<and> nt_record_type t \<in> set record_type_names
      \<and> (case nt_device_uptime_ms t of None \<Rightarrow> True | Some u \<Rightarrow> int_between 0 uint32_max u)
      \<and> (case nt_sequence_number t of None \<Rightarrow> True | Some q \<Rightarrow> int_between 0 uint32_max q)
      \<and> opt_len_between 0 96 (nt_event t)
      \<and> (\<forall>c \<in> set (nt_channels t). channel_value_valid (snd c))
      \<and> (case nt_vibration t of None \<Rightarrow> True | Some v \<Rightarrow> vibration_summary_valid v))"

section \<open>Node capabilities\<close>

definition interface_types :: "string list" where
  "interface_types = [''analog'', ''built_in'', ''i2c'', ''spi'', ''uart'', ''digital'']"

record node_interface =
  ni_interface_id :: string
  ni_type :: string
  ni_capabilities :: "string list"
  ni_telemetry_channels :: "string list"
  ni_exclusive :: bool
  ni_configuration_supported :: bool
  ni_configuration_persistence :: string

definition node_interface_valid :: "node_interface \<Rightarrow> bool" where
  "node_interface_valid i =
     (len_between 1 64 (ni_interface_id i) \<and> ni_type i \<in> set interface_types
      \<and> 1 \<le> length (ni_capabilities i) \<and> length (ni_capabilities i) \<le> 32
      \<and> length (ni_telemetry_channels i) \<le> 16
      \<and> ni_configuration_persistence i \<in> {''none'', ''volatile'', ''persistent''})"

record node_capabilities =
  nc_schema_version :: int
  nc_node_id :: string
  nc_firmware_version :: "string option"
  nc_interfaces :: "node_interface list"
  nc_filters :: "string list"
  nc_reporting_modes :: "string list"
  nc_minimum_interval_ms :: int
  nc_maximum_interval_ms :: int
  nc_configuration_readback :: bool

section \<open>Installation requests\<close>

record hardware_information =
  hi_manufacturer :: "string option"
  hi_model :: "string option"
  hi_datasheet :: "string option"
  hi_electrical_interface :: "string option"
  hi_measurement_range :: "string option"
  hi_signal_conditioning :: "string option"

definition filter_types :: "string list" where
  "filter_types = [''none'', ''ema'', ''moving_average'', ''median'', ''digital_debounce'']"

record installation_configuration =
  ic_sample_interval_ms :: int
  ic_processing_interval_ms :: int
  ic_report_interval_ms :: int
  ic_heartbeat_interval_ms :: int
  ic_filter_type :: string
  ic_filter_window :: int
  ic_change_deadband :: "real option"
  ic_calibration_enabled :: bool
  ic_calibration_gain :: "real option"
  ic_calibration_offset :: "real option"
  ic_alarms_enabled :: bool
  ic_warning_low :: "real option"
  ic_warning_high :: "real option"
  ic_alarm_low :: "real option"
  ic_alarm_high :: "real option"
  ic_hardware_information :: "hardware_information option"

definition installation_configuration_valid :: "installation_configuration \<Rightarrow> bool" where
  "installation_configuration_valid c =
     (int_between 50 5000 (ic_sample_interval_ms c)
      \<and> int_between 50 5000 (ic_processing_interval_ms c)
      \<and> int_between 50 5000 (ic_report_interval_ms c)
      \<and> int_between 1000 3600000 (ic_heartbeat_interval_ms c)
      \<and> ic_filter_type c \<in> set filter_types
      \<and> int_between 1 9 (ic_filter_window c)
      \<and> (case ic_change_deadband c of None \<Rightarrow> True | Some d \<Rightarrow> 0 \<le> d))"

definition default_installation_configuration :: installation_configuration where
  "default_installation_configuration =
     \<lparr>ic_sample_interval_ms = 100, ic_processing_interval_ms = 100, ic_report_interval_ms = 100,
      ic_heartbeat_interval_ms = 30000, ic_filter_type = ''none'', ic_filter_window = 1,
      ic_change_deadband = None, ic_calibration_enabled = False, ic_calibration_gain = None,
      ic_calibration_offset = None, ic_alarms_enabled = False, ic_warning_low = None,
      ic_warning_high = None, ic_alarm_low = None, ic_alarm_high = None,
      ic_hardware_information = None\<rparr>"

record installation_create =
  ir_node_id :: string
  ir_device_id :: string
  ir_display_name :: string
  ir_sensor_profile_id :: string
  ir_sensor_profile_version :: string
  ir_interface_id :: string
  ir_location :: "string option"
  ir_description :: "string option"
  ir_configuration :: installation_configuration

definition installation_create_valid :: "installation_create \<Rightarrow> bool" where
  "installation_create_valid r =
     (len_between 1 96 (ir_node_id r) \<and> len_between 1 96 (ir_device_id r)
      \<and> len_between 1 160 (ir_display_name r) \<and> len_between 1 160 (ir_sensor_profile_id r)
      \<and> semver_pattern (ir_sensor_profile_version r) \<and> len_between 1 64 (ir_interface_id r)
      \<and> opt_len_between 0 240 (ir_location r) \<and> opt_len_between 0 1000 (ir_description r)
      \<and> installation_configuration_valid (ir_configuration r)
      \<and> not_blank (ir_device_id r) = Inr (ir_device_id r)
      \<and> not_blank (ir_display_name r) = Inr (ir_display_name r))"

record installation_update =
  iu_display_name :: "string option option"
  iu_location :: "string option option"
  iu_description :: "string option option"
  iu_configuration :: "installation_configuration option"

lemma default_configuration_valid: "installation_configuration_valid default_installation_configuration"
  by (simp add: installation_configuration_valid_def default_installation_configuration_def
      int_between_def filter_types_def)

lemma split_on_word: "sep \<notin> set s \<Longrightarrow> split_on sep s = [s]"
  by (induction s) auto

text \<open>The identifier pattern admits no empty identifier and no leading, trailing or doubled dash.\<close>

lemma device_id_pattern_nonempty: "default_device_id_pattern s \<Longrightarrow> s \<noteq> ''''"
  by (auto simp: default_device_id_pattern_def)

lemma split_on_chars: "c \<in> set s \<Longrightarrow> c = sep \<or> (\<exists>w \<in> set (split_on sep s). c \<in> set w)"
  by (induction s) (auto split: list.splits)

lemma device_id_pattern_chars:
  "default_device_id_pattern s \<Longrightarrow> c \<in> set s \<Longrightarrow> c = CHR ''-'' \<or> is_upper_digit c"
  using split_on_chars[of c s "CHR ''-''"]
  by (auto simp: default_device_id_pattern_def list_all_iff)

end
