(* ===== verification/Models.thy ===== *)
theory Models
  imports Schemas
begin

text \<open>
  The SQL tables of \<open>gateway/app/models.py\<close>: one record per mapped class with one field per
  column, and the database as a record of tables in rowid order. Column defaults that the code
  relies on are written where a row is created. \<open>utc_now()\<close>, \<open>uuid4()\<close> and random tokens are
  arguments of the operations that use them.
\<close>

record registered_device =
  rd_id :: int
  rd_device_id :: string
  rd_display_name :: string
  rd_device_type :: string
  rd_ble_address :: "string option"
  rd_ble_advertised_name :: "string option"
  rd_enabled :: bool
  rd_archived :: bool
  rd_location :: "string option"
  rd_description :: "string option"
  rd_firmware_version :: "string option"
  rd_telemetry_schema_version :: "int option"
  rd_sensor_package_version :: "string option"
  rd_protocol_version :: "string option"
  rd_configuration_schema_version :: "int option"
  rd_build_identifier :: "string option"
  rd_firmware_git_commit :: "string option"
  rd_compatibility_status :: string
  rd_compatibility_message :: "string option"
  rd_created_at :: time
  rd_updated_at :: time
  rd_last_seen_at :: "time option"
  rd_last_connected_at :: "time option"
  rd_connection_status :: string
  rd_hardware_id :: "string option"
  rd_lifecycle_state :: string
  rd_removed_at :: "time option"
  rd_removal_reason :: "string option"
  rd_factory_reset_status :: string

definition node_id_alias :: "registered_device \<Rightarrow> string" where
  "node_id_alias d = rd_device_id d"

record sensor_installation =
  si_id :: int
  si_installation_id :: string
  si_node_id :: string
  si_device_id :: string
  si_display_name :: string
  si_sensor_profile_id :: string
  si_sensor_profile_version :: string
  si_interface_id :: string
  si_enabled :: bool
  si_archived :: bool
  si_location :: "string option"
  si_description :: "string option"
  si_configuration_json :: installation_configuration
  si_previous_configuration_json :: "installation_configuration option"
  si_calibration_status :: string
  si_verification_status :: string
  si_provisioning_state :: string
  si_provisioning_error :: "string option"
  si_active_transaction_id :: "string option"
  si_created_at :: time
  si_updated_at :: time
  si_last_seen_at :: "time option"
  si_last_valid_reading_at :: "time option"

record provisioning_attempt =
  pa_id :: int
  pa_transaction_id :: string
  pa_installation_id :: string
  pa_requested_configuration_json :: installation_configuration
  pa_applied_configuration_json :: "installation_configuration option"
  pa_state :: string
  pa_error :: "string option"
  pa_created_at :: time
  pa_updated_at :: time

record audit_event =
  ae_id :: int
  ae_event_type :: string
  ae_subject_id :: "string option"
  ae_detail_json :: dict
  ae_created_at :: time

record device_lifecycle_event =
  le_id :: int
  le_operation_id :: string
  le_event_type :: string
  le_device_id :: string
  le_display_name :: string
  le_hardware_id :: "string option"
  le_ble_address :: "string option"
  le_connectivity_state :: string
  le_method :: string
  le_factory_reset_requested :: bool
  le_result :: string
  le_detail_json :: dict
  le_created_at :: time

record sensor_reregistration_workflow =
  wf_operation_id :: string
  wf_source_record_id :: int
  wf_source_device_id :: string
  wf_source_display_name :: string
  wf_hardware_id :: string
  wf_source_ble_address :: "string option"
  wf_state :: string
  wf_selected_port :: "string option"
  wf_reset_operation_id :: "string option"
  wf_backup_status :: string
  wf_backup_json :: "json option"
  wf_registration_choice :: "string option"
  wf_target_device_id :: "string option"
  wf_target_display_name :: "string option"
  wf_target_location :: "string option"
  wf_target_ble_address :: "string option"
  wf_configuration_json :: "installation_configuration option"
  wf_progress_json :: "string list"
  wf_result_json :: dict
  wf_error_code :: "string option"
  wf_error_message :: "string option"
  wf_started_at :: time
  wf_updated_at :: time

record node_firmware_history =
  fh_id :: int
  fh_node_id :: string
  fh_sensor_package_version :: json
  fh_firmware_version :: json
  fh_protocol_version :: json
  fh_configuration_schema_version :: json
  fh_build_identifier :: json
  fh_git_commit :: json
  fh_compatibility_status :: string
  fh_first_seen_at :: time
  fh_last_seen_at :: time

record reading =
  rg_id :: int
  rg_reading_uuid :: string
  rg_gateway_id :: string
  rg_registered_device_id :: int
  rg_received_at :: time
  rg_measured_at :: "time option"
  rg_measured_at_device_uptime :: "int option"
  rg_device_uptime_ms :: "int option"
  rg_sequence_number :: "int option"
  rg_session_id :: string
  rg_record_type :: string
  rg_channel :: string
  rg_raw_value :: "pyfloat option"
  rg_normalized_value :: "pyfloat option"
  rg_unit :: "string option"
  rg_quality :: string
  rg_payload_json :: dict
  rg_delayed :: bool
  rg_installation_id :: "string option"
  rg_interface_id :: "string option"

text \<open>The 21 feature columns of a window are written from one dictionary (\<open>**values\<close>) and are
  kept as that dictionary.\<close>

record vibration_window =
  vw_id :: int
  vw_window_uuid :: string
  vw_gateway_id :: string
  vw_registered_device_id :: int
  vw_installation_id :: "string option"
  vw_session_id :: string
  vw_window_sequence :: int
  vw_observed_at :: time
  vw_device_uptime_ms :: int
  vw_schema_version :: int
  vw_algorithm_version :: int
  vw_baseline_version :: "int option"
  vw_configured_sample_rate_hz :: real
  vw_effective_sample_rate_hz :: real
  vw_fft_size :: int
  vw_validity :: string
  vw_values :: "(string \<times> real) list"

record feature_statistics =
  fs_count :: int
  fs_mean :: real
  fs_m2 :: real
  fs_min :: real
  fs_max :: real

type_synonym statistics = "(string \<times> feature_statistics) list"

record vibration_baseline =
  vb_id :: int
  vb_registered_device_id :: int
  vb_installation_id :: "string option"
  vb_baseline_version :: int
  vb_algorithm_version :: int
  vb_status :: string
  vb_sample_count :: int
  vb_minimum_samples :: int
  vb_statistics_json :: statistics
  vb_last_session_id :: "string option"
  vb_last_window_sequence :: "int option"
  vb_created_at :: time
  vb_established_at :: "time option"
  vb_reason :: "string option"
  vb_last_relearn_request_id :: "string option"
  vb_updated_at :: time

record vibration_baseline_history =
  vh_id :: int
  vh_registered_device_id :: int
  vh_installation_id :: "string option"
  vh_baseline_version :: int
  vh_algorithm_version :: int
  vh_status :: string
  vh_sample_count :: int
  vh_minimum_samples :: int
  vh_statistics_json :: statistics
  vh_created_at :: time
  vh_established_at :: "time option"
  vh_superseded_at :: time
  vh_reason :: "string option"

record condition_factor =
  cf_feature :: string
  cf_baseline :: real
  cf_current :: real
  cf_normalized_deviation :: real
  cf_change_percent :: "real option"

record vibration_condition =
  vc_id :: int
  vc_registered_device_id :: int
  vc_installation_id :: "string option"
  vc_baseline_id :: "int option"
  vc_state :: string
  vc_baseline_similarity_score :: "real option"
  vc_factors_json :: "condition_factor list"
  vc_pending_state :: "string option"
  vc_pending_count :: int
  vc_latest_window_sequence :: "int option"
  vc_evaluated_at :: "time option"
  vc_updated_at :: time

section \<open>The database\<close>

record db =
  registered_devices :: "registered_device list"
  gateway_identity :: "string option"
  sensor_installations :: "sensor_installation list"
  provisioning_attempts :: "provisioning_attempt list"
  audit_events :: "audit_event list"
  device_lifecycle_events :: "device_lifecycle_event list"
  reregistration_workflows :: "sensor_reregistration_workflow list"
  node_firmware_histories :: "node_firmware_history list"
  readings :: "reading list"
  vibration_windows :: "vibration_window list"
  vibration_baselines :: "vibration_baseline list"
  vibration_baseline_histories :: "vibration_baseline_history list"
  vibration_conditions :: "vibration_condition list"

definition empty_db :: db where
  "empty_db = \<lparr>registered_devices = [], gateway_identity = None, sensor_installations = [],
     provisioning_attempts = [], audit_events = [], device_lifecycle_events = [],
     reregistration_workflows = [], node_firmware_histories = [], readings = [],
     vibration_windows = [], vibration_baselines = [], vibration_baseline_histories = [],
     vibration_conditions = []\<rparr>"

text \<open>The unique constraints the schema declares on the keys the services look rows up by.\<close>

definition keys_unique :: "db \<Rightarrow> bool" where
  "keys_unique s =
     (distinct (map rd_id (registered_devices s)) \<and> distinct (map rd_device_id (registered_devices s))
      \<and> distinct (map si_id (sensor_installations s))
      \<and> distinct (map si_installation_id (sensor_installations s))
      \<and> distinct (map si_device_id (sensor_installations s))
      \<and> distinct (map pa_transaction_id (provisioning_attempts s)))"

text \<open>
  The hardware-identity triggers of \<open>migrate_existing_database\<close> abort an insert or an update
  that would give two unarchived devices the same nonempty hardware identity.
\<close>

definition hardware_trigger_fires :: "registered_device list \<Rightarrow> registered_device \<Rightarrow> bool" where
  "hardware_trigger_fires rows d =
     (truthy (rd_hardware_id d) \<and> \<not> rd_archived d
      \<and> (\<exists>r \<in> set rows. rd_hardware_id r = rd_hardware_id d \<and> \<not> rd_archived r \<and> rd_id r \<noteq> rd_id d))"

definition active_hardware_unique :: "db \<Rightarrow> bool" where
  "active_hardware_unique s =
     (\<forall>a \<in> set (registered_devices s). \<forall>b \<in> set (registered_devices s).
        \<not> rd_archived a \<longrightarrow> \<not> rd_archived b \<longrightarrow> truthy (rd_hardware_id a) \<longrightarrow>
        rd_hardware_id a = rd_hardware_id b \<longrightarrow> rd_id a = rd_id b)"

end
