(* ===== verification/Repositories.thy ===== *)
theory Repositories
  imports Models "HOL-Library.List_Lexorder" "HOL-Library.Char_ord" "HOL-Library.Product_Lexorder"
  "HOL-Library.Multiset"
begin

text \<open>
  The persistence repositories of \<open>gateway/app/repositories/\<close>. Reads are functions of the
  database; writes return the database after their commit. A commit that a unique constraint or
  a hardware-identity trigger aborts is rolled back, so the database is returned unchanged.
  Each keyed table satisfies the \<open>repository\<close> contract of the prelude.
\<close>

section \<open>Registered devices\<close>

definition get_device :: "db \<Rightarrow> string \<Rightarrow> registered_device option" where
  "get_device s k = find_row (\<lambda>d. rd_device_id d = k) (registered_devices s)"

definition device_list :: "db \<Rightarrow> bool \<Rightarrow> registered_device list" where
  "device_list s include_archived =
     filter (\<lambda>d. include_archived \<or> \<not> rd_archived d) (sort_key rd_device_id (registered_devices s))"

definition get_by_ble_address :: "db \<Rightarrow> string \<Rightarrow> registered_device option" where
  "get_by_ble_address s address =
     find_row (\<lambda>d. rd_ble_address d = Some address \<and> \<not> rd_archived d) (registered_devices s)"

definition get_by_hardware_id :: "db \<Rightarrow> string \<Rightarrow> registered_device option" where
  "get_by_hardware_id s h = find_row (\<lambda>d. rd_hardware_id d = Some h) (registered_devices s)"

definition get_other_by_hardware_id :: "db \<Rightarrow> string \<Rightarrow> int \<Rightarrow> registered_device option" where
  "get_other_by_hardware_id s h record_id =
     find_row (\<lambda>d. rd_hardware_id d = Some h \<and> rd_id d \<noteq> record_id) (registered_devices s)"

text \<open>\<open>session.get(RegisteredDevice, id)\<close>.\<close>

definition device_by_pk :: "db \<Rightarrow> int \<Rightarrow> registered_device option" where
  "device_by_pk s i = find_row (\<lambda>d. rd_id d = i) (registered_devices s)"

definition upd_device :: "db \<Rightarrow> string \<Rightarrow> (registered_device \<Rightarrow> registered_device) \<Rightarrow> db" where
  "upd_device s k f = s\<lparr>registered_devices := upd_rows (\<lambda>d. rd_device_id d = k) f (registered_devices s)\<rparr>"

text \<open>The row a registration starts from: the column defaults.\<close>

definition device_defaults :: "int \<Rightarrow> time \<Rightarrow> registered_device" where
  "device_defaults i now =
     \<lparr>rd_id = i, rd_device_id = '''', rd_display_name = '''', rd_device_type = ''xiao_mg24_sense'',
      rd_ble_address = None, rd_ble_advertised_name = None, rd_enabled = True, rd_archived = False,
      rd_location = None, rd_description = None, rd_firmware_version = None,
      rd_telemetry_schema_version = None, rd_sensor_package_version = None,
      rd_protocol_version = None, rd_configuration_schema_version = None,
      rd_build_identifier = None, rd_firmware_git_commit = None,
      rd_compatibility_status = ''metadata_missing'', rd_compatibility_message = None,
      rd_created_at = now, rd_updated_at = now, rd_last_seen_at = None,
      rd_last_connected_at = None, rd_connection_status = ''disconnected'', rd_hardware_id = None,
      rd_lifecycle_state = ''active'', rd_removed_at = None, rd_removal_reason = None,
      rd_factory_reset_status = ''not_requested''\<rparr>"

definition device_create_row ::
  "db \<Rightarrow> (registered_device \<Rightarrow> registered_device) \<Rightarrow> time \<Rightarrow> registered_device result \<times> db" where
  "device_create_row s values now =
     (let d = values (device_defaults (next_id rd_id (registered_devices s)) now) in
      if get_device s (rd_device_id d) \<noteq> None \<or> hardware_trigger_fires (registered_devices s) d
      then (Inl (DuplicateDeviceError ''device_id is already registered''), s)
      else (Inr d, s\<lparr>registered_devices := registered_devices s @ [d]\<rparr>))"

text \<open>The update trigger runs only when the statement sets one of its columns, and SQLAlchemy
  sets the columns whose value changed.\<close>

definition device_update_aborts ::
  "registered_device list \<Rightarrow> registered_device \<Rightarrow> registered_device \<Rightarrow> bool" where
  "device_update_aborts rows old new =
     ((rd_hardware_id new \<noteq> rd_hardware_id old \<or> rd_archived new \<noteq> rd_archived old
       \<or> rd_lifecycle_state new \<noteq> rd_lifecycle_state old)
      \<and> hardware_trigger_fires rows new)"

definition device_update_row ::
  "db \<Rightarrow> registered_device \<Rightarrow> (registered_device \<Rightarrow> registered_device) \<Rightarrow> time
     \<Rightarrow> registered_device result \<times> db" where
  "device_update_row s device values now =
     (let d = (values device)\<lparr>rd_updated_at := now\<rparr> in
      if rd_device_id d \<noteq> rd_device_id device
      then (Inl (ValueError ''device_id cannot be changed''), s)
      else if device_update_aborts (registered_devices s) device d
      then (Inl (IntegrityError ''active hardware_id already registered''), s)
      else (Inr d, upd_device s (rd_device_id device) (\<lambda>_. d)))"

definition device_update_runtime ::
  "db \<Rightarrow> registered_device \<Rightarrow> string option \<Rightarrow> time option \<Rightarrow> time option \<Rightarrow> string option
     \<Rightarrow> time \<Rightarrow> db" where
  "device_update_runtime s device status last_seen_at last_connected_at ble_address now =
     upd_device s (rd_device_id device) (\<lambda>d. d\<lparr>
       rd_connection_status := (case status of None \<Rightarrow> rd_connection_status d | Some v \<Rightarrow> v),
       rd_last_seen_at := (case last_seen_at of None \<Rightarrow> rd_last_seen_at d | Some v \<Rightarrow> Some v),
       rd_last_connected_at :=
         (case last_connected_at of None \<Rightarrow> rd_last_connected_at d | Some v \<Rightarrow> Some v),
       rd_ble_address := (case ble_address of None \<Rightarrow> rd_ble_address d | Some v \<Rightarrow> Some v),
       rd_updated_at := now\<rparr>)"

interpretation devices: repository rd_device_id get_device upd_device
  by unfold_locales (auto simp: get_device_def upd_device_def find_upd_rows dest: find_row_SomeD)

lemma get_device_SomeD: "get_device s k = Some d \<Longrightarrow> d \<in> set (registered_devices s) \<and> rd_device_id d = k"
  by (auto simp: get_device_def dest: find_row_SomeD)

lemma get_device_unique:
  "distinct (map rd_device_id (registered_devices s)) \<Longrightarrow> d \<in> set (registered_devices s) \<Longrightarrow>
     get_device s (rd_device_id d) = Some d"
  unfolding get_device_def by (rule find_row_unique)

lemma upd_device_frame [simp, table_simps]:
  "sensor_installations (upd_device s k f) = sensor_installations s"
  "provisioning_attempts (upd_device s k f) = provisioning_attempts s"
  "readings (upd_device s k f) = readings s"
  "vibration_windows (upd_device s k f) = vibration_windows s"
  "device_lifecycle_events (upd_device s k f) = device_lifecycle_events s"
  "reregistration_workflows (upd_device s k f) = reregistration_workflows s"
  by (simp_all add: upd_device_def)

section \<open>Sensor installations and provisioning attempts\<close>

definition get_installation :: "db \<Rightarrow> string \<Rightarrow> sensor_installation option" where
  "get_installation s k = find_row (\<lambda>r. si_installation_id r = k) (sensor_installations s)"

definition installation_by_device_id :: "db \<Rightarrow> string \<Rightarrow> sensor_installation option" where
  "installation_by_device_id s k = find_row (\<lambda>r. si_device_id r = k) (sensor_installations s)"

definition installation_list :: "db \<Rightarrow> bool \<Rightarrow> sensor_installation list" where
  "installation_list s include_archived =
     filter (\<lambda>r. include_archived \<or> \<not> si_archived r) (sort_key si_device_id (sensor_installations s))"

definition occupied_interface :: "db \<Rightarrow> string \<Rightarrow> string \<Rightarrow> string option \<Rightarrow> sensor_installation option" where
  "occupied_interface s node_id interface_id exclude =
     find_row (\<lambda>r. si_node_id r = node_id \<and> si_interface_id r = interface_id
                  \<and> \<not> si_archived r \<and> si_enabled r
                  \<and> (\<not> truthy exclude \<or> exclude \<noteq> Some (si_installation_id r)))
       (sensor_installations s)"

definition upd_installation :: "db \<Rightarrow> string \<Rightarrow> (sensor_installation \<Rightarrow> sensor_installation) \<Rightarrow> db" where
  "upd_installation s k f =
     s\<lparr>sensor_installations := upd_rows (\<lambda>r. si_installation_id r = k) f (sensor_installations s)\<rparr>"

definition installation_create_row ::
  "db \<Rightarrow> (int \<Rightarrow> sensor_installation) \<Rightarrow> sensor_installation result \<times> db" where
  "installation_create_row s mk =
     (let r = mk (next_id si_id (sensor_installations s)) in
      if get_installation s (si_installation_id r) \<noteq> None
         \<or> installation_by_device_id s (si_device_id r) \<noteq> None
         \<or> get_device s (si_node_id r) = None
      then (Inl (DuplicateInstallationError ''installation_id or device_id is already registered''), s)
      else (Inr r, s\<lparr>sensor_installations := sensor_installations s @ [r]\<rparr>))"

definition installation_update_row ::
  "db \<Rightarrow> sensor_installation \<Rightarrow> (sensor_installation \<Rightarrow> sensor_installation) \<Rightarrow> time
     \<Rightarrow> sensor_installation result \<times> db" where
  "installation_update_row s installation values now =
     (let r = (values installation)\<lparr>si_updated_at := now\<rparr> in
      if si_device_id r \<noteq> si_device_id installation
      then (Inl (ValueError ''device_id cannot be changed''), s)
      else (Inr r, upd_installation s (si_installation_id installation) (\<lambda>_. r)))"

definition get_attempt :: "db \<Rightarrow> string \<Rightarrow> provisioning_attempt option" where
  "get_attempt s k = find_row (\<lambda>a. pa_transaction_id a = k) (provisioning_attempts s)"

definition add_attempt :: "db \<Rightarrow> (int \<Rightarrow> provisioning_attempt) \<Rightarrow> db" where
  "add_attempt s mk =
     s\<lparr>provisioning_attempts := provisioning_attempts s @ [mk (next_id pa_id (provisioning_attempts s))]\<rparr>"

definition upd_attempt :: "db \<Rightarrow> string \<Rightarrow> (provisioning_attempt \<Rightarrow> provisioning_attempt) \<Rightarrow> db" where
  "upd_attempt s k f =
     s\<lparr>provisioning_attempts := upd_rows (\<lambda>a. pa_transaction_id a = k) f (provisioning_attempts s)\<rparr>"

definition update_attempt ::
  "db \<Rightarrow> provisioning_attempt \<Rightarrow> (provisioning_attempt \<Rightarrow> provisioning_attempt) \<Rightarrow> time \<Rightarrow> db" where
  "update_attempt s attempt values now =
     upd_attempt s (pa_transaction_id attempt) (\<lambda>a. (values a)\<lparr>pa_updated_at := now\<rparr>)"

interpretation installations: repository si_installation_id get_installation upd_installation
  by unfold_locales
    (auto simp: get_installation_def upd_installation_def find_upd_rows dest: find_row_SomeD)

interpretation attempts: repository pa_transaction_id get_attempt upd_attempt
  by unfold_locales (auto simp: get_attempt_def upd_attempt_def find_upd_rows dest: find_row_SomeD)

lemma get_installation_SomeD:
  "get_installation s k = Some r \<Longrightarrow> r \<in> set (sensor_installations s) \<and> si_installation_id r = k"
  by (auto simp: get_installation_def dest: find_row_SomeD)

lemma occupied_interface_SomeD:
  "occupied_interface s n i ex = Some r \<Longrightarrow> r \<in> set (sensor_installations s) \<and> si_node_id r = n
     \<and> si_interface_id r = i \<and> \<not> si_archived r \<and> si_enabled r"
  by (auto simp: occupied_interface_def dest: find_row_SomeD)

lemma upd_installation_frame [simp, table_simps]:
  "registered_devices (upd_installation s k f) = registered_devices s"
  "provisioning_attempts (upd_installation s k f) = provisioning_attempts s"
  "readings (upd_installation s k f) = readings s"
  "get_device (upd_installation s k f) = get_device s"
  "get_attempt (upd_installation s k f) = get_attempt s"
  by (simp_all add: upd_installation_def get_device_def get_attempt_def fun_eq_iff)

lemma upd_attempt_frame [simp, table_simps]:
  "registered_devices (upd_attempt s k f) = registered_devices s"
  "sensor_installations (upd_attempt s k f) = sensor_installations s"
  "readings (upd_attempt s k f) = readings s"
  "get_device (upd_attempt s k f) = get_device s"
  "get_installation (upd_attempt s k f) = get_installation s"
  by (simp_all add: upd_attempt_def get_device_def get_installation_def fun_eq_iff)

lemma add_attempt_frame [simp, table_simps]:
  "registered_devices (add_attempt s mk) = registered_devices s"
  "sensor_installations (add_attempt s mk) = sensor_installations s"
  "readings (add_attempt s mk) = readings s"
  "get_device (add_attempt s mk) = get_device s"
  "get_installation (add_attempt s mk) = get_installation s"
  by (simp_all add: add_attempt_def get_device_def get_installation_def fun_eq_iff)

section \<open>Firmware history\<close>

definition firmware_tracked :: "string list" where
  "firmware_tracked = [''sensor_package_version'', ''firmware_version'', ''protocol_version'',
     ''configuration_schema_version'', ''build_identifier'', ''git_commit'']"

definition fh_values :: "node_firmware_history \<Rightarrow> json list" where
  "fh_values r = [fh_sensor_package_version r, fh_firmware_version r, fh_protocol_version r,
     fh_configuration_schema_version r, fh_build_identifier r, fh_git_commit r]"

text \<open>Rowids grow with insertion, so the row with the greatest id is the last one.\<close>

definition firmware_latest :: "db \<Rightarrow> string \<Rightarrow> node_firmware_history option" where
  "firmware_latest s node_id =
     find_row (\<lambda>r. fh_node_id r = node_id) (rev (sort_key fh_id (node_firmware_histories s)))"

definition firmware_list :: "db \<Rightarrow> string \<Rightarrow> node_firmware_history list" where
  "firmware_list s node_id =
     rev (sort_key fh_first_seen_at (filter (\<lambda>r. fh_node_id r = node_id) (node_firmware_histories s)))"

definition firmware_insert ::
  "db \<Rightarrow> string \<Rightarrow> json list \<Rightarrow> string \<Rightarrow> time \<Rightarrow> node_firmware_history \<times> db" where
  "firmware_insert s node_id values compatibility_status now =
     (let r = \<lparr>fh_id = next_id fh_id (node_firmware_histories s), fh_node_id = node_id,
           fh_sensor_package_version = values ! 0, fh_firmware_version = values ! 1,
           fh_protocol_version = values ! 2, fh_configuration_schema_version = values ! 3,
           fh_build_identifier = values ! 4, fh_git_commit = values ! 5,
           fh_compatibility_status = compatibility_status,
           fh_first_seen_at = now, fh_last_seen_at = now\<rparr> in
      (r, s\<lparr>node_firmware_histories := node_firmware_histories s @ [r]\<rparr>))"

definition firmware_record ::
  "db \<Rightarrow> string \<Rightarrow> dict \<Rightarrow> string \<Rightarrow> time \<Rightarrow> node_firmware_history \<times> db" where
  "firmware_record s node_id metadata compatibility_status now =
     (let values = map (dget metadata) firmware_tracked in
      case firmware_latest s node_id of
        Some latest \<Rightarrow>
          if fh_values latest = values
          then (let r = latest\<lparr>fh_last_seen_at := now, fh_compatibility_status := compatibility_status\<rparr> in
                (r, s\<lparr>node_firmware_histories :=
                       upd_rows (\<lambda>h. fh_id h = fh_id latest) (\<lambda>_. r) (node_firmware_histories s)\<rparr>))
          else firmware_insert s node_id values compatibility_status now
      | None \<Rightarrow> firmware_insert s node_id values compatibility_status now)"

section \<open>Readings\<close>

text \<open>Rows of one device, newest first; equal instants come in descending rowid order, as the
  reverse scan of the index on device and reception time gives them.\<close>

definition latest_readings :: "db \<Rightarrow> int \<Rightarrow> reading list" where
  "latest_readings s device_pk =
     (let recent = take 512 (sort_key (\<lambda>r. (- rg_received_at r, - rg_id r))
            (filter (\<lambda>r. rg_registered_device_id r = device_pk) (readings s)));
          by_channel = fold (\<lambda>r acc. if \<exists>a \<in> set acc. rg_channel a = rg_channel r then acc else acc @ [r])
            recent []
      in sort_key rg_channel by_channel)"

record history_query =
  hq_offset :: nat
  hq_limit :: nat
  hq_start :: "time option"
  hq_end :: "time option"
  hq_channel :: "string option"
  hq_installation_id :: "string option"
  hq_interface_id :: "string option"
  hq_before :: "(time \<times> int) option"
  hq_include_total :: bool

definition history_filter :: "int \<Rightarrow> history_query \<Rightarrow> reading \<Rightarrow> bool" where
  "history_filter device_pk q r =
     (rg_registered_device_id r = device_pk
      \<and> (case hq_start q of None \<Rightarrow> True | Some a \<Rightarrow> a \<le> rg_received_at r)
      \<and> (case hq_end q of None \<Rightarrow> True | Some b \<Rightarrow> rg_received_at r \<le> b)
      \<and> (case hq_channel q of None \<Rightarrow> True | Some c \<Rightarrow> rg_channel r = c)
      \<and> (case hq_installation_id q of None \<Rightarrow> True | Some c \<Rightarrow> rg_installation_id r = Some c)
      \<and> (case hq_interface_id q of None \<Rightarrow> True | Some c \<Rightarrow> rg_interface_id r = Some c)
      \<and> (case hq_before q of None \<Rightarrow> True
          | Some (t, i) \<Rightarrow> rg_received_at r < t \<or> (rg_received_at r = t \<and> rg_id r < i)))"

definition reading_history :: "db \<Rightarrow> int \<Rightarrow> history_query \<Rightarrow> reading list \<times> nat option" where
  "reading_history s device_pk q =
     (let rows = filter (history_filter device_pk q) (readings s);
          total = (if hq_include_total q then Some (length rows) else None)
      in (take (hq_limit q) (drop (hq_offset q)
            (sort_key (\<lambda>r. (- rg_received_at r, - rg_id r)) rows)), total))"

text \<open>The cursor the API puts after a full page: the position of its last row.\<close>

definition next_cursor :: "reading list \<Rightarrow> nat \<Rightarrow> (time \<times> int) option" where
  "next_cursor items limit =
     (if length items = limit \<and> items \<noteq> []
      then Some (rg_received_at (last items), rg_id (last items)) else None)"

text \<open>A client that follows cursors from the first page, with fuel for the number of pages.\<close>

fun follow_cursors :: "nat \<Rightarrow> db \<Rightarrow> int \<Rightarrow> history_query \<Rightarrow> reading list option" where
  "follow_cursors 0 s device_pk q = None"
| "follow_cursors (Suc fuel) s device_pk q =
     (let page = fst (reading_history s device_pk q) in
      case next_cursor page (hq_limit q) of
        None \<Rightarrow> Some page
      | Some c \<Rightarrow> map_option (\<lambda>rest. page @ rest)
                    (follow_cursors fuel s device_pk (q\<lparr>hq_before := Some c\<rparr>)))"

lemma filter_sort_key: "filter P (sort_key k xs) = sort_key k (filter P xs)"
  by (simp add: filter_sort)

text \<open>In a strictly sorted list, the elements after the \<open>n\<close>-th are those with a greater key.\<close>

lemma drop_eq_filter_greater:
  fixes k :: "'a \<Rightarrow> 'b::linorder"
  assumes "sorted_wrt (\<lambda>a b. k a < k b) xs" and "0 < n" and "n \<le> length xs"
  shows "drop n xs = filter (\<lambda>x. k (xs ! (n - 1)) < k x) xs"
proof -
  let ?p = "\<lambda>x. k (xs ! (n - 1)) < k x"
  have split: "filter ?p xs = filter ?p (take n xs) @ filter ?p (drop n xs)"
    by (metis append_take_drop_id filter_append)
  have before: "\<not> ?p x" if "x \<in> set (take n xs)" for x
  proof -
    from that obtain i where i: "i < n" "i < length xs" "x = xs ! i"
      by (auto simp: in_set_conv_nth)
    show ?thesis
    proof (cases "i = n - 1")
      case True
      with i show ?thesis by simp
    next
      case False
      with i assms have "k (xs ! i) < k (xs ! (n - 1))"
        by (intro sorted_wrt_nth_less[OF assms(1)]) auto
      with i show ?thesis by (simp add: order.asym)
    qed
  qed
  have after: "?p x" if "x \<in> set (drop n xs)" for x
  proof -
    from that obtain j where "j < length xs - n" "x = xs ! (n + j)"
      by (auto simp: in_set_conv_nth)
    with assms show ?thesis
      by (auto intro!: sorted_wrt_nth_less[OF assms(1)])
  qed
  have "filter ?p (take n xs) = []" using before by (simp add: filter_empty_conv)
  moreover have "filter ?p (drop n xs) = drop n xs" using after by simp
  ultimately show ?thesis using split by simp
qed

lemma strict_sorted_history:
  assumes "distinct (map rg_id rows)"
  shows "sorted_wrt (\<lambda>a b. (- rg_received_at a, - rg_id a) < (- rg_received_at b, - rg_id b))
    (sort_key (\<lambda>r. (- rg_received_at r, - rg_id r)) rows)"
proof -
  let ?k = "\<lambda>r. (- rg_received_at r, - rg_id r)"
  have "inj_on ?k (set rows)"
    using assms by (auto simp: inj_on_def distinct_map)
  then have "distinct (map ?k (sort_key ?k rows))"
    using assms by (simp add: distinct_map)
  moreover have "sorted (map ?k (sort_key ?k rows))" by simp
  ultimately have "sorted_wrt (<) (map ?k (sort_key ?k rows))"
    by (simp add: strict_sorted_iff)
  then show ?thesis by (simp add: sorted_wrt_map)
qed

lemma history_filter_before:
  "history_filter pk (q\<lparr>hq_before := Some (t, i)\<rparr>) r \<longleftrightarrow>
     history_filter pk (q\<lparr>hq_before := None\<rparr>) r
     \<and> (- t, - i) < (- rg_received_at r, - rg_id r)"
  by (auto simp: history_filter_def)

definition history_rows :: "db \<Rightarrow> int \<Rightarrow> history_query \<Rightarrow> reading list" where
  "history_rows s pk q =
     sort_key (\<lambda>r. (- rg_received_at r, - rg_id r)) (filter (history_filter pk q) (readings s))"

lemma reading_history_page:
  "hq_offset q = 0 \<Longrightarrow> fst (reading_history s pk q) = take (hq_limit q) (history_rows s pk q)"
  by (simp add: reading_history_def history_rows_def Let_def)

text \<open>Following the cursor of a full page continues exactly after that page.\<close>

lemma history_rows_after_cursor:
  assumes "distinct (map rg_id (readings s))"
    and "0 < n" and "n \<le> length (history_rows s pk q)"
    and "r = history_rows s pk q ! (n - 1)"
  shows "history_rows s pk (q\<lparr>hq_before := Some (rg_received_at r, rg_id r)\<rparr>)
    = drop n (history_rows s pk q)"
proof -
  let ?k = "\<lambda>r. (- rg_received_at r, - rg_id r)"
  let ?rows = "history_rows s pk q"
  have "sorted_wrt (\<lambda>a b. ?k a < ?k b) ?rows"
    unfolding history_rows_def
    by (rule strict_sorted_history) (simp add: assms(1) distinct_map_filter)
  then have "drop n ?rows = filter (\<lambda>x. ?k r < ?k x) ?rows"
    unfolding assms(4) using assms(2,3) by (rule drop_eq_filter_greater)
  moreover have "r \<in> set ?rows" using assms(2,3,4) by simp
  then have in_q: "history_filter pk q r" by (simp add: history_rows_def)
  have "filter (\<lambda>x. ?k r < ?k x) ?rows
      = sort_key ?k (filter (\<lambda>x. history_filter pk q x \<and> ?k r < ?k x) (readings s))"
    by (simp add: history_rows_def filter_sort_key conj_commute)
  moreover have "(history_filter pk q x \<and> ?k r < ?k x) \<longleftrightarrow>
      history_filter pk (q\<lparr>hq_before := Some (rg_received_at r, rg_id r)\<rparr>) x" for x
    using in_q by (auto simp: history_filter_def split: option.splits)
  ultimately show ?thesis by (simp add: history_rows_def)
qed

lemma follow_cursors_rows:
  assumes "distinct (map rg_id (readings s))" and "0 < hq_limit q" and "hq_offset q = 0"
    and "length (history_rows s pk q) < fuel"
  shows "follow_cursors fuel s pk q = Some (history_rows s pk q)"
  using assms
proof (induction fuel arbitrary: q)
  case 0
  then show ?case by simp
next
  case (Suc fuel)
  let ?rows = "history_rows s pk q" and ?n = "hq_limit q"
  have page: "fst (reading_history s pk q) = take ?n ?rows"
    using Suc.prems by (simp add: reading_history_page)
  show ?case
  proof (cases "?n \<le> length ?rows")
    case False
    then show ?thesis by (simp add: page next_cursor_def)
  next
    case True
    define r where "r = ?rows ! (?n - 1)"
    have last: "last (take ?n ?rows) = r"
      unfolding r_def using True Suc.prems(2) by (subst last_conv_nth) (auto simp: min_def)
    let ?q = "q\<lparr>hq_before := Some (rg_received_at r, rg_id r)\<rparr>"
    have rest: "history_rows s pk ?q = drop ?n ?rows"
      using Suc.prems(1,2) True r_def by (rule history_rows_after_cursor)
    have "length (history_rows s pk ?q) < fuel"
      unfolding rest using Suc.prems(2,4) True by auto
    then have "follow_cursors fuel s pk ?q = Some (history_rows s pk ?q)"
      using Suc.prems by (intro Suc.IH) auto
    moreover have "next_cursor (take ?n ?rows) ?n = Some (rg_received_at r, rg_id r)"
      using True Suc.prems(2) last by (auto simp: next_cursor_def)
    ultimately show ?thesis
      by (simp add: page rest Let_def)
  qed
qed

text \<open>C5. Pagination is exact: for any filter and page size, a client that starts without a
  cursor and follows \<open>next_cursor\<close> until a page is not full receives every matching reading
  exactly once, newest first, and stops after at most one page more than there are readings.\<close>

theorem history_pagination_complete:
  assumes "distinct (map rg_id (readings s))" and "0 < hq_limit q" and "hq_offset q = 0"
    and "length (readings s) < fuel"
  shows "\<exists>rows. follow_cursors fuel s pk q = Some rows
    \<and> mset rows = mset (filter (history_filter pk q) (readings s)) \<and> distinct rows
    \<and> sorted (map (\<lambda>r. (- rg_received_at r, - rg_id r)) rows)"
proof (intro exI conjI)
  have "length (history_rows s pk q) \<le> length (readings s)"
    by (simp add: history_rows_def)
  then show "follow_cursors fuel s pk q = Some (history_rows s pk q)"
    using assms by (intro follow_cursors_rows) auto
  show "mset (history_rows s pk q) = mset (filter (history_filter pk q) (readings s))"
    by (simp add: history_rows_def)
  show "distinct (history_rows s pk q)"
    using assms(1) by (simp add: history_rows_def distinct_map)
  show "sorted (map (\<lambda>r. (- rg_received_at r, - rg_id r)) (history_rows s pk q))"
    by (simp add: history_rows_def)
qed


definition sample_reading :: "int \<Rightarrow> time \<Rightarrow> reading" where
  "sample_reading i t =
     \<lparr>rg_id = i, rg_reading_uuid = ''r'', rg_gateway_id = ''gw'', rg_registered_device_id = 1,
      rg_received_at = t, rg_measured_at = None, rg_measured_at_device_uptime = None,
      rg_device_uptime_ms = None, rg_sequence_number = Some i, rg_session_id = ''s'',
      rg_record_type = ''measurement'', rg_channel = ''battery_voltage'', rg_raw_value = None,
      rg_normalized_value = Some (Fin 3), rg_unit = Some ''V'', rg_quality = ''good'',
      rg_payload_json = [], rg_delayed = False, rg_installation_id = None, rg_interface_id = None\<rparr>"

definition sample_query :: "nat \<Rightarrow> history_query" where
  "sample_query n =
     \<lparr>hq_offset = 0, hq_limit = n, hq_start = None, hq_end = None, hq_channel = None,
      hq_installation_id = None, hq_interface_id = None, hq_before = None, hq_include_total = False\<rparr>"

theorem history_pagination_complete_witness:
  "\<exists>rows. follow_cursors 4 (empty_db\<lparr>readings := [sample_reading 1 10, sample_reading 2 30, sample_reading 3 20]\<rparr>)
        1 (sample_query 2) = Some rows \<and> length rows = 3"
proof -
  let ?s = "empty_db\<lparr>readings := [sample_reading 1 10, sample_reading 2 30, sample_reading 3 20]\<rparr>"
  have "\<exists>rows. follow_cursors 4 ?s 1 (sample_query 2) = Some rows
      \<and> mset rows = mset (filter (history_filter 1 (sample_query 2)) (readings ?s)) \<and> distinct rows
      \<and> sorted (map (\<lambda>r. (- rg_received_at r, - rg_id r)) rows)"
    by (rule history_pagination_complete) (simp_all add: sample_reading_def sample_query_def)
  then obtain rows where r: "follow_cursors 4 ?s 1 (sample_query 2) = Some rows"
    and m: "mset rows = mset (filter (history_filter 1 (sample_query 2)) (readings ?s))" by blast
  have "length rows = length (filter (history_filter 1 (sample_query 2)) (readings ?s))"
    using m by (rule mset_eq_length)
  also have "\<dots> = 3" by (simp add: history_filter_def sample_query_def sample_reading_def)
  finally show ?thesis using r by blast
qed

end
