(* ===== verification/Profiles.thy ===== *)
theory Profiles
  imports Repositories
begin

text \<open>
  Declarative sensor profiles: the validated model of \<open>gateway/app/profiles/models.py\<close>, the
  allowlisted conversions of \<open>converters.py\<close> and the catalogue of \<open>registry.py\<close>.
  Conversions are computed in exact arithmetic: the theorems concern which formula, segment or
  point is chosen and that a validated conversion never raises.
  JSON decoding and Pydantic's structural checks are parameters of the registry; the semantic
  rules the source adds to them are modelled here.
\<close>

section \<open>The profile model\<close>

record provenance =
  pv_source :: string
  pv_verified :: bool
  pv_verified_by :: "string option"
  pv_verified_at :: "string option"
  pv_reference :: "string option"

record interface_definition =
  id_type :: string
  id_supported_inputs :: "string list"
  id_supply_voltage :: "real option"
  id_signal_min :: "real option"
  id_signal_max :: "real option"
  id_required_signal_conditioning :: "string option"
  id_wiring_notes :: "string list"
  id_exclusive :: bool

definition opt_ge :: "real option \<Rightarrow> real option \<Rightarrow> bool" where
  "opt_ge a b = (case (a, b) of (Some x, Some y) \<Rightarrow> x \<ge> y | _ \<Rightarrow> False)"

definition valid_signal_range :: "interface_definition \<Rightarrow> unit result" where
  "valid_signal_range i =
     check_all [(opt_ge (id_signal_min i) (id_signal_max i),
                 ValueError ''signal_min must be less than signal_max'')]"

record measurement_channel =
  mc_channel_id :: string
  mc_display_name :: string
  mc_quantity :: "string option"
  mc_raw_data_type :: string
  mc_raw_unit :: string
  mc_engineering_unit :: "string option"
  mc_range_min :: "real option"
  mc_range_max :: "real option"
  mc_value_kind :: string

definition valid_range :: "measurement_channel \<Rightarrow> unit result" where
  "valid_range c =
     check_all [(opt_ge (mc_range_min c) (mc_range_max c),
                 ValueError ''measurement range_min must be less than range_max'')]"

record conversion_definition =
  cd_type :: string
  cd_gain :: "real option"
  cd_offset :: "real option"
  cd_coefficients :: "real list option"
  cd_points :: "(real \<times> real) list option"

fun strictly_increasing :: "real list \<Rightarrow> bool" where
  "strictly_increasing (x # y # zs) = (x < y \<and> strictly_increasing (y # zs))"
| "strictly_increasing _ = True"

definition opt_list :: "'a list option \<Rightarrow> 'a list" where
  "opt_list xs = (case xs of None \<Rightarrow> [] | Some l \<Rightarrow> l)"

definition validate_parameters :: "conversion_definition \<Rightarrow> unit result" where
  "validate_parameters c =
     check_all
      [(cd_type c = ''linear'' \<and> (cd_gain c = None \<or> cd_offset c = None),
        ValueError ''linear conversion requires gain and offset''),
       (cd_type c = ''polynomial'' \<and>
          (opt_list (cd_coefficients c) = [] \<or> length (opt_list (cd_coefficients c)) > 6),
        ValueError ''polynomial conversion requires one to six coefficients''),
       (cd_type c \<in> {''piecewise_linear'', ''lookup_table''} \<and> length (opt_list (cd_points c)) < 2,
        ValueError (cd_type c @ '' conversion requires at least two points'')),
       (cd_type c \<in> {''piecewise_linear'', ''lookup_table''} \<and>
          \<not> strictly_increasing (map fst (opt_list (cd_points c))),
        ValueError ''conversion point inputs must be strictly increasing''),
       (cd_type c \<in> {''unconfigured'', ''identity''} \<and>
          (cd_gain c \<noteq> None \<or> cd_offset c \<noteq> None \<or> cd_coefficients c \<noteq> None \<or> cd_points c \<noteq> None),
        ValueError (cd_type c @ '' conversion does not accept parameters''))]"

record sampling_definition =
  sd_minimum_interval_ms :: "int option"
  sd_default_interval_ms :: "int option"
  sd_maximum_interval_ms :: "int option"

definition sampling_ordered :: "sampling_definition \<Rightarrow> unit result" where
  "sampling_ordered d =
     check_all [(case (sd_minimum_interval_ms d, sd_default_interval_ms d, sd_maximum_interval_ms d) of
         (Some a, Some b, Some c) \<Rightarrow> \<not> (a \<le> b \<and> b \<le> c)
       | _ \<Rightarrow> False,
       ValueError ''sampling intervals must be ordered minimum <= default <= maximum'')]"

record filter_definition =
  fd_supported :: "string list"
  fd_default :: string
  fd_maximum_window :: int

definition default_supported :: "filter_definition \<Rightarrow> unit result" where
  "default_supported f =
     check_all [(fd_default f \<notin> set (fd_supported f), ValueError ''default filter must be supported'')]"

record alarm_definition =
  ad_supported :: bool
  ad_defaults_enabled :: bool
  ad_warning_low :: "real option"
  ad_warning_high :: "real option"
  ad_alarm_low :: "real option"
  ad_alarm_high :: "real option"

definition safe_defaults :: "alarm_definition \<Rightarrow> unit result" where
  "safe_defaults a =
     (let values = [ad_warning_low a, ad_warning_high a, ad_alarm_low a, ad_alarm_high a] in
      check_all
       [(ad_defaults_enabled a \<and> (\<not> ad_supported a \<or> list_all (\<lambda>v. v = None) values),
         ValueError ''enabled alarm defaults require supported, documented threshold values''),
        (\<not> ad_defaults_enabled a \<and> list_ex (\<lambda>v. v \<noteq> None) values,
         ValueError ''threshold values require defaults_enabled=true'')])"

record firmware_requirement =
  fr_minimum_version :: "string option"
  fr_required_capabilities :: "string list"

record sensor_profile =
  sp_schema_version :: int
  sp_profile_id :: string
  sp_profile_version :: string
  sp_manufacturer :: string
  sp_model :: string
  sp_display_name :: string
  sp_description :: string
  sp_category :: string
  sp_datasheet_reference :: "string option"
  sp_status :: string
  sp_interface :: interface_definition
  sp_measurement_channels :: "measurement_channel list"
  sp_conversion :: conversion_definition
  sp_sampling :: sampling_definition
  sp_filter :: filter_definition
  sp_alarms :: alarm_definition
  sp_firmware :: firmware_requirement
  sp_provenance :: provenance
  sp_deprecated_by :: "string option"

definition semantic_rules :: "sensor_profile \<Rightarrow> unit result" where
  "semantic_rules p =
     (let channel_ids = map mc_channel_id (sp_measurement_channels p);
          calibrated = cd_type (sp_conversion p) \<notin> {''unconfigured'', ''identity''} in
      check_all
       [(\<not> distinct channel_ids, ValueError ''measurement channel IDs must be unique''),
        (calibrated \<and> list_ex (\<lambda>c. mc_engineering_unit c = None) (sp_measurement_channels p),
         ValueError ''configured conversion requires engineering units on every measurement channel''),
        (sp_status p = ''verified'' \<and>
           (\<not> pv_verified (sp_provenance p) \<or> \<not> truthy (pv_verified_by (sp_provenance p))
            \<or> \<not> truthy (pv_reference (sp_provenance p))),
         ValueError ''verified profiles require verified provenance, verifier, and reference''),
        (sp_status p = ''deprecated'' \<and> \<not> truthy (sp_deprecated_by p),
         ValueError ''deprecated profiles require deprecated_by'')])"

definition catalog_key :: "sensor_profile \<Rightarrow> string \<times> string" where
  "catalog_key p = (sp_profile_id p, sp_profile_version p)"

text \<open>The nested validators run while the nested models are built, before the profile's own.\<close>

definition profile_validators :: "sensor_profile \<Rightarrow> unit result" where
  "profile_validators p =
     bind_result (valid_signal_range (sp_interface p)) (\<lambda>_.
     bind_result (map_result valid_range (sp_measurement_channels p)) (\<lambda>_.
     bind_result (validate_parameters (sp_conversion p)) (\<lambda>_.
     bind_result (sampling_ordered (sp_sampling p)) (\<lambda>_.
     bind_result (default_supported (sp_filter p)) (\<lambda>_.
     bind_result (safe_defaults (sp_alarms p)) (\<lambda>_.
     semantic_rules p))))))"

lemma strictly_increasing_sorted_wrt: "strictly_increasing xs \<longleftrightarrow> sorted_wrt (<) xs"
proof (induction xs rule: strictly_increasing.induct)
  case (1 x y zs)
  then show ?case by (auto intro: less_trans)
qed auto

section \<open>Conversions\<close>

text \<open>\<open>bisect.bisect_right\<close>: binary search for the insertion point after equal elements.\<close>

function bisect_loop :: "real list \<Rightarrow> real \<Rightarrow> nat \<Rightarrow> nat \<Rightarrow> nat" where
  "bisect_loop xs v lo hi =
     (if lo < hi then
        (let mid = (lo + hi) div 2 in
         if v < xs ! mid then bisect_loop xs v lo mid else bisect_loop xs v (mid + 1) hi)
      else lo)"
  by pat_completeness auto
termination
  by (relation "measure (\<lambda>(xs, v, lo, hi). hi - lo)") auto

declare bisect_loop.simps [simp del]

definition bisect_right :: "real list \<Rightarrow> real \<Rightarrow> nat" where
  "bisect_right xs v = bisect_loop xs v 0 (length xs)"

text \<open>\<open>min(points, key=f)\<close>: the first point with the least key.\<close>

fun min_by :: "('a \<Rightarrow> real) \<Rightarrow> 'a \<Rightarrow> 'a list \<Rightarrow> 'a" where
  "min_by f b [] = b"
| "min_by f b (x # xs) = min_by f (if f x < f b then x else b) xs"

definition polynomial_value :: "real list \<Rightarrow> real \<Rightarrow> real" where
  "polynomial_value cs v = (\<Sum>(d, c) \<leftarrow> enumerate 0 cs. c * v ^ d)"

definition convert_value :: "real \<Rightarrow> conversion_definition \<Rightarrow> real option result" where
  "convert_value v c =
     (if cd_type c = ''unconfigured'' then Inr None
      else if cd_type c = ''identity'' then Inr (Some v)
      else if cd_type c = ''linear'' then
        (case (cd_gain c, cd_offset c) of
           (Some g, Some b) \<Rightarrow> Inr (Some (v * g + b))
         | _ \<Rightarrow> Inl (TypeError ''unsupported operand type''))
      else if cd_type c = ''polynomial'' then
        (case cd_coefficients c of
           Some cs \<Rightarrow> Inr (Some (polynomial_value cs v))
         | None \<Rightarrow> Inl (TypeError ''object is not iterable''))
      else if cd_type c \<in> {''piecewise_linear'', ''lookup_table''} then
        (case cd_points c of
           None \<Rightarrow> Inl (TypeError ''object is not iterable'')
         | Some points \<Rightarrow>
             let index = nat (max 0 (min (int (bisect_right (map fst points) v) - 1) (int (length points) - 2))) in
             if length points \<le> index + 1 then Inl (IndexError ''list index out of range'')
             else
               let left = points ! index; right = points ! (index + 1) in
               if cd_type c = ''lookup_table''
               then Inr (Some (snd (min_by (\<lambda>p. \<bar>fst p - v\<bar>) (hd points) (tl points))))
               else if fst right = fst left then Inl (ValueError ''float division by zero'')
               else
                 let fraction = (v - fst left) / (fst right - fst left)
                 in Inr (Some (snd left + fraction * (snd right - snd left))))
      else Inl (ConversionError ''unsupported allowlisted conversion''))"

lemma bisect_loop_spec:
  assumes "sorted xs" and "lo \<le> hi" and "hi \<le> length xs"
    and "\<forall>i < lo. xs ! i \<le> v" and "\<forall>i. hi \<le> i \<longrightarrow> i < length xs \<longrightarrow> v < xs ! i"
  shows "lo \<le> bisect_loop xs v lo hi \<and> bisect_loop xs v lo hi \<le> hi
    \<and> (\<forall>i < bisect_loop xs v lo hi. xs ! i \<le> v)
    \<and> (\<forall>i. bisect_loop xs v lo hi \<le> i \<longrightarrow> i < length xs \<longrightarrow> v < xs ! i)"
  using assms
proof (induction xs v lo hi rule: bisect_loop.induct)
  case (1 xs v lo hi)
  let ?mid = "(lo + hi) div 2"
  show ?case
  proof (cases "lo < hi")
    case False
    then have "bisect_loop xs v lo hi = lo" by (subst bisect_loop.simps) simp
    with "1.prems" False show ?thesis by simp
  next
    case True
    then have mid: "lo \<le> ?mid" "?mid < hi" by auto
    show ?thesis
    proof (cases "v < xs ! ?mid")
      case less: True
      then have eq: "bisect_loop xs v lo hi = bisect_loop xs v lo ?mid"
        using True by (subst bisect_loop.simps) (simp add: Let_def)
      have above: "\<forall>i. ?mid \<le> i \<longrightarrow> i < length xs \<longrightarrow> v < xs ! i"
        using less "1.prems"(1) sorted_nth_mono[of xs ?mid] by fastforce
      show ?thesis
        using "1.IH"(1)[OF True refl less "1.prems"(1) mid(1) _ "1.prems"(4) above] mid "1.prems"(3)
        unfolding eq by auto
    next
      case ge: False
      then have eq: "bisect_loop xs v lo hi = bisect_loop xs v (?mid + 1) hi"
        using True by (subst bisect_loop.simps) (simp add: Let_def)
      have below: "\<forall>i < ?mid + 1. xs ! i \<le> v"
      proof (intro allI impI)
        fix i assume "i < ?mid + 1"
        then have "xs ! i \<le> xs ! ?mid"
          using mid "1.prems"(1,3) by (intro sorted_nth_mono) auto
        with ge show "xs ! i \<le> v" by simp
      qed
      show ?thesis
        using "1.IH"(2)[OF True refl ge "1.prems"(1) _ "1.prems"(3) below "1.prems"(5)] mid
        unfolding eq by auto
    qed
  qed
qed

lemma bisect_right_spec:
  assumes "sorted xs"
  shows "bisect_right xs v \<le> length xs"
    and "i < bisect_right xs v \<Longrightarrow> xs ! i \<le> v"
    and "bisect_right xs v \<le> i \<Longrightarrow> i < length xs \<Longrightarrow> v < xs ! i"
  using bisect_loop_spec[OF assms, of 0 "length xs" v] by (auto simp: bisect_right_def)

lemma min_by_in: "min_by f b xs \<in> set (b # xs)"
proof (induction xs arbitrary: b)
  case Nil
  then show ?case by simp
next
  case (Cons y ys)
  from Cons.IH[of "if f y < f b then y else b"] show ?case by (auto split: if_splits)
qed

lemma min_by_le: "x \<in> set (b # xs) \<Longrightarrow> f (min_by f b xs) \<le> f x"
proof (induction xs arbitrary: b x)
  case Nil
  then show ?case by simp
next
  case (Cons y ys)
  let ?b = "if f y < f b then y else b"
  have "f (min_by f ?b ys) \<le> f ?b" by (rule Cons.IH) simp
  moreover have "f ?b \<le> f y" "f ?b \<le> f b" by auto
  moreover have "x \<in> set ys \<Longrightarrow> f (min_by f ?b ys) \<le> f x" by (rule Cons.IH) simp
  ultimately show ?case using Cons.prems by auto
qed

text \<open>The segment the code selects: its left input is at most the value unless the value lies
  below all points, and its right input is above it unless the value lies at or beyond the last.\<close>

definition segment_index :: "(real \<times> real) list \<Rightarrow> real \<Rightarrow> nat" where
  "segment_index points v =
     nat (max 0 (min (int (bisect_right (map fst points) v) - 1) (int (length points) - 2)))"

lemma segment_index_less: "2 \<le> length points \<Longrightarrow> segment_index points v + 1 < length points"
  by (auto simp: segment_index_def)

lemma segment_index_at_point:
  assumes "strictly_increasing (map fst points)" and "2 \<le> length points" and "i < length points"
  shows "segment_index points (fst (points ! i)) = (if i = length points - 1 then i - 1 else i)"
proof -
  let ?xs = "map fst points" and ?v = "fst (points ! i)"
  have strict: "sorted_wrt (<) ?xs" using assms(1) by (simp add: strictly_increasing_sorted_wrt)
  then have sorted: "sorted ?xs" by (simp add: strict_sorted_iff)
  have "bisect_right ?xs ?v = i + 1"
  proof (rule antisym)
    show "bisect_right ?xs ?v \<le> i + 1"
    proof (rule ccontr)
      assume a: "\<not> bisect_right ?xs ?v \<le> i + 1"
      then have "?xs ! (i + 1) \<le> ?v" by (intro bisect_right_spec(2)[OF sorted]) simp
      moreover have "i + 1 < length points" using a bisect_right_spec(1)[OF sorted, of ?v] by simp
      then have "?xs ! i < ?xs ! (i + 1)" by (intro sorted_wrt_nth_less[OF strict]) auto
      ultimately show False using assms(3) \<open>i + 1 < length points\<close> by simp
    qed
    show "i + 1 \<le> bisect_right ?xs ?v"
    proof (rule ccontr)
      assume "\<not> i + 1 \<le> bisect_right ?xs ?v"
      then have "?v < ?xs ! i" using assms(3) by (intro bisect_right_spec(3)[OF sorted]) auto
      then show False using assms(3) by simp
    qed
  qed
  with assms(2,3) show ?thesis by (auto simp: segment_index_def)
qed

lemma points_inputs_differ:
  assumes "strictly_increasing (map fst points)" and "i < j" and "j < length points"
  shows "fst (points ! i) < fst (points ! j)"
  using sorted_wrt_nth_less[of "(<)" "map fst points" i j] assms
  by (simp add: strictly_increasing_sorted_wrt)

lemma convert_piecewise:
  assumes "cd_type c = ''piecewise_linear''" and "cd_points c = Some points"
    and "validate_parameters c = Inr ()"
  shows "convert_value v c = Inr (Some (
      let l = points ! segment_index points v; r = points ! (segment_index points v + 1)
      in snd l + (v - fst l) / (fst r - fst l) * (snd r - snd l)))"
proof -
  have ok: "2 \<le> length points" "strictly_increasing (map fst points)"
    using assms by (auto simp: validate_parameters_def check_all_ok_iff opt_list_def split: if_splits)
  have less: "segment_index points v + 1 < length points"
    using ok(1) by (rule segment_index_less)
  moreover have "fst (points ! segment_index points v) < fst (points ! (segment_index points v + 1))"
    using less by (intro points_inputs_differ[OF ok(2)]) auto
  ultimately show ?thesis
    using assms(1,2) by (simp add: convert_value_def segment_index_def [symmetric] Let_def)
qed

text \<open>A validated conversion never raises, whatever the value: the model validator is strong
  enough for every branch of \<open>convert_value\<close> (no missing parameter, no index out of range, no
  division by zero), and only an unconfigured conversion gives no value.\<close>

theorem validated_conversion_total:
  assumes "validate_parameters c = Inr ()"
    and "cd_type c \<in> {''unconfigured'', ''identity'', ''linear'', ''piecewise_linear'',
                       ''polynomial'', ''lookup_table''}"
  shows "\<exists>r. convert_value v c = Inr r \<and> (r = None \<longleftrightarrow> cd_type c = ''unconfigured'')"
proof -
  consider "cd_type c = ''piecewise_linear''" | "cd_type c = ''lookup_table''"
    | "cd_type c \<in> {''unconfigured'', ''identity'', ''linear'', ''polynomial''}"
    using assms(2) by auto
  then show ?thesis
  proof cases
    case 1
    then obtain points where "cd_points c = Some points"
      using assms(1) by (cases "cd_points c")
        (auto simp: validate_parameters_def check_all_ok_iff opt_list_def split: if_splits)
    with 1 assms(1) show ?thesis by (simp add: convert_piecewise)
  next
    case 2
    then obtain points where p: "cd_points c = Some points" "2 \<le> length points"
      using assms(1) by (cases "cd_points c")
        (auto simp: validate_parameters_def check_all_ok_iff opt_list_def split: if_splits)
    have "segment_index points v + 1 < length points" using p(2) by (rule segment_index_less)
    with 2 p show ?thesis
      by (simp add: convert_value_def segment_index_def [symmetric] Let_def)
  next
    case 3
    then show ?thesis
      using assms(1)
      by (auto simp: convert_value_def validate_parameters_def opt_list_def
          split: if_splits option.splits)
  qed
qed

text \<open>A validated piecewise-linear conversion interpolates: at every calibration input it
  returns exactly the calibration output, the last point included.\<close>

theorem piecewise_linear_interpolates:
  assumes "cd_type c = ''piecewise_linear''" and "cd_points c = Some points"
    and "validate_parameters c = Inr ()" and "i < length points"
  shows "convert_value (fst (points ! i)) c = Inr (Some (snd (points ! i)))"
proof -
  have ok: "2 \<le> length points" "strictly_increasing (map fst points)"
    using assms by (auto simp: validate_parameters_def check_all_ok_iff opt_list_def split: if_splits)
  show ?thesis
  proof (cases "i = length points - 1")
    case True
    then have idx: "segment_index points (fst (points ! i)) = i - 1" and pos: "0 < i"
      using segment_index_at_point[OF ok(2,1) assms(4)] ok(1) by simp_all
    have "fst (points ! (i - 1)) < fst (points ! i)"
      using pos assms(4) by (intro points_inputs_differ[OF ok(2)]) auto
    with pos show ?thesis
      by (simp add: convert_piecewise[OF assms(1-3)] idx Let_def)
  next
    case False
    then have "segment_index points (fst (points ! i)) = i"
      using segment_index_at_point[OF ok(2,1) assms(4)] by simp
    then show ?thesis
      by (simp add: convert_piecewise[OF assms(1-3)] Let_def)
  qed
qed

text \<open>A validated lookup table returns the output of a nearest calibration input.\<close>

theorem lookup_table_nearest:
  assumes "cd_type c = ''lookup_table''" and "cd_points c = Some points"
    and "validate_parameters c = Inr ()"
  shows "\<exists>p \<in> set points. convert_value v c = Inr (Some (snd p))
    \<and> (\<forall>q \<in> set points. \<bar>fst p - v\<bar> \<le> \<bar>fst q - v\<bar>)"
proof -
  let ?p = "min_by (\<lambda>p. \<bar>fst p - v\<bar>) (hd points) (tl points)"
  have len: "2 \<le> length points"
    using assms by (auto simp: validate_parameters_def check_all_ok_iff opt_list_def split: if_splits)
  then have pts: "hd points # tl points = points" by (cases points) auto
  have "segment_index points v + 1 < length points" using len by (rule segment_index_less)
  then have "convert_value v c = Inr (Some (snd ?p))"
    using assms(1,2) by (simp add: convert_value_def segment_index_def [symmetric] Let_def)
  moreover have "?p \<in> set points"
    using min_by_in[of "\<lambda>p. \<bar>fst p - v\<bar>" "hd points" "tl points"] by (simp only: pts)
  moreover have "\<bar>fst ?p - v\<bar> \<le> \<bar>fst q - v\<bar>" if "q \<in> set points" for q
    using min_by_le[of q "hd points" "tl points" "\<lambda>p. \<bar>fst p - v\<bar>"] that by (simp only: pts)
  ultimately show ?thesis by blast
qed


definition sample_conversion :: "string \<Rightarrow> conversion_definition" where
  "sample_conversion t = \<lparr>cd_type = t, cd_gain = None, cd_offset = None, cd_coefficients = None,
     cd_points = Some [(0, 10), (1, 20), (4, 50)]\<rparr>"

lemma sample_conversion_valid:
  "t \<in> {''piecewise_linear'', ''lookup_table''} \<Longrightarrow> validate_parameters (sample_conversion t) = Inr ()"
  by (auto simp: sample_conversion_def validate_parameters_def opt_list_def)

theorem validated_conversion_total_witness:
  "\<exists>r. convert_value 7 (sample_conversion ''piecewise_linear'') = Inr r \<and> r \<noteq> None"
  using validated_conversion_total[OF sample_conversion_valid, of "''piecewise_linear''" 7]
  by (simp add: sample_conversion_def)

theorem piecewise_linear_interpolates_witness:
  "convert_value 4 (sample_conversion ''piecewise_linear'') = Inr (Some 50)"
  using piecewise_linear_interpolates[OF _ _ sample_conversion_valid,
      of "''piecewise_linear''" "[(0, 10), (1, 20), (4, 50)]" 2]
  by (simp add: sample_conversion_def)

theorem lookup_table_nearest_witness:
  "\<exists>p \<in> set [(0, 10), (1, 20), (4, 50)]. convert_value 3 (sample_conversion ''lookup_table'') = Inr (Some (snd p))
     \<and> \<bar>fst p - 3\<bar> \<le> (1 :: real)"
proof -
  have "\<exists>p \<in> set [(0, 10), (1, 20), (4, 50)]. convert_value 3 (sample_conversion ''lookup_table'') = Inr (Some (snd p))
     \<and> (\<forall>q \<in> set [(0, 10 :: real), (1, 20), (4, 50)]. \<bar>fst p - 3\<bar> \<le> \<bar>fst q - (3 :: real)\<bar>)"
    by (rule lookup_table_nearest[OF _ _ sample_conversion_valid]) (simp_all add: sample_conversion_def)
  then show ?thesis by fastforce
qed

text \<open>The bundled microphone profile (descriptive texts abridged), used by the examples of the
  later theories.\<close>

definition microphone_profile :: "string \<Rightarrow> sensor_profile" where
  "microphone_profile version =
     \<lparr>sp_schema_version = 1, sp_profile_id = ''seeed.xiao_mg24_sense.microphone'',
      sp_profile_version = version, sp_manufacturer = ''Seeed Studio'',
      sp_model = ''XIAO MG24 Sense built-in microphone'', sp_display_name = ''Built-in microphone'',
      sp_description = '''', sp_category = ''sound_level'', sp_datasheet_reference = None,
      sp_status = ''verified'',
      sp_interface = \<lparr>id_type = ''built_in'', id_supported_inputs = [''built_in_microphone''],
        id_supply_voltage = None, id_signal_min = None, id_signal_max = None,
        id_required_signal_conditioning = None, id_wiring_notes = [], id_exclusive = True\<rparr>,
      sp_measurement_channels = [],
      sp_conversion = \<lparr>cd_type = ''identity'', cd_gain = None, cd_offset = None,
        cd_coefficients = None, cd_points = None\<rparr>,
      sp_sampling = \<lparr>sd_minimum_interval_ms = Some 50, sd_default_interval_ms = Some 100,
        sd_maximum_interval_ms = Some 5000\<rparr>,
      sp_filter = \<lparr>fd_supported = [''none'', ''ema'', ''moving_average'', ''median''],
        fd_default = ''ema'', fd_maximum_window = 9\<rparr>,
      sp_alarms = \<lparr>ad_supported = True, ad_defaults_enabled = False, ad_warning_low = None,
        ad_warning_high = None, ad_alarm_low = None, ad_alarm_high = None\<rparr>,
      sp_firmware = \<lparr>fr_minimum_version = None, fr_required_capabilities = [''built_in_microphone'']\<rparr>,
      sp_provenance = \<lparr>pv_source = ''seed_mg24 repository firmware'', pv_verified = True,
        pv_verified_by = Some ''repository implementation'', pv_verified_at = None,
        pv_reference = Some ''xiao_mg24_sensor_node.ino''\<rparr>,
      sp_deprecated_by = None\<rparr>"

lemma microphone_profile_valid: "profile_validators (microphone_profile v) = Inr ()"
  by (simp add: profile_validators_def microphone_profile_def valid_signal_range_def opt_ge_def
      validate_parameters_def sampling_ordered_def default_supported_def safe_defaults_def
      semantic_rules_def opt_list_def)

end
