(* ===== verification/Profile_Registry.thy ===== *)
theory Profile_Registry
  imports Profiles
begin

text \<open>
  The profile catalogue of \<open>gateway/app/profiles/registry.py\<close>. A directory is an association
  list from file names to contents (\<open>None\<close>: the file cannot be read), a missing directory is
  empty. \<open>loads\<close> (UTF-8 and JSON decoding, \<open>None\<close> when it fails) and \<open>build\<close> (Pydantic's
  structural checks of the decoded object) are parameters, and so is \<open>casefold\<close>; the schema
  migration, the semantic validators, the load order, duplicate handling, lookup and import are
  the source's.
\<close>

type_synonym bytes = string
type_synonym files = "(string \<times> bytes option) list"
type_synonym catalog = "((string \<times> string) \<times> sensor_profile) list"

record profile_load_error =
  ple_path :: string
  ple_error :: string

record profile_registry =
  pr_directory :: files
  pr_bundled_directory :: "files option"
  pr_max_upload_bytes :: nat
  pr_profiles :: catalog
  pr_errors :: "profile_load_error list"

section \<open>Parsing\<close>

definition migrate_schema :: "json \<Rightarrow> dict result" where
  "migrate_schema value =
     (case value of
        JObj d \<Rightarrow>
          if json_eq_int (dget d ''schema_version'') 1 then Inr d
          else Inl (ValueError ''unsupported profile schema version'')
      | _ \<Rightarrow> Inl (ValueError ''profile root must be an object''))"

text \<open>\<open>SensorProfile.model_validate\<close>: an error of a validator surfaces as \<open>ValidationError\<close>.\<close>

definition model_validate :: "(dict \<Rightarrow> sensor_profile result) \<Rightarrow> dict \<Rightarrow> sensor_profile result" where
  "model_validate build d =
     (case build d of
        Inl e \<Rightarrow> Inl (ValidationError (exn_str e))
      | Inr p \<Rightarrow> (case profile_validators p of
                   Inl e \<Rightarrow> Inl (ValidationError (exn_str e)) | Inr _ \<Rightarrow> Inr p))"

definition parse_profile ::
  "(bytes \<Rightarrow> json option) \<Rightarrow> (dict \<Rightarrow> sensor_profile result) \<Rightarrow> bytes \<Rightarrow> sensor_profile result" where
  "parse_profile loads build data =
     (case loads data of
        None \<Rightarrow> Inl (ValueError ''profile must be UTF-8 JSON data'')
      | Some value \<Rightarrow> bind_result (migrate_schema value) (model_validate build))"

section \<open>Loading\<close>

definition has_json_suffix :: "string \<Rightarrow> bool" where
  "has_json_suffix name = (length name \<ge> 5 \<and> drop (length name - 5) name = ''.json'')"

text \<open>\<open>sorted(root.glob("*.json"))\<close>.\<close>

definition json_files :: "files \<Rightarrow> files" where
  "json_files dir = sort_key fst (filter (\<lambda>f. has_json_suffix (fst f)) dir)"

text \<open>The body of the \<open>try\<close> block up to the parsed profile.\<close>

definition read_profile ::
  "(bytes \<Rightarrow> sensor_profile result) \<Rightarrow> nat \<Rightarrow> bytes option \<Rightarrow> sensor_profile result" where
  "read_profile parse max_upload_bytes content =
     (case content of
        None \<Rightarrow> Inl (OSError ''file cannot be read'')
      | Some data \<Rightarrow>
          if length data > max_upload_bytes
          then Inl (ValueError ''profile file exceeds configured maximum'')
          else parse data)"

definition load_file ::
  "(bytes \<Rightarrow> sensor_profile result) \<Rightarrow> nat \<Rightarrow> string \<times> bytes option
     \<Rightarrow> catalog \<times> profile_load_error list \<Rightarrow> catalog \<times> profile_load_error list" where
  "load_file parse max_upload_bytes f acc =
     (let (loaded, errors) = acc; (path, content) = f;
          failed = (\<lambda>e. (loaded, errors @ [\<lparr>ple_path = path, ple_error = take 1000 (exn_str e)\<rparr>])) in
      case read_profile parse max_upload_bytes content of
        Inl e \<Rightarrow> failed e
      | Inr profile \<Rightarrow>
          if map_of loaded (catalog_key profile) \<noteq> None
          then failed (DuplicateProfileError ''duplicate profile ID and version'')
          else (loaded @ [(catalog_key profile, profile)], errors))"

definition registry_files :: "profile_registry \<Rightarrow> files" where
  "registry_files r =
     (case pr_bundled_directory r of None \<Rightarrow> [] | Some dir \<Rightarrow> json_files dir) @ json_files (pr_directory r)"

definition reload :: "(bytes \<Rightarrow> sensor_profile result) \<Rightarrow> profile_registry \<Rightarrow> profile_registry" where
  "reload parse r =
     (let (loaded, errors) = fold (load_file parse (pr_max_upload_bytes r)) (registry_files r) ([], [])
      in r\<lparr>pr_profiles := loaded, pr_errors := errors\<rparr>)"

section \<open>Lookup and listing\<close>

text \<open>\<open>int(part)\<close> of a decimal text.\<close>

definition parse_nat :: "string \<Rightarrow> nat result" where
  "parse_nat s =
     (if s \<noteq> [] \<and> list_all is_digit s
      then Inr (fold (\<lambda>c n. 10 * n + (of_char c - 48)) s 0)
      else Inl (ValueError ''invalid literal for int()''))"

definition version_tuple :: "string \<Rightarrow> nat list result" where
  "version_tuple v = map_result parse_nat (split_on (CHR ''.'') v)"

text \<open>\<open>sorted(xs, key=k, reverse=True)\<close>: descending and stable.\<close>

definition sorted_reverse :: "('a \<Rightarrow> 'k::linorder) \<Rightarrow> 'a list \<Rightarrow> 'a list" where
  "sorted_reverse k xs = rev (sort_key k (rev xs))"

definition registry_get ::
  "profile_registry \<Rightarrow> string \<Rightarrow> string option \<Rightarrow> sensor_profile option result" where
  "registry_get r profile_id version =
     (let matches = map snd (filter (\<lambda>e. fst (fst e) = profile_id) (pr_profiles r)) in
      case version of
        Some v \<Rightarrow> Inr (map_of (pr_profiles r) (profile_id, v))
      | None \<Rightarrow>
          if matches = [] then Inr None
          else (case map_result (\<lambda>p. version_tuple (sp_profile_version p)) matches of
                  Inl e \<Rightarrow> Inl e
                | Inr keys \<Rightarrow> Inr (Some (snd (hd (sorted_reverse fst (zip keys matches)))))))"

definition registry_list ::
  "(string \<Rightarrow> string) \<Rightarrow> profile_registry \<Rightarrow> string option \<Rightarrow> string option \<Rightarrow> string option
     \<Rightarrow> string option \<Rightarrow> bool \<Rightarrow> sensor_profile list" where
  "registry_list casefold r manufacturer model category interface_type include_disabled =
     sort_key (\<lambda>p. (casefold (sp_manufacturer p), casefold (sp_model p), sp_profile_version p))
       (filter (\<lambda>p.
            (include_disabled \<or> sp_status p \<noteq> ''disabled'')
          \<and> (\<not> truthy manufacturer \<or> contains_sub (casefold (the manufacturer)) (casefold (sp_manufacturer p)))
          \<and> (\<not> truthy model \<or> contains_sub (casefold (the model)) (casefold (sp_model p)))
          \<and> (\<not> truthy category \<or> casefold (the category) = casefold (sp_category p))
          \<and> (\<not> truthy interface_type \<or> the interface_type = id_type (sp_interface p)))
        (map snd (pr_profiles r)))"

section \<open>Import\<close>

definition import_filename :: "sensor_profile \<Rightarrow> string" where
  "import_filename p = sp_profile_id p @ ''-'' @ sp_profile_version p @ ''.json''"

definition import_profile ::
  "(bytes \<Rightarrow> sensor_profile result) \<Rightarrow> profile_registry \<Rightarrow> bytes
     \<Rightarrow> sensor_profile result \<times> profile_registry" where
  "import_profile parse r data =
     (if length data > pr_max_upload_bytes r
      then (Inl (ValueError ''profile upload exceeds configured maximum''), r)
      else case parse data of
        Inl e \<Rightarrow> (Inl e, r)
      | Inr profile \<Rightarrow>
          if map_of (pr_profiles r) (catalog_key profile) \<noteq> None
          then (Inl (DuplicateProfileError ''profile ID and version already exist''), r)
          else if map_of (pr_directory r) (import_filename profile) \<noteq> None
          then (Inl (DuplicateProfileError ''profile file already exists''), r)
          else (Inr profile,
                reload parse (r\<lparr>pr_directory := pr_directory r @ [(import_filename profile, Some data)]\<rparr>)))"


section \<open>What a load yields\<close>

text \<open>The key of the profile a file offers, if it can be read, is small enough and parses; and
  the first profile a list of files offers for a key.\<close>

definition file_key :: "(bytes \<Rightarrow> sensor_profile result) \<Rightarrow> nat \<Rightarrow> string \<times> bytes option \<Rightarrow> (string \<times> string) option" where
  "file_key parse n f = (case read_profile parse n (snd f) of Inl _ \<Rightarrow> None | Inr p \<Rightarrow> Some (catalog_key p))"

definition first_offer :: "(bytes \<Rightarrow> sensor_profile result) \<Rightarrow> nat \<Rightarrow> files \<Rightarrow> string \<times> string \<Rightarrow> sensor_profile option" where
  "first_offer parse n fs k =
     (case find (\<lambda>f. file_key parse n f = Some k) fs of
        None \<Rightarrow> None
      | Some f \<Rightarrow> (case read_profile parse n (snd f) of Inl _ \<Rightarrow> None | Inr p \<Rightarrow> Some p))"

lemma map_of_append_new:
  "map_of loaded k = None \<Longrightarrow> map_of (loaded @ [(k, v)]) = (map_of loaded)(k \<mapsto> v)"
  by (auto simp: map_add_def fun_eq_iff split: option.split)

text \<open>One file, by the outcome of reading it.\<close>

lemma load_file_cases:
  "read_profile parse n content = Inl e \<Longrightarrow>
     load_file parse n (path, content) (loaded, errors)
     = (loaded, errors @ [\<lparr>ple_path = path, ple_error = take 1000 (exn_str e)\<rparr>])"
  "read_profile parse n content = Inr p \<Longrightarrow> map_of loaded (catalog_key p) = Some q \<Longrightarrow>
     load_file parse n (path, content) (loaded, errors)
     = (loaded, errors @ [\<lparr>ple_path = path, ple_error = take 1000 ''duplicate profile ID and version''\<rparr>])"
  "read_profile parse n content = Inr p \<Longrightarrow> map_of loaded (catalog_key p) = None \<Longrightarrow>
     load_file parse n (path, content) (loaded, errors) = (loaded @ [(catalog_key p, p)], errors)"
  by (simp_all add: load_file_def Let_def)

lemma load_fold_lookup:
  "map_of (fst (fold (load_file parse n) fs (loaded, errors))) k =
     (case map_of loaded k of Some p \<Rightarrow> Some p | None \<Rightarrow> first_offer parse n fs k)"
proof (induction fs arbitrary: loaded errors)
  case Nil
  then show ?case by (simp add: first_offer_def split: option.split)
next
  case (Cons f fs)
  obtain path content where f: "f = (path, content)" by (cases f)
  show ?case
  proof (cases "read_profile parse n content")
    case (Inl e)
    then show ?thesis
      by (simp add: f load_file_cases Cons.IH first_offer_def file_key_def split: option.split)
  next
    case (Inr p)
    show ?thesis
    proof (cases "map_of loaded (catalog_key p)")
      case None
      then show ?thesis using Inr
        by (auto simp: f load_file_cases Cons.IH first_offer_def file_key_def map_of_append_new
            split: option.split)
    next
      case (Some q)
      then show ?thesis using Inr
        by (auto simp: f load_file_cases Cons.IH first_offer_def file_key_def split: option.split)
    qed
  qed
qed

lemma reload_lookup:
  "map_of (pr_profiles (reload parse r)) k = first_offer parse (pr_max_upload_bytes r) (registry_files r) k"
  using load_fold_lookup[of parse "pr_max_upload_bytes r" "registry_files r" "[]" "[]" k]
  by (simp add: reload_def split_def Let_def)

lemma find_eq_filter: "find P xs = (case filter P xs of [] \<Rightarrow> None | x # _ \<Rightarrow> Some x)"
  by (induction xs) auto

lemma find_append: "find P (xs @ ys) = (case find P xs of None \<Rightarrow> find P ys | Some x \<Rightarrow> Some x)"
  by (induction xs) auto

lemma find_json_files_skip:
  "\<not> P f \<Longrightarrow> find P (json_files (dir @ [f])) = find P (json_files dir)"
  by (simp add: find_eq_filter json_files_def filter_sort_key conj_commute)

lemma find_json_files_new:
  assumes "P f" and "has_json_suffix (fst f)" and "\<And>g. g \<in> set (json_files dir) \<Longrightarrow> \<not> P g"
  shows "find P (json_files (dir @ [f])) = Some f"
proof -
  have "filter (\<lambda>g. has_json_suffix (fst g) \<and> P g) dir = []"
    using assms(3) by (auto simp: filter_empty_conv json_files_def)
  then have "filter P (json_files (dir @ [f])) = [f]"
    using assms(1,2) by (simp add: json_files_def filter_sort_key conj_commute)
  then show ?thesis by (simp add: find_eq_filter)
qed

lemma import_filename_json: "has_json_suffix (import_filename p)"
  by (simp add: has_json_suffix_def import_filename_def)

lemma load_fold_count:
  "length (fst (fold (load_file parse n) fs (loaded, errors)))
     + length (snd (fold (load_file parse n) fs (loaded, errors)))
   = length loaded + length errors + length fs"
proof (induction fs arbitrary: loaded errors)
  case Nil
  then show ?case by simp
next
  case (Cons f fs)
  obtain l e where acc: "load_file parse n f (loaded, errors) = (l, e)" by (cases "load_file parse n f (loaded, errors)")
  then have "length l + length e = Suc (length loaded + length errors)"
    by (auto simp: load_file_def Let_def split_def split: sum.splits if_splits)
  with Cons.IH[of l e] show ?case by (simp add: acc)
qed

lemma reload_frame [simp]:
  "pr_directory (reload parse r) = pr_directory r"
  "pr_bundled_directory (reload parse r) = pr_bundled_directory r"
  "pr_max_upload_bytes (reload parse r) = pr_max_upload_bytes r"
  by (simp_all add: reload_def split_def Let_def)

lemma registry_files_append:
  "registry_files (r\<lparr>pr_directory := d\<rparr>)
     = (case pr_bundled_directory r of None \<Rightarrow> [] | Some dir \<Rightarrow> json_files dir) @ json_files d"
  by (simp add: registry_files_def)

lemma first_offer_None_iff:
  "first_offer parse n fs k = None \<longleftrightarrow> (\<forall>f \<in> set fs. file_key parse n f \<noteq> Some k)"
proof (cases "find (\<lambda>f. file_key parse n f = Some k) fs")
  case None
  then have "\<forall>f \<in> set fs. file_key parse n f \<noteq> Some k" by (auto simp: find_None_iff)
  with None show ?thesis by (simp add: first_offer_def)
next
  case (Some f)
  then have "f \<in> set fs" "file_key parse n f = Some k" by (auto simp: find_Some_iff)
  moreover from this(2) obtain p where "read_profile parse n (snd f) = Inr p"
    by (auto simp: file_key_def split: sum.splits)
  ultimately show ?thesis using Some by (auto simp: first_offer_def)
qed

text \<open>The bundled catalogue cannot be overridden and nothing is dropped silently: after a
  reload, every key of the catalogue holds the profile of the first file that offers it (bundled
  files come before the writable directory, and files of a directory in name order), whatever
  the other files contain; and every file is either in the catalogue or in the error list.\<close>

theorem reload_first_file_wins:
  "map_of (pr_profiles (reload parse r)) k = first_offer parse (pr_max_upload_bytes r) (registry_files r) k
   \<and> length (pr_profiles (reload parse r)) + length (pr_errors (reload parse r)) = length (registry_files r)"
  using load_fold_count[of parse "pr_max_upload_bytes r" "registry_files r" "[]" "[]"] reload_lookup[of parse r k]
  by (auto simp: reload_def split_def Let_def)

lemma imported_file_key:
  "length data \<le> n \<Longrightarrow> parse data = Inr p \<Longrightarrow> file_key parse n (name, Some data) = Some (catalog_key p)"
  by (simp add: file_key_def read_profile_def)

lemma first_offer_imported:
  assumes ok: "length data \<le> n" "parse data = Inr p"
    and fresh: "first_offer parse n (bs @ json_files dir) (catalog_key p) = None"
  shows "first_offer parse n (bs @ json_files (dir @ [(import_filename p, Some data)])) k =
    (if k = catalog_key p then Some p else first_offer parse n (bs @ json_files dir) k)"
proof -
  let ?f = "(import_filename p, Some data)" and ?P = "\<lambda>k f. file_key parse n f = Some k"
  have key: "file_key parse n ?f = Some (catalog_key p)" using ok by (rule imported_file_key)
  have none: "\<not> ?P (catalog_key p) g" if "g \<in> set bs \<union> set (json_files dir)" for g
    using fresh that by (auto simp: first_offer_None_iff)
  show ?thesis
  proof (cases "k = catalog_key p")
    case True
    have "find (?P k) (json_files (dir @ [?f])) = Some ?f"
      using key none True by (intro find_json_files_new) (auto simp: import_filename_json)
    moreover have "find (?P k) bs = None" using none True by (auto simp: find_None_iff)
    ultimately show ?thesis
      using True ok by (simp add: first_offer_def find_append read_profile_def cong: option.case_cong)
  next
    case False
    then have "find (?P k) (json_files (dir @ [?f])) = find (?P k) (json_files dir)"
      using key by (intro find_json_files_skip) simp
    then show ?thesis using False by (simp add: first_offer_def find_append cong: option.case_cong)
  qed
qed


definition sample_parse :: "bytes \<Rightarrow> sensor_profile result" where
  "sample_parse data =
     (if data = '''' then Inl (ValueError ''profile must be UTF-8 JSON data'')
      else Inr (microphone_profile data))"

definition sample_registry :: profile_registry where
  "sample_registry = \<lparr>pr_directory = [(''b.json'', Some ''1.0.0''), (''broken.json'', Some '''')],
     pr_bundled_directory = Some [(''a.json'', Some ''1.10.0'')], pr_max_upload_bytes = 65536,
     pr_profiles = [], pr_errors = []\<rparr>"


section \<open>The latest version\<close>

lemma sorted_reverse_hd:
  assumes "xs \<noteq> []"
  shows "hd (sorted_reverse k xs) \<in> set xs"
    and "x \<in> set xs \<Longrightarrow> k x \<le> k (hd (sorted_reverse k xs))"
proof -
  let ?ys = "sort_key k (rev xs)"
  have ne: "?ys \<noteq> []" using assms by (metis length_rev length_sort list.size(3) length_0_conv)
  have hd: "hd (sorted_reverse k xs) = last ?ys" by (simp add: sorted_reverse_def hd_rev)
  show "hd (sorted_reverse k xs) \<in> set xs" using last_in_set[OF ne] by (simp add: hd)
  assume "x \<in> set xs"
  then obtain i where i: "i < length ?ys" "x = ?ys ! i"
    by (metis in_set_conv_nth set_rev set_sort)
  have "map k ?ys ! i \<le> map k ?ys ! (length ?ys - 1)"
    using i by (intro sorted_nth_mono) auto
  then show "k x \<le> k (hd (sorted_reverse k xs))"
    using i ne by (simp add: hd last_conv_nth)
qed

lemma parse_nat_digits: "w \<noteq> [] \<Longrightarrow> list_all is_digit w \<Longrightarrow> \<exists>n. parse_nat w = Inr n"
  by (simp add: parse_nat_def)

lemma map_result_total: "(\<And>x. x \<in> set xs \<Longrightarrow> \<exists>y. f x = Inr y) \<Longrightarrow> \<exists>ys. map_result f xs = Inr ys"
proof (induction xs)
  case Nil
  then show ?case by simp
next
  case (Cons x xs)
  then obtain y ys where "f x = Inr y" "map_result f xs = Inr ys" by (metis list.set_intros)
  then show ?case by simp
qed

lemma semver_version_tuple: "semver_pattern v \<Longrightarrow> \<exists>t. version_tuple v = Inr t"
  by (auto simp: semver_pattern_def version_tuple_def intro!: map_result_total parse_nat_digits)

text \<open>Without a version, the lookup returns a profile of the catalogue with that id whose
  version is numerically the greatest, whenever the catalogue has one: version \<open>1.10.0\<close> is
  preferred to \<open>1.9.0\<close>. It never raises on catalogues whose versions have the validated form.\<close>

theorem registry_get_latest:
  assumes "(key, q) \<in> set (pr_profiles r)" and "fst key = profile_id"
    and "\<And>k p. (k, p) \<in> set (pr_profiles r) \<Longrightarrow> semver_pattern (sp_profile_version p)"
  shows "\<exists>k p t. registry_get r profile_id None = Inr (Some p)
    \<and> (k, p) \<in> set (pr_profiles r) \<and> fst k = profile_id \<and> version_tuple (sp_profile_version p) = Inr t
    \<and> (\<forall>k' p' t'. (k', p') \<in> set (pr_profiles r) \<longrightarrow> fst k' = profile_id \<longrightarrow>
          version_tuple (sp_profile_version p') = Inr t' \<longrightarrow> t' \<le> t)"
proof -
  define ms where "ms = map snd (filter (\<lambda>e. fst (fst e) = profile_id) (pr_profiles r))"
  have in_ms: "p \<in> set ms \<longleftrightarrow> (\<exists>k. (k, p) \<in> set (pr_profiles r) \<and> fst k = profile_id)" for p
    unfolding ms_def by force
  let ?v = "\<lambda>p. version_tuple (sp_profile_version p)"
  have "\<exists>y. ?v p = Inr y" if "p \<in> set ms" for p
    using that assms(3) by (auto simp: in_ms intro!: semver_version_tuple)
  then obtain ts where ts: "map_result ?v ms = Inr ts" using map_result_total[of ms ?v] by blast
  have len: "length ts = length ms" using ts by (rule map_result_length)
  have zipped: "?v p = Inr t" if "(t, p) \<in> set (zip ts ms)" for t p
    using map_result_all2[OF ts] that by (auto simp: list_all2_iff in_set_zip)
  define h where "h = hd (sorted_reverse fst (zip ts ms))"
  have "ms \<noteq> []" using assms(1,2) in_ms[of q] by (metis empty_iff empty_set)
  then have ne: "zip ts ms \<noteq> []" using len by (cases ts) auto
  have get: "registry_get r profile_id None = Inr (Some (snd h))"
    using \<open>ms \<noteq> []\<close> by (simp add: registry_get_def Let_def ms_def [symmetric] ts h_def)
  have h: "h \<in> set (zip ts ms)" unfolding h_def using ne by (rule sorted_reverse_hd)
  then have "?v (snd h) = Inr (fst h)" and "snd h \<in> set ms"
    using zipped[of "fst h" "snd h"] set_zip_rightD[of "fst h" "snd h" ts ms] by simp_all
  moreover have "t' \<le> fst h" if mem_p: "p' \<in> set ms" and "?v p' = Inr t'" for p' t'
  proof -
    obtain i where i: "i < length ms" "ms ! i = p'" using mem_p unfolding in_set_conv_nth by blast
    then have mem: "(ts ! i, p') \<in> set (zip ts ms)" using len by (auto simp: in_set_zip)
    then have "ts ! i = t'" using zipped[of "ts ! i" p'] that(2) by simp
    then show ?thesis using sorted_reverse_hd(2)[OF ne mem, of fst] by (simp add: h_def)
  qed
  ultimately show ?thesis using get in_ms by metis
qed

definition two_versions :: profile_registry where
  "two_versions = sample_registry\<lparr>pr_profiles :=
     map (\<lambda>v. ((''m'', v), microphone_profile v)) [''1.9.0'', ''1.10.0'']\<rparr>"

theorem registry_get_latest_witness:
  "\<exists>k p t. registry_get two_versions ''m'' None = Inr (Some p)
    \<and> (k, p) \<in> set (pr_profiles two_versions) \<and> fst k = ''m'' \<and> version_tuple (sp_profile_version p) = Inr t
    \<and> [1, 10, 0] \<le> t"
proof -
  have "\<exists>k p t. registry_get two_versions ''m'' None = Inr (Some p)
    \<and> (k, p) \<in> set (pr_profiles two_versions) \<and> fst k = ''m'' \<and> version_tuple (sp_profile_version p) = Inr t
    \<and> (\<forall>k' p' t'. (k', p') \<in> set (pr_profiles two_versions) \<longrightarrow> fst k' = ''m'' \<longrightarrow>
          version_tuple (sp_profile_version p') = Inr t' \<longrightarrow> t' \<le> t)"
    by (rule registry_get_latest[of "(''m'', ''1.9.0'')" "microphone_profile ''1.9.0''"])
      (auto simp: two_versions_def microphone_profile_def semver_pattern_def is_digit_def)
  moreover have "((''m'', ''1.10.0''), microphone_profile ''1.10.0'') \<in> set (pr_profiles two_versions)"
    by (simp add: two_versions_def)
  moreover have "version_tuple (sp_profile_version (microphone_profile ''1.10.0'')) = Inr [1, 10, 0]"
    by (simp add: microphone_profile_def version_tuple_def parse_nat_def is_digit_def)
  ultimately show ?thesis by (metis fst_conv)
qed

end
