(* ===== verification/Capabilities.thy ===== *)
theory Capabilities
  imports Profile_Registry
begin

text \<open>
  What a node can do and what may be configured on it: \<open>node_capability_service.py\<close>,
  \<open>channel_configuration_service.py\<close>, \<open>compatibility_service.py\<close> and
  \<open>adapter_registry.py\<close> of \<open>gateway/app/services\<close>. \<open>packaging.version.Version\<close> is the parameter
  \<open>version_key\<close>: it maps a version text to a key of a linear order, or to \<open>None\<close> where the
  constructor raises \<open>InvalidVersion\<close>.
\<close>

section \<open>Node capabilities\<close>

definition adc_interface :: "nat \<Rightarrow> node_interface" where
  "adc_interface index =
     \<lparr>ni_interface_id = ''D'' @ nat_str index, ni_type = ''analog'', ni_capabilities = [''raw_adc''],
      ni_telemetry_channels = [''analog_'' @ nat_str index], ni_exclusive = True,
      ni_configuration_supported = False, ni_configuration_persistence = ''none''\<rparr>"

definition node_interfaces :: "node_interface list" where
  "node_interfaces =
     [\<lparr>ni_interface_id = ''MIC'', ni_type = ''built_in'', ni_capabilities = [''built_in_microphone''],
       ni_telemetry_channels = [''microphone_raw'', ''microphone_percent''], ni_exclusive = True,
       ni_configuration_supported = True, ni_configuration_persistence = ''persistent''\<rparr>,
      \<lparr>ni_interface_id = ''IMU0'', ni_type = ''built_in'',
       ni_capabilities = [''built_in_imu_accelerometer'', ''built_in_imu_gyroscope''],
       ni_telemetry_channels = [''acceleration_x'', ''acceleration_y'', ''acceleration_z'',
         ''angular_velocity_x'', ''angular_velocity_y'', ''angular_velocity_z''],
       ni_exclusive = False, ni_configuration_supported = False, ni_configuration_persistence = ''none''\<rparr>,
      \<lparr>ni_interface_id = ''VBAT'', ni_type = ''built_in'', ni_capabilities = [''built_in_battery''],
       ni_telemetry_channels = [''battery_voltage''], ni_exclusive = True,
       ni_configuration_supported = False, ni_configuration_persistence = ''none''\<rparr>]
     @ map adc_interface [0..<6]"

definition capabilities_for :: "registered_device \<Rightarrow> node_capabilities" where
  "capabilities_for node =
     \<lparr>nc_schema_version = 1, nc_node_id = rd_device_id node, nc_firmware_version = rd_firmware_version node,
      nc_interfaces = node_interfaces,
      nc_filters = [''none'', ''ema'', ''moving_average'', ''median'', ''digital_debounce''],
      nc_reporting_modes = [''periodic'', ''change'', ''event'', ''heartbeat''],
      nc_minimum_interval_ms = 50, nc_maximum_interval_ms = 5000, nc_configuration_readback = False\<rparr>"

text \<open>\<open>NodeCapabilityService.get(node_id)\<close>, as the services call it.\<close>

definition capability_get :: "db \<Rightarrow> string \<Rightarrow> node_capabilities result" where
  "capability_get s node_id =
     (case get_device s node_id of
        None \<Rightarrow> Inl (NodeNotFoundError ''MG24 node not found'')
      | Some node \<Rightarrow>
          if rd_archived node then Inl (NodeNotFoundError ''MG24 node not found'')
          else Inr (capabilities_for node))"

text \<open>Iterating a decoded value: the elements of a list, the keys of an object, the characters
  of a text; other values are not iterable.\<close>

fun json_iter :: "json \<Rightarrow> json list result" where
  "json_iter (JArr xs) = Inr xs"
| "json_iter (JObj d) = Inr (map (JStr \<circ> fst) d)"
| "json_iter (JStr s) = Inr (map (\<lambda>c. JStr [c]) s)"
| "json_iter _ = Inl (TypeError ''object is not iterable'')"

text \<open>\<open>text in container\<close>: membership in a list, a key of an object, a substring of a text.\<close>

fun json_contains :: "json \<Rightarrow> string \<Rightarrow> bool result" where
  "json_contains (JArr xs) t = Inr (JStr t \<in> set xs)"
| "json_contains (JObj d) t = Inr (has_key d t)"
| "json_contains (JStr s) t = Inr (contains_sub t s)"
| "json_contains _ t = Inl (TypeError ''argument is not iterable'')"

text \<open>The dictionary \<open>{item.get("interface_id"): item ...}\<close>; a later item replaces an earlier one
  with the same identifier, and an unhashable identifier raises. Identifiers that are not texts
  are never looked up.\<close>

fun reported_interfaces :: "json list \<Rightarrow> (string \<times> dict) list \<Rightarrow> (string \<times> dict) list result" where
  "reported_interfaces [] acc = Inr acc"
| "reported_interfaces (JObj d # rest) acc =
     (if \<not> hashable (dget d ''interface_id'') then Inl (TypeError ''unhashable type'')
      else (case dget d ''interface_id'' of
              JStr i \<Rightarrow> reported_interfaces rest ((i, d) # acc)
            | _ \<Rightarrow> reported_interfaces rest acc))"
| "reported_interfaces (_ # rest) acc = reported_interfaces rest acc"

text \<open>\<open>[item for item in items if p(item)]\<close> where the test may raise.\<close>

fun filter_result :: "('a \<Rightarrow> bool result) \<Rightarrow> 'a list \<Rightarrow> 'a list result" where
  "filter_result p [] = Inr []"
| "filter_result p (x # xs) =
     bind_result (p x) (\<lambda>b. bind_result (filter_result p xs) (\<lambda>ys. Inr (if b then x # ys else ys)))"

definition interface_reported :: "(string \<times> dict) list \<Rightarrow> node_interface \<Rightarrow> bool result" where
  "interface_reported reported i =
     (case map_of reported (ni_interface_id i) of
        None \<Rightarrow> Inr False
      | Some d \<Rightarrow>
          if dget d ''type'' \<noteq> JStr (ni_type i) then Inr False
          else bind_result (json_iter (dget_default d ''capabilities'' (JArr []))) (\<lambda>xs.
            if list_ex (\<lambda>x. \<not> hashable x) xs then Inl (TypeError ''unhashable type'')
            else Inr (\<forall>c \<in> set (ni_capabilities i). JStr c \<in> set xs)))"

text \<open>\<open>get(node_id, reported)\<close>. The second component is the firmware version attribute, which
  the code assigns from the report without checking its type.\<close>

definition capability_get_reported :: "db \<Rightarrow> string \<Rightarrow> dict \<Rightarrow> (node_capabilities \<times> json) result" where
  "capability_get_reported s node_id reported =
     bind_result (capability_get s node_id) (\<lambda>result.
       let own = (case nc_firmware_version result of None \<Rightarrow> JNull | Some v \<Rightarrow> JStr v) in
       if reported = [] then Inr (result, own)
       else
         bind_result (json_iter (dget_default reported ''interfaces'' (JArr []))) (\<lambda>items.
         bind_result (reported_interfaces items []) (\<lambda>ri.
         bind_result (filter_result (interface_reported ri) (nc_interfaces result)) (\<lambda>interfaces.
           let result1 = result\<lparr>nc_interfaces := interfaces\<rparr>;
               reported_firmware = dget reported ''firmware_version'';
               firmware = (if json_truthy reported_firmware then reported_firmware else own) in
           case dget_default reported ''processing'' (JObj []) of
             JObj processing \<Rightarrow>
               bind_result (filter_result (json_contains (dget_default processing ''filters'' (JArr [])))
                              (nc_filters result1)) (\<lambda>filters.
               bind_result (filter_result (json_contains (dget_default processing ''reporting_modes'' (JArr [])))
                              (nc_reporting_modes result1)) (\<lambda>modes.
                 Inr (result1\<lparr>nc_filters := filters, nc_reporting_modes := modes\<rparr>, firmware)))
           | _ \<Rightarrow> Inr (result1, firmware)))))"

definition firmware_satisfies ::
  "(string \<Rightarrow> ('v::linorder) option) \<Rightarrow> string option \<Rightarrow> string option \<Rightarrow> bool result" where
  "firmware_satisfies version_key current minimum =
     (case minimum of
        None \<Rightarrow> Inr True
      | Some m \<Rightarrow>
          (case current of
             None \<Rightarrow> Inr False
           | Some c \<Rightarrow>
               (case version_key c of
                  None \<Rightarrow> Inl (InvalidVersion c)
                | Some kc \<Rightarrow> (case version_key m of
                                None \<Rightarrow> Inl (InvalidVersion m)
                              | Some km \<Rightarrow> Inr (km \<le> kc)))))"

definition find_interface :: "node_capabilities \<Rightarrow> string \<Rightarrow> node_interface option" where
  "find_interface c i = find (\<lambda>x. ni_interface_id x = i) (nc_interfaces c)"

lemma filter_result_sub: "filter_result p xs = Inr ys \<Longrightarrow> y \<in> set ys \<Longrightarrow> y \<in> set xs"
  by (induction xs arbitrary: ys) (auto simp: bind_result_Inr_iff split: if_splits)

lemma filter_result_sat: "filter_result p xs = Inr ys \<Longrightarrow> y \<in> set ys \<Longrightarrow> p y = Inr True"
  by (induction xs arbitrary: ys) (auto simp: bind_result_Inr_iff split: if_splits)

lemma node_interface_ids: "distinct (map ni_interface_id node_interfaces)"
  by (simp add: node_interfaces_def adc_interface_def upt_rec nat_str.simps)

lemma node_interfaces_valid: "\<forall>i \<in> set node_interfaces. node_interface_valid i"
  by (simp add: node_interfaces_def adc_interface_def upt_rec nat_str.simps node_interface_valid_def
      len_between_def interface_types_def)

text \<open>Two interfaces of a node never share a telemetry channel, so a channel determines the
  interface it belongs to.\<close>

lemma node_interface_channels_disjoint:
  "distinct (concat (map ni_telemetry_channels node_interfaces))"
  by (simp add: node_interfaces_def adc_interface_def upt_rec nat_str.simps)

lemma capability_get_Inr_iff:
  "capability_get s n = Inr c \<longleftrightarrow> (\<exists>d. get_device s n = Some d \<and> \<not> rd_archived d \<and> c = capabilities_for d)"
  by (auto simp: capability_get_def split: option.splits)

lemma capability_interfaces: "capability_get s n = Inr c \<Longrightarrow> nc_interfaces c = node_interfaces"
  by (auto simp: capability_get_Inr_iff capabilities_for_def)

lemma find_interface_Some:
  "find_interface c i = Some x \<Longrightarrow> x \<in> set (nc_interfaces c) \<and> ni_interface_id x = i"
  by (auto simp: find_interface_def find_Some_iff)

lemma interface_reported_True:
  assumes "interface_reported ri i = Inr True"
  shows "\<exists>d xs. map_of ri (ni_interface_id i) = Some d \<and> dget d ''type'' = JStr (ni_type i)
    \<and> json_iter (dget_default d ''capabilities'' (JArr [])) = Inr xs
    \<and> JStr ` set (ni_capabilities i) \<subseteq> set xs"
  using assms by (auto simp: interface_reported_def bind_result_Inr_iff split: option.splits if_splits)

lemma capability_get_reported_steps:
  assumes "capability_get_reported s n reported = Inr (c, fw)" and "reported \<noteq> []"
  shows "\<exists>full items ri. capability_get s n = Inr full
    \<and> json_iter (dget_default reported ''interfaces'' (JArr [])) = Inr items
    \<and> reported_interfaces items [] = Inr ri
    \<and> filter_result (interface_reported ri) (nc_interfaces full) = Inr (nc_interfaces c)
    \<and> set (nc_filters c) \<subseteq> set (nc_filters full)
    \<and> set (nc_reporting_modes c) \<subseteq> set (nc_reporting_modes full)"
  using assms unfolding capability_get_reported_def
  by (cases "dget_default reported ''processing'' (JObj [])")
    (auto simp: bind_result_Inr_iff Let_def dest: filter_result_sub)

text \<open>A node's own report can only narrow the gateway's view of it: whatever the node sends,
  the interfaces, filters and reporting modes offered are among those the firmware is known to
  have, and an offered interface is one whose reported type agrees and whose reported
  capabilities include every capability of that interface.\<close>

theorem reported_capabilities_restrict:
  assumes "capability_get_reported s n reported = Inr (c, fw)"
  shows "\<exists>full. capability_get s n = Inr full
    \<and> set (nc_interfaces c) \<subseteq> set (nc_interfaces full)
    \<and> set (nc_filters c) \<subseteq> set (nc_filters full)
    \<and> set (nc_reporting_modes c) \<subseteq> set (nc_reporting_modes full)
    \<and> (reported \<noteq> [] \<longrightarrow> (\<forall>i \<in> set (nc_interfaces c). \<exists>items ri d xs.
          json_iter (dget_default reported ''interfaces'' (JArr [])) = Inr items
          \<and> reported_interfaces items [] = Inr ri \<and> map_of ri (ni_interface_id i) = Some d
          \<and> dget d ''type'' = JStr (ni_type i)
          \<and> json_iter (dget_default d ''capabilities'' (JArr [])) = Inr xs
          \<and> JStr ` set (ni_capabilities i) \<subseteq> set xs))"
proof (cases "reported = []")
  case True
  with assms show ?thesis
    by (auto simp: capability_get_reported_def bind_result_Inr_iff Let_def)
next
  case False
  from capability_get_reported_steps[OF assms False] obtain full items ri where steps:
    "capability_get s n = Inr full"
    "json_iter (dget_default reported ''interfaces'' (JArr [])) = Inr items"
    "reported_interfaces items [] = Inr ri"
    "filter_result (interface_reported ri) (nc_interfaces full) = Inr (nc_interfaces c)"
    "set (nc_filters c) \<subseteq> set (nc_filters full)"
    "set (nc_reporting_modes c) \<subseteq> set (nc_reporting_modes full)" by blast
  have "set (nc_interfaces c) \<subseteq> set (nc_interfaces full)"
    using filter_result_sub[OF steps(4)] by blast
  moreover have "\<exists>items ri d xs. json_iter (dget_default reported ''interfaces'' (JArr [])) = Inr items
      \<and> reported_interfaces items [] = Inr ri \<and> map_of ri (ni_interface_id i) = Some d
      \<and> dget d ''type'' = JStr (ni_type i)
      \<and> json_iter (dget_default d ''capabilities'' (JArr [])) = Inr xs
      \<and> JStr ` set (ni_capabilities i) \<subseteq> set xs" if "i \<in> set (nc_interfaces c)" for i
    using interface_reported_True[OF filter_result_sat[OF steps(4) that]] steps(2,3) by simp
  ultimately show ?thesis using steps(1,5,6) by (intro exI[of _ full]) simp
qed

section \<open>Channel configuration\<close>

fun join_comma :: "string list \<Rightarrow> string" where
  "join_comma [] = ''''"
| "join_comma [s] = s"
| "join_comma (s # rest) = s @ '', '' @ join_comma rest"

definition interval_guards :: "sampling_definition \<Rightarrow> int \<Rightarrow> (bool \<times> exn) list" where
  "interval_guards sampling value =
     [(case sd_minimum_interval_ms sampling of None \<Rightarrow> False | Some lo \<Rightarrow> value < lo,
       ConfigurationValidationError ''configured interval is below the profile minimum''),
      (case sd_maximum_interval_ms sampling of None \<Rightarrow> False | Some hi \<Rightarrow> value > hi,
       ConfigurationValidationError ''configured interval exceeds the profile maximum'')]"

definition thresholds :: "installation_configuration \<Rightarrow> real option list" where
  "thresholds c = [ic_warning_low c, ic_warning_high c, ic_alarm_low c, ic_alarm_high c]"

definition configuration_guards ::
  "sensor_profile \<Rightarrow> node_capabilities \<Rightarrow> node_interface \<Rightarrow> installation_configuration \<Rightarrow> (bool \<times> exn) list" where
  "configuration_guards profile capabilities interface c =
     concat (map (interval_guards (sp_sampling profile))
       [ic_sample_interval_ms c, ic_processing_interval_ms c, ic_report_interval_ms c])
     @ [(ic_filter_type c \<notin> set (fd_supported (sp_filter profile)),
         ConfigurationValidationError ''selected filter is not supported by the profile''),
        (ic_filter_type c \<notin> set (nc_filters capabilities),
         ConfigurationValidationError ''selected filter is not reported by the node''),
        (ic_filter_window c > fd_maximum_window (sp_filter profile),
         ConfigurationValidationError ''filter window exceeds the profile maximum''),
        (ic_calibration_enabled c,
         ConfigurationValidationError ''user calibration is not enabled by this profile''),
        (ic_calibration_gain c \<noteq> None \<or> ic_calibration_offset c \<noteq> None,
         ConfigurationValidationError ''calibration parameters require an explicitly calibration-enabled profile''),
        (ic_alarms_enabled c
           \<and> (\<not> ad_supported (sp_alarms profile) \<or> list_all (\<lambda>v. v = None) (thresholds c)),
         ConfigurationValidationError ''alarms require profile support and explicitly confirmed threshold values''),
        (\<not> ic_alarms_enabled c \<and> list_ex (\<lambda>v. v \<noteq> None) (thresholds c),
         ConfigurationValidationError ''threshold values require alarms_enabled=true''),
        (\<not> ni_configuration_supported interface
           \<and> ((ic_sample_interval_ms c, ic_processing_interval_ms c, ic_report_interval_ms c,
                ic_heartbeat_interval_ms c) \<noteq> (100, 100, 100, 30000)
              \<or> ic_filter_type c \<noteq> fd_default (sp_filter profile)),
         ConfigurationValidationError
           ''this interface does not support runtime reconfiguration; use its established profile defaults'')]"

definition configuration_validate ::
  "(string \<Rightarrow> ('v::linorder) option) \<Rightarrow> sensor_profile \<Rightarrow> node_capabilities \<Rightarrow> string
     \<Rightarrow> installation_configuration \<Rightarrow> unit result" where
  "configuration_validate version_key profile capabilities interface_id c =
     (case find_interface capabilities interface_id of
        None \<Rightarrow> Inl (ConfigurationValidationError ''interface is not reported by the selected MG24 node'')
      | Some interface \<Rightarrow>
          let missing = filter (\<lambda>x. x \<notin> set (ni_capabilities interface))
                          (fr_required_capabilities (sp_firmware profile)) in
          bind_result (check_all
            [(sp_status profile \<in> {''disabled'', ''deprecated''},
              ConfigurationValidationError
                (''profile status '' @ sp_status profile @ '' cannot be used for a new installation'')),
             (id_type (sp_interface profile) \<noteq> ni_type interface,
              ConfigurationValidationError ''sensor profile is incompatible with the selected interface type''),
             (missing \<noteq> [],
              ConfigurationValidationError
                (''interface lacks required capabilities: '' @ join_comma (sort (remdups missing))))]) (\<lambda>_.
          bind_result (firmware_satisfies version_key (nc_firmware_version capabilities)
                         (fr_minimum_version (sp_firmware profile))) (\<lambda>ok.
          if \<not> ok
          then Inl (ConfigurationValidationError ''node firmware does not satisfy the profile minimum version'')
          else check_all (configuration_guards profile capabilities interface c))))"

definition within_profile_limits :: "sampling_definition \<Rightarrow> int \<Rightarrow> bool" where
  "within_profile_limits d v =
     ((case sd_minimum_interval_ms d of None \<Rightarrow> True | Some lo \<Rightarrow> lo \<le> v)
      \<and> (case sd_maximum_interval_ms d of None \<Rightarrow> True | Some hi \<Rightarrow> v \<le> hi))"

lemma interval_guards_ok:
  "(\<forall>g \<in> set (interval_guards d v). \<not> fst g) \<longleftrightarrow> within_profile_limits d v"
  by (auto simp: interval_guards_def within_profile_limits_def split: option.splits)

lemma check_all_value_error:
  "check_all gs = Inl e \<Longrightarrow> (\<And>g. g \<in> set gs \<Longrightarrow> is_value_error (snd g)) \<Longrightarrow> is_value_error e"
  using check_all_error by blast

lemma configuration_guards_value_error:
  "g \<in> set (configuration_guards p c i cfg) \<Longrightarrow> is_value_error (snd g)"
  by (auto simp: configuration_guards_def interval_guards_def)

lemma configuration_validate_value_error:
  assumes "configuration_validate version_key p c i cfg = Inl e"
  shows "is_value_error e"
proof (cases "find_interface c i")
  case None
  with assms show ?thesis by (auto simp: configuration_validate_def)
next
  case (Some x)
  have "is_value_error e" if "firmware_satisfies version_key cur m = Inl e" for cur m
    using that by (auto simp: firmware_satisfies_def split: option.splits)
  with assms Some show ?thesis
    unfolding configuration_validate_def
    by (auto simp: bind_result_Inl_iff Let_def simp del: check_all.simps split: if_splits
        elim!: check_all_value_error intro: configuration_guards_value_error)
qed

text \<open>What an accepted configuration is known to satisfy.\<close>

lemma configuration_validate_ok:
  assumes "configuration_validate version_key p c i cfg = Inr ()"
  obtains x where "find_interface c i = Some x" "sp_status p \<notin> {''disabled'', ''deprecated''}"
    "set (fr_required_capabilities (sp_firmware p)) \<subseteq> set (ni_capabilities x)"
    "firmware_satisfies version_key (nc_firmware_version c) (fr_minimum_version (sp_firmware p)) = Inr True"
    "\<forall>v \<in> {ic_sample_interval_ms cfg, ic_processing_interval_ms cfg, ic_report_interval_ms cfg}.
       within_profile_limits (sp_sampling p) v"
    "ic_filter_type cfg \<in> set (fd_supported (sp_filter p)) \<inter> set (nc_filters c)"
    "ic_filter_window cfg \<le> fd_maximum_window (sp_filter p)"
    "\<not> ic_calibration_enabled cfg"
proof (cases "find_interface c i")
  case None
  with assms show ?thesis by (simp add: configuration_validate_def)
next
  case (Some x)
  from assms Some have pre: "check_all (configuration_guards p c x cfg) = Inr ()"
    "sp_status p \<notin> {''disabled'', ''deprecated''}"
    "set (fr_required_capabilities (sp_firmware p)) \<subseteq> set (ni_capabilities x)"
    "firmware_satisfies version_key (nc_firmware_version c) (fr_minimum_version (sp_firmware p)) = Inr True"
    by (auto simp: configuration_validate_def bind_result_Inr_iff Let_def filter_empty_conv split: if_splits)
  from pre(1) have g: "\<forall>g \<in> set (configuration_guards p c x cfg). \<not> fst g"
    by (simp add: check_all_ok_iff)
  have "\<forall>v \<in> {ic_sample_interval_ms cfg, ic_processing_interval_ms cfg, ic_report_interval_ms cfg}.
       within_profile_limits (sp_sampling p) v"
    using g by (auto simp: configuration_guards_def simp flip: interval_guards_ok)
  moreover from g have "ic_filter_type cfg \<in> set (fd_supported (sp_filter p)) \<inter> set (nc_filters c)"
    "ic_filter_window cfg \<le> fd_maximum_window (sp_filter p)" "\<not> ic_calibration_enabled cfg"
    by (simp_all add: configuration_guards_def)
  ultimately show ?thesis using that Some pre by blast
qed

section \<open>Firmware compatibility\<close>

record compatibility_matrix =
  mx_supported_protocol_versions :: "string list"
  mx_minimum :: string
  mx_maximum_exclusive :: string

definition required_metadata :: "string list" where
  "required_metadata = [''sensor_package_version'', ''firmware_version'', ''protocol_version'',
     ''configuration_schema_version'', ''build_identifier'']"

definition in_none_or_empty :: "json \<Rightarrow> bool" where
  "in_none_or_empty v = (v = JNull \<or> v = JStr '''')"

text \<open>The status of the result; its message only explains it. A version that is not a text
  makes the \<open>Version\<close> constructor raise \<open>TypeError\<close>, which is not caught.\<close>

definition compatibility_evaluate ::
  "(string \<Rightarrow> ('v::linorder) option) \<Rightarrow> compatibility_matrix \<Rightarrow> dict \<Rightarrow> string result" where
  "compatibility_evaluate version_key mx metadata =
     (if list_ex (\<lambda>k. in_none_or_empty (dget metadata k)) required_metadata
      then Inr ''metadata_missing''
      else if \<not> (case dget metadata ''protocol_version'' of
                  JStr p \<Rightarrow> p \<in> set (mx_supported_protocol_versions mx) | _ \<Rightarrow> False)
      then Inr ''protocol_unsupported''
      else case dget metadata ''sensor_package_version'' of
        JStr v \<Rightarrow>
          (case version_key v of
             None \<Rightarrow> Inr ''unknown''
           | Some sensor \<Rightarrow>
               (case version_key (mx_minimum mx) of
                  None \<Rightarrow> Inr ''unknown''
                | Some lo \<Rightarrow>
                    if sensor < lo then Inr ''sensor_update_required''
                    else (case version_key (mx_maximum_exclusive mx) of
                            None \<Rightarrow> Inr ''unknown''
                          | Some hi \<Rightarrow>
                              if sensor \<ge> hi then Inr ''gateway_update_required''
                              else Inr ''compatible'')))
      | _ \<Rightarrow> Inl (TypeError ''expected string or bytes-like object''))"

section \<open>Adapter allowlist\<close>

type_synonym ('k, 'a) adapter_registry = "(string \<times> ('k \<Rightarrow> 'a)) list"

definition adapter_register ::
  "('k, 'a) adapter_registry \<Rightarrow> string \<Rightarrow> ('k \<Rightarrow> 'a) \<Rightarrow> unit result \<times> ('k, 'a) adapter_registry" where
  "adapter_register factories adapter_id factory =
     (if adapter_id = '''' \<or> map_of factories adapter_id \<noteq> None
      then (Inl (ValueError ''adapter ID must be nonblank and unique''), factories)
      else (Inr (), factories @ [(adapter_id, factory)]))"

definition adapter_create :: "('k, 'a) adapter_registry \<Rightarrow> string \<Rightarrow> 'k \<Rightarrow> 'a result" where
  "adapter_create factories adapter_id kwargs =
     (case map_of factories adapter_id of
        None \<Rightarrow> Inl (ValueError ''adapter is not allowlisted'')
      | Some factory \<Rightarrow> Inr (factory kwargs))"

definition adapter_available :: "('k, 'a) adapter_registry \<Rightarrow> string list" where
  "adapter_available factories = sort (map fst factories)"

text \<open>A node is reported compatible exactly when all required metadata is present, its
  protocol is supported and its package version lies in the supported half-open range.\<close>

theorem compatible_iff:
  "compatibility_evaluate version_key mx metadata = Inr ''compatible'' \<longleftrightarrow>
     list_all (\<lambda>k. dget metadata k \<noteq> JNull \<and> dget metadata k \<noteq> JStr '''')
       [''sensor_package_version'', ''firmware_version'', ''protocol_version'',
        ''configuration_schema_version'', ''build_identifier'']
     \<and> (\<exists>p \<in> set (mx_supported_protocol_versions mx). dget metadata ''protocol_version'' = JStr p)
     \<and> (\<exists>v k lo hi. dget metadata ''sensor_package_version'' = JStr v \<and> version_key v = Some k
          \<and> version_key (mx_minimum mx) = Some lo \<and> version_key (mx_maximum_exclusive mx) = Some hi
          \<and> lo \<le> k \<and> k < hi)"
  unfolding compatibility_evaluate_def required_metadata_def in_none_or_empty_def
  by (cases "dget metadata ''protocol_version''"; cases "dget metadata ''sensor_package_version''")
    (auto split: option.splits)

section \<open>Examples\<close>

definition sample_node :: registered_device where
  "sample_node = (device_defaults 1 0)\<lparr>rd_device_id := ''NODE-1'', rd_ble_address := Some ''AA:BB'',
     rd_compatibility_status := ''compatible''\<rparr>"

definition sample_db :: db where
  "sample_db = empty_db\<lparr>registered_devices := [sample_node]\<rparr>"

definition sample_report :: dict where
  "sample_report = [(''interfaces'', JArr [JNull, JObj [(''interface_id'', JStr ''MIC''),
     (''type'', JStr ''built_in''), (''capabilities'', JArr [JStr ''built_in_microphone''])]]),
     (''processing'', JObj [(''filters'', JArr [JStr ''ema''])])]"

lemma sample_device: "get_device sample_db ''NODE-1'' = Some sample_node"
  by (simp add: sample_db_def get_device_def sample_node_def)

lemma sample_report_view:
  "capability_get_reported sample_db ''NODE-1'' sample_report
     = Inr ((capabilities_for sample_node)\<lparr>nc_interfaces := [hd node_interfaces],
             nc_filters := [''ema''], nc_reporting_modes := []\<rparr>, JNull)"
  by (simp add: capability_get_reported_def capability_get_def sample_device sample_report_def
      capabilities_for_def dget_default_def dget_def interface_reported_def node_interfaces_def
      adc_interface_def upt_rec nat_str.simps)
    (simp add: sample_node_def device_defaults_def)

theorem reported_capabilities_restrict_witness:
  "\<exists>full. capability_get sample_db ''NODE-1'' = Inr full \<and> hd node_interfaces \<in> set (nc_interfaces full)"
  using reported_capabilities_restrict[OF sample_report_view] by auto

end
