(* ===== verification/Devices.thy ===== *)
theory Devices
  imports Capabilities
begin

text \<open>
  Registration and maintenance of nodes: \<open>gateway/app/services/device_service.py\<close> and the
  handlers of \<open>gateway/app/api/devices.py\<close>. The configured identifier pattern is the predicate
  \<open>pattern\<close>; the scanner's answer for an address is an argument. Calls to the BLE connection
  manager are returned as a list in the order they are made.
\<close>

datatype manager_call = ManagerSchedule string string | ManagerRemove string

definition registration_values :: "device_create \<Rightarrow> discovery \<Rightarrow> registered_device \<Rightarrow> registered_device" where
  "registration_values request discovery d = d\<lparr>
     rd_device_id := cr_device_id request, rd_display_name := cr_display_name request,
     rd_device_type := cr_device_type request, rd_ble_address := Some (dc_address discovery),
     rd_ble_advertised_name := dc_name discovery, rd_location := cr_location request,
     rd_description := cr_description request, rd_enabled := True\<rparr>"

definition device_register ::
  "(string \<Rightarrow> bool) \<Rightarrow> db \<Rightarrow> device_create \<Rightarrow> discovery \<Rightarrow> time \<Rightarrow> registered_device result \<times> db" where
  "device_register pattern s request discovery now =
     (if \<not> pattern (cr_device_id request)
      then (Inl (DeviceValidationError ''device_id does not match the configured equipment identifier pattern''), s)
      else if cr_discovery_address request \<noteq> dc_address discovery
      then (Inl (DeviceValidationError ''selected discovery no longer matches the request''), s)
      else if \<not> dc_compatible discovery \<and> \<not> cr_allow_incompatible request
      then (Inl (DeviceValidationError ''device is not confirmed compatible; explicit override is required''), s)
      else case get_by_ble_address s (dc_address discovery) of
        Some existing \<Rightarrow>
          (Inl (DuplicateDeviceError (''BLE address is already associated with '' @ rd_device_id existing)), s)
      | None \<Rightarrow>
          if truthy (dc_stable_device_id discovery) \<and> get_device s (the (dc_stable_device_id discovery)) \<noteq> None
          then (Inl (DuplicateDeviceError ''firmware identity is already registered''), s)
          else if truthy (dc_stable_device_id discovery)
                  \<and> dc_stable_device_id discovery \<noteq> Some (cr_device_id request)
          then (Inl (DeviceValidationError ''entered device_id does not match the stable firmware identity''), s)
          else device_create_row s (registration_values request discovery) now)"

text \<open>The columns a request sets; an explicit null for a column that is not nullable makes the
  commit fail.\<close>

definition device_update_values :: "device_update \<Rightarrow> registered_device \<Rightarrow> registered_device" where
  "device_update_values request d = d\<lparr>
     rd_display_name := (case du_display_name request of Some (Some v) \<Rightarrow> v | _ \<Rightarrow> rd_display_name d),
     rd_location := (case du_location request of Some v \<Rightarrow> v | None \<Rightarrow> rd_location d),
     rd_description := (case du_description request of Some v \<Rightarrow> v | None \<Rightarrow> rd_description d),
     rd_enabled := (case du_enabled request of Some (Some v) \<Rightarrow> v | _ \<Rightarrow> rd_enabled d)\<rparr>"

definition device_service_update ::
  "db \<Rightarrow> registered_device \<Rightarrow> device_update \<Rightarrow> time \<Rightarrow> registered_device result \<times> db" where
  "device_service_update s device request now =
     (if du_display_name request = Some None \<or> du_enabled request = Some None
      then (Inl (IntegrityError ''NOT NULL constraint failed''), s)
      else device_update_row s device (device_update_values request) now)"

section \<open>Handlers\<close>

definition register_device ::
  "(string \<Rightarrow> bool) \<Rightarrow> db \<Rightarrow> device_create \<Rightarrow> discovery option \<Rightarrow> time
     \<Rightarrow> registered_device result \<times> db \<times> manager_call list" where
  "register_device pattern s body discovery now =
     (case discovery of
        None \<Rightarrow> (Inl (HTTPException 409 '''' ''selected discovery expired; scan again''), s, [])
      | Some found \<Rightarrow>
          (case device_register pattern s body found now of
             (Inl (DuplicateDeviceError m), s') \<Rightarrow> (Inl (HTTPException 409 '''' m), s', [])
           | (Inl (DeviceValidationError m), s') \<Rightarrow> (Inl (HTTPException 422 '''' m), s', [])
           | (Inl e, s') \<Rightarrow> (Inl e, s', [])
           | (Inr device, s') \<Rightarrow>
               (Inr device, s',
                if rd_enabled device \<and> truthy (rd_ble_address device)
                then [ManagerSchedule (rd_device_id device) (the (rd_ble_address device))] else [])))"

definition get_device_handler :: "db \<Rightarrow> string \<Rightarrow> registered_device result" where
  "get_device_handler s device_id =
     (case get_device s device_id of
        None \<Rightarrow> Inl (HTTPException 404 '''' ''device not found'')
      | Some device \<Rightarrow>
          if rd_archived device then Inl (HTTPException 404 '''' ''device not found'') else Inr device)"

definition update_device ::
  "db \<Rightarrow> string \<Rightarrow> device_update \<Rightarrow> time \<Rightarrow> registered_device result \<times> db \<times> manager_call list" where
  "update_device s device_id body now =
     (case get_device_handler s device_id of
        Inl e \<Rightarrow> (Inl e, s, [])
      | Inr device \<Rightarrow>
          (case device_service_update s device body now of
             (Inl e, s') \<Rightarrow> (Inl e, s', [])
           | (Inr d, s') \<Rightarrow>
               (Inr d, s',
                if du_enabled body = Some (Some False) then [ManagerRemove device_id]
                else if du_enabled body = Some (Some True) \<and> truthy (rd_ble_address d)
                then [ManagerSchedule device_id (the (rd_ble_address d))] else [])))"

definition archive_device :: "string \<Rightarrow> unit result" where
  "archive_device device_id =
     Inl (HTTPException 409 ''confirmation_required'' ''Use the protected device-lifecycle confirmation workflow.'')"

definition connect_device :: "db \<Rightarrow> string \<Rightarrow> unit result \<times> manager_call list" where
  "connect_device s device_id =
     (case get_device_handler s device_id of
        Inl e \<Rightarrow> (Inl e, [])
      | Inr device \<Rightarrow>
          if \<not> rd_enabled device then (Inl (HTTPException 409 '''' ''device is disabled''), [])
          else if \<not> truthy (rd_ble_address device)
          then (Inl (HTTPException 409 '''' ''device has no observed BLE address''), [])
          else (Inr (), [ManagerSchedule device_id (the (rd_ble_address device))]))"

definition disconnect_device :: "db \<Rightarrow> string \<Rightarrow> unit result \<times> manager_call list" where
  "disconnect_device s device_id =
     (case get_device s device_id of
        None \<Rightarrow> (Inl (HTTPException 404 '''' ''device not found''), [])
      | Some _ \<Rightarrow> (Inr (), [ManagerRemove device_id]))"

section \<open>Identity invariant\<close>

text \<open>Device identifiers and row identifiers are unique, and no two unarchived devices share a BLE
  address or a hardware identity.\<close>

definition active_unique :: "(registered_device \<Rightarrow> 'k) \<Rightarrow> ('k \<Rightarrow> bool) \<Rightarrow> registered_device list \<Rightarrow> bool" where
  "active_unique key ok rows =
     (\<forall>a \<in> set rows. \<forall>b \<in> set rows. \<not> rd_archived a \<longrightarrow> \<not> rd_archived b \<longrightarrow> ok (key a) \<longrightarrow>
        key a = key b \<longrightarrow> rd_id a = rd_id b)"

lemma active_hardware_unique_alt:
  "active_hardware_unique s = active_unique rd_hardware_id truthy (registered_devices s)"
  by (simp add: active_hardware_unique_def active_unique_def)

definition active_address_unique :: "db \<Rightarrow> bool" where
  "active_address_unique s = active_unique rd_ble_address (\<lambda>a. a \<noteq> None) (registered_devices s)"

lemma active_unique_append:
  assumes "active_unique key ok rows"
    and clash: "\<And>r. r \<in> set rows \<Longrightarrow> \<not> rd_archived r \<Longrightarrow> \<not> rd_archived d \<Longrightarrow> ok (key d) \<Longrightarrow> key r \<noteq> key d"
  shows "active_unique key ok (rows @ [d])"
  unfolding active_unique_def
proof (intro ballI impI)
  fix a b
  assume ab: "a \<in> set (rows @ [d])" "b \<in> set (rows @ [d])"
    "\<not> rd_archived a" "\<not> rd_archived b" "ok (key a)" "key a = key b"
  show "rd_id a = rd_id b"
  proof (cases "a \<in> set rows \<and> b \<in> set rows")
    case True
    then show ?thesis using assms(1) ab by (simp add: active_unique_def)
  next
    case False
    then have "a = d \<or> b = d" using ab(1,2) by auto
    then show ?thesis using clash[of a] clash[of b] ab by auto
  qed
qed

definition device_identity_ok :: "db \<Rightarrow> bool" where
  "device_identity_ok s =
     (distinct (map rd_id (registered_devices s)) \<and> distinct (map rd_device_id (registered_devices s))
      \<and> active_hardware_unique s \<and> active_address_unique s)"

lemma get_device_None_iff: "get_device s k = None \<longleftrightarrow> k \<notin> rd_device_id ` set (registered_devices s)"
  by (auto simp: get_device_def find_row_None_iff)

lemma get_by_ble_address_None_iff:
  "get_by_ble_address s a = None \<longleftrightarrow>
     (\<forall>d \<in> set (registered_devices s). rd_ble_address d = Some a \<longrightarrow> rd_archived d)"
  by (auto simp: get_by_ble_address_def find_row_None_iff)

lemma upd_rows_id_eq:
  assumes "distinct (map key rows)" and "d \<in> set rows" and "key e = key d"
  shows "upd_rows (\<lambda>r. key r = key d) (\<lambda>_. e) rows = map (\<lambda>r. if r = d then e else r) rows"
  using assms by (auto simp: upd_rows_def distinct_map inj_on_def)

text \<open>A maintenance request keeps what identifies the device.\<close>

lemma device_update_values_frame [simp]:
  "rd_id (device_update_values r d) = rd_id d"
  "rd_device_id (device_update_values r d) = rd_device_id d"
  "rd_archived (device_update_values r d) = rd_archived d"
  "rd_ble_address (device_update_values r d) = rd_ble_address d"
  "rd_hardware_id (device_update_values r d) = rd_hardware_id d"
  "rd_lifecycle_state (device_update_values r d) = rd_lifecycle_state d"
  by (simp_all add: device_update_values_def)

lemma device_create_preserves_identity:
  assumes "device_identity_ok s" and "device_create_row s values now = (Inr d, s')"
    and "\<And>r. rd_id (values r) = rd_id r" and "\<And>r. rd_archived (values r) = rd_archived r"
    and "rd_ble_address d = Some a" and "get_by_ble_address s a = None"
  shows "device_identity_ok s'"
proof -
  let ?rows = "registered_devices s"
  from assms(2,3,4) have d: "rd_id d = next_id rd_id ?rows" "\<not> rd_archived d"
    and new: "get_device s (rd_device_id d) = None" "\<not> hardware_trigger_fires ?rows d"
    and s': "registered_devices s' = ?rows @ [d]"
    by (auto simp: device_create_row_def Let_def device_defaults_def split: if_splits)
  have fresh: "rd_id r < rd_id d" if "r \<in> set ?rows" for r
    using next_id_fresh[OF that, of rd_id] d(1) by simp
  have "active_hardware_unique s'"
    unfolding active_hardware_unique_alt s'
    using assms(1) new(2) less_imp_neq[OF fresh]
    by (intro active_unique_append)
      (auto simp: device_identity_ok_def active_hardware_unique_alt hardware_trigger_fires_def)
  moreover have "active_address_unique s'"
    unfolding active_address_unique_def s'
    using assms(1,5,6)
    by (intro active_unique_append)
      (auto simp: device_identity_ok_def active_address_unique_def get_by_ble_address_None_iff)
  ultimately show ?thesis
    using assms(1) new(1) fresh
    by (auto simp: device_identity_ok_def s' get_device_None_iff dest: fresh)
qed

lemma pairwise_image_cong:
  assumes "k ` A = k ` B"
  shows "(\<forall>a \<in> A. \<forall>b \<in> A. P (k a) (k b)) \<longleftrightarrow> (\<forall>a \<in> B. \<forall>b \<in> B. P (k a) (k b))"
proof -
  have "(\<forall>a \<in> k ` A. \<forall>b \<in> k ` A. P a b) \<longleftrightarrow> (\<forall>a \<in> k ` B. \<forall>b \<in> k ` B. P a b)"
    by (simp only: assms)
  then show ?thesis by simp
qed

lemma device_identity_cong:
  assumes "map (\<lambda>d. (rd_id d, rd_device_id d, rd_archived d, rd_ble_address d, rd_hardware_id d)) (registered_devices s')
    = map (\<lambda>d. (rd_id d, rd_device_id d, rd_archived d, rd_ble_address d, rd_hardware_id d)) (registered_devices s)"
  shows "device_identity_ok s' = device_identity_ok s"
proof -
  let ?k = "\<lambda>d. (rd_id d, rd_device_id d, rd_archived d, rd_ble_address d, rd_hardware_id d)"
  have set: "?k ` set (registered_devices s') = ?k ` set (registered_devices s)"
    using arg_cong[OF assms, of set] by simp
  have ids: "map rd_id (registered_devices s') = map rd_id (registered_devices s)"
    "map rd_device_id (registered_devices s') = map rd_device_id (registered_devices s)"
    using arg_cong[OF assms, of "map fst"] arg_cong[OF assms, of "map (\<lambda>x. fst (snd x))"] by (simp_all add: comp_def)
  have "active_hardware_unique s' = active_hardware_unique s"
    unfolding active_hardware_unique_def
    using pairwise_image_cong[OF set, of "\<lambda>(i, _, x, _, h) (j, _, y, _, g). \<not> x \<longrightarrow> \<not> y \<longrightarrow> truthy h \<longrightarrow> h = g \<longrightarrow> i = j"] by simp
  moreover have "active_address_unique s' = active_address_unique s"
    unfolding active_address_unique_def active_unique_def
    using pairwise_image_cong[OF set, of "\<lambda>(i, _, x, h, _) (j, _, y, g, _). \<not> x \<longrightarrow> \<not> y \<longrightarrow> h \<noteq> None \<longrightarrow> h = g \<longrightarrow> i = j"] by simp
  ultimately show ?thesis by (simp add: device_identity_ok_def ids)
qed

lemma registration_values_frame [simp]:
  "rd_id (registration_values r f d) = rd_id d"
  "rd_archived (registration_values r f d) = rd_archived d"
  "rd_device_id (registration_values r f d) = cr_device_id r"
  "rd_ble_address (registration_values r f d) = Some (dc_address f)"
  "rd_enabled (registration_values r f d)"
  by (simp_all add: registration_values_def)

lemma register_creates:
  assumes "device_register pattern s body found now = (Inr d, s')"
  shows "pattern (cr_device_id body)" "get_by_ble_address s (dc_address found) = None"
    "truthy (dc_stable_device_id found) \<Longrightarrow> dc_stable_device_id found = Some (cr_device_id body)"
    "device_create_row s (registration_values body found) now = (Inr d, s')"
  using assms unfolding device_register_def by (auto split: if_splits option.splits)

lemma device_create_row_value:
  "device_create_row s f now = (Inr d, s') \<Longrightarrow> \<exists>i. d = f (device_defaults i now)"
  by (auto simp: device_create_row_def Let_def split: if_splits)

lemma device_create_row_Inr:
  assumes "device_create_row s values now = (Inr d, s')"
  shows "registered_devices s' = registered_devices s @ [d]" "get_device s (rd_device_id d) = None"
  using assms by (auto simp: device_create_row_def Let_def split: if_splits)

lemma device_register_error: "device_register pattern s body found now = (Inl e, s') \<Longrightarrow> s' = s"
  by (auto simp: device_register_def device_create_row_def Let_def split: if_splits option.splits)

lemma register_device_Inl:
  "register_device pattern s body disc now = (Inl e, s', calls) \<Longrightarrow> s' = s \<and> calls = []"
  unfolding register_device_def
  by (auto split: option.splits prod.splits sum.splits exn.splits dest!: device_register_error)

lemma register_device_Inr:
  "register_device pattern s body disc now = (Inr d, s', calls) \<Longrightarrow>
     \<exists>found. disc = Some found \<and> device_register pattern s body found now = (Inr d, s')
       \<and> calls = (if rd_enabled d \<and> truthy (rd_ble_address d)
                  then [ManagerSchedule (rd_device_id d) (the (rd_ble_address d))] else [])"
  unfolding register_device_def
  by (auto split: option.splits prod.splits sum.splits exn.splits)

text \<open>C23. Registration keeps node identities unambiguous: from a database in which identifiers,
  unarchived BLE addresses and unarchived hardware identities are unique, it either fails and
  changes nothing, or adds exactly one row whose identifier was free and matches the configured
  pattern (and the identity the firmware announces), whose address is the discovered one, and the
  uniqueness still holds; the connection to a nonempty address is scheduled.\<close>

theorem register_device_identity:
  assumes "device_identity_ok s" and "register_device pattern s body disc now = (res, s', calls)"
  shows "device_identity_ok s' \<and>
    (case res of
       Inl e \<Rightarrow> s' = s \<and> calls = []
     | Inr d \<Rightarrow> get_device s (cr_device_id body) = None \<and> get_device s' (cr_device_id body) = Some d
         \<and> registered_devices s' = registered_devices s @ [d] \<and> pattern (cr_device_id body)
         \<and> (\<exists>found. disc = Some found \<and> rd_ble_address d = Some (dc_address found)
              \<and> (truthy (dc_stable_device_id found) \<longrightarrow> dc_stable_device_id found = Some (rd_device_id d))
              \<and> (dc_address found \<noteq> '''' \<longrightarrow> calls = [ManagerSchedule (cr_device_id body) (dc_address found)])))"
proof (cases res)
  case (Inl e)
  with assms register_device_Inl[of pattern s body disc now e s' calls] show ?thesis by simp
next
  case (Inr d)
  with assms(2) obtain found where f: "disc = Some found" "device_register pattern s body found now = (Inr d, s')"
    "calls = (if rd_enabled d \<and> truthy (rd_ble_address d)
              then [ManagerSchedule (rd_device_id d) (the (rd_ble_address d))] else [])"
    using register_device_Inr by blast
  note facts = register_creates[OF f(2)]
  obtain i where d: "d = registration_values body found (device_defaults i now)"
    using device_create_row_value[OF facts(4)] by blast
  have "device_identity_ok s'"
    using assms(1) facts(4)
    by (rule device_create_preserves_identity[where a = "dc_address found"]) (simp_all add: facts(2) d)
  moreover have "get_device s' (cr_device_id body) = Some d"
    using device_create_row_Inr[OF facts(4)] by (simp add: d get_device_def find_row_append)
  ultimately show ?thesis
    using Inr f(1,3) facts device_create_row_Inr[OF facts(4)] by (auto simp: d)
qed

definition sample_discovery :: "discovery" where
  "sample_discovery = \<lparr>dc_address = ''CC:DD'', dc_name = Some ''XIAO'', dc_rssi = None, dc_service_uuids = [],
     dc_compatible = True, dc_compatibility_reason = '''', dc_stable_device_id = None,
     dc_temporary_id = None, dc_last_seen_at = 0\<rparr>"

definition sample_create :: device_create where
  "sample_create = \<lparr>cr_device_id = ''NODE-2'', cr_display_name = ''Second'', cr_discovery_address = ''CC:DD'',
     cr_device_type = ''xiao_mg24_sense'', cr_location = None, cr_description = None,
     cr_allow_incompatible = False\<rparr>"

lemma sample_db_identity: "device_identity_ok sample_db"
  by (simp add: device_identity_ok_def sample_db_def sample_node_def active_hardware_unique_def
      active_address_unique_def active_unique_def)

theorem register_device_identity_witness:
  "\<exists>res s' calls. register_device default_device_id_pattern sample_db sample_create (Some sample_discovery) 5
       = (res, s', calls) \<and> is_ok res \<and> device_identity_ok s'"
proof -
  obtain res s' calls where r:
    "register_device default_device_id_pattern sample_db sample_create (Some sample_discovery) 5 = (res, s', calls)"
    by (metis prod_cases3)
  have "is_ok res"
    using r by (auto simp: register_device_def device_register_def registration_values_def sample_create_def sample_discovery_def
        default_device_id_pattern_def is_upper_digit_def get_by_ble_address_def sample_db_def sample_node_def
        device_create_row_def get_device_def hardware_trigger_fires_def device_defaults_def Let_def)
  with r register_device_identity[OF sample_db_identity r] show ?thesis by blast
qed

end
