(* ===== verification/Installations.thy ===== *)
theory Installations
  imports Devices
begin

text \<open>
  Sensor installations: \<open>gateway/app/services/installation_service.py\<close> and the handlers of
  \<open>gateway/app/api/installations.py\<close> that do not talk to the node. The profile registry is the
  one of \<open>Profile_Registry\<close>; \<open>version_key\<close> stands for \<open>packaging.version.Version\<close> and
  \<open>uid\<close> for \<open>uuid4().hex\<close>.
\<close>

section \<open>The installation service\<close>

text \<open>\<open>validate(profile, ...)\<close> with a profile that may be \<open>None\<close>: the interface is looked up before
  the first attribute of the profile is read.\<close>

definition validate_optional_profile ::
  "(string \<Rightarrow> ('v::linorder) option) \<Rightarrow> sensor_profile option \<Rightarrow> node_capabilities \<Rightarrow> string
     \<Rightarrow> installation_configuration \<Rightarrow> unit result" where
  "validate_optional_profile version_key profile capabilities interface_id c =
     (case profile of
        Some p \<Rightarrow> configuration_validate version_key p capabilities interface_id c
      | None \<Rightarrow>
          if find_interface capabilities interface_id = None
          then Inl (ConfigurationValidationError ''interface is not reported by the selected MG24 node'')
          else Inl (AttributeError ''NoneType object has no attribute status''))"

definition draft_row ::
  "installation_create \<Rightarrow> sensor_profile \<Rightarrow> string \<Rightarrow> time \<Rightarrow> int \<Rightarrow> sensor_installation" where
  "draft_row request profile uid now i =
     \<lparr>si_id = i, si_installation_id = ''inst-'' @ uid, si_node_id = ir_node_id request,
      si_device_id = ir_device_id request, si_display_name = ir_display_name request,
      si_sensor_profile_id = sp_profile_id profile, si_sensor_profile_version = sp_profile_version profile,
      si_interface_id = ir_interface_id request, si_enabled = False, si_archived = False,
      si_location = ir_location request, si_description = ir_description request,
      si_configuration_json = ir_configuration request, si_previous_configuration_json = None,
      si_calibration_status =
        (if cd_type (sp_conversion profile) = ''unconfigured'' then ''not_configured'' else ''profile_configured''),
      si_verification_status = ''pending'', si_provisioning_state = ''draft'',
      si_provisioning_error = None, si_active_transaction_id = None, si_created_at = now,
      si_updated_at = now, si_last_seen_at = None, si_last_valid_reading_at = None\<rparr>"

text \<open>The checks of \<open>create_draft\<close>, in order, up to the profile the row is created from.\<close>

definition draft_checks ::
  "(string \<Rightarrow> ('v::linorder) option) \<Rightarrow> (string \<Rightarrow> bool) \<Rightarrow> profile_registry \<Rightarrow> db \<Rightarrow> installation_create
     \<Rightarrow> sensor_profile result" where
  "draft_checks version_key pattern profiles s request =
     (if \<not> pattern (ir_device_id request)
      then Inl (InstallationValidationError ''device_id does not match the configured equipment identifier pattern'')
      else if installation_by_device_id s (ir_device_id request) \<noteq> None
      then Inl (InstallationValidationError ''device_id is already assigned to an attached sensor'')
      else if get_device s (ir_device_id request) \<noteq> None
      then Inl (InstallationValidationError ''device_id conflicts with an existing MG24 node identity'')
      else
        bind_result (registry_get profiles (ir_sensor_profile_id request) (Some (ir_sensor_profile_version request)))
        (\<lambda>found. case found of
           None \<Rightarrow> Inl (InstallationValidationError ''sensor profile ID and version were not found'')
         | Some profile \<Rightarrow>
             bind_result (capability_get s (ir_node_id request)) (\<lambda>capabilities.
             bind_result
               (case configuration_validate version_key profile capabilities (ir_interface_id request)
                       (ir_configuration request) of
                  Inl (ConfigurationValidationError m) \<Rightarrow> Inl (InstallationValidationError m)
                | r \<Rightarrow> r) (\<lambda>_.
             case find_interface capabilities (ir_interface_id request) of
               None \<Rightarrow> Inl StopIteration
             | Some interface \<Rightarrow>
                 (case occupied_interface s (ir_node_id request) (ir_interface_id request) None of
                    Some occupied \<Rightarrow>
                      if ni_exclusive interface
                      then Inl (InstallationValidationError
                                  (''interface is already assigned to '' @ si_device_id occupied))
                      else Inr profile
                  | None \<Rightarrow> Inr profile)))))"

definition create_draft ::
  "(string \<Rightarrow> ('v::linorder) option) \<Rightarrow> (string \<Rightarrow> bool) \<Rightarrow> profile_registry \<Rightarrow> db \<Rightarrow> installation_create
     \<Rightarrow> string \<Rightarrow> time \<Rightarrow> sensor_installation result \<times> db" where
  "create_draft version_key pattern profiles s request uid now =
     (case draft_checks version_key pattern profiles s request of
        Inl e \<Rightarrow> (Inl e, s)
      | Inr profile \<Rightarrow> installation_create_row s (draft_row request profile uid now))"

definition installation_update_values ::
  "installation_update \<Rightarrow> sensor_installation \<Rightarrow> sensor_installation" where
  "installation_update_values request r =
     (let plain = r\<lparr>
            si_display_name := (case iu_display_name request of Some (Some v) \<Rightarrow> v | _ \<Rightarrow> si_display_name r),
            si_location := (case iu_location request of Some v \<Rightarrow> v | None \<Rightarrow> si_location r),
            si_description := (case iu_description request of Some v \<Rightarrow> v | None \<Rightarrow> si_description r)\<rparr> in
      case iu_configuration request of
        None \<Rightarrow> plain
      | Some c \<Rightarrow>
          if si_provisioning_state r = ''active''
          then plain\<lparr>si_configuration_json := c,
                 si_previous_configuration_json := Some (si_configuration_json r),
                 si_provisioning_state := ''ready_to_apply'', si_verification_status := ''pending'',
                 si_enabled := False\<rparr>
          else plain\<lparr>si_configuration_json := c\<rparr>)"

definition installation_service_update ::
  "(string \<Rightarrow> ('v::linorder) option) \<Rightarrow> profile_registry \<Rightarrow> db \<Rightarrow> sensor_installation \<Rightarrow> installation_update
     \<Rightarrow> time \<Rightarrow> sensor_installation result \<times> db" where
  "installation_service_update version_key profiles s installation request now =
     (let checked =
        (case iu_configuration request of
           None \<Rightarrow> Inr ()
         | Some c \<Rightarrow>
             bind_result (registry_get profiles (si_sensor_profile_id installation)
                            (Some (si_sensor_profile_version installation))) (\<lambda>profile.
             bind_result (capability_get s (si_node_id installation)) (\<lambda>capabilities.
               validate_optional_profile version_key profile capabilities (si_interface_id installation) c)))
      in case checked of
           Inl e \<Rightarrow> (Inl e, s)
         | Inr _ \<Rightarrow>
             if iu_display_name request = Some None
             then (Inl (IntegrityError ''NOT NULL constraint failed''), s)
             else installation_update_row s installation (installation_update_values request) now)"

section \<open>Handlers\<close>

definition http_error :: "nat \<Rightarrow> exn \<Rightarrow> exn" where
  "http_error status e = HTTPException status '''' (exn_str e)"

definition create_installation ::
  "(string \<Rightarrow> ('v::linorder) option) \<Rightarrow> (string \<Rightarrow> bool) \<Rightarrow> profile_registry \<Rightarrow> db \<Rightarrow> installation_create
     \<Rightarrow> string \<Rightarrow> time \<Rightarrow> sensor_installation result \<times> db" where
  "create_installation version_key pattern profiles s body uid now =
     (case create_draft version_key pattern profiles s body uid now of
        (Inr r, s') \<Rightarrow> (Inr r, s')
      | (Inl e, s') \<Rightarrow>
          (Inl (case e of DuplicateInstallationError _ \<Rightarrow> http_error 409 e
                | _ \<Rightarrow> if is_value_error e then http_error 422 e else e), s'))"

definition get_installation_handler :: "db \<Rightarrow> string \<Rightarrow> sensor_installation result" where
  "get_installation_handler s k =
     (case get_installation s k of
        None \<Rightarrow> Inl (HTTPException 404 '''' ''installation not found'')
      | Some r \<Rightarrow> if si_archived r then Inl (HTTPException 404 '''' ''installation not found'') else Inr r)"

definition list_installations :: "db \<Rightarrow> sensor_installation list" where
  "list_installations s = installation_list s False"

definition update_installation ::
  "(string \<Rightarrow> ('v::linorder) option) \<Rightarrow> profile_registry \<Rightarrow> db \<Rightarrow> string \<Rightarrow> installation_update \<Rightarrow> time
     \<Rightarrow> sensor_installation result \<times> db" where
  "update_installation version_key profiles s k body now =
     (case get_installation_handler s k of
        Inl e \<Rightarrow> (Inl e, s)
      | Inr installation \<Rightarrow>
          (case installation_service_update version_key profiles s installation body now of
             (Inr r, s') \<Rightarrow> (Inr r, s')
           | (Inl e, s') \<Rightarrow> (Inl (if is_value_error e then http_error 422 e else e), s')))"

definition disable_installation :: "db \<Rightarrow> string \<Rightarrow> time \<Rightarrow> sensor_installation result \<times> db" where
  "disable_installation s k now =
     (case get_installation s k of
        None \<Rightarrow> (Inl (HTTPException 404 '''' ''installation not found''), s)
      | Some installation \<Rightarrow>
          installation_update_row s installation
            (\<lambda>r. r\<lparr>si_enabled := False, si_provisioning_state := ''disabled''\<rparr>) now)"

definition archive_installation :: "db \<Rightarrow> string \<Rightarrow> bool \<Rightarrow> time \<Rightarrow> unit result \<times> db" where
  "archive_installation s k confirm_hard_delete now =
     (case get_installation s k of
        None \<Rightarrow> (Inl (HTTPException 404 '''' ''installation not found''), s)
      | Some installation \<Rightarrow>
          if confirm_hard_delete
          then (Inl (HTTPException 409 '''' ''hard deletion is not supported; disable/archive preserves history''), s)
          else (case installation_update_row s installation
                       (\<lambda>r. r\<lparr>si_archived := True, si_enabled := False, si_provisioning_state := ''disabled''\<rparr>) now of
                  (Inl e, s') \<Rightarrow> (Inl e, s')
                | (Inr _, s') \<Rightarrow> (Inr (), s')))"

definition upgrade_values :: "string \<Rightarrow> sensor_installation \<Rightarrow> sensor_installation" where
  "upgrade_values version r = r\<lparr>si_sensor_profile_version := version,
     si_previous_configuration_json := Some (si_configuration_json r),
     si_provisioning_state := ''ready_to_apply'', si_verification_status := ''pending'', si_enabled := False\<rparr>"

definition upgrade_profile ::
  "(string \<Rightarrow> ('v::linorder) option) \<Rightarrow> profile_registry \<Rightarrow> db \<Rightarrow> string \<Rightarrow> string \<Rightarrow> time
     \<Rightarrow> sensor_installation result \<times> db" where
  "upgrade_profile version_key profiles s k profile_version now =
     (case get_installation s k of
        None \<Rightarrow> (Inl (HTTPException 404 '''' ''installation not found''), s)
      | Some installation \<Rightarrow>
          (case registry_get profiles (si_sensor_profile_id installation) (Some profile_version) of
             Inl e \<Rightarrow> (Inl e, s)
           | Inr None \<Rightarrow> (Inl (HTTPException 404 '''' ''requested profile version not found''), s)
           | Inr (Some profile) \<Rightarrow>
               if profile_version = si_sensor_profile_version installation then (Inr installation, s)
               else (case bind_result (capability_get s (si_node_id installation)) (\<lambda>capabilities.
                            configuration_validate version_key profile capabilities
                              (si_interface_id installation) (si_configuration_json installation)) of
                       Inl e \<Rightarrow> (Inl (if is_value_error e then http_error 422 e else e), s)
                     | Inr _ \<Rightarrow> installation_update_row s installation (upgrade_values profile_version) now)))"

definition provisioning_history :: "db \<Rightarrow> string \<Rightarrow> provisioning_attempt list" where
  "provisioning_history s k =
     rev (sort_key pa_created_at (filter (\<lambda>a. pa_installation_id a = k) (provisioning_attempts s)))"

record installation_preview =
  ip_installation_id :: string
  ip_updating :: bool
  ip_stale :: bool
  ip_constant :: bool
  ip_calibration_status :: string
  ip_channels :: "reading list"

definition preview_rows :: "db \<Rightarrow> int \<Rightarrow> string list \<Rightarrow> reading list" where
  "preview_rows s device_pk channels =
     take 50 (sort_key (\<lambda>r. (- rg_received_at r, - rg_id r))
       (filter (\<lambda>r. rg_registered_device_id r = device_pk \<and> rg_channel r \<in> set channels) (readings s)))"

definition latest_by_channel :: "reading list \<Rightarrow> reading list" where
  "latest_by_channel rows =
     fold (\<lambda>r acc. if \<exists>a \<in> set acc. rg_channel a = rg_channel r then acc else acc @ [r]) rows []"

definition preview_installation :: "db \<Rightarrow> string \<Rightarrow> time \<Rightarrow> installation_preview result" where
  "preview_installation s k now =
     bind_result (get_installation_handler s k) (\<lambda>installation.
     bind_result (capability_get s (si_node_id installation)) (\<lambda>capabilities.
       case find_interface capabilities (si_interface_id installation) of
         None \<Rightarrow> Inl StopIteration
       | Some interface \<Rightarrow>
           (case get_device s (si_node_id installation) of
              None \<Rightarrow> Inl (AttributeError ''NoneType object has no attribute id'')
            | Some node \<Rightarrow>
                let rows = preview_rows s (rd_id node) (ni_telemetry_channels interface);
                    vals = List.map_filter rg_normalized_value (take 5 rows);
                    stale = (rows = [] \<or> now - rg_received_at (hd rows) > 30 * 1000000)
                in Inr \<lparr>ip_installation_id = k, ip_updating = (length rows \<ge> 2 \<and> \<not> stale), ip_stale = stale,
                     ip_constant = (length vals \<ge> 5 \<and> card (set vals) = 1),
                     ip_calibration_status = si_calibration_status installation,
                     ip_channels = latest_by_channel rows\<rparr>)))"

section \<open>Interface exclusivity\<close>

definition exclusive_interface :: "string \<Rightarrow> bool" where
  "exclusive_interface i = (\<exists>x \<in> set node_interfaces. ni_interface_id x = i \<and> ni_exclusive x)"

definition live :: "sensor_installation \<Rightarrow> bool" where
  "live r = (si_enabled r \<and> \<not> si_archived r)"

text \<open>At most one enabled, unarchived installation per exclusive interface, and unique
  installation identifiers.\<close>

definition interfaces_exclusive :: "db \<Rightarrow> bool" where
  "interfaces_exclusive s =
     (\<forall>a \<in> set (sensor_installations s). \<forall>b \<in> set (sensor_installations s).
        live a \<longrightarrow> live b \<longrightarrow> si_node_id a = si_node_id b \<longrightarrow> si_interface_id a = si_interface_id b \<longrightarrow>
        exclusive_interface (si_interface_id a) \<longrightarrow> si_installation_id a = si_installation_id b)"

definition installation_ids_unique :: "db \<Rightarrow> bool" where
  "installation_ids_unique s = distinct (map si_installation_id (sensor_installations s))"

text \<open>No installation other than \<open>k\<close> is live on the interface.\<close>

definition interface_free_for :: "db \<Rightarrow> string \<Rightarrow> string \<Rightarrow> string \<Rightarrow> bool" where
  "interface_free_for s k n i =
     (\<forall>b \<in> set (sensor_installations s). live b \<longrightarrow> si_node_id b = n \<longrightarrow> si_interface_id b = i \<longrightarrow>
        si_installation_id b = k)"

lemma find_interface_exclusive:
  "nc_interfaces c = node_interfaces \<Longrightarrow> find_interface c i = Some x \<Longrightarrow>
     ni_exclusive x \<longleftrightarrow> exclusive_interface i"
proof -
  assume a: "nc_interfaces c = node_interfaces" "find_interface c i = Some x"
  then have x: "x \<in> set node_interfaces" "ni_interface_id x = i" using find_interface_Some[OF a(2)] by simp_all
  have "y = x" if "y \<in> set node_interfaces" "ni_interface_id y = i" for y
    using node_interface_ids that x by (auto simp: distinct_map inj_on_def)
  with x show ?thesis unfolding exclusive_interface_def by blast
qed

lemma occupied_interface_None:
  "k \<noteq> '''' \<Longrightarrow> occupied_interface s n i (Some k) = None \<longleftrightarrow> interface_free_for s k n i"
  by (auto simp: occupied_interface_def find_row_None_iff interface_free_for_def live_def)

lemma occupied_interface_free:
  "occupied_interface s n i (Some k) = None \<Longrightarrow> interface_free_for s k n i"
  by (auto simp: occupied_interface_def find_row_None_iff interface_free_for_def live_def)

text \<open>What an installation keeps through its life: its identity, node, interface and equipment id.\<close>

definition same_slot :: "sensor_installation \<Rightarrow> sensor_installation \<Rightarrow> bool" where
  "same_slot r r0 = (si_installation_id r = si_installation_id r0 \<and> si_node_id r = si_node_id r0
     \<and> si_interface_id r = si_interface_id r0 \<and> si_device_id r = si_device_id r0)"

text \<open>How a database may change: installations are not lost and keep their slots, and no
  installation becomes live except one in the slot \<open>h\<close> of the current lock holder.\<close>

definition evolves :: "(string \<times> string \<times> string) option \<Rightarrow> db \<Rightarrow> db \<Rightarrow> bool" where
  "evolves h s s' =
     ((\<forall>b' \<in> set (sensor_installations s'). live b' \<longrightarrow>
         (\<exists>b \<in> set (sensor_installations s). live b \<and> same_slot b' b)
         \<or> h = Some (si_installation_id b', si_node_id b', si_interface_id b'))
      \<and> (\<forall>k r. get_installation s k = Some r \<longrightarrow> (\<exists>r'. get_installation s' k = Some r' \<and> same_slot r' r))
      \<and> (installation_ids_unique s \<longrightarrow> installation_ids_unique s'))"

definition exclusivity_inv :: "db \<Rightarrow> bool" where
  "exclusivity_inv s = (interfaces_exclusive s \<and> installation_ids_unique s)"

lemma same_slot_refl [simp]: "same_slot r r"
  by (simp add: same_slot_def)

lemma same_slot_trans: "same_slot a b \<Longrightarrow> same_slot b c \<Longrightarrow> same_slot a c"
  by (simp add: same_slot_def)

lemma evolves_refl [simp]: "evolves h s s"
  by (auto simp: evolves_def intro: same_slot_refl)

lemma evolves_weaken: "evolves None s s' \<Longrightarrow> evolves h s s'"
  by (auto simp: evolves_def)

lemma evolvesD:
  assumes "evolves h s s'" and "b' \<in> set (sensor_installations s')" and "live b'"
  obtains (old) b where "b \<in> set (sensor_installations s)" "live b" "same_slot b' b"
    | (holder) "h = Some (si_installation_id b', si_node_id b', si_interface_id b')"
  using assms unfolding evolves_def by blast

lemma evolves_slot:
  assumes "evolves h s s'" and "get_installation s k = Some r"
  obtains r' where "get_installation s' k = Some r'" "same_slot r' r"
  using assms unfolding evolves_def by blast

lemma evolves_trans:
  assumes "evolves h s s1" and "evolves h s1 s2"
  shows "evolves h s s2"
  unfolding evolves_def
proof (intro conjI ballI allI impI)
  fix b' assume b': "b' \<in> set (sensor_installations s2)" "live b'"
  from assms(2) b' show "(\<exists>b \<in> set (sensor_installations s). live b \<and> same_slot b' b)
      \<or> h = Some (si_installation_id b', si_node_id b', si_interface_id b')"
  proof (cases rule: evolvesD)
    case (old b)
    from assms(1) old(1,2) show ?thesis
    proof (cases rule: evolvesD)
      case (old c)
      then show ?thesis using \<open>same_slot b' b\<close> same_slot_trans by blast
    next
      case holder
      then show ?thesis using \<open>same_slot b' b\<close> by (simp add: same_slot_def)
    qed
  qed simp
next
  fix k r assume "get_installation s k = Some r"
  with assms show "\<exists>r'. get_installation s2 k = Some r' \<and> same_slot r' r"
    by (meson evolves_slot same_slot_trans)
next
  assume "installation_ids_unique s"
  with assms show "installation_ids_unique s2" by (simp add: evolves_def)
qed

lemma interfaces_exclusiveD:
  "interfaces_exclusive s \<Longrightarrow> a \<in> set (sensor_installations s) \<Longrightarrow> b \<in> set (sensor_installations s) \<Longrightarrow>
     live a \<Longrightarrow> live b \<Longrightarrow> si_node_id a = si_node_id b \<Longrightarrow> si_interface_id a = si_interface_id b \<Longrightarrow>
     exclusive_interface (si_interface_id a) \<Longrightarrow> si_installation_id a = si_installation_id b"
  unfolding interfaces_exclusive_def by blast

lemma evolves_free:
  assumes "evolves h s s'" and "interface_free_for s k n i"
    and "\<And>k'. h = Some (k', n, i) \<Longrightarrow> k' = k"
  shows "interface_free_for s' k n i"
  unfolding interface_free_for_def
proof (intro ballI impI)
  fix b' assume b': "b' \<in> set (sensor_installations s')" "live b'" and ni: "si_node_id b' = n" "si_interface_id b' = i"
  from assms(1) b' show "si_installation_id b' = k"
  proof (cases rule: evolvesD)
    case (old b)
    then show ?thesis using assms(2) ni by (auto simp: interface_free_for_def same_slot_def)
  next
    case holder
    then show ?thesis using assms(3)[of "si_installation_id b'"] ni by simp
  qed
qed

text \<open>Exclusivity survives when the lock holder's interface was free.\<close>

lemma evolves_exclusive:
  assumes "exclusivity_inv s" and ev: "evolves h s s'"
    and free: "\<And>k n i. h = Some (k, n, i) \<Longrightarrow> exclusive_interface i \<Longrightarrow> interface_free_for s k n i"
  shows "exclusivity_inv s'"
proof -
  have "si_installation_id a = si_installation_id b"
    if a: "a \<in> set (sensor_installations s')" "live a" and b: "b \<in> set (sensor_installations s')" "live b"
      and eq: "si_node_id a = si_node_id b" "si_interface_id a = si_interface_id b"
      and ex: "exclusive_interface (si_interface_id a)" for a b
  proof -
    have holder_only: "si_installation_id y = si_installation_id x"
      if hx: "h = Some (si_installation_id x, si_node_id x, si_interface_id x)"
        and y: "y \<in> set (sensor_installations s')" "live y"
        and "si_node_id y = si_node_id x" "si_interface_id y = si_interface_id x"
        and "exclusive_interface (si_interface_id x)" for x y
    proof -
      have "interface_free_for s (si_installation_id x) (si_node_id x) (si_interface_id x)"
        using free[OF hx] that(6) by simp
      then have "interface_free_for s' (si_installation_id x) (si_node_id x) (si_interface_id x)"
        using ev hx by (intro evolves_free[OF ev]) auto
      then show ?thesis using y that(4,5) by (simp add: interface_free_for_def)
    qed
    from ev a show ?thesis
    proof (cases rule: evolvesD)
      case (old a0)
      note a0 = old
      from ev b show ?thesis
      proof (cases rule: evolvesD)
        case (old b0)
        have "si_installation_id a0 = si_installation_id b0"
          using assms(1) a0 old eq ex
          by (intro interfaces_exclusiveD[of s]) (simp_all add: exclusivity_inv_def same_slot_def)
        then show ?thesis using a0 old by (simp add: same_slot_def)
      next
        case holder
        then show ?thesis using holder_only[OF holder a] eq ex by simp
      qed
    next
      case holder
      then show ?thesis using holder_only[OF holder b] eq ex by simp
    qed
  qed
  then have "interfaces_exclusive s'" unfolding interfaces_exclusive_def by blast
  moreover have "installation_ids_unique s'" using assms(1) ev by (simp add: exclusivity_inv_def evolves_def)
  ultimately show ?thesis by (simp add: exclusivity_inv_def)
qed

section \<open>The handlers never make an installation live\<close>

lemma installation_update_row_cases:
  assumes "installation_update_row s r0 f now = (res, s')" and "si_device_id (f r0) = si_device_id r0"
  shows "res = Inr ((f r0)\<lparr>si_updated_at := now\<rparr>)"
    and "s' = upd_installation s (si_installation_id r0) (\<lambda>_. (f r0)\<lparr>si_updated_at := now\<rparr>)"
  using assms by (auto simp: installation_update_row_def Let_def)

text \<open>Storing a whole row under its own key.\<close>

lemma get_upd_installation:
  assumes "get_installation s k = Some r0" and "si_installation_id r = k"
  shows "get_installation (upd_installation s k (\<lambda>_. r)) k' = (if k' = k then Some r else get_installation s k')"
proof -
  have "find_row (\<lambda>x. si_installation_id x = k') (upd_rows (\<lambda>x. si_installation_id x = k) (\<lambda>_. r) rows)
      = (if k' = k then map_option (\<lambda>_. r) (find_row (\<lambda>x. si_installation_id x = k) rows)
         else find_row (\<lambda>x. si_installation_id x = k') rows)" for rows
    using assms(2) by (induction rows) auto
  with assms(1) show ?thesis by (simp add: get_installation_def upd_installation_def)
qed

lemma upd_installation_evolves:
  assumes "get_installation s k = Some r0" and "same_slot r r0"
    and "live r \<Longrightarrow> live r0 \<or> h = Some (k, si_node_id r0, si_interface_id r0)"
  shows "evolves h s (upd_installation s k (\<lambda>_. r))"
proof -
  have r0: "r0 \<in> set (sensor_installations s)" "si_installation_id r0 = k"
    using assms(1) by (auto dest: get_installation_SomeD)
  have rows: "set (sensor_installations (upd_installation s k (\<lambda>_. r))) \<subseteq> insert r (set (sensor_installations s))"
    by (auto simp: upd_installation_def set_upd_rows)
  have get: "get_installation (upd_installation s k (\<lambda>_. r)) k' = (if k' = k then Some r else get_installation s k')" for k'
    using get_upd_installation[OF assms(1)] assms(2) r0(2) by (simp add: same_slot_def)
  have "installation_ids_unique (upd_installation s k (\<lambda>_. r)) = installation_ids_unique s"
    using assms(2) r0(2) by (simp add: installation_ids_unique_def upd_installation_def map_upd_rows same_slot_def)
  moreover have "(\<exists>b \<in> set (sensor_installations s). live b \<and> same_slot b' b)
      \<or> h = Some (si_installation_id b', si_node_id b', si_interface_id b')"
    if "b' \<in> set (sensor_installations (upd_installation s k (\<lambda>_. r)))" "live b'" for b'
  proof (cases "b' = r")
    case True
    then show ?thesis using that(2) r0 assms(2,3) by (auto simp: same_slot_def)
  next
    case False
    then show ?thesis using that rows same_slot_refl by blast
  qed
  ultimately show ?thesis
    using assms(1,2) unfolding evolves_def get by auto
qed

lemma update_row_evolves:
  assumes "get_installation s k = Some r0" and "installation_update_row s r0 f now = (res, s')"
    and "same_slot (f r0) r0" and "live (f r0) \<Longrightarrow> live r0 \<or> h = Some (k, si_node_id r0, si_interface_id r0)"
  shows "evolves h s s'"
proof -
  have "s' = upd_installation s k (\<lambda>_. (f r0)\<lparr>si_updated_at := now\<rparr>)"
    using installation_update_row_cases(2)[OF assms(2)] assms(1,3)
    by (auto simp: same_slot_def dest: get_installation_SomeD)
  then show ?thesis
    using assms by (auto simp: same_slot_def live_def intro!: upd_installation_evolves)
qed

lemma create_row_evolves:
  assumes "installation_create_row s mk = (res, s')" and "\<And>i. \<not> live (mk i)"
  shows "evolves h s s'"
proof (cases "s' = s")
  case False
  define r where "r = mk (next_id si_id (sensor_installations s))"
  with assms(1) False have s': "s' = s\<lparr>sensor_installations := sensor_installations s @ [r]\<rparr>"
    and new: "get_installation s (si_installation_id r) = None"
    by (auto simp: installation_create_row_def Let_def split: if_splits)
  have "\<not> live r" by (simp add: r_def assms(2))
  moreover have "si_installation_id r \<notin> si_installation_id ` set (sensor_installations s)"
    using new by (auto simp: get_installation_def find_row_None_iff)
  ultimately show ?thesis
    unfolding evolves_def s'
    by (auto simp: get_installation_def find_row_append installation_ids_unique_def intro: same_slot_refl)
qed simp

lemma update_values_slot:
  "same_slot (installation_update_values b r) r" "live (installation_update_values b r) \<Longrightarrow> live r"
  by (simp_all add: installation_update_values_def same_slot_def live_def Let_def split: option.splits if_splits)

lemma create_installation_evolves:
  assumes "create_installation vk pattern profiles s body uid now = (res, s')"
  shows "evolves h s s'"
proof -
  from assms have "\<exists>res'. create_draft vk pattern profiles s body uid now = (res', s')"
    by (auto simp: create_installation_def split: prod.splits sum.splits)
  then show ?thesis
    by (auto simp: create_draft_def draft_row_def live_def split: sum.splits intro: create_row_evolves)
qed

lemma update_installation_evolves:
  assumes "update_installation vk profiles s k body now = (res, s')"
  shows "evolves h s s'"
proof -
  have "s' = s \<or> (\<exists>r0 res'. get_installation s k = Some r0
      \<and> installation_update_row s r0 (installation_update_values body) now = (res', s'))"
    using assms
    by (auto simp: update_installation_def get_installation_handler_def installation_service_update_def Let_def
        split: option.splits sum.splits if_splits prod.splits)
  then show ?thesis
  proof (elim disjE exE conjE)
    fix r0 res'
    assume "get_installation s k = Some r0"
      "installation_update_row s r0 (installation_update_values body) now = (res', s')"
    then show ?thesis
      by (rule update_row_evolves) (simp_all add: update_values_slot)
  qed simp
qed

lemma disable_installation_evolves: "disable_installation s k now = (res, s') \<Longrightarrow> evolves h s s'"
  unfolding disable_installation_def
  by (cases "get_installation s k") (auto simp: same_slot_def live_def elim!: update_row_evolves)

lemma archive_installation_evolves: "archive_installation s k c now = (res, s') \<Longrightarrow> evolves h s s'"
  unfolding archive_installation_def
  by (cases "get_installation s k")
    (auto simp: same_slot_def live_def split: if_splits prod.splits sum.splits elim!: update_row_evolves)

lemma upgrade_profile_evolves: "upgrade_profile vk profiles s k v now = (res, s') \<Longrightarrow> evolves h s s'"
  unfolding upgrade_profile_def
  by (cases "get_installation s k")
    (auto simp: upgrade_values_def same_slot_def live_def split: option.splits if_splits sum.splits
      elim!: update_row_evolves)

end
