(* ===== verification/Lifecycle.thy ===== *)
theory Lifecycle
  imports Devices Installations
begin

text \<open>
  Removing and restoring a registration: the request checks of \<open>gateway/app/request_security.py\<close>, the single-use
  confirmations of \<open>services/lifecycle_confirmation.py\<close>, the service of \<open>services/device_lifecycle_service.py\<close> and
  the handlers of \<open>api/device_lifecycle.py\<close>. Tokens, operation identifiers and the clocks are arguments; the
  splitting of an origin into its parts and the classification of an IP address are the standard library's.
\<close>

section \<open>Request checks\<close>

record split_url =
  su_scheme :: string
  su_username :: "string option"
  su_password :: "string option"
  su_hostname :: "string option"
  su_port :: "int option result"
  su_path :: string
  su_query :: string
  su_fragment :: string

record http_request =
  rq_method :: string
  rq_content_type :: "string option"
  rq_content_length :: "string option"
  rq_origin :: "string option"
  rq_host :: "string option"
  rq_forwarded :: "string option list"
  rq_peer :: "string option"
  rq_scheme :: string
  rq_hostname :: "string option"
  rq_port :: "int option result"

definition MAX_DESTRUCTIVE_BODY_BYTES :: nat where
  "MAX_DESTRUCTIVE_BODY_BYTES = 4096"

definition effective_port :: "string \<Rightarrow> int option \<Rightarrow> int option" where
  "effective_port scheme port =
     (case port of Some p \<Rightarrow> Some p
      | None \<Rightarrow> if scheme = ''http'' then Some 80 else if scheme = ''https'' then Some 443 else None)"

definition ascii_lower_char :: "char \<Rightarrow> char" where
  "ascii_lower_char c = (if CHR ''A'' \<le> c \<and> c \<le> CHR ''Z'' then char_of (of_char c + 32 :: nat) else c)"

text \<open>\<open>int(text)\<close> of a text of decimal digits.\<close>

definition decimal_value :: "string \<Rightarrow> nat" where
  "decimal_value ds = foldl (\<lambda>n c. 10 * n + (of_char c - 48)) 0 ds"

definition is_decimal :: "string \<Rightarrow> bool" where
  "is_decimal ds = (ds \<noteq> [] \<and> list_all is_digit ds)"

text \<open>\<open>a and b and ...\<close>: the ports are read last, and reading one may raise.\<close>

definition same_origin :: "(string \<Rightarrow> split_url result) \<Rightarrow> http_request \<Rightarrow> string \<Rightarrow> bool result" where
  "same_origin urlsplit r origin =
     bind_result (urlsplit origin) (\<lambda>p.
       if su_scheme p \<in> {''http'', ''https''} \<and> \<not> truthy (su_username p) \<and> \<not> truthy (su_password p)
          \<and> su_path p \<in> {'''', ''/''} \<and> su_query p = '''' \<and> su_fragment p = ''''
          \<and> su_scheme p = rq_scheme r \<and> su_hostname p = rq_hostname r
       then bind_result (su_port p) (\<lambda>port. bind_result (rq_port r) (\<lambda>own.
              Inr (effective_port (su_scheme p) port = effective_port (rq_scheme r) own)))
       else Inr False)"

definition require_bounded_same_origin_json :: "(string \<Rightarrow> split_url result) \<Rightarrow> http_request \<Rightarrow> unit result" where
  "require_bounded_same_origin_json urlsplit r =
     (if rq_method r \<noteq> ''POST'' then Inl (HTTPException 405 ''method_not_allowed'' ''POST is required.'')
      else if map ascii_lower_char (py_strip (hd (split_on (CHR '';'') (case rq_content_type r of None \<Rightarrow> '''' | Some c \<Rightarrow> c))))
              \<noteq> ''application/json''
      then Inl (HTTPException 415 ''json_required'' ''application/json is required.'')
      else if (case rq_content_length r of None \<Rightarrow> True
               | Some n \<Rightarrow> \<not> is_decimal n \<or> decimal_value n > MAX_DESTRUCTIVE_BODY_BYTES)
      then Inl (HTTPException 413 ''body_too_large'' ''A bounded request body is required.'')
      else if \<not> truthy (rq_origin r) \<or> \<not> truthy (rq_host r)
      then Inl (HTTPException 403 ''same_origin_required'' ''Origin and Host are required.'')
      else case same_origin urlsplit r (the (rq_origin r)) of
        Inr True \<Rightarrow> Inr ()
      | Inl e \<Rightarrow> if is_value_error e
                then Inl (HTTPException 403 ''same_origin_required'' ''Cross-origin request denied.'') else Inl e
      | Inr False \<Rightarrow> Inl (HTTPException 403 ''same_origin_required'' ''Cross-origin request denied.''))"

text \<open>\<open>is_loopback\<close> gives \<open>None\<close> for a text that is not an IP address.\<close>

definition require_loopback :: "(string \<Rightarrow> bool option) \<Rightarrow> http_request \<Rightarrow> unit result" where
  "require_loopback is_loopback r =
     (if list_ex truthy (rq_forwarded r)
      then Inl (HTTPException 403 ''loopback_required'' ''Forwarded USB reset requests are denied.'')
      else
        let peer = (case rq_peer r of None \<Rightarrow> '''' | Some p \<Rightarrow> p);
            target = (case rq_hostname r of None \<Rightarrow> '''' | Some h \<Rightarrow> h);
            peer_loopback = (case is_loopback peer of Some b \<Rightarrow> b | None \<Rightarrow> peer = ''testclient'');
            target_loopback = (case is_loopback target of Some b \<Rightarrow> b | None \<Rightarrow> target \<in> {''localhost'', ''testserver''})
        in if peer_loopback \<and> target_loopback then Inr ()
           else Inl (HTTPException 403 ''loopback_required'' ''USB reset is loopback-only.''))"

section \<open>Single-use tokens\<close>

text \<open>
  The contract the two confirmation stores of the gateway share: a token is put with the identity it confirms,
  taking it succeeds exactly when it is present with that identity and not expired, and any attempt to take
  it removes it. Putting may drop other entries, never add or change one.
\<close>

datatype 'k token_op = Put string 'k time | Take string 'k time

locale token_store =
  fixes put :: "'s \<Rightarrow> string \<Rightarrow> 'k \<Rightarrow> time \<Rightarrow> 's"
    and take_token :: "'s \<Rightarrow> string \<Rightarrow> 'k \<Rightarrow> time \<Rightarrow> unit result \<times> 's"
    and pending :: "'s \<Rightarrow> string \<Rightarrow> ('k \<times> time) option"
    and ttl :: int
  assumes take_ok: "fst (take_token s token k t) = Inr () \<longleftrightarrow> (\<exists>e. pending s token = Some (k, e) \<and> t < e)"
    and take_pending: "pending (snd (take_token s token k t)) = (pending s)(token := None)"
    and put_same: "pending (put s token k t) token = Some (k, t + ttl)"
    and put_other: "token' \<noteq> token \<Longrightarrow> pending (put s token k t) token' \<in> {None, pending s token'}"
begin

definition apply_op :: "'k token_op \<Rightarrow> 's \<Rightarrow> 's" where
  "apply_op oper s = (case oper of Put token k t \<Rightarrow> put s token k t | Take token k t \<Rightarrow> snd (take_token s token k t))"

lemma apply_op_simps [simp]:
  "apply_op (Put token k t) s = put s token k t"
  "apply_op (Take token k t) s = snd (take_token s token k t)"
  by (simp_all add: apply_op_def)

lemma taken_once:
  "fst (take_token (snd (take_token s token k t)) token k' t') \<noteq> Inr ()"
  by (simp add: take_ok take_pending)

lemma put_take: "t' < t + ttl \<Longrightarrow> fst (take_token (put s token k t) token k t') = Inr ()"
  by (simp add: take_ok put_same)

text \<open>Every pending entry was put, and its token was neither taken nor put again since.\<close>

lemma pending_was_put:
  assumes "\<And>token. pending s token = None"
    and "pending (fold apply_op opers s) token = Some (k, e)"
  shows "\<exists>before t after. opers = before @ Put token k t # after \<and> e = t + ttl
    \<and> (\<forall>k' t'. Take token k' t' \<notin> set after) \<and> (\<forall>k' t'. Put token k' t' \<notin> set after)"
  using assms(2)
proof (induction opers rule: rev_induct)
  case Nil
  with assms(1) show ?case by simp
next
  case (snoc oper opers)
  let ?s = "fold apply_op opers s"
  consider (new) t where "oper = Put token k t" "e = t + ttl"
    | (old) "pending ?s token = Some (k, e)" "\<forall>k' t'. oper \<noteq> Take token k' t'" "\<forall>k' t'. oper \<noteq> Put token k' t'"
  proof (cases oper)
    case (Put token' k' t)
    with snoc.prems put_same[of ?s token' k' t] put_other[of token token' ?s k' t] show ?thesis
      by (cases "token' = token") (auto intro: new old)
  next
    case (Take token' k' t)
    with snoc.prems take_pending[of ?s token' k' t] show ?thesis
      by (cases "token' = token") (auto intro: old)
  qed
  then show ?case
  proof cases
    case new
    then show ?thesis by (intro exI[of _ opers] exI[of _ t] exI[of _ "[]"]) simp
  next
    case old
    from snoc.IH[OF old(1)] obtain before t after where
      "opers = before @ Put token k t # after" "e = t + ttl"
      "\<forall>k' t'. Take token k' t' \<notin> set after" "\<forall>k' t'. Put token k' t' \<notin> set after" by blast
    with old show ?thesis
      by (intro exI[of _ before] exI[of _ t] exI[of _ "after @ [oper]"]) auto
  qed
qed

text \<open>A successful take is authorised by one put of the same identity, recent enough and not used before.\<close>

lemma take_authorised:
  assumes "\<And>token. pending s token = None"
    and "fst (take_token (fold apply_op opers s) token k now) = Inr ()"
  shows "\<exists>before t after. opers = before @ Put token k t # after \<and> now < t + ttl
    \<and> (\<forall>k' t'. Take token k' t' \<notin> set after)"
proof -
  obtain e where "pending (fold apply_op opers s) token = Some (k, e)" "now < e"
    using assms(2) by (auto simp: take_ok)
  with pending_was_put[OF assms(1), of opers token k e] show ?thesis by blast
qed

end

section \<open>Lifecycle confirmations\<close>

record identity =
  ic_operation :: string
  ic_record_id :: int
  ic_device_id :: string
  ic_hardware_id :: "string option"
  ic_ble_address :: "string option"

record pending_confirmation =
  pc_identity :: identity
  pc_expires_at :: time

type_synonym confirmation_store = "string \<rightharpoonup> pending_confirmation"

definition confirmation_ttl :: int where
  "confirmation_ttl = 120 * 1000000"

definition purge :: "confirmation_store \<Rightarrow> time \<Rightarrow> confirmation_store" where
  "purge st now = (\<lambda>token. case st token of None \<Rightarrow> None | Some p \<Rightarrow> if pc_expires_at p > now then Some p else None)"

definition issue :: "confirmation_store \<Rightarrow> string \<Rightarrow> identity \<Rightarrow> time \<Rightarrow> confirmation_store" where
  "issue st token i now =
     (purge st now)(token \<mapsto> \<lparr>pc_identity = i, pc_expires_at = now + confirmation_ttl\<rparr>)"

definition consume :: "confirmation_store \<Rightarrow> string \<Rightarrow> identity \<Rightarrow> time \<Rightarrow> unit result \<times> confirmation_store" where
  "consume st token i now =
     (case st token of
        None \<Rightarrow> (Inl (ValueError ''confirmation token is missing, expired, or already used''), st)
      | Some p \<Rightarrow>
          let st' = st(token := None) in
          if pc_expires_at p \<le> now then (Inl (ValueError ''confirmation token expired''), st')
          else if pc_identity p \<noteq> i
          then (Inl (ValueError ''confirmation token does not match the requested operation and identity''), st')
          else (Inr (), st'))"

definition confirmation_pending :: "confirmation_store \<Rightarrow> string \<Rightarrow> (identity \<times> time) option" where
  "confirmation_pending st token = map_option (\<lambda>p. (pc_identity p, pc_expires_at p)) (st token)"

interpretation confirmations: token_store issue consume confirmation_pending confirmation_ttl
proof
  show "fst (consume s token k t) = Inr () \<longleftrightarrow> (\<exists>e. confirmation_pending s token = Some (k, e) \<and> t < e)" for s token k t
    by (auto simp: consume_def confirmation_pending_def Let_def split: option.splits)
  show "confirmation_pending (snd (consume s token k t)) = (confirmation_pending s)(token := None)" for s token k t
    by (auto simp: consume_def confirmation_pending_def Let_def fun_eq_iff split: option.splits)
  show "confirmation_pending (issue s token k t) token = Some (k, t + confirmation_ttl)" for s token k t
    by (simp add: issue_def confirmation_pending_def)
  show "token' \<noteq> token \<Longrightarrow> confirmation_pending (issue s token k t) token' \<in> {None, confirmation_pending s token'}"
    for s token token' k t
    by (auto simp: issue_def confirmation_pending_def purge_def split: option.splits if_splits)
qed

section \<open>Removal and restoration\<close>

record lifecycle_result =
  lr_operation_id :: string
  lr_status :: string
  lr_device_id :: string
  lr_lifecycle_state :: string
  lr_already_applied :: bool
  lr_telemetry_preserved :: bool
  lr_physical_sensor_changed :: bool

definition lifecycle_outcome :: "string \<Rightarrow> string \<Rightarrow> string \<Rightarrow> bool \<Rightarrow> lifecycle_result" where
  "lifecycle_outcome operation_id status device_id already =
     \<lparr>lr_operation_id = operation_id, lr_status = status, lr_device_id = device_id, lr_lifecycle_state = status,
      lr_already_applied = already, lr_telemetry_preserved = True, lr_physical_sensor_changed = False\<rparr>"

definition lifecycle_event ::
  "db \<Rightarrow> string \<Rightarrow> string \<Rightarrow> registered_device \<Rightarrow> string \<Rightarrow> string \<Rightarrow> bool \<Rightarrow> dict \<Rightarrow> time \<Rightarrow> device_lifecycle_event" where
  "lifecycle_event s operation_id event_type device connectivity method requested detail now =
     \<lparr>le_id = next_id le_id (device_lifecycle_events s), le_operation_id = operation_id, le_event_type = event_type,
      le_device_id = rd_device_id device, le_display_name = rd_display_name device, le_hardware_id = rd_hardware_id device,
      le_ble_address = rd_ble_address device, le_connectivity_state = connectivity, le_method = method,
      le_factory_reset_requested = requested, le_result = ''success'', le_detail_json = detail, le_created_at = now\<rparr>"

definition removed_values :: "string option \<Rightarrow> time \<Rightarrow> registered_device \<Rightarrow> registered_device" where
  "removed_values reason now d =
     d\<lparr>rd_archived := True, rd_enabled := False, rd_lifecycle_state := ''removed'', rd_removed_at := Some now,
       rd_removal_reason := reason, rd_connection_status := ''disabled'', rd_updated_at := now\<rparr>"

definition removed_installation :: "time \<Rightarrow> sensor_installation \<Rightarrow> sensor_installation" where
  "removed_installation now r =
     r\<lparr>si_archived := True, si_enabled := False, si_provisioning_state := ''removed'', si_updated_at := now\<rparr>"

definition lifecycle_remove ::
  "db \<Rightarrow> string \<Rightarrow> string option \<Rightarrow> string \<Rightarrow> string \<Rightarrow> bool \<Rightarrow> string \<Rightarrow> time \<Rightarrow> lifecycle_result result \<times> db" where
  "lifecycle_remove s device_id reason connectivity method requested operation_id now =
     (case get_device s device_id of
        None \<Rightarrow> (Inl (LifecycleError ''device_not_found'' ''Sensor registration was not found.''), s)
      | Some device \<Rightarrow>
          if rd_archived device \<or> rd_lifecycle_state device = ''removed''
          then (Inr (lifecycle_outcome ''existing'' ''removed'' device_id True), s)
          else
            let affected = filter (\<lambda>r. si_node_id r = device_id) (sensor_installations s);
                s1 = upd_device s device_id (removed_values reason now);
                event = lifecycle_event s operation_id ''gateway_removed'' device connectivity method requested
                  [(''reason_recorded'', JBool (truthy reason)), (''installations_archived'', JInt (int (length affected)))] now
            in (Inr (lifecycle_outcome operation_id ''removed'' device_id False),
                s1\<lparr>sensor_installations :=
                      upd_rows (\<lambda>r. si_node_id r = device_id) (removed_installation now) (sensor_installations s),
                    device_lifecycle_events := device_lifecycle_events s @ [event]\<rparr>))"

definition restored_values :: "time \<Rightarrow> registered_device \<Rightarrow> registered_device" where
  "restored_values now d =
     d\<lparr>rd_archived := False, rd_enabled := True, rd_lifecycle_state := ''active'', rd_removed_at := None,
       rd_removal_reason := None, rd_connection_status := ''disconnected'', rd_updated_at := now\<rparr>"

definition lifecycle_restore ::
  "(string \<Rightarrow> string) \<Rightarrow> db \<Rightarrow> string \<Rightarrow> string option \<Rightarrow> string option \<Rightarrow> string \<Rightarrow> time \<Rightarrow> lifecycle_result result \<times> db" where
  "lifecycle_restore casefold s device_id expected_hardware_id expected_ble_address operation_id now =
     (case get_device s device_id of
        None \<Rightarrow> (Inl (LifecycleError ''device_not_found'' ''Removed sensor registration was not found.''), s)
      | Some device \<Rightarrow>
          if \<not> rd_archived device \<and> rd_lifecycle_state device = ''active''
          then (Inr (lifecycle_outcome ''existing'' ''active'' device_id True), s)
          else if truthy (rd_hardware_id device) \<and> expected_hardware_id \<noteq> rd_hardware_id device
          then (Inl (LifecycleError ''hardware_identity_mismatch''
                  ''Physical hardware identity does not match the removed sensor.''), s)
          else if truthy (rd_ble_address device)
                  \<and> (\<not> truthy expected_ble_address
                     \<or> casefold (the expected_ble_address) \<noteq> casefold (the (rd_ble_address device)))
          then (Inl (LifecycleError ''ble_identity_mismatch''
                  ''BLE address does not match the removed sensor registration.''), s)
          else if truthy (rd_hardware_id device)
                  \<and> get_other_by_hardware_id s (the (rd_hardware_id device)) (rd_id device) \<noteq> None
          then (Inl (LifecycleError ''hardware_identity_conflict''
                  ''Hardware identity is associated with another sensor record; resolve it first.''), s)
          else
            let s1 = upd_device s device_id (restored_values now);
                event = lifecycle_event s operation_id ''gateway_restored'' device ''disconnected'' ''dashboard_confirmed'' False
                  [(''identity_verified'', JBool True)] now
            in (Inr (lifecycle_outcome operation_id ''active'' device_id False),
                s1\<lparr>device_lifecycle_events := device_lifecycle_events s @ [event]\<rparr>))"

section \<open>The handlers\<close>

text \<open>The application state the handlers touch beside the database.\<close>

record lifecycle_app =
  la_confirmations :: confirmation_store
  la_results :: "((string \<times> string) \<times> json) list"

definition removed_devices :: "db \<Rightarrow> registered_device list" where
  "removed_devices s = filter rd_archived (device_list s True)"

definition first_nonempty :: "string option \<Rightarrow> string option \<Rightarrow> string option" where
  "first_nonempty a b = (if truthy a then a else b)"

definition handler_identity :: "string \<Rightarrow> registered_device \<Rightarrow> string \<Rightarrow> string option \<Rightarrow> identity" where
  "handler_identity operation device device_id expected_hardware_id =
     \<lparr>ic_operation = operation, ic_record_id = rd_id device, ic_device_id = device_id,
      ic_hardware_id = first_nonempty (rd_hardware_id device) expected_hardware_id,
      ic_ble_address = rd_ble_address device\<rparr>"

record confirmation_response =
  cs_token :: string
  cs_identity :: identity
  cs_display_name :: string
  cs_connection_status :: string

text \<open>\<open>runtime\<close> is the connection status the connection manager reports for a device.\<close>

definition prepare_confirmation ::
  "(string \<Rightarrow> split_url result) \<Rightarrow> (string \<Rightarrow> string) \<Rightarrow> http_request \<Rightarrow> db \<Rightarrow> lifecycle_app \<Rightarrow> lifecycle_confirmation_request
     \<Rightarrow> string \<Rightarrow> time \<Rightarrow> confirmation_response result \<times> lifecycle_app" where
  "prepare_confirmation urlsplit runtime r s app body token clock =
     (case require_bounded_same_origin_json urlsplit r of
        Inl e \<Rightarrow> (Inl e, app)
      | Inr _ \<Rightarrow>
        (case get_device s (lq_device_id body) of
           None \<Rightarrow> (Inl (HTTPException 404 ''device_not_found'' ''Sensor registration was not found.''), app)
         | Some device \<Rightarrow>
             if truthy (lq_expected_hardware_id body) \<and> truthy (rd_hardware_id device)
                \<and> lq_expected_hardware_id body \<noteq> rd_hardware_id device
             then (Inl (HTTPException 409 ''hardware_identity_mismatch'' ''Hardware identity mismatch.''), app)
             else if lq_operation body = ''restore'' \<and> truthy (rd_hardware_id device)
                     \<and> lq_expected_hardware_id body \<noteq> rd_hardware_id device
             then (Inl (HTTPException 409 ''hardware_identity_required'' ''Exact stored hardware identity is required.''), app)
             else if lq_operation body = ''restore'' \<and> truthy (rd_ble_address device)
                     \<and> lq_expected_ble_address body \<noteq> rd_ble_address device
             then (Inl (HTTPException 409 ''ble_identity_required'' ''Exact stored BLE identity is required.''), app)
             else
               let shown = (if lq_operation body = ''remove'' \<and> rd_archived device then ''removed''
                            else if lq_operation body = ''restore'' \<and> \<not> rd_archived device then ''active''
                            else rd_lifecycle_state device);
                   i = handler_identity (lq_operation body) device (lq_device_id body) (lq_expected_hardware_id body)
               in (Inr \<lparr>cs_token = token, cs_identity = i, cs_display_name = rd_display_name device,
                        cs_connection_status = (if shown \<noteq> ''removed'' then runtime (rd_device_id device) else ''removed'')\<rparr>,
                   app\<lparr>la_confirmations := issue (la_confirmations app) token i clock\<rparr>)))"

definition lifecycle_http :: "exn \<Rightarrow> exn" where
  "lifecycle_http e = (case e of LifecycleError code m \<Rightarrow> HTTPException 409 code m | _ \<Rightarrow> e)"

definition lifecycle_execute ::
  "(string \<Rightarrow> split_url result) \<Rightarrow> (string \<Rightarrow> string) \<Rightarrow> (string \<Rightarrow> string) \<Rightarrow> http_request \<Rightarrow> db \<Rightarrow> lifecycle_app
     \<Rightarrow> lifecycle_execute_request \<Rightarrow> string \<Rightarrow> time \<Rightarrow> time
     \<Rightarrow> lifecycle_result result \<times> db \<times> lifecycle_app \<times> manager_call list" where
  "lifecycle_execute urlsplit casefold runtime r s app body operation_id clock now =
     (case require_bounded_same_origin_json urlsplit r of
        Inl e \<Rightarrow> (Inl e, s, app, [])
      | Inr _ \<Rightarrow>
        (case get_device s (lx_device_id body) of
           None \<Rightarrow> (Inl (HTTPException 404 ''device_not_found'' ''Sensor registration was not found.''), s, app, [])
         | Some device \<Rightarrow>
             let i = handler_identity (lx_operation body) device (lx_device_id body) (lx_expected_hardware_id body);
                 (confirmed, store) = consume (la_confirmations app) (lx_confirmation_token body) i clock;
                 app1 = app\<lparr>la_confirmations := store\<rparr> in
             (case confirmed of
                Inl e \<Rightarrow> (Inl (HTTPException 409 ''invalid_confirmation'' (exn_str e)), s, app1, [])
              | Inr _ \<Rightarrow>
                  if lx_operation body = ''remove'' then
                    (case lifecycle_remove s (lx_device_id body) (lx_reason body) (runtime (lx_device_id body))
                            ''dashboard_confirmed'' False operation_id now of
                       (Inl e, s') \<Rightarrow> (Inl (lifecycle_http e), s', app1, [])
                     | (Inr x, s') \<Rightarrow>
                         (Inr x, s', app1\<lparr>la_results := filter (\<lambda>(k, _). fst k \<noteq> lx_device_id body) (la_results app1)\<rparr>,
                          [ManagerRemove (lx_device_id body)]))
                  else
                    (case lifecycle_restore casefold s (lx_device_id body) (lx_expected_hardware_id body)
                            (lx_expected_ble_address body) operation_id now of
                       (Inl e, s') \<Rightarrow> (Inl (lifecycle_http e), s', app1, [])
                     | (Inr x, s') \<Rightarrow>
                         (Inr x, s', app1,
                          case get_device s' (lx_device_id body) of
                            None \<Rightarrow> []
                          | Some d \<Rightarrow> if truthy (rd_ble_address d)
                                     then [ManagerSchedule (rd_device_id d) (the (rd_ble_address d))] else [])))))"

definition lifecycle_cancel ::
  "(string \<Rightarrow> split_url result) \<Rightarrow> http_request \<Rightarrow> db \<Rightarrow> lifecycle_app \<Rightarrow> lifecycle_execute_request \<Rightarrow> time
     \<Rightarrow> unit result \<times> lifecycle_app" where
  "lifecycle_cancel urlsplit r s app body clock =
     (case require_bounded_same_origin_json urlsplit r of
        Inl e \<Rightarrow> (Inl e, app)
      | Inr _ \<Rightarrow>
        (case get_device s (lx_device_id body) of
           None \<Rightarrow> (Inl (HTTPException 404 ''device_not_found'' ''Sensor registration not found.''), app)
         | Some device \<Rightarrow>
             let i = handler_identity (lx_operation body) device (lx_device_id body) (lx_expected_hardware_id body);
                 (confirmed, store) = consume (la_confirmations app) (lx_confirmation_token body) i clock
             in (case confirmed of Inl e \<Rightarrow> Inl (HTTPException 409 ''invalid_confirmation'' (exn_str e)) | Inr _ \<Rightarrow> Inr (),
                 app\<lparr>la_confirmations := store\<rparr>)))"

section \<open>Confirmed operations\<close>

text \<open>The store after a sequence of issued tokens and attempts to use one.\<close>

fun confirmation_step :: "identity token_op \<Rightarrow> confirmation_store \<Rightarrow> confirmation_store" where
  "confirmation_step (Put token i t) st = issue st token i t"
| "confirmation_step (Take token i t) st = snd (consume st token i t)"

lemma confirmation_step_apply: "confirmation_step = confirmations.apply_op"
proof (rule ext, rule ext)
  fix oper st
  show "confirmation_step oper st = confirmations.apply_op oper st" by (cases oper) simp_all
qed

text \<open>When \<open>execute\<close> changes anything, the token it was given was consumed successfully.\<close>

lemma execute_consumes:
  assumes "lifecycle_execute urlsplit casefold runtime r s app body operation_id clock now = (res, s', app', calls)"
    and "s' \<noteq> s \<or> calls \<noteq> []"
  obtains d where "get_device s (lx_device_id body) = Some d" "require_bounded_same_origin_json urlsplit r = Inr ()"
    "fst (consume (la_confirmations app) (lx_confirmation_token body)
       (handler_identity (lx_operation body) d (lx_device_id body) (lx_expected_hardware_id body)) clock) = Inr ()"
    "la_confirmations app' = snd (consume (la_confirmations app) (lx_confirmation_token body)
       (handler_identity (lx_operation body) d (lx_device_id body) (lx_expected_hardware_id body)) clock)"
proof (cases "require_bounded_same_origin_json urlsplit r")
  case (Inl e)
  with assms show ?thesis by (simp add: lifecycle_execute_def)
next
  case ok: (Inr u)
  show ?thesis
  proof (cases "get_device s (lx_device_id body)")
    case None
    with assms ok show ?thesis by (simp add: lifecycle_execute_def)
  next
    case (Some d)
    obtain confirmed store where c: "consume (la_confirmations app) (lx_confirmation_token body)
       (handler_identity (lx_operation body) d (lx_device_id body) (lx_expected_hardware_id body)) clock = (confirmed, store)"
      by fastforce
    show ?thesis
    proof (cases confirmed)
      case (Inl e)
      with assms ok Some c show ?thesis by (simp add: lifecycle_execute_def)
    next
      case (Inr v)
      have "la_confirmations app' = store"
        using assms(1) ok Some c Inr
        by (auto simp: lifecycle_execute_def Let_def split: if_splits prod.splits sum.splits)
      with that[OF Some] ok c Inr show ?thesis by simp
    qed
  qed
qed


section \<open>Removal and restoration as a round trip\<close>

lemma remove_effect:
  assumes "get_device s device_id = Some d" "\<not> rd_archived d" "rd_lifecycle_state d \<noteq> ''removed''"
    and "lifecycle_remove s device_id reason connectivity method requested operation_id now = (res, s')"
  shows "res = Inr (lifecycle_outcome operation_id ''removed'' device_id False)
    \<and> get_device s' device_id = Some (removed_values reason now d)
    \<and> registered_devices s' = upd_rows (\<lambda>d. rd_device_id d = device_id) (removed_values reason now) (registered_devices s)
    \<and> sensor_installations s' = upd_rows (\<lambda>r. si_node_id r = device_id) (removed_installation now) (sensor_installations s)
    \<and> readings s' = readings s \<and> vibration_windows s' = vibration_windows s
    \<and> length (device_lifecycle_events s') = length (device_lifecycle_events s) + 1"
proof -
  have "get_device (upd_device s device_id (removed_values reason now)) device_id = Some (removed_values reason now d)"
    using devices.get_upd_same[of "removed_values reason now", OF _ assms(1)] by (simp add: removed_values_def)
  with assms show ?thesis
    by (auto simp: lifecycle_remove_def Let_def get_device_def upd_device_def)
qed

lemma restore_effect:
  assumes "get_device s device_id = Some d" "rd_archived d \<or> rd_lifecycle_state d \<noteq> ''active''"
    and "truthy (rd_hardware_id d) \<Longrightarrow> hardware = rd_hardware_id d"
    and "truthy (rd_ble_address d) \<Longrightarrow> address = rd_ble_address d"
    and "truthy (rd_hardware_id d) \<Longrightarrow> get_other_by_hardware_id s (the (rd_hardware_id d)) (rd_id d) = None"
    and "lifecycle_restore casefold s device_id hardware address operation_id now = (res, s')"
  shows "res = Inr (lifecycle_outcome operation_id ''active'' device_id False)
    \<and> get_device s' device_id = Some (restored_values now d)
    \<and> sensor_installations s' = sensor_installations s
    \<and> readings s' = readings s \<and> vibration_windows s' = vibration_windows s
    \<and> length (device_lifecycle_events s') = length (device_lifecycle_events s) + 1"
proof -
  have new: "get_device (upd_device s device_id (restored_values now)) device_id = Some (restored_values now d)"
    using devices.get_upd_same[of "restored_values now", OF _ assms(1)] by (simp add: restored_values_def)
  have guards: "\<not> (truthy (rd_hardware_id d) \<and> hardware \<noteq> rd_hardware_id d)"
    "\<not> (truthy (rd_ble_address d) \<and> (\<not> truthy address \<or> casefold (the address) \<noteq> casefold (the (rd_ble_address d))))"
    "\<not> (truthy (rd_hardware_id d) \<and> get_other_by_hardware_id s (the (rd_hardware_id d)) (rd_id d) \<noteq> None)"
    "\<not> (\<not> rd_archived d \<and> rd_lifecycle_state d = ''active'')"
    using assms(2-5) by auto
  have "lifecycle_restore casefold s device_id hardware address operation_id now
      = (Inr (lifecycle_outcome operation_id ''active'' device_id False),
         (upd_device s device_id (restored_values now))\<lparr>device_lifecycle_events := device_lifecycle_events s
           @ [lifecycle_event s operation_id ''gateway_restored'' d ''disconnected'' ''dashboard_confirmed'' False
                [(''identity_verified'', JBool True)] now]\<rparr>)"
    unfolding lifecycle_restore_def assms(1) option.case Let_def by (simp only: guards if_False)
  with new assms(6) show ?thesis by (auto simp: get_device_def)
qed

lemma other_hardware_upd:
  assumes "\<And>d. rd_hardware_id (f d) = rd_hardware_id d" "\<And>d. rd_id (f d) = rd_id d"
  shows "find_row (\<lambda>d. rd_hardware_id d = h \<and> rd_id d \<noteq> i) (upd_rows p f rows) = None
     \<longleftrightarrow> find_row (\<lambda>d. rd_hardware_id d = h \<and> rd_id d \<noteq> i) rows = None"
proof -
  have same: "rd_hardware_id (if p d then f d else d) = rd_hardware_id d" "rd_id (if p d then f d else d) = rd_id d" for d
    using assms by simp_all
  show ?thesis unfolding find_row_None_iff set_upd_rows ball_simps same ..
qed

text \<open>Removing an active registration and restoring it with the stored identity gives the registration back: both
  calls succeed, every attribute of the row but its status and time stamps is as before, no telemetry
  is lost, the installations stay archived and disabled, and each call leaves one lifecycle event.
  Removing once more before the restoration changes nothing.\<close>

theorem remove_restore_roundtrip:
  assumes "get_device s device_id = Some d" "\<not> rd_archived d" "rd_enabled d" "rd_lifecycle_state d = ''active''"
    and "rd_removed_at d = None" "rd_removal_reason d = None"
    and "truthy (rd_hardware_id d) \<Longrightarrow> get_other_by_hardware_id s (the (rd_hardware_id d)) (rd_id d) = None"
    and "lifecycle_remove s device_id reason connectivity method requested op1 t1 = (r1, s1)"
    and "lifecycle_restore casefold s1 device_id (rd_hardware_id d) (rd_ble_address d) op2 t2 = (r2, s2)"
  shows "is_ok r1 \<and> is_ok r2
    \<and> get_device s2 device_id = Some (d\<lparr>rd_connection_status := ''disconnected'', rd_updated_at := t2\<rparr>)
    \<and> readings s2 = readings s \<and> vibration_windows s2 = vibration_windows s
    \<and> sensor_installations s2 = map (\<lambda>r. if si_node_id r = device_id
          then r\<lparr>si_archived := True, si_enabled := False, si_provisioning_state := ''removed'', si_updated_at := t1\<rparr> else r)
        (sensor_installations s)
    \<and> length (device_lifecycle_events s2) = length (device_lifecycle_events s) + 2
    \<and> (\<exists>x. lifecycle_remove s1 device_id reason' connectivity' method' requested' op3 t3 = (Inr x, s1) \<and> lr_already_applied x)"
proof -
  let ?d1 = "removed_values reason t1 d"
  have active: "rd_lifecycle_state d \<noteq> ''removed''" using assms(4) by simp
  note rem = remove_effect[OF assms(1,2) active assms(8)]
  have d1: "get_device s1 device_id = Some ?d1" using rem by blast
  have hw: "truthy (rd_hardware_id ?d1) \<Longrightarrow> get_other_by_hardware_id s1 (the (rd_hardware_id ?d1)) (rd_id ?d1) = None"
    using assms(7) rem other_hardware_upd[of "removed_values reason t1"]
    by (simp add: get_other_by_hardware_id_def removed_values_def)
  have gone: "rd_archived ?d1 \<or> rd_lifecycle_state ?d1 \<noteq> ''active''" by (simp add: removed_values_def)
  have same: "rd_hardware_id ?d1 = rd_hardware_id d" "rd_ble_address ?d1 = rd_ble_address d"
    by (simp_all add: removed_values_def)
  note res = restore_effect[OF d1 gone _ _ hw assms(9), unfolded same, OF refl refl]
  have same_row: "restored_values t2 ?d1 = d\<lparr>rd_connection_status := ''disconnected'', rd_updated_at := t2\<rparr>"
    using assms(2-6) by (simp add: restored_values_def removed_values_def)
  have again: "lifecycle_remove s1 device_id reason' connectivity' method' requested' op3 t3
      = (Inr (lifecycle_outcome ''existing'' ''removed'' device_id True), s1)"
    using d1 by (simp add: lifecycle_remove_def removed_values_def)
  show ?thesis
    using rem res same_row again
    by (simp add: upd_rows_def removed_installation_def[abs_def] lifecycle_outcome_def)
qed

definition sample_sensor :: "int \<Rightarrow> string \<Rightarrow> registered_device" where
  "sample_sensor i k = (device_defaults i 0)\<lparr>rd_device_id := k, rd_ble_address := Some ''AA:BB'', rd_hardware_id := None\<rparr>"

definition sample_lifecycle_db :: db where
  "sample_lifecycle_db = empty_db\<lparr>registered_devices := [sample_sensor 1 ''S-1'']\<rparr>"

lemma sample_sensor_fields:
  "rd_device_id (sample_sensor i k) = k" "rd_id (sample_sensor i k) = i" "\<not> rd_archived (sample_sensor i k)"
  "rd_enabled (sample_sensor i k)" "rd_lifecycle_state (sample_sensor i k) = ''active''"
  "rd_removed_at (sample_sensor i k) = None" "rd_removal_reason (sample_sensor i k) = None"
  "rd_hardware_id (sample_sensor i k) = None" "rd_ble_address (sample_sensor i k) = Some ''AA:BB''"
  by (simp_all add: sample_sensor_def device_defaults_def)

lemma sample_lifecycle_get: "get_device sample_lifecycle_db ''S-1'' = Some (sample_sensor 1 ''S-1'')"
  by (simp add: sample_lifecycle_db_def get_device_def sample_sensor_fields)

theorem remove_restore_roundtrip_witness:
  "\<exists>r1 s1 r2 s2. lifecycle_remove sample_lifecycle_db ''S-1'' None ''connected'' ''dashboard_confirmed'' False ''op-1'' 5 = (r1, s1)
     \<and> lifecycle_restore id s1 ''S-1'' None (Some ''AA:BB'') ''op-2'' 6 = (r2, s2)
     \<and> get_device s2 ''S-1'' = Some ((sample_sensor 1 ''S-1'')\<lparr>rd_connection_status := ''disconnected'', rd_updated_at := 6\<rparr>)"
proof -
  obtain r1 s1 where rem: "lifecycle_remove sample_lifecycle_db ''S-1'' None ''connected'' ''dashboard_confirmed'' False ''op-1'' 5 = (r1, s1)"
    by fastforce
  obtain r2 s2 where res: "lifecycle_restore id s1 ''S-1'' None (Some ''AA:BB'') ''op-2'' 6 = (r2, s2)" by fastforce
  have "get_device s2 ''S-1'' = Some ((sample_sensor 1 ''S-1'')\<lparr>rd_connection_status := ''disconnected'', rd_updated_at := 6\<rparr>)"
    using remove_restore_roundtrip[OF sample_lifecycle_get _ _ _ _ _ _ rem, of id "''op-2''" 6 r2 s2] res
    by (simp add: sample_sensor_fields)
  with rem res show ?thesis by blast
qed

definition sample_request :: http_request where
  "sample_request = \<lparr>rq_method = ''POST'', rq_content_type = Some ''application/json'', rq_content_length = Some ''120'',
     rq_origin = Some ''http://gw'', rq_host = Some ''gw'', rq_forwarded = [], rq_peer = Some ''10.0.0.2'',
     rq_scheme = ''http'', rq_hostname = Some ''gw'', rq_port = Inr None\<rparr>"

definition sample_urlsplit :: "string \<Rightarrow> split_url result" where
  "sample_urlsplit url = Inr \<lparr>su_scheme = ''http'', su_username = None, su_password = None, su_hostname = Some ''gw'',
     su_port = Inr None, su_path = '''', su_query = '''', su_fragment = ''''\<rparr>"

definition sample_identity :: identity where
  "sample_identity = \<lparr>ic_operation = ''remove'', ic_record_id = 1, ic_device_id = ''S-1'', ic_hardware_id = None,
     ic_ble_address = Some ''AA:BB''\<rparr>"

definition sample_execute :: lifecycle_execute_request where
  "sample_execute = \<lparr>lx_confirmation_token = ''token'', lx_operation = ''remove'', lx_device_id = ''S-1'',
     lx_expected_hardware_id = None, lx_expected_ble_address = None, lx_reason = None\<rparr>"

lemma sample_request_ok: "require_bounded_same_origin_json sample_urlsplit sample_request = Inr ()"
  by code_simp


text \<open>Restoring a registration does not check its BLE address: when another sensor was registered under
  the address of a removed one (which registration allows), restoring the removed one succeeds and leaves
  two active devices with the same address.\<close>

theorem restore_shares_ble_address:
  "\<exists>s x s'. active_address_unique s \<and> keys_unique s
     \<and> lifecycle_restore id s ''S-1'' None (Some ''AA:BB'') ''op'' 9 = (Inr x, s')
     \<and> \<not> active_address_unique s'"
proof -
  let ?s = "empty_db\<lparr>registered_devices := [removed_values None 5 (sample_sensor 1 ''S-1''), sample_sensor 2 ''S-2'']\<rparr>"
  let ?d = "removed_values None 5 (sample_sensor 1 ''S-1'')"
  have get: "get_device ?s ''S-1'' = Some ?d" by (simp add: get_device_def removed_values_def sample_sensor_fields)
  obtain x s' where run: "lifecycle_restore id ?s ''S-1'' None (Some ''AA:BB'') ''op'' 9 = (x, s')" by fastforce
  have "x = Inr (lifecycle_outcome ''op'' ''active'' ''S-1'' False)
      \<and> registered_devices s' = [restored_values 9 ?d, sample_sensor 2 ''S-2'']"
    using run unfolding lifecycle_restore_def get
    by (auto simp: removed_values_def sample_sensor_fields Let_def upd_device_def)
  moreover from this have "\<not> active_address_unique s'"
    by (simp add: active_address_unique_def active_unique_def restored_values_def removed_values_def sample_sensor_fields)
  moreover have "active_address_unique ?s"
    by (simp add: active_address_unique_def active_unique_def removed_values_def sample_sensor_fields)
  moreover have "keys_unique ?s" by (simp add: keys_unique_def removed_values_def sample_sensor_fields empty_db_def)
  ultimately show ?thesis using run by blast
qed

end
