(* ===== verification/Scanner.thy ===== *)
theory Scanner
  imports Lifecycle
begin

text \<open>
  The discovery cache (\<open>ble/scanner.py\<close> with \<open>ble/constants.py\<close>). The cache is an association list in insertion order; the
  detections a scan reports, and the clocks, are arguments. Service identifiers and addresses are ASCII.
\<close>

section \<open>Detections\<close>

definition SERVICE_UUID :: string where
  "SERVICE_UUID = ''0100004d-4724-2480-2d4d-47240024beef''"

definition LEGACY_NAME :: string where
  "LEGACY_NAME = ''XIAO-MG24-Sense''"

definition classify :: "string option \<Rightarrow> string list \<Rightarrow> bool \<times> string" where
  "classify name service_uuids =
     (if SERVICE_UUID \<in> set (map (map ascii_lower_char) service_uuids)
      then (True, ''advertises the Seed MG24 telemetry service'')
      else if name = Some LEGACY_NAME
      then (False, ''legacy name matches but service compatibility is not confirmed'')
      else (False, ''telemetry service is not advertised''))"

record advertisement =
  av_address :: string
  av_device_name :: "string option"
  av_local_name :: "string option"
  av_service_uuids :: "string list option"
  av_rssi :: "int option"

definition advertised_name :: "advertisement \<Rightarrow> string option" where
  "advertised_name a = (if truthy (av_local_name a) then av_local_name a else av_device_name a)"

definition advertised_services :: "advertisement \<Rightarrow> string list" where
  "advertised_services a = take 32 (case av_service_uuids a of None \<Rightarrow> [] | Some us \<Rightarrow> us)"

text \<open>The validated model: an identifier of more than 160 characters is refused.\<close>

definition detected_discovery :: "advertisement \<Rightarrow> time \<Rightarrow> discovery result" where
  "detected_discovery a now =
     (let temporary = ''unassigned:'' @ map ascii_lower_char (av_address a);
          (compatible, reason) = classify (advertised_name a) (advertised_services a) in
      if length temporary > 160 then Inl (ValidationError ''temporary_id'')
      else Inr \<lparr>dc_address = av_address a, dc_name = advertised_name a, dc_rssi = av_rssi a,
        dc_service_uuids = advertised_services a, dc_compatible = compatible, dc_compatibility_reason = reason,
        dc_stable_device_id = None, dc_temporary_id = Some temporary, dc_last_seen_at = now\<rparr>)"

section \<open>The cache\<close>

record scanner =
  sc_ttl_seconds :: time
  sc_discoveries :: "(string \<times> discovery \<times> time) list"
  sc_scanning :: bool

fun assign :: "('k \<times> 'v) list \<Rightarrow> 'k \<Rightarrow> 'v \<Rightarrow> ('k \<times> 'v) list" where
  "assign [] k v = [(k, v)]"
| "assign ((k', w) # d) k v = (if k' = k then (k, v) # d else (k', w) # assign d k v)"

definition record_discovery :: "scanner \<Rightarrow> discovery \<Rightarrow> time \<Rightarrow> scanner" where
  "record_discovery sc discovery clock =
     sc\<lparr>sc_discoveries := assign (sc_discoveries sc) (dc_address discovery) (discovery, clock)\<rparr>"

definition detection_callback :: "scanner \<Rightarrow> advertisement \<Rightarrow> time \<Rightarrow> time \<Rightarrow> unit result \<times> scanner" where
  "detection_callback sc a now clock =
     (case detected_discovery a now of
        Inl e \<Rightarrow> (Inl e, sc)
      | Inr discovery \<Rightarrow> (Inr (), record_discovery sc discovery clock))"

definition expire :: "scanner \<Rightarrow> time \<Rightarrow> scanner" where
  "expire sc clock =
     sc\<lparr>sc_discoveries := filter (\<lambda>(_, _, observed). \<not> observed < clock - sc_ttl_seconds sc) (sc_discoveries sc)\<rparr>"

definition start_scan :: "scanner \<Rightarrow> bool \<times> scanner" where
  "start_scan sc = (if sc_scanning sc then (False, sc) else (True, sc\<lparr>sc_scanning := True\<rparr>))"

text \<open>A scan: its detections, then the expiry at its end. A detection that raises is lost.\<close>

definition scan_ends :: "scanner \<Rightarrow> (advertisement \<times> time \<times> time) list \<Rightarrow> time \<Rightarrow> scanner" where
  "scan_ends sc detections clock =
     expire (fold (\<lambda>(a, now, t) sc. snd (detection_callback sc a now t)) detections sc) clock\<lparr>sc_scanning := False\<rparr>"

definition discovery_order :: "discovery \<Rightarrow> bool \<times> string \<times> string" where
  "discovery_order d = (\<not> dc_compatible d, case dc_name d of None \<Rightarrow> '''' | Some n \<Rightarrow> n, dc_address d)"

definition discoveries :: "scanner \<Rightarrow> time \<Rightarrow> discovery list \<times> scanner" where
  "discoveries sc clock = (let sc' = expire sc clock in (sort_key discovery_order (map (fst \<circ> snd) (sc_discoveries sc')), sc'))"

definition get_discovery :: "scanner \<Rightarrow> string \<Rightarrow> time \<Rightarrow> discovery option \<times> scanner" where
  "get_discovery sc address clock =
     (let sc' = expire sc clock in (map_option fst (map_of (sc_discoveries sc') address), sc'))"

definition new_scanner :: "time \<Rightarrow> scanner" where
  "new_scanner ttl = \<lparr>sc_ttl_seconds = ttl, sc_discoveries = [], sc_scanning = False\<rparr>"

section \<open>What the cache shows\<close>

text \<open>The cache as the program uses it: detections, recorded discoveries and look-ups in any order.\<close>

datatype scan_event =
    Detected advertisement time
  | Recorded discovery
  | Looked

fun scan_event_step :: "scan_event \<times> time \<Rightarrow> scanner \<Rightarrow> scanner" where
  "scan_event_step (Detected a now, clock) sc = snd (detection_callback sc a now clock)"
| "scan_event_step (Recorded d, clock) sc = record_discovery sc d clock"
| "scan_event_step (Looked, clock) sc = expire sc clock"

fun observed :: "scan_event \<times> time \<Rightarrow> discovery option" where
  "observed (Detected a now, _) = (case detected_discovery a now of Inl _ \<Rightarrow> None | Inr d \<Rightarrow> Some d)"
| "observed (Recorded d, _) = Some d"
| "observed (Looked, _) = None"

text \<open>The specification: the last observation of an address, unless it is too old.\<close>

definition last_observation :: "(scan_event \<times> time) list \<Rightarrow> string \<Rightarrow> (discovery \<times> time) option" where
  "last_observation es address =
     (case filter (\<lambda>e. \<exists>d. observed e = Some d \<and> dc_address d = address) (rev es) of
        [] \<Rightarrow> None | e # _ \<Rightarrow> Some (the (observed e), snd e))"

definition visible :: "time \<Rightarrow> (scan_event \<times> time) list \<Rightarrow> time \<Rightarrow> string \<Rightarrow> discovery option" where
  "visible ttl es clock address = (case last_observation es address of
     None \<Rightarrow> None | Some (d, t) \<Rightarrow> if t < clock - ttl then None else Some d)"

lemma map_of_assign [simp]: "map_of (assign d k v) = (map_of d)(k \<mapsto> v)"
  by (induction d) auto

lemma assign_keys: "set (map fst (assign d k v)) = insert k (set (map fst d))"
  by (induction d k v rule: assign.induct) (simp_all add: insert_commute)

lemma distinct_assign: "distinct (map fst d) \<Longrightarrow> distinct (map fst (assign d k v))"
  by (induction d k v rule: assign.induct) (auto simp: assign_keys[unfolded set_map])

lemma assign_set: "x \<in> set (assign d k v) \<Longrightarrow> x = (k, v) \<or> x \<in> set d"
  by (induction d) (auto split: if_splits)

lemma map_of_filter_value:
  "distinct (map fst d) \<Longrightarrow> map_of (filter (\<lambda>(k, v). P v) d) k = (case map_of d k of None \<Rightarrow> None | Some v \<Rightarrow> if P v then Some v else None)"
proof (induction d)
  case (Cons x d)
  then have "fst x \<notin> set (map fst (filter (\<lambda>(k, v). P v) d))" by auto
  then have "map_of (filter (\<lambda>(k, v). P v) d) (fst x) = None" by (simp add: map_of_eq_None_iff)
  with Cons show ?case by (cases x) auto
qed simp

text \<open>The cache never holds an address twice, nor a discovery under another address than its own.\<close>

definition cache_ok :: "scanner \<Rightarrow> bool" where
  "cache_ok sc = (distinct (map fst (sc_discoveries sc)) \<and> (\<forall>(k, d, _) \<in> set (sc_discoveries sc). dc_address d = k))"

lemma expire_ok: "cache_ok sc \<Longrightarrow> cache_ok (expire sc clock)"
  by (auto simp: cache_ok_def expire_def distinct_map_filter)

lemma record_ok: "cache_ok sc \<Longrightarrow> cache_ok (record_discovery sc d clock)"
  by (auto simp: cache_ok_def record_discovery_def distinct_assign dest!: assign_set)

lemma scan_event_step_ok: "cache_ok sc \<Longrightarrow> cache_ok (scan_event_step e sc)"
  by (cases e rule: observed.cases) (auto simp: detection_callback_def expire_ok record_ok split: sum.splits)

lemma map_of_expire:
  "cache_ok sc \<Longrightarrow> map_of (sc_discoveries (expire sc clock)) k =
     (case map_of (sc_discoveries sc) k of None \<Rightarrow> None | Some (d, t) \<Rightarrow> if t < clock - sc_ttl_seconds sc then None else Some (d, t))"
proof -
  assume ok: "cache_ok sc"
  let ?P = "\<lambda>(d, t). \<not> t < clock - sc_ttl_seconds sc"
  have "sc_discoveries (expire sc clock) = filter (\<lambda>(k, v). ?P v) (sc_discoveries sc)"
    by (auto simp: expire_def intro: filter_cong)
  then show ?thesis
    using map_of_filter_value[of "sc_discoveries sc" ?P k] ok by (auto simp: cache_ok_def split: option.splits)
qed

lemma scan_event_step_ttl [simp]: "sc_ttl_seconds (scan_event_step e sc) = sc_ttl_seconds sc"
  by (cases e rule: observed.cases) (auto simp: detection_callback_def expire_def record_discovery_def split: sum.splits)

lemma map_of_step:
  assumes "cache_ok sc"
  shows "map_of (sc_discoveries (scan_event_step e sc)) k = (case observed e of
     Some d \<Rightarrow> if dc_address d = k then Some (d, snd e) else map_of (sc_discoveries sc) k
   | None \<Rightarrow> if fst e = Looked then map_of (sc_discoveries (expire sc (snd e))) k else map_of (sc_discoveries sc) k)"
  by (cases e rule: observed.cases) (auto simp: detection_callback_def record_discovery_def split: sum.splits)

lemma last_observation_snoc:
  "last_observation (es @ [e]) k = (case observed e of
     Some d \<Rightarrow> if dc_address d = k then Some (d, snd e) else last_observation es k | None \<Rightarrow> last_observation es k)"
  by (auto simp: last_observation_def split: option.splits)

lemma last_observation_time:
  "last_observation es k = Some (d, t) \<Longrightarrow> dc_address d = k \<and> t \<in> set (map snd es)"
proof -
  assume "last_observation es k = Some (d, t)"
  then obtain e rest where "filter (\<lambda>e. \<exists>d. observed e = Some d \<and> dc_address d = k) (rev es) = e # rest"
    and e: "d = the (observed e)" "t = snd e" by (auto simp: last_observation_def split: list.splits)
  then have "e \<in> set (filter (\<lambda>e. \<exists>d. observed e = Some d \<and> dc_address d = k) (rev es))" by simp
  with e show ?thesis by auto
qed

lemma scan_run:
  assumes "sorted (map snd es)" and "\<forall>e \<in> set es. snd e \<le> clock" and "0 \<le> ttl"
  defines "sc \<equiv> fold scan_event_step es (new_scanner ttl)"
  shows "cache_ok sc \<and> sc_ttl_seconds sc = ttl
    \<and> map_option fst (map_of (sc_discoveries (expire sc clock)) k) = visible ttl es clock k"
  using assms(1,2) unfolding sc_def
proof (induction es arbitrary: clock rule: rev_induct)
  case Nil
  then show ?case by (simp add: new_scanner_def cache_ok_def expire_def visible_def last_observation_def)
next
  case (snoc e es)
  let ?sc = "fold scan_event_step es (new_scanner ttl)"
  have ok: "cache_ok ?sc" "sc_ttl_seconds ?sc = ttl"
    and ih: "\<And>clock. \<forall>e \<in> set es. snd e \<le> clock \<Longrightarrow>
      map_option fst (map_of (sc_discoveries (expire ?sc clock)) k) = visible ttl es clock k"
    using snoc by (auto simp: sorted_append)
  have ok': "cache_ok (scan_event_step e ?sc)" using ok(1) by (rule scan_event_step_ok)
  have now: "\<forall>e' \<in> set es. snd e' \<le> snd e" "snd e \<le> clock" using snoc.prems by (auto simp: sorted_append)
  have "map_option fst (map_of (sc_discoveries (expire (scan_event_step e ?sc) clock)) k) = visible ttl (es @ [e]) clock k"
  proof (cases "observed e")
    case (Some d)
    have "\<forall>e' \<in> set es. snd e' \<le> clock" using now by auto
    with Some ih[of clock] show ?thesis
      using assms(3) by (auto simp: map_of_expire[OF ok'] map_of_expire[OF ok(1)] map_of_step[OF ok(1)] ok(2) visible_def last_observation_snoc
          split: option.splits)
  next
    case None
    have "\<forall>e' \<in> set es. snd e' \<le> clock" using now by auto
    note i = ih[OF this]
    show ?thesis
      using None i now(2)
      by (cases "map_of (sc_discoveries ?sc) k"; cases "fst e = Looked")
        (auto simp: map_of_expire[OF ok'] map_of_expire[OF ok(1)] map_of_step[OF ok(1)] ok(2) visible_def last_observation_snoc)
  qed
  with ok' ok(2) show ?case by simp
qed

text \<open>C20. The cache implements its specification: after any sequence of detections, recorded discoveries and look-ups, at times that
  do not run backwards, a look-up gives the last observation of the address unless it is older than the time to live, and
  the listing shows exactly the visible discoveries, each once, the compatible ones first and then by name and address.\<close>

theorem scanner_shows_last_seen:
  assumes "sorted (map snd es)" and "\<forall>e \<in> set es. snd e \<le> clock" and "0 \<le> ttl"
  defines "sc \<equiv> fold scan_event_step es (new_scanner ttl)"
  shows "fst (get_discovery sc address clock) = visible ttl es clock address
    \<and> set (fst (discoveries sc clock)) = {d. \<exists>a. visible ttl es clock a = Some d}
    \<and> distinct (map dc_address (fst (discoveries sc clock)))
    \<and> sorted (map discovery_order (fst (discoveries sc clock)))"
proof -
  let ?c = "sc_discoveries (expire sc clock)"
  have run: "map_option fst (map_of ?c k) = visible ttl es clock k" for k
    using scan_run[OF assms(1-3)] unfolding sc_def by blast
  have ok: "cache_ok (expire sc clock)"
    using scan_run[OF assms(1-3)] unfolding sc_def by (blast intro: expire_ok)
  then have keys: "map (dc_address \<circ> (fst \<circ> snd)) ?c = map fst ?c" and d: "distinct (map fst ?c)"
    by (auto simp: cache_ok_def)
  have "d \<in> set (map (fst \<circ> snd) ?c) \<longleftrightarrow> (\<exists>k. map_option fst (map_of ?c k) = Some d)" for d
    using d by (force simp: image_iff map_of_eq_Some_iff)
  then have members: "set (fst (discoveries sc clock)) = {d. \<exists>a. visible ttl es clock a = Some d}"
    by (auto simp: discoveries_def Let_def run)
  have "distinct (map dc_address (map (fst \<circ> snd) ?c))" unfolding map_map keys by (rule d)
  moreover have "mset (map dc_address (fst (discoveries sc clock))) = mset (map dc_address (map (fst \<circ> snd) ?c))"
    by (simp add: discoveries_def Let_def multiset.map_comp comp_assoc)
  ultimately have "distinct (map dc_address (fst (discoveries sc clock)))" by (metis mset_eq_imp_distinct_iff)
  then show ?thesis
    using members run by (simp add: get_discovery_def discoveries_def Let_def)
qed

text \<open>Only a node that advertises the telemetry service is taken for compatible.\<close>

lemma detected_compatible:
  "detected_discovery a now = Inr d \<Longrightarrow>
     dc_compatible d \<longleftrightarrow> (\<exists>u \<in> set (advertised_services a). map ascii_lower_char u = SERVICE_UUID)"
  by (auto simp: detected_discovery_def classify_def Let_def image_iff split: if_splits) (metis image_eqI)

section \<open>Examples\<close>

definition sample_advertisement :: advertisement where
  "sample_advertisement = \<lparr>av_address = ''AA'', av_device_name = None, av_local_name = Some ''N'',
     av_service_uuids = Some [SERVICE_UUID], av_rssi = Some 0\<rparr>"

theorem scanner_shows_last_seen_witness:
  "\<exists>d. fst (get_discovery (fold scan_event_step [(Detected sample_advertisement 0, 1), (Looked, 2)] (new_scanner 5)) ''AA'' 4) = Some d
     \<and> dc_address d = ''AA''"
proof -
  have "\<exists>d. visible 5 [(Detected sample_advertisement 0, 1), (Looked, 2)] 4 ''AA'' = Some d \<and> dc_address d = ''AA''"
    by (simp add: visible_def last_observation_def detected_discovery_def sample_advertisement_def Let_def split: prod.split)
  then show ?thesis
    using scanner_shows_last_seen[of "[(Detected sample_advertisement 0, 1), (Looked, 2)]" 4 5 "''AA''"] by simp
qed

end
