(* ===== verification/Onboarding.thy ===== *)
theory Onboarding
  imports Schemas
begin

text \<open>
  The onboarding identity (\<open>ble/onboarding_identity.py\<close>): a sensor without a node identifier shows a digest of its hardware
  identifier over BLE, so that the gateway can recognise the sensor it has verified over USB. The digest
  (\<open>hashlib.sha256(...).hexdigest()\<close>) and \<open>json.loads\<close> of UTF-8 bytes are arguments.
\<close>

section \<open>Hardware identifiers\<close>

definition removeprefix :: "string \<Rightarrow> string \<Rightarrow> string" where
  "removeprefix p s = (if starts_with p s then drop (length p) s else s)"

definition canonical_hardware_id :: "string \<Rightarrow> string result" where
  "canonical_hardware_id value =
     (let normalized = ''0x'' @ map ascii_upper_char (removeprefix ''0X'' (removeprefix ''0x'' value)) in
      if hardware_id_pattern normalized then Inr normalized
      else Inl (OnboardingIdentityError ''hardware ID must contain exactly 16 hexadecimal digits''))"

definition onboarding_domain :: string where
  "onboarding_domain = ''MG24-ONBOARDING-V1''"

definition derive_onboarding_identity :: "(string \<Rightarrow> string) \<Rightarrow> string \<Rightarrow> string result" where
  "derive_onboarding_identity sha256 hardware_id =
     bind_result (canonical_hardware_id hardware_id) (\<lambda>canonical. Inr (take 32 (sha256 (onboarding_domain @ canonical))))"

section \<open>The characteristic\<close>

definition identity_pattern :: "string \<Rightarrow> bool" where
  "identity_pattern s = (length s = 32 \<and> list_all is_lower_hex s)"

definition rstrip_nul :: "string \<Rightarrow> string" where
  "rstrip_nul raw = rev (dropWhile (\<lambda>c. c = CHR 0x00) (rev raw))"

definition onboarding_payload :: "dict \<Rightarrow> dict result" where
  "onboarding_payload payload =
     (if \<not> json_eq_int (dget payload ''schema_version'') 1
      then Inl (OnboardingIdentityError ''onboarding identity schema is unsupported'')
      else if dget payload ''provisioning_state'' = JStr ''provisioned''
      then (if has_key payload ''onboarding_identity''
            then Inl (OnboardingIdentityError ''provisioned response exposed a bootstrap identity'') else Inr payload)
      else bind_result (in_str_set (dget payload ''provisioning_state'') [''unprovisioned'', ''recovery'']) (\<lambda>available.
        if \<not> available then Inl (OnboardingIdentityError ''onboarding identity is unavailable'')
        else if \<not> (case dget payload ''onboarding_identity'' of JStr i \<Rightarrow> identity_pattern i | _ \<Rightarrow> False)
        then Inl (OnboardingIdentityError ''onboarding identity encoding is invalid'')
        else if json_str (dget payload ''protocol_version'') = None \<or> json_str (dget payload ''firmware_version'') = None
        then Inl (OnboardingIdentityError ''onboarding compatibility versions are missing'')
        else Inr payload))"

text \<open>\<open>loads\<close> gives \<open>None\<close> where the decoding raises \<open>UnicodeDecodeError\<close> or \<open>JSONDecodeError\<close>.\<close>

definition parse_onboarding_payload :: "(string \<Rightarrow> json option) \<Rightarrow> string \<Rightarrow> dict result" where
  "parse_onboarding_payload loads raw =
     (if raw = [] \<or> length raw > 192
      then Inl (OnboardingIdentityError ''onboarding identity payload is empty or oversized'')
      else case loads (rstrip_nul raw) of
        None \<Rightarrow> Inl (OnboardingIdentityError ''onboarding identity payload is malformed'')
      | Some (JObj payload) \<Rightarrow> onboarding_payload payload
      | Some _ \<Rightarrow> Inl (OnboardingIdentityError ''onboarding identity schema is unsupported''))"

section \<open>What an accepted payload shows\<close>

lemma parse_onboarding_Inr:
  assumes "parse_onboarding_payload loads raw = Inr payload"
  shows "json_eq_int (dget payload ''schema_version'') 1"
    and "dget payload ''provisioning_state'' = JStr ''provisioned'' \<longleftrightarrow> \<not> has_key payload ''onboarding_identity''"
    and "has_key payload ''onboarding_identity'' \<Longrightarrow>
      \<exists>i. dget payload ''onboarding_identity'' = JStr i \<and> identity_pattern i
        \<and> dget payload ''provisioning_state'' \<in> {JStr ''unprovisioned'', JStr ''recovery''}"
proof -
  have p: "onboarding_payload payload = Inr payload"
    using assms by (auto simp: parse_onboarding_payload_def onboarding_payload_def bind_result_Inr_iff
        split: if_splits option.splits json.splits)
  have absent: "\<not> has_key payload ''onboarding_identity'' \<Longrightarrow> dget payload ''onboarding_identity'' = JNull"
    by (simp add: has_key_def dget_def)
  show "json_eq_int (dget payload ''schema_version'') 1"
    using p by (simp add: onboarding_payload_def split: if_splits)
  show "dget payload ''provisioning_state'' = JStr ''provisioned'' \<longleftrightarrow> \<not> has_key payload ''onboarding_identity''"
    using p absent
    by (cases "has_key payload ''onboarding_identity''") (auto simp: onboarding_payload_def bind_result_Inr_iff split: if_splits)
  show "has_key payload ''onboarding_identity'' \<Longrightarrow>
      \<exists>i. dget payload ''onboarding_identity'' = JStr i \<and> identity_pattern i
        \<and> dget payload ''provisioning_state'' \<in> {JStr ''unprovisioned'', JStr ''recovery''}"
    using p by (auto simp: onboarding_payload_def bind_result_Inr_iff in_str_set_def split: if_splits json.splits)
qed

text \<open>The letters of the hexadecimal digits and the prefix do not matter.\<close>

lemma upper_hex_upper: "is_upper_hex c \<Longrightarrow> ascii_upper_char c = c"
  by (auto simp: is_upper_hex_def is_digit_def ascii_upper_char_def)

lemma canonical_hardware_id_fixed:
  assumes "hardware_id_pattern h"
  shows "canonical_hardware_id h = Inr h"
proof -
  obtain ds where h: "h = ''0x'' @ ds" and ds: "list_all is_upper_hex ds"
    using assms by (cases h; cases "tl h") (auto simp: hardware_id_pattern_def)
  have "\<not> starts_with ''0X'' ds"
    using ds by (cases ds; cases "tl ds") (auto simp: is_upper_hex_def is_digit_def)
  moreover have "map ascii_upper_char ds = ds"
    using ds by (induction ds) (auto simp: upper_hex_upper)
  ultimately show ?thesis
    using assms by (simp add: canonical_hardware_id_def removeprefix_def h)
qed

lemma canonical_hardware_id_Inr:
  "canonical_hardware_id value = Inr h \<Longrightarrow> hardware_id_pattern h \<and> canonical_hardware_id h = Inr h"
  using canonical_hardware_id_fixed[of h] by (auto simp: canonical_hardware_id_def Let_def split: if_splits)

lemma derive_canonical:
  "canonical_hardware_id value = Inr h \<Longrightarrow> derive_onboarding_identity sha256 value = derive_onboarding_identity sha256 h"
  using canonical_hardware_id_Inr[of "value" h] by (simp add: derive_onboarding_identity_def)

end
