(* ===== verification/Provisioning.thy ===== *)
theory Provisioning
  imports Installations
begin

text \<open>
  Provisioning of sensor installations: \<open>gateway/app/services/provisioning_service.py\<close> and the
  handlers of \<open>gateway/app/api/installations.py\<close> that call it. Every database section of a
  coroutine is one function (nothing else runs between two \<open>await\<close>s), the sections are composed
  as the coroutine composes them, and the interleaving of several coroutines is the step relation
  \<open>prov_step\<close>. The configurator is an interface (\<open>NodeConfigurator\<close> of \<open>contracts.py\<close>): a state,
  an \<open>apply\<close> and a \<open>read_back\<close>; what they return already includes the outcome of
  \<open>asyncio.wait_for\<close>, so \<open>TimeoutError\<close> is one of the errors.
\<close>

definition provisioning_error :: "string \<Rightarrow> exn" where
  "provisioning_error m = ProvisioningError m ''configuration_error'' None ''unchanged'' ''revalidate''"

fun is_provisioning_error :: "exn \<Rightarrow> bool" where
  "is_provisioning_error (ProvisioningError _ _ _ _ _) = True"
| "is_provisioning_error _ = False"

section \<open>Configurators\<close>

text \<open>\<open>PiAuthoritativeConfigurator\<close>: the configuration stays on the gateway. Reading back an
  interface that was never configured gives the empty dictionary, here \<open>None\<close>.\<close>

type_synonym pi_configurator = "(string \<times> string) \<rightharpoonup> installation_configuration"

definition pi_apply ::
  "pi_configurator \<Rightarrow> db \<Rightarrow> string \<Rightarrow> string \<Rightarrow> string \<Rightarrow> installation_configuration
     \<Rightarrow> installation_configuration result \<times> pi_configurator" where
  "pi_apply c s node_id interface_id transaction_id configuration =
     (Inr configuration, c((node_id, interface_id) \<mapsto> configuration))"

definition pi_read_back ::
  "pi_configurator \<Rightarrow> string \<Rightarrow> string \<Rightarrow> string \<Rightarrow> installation_configuration option result" where
  "pi_read_back c node_id interface_id transaction_id = Inr (c (node_id, interface_id))"

text \<open>\<open>BlePersistentConfigurator\<close>: the node acknowledges. \<open>provision\<close> is the BLE provisioner: it
  gets the address, the node, the truncated transaction and the configuration and returns or
  raises. The connection manager is released before and rescheduled after, on every path.\<close>

record ble_configurator =
  bc_verified :: "string \<rightharpoonup> installation_configuration"
  bc_has_manager :: bool
  bc_manager_calls :: "manager_call list"

definition supports_interface :: "string \<Rightarrow> bool" where
  "supports_interface interface_id = (interface_id = ''MIC'')"

definition ble_apply ::
  "(string \<Rightarrow> string \<Rightarrow> string \<Rightarrow> installation_configuration \<Rightarrow> unit result) \<Rightarrow> ble_configurator \<Rightarrow> db
     \<Rightarrow> string \<Rightarrow> string \<Rightarrow> string \<Rightarrow> installation_configuration
     \<Rightarrow> installation_configuration result \<times> ble_configurator" where
  "ble_apply provision c s node_id interface_id transaction_id configuration =
     (if \<not> supports_interface interface_id
      then (Inl (ValueError ''firmware persistence currently supports the built-in microphone interface''), c)
      else case get_device s node_id of
        None \<Rightarrow> (Inl (ConnectionError ''node BLE address is unavailable''), c)
      | Some device \<Rightarrow>
          if \<not> truthy (rd_ble_address device)
          then (Inl (ConnectionError ''node BLE address is unavailable''), c)
          else
            let address = the (rd_ble_address device);
                c1 = (if bc_has_manager c
                      then c\<lparr>bc_manager_calls := bc_manager_calls c
                               @ [ManagerRemove node_id, ManagerSchedule node_id address]\<rparr>
                      else c)
            in case provision address node_id (take 16 transaction_id) configuration of
                 Inl e \<Rightarrow> (Inl e, c1)
               | Inr _ \<Rightarrow> (Inr configuration,
                            c1\<lparr>bc_verified := (bc_verified c1)(transaction_id \<mapsto> configuration)\<rparr>))"

definition ble_read_back ::
  "ble_configurator \<Rightarrow> string \<Rightarrow> string \<Rightarrow> string \<Rightarrow> installation_configuration option result" where
  "ble_read_back c node_id interface_id transaction_id =
     (case bc_verified c transaction_id of
        None \<Rightarrow> Inl (ValueError ''no verified device acknowledgement exists for this transaction'')
      | Some configuration \<Rightarrow> Inr (Some configuration))"

section \<open>Validation\<close>

definition validation_outcome ::
  "(string \<Rightarrow> ('v::linorder) option) \<Rightarrow> profile_registry \<Rightarrow> (string \<Rightarrow> bool) option \<Rightarrow> db
     \<Rightarrow> sensor_installation \<Rightarrow> unit result" where
  "validation_outcome version_key profiles supports s installation =
     bind_result (registry_get profiles (si_sensor_profile_id installation)
                    (Some (si_sensor_profile_version installation))) (\<lambda>found.
     case found of
       None \<Rightarrow> Inl (provisioning_error ''pinned sensor profile is unavailable'')
     | Some profile \<Rightarrow>
         bind_result (capability_get s (si_node_id installation)) (\<lambda>capabilities.
         bind_result (configuration_validate version_key profile capabilities (si_interface_id installation)
                        (si_configuration_json installation)) (\<lambda>_.
         case supports of
           None \<Rightarrow> Inr ()
         | Some supported \<Rightarrow>
             if supported (si_interface_id installation) then Inr ()
             else Inl (ProvisioningError
                    (''firmware does not support persistent configuration for '' @ si_interface_id installation)
                    ''interface_configuration_unsupported'' None ''unchanged'' ''select_supported_interface''))))"

definition validation_failed_values :: "exn \<Rightarrow> sensor_installation \<Rightarrow> sensor_installation" where
  "validation_failed_values e r = r\<lparr>si_provisioning_state := ''failed'', si_verification_status := ''failed'',
     si_provisioning_error := Some (take 500 (exn_str e)), si_enabled := False\<rparr>"

definition provisioning_validate ::
  "(string \<Rightarrow> ('v::linorder) option) \<Rightarrow> profile_registry \<Rightarrow> (string \<Rightarrow> bool) option \<Rightarrow> db \<Rightarrow> string \<Rightarrow> time
     \<Rightarrow> sensor_installation result \<times> db" where
  "provisioning_validate version_key profiles supports s k now =
     (case get_installation_handler s k of
        Inl _ \<Rightarrow> (Inl (provisioning_error ''installation not found''), s)
      | Inr installation \<Rightarrow>
          (case installation_update_row s installation
                  (\<lambda>r. r\<lparr>si_provisioning_state := ''validating'', si_provisioning_error := None\<rparr>) now of
             (Inl e, s1) \<Rightarrow> (Inl e, s1)
           | (Inr r1, s1) \<Rightarrow>
               (case validation_outcome version_key profiles supports s1 r1 of
                  Inr _ \<Rightarrow> installation_update_row s1 r1
                            (\<lambda>r. r\<lparr>si_provisioning_state := ''ready_to_apply'', si_provisioning_error := None\<rparr>) now
                | Inl e \<Rightarrow>
                    if \<not> is_value_error e then (Inl e, s1)
                    else (case installation_update_row s1 r1 (validation_failed_values e) now of
                            (_, s2) \<Rightarrow>
                              (Inl (if is_provisioning_error e then e
                                    else ProvisioningError (exn_str e) ''validation_failed'' None
                                           ''unchanged'' ''revalidate''), s2)))))"

section \<open>Outcomes of a transaction\<close>

text \<open>\<open>if attempt: repository.update_attempt(...)\<close>.\<close>

definition mark_attempt ::
  "db \<Rightarrow> string \<Rightarrow> (provisioning_attempt \<Rightarrow> provisioning_attempt) \<Rightarrow> time \<Rightarrow> db" where
  "mark_attempt s transaction_id f now =
     (case get_attempt s transaction_id of None \<Rightarrow> s | Some attempt \<Rightarrow> update_attempt s attempt f now)"

definition fail_values :: "string \<Rightarrow> sensor_installation \<Rightarrow> sensor_installation" where
  "fail_values error r =
     (case si_previous_configuration_json r of
        Some previous \<Rightarrow> r\<lparr>si_configuration_json := previous, si_previous_configuration_json := None,
          si_provisioning_state := ''active'', si_verification_status := ''verified'',
          si_provisioning_error := Some (''replacement_failed:'' @ error),
          si_active_transaction_id := None, si_enabled := True\<rparr>
      | None \<Rightarrow> r\<lparr>si_provisioning_state := ''failed'', si_verification_status := ''failed'',
          si_provisioning_error := Some error, si_active_transaction_id := None, si_enabled := False\<rparr>)"

definition provisioning_fail :: "db \<Rightarrow> string \<Rightarrow> string \<Rightarrow> string \<Rightarrow> time \<Rightarrow> db" where
  "provisioning_fail s k transaction_id error now =
     (let s1 = mark_attempt s transaction_id (\<lambda>a. a\<lparr>pa_state := ''failed'', pa_error := Some error\<rparr>) now in
      case get_installation s1 k of
        None \<Rightarrow> s1
      | Some installation \<Rightarrow> snd (installation_update_row s1 installation (fail_values error) now))"

definition uncertain_values :: "string \<Rightarrow> string \<Rightarrow> sensor_installation \<Rightarrow> sensor_installation" where
  "uncertain_values transaction_id error r =
     (case si_previous_configuration_json r of
        Some previous \<Rightarrow> r\<lparr>si_configuration_json := previous, si_previous_configuration_json := None,
          si_provisioning_state := ''active'', si_verification_status := ''verified'',
          si_provisioning_error := Some (''replacement_uncertain:'' @ error),
          si_active_transaction_id := Some transaction_id, si_enabled := True\<rparr>
      | None \<Rightarrow> r\<lparr>si_provisioning_state := ''reconciling'', si_verification_status := ''pending'',
          si_provisioning_error := Some error, si_active_transaction_id := Some transaction_id,
          si_enabled := False\<rparr>)"

definition provisioning_uncertain :: "db \<Rightarrow> string \<Rightarrow> string \<Rightarrow> string \<Rightarrow> time \<Rightarrow> db" where
  "provisioning_uncertain s k transaction_id error now =
     (let s1 = mark_attempt s transaction_id (\<lambda>a. a\<lparr>pa_state := ''reconciling'', pa_error := Some error\<rparr>) now in
      case get_installation s1 k of
        None \<Rightarrow> s1
      | Some installation \<Rightarrow>
          snd (installation_update_row s1 installation (uncertain_values transaction_id error) now))"

section \<open>Verification\<close>

text \<open>\<open>verify\<close> up to its first \<open>await\<close>: the transaction, the requested configuration and the slot.\<close>

definition verify_begin :: "db \<Rightarrow> string \<Rightarrow> (string \<times> installation_configuration \<times> string \<times> string) result" where
  "verify_begin s k =
     (case get_installation s k of
        None \<Rightarrow> Inl (provisioning_error ''installation has no transaction to verify'')
      | Some installation \<Rightarrow>
          if \<not> truthy (si_active_transaction_id installation)
          then Inl (provisioning_error ''installation has no transaction to verify'')
          else Inr (the (si_active_transaction_id installation), si_configuration_json installation,
                    si_node_id installation, si_interface_id installation))"

text \<open>A reading that proves the interface works: recent and not marked unusable.\<close>

definition usable_reading :: "int \<Rightarrow> string list \<Rightarrow> time \<Rightarrow> reading \<Rightarrow> bool" where
  "usable_reading device_pk channels cutoff r =
     (rg_registered_device_id r = device_pk \<and> rg_channel r \<in> set channels \<and> rg_received_at r \<ge> cutoff
      \<and> rg_quality r \<notin> {''invalid'', ''sensor_fault'', ''stale''})"

definition newest_usable_reading :: "db \<Rightarrow> int \<Rightarrow> string list \<Rightarrow> time \<Rightarrow> reading option" where
  "newest_usable_reading s device_pk channels cutoff =
     (case sort_key (\<lambda>r. (- rg_received_at r, - rg_id r)) (filter (usable_reading device_pk channels cutoff) (readings s)) of
        [] \<Rightarrow> None
      | r # _ \<Rightarrow> Some r)"

definition verified_values :: "reading \<Rightarrow> sensor_installation \<Rightarrow> sensor_installation" where
  "verified_values reading r = r\<lparr>si_previous_configuration_json := Some (si_configuration_json r),
     si_provisioning_state := ''active'', si_verification_status := ''verified'', si_enabled := True,
     si_provisioning_error := None, si_active_transaction_id := None,
     si_last_seen_at := Some (rg_received_at reading), si_last_valid_reading_at := Some (rg_received_at reading)\<rparr>"

text \<open>The last section of \<open>verify\<close>: telemetry and the switch to active.\<close>

definition verify_telemetry :: "db \<Rightarrow> string \<Rightarrow> string \<Rightarrow> time \<Rightarrow> sensor_installation result \<times> db" where
  "verify_telemetry s k transaction_id now =
     (case get_installation s k of
        None \<Rightarrow> (Inl (AttributeError ''NoneType object has no attribute node_id''), s)
      | Some installation \<Rightarrow>
          (case capability_get s (si_node_id installation) of
             Inl e \<Rightarrow> (Inl e, s)
           | Inr capabilities \<Rightarrow>
               (case find_interface capabilities (si_interface_id installation) of
                  None \<Rightarrow> (Inl StopIteration, s)
                | Some interface \<Rightarrow>
                    (case get_device s (si_node_id installation) of
                       None \<Rightarrow> (Inl (AttributeError ''NoneType object has no attribute id''), s)
                     | Some device \<Rightarrow>
                         (case newest_usable_reading s (rd_id device) (ni_telemetry_channels interface)
                                 (now - 60 * 1000000) of
                            None \<Rightarrow>
                              (Inl (provisioning_error ''no recent valid telemetry was received for the selected interface''),
                               provisioning_fail s k transaction_id ''no_recent_valid_telemetry'' now)
                          | Some reading \<Rightarrow>
                              (case get_attempt s transaction_id of
                                 None \<Rightarrow> (Inl (AttributeError ''NoneType object has no attribute state''), s)
                               | Some attempt \<Rightarrow>
                                   installation_update_row
                                     (update_attempt s attempt (\<lambda>a. a\<lparr>pa_state := ''active''\<rparr>) now)
                                     installation (verified_values reading) now))))))"

fun caught_read_back_error :: "exn \<Rightarrow> bool" where
  "caught_read_back_error TimeoutError = True"
| "caught_read_back_error (ConnectionError _) = True"
| "caught_read_back_error e = is_value_error e"

definition verify_finish ::
  "db \<Rightarrow> string \<Rightarrow> string \<Rightarrow> installation_configuration \<Rightarrow> installation_configuration option result \<Rightarrow> time
     \<Rightarrow> sensor_installation result \<times> db" where
  "verify_finish s k transaction_id requested read_back now =
     (case read_back of
        Inl e \<Rightarrow>
          if caught_read_back_error e
          then (Inl (provisioning_error ''configuration read-back failed''),
                provisioning_fail s k transaction_id (exn_name e) now)
          else (Inl e, s)
      | Inr value \<Rightarrow>
          if value \<noteq> Some requested
          then (Inl (provisioning_error ''configuration read-back does not match the request''),
                provisioning_fail s k transaction_id ''configuration_readback_mismatch'' now)
          else verify_telemetry s k transaction_id now)"

definition provisioning_verify ::
  "('c \<Rightarrow> string \<Rightarrow> string \<Rightarrow> string \<Rightarrow> installation_configuration option result) \<Rightarrow> 'c \<Rightarrow> db \<Rightarrow> string \<Rightarrow> time
     \<Rightarrow> sensor_installation result \<times> db" where
  "provisioning_verify read_back c s k now =
     (case verify_begin s k of
        Inl e \<Rightarrow> (Inl e, s)
      | Inr (transaction_id, requested, node_id, interface_id) \<Rightarrow>
          verify_finish s k transaction_id requested (read_back c node_id interface_id transaction_id) now)"

section \<open>Application\<close>

text \<open>The check before the lock is taken: finished with the installation, or its slot.\<close>

definition apply_precheck :: "db \<Rightarrow> string \<Rightarrow> (sensor_installation + string \<times> string) result" where
  "apply_precheck s k =
     (case get_installation_handler s k of
        Inl _ \<Rightarrow> Inl (provisioning_error ''installation not found'')
      | Inr installation \<Rightarrow>
          if si_provisioning_state installation = ''active'' then Inr (Inl installation)
          else Inr (Inr (si_node_id installation, si_interface_id installation)))"

definition new_attempt :: "string \<Rightarrow> string \<Rightarrow> installation_configuration \<Rightarrow> time \<Rightarrow> int \<Rightarrow> provisioning_attempt" where
  "new_attempt transaction_id k requested now i =
     \<lparr>pa_id = i, pa_transaction_id = transaction_id, pa_installation_id = k,
      pa_requested_configuration_json = requested, pa_applied_configuration_json = None,
      pa_state = ''applying'', pa_error = None, pa_created_at = now, pa_updated_at = now\<rparr>"

text \<open>The section under the node lock before the configurator is called: it either ends the call
  or opens the transaction \<open>transaction_id\<close> (a fresh \<open>uuid4().hex\<close>).\<close>

datatype apply_start = ApplyReturn sensor_installation | ApplyProceed installation_configuration

definition transaction_pending :: "db \<Rightarrow> sensor_installation \<Rightarrow> bool" where
  "transaction_pending s installation =
     (truthy (si_active_transaction_id installation)
      \<and> (case get_attempt s (the (si_active_transaction_id installation)) of
           None \<Rightarrow> False
         | Some existing \<Rightarrow> pa_state existing \<in> {''applying'', ''verifying'', ''active''}))"

definition applying_values :: "string \<Rightarrow> sensor_installation \<Rightarrow> sensor_installation" where
  "applying_values transaction_id r = r\<lparr>si_provisioning_state := ''applying'',
     si_active_transaction_id := Some transaction_id, si_provisioning_error := None, si_enabled := False\<rparr>"

definition apply_begin ::
  "db \<Rightarrow> string \<Rightarrow> string \<Rightarrow> string \<Rightarrow> string \<Rightarrow> time \<Rightarrow> apply_start result \<times> db" where
  "apply_begin s k node_id interface_id transaction_id now =
     (case get_installation_handler s k of
        Inl _ \<Rightarrow> (Inl (provisioning_error ''installation not found''), s)
      | Inr installation \<Rightarrow>
          if si_provisioning_state installation = ''active'' then (Inr (ApplyReturn installation), s)
          else if \<not> (case get_device s node_id of
                       None \<Rightarrow> False | Some node \<Rightarrow> rd_compatibility_status node = ''compatible'')
          then (Inl (provisioning_error (''node firmware compatibility is ''
                  @ (case get_device s node_id of None \<Rightarrow> ''unknown'' | Some node \<Rightarrow> rd_compatibility_status node)
                  @ ''; configuration is blocked'')), s)
          else case capability_get s node_id of
            Inl e \<Rightarrow> (Inl e, s)
          | Inr capability \<Rightarrow>
              (case find_interface capability interface_id of
                 None \<Rightarrow> (Inl StopIteration, s)
               | Some selected \<Rightarrow>
                   if ni_exclusive selected \<and> occupied_interface s node_id interface_id (Some k) \<noteq> None
                   then (Inl (provisioning_error (''exclusive interface is active for ''
                           @ (case occupied_interface s node_id interface_id (Some k) of
                                None \<Rightarrow> '''' | Some occupied \<Rightarrow> si_device_id occupied))), s)
                   else if transaction_pending s installation then (Inr (ApplyReturn installation), s)
                   else if si_provisioning_state installation \<noteq> ''ready_to_apply''
                   then (Inl (provisioning_error
                           (''installation cannot be applied from '' @ si_provisioning_state installation)), s)
                   else
                     let requested = si_configuration_json installation;
                         s1 = add_attempt s (new_attempt transaction_id k requested now) in
                     (case installation_update_row s1 installation
                             (applying_values transaction_id) now of
                        (Inl e, s2) \<Rightarrow> (Inl e, s2)
                      | (Inr _, s2) \<Rightarrow> (Inr (ApplyProceed requested), s2))))"

text \<open>What follows the configurator's answer, up to the call of \<open>verify\<close>.\<close>

definition apply_ack ::
  "db \<Rightarrow> string \<Rightarrow> string \<Rightarrow> installation_configuration result \<Rightarrow> time \<Rightarrow> unit result \<times> db" where
  "apply_ack s k transaction_id outcome now =
     (case outcome of
        Inl TimeoutError \<Rightarrow>
          (Inl (ProvisioningError
             ''The configuration acknowledgement was not received. Device state must be reconciled before retry.''
             ''acknowledgement_timeout'' (Some transaction_id) ''unknown'' ''authoritative_readback''),
           provisioning_uncertain s k transaction_id ''acknowledgement_timeout'' now)
      | Inl (ConnectionError m) \<Rightarrow>
          (Inl (ProvisioningError
             ''The BLE transport failed. Device state must be reconciled before retry.''
             ''transport_failure'' (Some transaction_id) ''unknown'' ''authoritative_readback''),
           provisioning_uncertain s k transaction_id ''transport_failure'' now)
      | Inl e \<Rightarrow>
          if is_value_error e
          then (Inl (ProvisioningError
                  (if exn_str e = '''' then ''The device rejected the configuration.'' else exn_str e)
                  ''device_rejected'' (Some transaction_id) ''unchanged'' ''revalidate''),
                provisioning_fail s k transaction_id (exn_name e) now)
          else (Inl e, s)
      | Inr applied \<Rightarrow>
          (case get_attempt s transaction_id of
             None \<Rightarrow> (Inl (AttributeError ''NoneType object has no attribute state''), s)
           | Some attempt \<Rightarrow>
               let s1 = update_attempt s attempt
                     (\<lambda>a. a\<lparr>pa_state := ''verifying'', pa_applied_configuration_json := Some applied\<rparr>) now in
               (case get_installation s1 k of
                  None \<Rightarrow> (Inl (AttributeError ''NoneType object has no attribute provisioning_state''), s1)
                | Some installation \<Rightarrow>
                    (case installation_update_row s1 installation
                            (\<lambda>r. r\<lparr>si_provisioning_state := ''verifying''\<rparr>) now of
                       (Inl e, s2) \<Rightarrow> (Inl e, s2)
                     | (Inr _, s2) \<Rightarrow> (Inr (), s2)))))"

text \<open>\<open>apply\<close> when nothing else runs meanwhile; \<open>t0\<close>, \<open>t1\<close>, \<open>t2\<close> are the instants of its sections.\<close>

definition provisioning_apply ::
  "('c \<Rightarrow> db \<Rightarrow> string \<Rightarrow> string \<Rightarrow> string \<Rightarrow> installation_configuration \<Rightarrow> installation_configuration result \<times> 'c)
     \<Rightarrow> ('c \<Rightarrow> string \<Rightarrow> string \<Rightarrow> string \<Rightarrow> installation_configuration option result)
     \<Rightarrow> 'c \<Rightarrow> db \<Rightarrow> string \<Rightarrow> string \<Rightarrow> time \<Rightarrow> time \<Rightarrow> time \<Rightarrow> sensor_installation result \<times> db \<times> 'c" where
  "provisioning_apply config read_back c s k transaction_id t0 t1 t2 =
     (case apply_precheck s k of
        Inl e \<Rightarrow> (Inl e, s, c)
      | Inr (Inl installation) \<Rightarrow> (Inr installation, s, c)
      | Inr (Inr (node_id, interface_id)) \<Rightarrow>
          (case apply_begin s k node_id interface_id transaction_id t0 of
             (Inl e, s1) \<Rightarrow> (Inl e, s1, c)
           | (Inr (ApplyReturn installation), s1) \<Rightarrow> (Inr installation, s1, c)
           | (Inr (ApplyProceed requested), s1) \<Rightarrow>
               (case config c s1 node_id interface_id transaction_id requested of
                  (outcome, c1) \<Rightarrow>
                    (case apply_ack s1 k transaction_id outcome t1 of
                       (Inl e, s2) \<Rightarrow> (Inl e, s2, c1)
                     | (Inr _, s2) \<Rightarrow>
                         (case provisioning_verify read_back c1 s2 k t2 of (res, s3) \<Rightarrow> (res, s3, c1))))))"

section \<open>Handlers\<close>

definition provisioning_http :: "nat \<Rightarrow> sensor_installation result \<Rightarrow> sensor_installation result" where
  "provisioning_http status res =
     (case res of
        Inl (ProvisioningError m code t ds na) \<Rightarrow> Inl (HTTPException status code m)
      | r \<Rightarrow> r)"

definition validate_installation ::
  "(string \<Rightarrow> ('v::linorder) option) \<Rightarrow> profile_registry \<Rightarrow> (string \<Rightarrow> bool) option \<Rightarrow> db \<Rightarrow> string \<Rightarrow> time
     \<Rightarrow> sensor_installation result \<times> db" where
  "validate_installation version_key profiles supports s k now =
     (case provisioning_validate version_key profiles supports s k now of
        (res, s') \<Rightarrow> (provisioning_http 422 res, s'))"

definition verify_installation ::
  "('c \<Rightarrow> string \<Rightarrow> string \<Rightarrow> string \<Rightarrow> installation_configuration option result) \<Rightarrow> 'c \<Rightarrow> db \<Rightarrow> string \<Rightarrow> time
     \<Rightarrow> sensor_installation result \<times> db" where
  "verify_installation read_back c s k now =
     (case provisioning_verify read_back c s k now of (res, s') \<Rightarrow> (provisioning_http 409 res, s'))"

definition apply_installation ::
  "('c \<Rightarrow> db \<Rightarrow> string \<Rightarrow> string \<Rightarrow> string \<Rightarrow> installation_configuration \<Rightarrow> installation_configuration result \<times> 'c)
     \<Rightarrow> ('c \<Rightarrow> string \<Rightarrow> string \<Rightarrow> string \<Rightarrow> installation_configuration option result)
     \<Rightarrow> 'c \<Rightarrow> db \<Rightarrow> string \<Rightarrow> string \<Rightarrow> time \<Rightarrow> time \<Rightarrow> time \<Rightarrow> sensor_installation result \<times> db \<times> 'c" where
  "apply_installation config read_back c s k transaction_id t0 t1 t2 =
     (case provisioning_apply config read_back c s k transaction_id t0 t1 t2 of
        (res, s', c') \<Rightarrow> (provisioning_http 409 res, s', c'))"

section \<open>What the sections do to the installations\<close>

lemma mark_attempt_frame [simp]:
  "sensor_installations (mark_attempt s t f now) = sensor_installations s"
  "get_installation (mark_attempt s t f now) = get_installation s"
  "get_device (mark_attempt s t f now) = get_device s"
  "readings (mark_attempt s t f now) = readings s"
  by (simp_all add: mark_attempt_def update_attempt_def split: option.splits)

lemma update_attempt_frame [simp]:
  "sensor_installations (update_attempt s a f now) = sensor_installations s"
  "get_installation (update_attempt s a f now) = get_installation s"
  "get_device (update_attempt s a f now) = get_device s"
  "readings (update_attempt s a f now) = readings s"
  by (simp_all add: update_attempt_def)

lemma evolves_same_installations:
  "sensor_installations s1 = sensor_installations s \<Longrightarrow> evolves h s1 s' \<Longrightarrow> evolves h s s'"
  "sensor_installations s' = sensor_installations s \<Longrightarrow> evolves h s s'"
  by (auto simp: evolves_def installation_ids_unique_def get_installation_def intro: same_slot_refl)

lemma update_row_from_evolves:
  assumes "sensor_installations s1 = sensor_installations s" and "get_installation s1 k = Some r0"
    and "installation_update_row s1 r0 f now = (res, s')"
    and "same_slot (f r0) r0" and "live (f r0) \<Longrightarrow> live r0 \<or> h = Some (k, si_node_id r0, si_interface_id r0)"
  shows "evolves h s s'"
  using assms(1) update_row_evolves[OF assms(2-5)] by (rule evolves_same_installations)

lemma fail_values_slot: "same_slot (fail_values e r) r" "same_slot (uncertain_values t e r) r"
  "same_slot (verified_values x r) r" "same_slot (validation_failed_values ex r) r"
  by (simp_all add: fail_values_def uncertain_values_def verified_values_def validation_failed_values_def
      same_slot_def split: option.splits)

text \<open>The slot of the installation, the one the node lock is held for.\<close>

definition slot_of :: "db \<Rightarrow> string \<Rightarrow> (string \<times> string \<times> string) option" where
  "slot_of s k = map_option (\<lambda>r. (k, si_node_id r, si_interface_id r)) (get_installation s k)"

lemma provisioning_fail_evolves: "evolves (slot_of s k) s (provisioning_fail s k t e now)"
proof (cases "get_installation s k")
  case None
  then show ?thesis by (simp add: provisioning_fail_def Let_def evolves_same_installations(2))
next
  case (Some r0)
  let ?s1 = "mark_attempt s t (\<lambda>a. a\<lparr>pa_state := ''failed'', pa_error := Some e\<rparr>) now"
  obtain res s' where u: "installation_update_row ?s1 r0 (fail_values e) now = (res, s')" by fastforce
  have "evolves (slot_of s k) s s'"
    by (rule update_row_from_evolves[where k = k, OF _ _ u]) (simp_all add: Some fail_values_slot slot_of_def)
  with u Some show ?thesis by (simp add: provisioning_fail_def Let_def)
qed

lemma provisioning_uncertain_evolves: "evolves (slot_of s k) s (provisioning_uncertain s k t e now)"
proof (cases "get_installation s k")
  case None
  then show ?thesis by (simp add: provisioning_uncertain_def Let_def evolves_same_installations(2))
next
  case (Some r0)
  let ?s1 = "mark_attempt s t (\<lambda>a. a\<lparr>pa_state := ''reconciling'', pa_error := Some e\<rparr>) now"
  obtain res s' where u: "installation_update_row ?s1 r0 (uncertain_values t e) now = (res, s')" by fastforce
  have "evolves (slot_of s k) s s'"
    by (rule update_row_from_evolves[where k = k, OF _ _ u]) (simp_all add: Some fail_values_slot slot_of_def)
  with u Some show ?thesis by (simp add: provisioning_uncertain_def Let_def)
qed

lemma verify_telemetry_evolves:
  assumes "verify_telemetry s k t now = (res, s')"
  shows "evolves (slot_of s k) s s'"
proof -
  consider "s' = s" | e where "s' = provisioning_fail s k t e now"
    | r0 a reading where "get_installation s k = Some r0"
      "installation_update_row (update_attempt s a (\<lambda>a. a\<lparr>pa_state := ''active''\<rparr>) now) r0
         (verified_values reading) now = (res, s')"
    using assms unfolding verify_telemetry_def
    by (auto split: option.splits sum.splits)
  then show ?thesis
  proof cases
    case 3
    then show ?thesis
      by (intro update_row_from_evolves[where k = k, OF _ _ 3(2)]) (simp_all add: fail_values_slot slot_of_def)
  qed (simp_all add: provisioning_fail_evolves)
qed

lemma verify_finish_evolves:
  "verify_finish s k t requested rb now = (res, s') \<Longrightarrow> evolves (slot_of s k) s s'"
  unfolding verify_finish_def
  by (auto split: sum.splits if_splits intro: provisioning_fail_evolves verify_telemetry_evolves)

lemma apply_ack_Inr:
  assumes "apply_ack s k t outcome now = (Inr u, s')"
  obtains applied a r0 res' where "outcome = Inr applied" "get_attempt s t = Some a" "get_installation s k = Some r0"
    "installation_update_row (update_attempt s a
       (\<lambda>a. a\<lparr>pa_state := ''verifying'', pa_applied_configuration_json := Some applied\<rparr>) now) r0
       (\<lambda>r. r\<lparr>si_provisioning_state := ''verifying''\<rparr>) now = (Inr res', s')"
  using assms unfolding apply_ack_def
  by (auto simp: Let_def split: sum.splits exn.splits option.splits prod.splits if_splits)

lemma apply_ack_evolves:
  assumes "apply_ack s k t outcome now = (res, s')"
  shows "evolves (slot_of s k) s s'"
proof (cases outcome)
  case (Inl e)
  with assms have "s' = s \<or> (\<exists>m. s' = provisioning_fail s k t m now) \<or> (\<exists>m. s' = provisioning_uncertain s k t m now)"
    unfolding apply_ack_def by (auto split: exn.splits if_splits)
  then show ?thesis using provisioning_fail_evolves provisioning_uncertain_evolves evolves_refl by metis
next
  case (Inr applied)
  show ?thesis
  proof (cases "get_attempt s t")
    case None
    with assms Inr show ?thesis by (simp add: apply_ack_def)
  next
    case (Some a)
    let ?s1 = "update_attempt s a (\<lambda>a. a\<lparr>pa_state := ''verifying'', pa_applied_configuration_json := Some applied\<rparr>) now"
    show ?thesis
    proof (cases "get_installation s k")
      case None
      with assms Inr Some show ?thesis by (auto simp: apply_ack_def Let_def intro!: evolves_same_installations(2))
    next
      case r0: (Some r0)
      obtain res' where "installation_update_row ?s1 r0 (\<lambda>r. r\<lparr>si_provisioning_state := ''verifying''\<rparr>) now = (res', s')"
        using assms Inr Some r0 by (auto simp: apply_ack_def Let_def split: prod.splits sum.splits)
      then show ?thesis
        by (rule update_row_from_evolves[where k = k, rotated 2]) (simp_all add: r0 same_slot_def live_def)
    qed
  qed
qed

lemma provisioning_validate_evolves:
  assumes "provisioning_validate vk profiles supports s k now = (res, s')"
  shows "evolves h s s'"
proof (cases "get_installation_handler s k")
  case (Inl e)
  with assms show ?thesis by (simp add: provisioning_validate_def)
next
  case (Inr r0)
  then have r0: "get_installation s k = Some r0"
    by (auto simp: get_installation_handler_def split: option.splits if_splits)
  let ?f = "\<lambda>r. r\<lparr>si_provisioning_state := ''validating'', si_provisioning_error := None\<rparr>"
  define r1 where "r1 = (?f r0)\<lparr>si_updated_at := now\<rparr>"
  obtain res1 s1 where u: "installation_update_row s r0 ?f now = (res1, s1)" by fastforce
  have s1: "res1 = Inr r1" "s1 = upd_installation s k (\<lambda>_. r1)"
    using installation_update_row_cases[OF u] r0 by (auto simp: r1_def dest: get_installation_SomeD)
  have ev1: "evolves h s s1"
    by (rule update_row_evolves[OF r0 u]) (simp_all add: same_slot_def live_def)
  have r1: "get_installation s1 k = Some r1"
    using get_upd_installation[OF r0, of r1 k] installations.get_key[OF r0] by (simp add: s1(2) r1_def)
  have "s' = s1 \<or> (\<exists>f res'. installation_update_row s1 r1 f now = (res', s') \<and> same_slot (f r1) r1 \<and> (live (f r1) \<longrightarrow> live r1))"
    using assms Inr u s1(1) unfolding provisioning_validate_def
    by (auto simp: same_slot_def live_def validation_failed_values_def split: sum.splits if_splits prod.splits)
  then show ?thesis
    using ev1 r1 evolves_trans[OF ev1] update_row_evolves[OF r1] by blast
qed

section \<open>Interleaved provisioning\<close>

text \<open>
  Several coroutines share the database. A coroutine inside \<open>apply\<close> holds the lock of its node
  and is between two sections: waiting for the configurator, about to verify, or waiting for the
  read-back. Handlers without a lock run between any two sections. The outcomes of the
  configurator and of the read-back are arbitrary, so every failure is covered. Version keys are
  integers here, which is no restriction: a step uses finitely many versions.
\<close>

datatype apply_phase =
    Configuring
  | Acknowledged
  | ReadingBack string installation_configuration

record prov_state =
  ps_db :: db
  ps_locks :: "string \<rightharpoonup> (string \<times> string \<times> string \<times> apply_phase)"
    \<comment> \<open>per node: installation, interface, transaction, phase\<close>

inductive prov_step :: "prov_state \<Rightarrow> prov_state \<Rightarrow> bool" where
  create: "create_installation (vk :: string \<Rightarrow> int option) pattern profiles (ps_db p) body uid now = (res, s')
    \<Longrightarrow> prov_step p (p\<lparr>ps_db := s'\<rparr>)"
| update: "update_installation (vk :: string \<Rightarrow> int option) profiles (ps_db p) k changes now = (res, s')
    \<Longrightarrow> prov_step p (p\<lparr>ps_db := s'\<rparr>)"
| disable: "disable_installation (ps_db p) k now = (res, s') \<Longrightarrow> prov_step p (p\<lparr>ps_db := s'\<rparr>)"
| archive: "archive_installation (ps_db p) k hard now = (res', s') \<Longrightarrow> prov_step p (p\<lparr>ps_db := s'\<rparr>)"
| upgrade: "upgrade_profile (vk :: string \<Rightarrow> int option) profiles (ps_db p) k v now = (res, s')
    \<Longrightarrow> prov_step p (p\<lparr>ps_db := s'\<rparr>)"
| validate: "provisioning_validate (vk :: string \<Rightarrow> int option) profiles supports (ps_db p) k now = (res, s')
    \<Longrightarrow> prov_step p (p\<lparr>ps_db := s'\<rparr>)"
| begin_proceed: "get_installation (ps_db p) k = Some r \<Longrightarrow> si_node_id r = n \<Longrightarrow> si_interface_id r = i \<Longrightarrow>
    ps_locks p n = None \<Longrightarrow> apply_begin (ps_db p) k n i t now = (Inr (ApplyProceed requested), s')
    \<Longrightarrow> prov_step p (p\<lparr>ps_db := s', ps_locks := (ps_locks p)(n \<mapsto> (k, i, t, Configuring))\<rparr>)"
| ack_ok: "ps_locks p n = Some (k, i, t, Configuring) \<Longrightarrow> apply_ack (ps_db p) k t outcome now = (Inr (), s')
    \<Longrightarrow> prov_step p (p\<lparr>ps_db := s', ps_locks := (ps_locks p)(n \<mapsto> (k, i, t, Acknowledged))\<rparr>)"
| ack_error: "ps_locks p n = Some (k, i, t, Configuring) \<Longrightarrow> apply_ack (ps_db p) k t outcome now = (Inl e, s')
    \<Longrightarrow> prov_step p (p\<lparr>ps_db := s', ps_locks := (ps_locks p)(n := None)\<rparr>)"
| verify_start: "ps_locks p n = Some (k, i, t, Acknowledged) \<Longrightarrow>
    verify_begin (ps_db p) k = Inr (t', requested, n', i')
    \<Longrightarrow> prov_step p (p\<lparr>ps_locks := (ps_locks p)(n \<mapsto> (k, i, t, ReadingBack t' requested))\<rparr>)"
| verify_error: "ps_locks p n = Some (k, i, t, Acknowledged) \<Longrightarrow> verify_begin (ps_db p) k = Inl e
    \<Longrightarrow> prov_step p (p\<lparr>ps_locks := (ps_locks p)(n := None)\<rparr>)"
| verify_end: "ps_locks p n = Some (k, i, t, ReadingBack t' requested) \<Longrightarrow>
    verify_finish (ps_db p) k t' requested rb now = (res, s')
    \<Longrightarrow> prov_step p (p\<lparr>ps_db := s', ps_locks := (ps_locks p)(n := None)\<rparr>)"

inductive prov_reachable :: "prov_state \<Rightarrow> bool" where
  start: "exclusivity_inv s \<Longrightarrow> prov_reachable \<lparr>ps_db = s, ps_locks = Map.empty\<rparr>"
| step: "prov_reachable p \<Longrightarrow> prov_step p q \<Longrightarrow> prov_reachable q"

definition prov_inv :: "prov_state \<Rightarrow> bool" where
  "prov_inv p =
     (exclusivity_inv (ps_db p)
      \<and> (\<forall>n k i t ph. ps_locks p n = Some (k, i, t, ph) \<longrightarrow>
           slot_of (ps_db p) k = Some (k, n, i)
           \<and> (exclusive_interface i \<longrightarrow> interface_free_for (ps_db p) k n i)))"

lemma evolves_slot_of:
  assumes "evolves h s s'" and "slot_of s k = Some x"
  shows "slot_of s' k = Some x"
proof -
  from assms(2) obtain r where r: "get_installation s k = Some r" "x = (k, si_node_id r, si_interface_id r)"
    by (auto simp: slot_of_def)
  from assms(1) r(1) obtain r' where "get_installation s' k = Some r'" "same_slot r' r" by (rule evolves_slot)
  with r show ?thesis by (simp add: slot_of_def same_slot_def)
qed

text \<open>A section that may only make the holder of lock \<open>n\<close> live keeps the invariant; so does one that
  makes nothing live.\<close>

lemma prov_inv_holder:
  assumes inv: "prov_inv p" and lock: "ps_locks p n = Some (k, i, t, ph)"
    and ev: "evolves (slot_of (ps_db p) k) (ps_db p) s'"
    and locks: "\<And>m. m \<noteq> n \<Longrightarrow> l m = ps_locks p m" "\<And>k' i' t' ph'. l n = Some (k', i', t', ph') \<Longrightarrow> k' = k \<and> i' = i"
  shows "prov_inv \<lparr>ps_db = s', ps_locks = l\<rparr>"
proof -
  have slot: "slot_of (ps_db p) k = Some (k, n, i)" and free: "exclusive_interface i \<Longrightarrow> interface_free_for (ps_db p) k n i"
    using inv lock by (auto simp: prov_inv_def)
  have ex: "exclusivity_inv s'"
    using inv ev free by (intro evolves_exclusive[of "ps_db p" _ s']) (auto simp: prov_inv_def slot)
  have "slot_of s' k' = Some (k', m, i') \<and> (exclusive_interface i' \<longrightarrow> interface_free_for s' k' m i')"
    if lm: "l m = Some (k', i', t', ph')" for m k' i' t' ph'
  proof -
    have old: "slot_of (ps_db p) k' = Some (k', m, i')"
      "exclusive_interface i' \<longrightarrow> interface_free_for (ps_db p) k' m i'"
    proof -
      obtain t2 ph2 where "ps_locks p m = Some (k', i', t2, ph2)"
        using lm locks lock by (cases "m = n") auto
      then show "slot_of (ps_db p) k' = Some (k', m, i')"
        "exclusive_interface i' \<longrightarrow> interface_free_for (ps_db p) k' m i'"
        using inv by (auto simp: prov_inv_def)
    qed
    moreover have "interface_free_for s' k' m i'" if "interface_free_for (ps_db p) k' m i'"
    proof (rule evolves_free[OF ev that])
      fix k2 assume "slot_of (ps_db p) k = Some (k2, m, i')"
      with slot have "m = n" "k2 = k" by auto
      then show "k2 = k'" using lm locks(2) by auto
    qed
    ultimately show ?thesis using evolves_slot_of[OF ev] by blast
  qed
  with ex show ?thesis by (auto simp: prov_inv_def)
qed

lemma prov_inv_quiet:
  assumes inv: "prov_inv p" and ev: "evolves None (ps_db p) s'"
  shows "prov_inv (p\<lparr>ps_db := s'\<rparr>)"
proof -
  have "exclusivity_inv s'"
    using inv ev by (intro evolves_exclusive[of "ps_db p" None s']) (auto simp: prov_inv_def)
  moreover have "interface_free_for s' k n i" if "interface_free_for (ps_db p) k n i" for k n i
    using ev that by (rule evolves_free) simp
  ultimately show ?thesis
    using inv evolves_slot_of[OF ev] by (fastforce simp: prov_inv_def)
qed

lemma apply_begin_proceed:
  assumes "apply_begin s k n i t now = (Inr (ApplyProceed requested), s')"
  obtains r where "get_installation s k = Some r" "\<not> si_archived r" "si_provisioning_state r = ''ready_to_apply''"
    "requested = si_configuration_json r" "\<not> transaction_pending s r"
    "exclusive_interface i \<Longrightarrow> interface_free_for s k n i"
    "\<exists>d. get_device s n = Some d \<and> \<not> rd_archived d \<and> rd_compatibility_status d = ''compatible''"
    "\<exists>c x. capability_get s n = Inr c \<and> find_interface c i = Some x"
    "installation_update_row (add_attempt s (new_attempt t k requested now)) r (applying_values t) now
       = (Inr ((applying_values t r)\<lparr>si_updated_at := now\<rparr>), s')"
proof -
  obtain r where h: "get_installation_handler s k = Inr r"
    using assms by (auto simp: apply_begin_def split: sum.splits)
  then have r: "get_installation s k = Some r" "\<not> si_archived r"
    by (auto simp: get_installation_handler_def split: option.splits if_splits)
  obtain c where c: "capability_get s n = Inr c"
    using assms h by (auto simp: apply_begin_def split: sum.splits if_splits)
  obtain x where x: "find_interface c i = Some x"
    using assms h c by (auto simp: apply_begin_def split: option.splits if_splits)
  obtain d where d: "get_device s n = Some d" "rd_compatibility_status d = ''compatible''"
    using assms h by (auto simp: apply_begin_def split: option.splits if_splits)
  have rest: "\<not> (ni_exclusive x \<and> occupied_interface s n i (Some k) \<noteq> None)" "\<not> transaction_pending s r"
    "si_provisioning_state r = ''ready_to_apply''" "requested = si_configuration_json r"
    "snd (installation_update_row (add_attempt s (new_attempt t k requested now)) r
       (applying_values t) now) = s'"
    using assms h c x d unfolding apply_begin_def
    by (auto simp: Let_def simp del: not_None_eq split: if_splits prod.splits sum.splits)
  have "interface_free_for s k n i" if "exclusive_interface i"
    using rest(1) that find_interface_exclusive[OF capability_interfaces[OF c] x]
    by (auto intro: occupied_interface_free)
  then show ?thesis
    using r rest c x d that[of r]
    by (auto simp: capability_get_Inr_iff installation_update_row_def applying_values_def Let_def)
qed

lemma prov_inv_begin:
  assumes inv: "prov_inv p" and r: "get_installation (ps_db p) k = Some r" "si_node_id r = n" "si_interface_id r = i"
    and b: "apply_begin (ps_db p) k n i t now = (Inr (ApplyProceed requested), s')"
  shows "prov_inv (p\<lparr>ps_db := s', ps_locks := (ps_locks p)(n \<mapsto> (k, i, t, Configuring))\<rparr>)"
proof -
  let ?s1 = "add_attempt (ps_db p) (new_attempt t k requested now)"
  from b obtain free: "exclusive_interface i \<Longrightarrow> interface_free_for (ps_db p) k n i"
    and u: "installation_update_row ?s1 r (applying_values t) now = (Inr ((applying_values t r)\<lparr>si_updated_at := now\<rparr>), s')"
    using r(1) by (auto elim!: apply_begin_proceed)
  have ev: "evolves None (ps_db p) s'"
    by (rule update_row_from_evolves[where k = k, OF _ _ u])
      (simp_all add: r(1) applying_values_def same_slot_def live_def)
  have "prov_inv (p\<lparr>ps_db := s'\<rparr>)" using inv ev by (rule prov_inv_quiet)
  moreover have "slot_of s' k = Some (k, n, i)"
    by (rule evolves_slot_of[OF ev]) (simp add: slot_of_def r)
  moreover have "interface_free_for s' k n i" if "exclusive_interface i"
    using ev free[OF that] by (rule evolves_free) simp
  ultimately show ?thesis by (auto simp: prov_inv_def)
qed

lemma prov_step_inv:
  assumes "prov_step p q" and "prov_inv p"
  shows "prov_inv q"
  using assms
proof (cases rule: prov_step.cases)
  case (create vk pattern profiles body uid now res s')
  then show ?thesis using assms(2) by (auto intro: prov_inv_quiet create_installation_evolves)
next
  case (update vk profiles k changes now res s')
  then show ?thesis using assms(2) by (auto intro: prov_inv_quiet update_installation_evolves)
next
  case (disable k now res s')
  then show ?thesis using assms(2) by (auto intro: prov_inv_quiet disable_installation_evolves)
next
  case (archive k hard now res' s')
  then show ?thesis using assms(2) by (auto intro: prov_inv_quiet archive_installation_evolves)
next
  case (upgrade vk profiles k v now res s')
  then show ?thesis using assms(2) by (auto intro: prov_inv_quiet upgrade_profile_evolves)
next
  case (validate vk profiles supports k now res s')
  then show ?thesis using assms(2) by (auto intro: prov_inv_quiet provisioning_validate_evolves)
next
  case (begin_proceed k r n i t now requested s')
  then show ?thesis using assms(2) by (auto intro: prov_inv_begin)
next
  case (ack_ok n k i t outcome now s')
  then have "prov_inv \<lparr>ps_db = s', ps_locks = (ps_locks p)(n \<mapsto> (k, i, t, Acknowledged))\<rparr>"
    using assms(2) by (intro prov_inv_holder[of p n k i t Configuring] apply_ack_evolves) auto
  then show ?thesis using ack_ok(1) by (cases p) simp
next
  case (ack_error n k i t outcome now e s')
  then have "prov_inv \<lparr>ps_db = s', ps_locks = (ps_locks p)(n := None)\<rparr>"
    using assms(2) by (intro prov_inv_holder[of p n k i t Configuring] apply_ack_evolves) auto
  then show ?thesis using ack_error(1) by (cases p) simp
next
  case (verify_start n k i t t' requested n' i')
  then have "prov_inv \<lparr>ps_db = ps_db p, ps_locks = (ps_locks p)(n \<mapsto> (k, i, t, ReadingBack t' requested))\<rparr>"
    using assms(2) by (intro prov_inv_holder[of p n k i t Acknowledged]) auto
  then show ?thesis using verify_start(1) by (cases p) simp
next
  case (verify_error n k i t e)
  then have "prov_inv \<lparr>ps_db = ps_db p, ps_locks = (ps_locks p)(n := None)\<rparr>"
    using assms(2) by (intro prov_inv_holder[of p n k i t Acknowledged]) auto
  then show ?thesis using verify_error(1) by (cases p) simp
next
  case (verify_end n k i t t' requested rb now res s')
  then have "prov_inv \<lparr>ps_db = s', ps_locks = (ps_locks p)(n := None)\<rparr>"
    using assms(2) by (intro prov_inv_holder[of p n k i t "ReadingBack t' requested"] verify_finish_evolves) auto
  then show ?thesis using verify_end(1) by (cases p) simp
qed

lemma prov_reachable_inv: "prov_reachable p \<Longrightarrow> prov_inv p"
proof (induction rule: prov_reachable.induct)
  case (start s)
  then show ?case by (simp add: prov_inv_def)
next
  case (step p q)
  then show ?case by (blast intro: prov_step_inv)
qed


section \<open>The sections when nothing goes wrong\<close>

text \<open>An installation that may be applied now under the fresh transaction \<open>t\<close>.\<close>

definition ready_for_apply :: "db \<Rightarrow> string \<Rightarrow> string \<Rightarrow> sensor_installation \<Rightarrow> registered_device \<Rightarrow> node_interface \<Rightarrow> bool" where
  "ready_for_apply s k t r d x =
     (get_installation s k = Some r \<and> \<not> si_archived r \<and> si_provisioning_state r = ''ready_to_apply''
      \<and> get_device s (si_node_id r) = Some d \<and> \<not> rd_archived d \<and> rd_compatibility_status d = ''compatible''
      \<and> find_interface (capabilities_for d) (si_interface_id r) = Some x
      \<and> (ni_exclusive x \<longrightarrow> occupied_interface s (si_node_id r) (si_interface_id r) (Some k) = None)
      \<and> \<not> transaction_pending s r \<and> get_attempt s t = None \<and> t \<noteq> '''')"

definition begun :: "db \<Rightarrow> string \<Rightarrow> string \<Rightarrow> sensor_installation \<Rightarrow> time \<Rightarrow> db" where
  "begun s k t r now =
     upd_installation (add_attempt s (new_attempt t k (si_configuration_json r) now)) k
       (\<lambda>_. (applying_values t r)\<lparr>si_updated_at := now\<rparr>)"

lemma ready_precheck:
  "ready_for_apply s k t r d x \<Longrightarrow> apply_precheck s k = Inr (Inr (si_node_id r, si_interface_id r))"
  by (simp add: ready_for_apply_def apply_precheck_def get_installation_handler_def)

lemma ready_begin:
  assumes "ready_for_apply s k t r d x"
  shows "apply_begin s k (si_node_id r) (si_interface_id r) t now = (Inr (ApplyProceed (si_configuration_json r)), begun s k t r now)"
  using assms
  by (auto simp: ready_for_apply_def apply_begin_def get_installation_handler_def capability_get_def Let_def
      installation_update_row_def applying_values_def begun_def dest: get_installation_SomeD)

lemma get_attempt_add:
  "get_attempt s t = None \<Longrightarrow>
     get_attempt (add_attempt s (new_attempt t k c now)) t
     = Some (new_attempt t k c now (next_id pa_id (provisioning_attempts s)))"
  by (simp add: get_attempt_def add_attempt_def find_row_append new_attempt_def)

lemma ready_begun:
  assumes "ready_for_apply s k t r d x"
  shows "get_installation (begun s k t r now) k = Some ((applying_values t r)\<lparr>si_updated_at := now\<rparr>)"
    and "\<exists>a. get_attempt (begun s k t r now) t = Some a \<and> pa_requested_configuration_json a = si_configuration_json r"
    and "get_device (begun s k t r now) = get_device s" and "readings (begun s k t r now) = readings s"
  using assms get_upd_installation[of "add_attempt s (new_attempt t k (si_configuration_json r) now)" k r
      "(applying_values t r)\<lparr>si_updated_at := now\<rparr>" k] get_installation_SomeD[of s k r]
  by (simp_all add: ready_for_apply_def begun_def applying_values_def get_attempt_add new_attempt_def)

lemma get_attempt_update:
  assumes "get_attempt s t = Some a" and "\<And>x. pa_transaction_id (f x) = pa_transaction_id x"
  shows "get_attempt (update_attempt s a f now) t = Some ((f a)\<lparr>pa_updated_at := now\<rparr>)"
  using assms attempts.get_key[OF assms(1)]
  by (simp add: update_attempt_def attempts.get_upd_same)

lemma apply_ack_ok:
  assumes "get_attempt s t = Some a" and "get_installation s k = Some r"
  obtains s' where "apply_ack s k t (Inr applied) now = (Inr (), s')"
    "get_installation s' k = Some (r\<lparr>si_provisioning_state := ''verifying'', si_updated_at := now\<rparr>)"
    "get_attempt s' t = Some (a\<lparr>pa_state := ''verifying'', pa_applied_configuration_json := Some applied, pa_updated_at := now\<rparr>)"
    "get_device s' = get_device s" "readings s' = readings s"
proof -
  let ?s1 = "update_attempt s a (\<lambda>a. a\<lparr>pa_state := ''verifying'', pa_applied_configuration_json := Some applied\<rparr>) now"
  let ?r = "r\<lparr>si_provisioning_state := ''verifying'', si_updated_at := now\<rparr>"
  have r: "get_installation ?s1 k = Some r" "si_installation_id r = k"
    using assms(2) by (auto dest: get_installation_SomeD)
  have "apply_ack s k t (Inr applied) now = (Inr (), upd_installation ?s1 k (\<lambda>_. ?r))"
    using assms r by (simp add: apply_ack_def Let_def installation_update_row_def)
  moreover have "get_installation (upd_installation ?s1 k (\<lambda>_. ?r)) k = Some ?r"
    using get_upd_installation[OF r(1), of ?r k] r(2) by simp
  ultimately show ?thesis
    using that[of "upd_installation ?s1 k (\<lambda>_. ?r)"] get_attempt_update[OF assms(1)] by simp
qed

lemma newest_usable_reading_Some:
  assumes "g \<in> set (readings s)" and "usable_reading pk channels cutoff g"
  obtains g' where "newest_usable_reading s pk channels cutoff = Some g'" "g' \<in> set (readings s)"
    "usable_reading pk channels cutoff g'" "rg_received_at g \<le> rg_received_at g'"
proof -
  let ?k = "\<lambda>r. (- rg_received_at r, - rg_id r)"
  let ?xs = "sort_key ?k (filter (usable_reading pk channels cutoff) (readings s))"
  have "g \<in> set ?xs" using assms by simp
  then obtain g' rest where xs: "?xs = g' # rest" by (cases ?xs) auto
  have g': "g' \<in> set ?xs" by (simp only: xs list.set_intros)
  have "sorted (map ?k (g' # rest))" by (metis xs sorted_sort_key)
  moreover have "g \<in> set (g' # rest)" using \<open>g \<in> set ?xs\<close> by (simp only: xs)
  ultimately have "?k g' \<le> ?k g" by auto
  moreover have "g' \<in> set (readings s)" "usable_reading pk channels cutoff g'" using g' by simp_all
  moreover have "newest_usable_reading s pk channels cutoff = Some g'"
    by (simp only: newest_usable_reading_def xs list.case)
  ultimately show ?thesis using that[of g'] by auto
qed

lemma newest_usable_reading_SomeD:
  "newest_usable_reading s pk channels cutoff = Some g \<Longrightarrow>
     g \<in> set (readings s) \<and> usable_reading pk channels cutoff g"
proof -
  let ?xs = "sort_key (\<lambda>r. (- rg_received_at r, - rg_id r)) (filter (usable_reading pk channels cutoff) (readings s))"
  assume "newest_usable_reading s pk channels cutoff = Some g"
  then obtain rest where "?xs = g # rest"
    by (cases ?xs) (auto simp: newest_usable_reading_def)
  then have "set ?xs = set (g # rest)" by (rule arg_cong)
  then show ?thesis by auto
qed

lemma verify_telemetry_ok:
  assumes "get_installation s k = Some r" and "get_device s (si_node_id r) = Some d" and "\<not> rd_archived d"
    and "find_interface (capabilities_for d) (si_interface_id r) = Some x" and "get_attempt s t = Some a"
    and "newest_usable_reading s (rd_id d) (ni_telemetry_channels x) (now - 60 * 1000000) = Some g"
  obtains s' where "verify_telemetry s k t now = (Inr ((verified_values g r)\<lparr>si_updated_at := now\<rparr>), s')"
    "get_installation s' k = Some ((verified_values g r)\<lparr>si_updated_at := now\<rparr>)"
    "get_attempt s' t = Some (a\<lparr>pa_state := ''active'', pa_updated_at := now\<rparr>)"
proof -
  let ?s1 = "update_attempt s a (\<lambda>a. a\<lparr>pa_state := ''active''\<rparr>) now"
  let ?r = "(verified_values g r)\<lparr>si_updated_at := now\<rparr>"
  have r: "get_installation ?s1 k = Some r" "si_installation_id r = k"
    using assms(1) by (auto dest: get_installation_SomeD)
  have "verify_telemetry s k t now = (Inr ?r, upd_installation ?s1 k (\<lambda>_. ?r))"
    using assms r by (simp add: verify_telemetry_def capability_get_def installation_update_row_def verified_values_def Let_def)
  moreover have "get_installation (upd_installation ?s1 k (\<lambda>_. ?r)) k = Some ?r"
    using get_upd_installation[OF r(1), of ?r k] r(2) by (simp add: verified_values_def)
  ultimately show ?thesis
    using that[of "upd_installation ?s1 k (\<lambda>_. ?r)"] get_attempt_update[OF assms(5)] by simp
qed

section \<open>The configurator interface\<close>

text \<open>The law of \<open>NodeConfigurator\<close> on which \<open>apply\<close> rests: a configuration that was acknowledged is the
  one a read-back of the same transaction returns.\<close>

locale node_configurator =
  fixes config :: "'c \<Rightarrow> db \<Rightarrow> string \<Rightarrow> string \<Rightarrow> string \<Rightarrow> installation_configuration \<Rightarrow> installation_configuration result \<times> 'c"
    and read_back :: "'c \<Rightarrow> string \<Rightarrow> string \<Rightarrow> string \<Rightarrow> installation_configuration option result"
  assumes config_read_back:
    "config c s n i t cfg = (Inr applied, c') \<Longrightarrow> applied = cfg \<and> read_back c' n i t = Inr (Some cfg)"
begin

lemma acknowledged_verify:
  assumes "config c s1 n i t (si_configuration_json r) = (Inr applied, c')"
    and "get_installation s k = Some r" and "si_active_transaction_id r = Some t" and "t \<noteq> []"
    and "si_node_id r = n" and "si_interface_id r = i"
  shows "provisioning_verify read_back c' s k now = verify_telemetry s k t now"
  using config_read_back[OF assms(1)] assms(2-6)
  by (simp add: provisioning_verify_def verify_begin_def verify_finish_def)

text \<open>A configuration the node acknowledges, with telemetry flowing, becomes active.\<close>

lemma apply_activates:
  assumes ready: "ready_for_apply s k t r d x"
    and ack: "config c (begun s k t r t0) (si_node_id r) (si_interface_id r) t (si_configuration_json r) = (Inr applied, c')"
    and g: "g \<in> set (readings s)" "usable_reading (rd_id d) (ni_telemetry_channels x) (t2 - 60 * 1000000) g"
  shows "\<exists>r' a s'. provisioning_apply config read_back c s k t t0 t1 t2 = (Inr r', s', c')
    \<and> get_installation s' k = Some r' \<and> get_attempt s' t = Some a
    \<and> si_provisioning_state r' = ''active'' \<and> si_verification_status r' = ''verified'' \<and> si_enabled r'
    \<and> si_configuration_json r' = si_configuration_json r \<and> si_active_transaction_id r' = None
    \<and> pa_state a = ''active'' \<and> pa_requested_configuration_json a = si_configuration_json r
    \<and> pa_applied_configuration_json a = Some (si_configuration_json r)"
proof -
  note b = ready_begun[OF ready, of t0]
  from b(2) obtain a where a: "get_attempt (begun s k t r t0) t = Some a"
    "pa_requested_configuration_json a = si_configuration_json r" by blast
  obtain s2 where s2: "apply_ack (begun s k t r t0) k t (Inr applied) t1 = (Inr (), s2)"
    "get_installation s2 k = Some (((applying_values t r)\<lparr>si_updated_at := t0\<rparr>)\<lparr>si_provisioning_state := ''verifying'', si_updated_at := t1\<rparr>)"
    "get_attempt s2 t = Some (a\<lparr>pa_state := ''verifying'', pa_applied_configuration_json := Some applied, pa_updated_at := t1\<rparr>)"
    "get_device s2 = get_device s" "readings s2 = readings s"
    using apply_ack_ok[OF a(1) b(1), of applied t1] b(3,4) by metis
  define r2 where "r2 = ((applying_values t r)\<lparr>si_updated_at := t0\<rparr>)\<lparr>si_provisioning_state := ''verifying'', si_updated_at := t1\<rparr>"
  have r2: "si_node_id r2 = si_node_id r" "si_interface_id r2 = si_interface_id r"
    "si_active_transaction_id r2 = Some t" "si_configuration_json r2 = si_configuration_json r"
    by (simp_all add: r2_def applying_values_def)
  have applied: "applied = si_configuration_json r" using config_read_back[OF ack] by simp
  have "provisioning_verify read_back c' s2 k t2 = verify_telemetry s2 k t t2"
    using ack ready s2(2) r2
    by (intro acknowledged_verify[of c "begun s k t r t0" "si_node_id r" "si_interface_id r" t r2 applied c' s2 k])
      (simp_all add: r2_def [symmetric] ready_for_apply_def)
  moreover obtain g' where g': "newest_usable_reading s2 (rd_id d) (ni_telemetry_channels x) (t2 - 60 * 1000000) = Some g'"
    using newest_usable_reading_Some[of g s2] g s2(5) by metis
  define a2 where "a2 = a\<lparr>pa_state := ''verifying'', pa_applied_configuration_json := Some applied, pa_updated_at := t1\<rparr>"
  obtain s3 where "verify_telemetry s2 k t t2 = (Inr ((verified_values g' r2)\<lparr>si_updated_at := t2\<rparr>), s3)"
    "get_installation s3 k = Some ((verified_values g' r2)\<lparr>si_updated_at := t2\<rparr>)"
    "get_attempt s3 t = Some (a2\<lparr>pa_state := ''active'', pa_updated_at := t2\<rparr>)"
    by (rule verify_telemetry_ok[of s2 k r2 d x t a2 t2 g'])
      (use s2 r2 ready g' in \<open>simp_all add: r2_def [symmetric] a2_def [symmetric] ready_for_apply_def\<close>)
  ultimately show ?thesis
    using ready_precheck[OF ready] ready_begin[OF ready, of t0] ack s2(1) a(2) applied r2
    by (auto simp: provisioning_apply_def verified_values_def a2_def)
qed

end

interpretation pi: node_configurator pi_apply pi_read_back
  by unfold_locales (auto simp: pi_apply_def pi_read_back_def)

interpretation ble: node_configurator "ble_apply provision" ble_read_back for provision
  by unfold_locales
    (auto simp: ble_apply_def ble_read_back_def Let_def split: if_splits option.splits sum.splits)

section \<open>Properties of provisioning\<close>

text \<open>C2. The production path works end to end: for an installation on the microphone interface
  that was validated and whose node is compatible and reachable, if the node acknowledges the
  configuration and valid telemetry of that interface arrived within the last 60 seconds, \<open>apply\<close>
  returns the installation active, verified and enabled with the requested configuration, its
  attempt is closed as active with the acknowledged configuration, and the connection that was
  released for provisioning is scheduled again.\<close>

theorem ble_apply_activates:
  assumes "ready_for_apply s k t r d x" and "si_interface_id r = ''MIC''"
    and "rd_ble_address d = Some address" and "address \<noteq> ''''"
    and "provision address (si_node_id r) (take 16 t) (si_configuration_json r) = Inr ()"
    and "g \<in> set (readings s)" and "usable_reading (rd_id d) (ni_telemetry_channels x) (t2 - 60 * 1000000) g"
  shows "\<exists>r' a s' c'. provisioning_apply (ble_apply provision) ble_read_back c s k t t0 t1 t2 = (Inr r', s', c')
    \<and> get_installation s' k = Some r' \<and> get_attempt s' t = Some a
    \<and> si_provisioning_state r' = ''active'' \<and> si_verification_status r' = ''verified'' \<and> si_enabled r'
    \<and> si_configuration_json r' = si_configuration_json r \<and> si_active_transaction_id r' = None
    \<and> pa_state a = ''active'' \<and> pa_requested_configuration_json a = si_configuration_json r
    \<and> pa_applied_configuration_json a = Some (si_configuration_json r)
    \<and> (bc_has_manager c \<longrightarrow> bc_manager_calls c' =
         bc_manager_calls c @ [ManagerRemove (si_node_id r), ManagerSchedule (si_node_id r) address])"
proof -
  have dev: "get_device (begun s k t r t0) (si_node_id r) = Some d"
    using ready_begun(3)[OF assms(1)] assms(1) by (simp add: ready_for_apply_def)
  obtain c' where ack: "ble_apply provision c (begun s k t r t0) (si_node_id r) (si_interface_id r) t (si_configuration_json r)
      = (Inr (si_configuration_json r), c')"
    and calls: "bc_has_manager c \<longrightarrow> bc_manager_calls c' =
         bc_manager_calls c @ [ManagerRemove (si_node_id r), ManagerSchedule (si_node_id r) address]"
    using assms(2-5) dev by (simp add: ble_apply_def supports_interface_def Let_def)
  show ?thesis
    using ble.apply_activates[OF assms(1) ack assms(6,7), of t1] calls by metis
qed

text \<open>How the row of an installation ends after a failed transaction.\<close>

lemma failed_row:
  assumes "get_installation s k = Some r" and "get_attempt s t = Some a"
  shows "get_installation (provisioning_fail s k t e now) k = Some ((fail_values e r)\<lparr>si_updated_at := now\<rparr>)"
    and "get_attempt (provisioning_fail s k t e now) t = Some (a\<lparr>pa_state := ''failed'', pa_error := Some e, pa_updated_at := now\<rparr>)"
    and "get_installation (provisioning_uncertain s k t e now) k = Some ((uncertain_values t e r)\<lparr>si_updated_at := now\<rparr>)"
    and "get_attempt (provisioning_uncertain s k t e now) t = Some (a\<lparr>pa_state := ''reconciling'', pa_error := Some e, pa_updated_at := now\<rparr>)"
proof -
  have slot: "si_device_id (fail_values e r) = si_device_id r" "si_installation_id (fail_values e r) = si_installation_id r"
    "si_device_id (uncertain_values t e r) = si_device_id r" "si_installation_id (uncertain_values t e r) = si_installation_id r"
    using fail_values_slot(1)[of e r] fail_values_slot(2)[of t e r] by (simp_all add: same_slot_def)
  have k: "si_installation_id r = k" using assms(1) by (auto dest: get_installation_SomeD)
  show "get_installation (provisioning_fail s k t e now) k = Some ((fail_values e r)\<lparr>si_updated_at := now\<rparr>)"
    "get_installation (provisioning_uncertain s k t e now) k = Some ((uncertain_values t e r)\<lparr>si_updated_at := now\<rparr>)"
    using assms(1) k slot
    by (simp_all add: provisioning_fail_def provisioning_uncertain_def Let_def installation_update_row_def
        get_upd_installation[where ?r0.0 = r])
  show "get_attempt (provisioning_fail s k t e now) t = Some (a\<lparr>pa_state := ''failed'', pa_error := Some e, pa_updated_at := now\<rparr>)"
    "get_attempt (provisioning_uncertain s k t e now) t = Some (a\<lparr>pa_state := ''reconciling'', pa_error := Some e, pa_updated_at := now\<rparr>)"
    using assms slot get_attempt_update[OF assms(2)]
    by (simp_all add: provisioning_fail_def provisioning_uncertain_def Let_def installation_update_row_def mark_attempt_def)
qed

text \<open>C3. A failed replacement never leaves an installation half configured. When the node rejects
  the configuration, an installation that was active before gets its previous configuration back
  and is active and enabled again, and one without a previous configuration is failed and
  disabled; when the answer is lost, the former is restored likewise and keeps the transaction for
  reconciliation, and the latter waits disabled in state reconciling. The attempt records the
  outcome, and the error names the transaction.\<close>

theorem apply_failure_recovers:
  assumes ready: "ready_for_apply s k t r d x"
    and "config c (begun s k t r t0) (si_node_id r) (si_interface_id r) t (si_configuration_json r) = (Inl e, c')"
    and "e = TimeoutError \<or> (\<exists>m. e = ConnectionError m) \<or> is_value_error e"
  shows "\<exists>m code state nx r' a s'.
    provisioning_apply config read_back c s k t t0 t1 t2 = (Inl (ProvisioningError m code (Some t) state nx), s', c')
    \<and> get_installation s' k = Some r' \<and> get_attempt s' t = Some a
    \<and> pa_state a = (if is_value_error e then ''failed'' else ''reconciling'')
    \<and> state = (if is_value_error e then ''unchanged'' else ''unknown'')
    \<and> si_active_transaction_id r' = (if is_value_error e then None else Some t)
    \<and> (case si_previous_configuration_json r of
         Some p \<Rightarrow> si_configuration_json r' = p \<and> si_provisioning_state r' = ''active'' \<and> si_enabled r'
       | None \<Rightarrow> si_configuration_json r' = si_configuration_json r \<and> \<not> si_enabled r'
           \<and> si_provisioning_state r' = (if is_value_error e then ''failed'' else ''reconciling''))"
proof -
  note b = ready_begun[OF ready, of t0]
  from b(2) obtain a where a: "get_attempt (begun s k t r t0) t = Some a" by blast
  note rows = failed_row[OF b(1) a]
  let ?s1 = "begun s k t r t0"
  have run: "provisioning_apply config read_back c s k t t0 t1 t2 = (case apply_ack ?s1 k t (Inl e) t1 of
      (Inl err, s2) \<Rightarrow> (Inl err, s2, c') | (Inr _, s2) \<Rightarrow> (case provisioning_verify read_back c' s2 k t2 of (res, s3) \<Rightarrow> (res, s3, c')))"
    using ready_precheck[OF ready] ready_begin[OF ready, of t0] assms(2) by (simp add: provisioning_apply_def)
  have prev: "si_previous_configuration_json ((applying_values t r)\<lparr>si_updated_at := t0\<rparr>) = si_previous_configuration_json r"
    by (simp add: applying_values_def)
  consider (rejected) "is_value_error e" | (lost) "e = TimeoutError \<or> (\<exists>m. e = ConnectionError m)" "\<not> is_value_error e"
    using assms(3) by fastforce
  then show ?thesis
  proof cases
    case rejected
    then have "\<exists>m. apply_ack ?s1 k t (Inl e) t1 = (Inl (ProvisioningError m ''device_rejected'' (Some t) ''unchanged'' ''revalidate''),
        provisioning_fail ?s1 k t (exn_name e) t1)"
      by (cases e) (auto simp: apply_ack_def)
    with rejected rows(1,2) show ?thesis
      unfolding run by (force simp: fail_values_def applying_values_def split: option.splits)
  next
    case lost
    then have "\<exists>m code err. apply_ack ?s1 k t (Inl e) t1 = (Inl (ProvisioningError m code (Some t) ''unknown'' ''authoritative_readback''),
        provisioning_uncertain ?s1 k t err t1)"
      by (auto simp: apply_ack_def)
    with lost rows(3,4) show ?thesis
      unfolding run by (force simp: uncertain_values_def applying_values_def split: option.splits)
  qed
qed

text \<open>C4. An installation is declared verified only on evidence: if \<open>verify\<close> returns it, the
  read-back of its transaction equalled its stored configuration, and a reading of one of the
  interface's channels with usable quality was received from the node in the last 60 seconds.\<close>

theorem verified_only_on_evidence:
  assumes "provisioning_verify read_back c s k now = (Inr r', s')"
  shows "\<exists>r t d x g. get_installation s k = Some r \<and> si_active_transaction_id r = Some t
    \<and> read_back c (si_node_id r) (si_interface_id r) t = Inr (Some (si_configuration_json r))
    \<and> get_device s (si_node_id r) = Some d \<and> \<not> rd_archived d
    \<and> x \<in> set node_interfaces \<and> ni_interface_id x = si_interface_id r
    \<and> g \<in> set (readings s) \<and> rg_registered_device_id g = rd_id d
    \<and> rg_channel g \<in> set (ni_telemetry_channels x) \<and> now - 60000000 \<le> rg_received_at g
    \<and> rg_quality g \<notin> {''invalid'', ''sensor_fault'', ''stale''}
    \<and> si_configuration_json r' = si_configuration_json r \<and> si_last_valid_reading_at r' = Some (rg_received_at g)"
proof -
  obtain t req n i where b: "verify_begin s k = Inr (t, req, n, i)"
    using assms by (auto simp: provisioning_verify_def split: sum.splits)
  then obtain r where r: "get_installation s k = Some r" "si_active_transaction_id r = Some t"
    "req = si_configuration_json r" "n = si_node_id r" "i = si_interface_id r"
    by (auto simp: verify_begin_def truthy_def split: option.splits if_splits)
  have fin: "verify_finish s k t req (read_back c n i t) now = (Inr r', s')"
    using assms b by (simp add: provisioning_verify_def)
  then have rb: "read_back c n i t = Inr (Some req)" and tel: "verify_telemetry s k t now = (Inr r', s')"
    by (auto simp: verify_finish_def split: sum.splits if_splits)
  from tel r(1) obtain d x g where d: "get_device s (si_node_id r) = Some d" "\<not> rd_archived d"
    and x: "find_interface (capabilities_for d) (si_interface_id r) = Some x"
    and g: "newest_usable_reading s (rd_id d) (ni_telemetry_channels x) (now - 60 * 1000000) = Some g"
    and r': "r' = (verified_values g r)\<lparr>si_updated_at := now\<rparr>"
    unfolding verify_telemetry_def
    by (auto simp: capability_get_def installation_update_row_def Let_def verified_values_def
        split: option.splits sum.splits if_splits)
  have "x \<in> set node_interfaces" "ni_interface_id x = si_interface_id r"
    using find_interface_Some[OF x] by (simp_all add: capabilities_for_def)
  with r rb d newest_usable_reading_SomeD[OF g] r' show ?thesis
    by (auto simp: usable_reading_def verified_values_def intro!: exI[of _ g])
qed

text \<open>Repeating \<open>apply\<close> is harmless: for an active installation it returns the stored row
  without touching the database or the configurator, and while a transaction of the installation
  is applying, verifying or active it does so unless it raises.\<close>

theorem apply_idempotent:
  assumes "get_installation s k = Some r" and "\<not> si_archived r"
    and "si_provisioning_state r = ''active''
      \<or> (\<exists>x a. si_active_transaction_id r = Some x \<and> x \<noteq> [] \<and> get_attempt s x = Some a
             \<and> pa_state a \<in> {''applying'', ''verifying'', ''active''})"
  shows "\<exists>res. provisioning_apply config read_back c s k t t0 t1 t2 = (res, s, c)
    \<and> (case res of Inr r' \<Rightarrow> r' = r | Inl _ \<Rightarrow> si_provisioning_state r \<noteq> ''active'')"
proof (cases "si_provisioning_state r = ''active''")
  case True
  with assms show ?thesis
    by (simp add: provisioning_apply_def apply_precheck_def get_installation_handler_def)
next
  case False
  with assms(3) have pending: "transaction_pending s r" by (auto simp: transaction_pending_def)
  have h: "get_installation_handler s k = Inr r" using assms(1,2) by (simp add: get_installation_handler_def)
  have "(\<exists>e. apply_begin s k (si_node_id r) (si_interface_id r) t t0 = (Inl e, s))
      \<or> apply_begin s k (si_node_id r) (si_interface_id r) t t0 = (Inr (ApplyReturn r), s)"
    unfolding apply_begin_def h using False pending
    by (auto split: option.splits sum.splits if_splits)
  with False h show ?thesis
    by (auto simp: provisioning_apply_def apply_precheck_def)
qed

text \<open>The verification endpoint is not protected like \<open>apply\<close>: called on an installation that
  still carries a transaction the node never acknowledged and a previous configuration (for example
  after a lost acknowledgement followed by a profile upgrade), it re-enables that installation
  without looking at the interface, so two live installations share an exclusive interface.\<close>

theorem direct_verify_breaks_exclusivity:
  assumes "get_installation s k = Some r" and "\<not> si_archived r" and "si_active_transaction_id r = Some t" and "t \<noteq> ''''"
    and "si_previous_configuration_json r = Some p" and "bc_verified c t = None"
    and "b \<in> set (sensor_installations s)" and "live b" and "si_installation_id b \<noteq> k"
    and "si_node_id b = si_node_id r" and "si_interface_id b = si_interface_id r"
    and "exclusive_interface (si_interface_id r)"
  shows "\<not> interfaces_exclusive (snd (provisioning_verify ble_read_back c s k now))"
proof
  let ?r = "(fail_values ''ValueError'' r)\<lparr>si_updated_at := now\<rparr>"
  let ?s1 = "mark_attempt s t (\<lambda>a. a\<lparr>pa_state := ''failed'', pa_error := Some ''ValueError''\<rparr>) now"
  define s' where "s' = snd (provisioning_verify ble_read_back c s k now)"
  assume "interfaces_exclusive (snd (provisioning_verify ble_read_back c s k now))"
  then have ex: "interfaces_exclusive s'" by (simp add: s'_def)
  have k: "r \<in> set (sensor_installations s)" "si_installation_id r = k"
    using assms(1) by (auto dest: get_installation_SomeD)
  have s': "s' = upd_installation ?s1 k (\<lambda>_. ?r)"
    using assms(1-6) k(2)
    by (simp add: s'_def provisioning_verify_def verify_begin_def verify_finish_def ble_read_back_def
        provisioning_fail_def installation_update_row_def fail_values_def Let_def)
  have "?r \<in> set (sensor_installations s')" "b \<in> set (sensor_installations s')"
    using k assms(7,9) by (auto simp: s' upd_installation_def set_upd_rows image_iff)
  moreover have "live ?r" "si_node_id ?r = si_node_id b" "si_interface_id ?r = si_interface_id b"
    "si_installation_id ?r = k"
    using assms(2,5,10,11) k(2) by (simp_all add: fail_values_def live_def)
  ultimately show False
    using interfaces_exclusiveD[OF ex, of ?r b] assms(8,9,11,12) by simp
qed

section \<open>Examples\<close>

definition sample_installation :: "string \<Rightarrow> string \<Rightarrow> sensor_installation" where
  "sample_installation k state =
     (draft_row \<lparr>ir_node_id = ''NODE-1'', ir_device_id = ''MIC-'' @ k, ir_display_name = ''Mic'',
        ir_sensor_profile_id = ''seeed.xiao_mg24_sense.microphone'', ir_sensor_profile_version = ''1.0.0'',
        ir_interface_id = ''MIC'', ir_location = None, ir_description = None,
        ir_configuration = default_installation_configuration\<rparr> (microphone_profile ''1.0.0'') k 0 1)
     \<lparr>si_installation_id := k, si_provisioning_state := state, si_enabled := (state = ''active'')\<rparr>"

lemma sample_installation_fields:
  "si_node_id (sample_installation k st) = ''NODE-1''" "si_interface_id (sample_installation k st) = ''MIC''"
  "si_configuration_json (sample_installation k st) = default_installation_configuration"
  "si_provisioning_state (sample_installation k st) = st" "\<not> si_archived (sample_installation k st)"
  "si_installation_id (sample_installation k st) = k"
  by (simp_all add: sample_installation_def draft_row_def)

definition mic_reading :: reading where
  "mic_reading = (sample_reading 1 1000)\<lparr>rg_channel := ''microphone_raw''\<rparr>"

definition provisioning_db :: "sensor_installation list \<Rightarrow> db" where
  "provisioning_db rows = sample_db\<lparr>sensor_installations := rows, readings := [mic_reading]\<rparr>"

lemma find_mic: "find_interface (capabilities_for d) ''MIC'' = Some (hd node_interfaces)"
  by (simp add: find_interface_def capabilities_for_def node_interfaces_def)

lemma exclusive_mic: "exclusive_interface ''MIC''"
  by (simp add: exclusive_interface_def node_interfaces_def)

lemma sample_ready:
  assumes "si_previous_configuration_json r = p" and "r = (sample_installation ''A'' ''ready_to_apply'')\<lparr>si_previous_configuration_json := p\<rparr>"
  shows "ready_for_apply (provisioning_db [r]) ''A'' ''T'' r sample_node (hd node_interfaces)"
  by (simp add: assms(2) ready_for_apply_def provisioning_db_def sample_db_def sample_installation_def draft_row_def
      get_installation_def get_device_def sample_node_def find_mic occupied_interface_def
      transaction_pending_def get_attempt_def empty_db_def device_defaults_def)

lemma sample_usable:
  "mic_reading \<in> set (readings (provisioning_db rows))"
  "usable_reading (rd_id sample_node) (ni_telemetry_channels (hd node_interfaces)) (2000 - 60 * 1000000) mic_reading"
  by (simp_all add: provisioning_db_def usable_reading_def mic_reading_def sample_reading_def sample_node_def
      device_defaults_def node_interfaces_def)

definition ble_idle :: ble_configurator where
  "ble_idle = \<lparr>bc_verified = Map.empty, bc_has_manager = True, bc_manager_calls = []\<rparr>"

theorem ble_apply_activates_witness:
  "\<exists>r' s' c'. provisioning_apply (ble_apply (\<lambda>_ _ _ _. Inr ())) ble_read_back ble_idle
       (provisioning_db [sample_installation ''A'' ''ready_to_apply'']) ''A'' ''T'' 0 1 2000 = (Inr r', s', c')
     \<and> si_enabled r' \<and> bc_manager_calls c' = [ManagerRemove ''NODE-1'', ManagerSchedule ''NODE-1'' ''AA:BB'']"
proof -
  let ?r = "sample_installation ''A'' ''ready_to_apply''"
  have r: "si_previous_configuration_json ?r = None" "si_interface_id ?r = ''MIC''" "si_node_id ?r = ''NODE-1''"
    by (simp_all add: sample_installation_def draft_row_def)
  have ready: "ready_for_apply (provisioning_db [?r]) ''A'' ''T'' ?r sample_node (hd node_interfaces)"
    by (rule sample_ready[where p = None]) (use r(1) in simp_all)
  have addr: "rd_ble_address sample_node = Some ''AA:BB''" by (simp add: sample_node_def)
  show ?thesis
    using ble_apply_activates[OF ready r(2) addr _ _ sample_usable, of "\<lambda>_ _ _ _. Inr ()" ble_idle 0 1] r(3)
    by (auto simp: ble_idle_def)
qed

theorem apply_failure_recovers_witness:
  "\<exists>err r' s'. provisioning_apply (\<lambda>c _ _ _ _ _. (Inl TimeoutError, c)) pi_read_back Map.empty
       (provisioning_db [(sample_installation ''A'' ''ready_to_apply'')\<lparr>si_previous_configuration_json
          := Some default_installation_configuration\<rparr>]) ''A'' ''T'' 0 1 2 = (Inl err, s', Map.empty)
     \<and> get_installation s' ''A'' = Some r' \<and> si_enabled r' \<and> si_provisioning_state r' = ''active''"
proof -
  let ?p = "Some default_installation_configuration"
  let ?r = "(sample_installation ''A'' ''ready_to_apply'')\<lparr>si_previous_configuration_json := ?p\<rparr>"
  have ready: "ready_for_apply (provisioning_db [?r]) ''A'' ''T'' ?r sample_node (hd node_interfaces)"
    by (rule sample_ready[where p = ?p]) simp_all
  show ?thesis
    using apply_failure_recovers[OF ready, of "\<lambda>c _ _ _ _ _. (Inl TimeoutError, c)" Map.empty 0 TimeoutError Map.empty
        pi_read_back 1 2]
    by auto
qed

theorem verified_only_on_evidence_witness:
  "\<exists>r g. get_installation (provisioning_db [(sample_installation ''A'' ''verifying'')\<lparr>si_active_transaction_id := Some ''T''\<rparr>]) ''A'' = Some r
     \<and> g \<in> set (readings (provisioning_db [(sample_installation ''A'' ''verifying'')\<lparr>si_active_transaction_id := Some ''T''\<rparr>]))
     \<and> 2000 - 60000000 \<le> rg_received_at g"
proof -
  let ?r = "(sample_installation ''A'' ''verifying'')\<lparr>si_active_transaction_id := Some ''T''\<rparr>"
  let ?s = "(provisioning_db [?r])"
  let ?c = "[(''NODE-1'', ''MIC'') \<mapsto> default_installation_configuration]"
  have att: "get_attempt (add_attempt ?s (new_attempt ''T'' ''A'' default_installation_configuration 0)) ''T'' \<noteq> None"
    by (subst get_attempt_add) (simp_all add: get_attempt_def provisioning_db_def sample_db_def empty_db_def)
  let ?s2 = "add_attempt ?s (new_attempt ''T'' ''A'' default_installation_configuration 0)"
  have inst: "get_installation ?s2 ''A'' = Some ?r"
    by (simp add: get_installation_def provisioning_db_def sample_installation_def)
  obtain a where a: "get_attempt ?s2 ''T'' = Some a" using att by auto
  have dev: "get_device ?s2 ''NODE-1'' = Some sample_node"
    by (simp add: get_device_def provisioning_db_def sample_db_def sample_node_def)
  obtain g where g: "newest_usable_reading ?s2 (rd_id sample_node) (ni_telemetry_channels (hd node_interfaces)) (2000 - 60 * 1000000) = Some g"
    using newest_usable_reading_Some[of mic_reading ?s2] sample_usable by (metis add_attempt_frame(3))
  obtain s' where tel: "verify_telemetry ?s2 ''A'' ''T'' 2000 = (Inr ((verified_values g ?r)\<lparr>si_updated_at := 2000\<rparr>), s')"
    by (rule verify_telemetry_ok[OF inst, of sample_node "hd node_interfaces" "''T''" a 2000 g])
      (use dev a g in \<open>simp_all add: sample_installation_fields find_mic, simp add: sample_node_def device_defaults_def\<close>)
  have v: "provisioning_verify pi_read_back ?c ?s2 ''A'' 2000 = (Inr ((verified_values g ?r)\<lparr>si_updated_at := 2000\<rparr>), s')"
    using inst tel by (simp add: provisioning_verify_def verify_begin_def verify_finish_def pi_read_back_def
        sample_installation_fields)
  from verified_only_on_evidence[OF v] inst show ?thesis
    by auto
qed

theorem apply_idempotent_witness:
  "\<exists>res. provisioning_apply pi_apply pi_read_back Map.empty (provisioning_db [sample_installation ''A'' ''active'']) ''A'' ''T'' 0 1 2
     = (res, provisioning_db [sample_installation ''A'' ''active''], Map.empty) \<and> res = Inr (sample_installation ''A'' ''active'')"
proof -
  let ?r = "sample_installation ''A'' ''active''" and ?s = "provisioning_db [sample_installation ''A'' ''active'']"
  have "get_installation ?s ''A'' = Some ?r" "\<not> si_archived ?r" "si_provisioning_state ?r = ''active''"
    by (simp_all add: get_installation_def provisioning_db_def sample_installation_def draft_row_def)
  then obtain res where "provisioning_apply pi_apply pi_read_back Map.empty ?s ''A'' ''T'' 0 1 2 = (res, ?s, Map.empty)"
    "case res of Inr r' \<Rightarrow> r' = ?r | Inl _ \<Rightarrow> si_provisioning_state ?r \<noteq> ''active''"
    using apply_idempotent[of ?s "''A''" ?r pi_apply pi_read_back Map.empty "''T''" 0 1 2] by blast
  then show ?thesis by (cases res) (simp_all add: sample_installation_fields)
qed

theorem direct_verify_breaks_exclusivity_witness:
  "exclusivity_inv (provisioning_db [(sample_installation ''A'' ''ready_to_apply'')\<lparr>si_active_transaction_id := Some ''T'',
        si_previous_configuration_json := Some default_installation_configuration\<rparr>, sample_installation ''B'' ''active''])
   \<and> \<not> interfaces_exclusive (snd (provisioning_verify ble_read_back ble_idle
        (provisioning_db [(sample_installation ''A'' ''ready_to_apply'')\<lparr>si_active_transaction_id := Some ''T'',
        si_previous_configuration_json := Some default_installation_configuration\<rparr>, sample_installation ''B'' ''active'']) ''A'' 7))"
proof
  let ?r = "(sample_installation ''A'' ''ready_to_apply'')\<lparr>si_active_transaction_id := Some ''T'',
        si_previous_configuration_json := Some default_installation_configuration\<rparr>"
  let ?b = "sample_installation ''B'' ''active''"
  let ?s = "provisioning_db [?r, ?b]"
  show "exclusivity_inv ?s"
    by (simp add: exclusivity_inv_def interfaces_exclusive_def installation_ids_unique_def provisioning_db_def
        sample_installation_def draft_row_def live_def)
  show "\<not> interfaces_exclusive (snd (provisioning_verify ble_read_back ble_idle ?s ''A'' 7))"
    by (rule direct_verify_breaks_exclusivity[of _ _ ?r "''T''" default_installation_configuration _ ?b])
      (simp_all add: get_installation_def provisioning_db_def sample_installation_def draft_row_def live_def
        ble_idle_def exclusive_mic)
qed


end
