(* ===== verification/Telemetry_Parser.thy ===== *)
theory Telemetry_Parser
  imports Models
begin

text \<open>
  The decoder of BLE notifications, \<open>gateway/app/ble/telemetry_parser.py\<close>. The decoding of the
  bytes (UTF-8, stripping, JSON) is the parameter \<open>loads\<close>, \<open>None\<close> when it fails; everything after
  it is modelled on the decoded value: numbers keep the distinction between integers and floats,
  conversion of a huge integer to a float raises \<open>OverflowError\<close>, and membership tests of
  unhashable values raise \<open>TypeError\<close>. Float divisions are rounded with \<open>fl\<close>. A model whose
  fields violate their constraints raises Pydantic's \<open>ValidationError\<close>.
\<close>

section \<open>Numbers and arrays\<close>

definition range_error :: "string \<Rightarrow> exn" where
  "range_error field = TelemetryParseError (field @ '' is outside the permitted range'')"

definition out_of_range :: "real \<Rightarrow> int option \<Rightarrow> int option \<Rightarrow> bool" where
  "out_of_range r minimum maximum =
     ((case minimum of None \<Rightarrow> False | Some lo \<Rightarrow> r < of_int lo)
      \<or> (case maximum of None \<Rightarrow> False | Some hi \<Rightarrow> r > of_int hi))"

fun finite_number :: "json \<Rightarrow> string \<Rightarrow> int option \<Rightarrow> int option \<Rightarrow> json result" where
  "finite_number (JInt n) field minimum maximum =
     (if \<bar>n\<bar> \<ge> float_overflow_bound then Inl (OverflowError ''int too large to convert to float'')
      else if out_of_range (of_int n) minimum maximum then Inl (range_error field)
      else Inr (JInt n))"
| "finite_number (JFloat x) field minimum maximum =
     (case x of
        Fin r \<Rightarrow> if out_of_range r minimum maximum then Inl (range_error field) else Inr (JFloat x)
      | _ \<Rightarrow> Inl (TelemetryParseError (field @ '' must be finite'')))"
| "finite_number _ field minimum maximum = Inl (TelemetryParseError (field @ '' must be numeric''))"

text \<open>\<open>int(value)\<close> truncates; the callers have checked that the value is not negative.\<close>

fun int_of_number :: "json \<Rightarrow> int" where
  "int_of_number (JInt n) = n"
| "int_of_number (JFloat (Fin r)) = \<lfloor>r\<rfloor>"
| "int_of_number _ = 0"

fun float_of_number :: "(real \<Rightarrow> real) \<Rightarrow> json \<Rightarrow> real" where
  "float_of_number fl (JInt n) = fl (of_int n)"
| "float_of_number fl (JFloat (Fin r)) = r"
| "float_of_number fl _ = 0"

definition uint32 :: "json \<Rightarrow> string \<Rightarrow> int result" where
  "uint32 value field =
     bind_result (finite_number value field (Some 0) (Some uint32_max)) (\<lambda>v. Inr (int_of_number v))"

definition item_field :: "string \<Rightarrow> nat \<Rightarrow> string" where
  "item_field field index = field @ ''['' @ nat_str index @ '']''"

fun map_index_result :: "(nat \<Rightarrow> 'a \<Rightarrow> 'b result) \<Rightarrow> nat \<Rightarrow> 'a list \<Rightarrow> 'b list result" where
  "map_index_result f i [] = Inr []"
| "map_index_result f i (x # xs) =
     bind_result (f i x) (\<lambda>y. bind_result (map_index_result f (Suc i) xs) (\<lambda>ys. Inr (y # ys)))"

definition parse_array :: "json \<Rightarrow> string \<Rightarrow> nat option \<Rightarrow> nat \<Rightarrow> json list result" where
  "parse_array value field exact maximum =
     (case value of
        JArr xs \<Rightarrow>
          if length xs > maximum \<or> (case exact of None \<Rightarrow> False | Some n \<Rightarrow> length xs \<noteq> n)
          then Inl (TelemetryParseError (field @ '' has an invalid length''))
          else map_index_result (\<lambda>i x. finite_number x (item_field field i) None None) 0 xs
      | _ \<Rightarrow> Inl (TelemetryParseError (field @ '' has an invalid length'')))"

section \<open>Vibration summaries\<close>

definition bounded_axis :: "(real \<Rightarrow> real) \<Rightarrow> dict \<Rightarrow> string \<Rightarrow> int \<Rightarrow> real list result" where
  "bounded_axis fl payload name maximum =
     bind_result (parse_array (dget payload name) name (Some 3) 16) (\<lambda>values.
       map_index_result (\<lambda>i v. bind_result (finite_number v (item_field name i) (Some 0) (Some maximum))
          (\<lambda>w. Inr (float_of_number fl w))) 0 values)"

definition scaled_axis :: "(real \<Rightarrow> real) \<Rightarrow> dict \<Rightarrow> string \<Rightarrow> int \<Rightarrow> real \<Rightarrow> real list result" where
  "scaled_axis fl payload name maximum scale =
     bind_result (bounded_axis fl payload name maximum) (\<lambda>xs. Inr (map (\<lambda>v. fl (v / scale)) xs))"

definition vibration_keys :: "string list" where
  "vibration_keys = [''t'', ''v'', ''s'', ''m'', ''a'', ''f'', ''q'', ''r'', ''p'', ''c'', ''k'', ''d'', ''x'', ''g'']"

definition parse_summary :: "(real \<Rightarrow> real) \<Rightarrow> dict \<Rightarrow> bool \<Rightarrow> vibration_summary result" where
  "parse_summary fl payload valid =
     bind_result (uint32 (dget payload ''s'') ''s'') (\<lambda>window_sequence.
     bind_result (uint32 (dget payload ''m'') ''m'') (\<lambda>uptime.
     bind_result (finite_number (dget payload ''f'') ''f'' (Some 1) (Some 5000)) (\<lambda>f.
     bind_result (scaled_axis fl payload ''r'' 16000 1000) (\<lambda>r.
     bind_result (scaled_axis fl payload ''p'' 16000 1000) (\<lambda>p.
     bind_result (scaled_axis fl payload ''c'' 1000 10) (\<lambda>c.
     bind_result (scaled_axis fl payload ''k'' 10000 10) (\<lambda>k.
     bind_result (scaled_axis fl payload ''d'' 2500 10) (\<lambda>d.
     bind_result (scaled_axis fl payload ''x'' 16000 1000) (\<lambda>x.
     bind_result (scaled_axis fl payload ''g'' 20000 10) (\<lambda>g.
       let summary = \<lparr>vs_schema_version = 1, vs_algorithm_version = 1, vs_window_sequence = window_sequence,
             vs_device_uptime_ms = uptime,
             vs_effective_sample_rate_hz = fl (float_of_number fl f / 10),
             vs_validity = (if valid then ''valid'' else ''invalid''),
             vs_accel_rms_g = r, vs_accel_peak_g = p, vs_crest_factor = c, vs_kurtosis = k,
             vs_dominant_frequency_hz = d, vs_dominant_amplitude_g = x, vs_gyro_rms_dps = g\<rparr>
       in if vibration_summary_valid summary then Inr summary
          else Inl (ValidationError ''VibrationSummary'')))))))))))"

definition telemetry_record :: "dict \<Rightarrow> string \<Rightarrow> time \<Rightarrow> normalized_telemetry" where
  "telemetry_record payload record_type received_at =
     \<lparr>nt_schema_version = 1, nt_device_id = None, nt_device_type = ''xiao_mg24_sense'',
      nt_record_type = record_type, nt_device_uptime_ms = None, nt_sequence_number = None,
      nt_received_at = received_at, nt_delayed = False, nt_event = None, nt_channels = [],
      nt_metadata = [], nt_vibration = None, nt_original_payload = payload\<rparr>"

definition parse_vibration :: "(real \<Rightarrow> real) \<Rightarrow> dict \<Rightarrow> time \<Rightarrow> normalized_telemetry result" where
  "parse_vibration fl payload received_at =
     (if set (map fst payload) \<noteq> set vibration_keys
      then Inl (TelemetryParseError ''vibration summary has unexpected or missing fields'')
      else if \<not> json_eq_int (dget payload ''v'') 1 \<or> \<not> json_eq_int (dget payload ''a'') 1
      then Inl (TelemetryParseError ''unsupported vibration schema or algorithm version'')
      else bind_result (in_int_set (dget payload ''q'') [0, 1]) (\<lambda>known.
        if \<not> known then Inl (TelemetryParseError ''vibration validity is invalid'')
        else bind_result (parse_summary fl payload (json_eq_int (dget payload ''q'') 1)) (\<lambda>summary.
          if vs_window_sequence summary = 0
          then Inl (TelemetryParseError ''vibration window sequence must be positive'')
          else Inr ((telemetry_record payload ''vibration'' received_at)\<lparr>
                 nt_device_uptime_ms := Some (vs_device_uptime_ms summary),
                 nt_sequence_number := Some (vs_window_sequence summary),
                 nt_vibration := Some summary\<rparr>))))"

section \<open>Legacy telemetry\<close>

type_synonym channels = "(string \<times> channel_value) list"

text \<open>\<open>channels[name] = value\<close>.\<close>

fun put_channel :: "channels \<Rightarrow> string \<Rightarrow> channel_value \<Rightarrow> channels" where
  "put_channel [] k v = [(k, v)]"
| "put_channel ((k', w) # rest) k v = (if k' = k then (k, v) # rest else (k', w) # put_channel rest k v)"

definition legacy_mapping :: "(string \<times> string \<times> string \<times> string \<times> string) list" where
  "legacy_mapping =
     [(''m'', ''microphone_raw'', ''adc_count'', ''raw'', ''good''),
      (''mp'', ''microphone_percent'', ''percent'', ''derived'', ''estimated''),
      (''bv'', ''battery_voltage'', ''V'', ''calibrated'', ''good''),
      (''l'', ''led_brightness'', ''pwm_count'', ''state'', ''good'')]"

definition long_mapping :: "(string \<times> string) list" where
  "long_mapping = [(''mic'', ''m''), (''mic_pct'', ''mp''), (''battery_v'', ''bv''), (''led'', ''l'')]"

definition legacy_work :: "dict \<Rightarrow> dict" where
  "legacy_work payload =
     fold (\<lambda>(long_name, compact) work.
        if \<not> has_key work compact \<and> has_key work long_name then dput work compact (dget work long_name) else work)
       long_mapping payload"

fun legacy_channels :: "dict \<Rightarrow> (string \<times> string \<times> string \<times> string \<times> string) list \<Rightarrow> channels \<Rightarrow> channels result" where
  "legacy_channels work [] acc = Inr acc"
| "legacy_channels work ((key, name, unit, value_kind, quality) # rest) acc =
     (if has_key work key
      then bind_result (finite_number (dget work key) key None None) (\<lambda>value.
             legacy_channels work rest (put_channel acc name
               \<lparr>cv_value = value, cv_raw_value = (if value_kind = ''raw'' then value else JNull),
                cv_unit = Some unit, cv_quality = quality, cv_value_kind = value_kind\<rparr>))
      else legacy_channels work rest acc)"

text \<open>A three-axis array, or an object with the keys \<open>x\<close>, \<open>y\<close>, \<open>z\<close> under the long name.\<close>

definition axis_value :: "dict \<Rightarrow> string \<Rightarrow> string \<Rightarrow> json" where
  "axis_value work short_name long_name =
     (if dget work short_name \<noteq> JNull then dget work short_name
      else case dget work long_name of
        JObj d \<Rightarrow> JArr (map (dget d) [''x'', ''y'', ''z''])
      | _ \<Rightarrow> JNull)"

definition axis_channels :: "json \<Rightarrow> string \<Rightarrow> string \<Rightarrow> string \<Rightarrow> channels \<Rightarrow> channels result" where
  "axis_channels value field prefix unit acc =
     (if value = JNull then Inr acc
      else bind_result (parse_array value field (Some 3) 16) (\<lambda>xs.
        Inr (fold (\<lambda>(axis, v) cs. put_channel cs (prefix @ axis)
                \<lparr>cv_value = v, cv_raw_value = JNull, cv_unit = Some unit, cv_quality = ''good'',
                 cv_value_kind = ''calibrated''\<rparr>) (zip [''x'', ''y'', ''z''] xs) acc)))"

definition analog_channels :: "json \<Rightarrow> channels \<Rightarrow> channels result" where
  "analog_channels value acc =
     (if value = JNull then Inr acc
      else bind_result (parse_array value ''n'' None 16) (\<lambda>xs.
        Inr (fold (\<lambda>(index, v) cs. put_channel cs (''analog_'' @ nat_str index)
                \<lparr>cv_value = v, cv_raw_value = v, cv_unit = Some ''adc_count'', cv_quality = ''uncalibrated'',
                 cv_value_kind = ''raw''\<rparr>) (enumerate 0 xs) acc)))"

definition optional_uint32 :: "dict \<Rightarrow> string \<Rightarrow> int option result" where
  "optional_uint32 d k =
     (if has_key d k then bind_result (uint32 (dget d k) k) (\<lambda>n. Inr (Some n)) else Inr None)"

definition legacy_id :: "dict \<Rightarrow> string option result" where
  "legacy_id work =
     (case dget work ''id'' of
        JNull \<Rightarrow> Inr None
      | JStr i \<Rightarrow> if length i > 96 then Inl (TelemetryParseError ''id is invalid'') else Inr (Some i)
      | _ \<Rightarrow> Inl (TelemetryParseError ''id is invalid''))"

definition parse_legacy :: "dict \<Rightarrow> time \<Rightarrow> normalized_telemetry result" where
  "parse_legacy payload received_at =
     (let work = legacy_work payload in
      bind_result (legacy_channels work legacy_mapping []) (\<lambda>cs1.
      bind_result (axis_channels (axis_value work ''a'' ''accel'') ''a'' ''acceleration_'' ''g'' cs1) (\<lambda>cs2.
      bind_result (axis_channels (axis_value work ''g'' ''gyro'') ''g'' ''angular_velocity_'' ''dps'' cs2) (\<lambda>cs3.
      bind_result (analog_channels (dget_default work ''n'' (dget work ''analog'')) cs3) (\<lambda>cs4.
      bind_result (optional_uint32 work ''ms'') (\<lambda>uptime.
      bind_result (optional_uint32 work ''s'') (\<lambda>sequence.
      bind_result (finite_number (dget_default work ''v'' (JInt 1)) ''v'' (Some 1) (Some 255)) (\<lambda>schema.
      bind_result (legacy_id work) (\<lambda>device_id.
        Inr ((telemetry_record payload ''measurement'' received_at)\<lparr>
              nt_schema_version := int_of_number schema, nt_device_id := device_id,
              nt_device_uptime_ms := uptime, nt_sequence_number := sequence, nt_channels := cs4\<rparr>))))))))))"

section \<open>Versioned telemetry\<close>

definition record_types :: "(string \<times> string) list" where
  "record_types = [(''m'', ''measurement''), (''e'', ''event''), (''h'', ''heartbeat''), (''ca'', ''config_ack''),
     (''ce'', ''config_error''), (''b'', ''burst_fragment'')]"

definition optional_number :: "dict \<Rightarrow> string \<Rightarrow> json result" where
  "optional_number d k = (if dget d k = JNull then Inr JNull else finite_number (dget d k) k None None)"

definition channel_unit :: "dict \<Rightarrow> string option result" where
  "channel_unit payload =
     (case dget payload ''u'' of
        JNull \<Rightarrow> Inr None
      | JStr unit \<Rightarrow> if length unit > 32 then Inl (ValidationError ''ChannelValue'') else Inr (Some unit)
      | _ \<Rightarrow> Inl (ValidationError ''ChannelValue''))"

text \<open>The optional channel: name, values, quality and kind, then the model's check of the unit.\<close>

definition versioned_channel :: "dict \<Rightarrow> channels result" where
  "versioned_channel payload =
     (case dget payload ''c'' of
        JNull \<Rightarrow> Inr []
      | JStr channel \<Rightarrow>
          if channel = '''' \<or> length channel > 96 then Inl (TelemetryParseError ''channel is invalid'')
          else
            bind_result (optional_number payload ''rv'') (\<lambda>raw_value.
            bind_result (optional_number payload ''nv'') (\<lambda>normalized.
              let quality = dget_default payload ''q'' (JStr ''good'');
                  kind_name = dget_default payload ''k''
                    (JStr (if normalized \<noteq> JNull then ''calibrated'' else ''raw'')) in
              bind_result (in_str_set quality qualities) (\<lambda>quality_ok.
              if \<not> quality_ok then Inl (TelemetryParseError ''quality is invalid'')
              else bind_result (in_str_set kind_name value_kinds) (\<lambda>kind_ok.
                if \<not> kind_ok then Inl (TelemetryParseError ''value kind is invalid'')
                else bind_result (channel_unit payload) (\<lambda>unit.
                  Inr [(channel, \<lparr>cv_value = (if normalized \<noteq> JNull then normalized else raw_value),
                        cv_raw_value = raw_value, cv_unit = unit, cv_quality = the (json_str quality),
                        cv_value_kind = the (json_str kind_name)\<rparr>)])))))
      | _ \<Rightarrow> Inl (TelemetryParseError ''channel is invalid''))"

definition health_counters :: "(string \<times> string) list" where
  "health_counters = [(''bu'', ''buffer_utilization''), (''dr'', ''dropped_record_count''),
     (''pe'', ''processing_error_count''), (''se'', ''sensor_error_count'')]"

fun counter_channels :: "dict \<Rightarrow> (string \<times> string) list \<Rightarrow> channels \<Rightarrow> channels result" where
  "counter_channels payload [] acc = Inr acc"
| "counter_channels payload ((short_name, channel_name) # rest) acc =
     (if has_key payload short_name
      then bind_result (uint32 (dget payload short_name) short_name) (\<lambda>counter.
             counter_channels payload rest (put_channel acc channel_name
               \<lparr>cv_value = JInt counter, cv_raw_value = JNull, cv_unit = Some ''count'', cv_quality = ''good'',
                cv_value_kind = ''health''\<rparr>))
      else counter_channels payload rest acc)"

definition heartbeat_channels :: "dict \<Rightarrow> bool \<Rightarrow> channels \<Rightarrow> channels result" where
  "heartbeat_channels payload is_heartbeat acc =
     (if \<not> is_heartbeat then Inr acc
      else bind_result
        (if has_key payload ''bv''
         then bind_result (finite_number (dget payload ''bv'') ''bv'' None None) (\<lambda>battery.
                Inr (put_channel acc ''battery_voltage'' \<lparr>cv_value = battery, cv_raw_value = JNull,
                  cv_unit = Some ''V'', cv_quality = ''good'', cv_value_kind = ''calibrated''\<rparr>))
         else Inr acc)
        (\<lambda>acc1. counter_channels payload health_counters acc1))"

definition versioned_metadata :: "dict \<Rightarrow> dict" where
  "versioned_metadata payload =
     map (\<lambda>k. (k, dget payload k))
       (filter (has_key payload) [''fw'', ''sh'', ''bu'', ''dr'', ''pe'', ''se'', ''mi'', ''fi'', ''fc'', ''crc''])"

definition versioned_id :: "dict \<Rightarrow> string option result" where
  "versioned_id payload =
     (case dget payload ''id'' of
        JNull \<Rightarrow> Inr None
      | JStr i \<Rightarrow> if i = '''' \<or> length i > 96 then Inl (TelemetryParseError ''id is invalid'') else Inr (Some i)
      | _ \<Rightarrow> Inl (TelemetryParseError ''id is invalid''))"

definition versioned_event :: "dict \<Rightarrow> string option result" where
  "versioned_event payload =
     (case dget payload ''e'' of
        JNull \<Rightarrow> Inr None
      | JStr e \<Rightarrow> if length e > 96 then Inl (TelemetryParseError ''event is invalid'') else Inr (Some e)
      | _ \<Rightarrow> Inl (TelemetryParseError ''event is invalid''))"

definition parse_versioned :: "dict \<Rightarrow> time \<Rightarrow> normalized_telemetry result" where
  "parse_versioned payload received_at =
     (let kind = dget payload ''t'' in
      bind_result (in_str_set kind (map fst record_types)) (\<lambda>known.
      if \<not> known then Inl (TelemetryParseError ''unsupported message type'')
      else
        bind_result (finite_number (dget payload ''v'') ''v'' (Some 1) (Some 255)) (\<lambda>v.
        if int_of_number v \<noteq> 1 then Inl (TelemetryParseError ''unsupported schema version'')
        else
          bind_result (versioned_id payload) (\<lambda>device_id.
          bind_result (optional_uint32 payload ''ms'') (\<lambda>uptime.
          bind_result (optional_uint32 payload ''s'') (\<lambda>sequence.
          bind_result (versioned_channel payload) (\<lambda>cs1.
          bind_result (versioned_event payload) (\<lambda>event.
          bind_result (heartbeat_channels payload (kind = JStr ''h'') cs1) (\<lambda>cs2.
            Inr ((telemetry_record payload (the (map_of record_types (the (json_str kind)))) received_at)\<lparr>
              nt_device_id := device_id, nt_device_uptime_ms := uptime, nt_sequence_number := sequence,
              nt_delayed := json_truthy (dget_default payload ''d'' (JBool False)), nt_event := event,
              nt_channels := cs2, nt_metadata := versioned_metadata payload\<rparr>))))))))))"

section \<open>Entry point\<close>

definition message_kind :: "dict \<Rightarrow> json" where
  "message_kind payload =
     (if json_truthy (dget payload ''t'') then dget payload ''t'' else dget payload ''type'')"

definition parse_payload :: "(real \<Rightarrow> real) \<Rightarrow> dict \<Rightarrow> time \<Rightarrow> normalized_telemetry result" where
  "parse_payload fl payload received_at =
     bind_result (in_str_set (message_kind payload) [''tele'', ''telemetry'']) (\<lambda>legacy.
       if legacy then parse_legacy payload received_at
       else if message_kind payload = JStr ''v'' then parse_vibration fl payload received_at
       else parse_versioned payload received_at)"

definition parse_telemetry ::
  "(real \<Rightarrow> real) \<Rightarrow> (string \<Rightarrow> json option) \<Rightarrow> nat \<Rightarrow> string \<Rightarrow> time \<Rightarrow> normalized_telemetry result" where
  "parse_telemetry fl loads max_payload_bytes raw received_at =
     (if length raw > max_payload_bytes then Inl (TelemetryParseError ''payload exceeds configured maximum'')
      else case loads raw of
        None \<Rightarrow> Inl (TelemetryParseError ''payload is not valid UTF-8 JSON'')
      | Some (JObj payload) \<Rightarrow> parse_payload fl payload received_at
      | Some _ \<Rightarrow> Inl (TelemetryParseError ''payload root must be an object''))"

section \<open>Parsed telemetry is well formed\<close>

fun is_number :: "json \<Rightarrow> bool" where
  "is_number (JInt _) = True"
| "is_number (JFloat (Fin _)) = True"
| "is_number _ = False"

definition channel_ok :: "channel_value \<Rightarrow> bool" where
  "channel_ok c = (channel_value_valid c \<and> (cv_value c = JNull \<or> is_number (cv_value c))
     \<and> (cv_raw_value c = JNull \<or> is_number (cv_raw_value c)))"

definition channels_ok :: "channels \<Rightarrow> bool" where
  "channels_ok cs = (distinct (map fst cs) \<and> (\<forall>c \<in> set cs. channel_ok (snd c)))"

lemma finite_number_ok:
  "finite_number v f lo hi = Inr w \<Longrightarrow> w = v \<and> is_number w"
  by (cases v) (auto split: if_splits pyfloat.splits)

lemma finite_number_bounds:
  assumes "finite_number v f (Some lo) (Some hi) = Inr w"
  shows "(\<exists>n. w = JInt n \<and> lo \<le> n \<and> n \<le> hi) \<or> (\<exists>r. w = JFloat (Fin r) \<and> of_int lo \<le> r \<and> r \<le> of_int hi)"
  using assms by (cases v) (auto simp: out_of_range_def split: if_splits pyfloat.splits)

lemma int_of_number_bounds:
  "finite_number v f (Some lo) (Some hi) = Inr w \<Longrightarrow> lo \<le> int_of_number w \<and> int_of_number w \<le> hi"
  by (drule finite_number_bounds) (auto simp: le_floor_iff floor_le_iff)

lemma uint32_bounds: "uint32 v f = Inr n \<Longrightarrow> int_between 0 uint32_max n"
  by (auto simp: uint32_def bind_result_Inr_iff int_between_def dest: int_of_number_bounds)

lemma optional_uint32_bounds:
  "optional_uint32 d k = Inr r \<Longrightarrow> case r of None \<Rightarrow> True | Some n \<Rightarrow> int_between 0 uint32_max n"
  by (auto simp: optional_uint32_def bind_result_Inr_iff dest: uint32_bounds split: if_splits)

lemma is_number_shape:
  "is_number v \<Longrightarrow> (case v of JArr _ \<Rightarrow> False | JObj _ \<Rightarrow> False | JStr _ \<Rightarrow> False | _ \<Rightarrow> True)
     \<and> (case v of JArr _ \<Rightarrow> False | JObj _ \<Rightarrow> False | _ \<Rightarrow> True)"
  by (cases v) auto

lemma channel_okI:
  assumes "cv_value c = JNull \<or> is_number (cv_value c)" and "cv_raw_value c = JNull \<or> is_number (cv_raw_value c)"
    and "opt_len_between 0 32 (cv_unit c)" and "cv_quality c \<in> set qualities" and "cv_value_kind c \<in> set value_kinds"
  shows "channel_ok c"
  using assms is_number_shape by (auto simp: channel_ok_def channel_value_valid_def)

lemma map_fst_put_channel:
  "set (map fst (put_channel cs k v)) = insert k (set (map fst cs))"
  by (induction cs k v rule: put_channel.induct) auto

lemma set_put_channel: "x \<in> set (put_channel cs k v) \<Longrightarrow> x = (k, v) \<or> x \<in> set cs"
  by (induction cs k v rule: put_channel.induct) (auto split: if_splits)

lemma put_channel_ok:
  assumes "channels_ok cs" and "channel_ok v"
  shows "channels_ok (put_channel cs k v)"
proof -
  have "distinct (map fst cs) \<Longrightarrow> distinct (map fst (put_channel cs k v))"
  proof (induction cs k v rule: put_channel.induct)
    case (2 k' w rest k v)
    then show ?case using map_fst_put_channel[of rest k v] by auto
  qed simp
  with assms show ?thesis by (auto simp: channels_ok_def dest: set_put_channel)
qed

lemma map_index_result_numbers:
  "map_index_result (\<lambda>i x. finite_number x (g i) lo hi) i xs = Inr ys \<Longrightarrow> length ys = length xs \<and> list_all is_number ys"
  by (induction xs arbitrary: i ys) (auto simp: bind_result_Inr_iff dest: finite_number_ok)

lemma parse_array_ok:
  assumes "parse_array v f ex n = Inr xs"
  shows "list_all is_number xs" and "length xs \<le> n" and "ex = Some m \<Longrightarrow> length xs = m"
  using assms by (auto simp: parse_array_def split: json.splits if_splits option.splits dest!: map_index_result_numbers)

lemma fold_put_ok:
  "channels_ok cs \<Longrightarrow> (\<And>x. x \<in> set xs \<Longrightarrow> channel_ok (h x)) \<Longrightarrow>
     channels_ok (fold (\<lambda>x cs. put_channel cs (name x) (h x)) xs cs)"
  by (induction xs arbitrary: cs) (auto simp: put_channel_ok)

lemma axis_channels_ok:
  assumes "axis_channels v f p u cs = Inr cs'" and "channels_ok cs" and "length u \<le> 32"
  shows "channels_ok cs'"
proof (cases "v = JNull")
  case True
  with assms show ?thesis by (simp add: axis_channels_def)
next
  case False
  with assms(1) obtain xs where xs: "parse_array v f (Some 3) 16 = Inr xs"
    and cs': "cs' = fold (\<lambda>(axis, v) cs. put_channel cs (p @ axis)
        \<lparr>cv_value = v, cv_raw_value = JNull, cv_unit = Some u, cv_quality = ''good'',
         cv_value_kind = ''calibrated''\<rparr>) (zip [''x'', ''y'', ''z''] xs) cs"
    by (auto simp: axis_channels_def bind_result_Inr_iff)
  have "channel_ok \<lparr>cv_value = snd x, cv_raw_value = JNull, cv_unit = Some u, cv_quality = ''good'',
         cv_value_kind = ''calibrated''\<rparr>" if "x \<in> set (zip [''x'', ''y'', ''z''] xs)" for x
    using that parse_array_ok(1)[OF xs] assms(3) set_zip_rightD[of "fst x" "snd x" _ xs]
    by (intro channel_okI) (auto simp: list_all_iff opt_len_between_def len_between_def qualities_def value_kinds_def)
  then show ?thesis
    unfolding cs' split_def using assms(2) by (rule fold_put_ok[rotated])
qed

lemma analog_channels_ok:
  assumes "analog_channels v cs = Inr cs'" and "channels_ok cs"
  shows "channels_ok cs'"
proof (cases "v = JNull")
  case True
  with assms show ?thesis by (simp add: analog_channels_def)
next
  case False
  with assms(1) obtain xs where xs: "parse_array v ''n'' None 16 = Inr xs"
    and cs': "cs' = fold (\<lambda>(index, v) cs. put_channel cs (''analog_'' @ nat_str index)
        \<lparr>cv_value = v, cv_raw_value = v, cv_unit = Some ''adc_count'', cv_quality = ''uncalibrated'',
         cv_value_kind = ''raw''\<rparr>) (enumerate 0 xs) cs"
    by (auto simp: analog_channels_def bind_result_Inr_iff)
  have "channel_ok \<lparr>cv_value = snd x, cv_raw_value = snd x, cv_unit = Some ''adc_count'', cv_quality = ''uncalibrated'',
         cv_value_kind = ''raw''\<rparr>" if "x \<in> set (enumerate 0 xs)" for x
    using that parse_array_ok(1)[OF xs] set_zip_rightD[of "fst x" "snd x" "[0..<length xs]" xs]
    by (intro channel_okI) (auto simp: enumerate_eq_zip list_all_iff opt_len_between_def len_between_def
        qualities_def value_kinds_def)
  then show ?thesis
    unfolding cs' split_def using assms(2) by (rule fold_put_ok[rotated])
qed

lemma legacy_channels_ok:
  assumes "legacy_channels work ms acc = Inr cs" and "channels_ok acc"
    and "list_all (\<lambda>(k, n, u, vk, q). length u \<le> 32 \<and> q \<in> set qualities \<and> vk \<in> set value_kinds) ms"
  shows "channels_ok cs"
  using assms
proof (induction work ms acc rule: legacy_channels.induct)
  case (2 work key name u vk q rest acc)
  show ?case
  proof (cases "has_key work key")
    case False
    with 2 show ?thesis by auto
  next
    case True
    with "2.prems"(1) obtain v where v: "finite_number (dget work key) key None None = Inr v"
      by (auto simp: bind_result_Inr_iff)
    let ?c = "\<lparr>cv_value = v, cv_raw_value = (if vk = ''raw'' then v else JNull), cv_unit = Some u, cv_quality = q, cv_value_kind = vk\<rparr>"
    have "channel_ok ?c"
      using finite_number_ok[OF v] "2.prems"(3)
      by (intro channel_okI) (auto simp: opt_len_between_def len_between_def)
    then have "channels_ok (put_channel acc name ?c)" using "2.prems"(2) by (intro put_channel_ok)
    then show ?thesis using "2.IH"(1)[OF True, of v] "2.prems" True v by auto
  qed
qed simp

lemma counter_channels_ok:
  assumes "counter_channels payload ms acc = Inr cs" and "channels_ok acc"
  shows "channels_ok cs"
  using assms
proof (induction payload ms acc rule: counter_channels.induct)
  case (2 payload k n rest acc)
  have "channel_ok \<lparr>cv_value = JInt c, cv_raw_value = JNull, cv_unit = Some ''count'', cv_quality = ''good'',
      cv_value_kind = ''health''\<rparr>" for c
    by (intro channel_okI) (auto simp: opt_len_between_def len_between_def qualities_def value_kinds_def)
  with 2 show ?case by (auto simp: bind_result_Inr_iff put_channel_ok split: if_splits)
qed simp

lemma heartbeat_channels_ok:
  assumes "heartbeat_channels payload h acc = Inr cs" and "channels_ok acc"
  shows "channels_ok cs"
proof -
  have "channel_ok \<lparr>cv_value = v, cv_raw_value = JNull, cv_unit = Some ''V'', cv_quality = ''good'',
      cv_value_kind = ''calibrated''\<rparr>" if "is_number v" for v
    using that by (intro channel_okI) (auto simp: opt_len_between_def len_between_def qualities_def value_kinds_def)
  with assms show ?thesis
    by (auto simp: heartbeat_channels_def bind_result_Inr_iff put_channel_ok dest!: finite_number_ok
        split: if_splits intro: counter_channels_ok)
qed

lemma channel_unit_ok: "channel_unit payload = Inr u \<Longrightarrow> opt_len_between 0 32 u"
  by (cases "dget payload ''u''") (auto simp: channel_unit_def opt_len_between_def len_between_def split: if_splits)

lemma versioned_channel_ok:
  assumes "versioned_channel payload = Inr cs"
  shows "channels_ok cs"
proof (cases "dget payload ''c''")
  case (JStr ch)
  from assms JStr obtain raw normalized unit where n: "optional_number payload ''rv'' = Inr raw" "optional_number payload ''nv'' = Inr normalized"
    and q: "in_str_set (dget_default payload ''q'' (JStr ''good'')) qualities = Inr True"
    and k: "in_str_set (dget_default payload ''k'' (JStr (if normalized \<noteq> JNull then ''calibrated'' else ''raw''))) value_kinds = Inr True"
    and u: "opt_len_between 0 32 unit"
    and cs: "cs = [(ch, \<lparr>cv_value = (if normalized \<noteq> JNull then normalized else raw), cv_raw_value = raw, cv_unit = unit,
        cv_quality = the (json_str (dget_default payload ''q'' (JStr ''good''))),
        cv_value_kind = the (json_str (dget_default payload ''k'' (JStr (if normalized \<noteq> JNull then ''calibrated'' else ''raw''))))\<rparr>)]"
    unfolding versioned_channel_def
    by (auto simp: bind_result_Inr_iff Let_def dest!: channel_unit_ok split: if_splits)
  have num: "raw = JNull \<or> is_number raw" "normalized = JNull \<or> is_number normalized"
    using n by (auto simp: optional_number_def dest: finite_number_ok split: if_splits)
  have member: "the (json_str v) \<in> set names" if "in_str_set v names = Inr True" for v names
    using that by (cases v) (auto simp: in_str_set_def split: if_splits)
  have "channel_ok (snd (hd cs))"
    unfolding cs using num u member[OF q] member[OF k] by (intro channel_okI) auto
  then show ?thesis by (simp add: channels_ok_def cs)
qed (use assms in \<open>auto simp: versioned_channel_def channels_ok_def\<close>)

definition telemetry_ok :: "normalized_telemetry \<Rightarrow> bool" where
  "telemetry_ok t = (normalized_telemetry_valid t \<and> channels_ok (nt_channels t))"

lemma telemetry_okI:
  assumes "int_between 1 255 (nt_schema_version t)" and "opt_len_between 0 96 (nt_device_id t)"
    and "nt_record_type t \<in> set record_type_names"
    and "case nt_device_uptime_ms t of None \<Rightarrow> True | Some u \<Rightarrow> int_between 0 uint32_max u"
    and "case nt_sequence_number t of None \<Rightarrow> True | Some q \<Rightarrow> int_between 0 uint32_max q"
    and "opt_len_between 0 96 (nt_event t)" and "channels_ok (nt_channels t)"
    and "case nt_vibration t of None \<Rightarrow> True | Some v \<Rightarrow> vibration_summary_valid v"
  shows "telemetry_ok t"
  using assms by (auto simp: telemetry_ok_def normalized_telemetry_valid_def channels_ok_def channel_ok_def)

lemma channels_ok_Nil [simp]: "channels_ok []"
  by (simp add: channels_ok_def)

lemma parse_summary_valid: "parse_summary fl payload v = Inr s \<Longrightarrow> vibration_summary_valid s"
  by (auto simp: parse_summary_def bind_result_Inr_iff Let_def split: if_splits)

lemma parse_vibration_ok:
  assumes "parse_vibration fl payload now = Inr t"
  shows "telemetry_ok t"
proof -
  from assms obtain s where "vibration_summary_valid s"
    "t = (telemetry_record payload ''vibration'' now)\<lparr>nt_device_uptime_ms := Some (vs_device_uptime_ms s),
       nt_sequence_number := Some (vs_window_sequence s), nt_vibration := Some s\<rparr>"
    by (auto simp: parse_vibration_def bind_result_Inr_iff dest: parse_summary_valid split: if_splits)
  then show ?thesis
    by (intro telemetry_okI) (auto simp: telemetry_record_def int_between_def opt_len_between_def
        record_type_names_def vibration_summary_valid_def)
qed

lemma legacy_id_ok: "legacy_id work = Inr i \<Longrightarrow> opt_len_between 0 96 i"
  by (cases "dget work ''id''") (auto simp: legacy_id_def opt_len_between_def len_between_def split: if_splits)

lemma parse_legacy_ok:
  assumes "parse_legacy payload now = Inr t"
  shows "telemetry_ok t"
proof -
  let ?work = "legacy_work payload"
  from assms obtain cs1 cs2 cs3 cs4 uptime sequence schema device_id where
    cs: "legacy_channels ?work legacy_mapping [] = Inr cs1"
      "axis_channels (axis_value ?work ''a'' ''accel'') ''a'' ''acceleration_'' ''g'' cs1 = Inr cs2"
      "axis_channels (axis_value ?work ''g'' ''gyro'') ''g'' ''angular_velocity_'' ''dps'' cs2 = Inr cs3"
      "analog_channels (dget_default ?work ''n'' (dget ?work ''analog'')) cs3 = Inr cs4"
    and nums: "optional_uint32 ?work ''ms'' = Inr uptime" "optional_uint32 ?work ''s'' = Inr sequence"
      "finite_number (dget_default ?work ''v'' (JInt 1)) ''v'' (Some 1) (Some 255) = Inr schema"
    and i: "legacy_id ?work = Inr device_id"
    and t: "t = (telemetry_record payload ''measurement'' now)\<lparr>nt_schema_version := int_of_number schema,
      nt_device_id := device_id, nt_device_uptime_ms := uptime, nt_sequence_number := sequence, nt_channels := cs4\<rparr>"
    by (auto simp: parse_legacy_def Let_def bind_result_Inr_iff)
  have "channels_ok cs1"
    by (rule legacy_channels_ok[OF cs(1)]) (simp_all add: legacy_mapping_def qualities_def value_kinds_def)
  then have "channels_ok cs4"
    using cs(2-4) by (auto intro!: analog_channels_ok[OF cs(4)] axis_channels_ok[OF cs(3)] axis_channels_ok[OF cs(2)])
  then show ?thesis
    using legacy_id_ok[OF i] int_of_number_bounds[OF nums(3)] optional_uint32_bounds[OF nums(1)]
      optional_uint32_bounds[OF nums(2)]
    unfolding t by (intro telemetry_okI)
      (auto simp: telemetry_record_def int_between_def record_type_names_def opt_len_between_def)
qed

lemma record_types_known:
  assumes "in_str_set v (map fst record_types) = Inr True"
  shows "the (map_of record_types (the (json_str v))) \<in> set record_type_names"
  using assms by (cases v) (auto simp: in_str_set_def record_types_def record_type_names_def split: if_splits)

lemma versioned_texts_ok:
  "versioned_id payload = Inr i \<Longrightarrow> opt_len_between 0 96 i"
  "versioned_event payload = Inr e \<Longrightarrow> opt_len_between 0 96 e"
  by (cases "dget payload ''id''"; cases "dget payload ''e''";
      auto simp: versioned_id_def versioned_event_def opt_len_between_def len_between_def split: if_splits)+

lemma parse_versioned_ok:
  assumes "parse_versioned payload now = Inr t"
  shows "telemetry_ok t"
proof -
  from assms obtain v device_id uptime sequence cs1 event cs2 where
    kind: "in_str_set (dget payload ''t'') (map fst record_types) = Inr True"
    and texts: "versioned_id payload = Inr device_id" "versioned_event payload = Inr event"
    and nums: "optional_uint32 payload ''ms'' = Inr uptime" "optional_uint32 payload ''s'' = Inr sequence"
    and cs: "versioned_channel payload = Inr cs1"
      "heartbeat_channels payload (dget payload ''t'' = JStr ''h'') cs1 = Inr cs2"
    and t: "t = (telemetry_record payload (the (map_of record_types (the (json_str (dget payload ''t''))))) now)\<lparr>
      nt_device_id := device_id, nt_device_uptime_ms := uptime, nt_sequence_number := sequence,
      nt_delayed := json_truthy (dget_default payload ''d'' (JBool False)), nt_event := event,
      nt_channels := cs2, nt_metadata := versioned_metadata payload\<rparr>"
    by (auto simp: parse_versioned_def bind_result_Inr_iff Let_def split: if_splits)
  have "channels_ok cs2" using heartbeat_channels_ok[OF cs(2) versioned_channel_ok[OF cs(1)]] .
  then show ?thesis
    using versioned_texts_ok(1)[OF texts(1)] versioned_texts_ok(2)[OF texts(2)] optional_uint32_bounds[OF nums(1)]
      optional_uint32_bounds[OF nums(2)] record_types_known[OF kind]
    unfolding t by (intro telemetry_okI) (auto simp: telemetry_record_def int_between_def)
qed

text \<open>C28. Whatever bytes a node sends, a parsed message satisfies every constraint of the telemetry
  model (ranges of sequence and uptime, record types, lengths, qualities and kinds), its channel
  names are distinct and every channel value is missing or a finite number.\<close>

theorem parsed_telemetry_well_formed:
  assumes "parse_telemetry fl loads max_bytes raw now = Inr t"
  shows "normalized_telemetry_valid t \<and> distinct (map fst (nt_channels t))
    \<and> (\<forall>(name, c) \<in> set (nt_channels t). cv_value c = JNull \<or> is_number (cv_value c))"
proof -
  have "telemetry_ok t"
    using assms
    by (auto simp: parse_telemetry_def parse_payload_def bind_result_Inr_iff
        split: if_splits option.splits json.splits
        intro: parse_legacy_ok parse_vibration_ok parse_versioned_ok)
  then show ?thesis by (auto simp: telemetry_ok_def channels_ok_def channel_ok_def)
qed

section \<open>Scaling of vibration summaries\<close>

lemma map_index_result_bounded:
  assumes "map_index_result (\<lambda>i v. bind_result (finite_number v (g i) (Some 0) (Some hi)) (\<lambda>w. Inr (float_of_number fl64 w))) i xs = Inr ys"
    and "0 \<le> hi" "hi \<le> 2 ^ 53"
  shows "length ys = length xs \<and> (\<forall>y \<in> set ys. 0 \<le> y \<and> y \<le> of_int hi)"
  using assms(1)
proof (induction xs arbitrary: i ys)
  case Nil
  then show ?case by simp
next
  case (Cons x xs)
  then obtain w zs where w: "finite_number x (g i) (Some 0) (Some hi) = Inr w"
    and zs: "map_index_result (\<lambda>i v. bind_result (finite_number v (g i) (Some 0) (Some hi)) (\<lambda>w. Inr (float_of_number fl64 w))) (Suc i) xs = Inr zs"
    and ys: "ys = float_of_number fl64 w # zs"
    by (auto simp: bind_result_Inr_iff)
  have "0 \<le> float_of_number fl64 w \<and> float_of_number fl64 w \<le> of_int hi"
    using finite_number_bounds[OF w] assms(2,3) by (auto simp: ieee.fl_nonneg ieee.fl_le_int)
  with Cons.IH[OF zs] ys show ?case by simp
qed

lemma scaled_axis_bounds:
  assumes "scaled_axis fl64 payload name hi (of_int scale) = Inr ys"
    and "hi = bnd * scale" and "0 < scale" and "0 \<le> hi" "hi \<le> 2 ^ 53" and "0 \<le> bnd" "bnd \<le> 2 ^ 53"
  shows "length ys = 3 \<and> (\<forall>y \<in> set ys. 0 \<le> y \<and> y \<le> of_int bnd)"
proof -
  obtain xs vs where vs: "parse_array (dget payload name) name (Some 3) 16 = Inr vs"
    and xs: "map_index_result (\<lambda>i v. bind_result (finite_number v (item_field name i) (Some 0) (Some hi))
        (\<lambda>w. Inr (float_of_number fl64 w))) 0 vs = Inr xs"
    and ys: "ys = map (\<lambda>v. fl64 (v / of_int scale)) xs"
    using assms(1) by (auto simp: scaled_axis_def bounded_axis_def bind_result_Inr_iff)
  have b: "length xs = 3" "\<forall>x \<in> set xs. 0 \<le> x \<and> x \<le> of_int hi"
    using map_index_result_bounded[OF xs assms(4,5)] parse_array_ok(3)[OF vs refl] by simp_all
  have "0 \<le> fl64 (x / of_int scale) \<and> fl64 (x / of_int scale) \<le> of_int bnd" if "x \<in> set xs" for x
  proof -
    have "0 \<le> x / of_int scale" "x / of_int scale \<le> of_int bnd"
      using b(2) that assms(2,3) by (auto simp: pos_divide_le_eq)
    then show ?thesis using assms(6,7) by (simp add: ieee.fl_nonneg ieee.fl_le_int)
  qed
  with b(1) show ?thesis by (simp add: ys)
qed

text \<open>Scaled vibration features stay inside the sensor's physical ranges under binary64
  arithmetic: every acceleration is between 0 and 16 g, crest factors between 0 and 100, kurtosis
  between 0 and 1000, frequencies between 0 and 250 Hz, angular rates between 0 and 2000 degrees per
  second, and every feature has three axes; rounding never pushes a value over the bound.\<close>

theorem vibration_features_bounded:
  assumes "parse_vibration fl64 payload now = Inr t"
  shows "\<exists>s. nt_vibration t = Some s \<and> 1 \<le> vs_window_sequence s
    \<and> (\<forall>xs \<in> {vs_accel_rms_g s, vs_accel_peak_g s, vs_dominant_amplitude_g s}.
         length xs = 3 \<and> (\<forall>x \<in> set xs. 0 \<le> x \<and> x \<le> 16))
    \<and> (length (vs_crest_factor s) = 3 \<and> (\<forall>x \<in> set (vs_crest_factor s). 0 \<le> x \<and> x \<le> 100))
    \<and> (length (vs_kurtosis s) = 3 \<and> (\<forall>x \<in> set (vs_kurtosis s). 0 \<le> x \<and> x \<le> 1000))
    \<and> (length (vs_dominant_frequency_hz s) = 3 \<and> (\<forall>x \<in> set (vs_dominant_frequency_hz s). 0 \<le> x \<and> x \<le> 250))
    \<and> (length (vs_gyro_rms_dps s) = 3 \<and> (\<forall>x \<in> set (vs_gyro_rms_dps s). 0 \<le> x \<and> x \<le> 2000))"
proof -
  from assms obtain s v where s: "parse_summary fl64 payload v = Inr s" "nt_vibration t = Some s"
    by (auto simp: parse_vibration_def bind_result_Inr_iff split: if_splits)
  then have axes: "scaled_axis fl64 payload ''r'' 16000 1000 = Inr (vs_accel_rms_g s)"
    "scaled_axis fl64 payload ''p'' 16000 1000 = Inr (vs_accel_peak_g s)"
    "scaled_axis fl64 payload ''c'' 1000 10 = Inr (vs_crest_factor s)"
    "scaled_axis fl64 payload ''k'' 10000 10 = Inr (vs_kurtosis s)"
    "scaled_axis fl64 payload ''d'' 2500 10 = Inr (vs_dominant_frequency_hz s)"
    "scaled_axis fl64 payload ''x'' 16000 1000 = Inr (vs_dominant_amplitude_g s)"
    "scaled_axis fl64 payload ''g'' 20000 10 = Inr (vs_gyro_rms_dps s)"
    by (auto simp: parse_summary_def bind_result_Inr_iff Let_def split: if_splits)
  have "1 \<le> vs_window_sequence s"
    using parse_summary_valid[OF s(1)] by (simp add: vibration_summary_valid_def int_between_def)
  moreover have "length (vs_accel_rms_g s) = 3 \<and> (\<forall>x \<in> set (vs_accel_rms_g s). 0 \<le> x \<and> x \<le> 16)"
    by (rule scaled_axis_bounds[of payload "''r''" 16000 1000 "vs_accel_rms_g s" 16, unfolded of_int_numeral, OF axes(1)]) simp_all
  moreover have "length (vs_accel_peak_g s) = 3 \<and> (\<forall>x \<in> set (vs_accel_peak_g s). 0 \<le> x \<and> x \<le> 16)"
    by (rule scaled_axis_bounds[of payload "''p''" 16000 1000 "vs_accel_peak_g s" 16, unfolded of_int_numeral, OF axes(2)]) simp_all
  moreover have "length (vs_crest_factor s) = 3 \<and> (\<forall>x \<in> set (vs_crest_factor s). 0 \<le> x \<and> x \<le> 100)"
    by (rule scaled_axis_bounds[of payload "''c''" 1000 10 "vs_crest_factor s" 100, unfolded of_int_numeral, OF axes(3)]) simp_all
  moreover have "length (vs_kurtosis s) = 3 \<and> (\<forall>x \<in> set (vs_kurtosis s). 0 \<le> x \<and> x \<le> 1000)"
    by (rule scaled_axis_bounds[of payload "''k''" 10000 10 "vs_kurtosis s" 1000, unfolded of_int_numeral, OF axes(4)]) simp_all
  moreover have "length (vs_dominant_frequency_hz s) = 3 \<and> (\<forall>x \<in> set (vs_dominant_frequency_hz s). 0 \<le> x \<and> x \<le> 250)"
    by (rule scaled_axis_bounds[of payload "''d''" 2500 10 "vs_dominant_frequency_hz s" 250, unfolded of_int_numeral, OF axes(5)]) simp_all
  moreover have "length (vs_dominant_amplitude_g s) = 3 \<and> (\<forall>x \<in> set (vs_dominant_amplitude_g s). 0 \<le> x \<and> x \<le> 16)"
    by (rule scaled_axis_bounds[of payload "''x''" 16000 1000 "vs_dominant_amplitude_g s" 16, unfolded of_int_numeral, OF axes(6)]) simp_all
  moreover have "length (vs_gyro_rms_dps s) = 3 \<and> (\<forall>x \<in> set (vs_gyro_rms_dps s). 0 \<le> x \<and> x \<le> 2000)"
    by (rule scaled_axis_bounds[of payload "''g''" 20000 10 "vs_gyro_rms_dps s" 2000, unfolded of_int_numeral, OF axes(7)]) simp_all
  ultimately show ?thesis using s(2) by blast
qed

section \<open>Errors\<close>

definition number_error :: "exn \<Rightarrow> bool" where
  "number_error e = (is_value_error e \<or> (\<exists>m. e = OverflowError m))"

lemma finite_number_error: "finite_number v f lo hi = Inl e \<Longrightarrow> number_error e"
  by (cases v) (auto simp: number_error_def range_error_def split: if_splits pyfloat.splits)

lemma uint32_error: "uint32 v f = Inl e \<Longrightarrow> number_error e"
  by (auto simp: uint32_def bind_result_Inl_iff dest: finite_number_error)

lemma optional_uint32_error: "optional_uint32 d k = Inl e \<Longrightarrow> number_error e"
  by (auto simp: optional_uint32_def bind_result_Inl_iff dest: uint32_error split: if_splits)

lemma optional_number_error: "optional_number d k = Inl e \<Longrightarrow> number_error e"
  by (auto simp: optional_number_def dest: finite_number_error split: if_splits)

lemma map_index_result_error:
  "map_index_result f i xs = Inl e \<Longrightarrow> (\<And>i x e. f i x = Inl e \<Longrightarrow> number_error e) \<Longrightarrow> number_error e"
  by (induction xs arbitrary: i) (auto simp: bind_result_Inl_iff)

lemma parse_array_error: "parse_array v f ex n = Inl e \<Longrightarrow> number_error e"
  by (auto simp: parse_array_def number_error_def [of "TelemetryParseError _"] split: json.splits if_splits
      elim!: map_index_result_error dest: finite_number_error)

lemma scaled_axis_error: "scaled_axis fl payload name hi sc = Inl e \<Longrightarrow> number_error e"
  by (auto simp: scaled_axis_def bounded_axis_def bind_result_Inl_iff
      dest: parse_array_error finite_number_error elim!: map_index_result_error)

lemma parse_summary_error: "parse_summary fl payload v = Inl e \<Longrightarrow> number_error e"
  by (auto simp: parse_summary_def bind_result_Inl_iff Let_def number_error_def [of "ValidationError _"]
      split: if_splits dest: uint32_error finite_number_error scaled_axis_error)

lemma legacy_channels_error: "legacy_channels work ms acc = Inl e \<Longrightarrow> number_error e"
proof (induction work ms acc rule: legacy_channels.induct)
  case (2 work key name u vk q rest acc)
  then show ?case
    by (cases "has_key work key") (auto simp: bind_result_Inl_iff dest: finite_number_error)
qed simp

lemma counter_channels_error: "counter_channels payload ms acc = Inl e \<Longrightarrow> number_error e"
  by (induction payload ms acc rule: counter_channels.induct)
    (auto simp: bind_result_Inl_iff split: if_splits dest: uint32_error)

lemma text_errors:
  "legacy_id d = Inl e \<Longrightarrow> number_error e" "versioned_id d = Inl e \<Longrightarrow> number_error e"
  "versioned_event d = Inl e \<Longrightarrow> number_error e" "channel_unit d = Inl e \<Longrightarrow> number_error e"
  by (auto simp: legacy_id_def versioned_id_def versioned_event_def channel_unit_def number_error_def
      split: json.splits if_splits)

lemma channel_errors:
  "axis_channels v f p u acc = Inl e \<Longrightarrow> number_error e" "analog_channels v acc = Inl e \<Longrightarrow> number_error e"
  "heartbeat_channels d h acc = Inl e \<Longrightarrow> number_error e"
  by (auto simp: axis_channels_def analog_channels_def heartbeat_channels_def bind_result_Inl_iff split: if_splits
      dest: parse_array_error finite_number_error counter_channels_error)

lemma parse_legacy_error: "parse_legacy payload now = Inl e \<Longrightarrow> number_error e"
  by (auto simp: parse_legacy_def Let_def bind_result_Inl_iff
      dest: legacy_channels_error channel_errors optional_uint32_error finite_number_error text_errors)

text \<open>A failed membership test is a \<open>TypeError\<close> of one of the values the parser looks up in a set.\<close>

definition parse_error_of :: "dict \<Rightarrow> exn \<Rightarrow> bool" where
  "parse_error_of payload e =
     (number_error e \<or> (\<exists>m. e = TypeError m \<and> (\<exists>k \<in> {''t'', ''type'', ''q'', ''k''}. \<not> hashable (dget payload k))))"

lemma parse_error_of_number: "number_error e \<Longrightarrow> parse_error_of payload e"
  by (simp add: parse_error_of_def)

lemma dget_default_hashable: "\<not> hashable (dget_default d k (JStr s)) \<Longrightarrow> \<not> hashable (dget d k)"
  by (auto simp: dget_default_def dget_def split: option.splits)

lemma set_errors:
  "in_str_set v names = Inl e \<Longrightarrow> \<not> hashable v \<and> (\<exists>m. e = TypeError m)"
  "in_int_set v ns = Inl e \<Longrightarrow> \<not> hashable v \<and> (\<exists>m. e = TypeError m)"
  by (auto simp: in_str_set_def in_int_set_def split: if_splits)

lemma telemetry_parse_error [simp]: "number_error (TelemetryParseError m)"
  by (simp add: number_error_def)

lemma versioned_channel_error:
  assumes "versioned_channel payload = Inl e"
  shows "parse_error_of payload e"
proof (cases "dget payload ''c''")
  case (JStr ch)
  have key: "parse_error_of payload (TypeError m)"
    if "\<not> hashable (dget_default payload ''q'' (JStr d)) \<or> \<not> hashable (dget_default payload ''k'' (JStr d))" for d m
    using that dget_default_hashable by (auto simp: parse_error_of_def)
  show ?thesis
    using assms JStr unfolding versioned_channel_def
    by (auto simp: bind_result_Inl_iff Let_def intro: parse_error_of_number split: if_splits
        dest!: optional_number_error text_errors(4) set_errors) (auto intro: key)
qed (use assms in \<open>auto simp: versioned_channel_def intro: parse_error_of_number\<close>)

lemma parse_versioned_error: "parse_versioned payload now = Inl e \<Longrightarrow> parse_error_of payload e"
  by (auto simp: parse_versioned_def Let_def bind_result_Inl_iff intro: parse_error_of_number versioned_channel_error
      split: if_splits dest!: finite_number_error text_errors optional_uint32_error channel_errors)
    (auto simp: parse_error_of_def dest: set_errors)

lemma parse_vibration_error: "parse_vibration fl payload now = Inl e \<Longrightarrow> parse_error_of payload e"
  by (auto simp: parse_vibration_def bind_result_Inl_iff intro: parse_error_of_number
      split: if_splits dest!: parse_summary_error)
    (auto simp: parse_error_of_def dest: set_errors)

text \<open>What a malformed notification can raise: an error of the \<open>ValueError\<close> family, an
  \<open>OverflowError\<close> (an integer too large for a float), or a \<open>TypeError\<close>, and the last only when one
  of the fields \<open>t\<close>, \<open>type\<close>, \<open>q\<close>, \<open>k\<close> is an array or an object.\<close>

theorem parse_telemetry_errors:
  assumes "parse_telemetry fl loads max_bytes raw now = Inl e"
  shows "is_value_error e \<or> (\<exists>m. e = OverflowError m)
    \<or> (\<exists>m payload. e = TypeError m \<and> loads raw = Some (JObj payload)
         \<and> (\<exists>k \<in> {''t'', ''type'', ''q'', ''k''}. \<not> hashable (dget payload k)))"
proof -
  have payload: "parse_error_of payload e" if err: "parse_payload fl payload now = Inl e" for payload
  proof -
    consider "in_str_set (message_kind payload) [''tele'', ''telemetry''] = Inl e" | "parse_legacy payload now = Inl e"
      | "parse_vibration fl payload now = Inl e" | "parse_versioned payload now = Inl e"
      using err by (auto simp: parse_payload_def bind_result_Inl_iff split: if_splits)
    then show ?thesis
    proof cases
      case 1
      then show ?thesis
        by (auto simp: parse_error_of_def message_kind_def dest!: set_errors split: if_splits)
    qed (auto intro: parse_error_of_number parse_legacy_error parse_vibration_error parse_versioned_error)
  qed
  show ?thesis
    using assms payload unfolding parse_telemetry_def
    by (auto simp: parse_error_of_def number_error_def split: if_splits option.splits json.splits)
qed

section \<open>Examples\<close>

definition sample_vibration :: dict where
  "sample_vibration = [(''t'', JStr ''v''), (''v'', JInt 1), (''s'', JInt 7), (''m'', JInt 5000), (''a'', JInt 1),
     (''f'', JInt 1000), (''q'', JInt 1), (''r'', JArr [JInt 16000, JInt 0, JInt 0]),
     (''p'', JArr [JInt 0, JInt 0, JInt 0]), (''c'', JArr [JInt 0, JInt 0, JInt 0]),
     (''k'', JArr [JInt 0, JInt 0, JInt 0]), (''d'', JArr [JInt 0, JInt 0, JInt 0]),
     (''x'', JArr [JInt 0, JInt 0, JInt 0]), (''g'', JArr [JInt 0, JInt 0, JInt 0])]"

definition sample_heartbeat :: dict where
  "sample_heartbeat = [(''t'', JStr ''h''), (''v'', JInt 1), (''s'', JInt 9), (''c'', JStr ''battery''), (''nv'', JFloat (Fin 3)),
     (''dr'', JInt 2)]"

lemma sample_heartbeat_parses: "\<exists>t. parse_telemetry fl (\<lambda>_. Some (JObj sample_heartbeat)) 100 ''x'' 0 = Inr t \<and> length (nt_channels t) = 2"
  by (simp add: parse_telemetry_def parse_payload_def message_kind_def sample_heartbeat_def dget_def in_str_set_def
      parse_versioned_def record_types_def out_of_range_def float_overflow_bound_def versioned_id_def optional_uint32_def
      has_key_def uint32_def uint32_max_def versioned_channel_def optional_number_def dget_default_def qualities_def
      value_kinds_def channel_unit_def versioned_event_def heartbeat_channels_def health_counters_def telemetry_record_def Let_def)

theorem parsed_telemetry_well_formed_witness:
  "\<exists>t. parse_telemetry fl64 (\<lambda>_. Some (JObj sample_heartbeat)) 100 ''x'' 0 = Inr t \<and> length (nt_channels t) = 2
     \<and> distinct (map fst (nt_channels t))"
  using sample_heartbeat_parses[of fl64] parsed_telemetry_well_formed[of fl64 "\<lambda>_. Some (JObj sample_heartbeat)" 100 "''x''" 0]
  by blast

theorem parse_telemetry_errors_witness:
  "\<exists>e. parse_telemetry fl64 (\<lambda>_. Some (JObj [(''t'', JArr [JNull])])) 100 ''x'' 0 = Inl e \<and> \<not> is_value_error e
     \<and> (\<exists>m. e = OverflowError m \<or> e = TypeError m)"
proof -
  have p: "parse_telemetry fl64 (\<lambda>_. Some (JObj [(''t'', JArr [JNull])])) 100 ''x'' 0 = Inl (TypeError ''unhashable type'')"
    by (simp add: parse_telemetry_def parse_payload_def message_kind_def dget_def in_str_set_def)
  with parse_telemetry_errors[OF p] show ?thesis by auto
qed

lemma sample_axis:
  assumes "dget payload name = JArr [JInt a, JInt 0, JInt 0]" and "0 \<le> a" "a \<le> hi" "a \<le> 20000"
  shows "\<exists>ys. scaled_axis fl64 payload name hi sc = Inr ys \<and> length ys = 3"
  using assms by (simp add: scaled_axis_def bounded_axis_def parse_array_def out_of_range_def float_overflow_bound_def)

lemma sample_vibration_parses: "\<exists>t. parse_vibration fl64 sample_vibration 0 = Inr t"
proof -
  let ?p = sample_vibration
  have d: "dget ?p ''r'' = JArr [JInt 16000, JInt 0, JInt 0]" "dget ?p ''p'' = JArr [JInt 0, JInt 0, JInt 0]"
    "dget ?p ''c'' = JArr [JInt 0, JInt 0, JInt 0]" "dget ?p ''k'' = JArr [JInt 0, JInt 0, JInt 0]"
    "dget ?p ''d'' = JArr [JInt 0, JInt 0, JInt 0]" "dget ?p ''x'' = JArr [JInt 0, JInt 0, JInt 0]"
    "dget ?p ''g'' = JArr [JInt 0, JInt 0, JInt 0]" "dget ?p ''s'' = JInt 7" "dget ?p ''m'' = JInt 5000"
    "dget ?p ''f'' = JInt 1000" "dget ?p ''v'' = JInt 1" "dget ?p ''a'' = JInt 1" "dget ?p ''q'' = JInt 1"
    by (simp_all add: sample_vibration_def dget_def)
  obtain r where r: "scaled_axis fl64 ?p ''r'' 16000 1000 = Inr r" "length r = 3" using sample_axis[OF d(1), of 16000 1000] by auto
  obtain p where p: "scaled_axis fl64 ?p ''p'' 16000 1000 = Inr p" "length p = 3" using sample_axis[OF d(2), of 16000 1000] by auto
  obtain c where c: "scaled_axis fl64 ?p ''c'' 1000 10 = Inr c" "length c = 3" using sample_axis[OF d(3), of 1000 10] by auto
  obtain k where k: "scaled_axis fl64 ?p ''k'' 10000 10 = Inr k" "length k = 3" using sample_axis[OF d(4), of 10000 10] by auto
  obtain e where e: "scaled_axis fl64 ?p ''d'' 2500 10 = Inr e" "length e = 3" using sample_axis[OF d(5), of 2500 10] by auto
  obtain x where x: "scaled_axis fl64 ?p ''x'' 16000 1000 = Inr x" "length x = 3" using sample_axis[OF d(6), of 16000 1000] by auto
  obtain g where g: "scaled_axis fl64 ?p ''g'' 20000 10 = Inr g" "length g = 3" using sample_axis[OF d(7), of 20000 10] by auto
  have f: "fl64 1000 = 1000" "fl64 100 = 100"
    using ieee.fl_int[of 1000] ieee.fl_int[of 100] by simp_all
  show ?thesis
    using r p c k e x g
    by (simp add: parse_vibration_def parse_summary_def d in_int_set_def uint32_def out_of_range_def uint32_max_def
        float_overflow_bound_def vibration_summary_valid_def int_between_def f Let_def)
      (simp add: sample_vibration_def vibration_keys_def)
qed

theorem vibration_features_bounded_witness:
  "\<exists>t s. parse_vibration fl64 sample_vibration 0 = Inr t \<and> nt_vibration t = Some s \<and> (\<forall>x \<in> set (vs_accel_rms_g s). x \<le> 16)"
proof -
  obtain t where t: "parse_vibration fl64 sample_vibration 0 = Inr t" using sample_vibration_parses by blast
  with vibration_features_bounded[OF t] show ?thesis by auto
qed

end
