(* ===== verification/Vibration.thy ===== *)
theory Vibration
  imports Repositories
begin

text \<open>
  The arithmetic of vibration monitoring, \<open>gateway/app/services/vibration_condition.py\<close>: feature values,
  running statistics, evaluation against a baseline and the hysteresis of the shown condition. Every
  float operation is rounded with \<open>fl\<close>; decimal constants of the source are the rounded fractions.
  The statistics are a dictionary in insertion order. The lemmas relate the running statistics to
  the two-pass definition, bound the evaluation and characterise the hysteresis.
\<close>

section \<open>Features and statistics\<close>

definition axes3 :: "string \<Rightarrow> string \<Rightarrow> string list" where
  "axes3 prefix suffix = map (\<lambda>axis. prefix @ axis @ suffix) [''x'', ''y'', ''z'']"

definition FEATURES :: "string list" where
  "FEATURES = axes3 ''accel_rms_'' ''_g'' @ axes3 ''accel_peak_'' ''_g'' @ axes3 ''crest_'' '''' @ axes3 ''kurtosis_'' ''''
     @ axes3 ''dominant_frequency_'' ''_hz'' @ axes3 ''dominant_amplitude_'' ''_g'' @ axes3 ''gyro_rms_'' ''_dps''"

definition summary_groups :: "vibration_summary \<Rightarrow> (string list \<times> real list) list" where
  "summary_groups s =
     [(axes3 ''accel_rms_'' ''_g'', vs_accel_rms_g s), (axes3 ''accel_peak_'' ''_g'', vs_accel_peak_g s),
      (axes3 ''crest_'' '''', vs_crest_factor s), (axes3 ''kurtosis_'' '''', vs_kurtosis s),
      (axes3 ''dominant_frequency_'' ''_hz'', vs_dominant_frequency_hz s),
      (axes3 ''dominant_amplitude_'' ''_g'', vs_dominant_amplitude_g s), (axes3 ''gyro_rms_'' ''_dps'', vs_gyro_rms_dps s)]"

text \<open>\<open>zip(..., strict=True)\<close> raises when the lengths differ.\<close>

definition summary_values :: "vibration_summary \<Rightarrow> (string \<times> real) list result" where
  "summary_values s =
     (if list_ex (\<lambda>(names, xs). length xs \<noteq> length names) (summary_groups s)
      then Inl (ValueError ''zip() arguments have different lengths'')
      else Inr (concat (map (\<lambda>(names, xs). zip names xs) (summary_groups s))))"

definition new_item :: "real \<Rightarrow> feature_statistics" where
  "new_item v = \<lparr>fs_count = 0, fs_mean = 0, fs_m2 = 0, fs_min = v, fs_max = v\<rparr>"

definition update_item :: "(real \<Rightarrow> real) \<Rightarrow> feature_statistics \<Rightarrow> real \<Rightarrow> feature_statistics" where
  "update_item fl item v =
     (let n = fs_count item + 1;
          delta = fl (v - fs_mean item);
          mean = fl (fs_mean item + fl (delta / of_int n))
      in \<lparr>fs_count = n, fs_mean = mean, fs_m2 = fl (fs_m2 item + fl (delta * fl (v - mean))),
          fs_min = min (fs_min item) v, fs_max = max (fs_max item) v\<rparr>)"

fun put_item :: "statistics \<Rightarrow> string \<Rightarrow> feature_statistics \<Rightarrow> statistics" where
  "put_item [] k v = [(k, v)]"
| "put_item ((k', w) # rest) k v = (if k' = k then (k, v) # rest else (k', w) # put_item rest k v)"

fun update_features :: "(real \<Rightarrow> real) \<Rightarrow> string list \<Rightarrow> statistics \<Rightarrow> (string \<times> real) list \<Rightarrow> statistics result" where
  "update_features fl [] statistics values = Inr statistics"
| "update_features fl (name # rest) statistics values =
     (case map_of values name of
        None \<Rightarrow> Inl (KeyError name)
      | Some v \<Rightarrow>
          let item = (case map_of statistics name of None \<Rightarrow> new_item v | Some i \<Rightarrow> i) in
          update_features fl rest (put_item statistics name (update_item fl item v)) values)"

definition update_statistics :: "(real \<Rightarrow> real) \<Rightarrow> statistics \<Rightarrow> (string \<times> real) list \<Rightarrow> statistics result" where
  "update_statistics fl statistics values = update_features fl FEATURES statistics values"

record public_item =
  pi_count :: int
  pi_mean :: real
  pi_standard_deviation :: real
  pi_minimum :: real
  pi_maximum :: real

definition public_statistics :: "(real \<Rightarrow> real) \<Rightarrow> statistics \<Rightarrow> (string \<times> public_item) list" where
  "public_statistics fl statistics =
     map (\<lambda>(name, item).
        let variance = (if fs_count item > 1 then fl (fs_m2 item / of_int (fs_count item - 1)) else 0) in
        (name, \<lparr>pi_count = fs_count item, pi_mean = fs_mean item,
          pi_standard_deviation = fl (sqrt (max 0 variance)), pi_minimum = fs_min item, pi_maximum = fs_max item\<rparr>))
       statistics"

section \<open>Evaluation\<close>

definition standard_deviation :: "(real \<Rightarrow> real) \<Rightarrow> feature_statistics \<Rightarrow> real" where
  "standard_deviation fl b = fl (sqrt (max 0 (fl (fs_m2 b / of_int (max 1 (fs_count b - 1))))))"

definition normalized_deviation :: "(real \<Rightarrow> real) \<Rightarrow> string \<Rightarrow> feature_statistics \<Rightarrow> real \<Rightarrow> real \<Rightarrow> real" where
  "normalized_deviation fl name b current bin_width =
     (let std = standard_deviation fl b; deviation = \<bar>fl (current - fs_mean b)\<bar> in
      if starts_with ''dominant_frequency'' name
      then fl (deviation / max (max bin_width std) (fl (1 / 1000000)))
      else
        let least = (if contains_sub ''_g'' name then fl (1 / 1000) else fl (1 / 20)) in
        fl (deviation / max (max std (fl (\<bar>fs_mean b\<bar> * fl (1 / 10)))) least))"

definition deviation_factor :: "(real \<Rightarrow> real) \<Rightarrow> string \<Rightarrow> feature_statistics \<Rightarrow> real \<Rightarrow> real \<Rightarrow> condition_factor" where
  "deviation_factor fl name b current normalized =
     \<lparr>cf_feature = name, cf_baseline = fs_mean b, cf_current = current, cf_normalized_deviation = normalized,
      cf_change_percent =
        (if \<bar>fs_mean b\<bar> > fl (1 / 1000000000)
         then Some (fl (fl (fl (current - fs_mean b) / fs_mean b) * 100)) else None)\<rparr>"

fun evaluate_features ::
  "(real \<Rightarrow> real) \<Rightarrow> string list \<Rightarrow> (string \<times> real) list \<Rightarrow> statistics \<Rightarrow> real \<Rightarrow> real \<Rightarrow> condition_factor list
     \<Rightarrow> (real \<times> condition_factor list) result" where
  "evaluate_features fl [] values statistics bin_width severity factors = Inr (severity, factors)"
| "evaluate_features fl (name # rest) values statistics bin_width severity factors =
     (case (map_of statistics name, map_of values name) of
        (Some b, Some current) \<Rightarrow>
          let normalized = normalized_deviation fl name b current bin_width;
              factors' = (if normalized \<ge> 2 then factors @ [deviation_factor fl name b current normalized] else factors)
          in evaluate_features fl rest values statistics bin_width (max severity normalized) factors'
      | _ \<Rightarrow> Inl (KeyError name))"

definition severity_state :: "real \<Rightarrow> string" where
  "severity_state severity =
     (if severity \<ge> 6 then ''SIGNIFICANT_CHANGE'' else if severity \<ge> 3 then ''ELEVATED'' else ''NORMAL'')"

definition severity_score :: "(real \<Rightarrow> real) \<Rightarrow> real \<Rightarrow> real" where
  "severity_score fl severity = max 0 (min 100 (fl (100 - fl (severity * 10))))"

text \<open>\<open>factors.sort(key=..., reverse=True)\<close> is stable and descending.\<close>

definition sort_factors :: "condition_factor list \<Rightarrow> condition_factor list" where
  "sort_factors fs = rev (sort_key cf_normalized_deviation (rev fs))"

definition evaluate_condition ::
  "(real \<Rightarrow> real) \<Rightarrow> (string \<times> real) list \<Rightarrow> statistics \<Rightarrow> real \<Rightarrow> (string \<times> real \<times> condition_factor list) result" where
  "evaluate_condition fl values statistics bin_width =
     bind_result (evaluate_features fl FEATURES values statistics bin_width 0 []) (\<lambda>(severity, factors).
       Inr (severity_state severity, severity_score fl severity, take 5 (sort_factors factors)))"

section \<open>Running statistics against the two-pass definition\<close>

text \<open>The statistics of a list of samples, computed from the whole list.\<close>

definition mean_of :: "real list \<Rightarrow> real" where
  "mean_of xs = sum_list xs / of_nat (length xs)"

definition sample_statistics :: "real list \<Rightarrow> feature_statistics" where
  "sample_statistics xs =
     \<lparr>fs_count = int (length xs), fs_mean = mean_of xs, fs_m2 = sum_list (map (\<lambda>x. (x - mean_of xs) ^ 2) xs),
      fs_min = fold min xs (hd xs), fs_max = fold max xs (hd xs)\<rparr>"

text \<open>The sum of squared deviations in closed form.\<close>

lemma sum_squared_deviation:
  fixes xs :: "real list"
  shows "sum_list (map (\<lambda>x. (x - c) ^ 2) xs)
    = sum_list (map (\<lambda>x. x ^ 2) xs) - 2 * c * sum_list xs + of_nat (length xs) * c ^ 2"
  by (induction xs) (simp_all add: algebra_simps power2_eq_square)

lemma mean_snoc:
  assumes "xs \<noteq> []"
  shows "mean_of (xs @ [x]) = mean_of xs + (x - mean_of xs) / (of_nat (length xs) + 1)"
proof -
  define n where "n = (of_nat (length xs) :: real)"
  have n: "n \<noteq> 0" "n + 1 \<noteq> 0" "1 + n \<noteq> 0" using assms by (simp_all add: n_def add_nonneg_eq_0_iff)
  show ?thesis
    unfolding mean_of_def n_def[symmetric] using n
    by (simp add: n_def[symmetric] divide_simps) (simp add: algebra_simps)
qed

lemma m2_snoc:
  assumes "xs \<noteq> []"
  shows "sum_list (map (\<lambda>y. (y - mean_of (xs @ [x])) ^ 2) (xs @ [x]))
    = sum_list (map (\<lambda>y. (y - mean_of xs) ^ 2) xs) + (x - mean_of xs) * (x - mean_of (xs @ [x]))"
proof -
  define n m where "n = (of_nat (length xs) :: real)" and "m = mean_of xs"
  define d where "d = (x - m) / (n + 1)"
  have n: "n > 0" using assms by (simp add: n_def)
  have total: "sum_list xs = n * m" using n by (simp add: m_def mean_of_def n_def)
  have m': "mean_of (xs @ [x]) = m + d"
    using mean_snoc[OF assms] by (simp add: m_def n_def d_def)
  have x: "x = m + (n + 1) * d" using n by (simp add: d_def)
  show ?thesis
    unfolding m' m_def[symmetric] map_append sum_list_append sum_squared_deviation total n_def[symmetric]
    unfolding x by (simp add: algebra_simps power2_eq_square)
qed

lemma update_item_snoc:
  assumes "xs \<noteq> []"
  shows "update_item id (sample_statistics xs) x = sample_statistics (xs @ [x])"
  using assms mean_snoc[OF assms, of x] m2_snoc[OF assms, of x]
  by (simp add: update_item_def sample_statistics_def Let_def add.commute min.commute max.commute)

lemma update_item_first: "update_item id (new_item x) x = sample_statistics [x]"
  by (simp add: update_item_def new_item_def sample_statistics_def mean_of_def)

lemma map_of_put_item: "map_of (put_item st k v) = (map_of st)(k \<mapsto> v)"
  by (induction st k v rule: put_item.induct) auto

definition stepped :: "(real \<Rightarrow> real) \<Rightarrow> statistics \<Rightarrow> string \<Rightarrow> real \<Rightarrow> feature_statistics" where
  "stepped fl st name v = update_item fl (case map_of st name of None \<Rightarrow> new_item v | Some i \<Rightarrow> i) v"

text \<open>One pass over the features updates every feature once, from its previous entry.\<close>

lemma update_features_map_of:
  "distinct names \<Longrightarrow> (\<forall>n \<in> set names. map_of vs n \<noteq> None) \<Longrightarrow>
   \<exists>st'. update_features fl names st vs = Inr st'
      \<and> (\<forall>n. map_of st' n = (if n \<in> set names then Some (stepped fl st n (the (map_of vs n))) else map_of st n))"
proof (induction names arbitrary: st)
  case Nil
  then show ?case by simp
next
  case (Cons name rest)
  then obtain v where v: "map_of vs name = Some v" by auto
  let ?st = "put_item st name (stepped fl st name v)"
  obtain st' where st': "update_features fl rest ?st vs = Inr st'"
    and m: "\<And>n. map_of st' n = (if n \<in> set rest then Some (stepped fl ?st n (the (map_of vs n))) else map_of ?st n)"
    using Cons.IH[of ?st] Cons.prems by auto
  have other: "stepped fl ?st n w = stepped fl st n w" if "n \<noteq> name" for n w
    using that by (simp add: stepped_def map_of_put_item)
  have "map_of st' n = (if n \<in> set (name # rest) then Some (stepped fl st n (the (map_of vs n))) else map_of st n)" for n
    using m[of n] Cons.prems(1) v other[of n] by (auto simp: map_of_put_item)
  moreover have "update_features fl (name # rest) st vs = Inr st'"
    using st' v by (simp add: stepped_def Let_def)
  ultimately show ?case by blast
qed

text \<open>Feeding windows to a fresh statistics dictionary.\<close>

fun observe_windows :: "(real \<Rightarrow> real) \<Rightarrow> statistics \<Rightarrow> (string \<times> real) list list \<Rightarrow> statistics result" where
  "observe_windows fl st [] = Inr st"
| "observe_windows fl st (w # ws) = bind_result (update_statistics fl st w) (\<lambda>st'. observe_windows fl st' ws)"

definition feature_series :: "string \<Rightarrow> (string \<times> real) list list \<Rightarrow> real list" where
  "feature_series name ws = map (\<lambda>w. the (map_of w name)) ws"

lemma FEATURES_distinct: "distinct FEATURES"
  by (simp add: FEATURES_def axes3_def)

lemma observe_windows_snoc:
  "observe_windows fl st (ws @ [w]) = bind_result (observe_windows fl st ws) (\<lambda>st'. update_statistics fl st' w)"
proof (induction ws arbitrary: st)
  case Nil
  show ?case by (cases "update_statistics fl st w") simp_all
next
  case (Cons a ws)
  show ?case by (cases "update_statistics fl st a") (simp_all add: Cons.IH)
qed

lemma observe_windows_statistics:
  assumes "ws \<noteq> []" "\<forall>w \<in> set ws. \<forall>n \<in> set FEATURES. map_of w n \<noteq> None"
  shows "\<exists>st. observe_windows id [] ws = Inr st
    \<and> (\<forall>n \<in> set FEATURES. map_of st n = Some (sample_statistics (feature_series n ws)))"
  using assms
proof (induction ws rule: rev_induct)
  case Nil
  then show ?case by simp
next
  case (snoc w ws)
  have w: "\<forall>n \<in> set FEATURES. map_of w n \<noteq> None" using snoc.prems by simp
  show ?case
  proof (cases "ws = []")
    case True
    obtain st where st: "update_features id FEATURES [] w = Inr st"
      and m: "\<forall>n. map_of st n = (if n \<in> set FEATURES then Some (stepped id [] n (the (map_of w n))) else map_of [] n)"
      using update_features_map_of[OF FEATURES_distinct w, of id "[]"] by blast
    have "\<forall>n \<in> set FEATURES. map_of st n = Some (sample_statistics [the (map_of w n)])"
      using m by (simp add: stepped_def update_item_first)
    with st True show ?thesis by (auto simp: update_statistics_def feature_series_def id_def)
  next
    case False
    have "\<forall>w \<in> set ws. \<forall>n \<in> set FEATURES. map_of w n \<noteq> None" using snoc.prems by simp
    from snoc.IH[OF False this] obtain st where st: "observe_windows id [] ws = Inr st"
      and old: "\<forall>n \<in> set FEATURES. map_of st n = Some (sample_statistics (feature_series n ws))"
      by blast
    obtain st' where st': "update_features id FEATURES st w = Inr st'"
      and m: "\<forall>n. map_of st' n = (if n \<in> set FEATURES then Some (stepped id st n (the (map_of w n))) else map_of st n)"
      using update_features_map_of[OF FEATURES_distinct w, of id st] by blast
    have "map_of st' n = Some (sample_statistics (feature_series n (ws @ [w])))" if "n \<in> set FEATURES" for n
      using that m old False
      by (simp add: stepped_def update_item_snoc feature_series_def)
    moreover have "observe_windows id [] (ws @ [w]) = Inr st'"
      unfolding observe_windows_snoc update_statistics_def st using st' by simp
    ultimately show ?thesis by blast
  qed
qed


definition sample_values :: "real \<Rightarrow> (string \<times> real) list" where
  "sample_values x = map (\<lambda>n. (n, x)) FEATURES"

lemma map_of_map_keys: "n \<in> set ns \<Longrightarrow> map_of (map (\<lambda>n. (n, x)) ns) n = Some x"
  by (induction ns) auto

lemma map_of_sample_values: "n \<in> set FEATURES \<Longrightarrow> map_of (sample_values x) n = Some x"
  by (simp add: sample_values_def map_of_map_keys)


section \<open>Bounds on the evaluation\<close>

lemma evaluate_features_Inr:
  "evaluate_features fl names vs st bin sev fs = Inr (sev', fs') \<Longrightarrow>
   sev \<le> sev' \<and> (\<forall>f \<in> set fs'. f \<in> set fs \<or> (2 \<le> cf_normalized_deviation f \<and> cf_normalized_deviation f \<le> sev'))"
proof (induction names arbitrary: sev fs)
  case Nil
  then show ?case by simp
next
  case (Cons name rest)
  then obtain b v where "map_of st name = Some b" "map_of vs name = Some v"
    by (auto split: option.splits)
  with Cons.prems Cons.IH show ?case
    by (fastforce simp: Let_def deviation_factor_def split: if_splits)
qed

lemma sort_factors_props:
  "set (sort_factors fs) = set fs"
  "sorted_wrt (\<lambda>f g. cf_normalized_deviation f \<ge> cf_normalized_deviation g) (sort_factors fs)"
proof -
  show "set (sort_factors fs) = set fs" by (simp add: sort_factors_def)
  have "sorted_wrt (\<lambda>f g. cf_normalized_deviation f \<le> cf_normalized_deviation g)
          (sort_key cf_normalized_deviation (rev fs))"
    using sorted_sort_key[of cf_normalized_deviation "rev fs"] by (simp add: sorted_wrt_map)
  then show "sorted_wrt (\<lambda>f g. cf_normalized_deviation f \<ge> cf_normalized_deviation g) (sort_factors fs)"
    by (simp add: sort_factors_def sorted_wrt_rev)
qed

lemma severity_score_bounds: "0 \<le> severity_score fl sev \<and> severity_score fl sev \<le> 100"
  by (simp add: severity_score_def)

context rounding
begin

lemma severity_score_mono: "sev \<le> sev' \<Longrightarrow> severity_score fl sev' \<le> severity_score fl sev"
proof -
  assume "sev \<le> sev'"
  then have "fl (sev * 10) \<le> fl (sev' * 10)" by (intro fl_mono) simp
  then have "fl (100 - fl (sev' * 10)) \<le> fl (100 - fl (sev * 10))" by (intro fl_mono) simp
  then show ?thesis by (simp add: severity_score_def)
qed

lemma severity_score_at: "severity_score fl 6 = 40" "severity_score fl 3 = 70" "severity_score fl 0 = 100"
  using fl_int[of 60] fl_int[of 40] fl_int[of 30] fl_int[of 70] fl_int[of 100]
  by (simp_all add: severity_score_def)

text \<open>The state and the score agree: a state is worse exactly when the score is past its threshold
  up to rounding.\<close>

lemma severity_state_score:
  "severity_state sev = ''SIGNIFICANT_CHANGE'' \<Longrightarrow> severity_score fl sev \<le> 40"
  "severity_state sev = ''ELEVATED'' \<Longrightarrow> 40 \<le> severity_score fl sev \<and> severity_score fl sev \<le> 70"
  "severity_state sev = ''NORMAL'' \<Longrightarrow> 70 \<le> severity_score fl sev"
  using severity_score_mono[of 6 sev] severity_score_mono[of sev 6] severity_score_mono[of 3 sev]
    severity_score_mono[of sev 3]
  by (auto simp: severity_state_def severity_score_at split: if_splits)

end

lemma severity_state_cases:
  "severity_state sev \<in> {''NORMAL'', ''ELEVATED'', ''SIGNIFICANT_CHANGE''}"
  by (simp add: severity_state_def)

text \<open>A factor list that is empty although the state is not normal cannot occur, since a severity of 3
  comes from a feature whose deviation is at least 2.\<close>

lemma evaluate_features_maximal:
  "evaluate_features fl names vs st bin sev fs = Inr (sev', fs') \<Longrightarrow>
   set fs \<subseteq> set fs' \<and> (sev' = sev \<or> sev' < 2 \<or> (\<exists>f \<in> set fs'. cf_normalized_deviation f = sev'))"
proof (induction names arbitrary: sev fs)
  case Nil
  then show ?case by simp
next
  case (Cons name rest)
  then obtain b v where bv: "map_of st name = Some b" "map_of vs name = Some v"
    by (auto split: option.splits)
  define d where "d = normalized_deviation fl name b v bin"
  define fs1 where "fs1 = (if d \<ge> 2 then fs @ [deviation_factor fl name b v d] else fs)"
  have run: "evaluate_features fl rest vs st bin (max sev d) fs1 = Inr (sev', fs')"
    using Cons.prems bv unfolding d_def fs1_def by (simp add: Let_def split del: if_split)
  note ih = Cons.IH[OF run]
  have sub: "set fs \<subseteq> set fs'" using ih by (auto simp: fs1_def)
  have new: "\<exists>f \<in> set fs'. cf_normalized_deviation f = d" if "d \<ge> 2"
  proof
    show "deviation_factor fl name b v d \<in> set fs'" using ih that by (auto simp: fs1_def)
    show "cf_normalized_deviation (deviation_factor fl name b v d) = d" by (simp add: deviation_factor_def)
  qed
  show ?case
  proof (cases "2 \<le> d")
    case True
    from new[OF this] ih sub show ?thesis by (auto simp: max_def split: if_splits)
  next
    case False
    with ih sub show ?thesis by (auto simp: max_def split: if_splits)
  qed
qed

text \<open>C32. Under binary64 rounding a successful evaluation returns one of the three condition
  states, a score between 0 and 100 that agrees with the state (at least 70 when normal, 40 to 70
  when elevated, at most 40 when significant), and at most five contributing factors, ordered by
  descending deviation, each deviating by at least two standard widths; a state other than normal
  is always explained by a first factor of at least 3.\<close>

theorem evaluate_condition_bounds:
  assumes "evaluate_condition fl64 vs st bin = Inr (condition, score, factors)"
  shows "condition \<in> {''NORMAL'', ''ELEVATED'', ''SIGNIFICANT_CHANGE''}
    \<and> 0 \<le> score \<and> score \<le> 100
    \<and> (condition = ''NORMAL'' \<longrightarrow> 70 \<le> score)
    \<and> (condition = ''ELEVATED'' \<longrightarrow> 40 \<le> score \<and> score \<le> 70)
    \<and> (condition = ''SIGNIFICANT_CHANGE'' \<longrightarrow> score \<le> 40)
    \<and> length factors \<le> 5
    \<and> sorted_wrt (\<lambda>f g. cf_normalized_deviation f \<ge> cf_normalized_deviation g) factors
    \<and> (\<forall>f \<in> set factors. 2 \<le> cf_normalized_deviation f)
    \<and> (condition \<noteq> ''NORMAL'' \<longrightarrow> factors \<noteq> [] \<and> 3 \<le> cf_normalized_deviation (hd factors))"
proof -
  obtain sev fs where run: "evaluate_features fl64 FEATURES vs st bin 0 [] = Inr (sev, fs)"
    and out: "condition = severity_state sev" "score = severity_score fl64 sev" "factors = take 5 (sort_factors fs)"
    using assms by (auto simp: evaluate_condition_def bind_result_Inr_iff)
  note inv = evaluate_features_Inr[OF run] and max = evaluate_features_maximal[OF run]
  have sub: "set factors \<subseteq> set fs" using out(3) set_take_subset sort_factors_props(1) by metis
  have srt: "sorted_wrt (\<lambda>f g. cf_normalized_deviation f \<ge> cf_normalized_deviation g) factors"
    unfolding out(3) by (intro sorted_wrt_take sort_factors_props)
  have worse: "factors \<noteq> [] \<and> 3 \<le> cf_normalized_deviation (hd factors)" if "condition \<noteq> ''NORMAL''"
  proof -
    have "sev \<ge> 3" using that out(1) by (simp add: severity_state_def split: if_splits)
    then obtain f where f: "f \<in> set fs" "cf_normalized_deviation f = sev" using max by auto
    then have "f \<in> set (sort_factors fs)" by (simp add: sort_factors_props)
    then obtain g gs where g: "sort_factors fs = g # gs" "f = g \<or> f \<in> set gs"
      by (cases "sort_factors fs") auto
    then have "cf_normalized_deviation g \<ge> cf_normalized_deviation f"
      using sort_factors_props(2)[of fs] by auto
    with f \<open>sev \<ge> 3\<close> g(1) out(3) show ?thesis by simp
  qed
  have len: "length factors \<le> 5" using out(3) by simp
  have two: "\<forall>f \<in> set factors. 2 \<le> cf_normalized_deviation f" using inv sub by auto
  show ?thesis
    using severity_state_cases[of sev] severity_score_bounds[of fl64 sev] ieee.severity_state_score[of sev]
      srt worse len two
    unfolding out(1,2)[symmetric] by auto
qed

text \<open>The evaluation succeeds when every feature has a baseline and a value, and its severity bounds
  every feature's deviation.\<close>

lemma evaluate_features_total:
  assumes "\<forall>n \<in> set names. map_of st n \<noteq> None \<and> map_of vs n \<noteq> None"
  shows "\<exists>sev' fs'. evaluate_features fl names vs st bin sev fs = Inr (sev', fs') \<and> sev \<le> sev'
    \<and> (\<forall>n \<in> set names. normalized_deviation fl n (the (map_of st n)) (the (map_of vs n)) bin \<le> sev')"
  using assms
proof (induction names arbitrary: sev fs)
  case Nil
  then show ?case by simp
next
  case (Cons name rest)
  then obtain b v where bv: "map_of st name = Some b" "map_of vs name = Some v" by auto
  define d where "d = normalized_deviation fl name b v bin"
  define fs1 where "fs1 = (if d \<ge> 2 then fs @ [deviation_factor fl name b v d] else fs)"
  obtain sev' fs' where ih: "evaluate_features fl rest vs st bin (max sev d) fs1 = Inr (sev', fs')" "max sev d \<le> sev'"
    "\<forall>n \<in> set rest. normalized_deviation fl n (the (map_of st n)) (the (map_of vs n)) bin \<le> sev'"
    using Cons.IH[of "max sev d" fs1] Cons.prems by auto
  have "evaluate_features fl (name # rest) vs st bin sev fs = Inr (sev', fs')"
    using ih(1) bv unfolding d_def fs1_def by (simp add: Let_def split del: if_split)
  with ih bv show ?case by (auto simp: d_def)
qed

definition sample_baseline :: "real \<Rightarrow> statistics" where
  "sample_baseline x = map (\<lambda>n. (n, \<lparr>fs_count = 2, fs_mean = x, fs_m2 = 0, fs_min = x, fs_max = x\<rparr>)) FEATURES"

lemma map_of_sample_baseline:
  "n \<in> set FEATURES \<Longrightarrow>
   map_of (sample_baseline x) n = Some \<lparr>fs_count = 2, fs_mean = x, fs_m2 = 0, fs_min = x, fs_max = x\<rparr>"
  by (simp add: sample_baseline_def map_of_map_keys)

lemma sample_deviation:
  "normalized_deviation fl64 ''dominant_frequency_z_hz''
      \<lparr>fs_count = 2, fs_mean = 0, fs_m2 = 0, fs_min = 0, fs_max = 0\<rparr> 10 1 = 10"
  using ieee.fl_int[of 10] ieee.fl_le_int[of "1 / 1000000" 1]
  by (simp add: normalized_deviation_def standard_deviation_def max_def)

theorem evaluate_condition_bounds_witness:
  "\<exists>score factors. evaluate_condition fl64 (sample_values 10) (sample_baseline 0) 1
       = Inr (''SIGNIFICANT_CHANGE'', score, factors)
     \<and> 0 \<le> score \<and> score \<le> 40 \<and> factors \<noteq> [] \<and> length factors \<le> 5"
proof -
  have all: "\<forall>n \<in> set FEATURES. map_of (sample_baseline 0) n \<noteq> None \<and> map_of (sample_values 10) n \<noteq> None"
    by (simp add: map_of_sample_baseline map_of_sample_values)
  have mem: "''dominant_frequency_z_hz'' \<in> set FEATURES" by (simp add: FEATURES_def axes3_def)
  obtain sev fs where run: "evaluate_features fl64 FEATURES (sample_values 10) (sample_baseline 0) 1 0 [] = Inr (sev, fs)"
    and dev: "\<forall>n \<in> set FEATURES. normalized_deviation fl64 n (the (map_of (sample_baseline 0) n))
                  (the (map_of (sample_values 10) n)) 1 \<le> sev"
    using evaluate_features_total[OF all, of fl64 1 0 "[]"] by blast
  have "10 \<le> sev"
    using dev[rule_format, OF mem] sample_deviation mem
    by (simp add: map_of_sample_baseline map_of_sample_values)
  then have run': "evaluate_condition fl64 (sample_values 10) (sample_baseline 0) 1
      = Inr (''SIGNIFICANT_CHANGE'', severity_score fl64 sev, take 5 (sort_factors fs))"
    using run by (simp add: evaluate_condition_def severity_state_def)
  from evaluate_condition_bounds[OF run'] run' show ?thesis by auto
qed

section \<open>Hysteresis of the shown condition\<close>

text \<open>The hysteresis: the shown state (\<open>None\<close> on a row that was never stored), the pending state
  and its count.\<close>

definition condition_transition ::
  "int \<Rightarrow> string \<Rightarrow> string option \<times> string option \<times> int \<Rightarrow> string option \<times> string option \<times> int" where
  "condition_transition persistence state c =
     (case c of (shown, pending, n) \<Rightarrow>
      if state \<in> {''INVALID'', ''BASELINE_PENDING'', ''INSUFFICIENT_DATA''} then (Some state, None, 0)
      else if Some state = shown then (shown, None, 0)
      else
        let n' = (if pending = Some state then n + 1 else 1) in
        if n' \<ge> persistence \<or> shown = Some ''BASELINE_PENDING'' \<and> state = ''NORMAL''
        then (Some state, None, 0)
        else (shown, Some state, n'))"

text \<open>The condition after a sequence of evaluation results.\<close>

fun run_condition :: "int \<Rightarrow> string option \<times> string option \<times> int \<Rightarrow> string list \<Rightarrow> string option \<times> string option \<times> int" where
  "run_condition persistence c [] = c"
| "run_condition persistence c (e # es) = run_condition persistence (condition_transition persistence e c) es"

definition immediate :: "string \<Rightarrow> bool" where
  "immediate e = (e \<in> {''INVALID'', ''BASELINE_PENDING'', ''INSUFFICIENT_DATA''})"

lemma run_condition_append: "run_condition p c (xs @ ys) = run_condition p (run_condition p c xs) ys"
  by (induction xs arbitrary: c) simp_all

lemma condition_transition_cases:
  "condition_transition p e (shown, pending, n) =
     (if immediate e then (Some e, None, 0)
      else if shown = Some e then (shown, None, 0)
      else if (if pending = Some e then n + 1 else 1) \<ge> p \<or> shown = Some ''BASELINE_PENDING'' \<and> e = ''NORMAL''
      then (Some e, None, 0)
      else (shown, Some e, if pending = Some e then n + 1 else 1))"
  by (auto simp: condition_transition_def immediate_def Let_def)

text \<open>A pending count below the threshold records that many trailing equal evaluations.\<close>

definition pending_inv :: "int \<Rightarrow> string list \<Rightarrow> string option \<times> string option \<times> int \<Rightarrow> bool" where
  "pending_inv p xs c =
     (case c of (shown, pending, n) \<Rightarrow>
        (case pending of None \<Rightarrow> n = 0
         | Some q \<Rightarrow> 0 < n \<and> n < p \<and> shown \<noteq> Some q \<and> (\<exists>ys. xs = ys @ replicate (nat n) q)))"

lemma pending_inv_step:
  assumes "pending_inv p xs c"
  shows "pending_inv p (xs @ [e]) (condition_transition p e c)"
proof -
  obtain shown pending n where c: "c = (shown, pending, n)" by (cases c)
  show ?thesis
  proof (cases "pending = Some e")
    case True
    with assms c obtain ys where "0 < n" "xs = ys @ replicate (nat n) e" by (auto simp: pending_inv_def)
    then have "xs @ [e] = ys @ replicate (nat (n + 1)) e"
      by (simp add: nat_add_distrib replicate_append_same flip: replicate_Suc)
    with True \<open>0 < n\<close> show ?thesis
      unfolding c condition_transition_cases by (auto simp: pending_inv_def)
  next
    case False
    have "xs @ [e] = xs @ replicate (nat 1) e" by simp
    with False show ?thesis
      unfolding c condition_transition_cases by (fastforce simp: pending_inv_def)
  qed
qed

lemma pending_inv_run:
  assumes "pending_inv p xs c"
  shows "pending_inv p (xs @ ys) (run_condition p c ys)"
  using assms
proof (induction ys arbitrary: xs c)
  case Nil
  then show ?case by simp
next
  case (Cons y ys)
  from Cons.IH[OF pending_inv_step[OF Cons.prems, of y]] show ?case by simp
qed

lemma run_replicate:
  assumes "\<not> immediate e" "0 < k" "0 \<le> snd (snd c)"
  shows "let (shown, pending, n) = run_condition p c (replicate k e)
         in shown = Some e \<or> pending = Some e \<and> int k \<le> n"
  using assms(2)
proof (induction k)
  case 0
  then show ?case by simp
next
  case (Suc k)
  obtain shown pending n where r: "run_condition p c (replicate k e) = (shown, pending, n)"
    by (cases "run_condition p c (replicate k e)")
  have step: "run_condition p c (replicate (Suc k) e) = condition_transition p e (shown, pending, n)"
    using run_condition_append[of p c "replicate k e" "[e]"] r by (simp add: replicate_append_same)
  show ?case
  proof (cases "k = 0")
    case True
    then have "c = (shown, pending, n)" "0 \<le> n" using r assms(3) by auto
    with True show ?thesis
      using step assms(1) by (auto simp: condition_transition_cases Let_def)
  next
    case False
    with Suc.IH r have "shown = Some e \<or> pending = Some e \<and> int k \<le> n" by simp
    then show ?thesis using step assms(1) by (auto simp: condition_transition_cases Let_def)
  qed
qed

lemma change_shows_result:
  "\<not> immediate e \<Longrightarrow> fst (condition_transition p e c) \<noteq> fst c \<Longrightarrow> fst (condition_transition p e c) = Some e"
  by (cases c) (auto simp: condition_transition_cases split: if_splits)

lemma change_needs_run:
  assumes inv: "pending_inv p xs c" and "\<not> immediate e" "1 \<le> p"
    and changed: "fst (condition_transition p e c) \<noteq> fst c"
    and "\<not> (fst c = Some ''BASELINE_PENDING'' \<and> e = ''NORMAL'')"
  shows "\<exists>ys. xs @ [e] = ys @ replicate (nat p) e"
proof -
  obtain shown pending n where c: "c = (shown, pending, n)" by (cases c)
  have reached: "(if pending = Some e then n + 1 else 1) \<ge> p"
    using changed assms(2,5) by (auto simp: c condition_transition_cases split: if_splits)
  show ?thesis
  proof (cases "pending = Some e")
    case True
    with inv c obtain ys where ys: "0 < n" "n < p" "xs = ys @ replicate (nat n) e" by (auto simp: pending_inv_def)
    with reached True have "nat p = Suc (nat n)" by simp
    with ys(3) have "xs @ [e] = ys @ replicate (nat p) e"
      by (simp add: replicate_append_same flip: replicate_Suc)
    then show ?thesis ..
  next
    case False
    with reached assms(3) have "nat p = 1" by simp
    then show ?thesis by simp
  qed
qed

lemma run_shows_result:
  assumes inv: "pending_inv p [] c" and "\<not> immediate e" "1 \<le> p"
  shows "fst (run_condition p c (ys @ replicate (nat p) e)) = Some e"
proof -
  let ?c = "run_condition p c ys"
  obtain shown pending n where r: "run_condition p ?c (replicate (nat p) e) = (shown, pending, n)"
    by (cases "run_condition p ?c (replicate (nat p) e)")
  have "pending_inv p ys ?c" using pending_inv_run[OF inv, of ys] by simp
  then have "0 \<le> snd (snd ?c)" by (auto simp: pending_inv_def split: prod.splits option.splits)
  with run_replicate[OF assms(2), of "nat p" ?c p] r assms(3)
  have "shown = Some e \<or> pending = Some e \<and> p \<le> n" by simp
  moreover have "pending_inv p (ys @ replicate (nat p) e) (shown, pending, n)"
    using pending_inv_run[OF inv, of "ys @ replicate (nat p) e"] r by (simp add: run_condition_append)
  ultimately show ?thesis using r by (auto simp: pending_inv_def run_condition_append)
qed



end
