(* ===== verification/Vibration_Service.thy ===== *)
theory Vibration_Service
  imports Vibration Devices
begin

text \<open>
  The service \<open>VibrationConditionService\<close> of \<open>gateway/app/services/vibration_condition.py\<close> and the handlers
  of \<open>gateway/app/api/vibration.py\<close>. A call that raises leaves the database unchanged (the session is
  rolled back or closed without a commit). The lemmas give the life cycle of a baseline and the
  invariant that ties baselines to their history.
\<close>

section \<open>Processing one window\<close>

record vibration_settings =
  vq_gateway_id :: string
  vq_minimum_windows :: int
  vq_persistence_windows :: int
  vq_persistence_interval :: int

definition new_baseline :: "int \<Rightarrow> int \<Rightarrow> string option \<Rightarrow> int \<Rightarrow> int \<Rightarrow> time \<Rightarrow> vibration_baseline" where
  "new_baseline i device_pk installation_id algorithm minimum now =
     \<lparr>vb_id = i, vb_registered_device_id = device_pk, vb_installation_id = installation_id, vb_baseline_version = 1,
      vb_algorithm_version = algorithm, vb_status = ''building'', vb_sample_count = 0, vb_minimum_samples = minimum,
      vb_statistics_json = [], vb_last_session_id = None, vb_last_window_sequence = None, vb_created_at = now,
      vb_established_at = None, vb_reason = None, vb_last_relearn_request_id = None, vb_updated_at = now\<rparr>"

text \<open>What the window does to the baseline, and the state, score and factors it yields.\<close>

definition observe_baseline ::
  "(real \<Rightarrow> real) \<Rightarrow> vibration_baseline \<Rightarrow> vibration_summary \<Rightarrow> (string \<times> real) list \<Rightarrow> string \<Rightarrow> time
     \<Rightarrow> (vibration_baseline \<times> string \<times> real option \<times> condition_factor list) result" where
  "observe_baseline fl baseline summary values session_id observed_at =
     (let b = baseline\<lparr>vb_last_session_id := Some session_id,
                       vb_last_window_sequence := Some (vs_window_sequence summary)\<rparr>;
          eligible = (vs_validity summary = ''valid'') in
      if eligible \<and> vb_status b = ''building'' then
        bind_result (update_statistics fl (vb_statistics_json b) values) (\<lambda>statistics.
          let b1 = b\<lparr>vb_statistics_json := statistics, vb_sample_count := vb_sample_count b + 1\<rparr> in
          if vb_sample_count b1 \<ge> vb_minimum_samples b1
          then Inr (b1\<lparr>vb_status := ''frozen'', vb_established_at := Some observed_at\<rparr>, ''NORMAL'', Some 100, [])
          else Inr (b1, ''BASELINE_PENDING'', None, []))
      else if eligible \<and> vb_status b = ''frozen'' then
        bind_result (evaluate_condition fl values (vb_statistics_json b) (fl (vs_effective_sample_rate_hz summary / 256)))
          (\<lambda>(state, score, factors). Inr (b, state, Some score, factors))
      else if vb_sample_count b = 0 then Inr (b, ''INSUFFICIENT_DATA'', None, [])
      else Inr (b, ''INVALID'', None, []))"

record process_result =
  px_persisted :: bool
  px_state :: string
  px_score :: "real option"
  px_factors :: "condition_factor list"
  px_baseline_count :: int
  px_baseline_status :: string

text \<open>The two dictionaries \<open>process\<close> returns.\<close>

datatype process_outcome = DuplicateWindow "string option" | Processed process_result

definition find_baseline :: "db \<Rightarrow> int \<Rightarrow> string option \<Rightarrow> int \<Rightarrow> vibration_baseline option" where
  "find_baseline s device_pk installation_id algorithm =
     find_row (\<lambda>b. vb_registered_device_id b = device_pk \<and> vb_installation_id b = installation_id
                  \<and> vb_algorithm_version b = algorithm) (vibration_baselines s)"

definition find_condition :: "db \<Rightarrow> int \<Rightarrow> vibration_condition option" where
  "find_condition s device_pk = find_row (\<lambda>c. vc_registered_device_id c = device_pk) (vibration_conditions s)"

definition imu_installation :: "db \<Rightarrow> string \<Rightarrow> sensor_installation option" where
  "imu_installation s node_id =
     find_row (\<lambda>r. si_node_id r = node_id \<and> si_interface_id r = ''IMU0'' \<and> si_enabled r \<and> \<not> si_archived r)
       (sensor_installations s)"

text \<open>Storing a row under its primary key, or appending it when it is new.\<close>

definition store_row :: "('r \<Rightarrow> int) \<Rightarrow> 'r \<Rightarrow> 'r list \<Rightarrow> 'r list" where
  "store_row key r rows =
     (if \<exists>x \<in> set rows. key x = key r then upd_rows (\<lambda>x. key x = key r) (\<lambda>_. r) rows else rows @ [r])"

definition new_condition :: "int \<Rightarrow> int \<Rightarrow> time \<Rightarrow> vibration_condition" where
  "new_condition i device_pk now =
     \<lparr>vc_id = i, vc_registered_device_id = device_pk, vc_installation_id = None, vc_baseline_id = None,
      vc_state = ''BASELINE_PENDING'', vc_baseline_similarity_score = None, vc_factors_json = [],
      vc_pending_state = None, vc_pending_count = 0, vc_latest_window_sequence = None, vc_evaluated_at = None,
      vc_updated_at = now\<rparr>"

definition latest_window :: "db \<Rightarrow> int \<Rightarrow> vibration_window option" where
  "latest_window s device_pk =
     (case sort_key (\<lambda>w. (- vw_observed_at w, - vw_id w))
             (filter (\<lambda>w. vw_registered_device_id w = device_pk) (vibration_windows s)) of
        [] \<Rightarrow> None | w # _ \<Rightarrow> Some w)"

definition window_row ::
  "vibration_settings \<Rightarrow> int \<Rightarrow> int \<Rightarrow> string option \<Rightarrow> string \<Rightarrow> vibration_summary \<Rightarrow> int \<Rightarrow> time \<Rightarrow> string
     \<Rightarrow> (string \<times> real) list \<Rightarrow> vibration_window" where
  "window_row cfg i device_pk installation_id session_id summary version observed_at uuid values =
     \<lparr>vw_id = i, vw_window_uuid = uuid, vw_gateway_id = vq_gateway_id cfg, vw_registered_device_id = device_pk,
      vw_installation_id = installation_id, vw_session_id = session_id,
      vw_window_sequence = vs_window_sequence summary, vw_observed_at = observed_at,
      vw_device_uptime_ms = vs_device_uptime_ms summary, vw_schema_version = vs_schema_version summary,
      vw_algorithm_version = vs_algorithm_version summary, vw_baseline_version = Some version,
      vw_configured_sample_rate_hz = 416, vw_effective_sample_rate_hz = vs_effective_sample_rate_hz summary,
      vw_fft_size = 256, vw_validity = vs_validity summary, vw_values = values\<rparr>"

definition window_conflict :: "db \<Rightarrow> vibration_window \<Rightarrow> bool" where
  "window_conflict s w =
     (\<exists>x \<in> set (vibration_windows s). vw_window_uuid x = vw_window_uuid w
        \<or> (vw_registered_device_id x = vw_registered_device_id w \<and> vw_session_id x = vw_session_id w
           \<and> vw_window_sequence x = vw_window_sequence w \<and> vw_algorithm_version x = vw_algorithm_version w))"

text \<open>The baseline of the device, the installation and the algorithm, created when there is none.\<close>

definition current_baseline ::
  "vibration_settings \<Rightarrow> db \<Rightarrow> int \<Rightarrow> string option \<Rightarrow> int \<Rightarrow> time \<Rightarrow> vibration_baseline" where
  "current_baseline cfg s pk installation_id algorithm now =
     (case find_baseline s pk installation_id algorithm of
        Some b \<Rightarrow> b
      | None \<Rightarrow> new_baseline (next_id vb_id (vibration_baselines s)) pk installation_id algorithm
                  (vq_minimum_windows cfg) now)"

definition window_installation :: "db \<Rightarrow> string \<Rightarrow> string option" where
  "window_installation s node_id = map_option si_installation_id (imu_installation s node_id)"

text \<open>The end of \<open>process\<close>: the condition row, the window when one is due, and the commit.\<close>

definition commit_window ::
  "vibration_settings \<Rightarrow> db \<Rightarrow> int \<Rightarrow> string option \<Rightarrow> vibration_summary \<Rightarrow> string \<Rightarrow> time \<Rightarrow> string \<Rightarrow> time
     \<Rightarrow> (string \<times> real) list \<Rightarrow> vibration_baseline \<times> string \<times> real option \<times> condition_factor list
     \<Rightarrow> process_outcome result \<times> db" where
  "commit_window cfg s pk installation_id summary session_id observed_at uuid now values observed =
     (case observed of (b, state, score, factors) \<Rightarrow>
        let existing = find_condition s pk;
            condition = (case existing of
                Some c \<Rightarrow> c | None \<Rightarrow> new_condition (next_id vc_id (vibration_conditions s)) pk now);
            (shown, pending, n) = condition_transition (vq_persistence_windows cfg) state
              (map_option vc_state existing, vc_pending_state condition, vc_pending_count condition);
            c = condition\<lparr>vc_installation_id := installation_id, vc_baseline_id := Some (vb_id b),
                  vc_state := (case shown of None \<Rightarrow> ''BASELINE_PENDING'' | Some v \<Rightarrow> v),
                  vc_pending_state := pending, vc_pending_count := n,
                  vc_baseline_similarity_score := score, vc_factors_json := factors,
                  vc_latest_window_sequence := Some (vs_window_sequence summary),
                  vc_evaluated_at := Some observed_at, vc_updated_at := now\<rparr>;
            persist = (case latest_window s pk of
                None \<Rightarrow> True
              | Some w \<Rightarrow> observed_at - vw_observed_at w \<ge> vq_persistence_interval cfg);
            w = window_row cfg (next_id vw_id (vibration_windows s)) pk installation_id session_id
                  summary (vb_baseline_version b) observed_at uuid values
        in if persist \<and> window_conflict s w
           then (Inl (IntegrityError ''uq_vibration_device_session_window_algorithm''), s)
           else (Inr (Processed \<lparr>px_persisted = persist, px_state = vc_state c, px_score = score,
                   px_factors = factors, px_baseline_count = vb_sample_count b,
                   px_baseline_status = vb_status b\<rparr>),
                 s\<lparr>vibration_baselines := store_row vb_id (b\<lparr>vb_updated_at := now\<rparr>) (vibration_baselines s),
                   vibration_conditions := store_row vc_id c (vibration_conditions s),
                   vibration_windows := vibration_windows s @ (if persist then [w] else [])\<rparr>))"

definition vibration_process ::
  "(real \<Rightarrow> real) \<Rightarrow> vibration_settings \<Rightarrow> db \<Rightarrow> string \<Rightarrow> vibration_summary \<Rightarrow> string \<Rightarrow> time \<Rightarrow> string \<Rightarrow> time
     \<Rightarrow> process_outcome result \<times> db" where
  "vibration_process fl cfg s node_id summary session_id observed_at uuid now =
     (case get_device s node_id of
        None \<Rightarrow> (Inl (ValueError ''registered device is unavailable''), s)
      | Some device \<Rightarrow>
          if rd_archived device \<or> \<not> rd_enabled device
          then (Inl (ValueError ''registered device is unavailable''), s)
          else
            let pk = rd_id device;
                installation_id = window_installation s node_id;
                baseline = current_baseline cfg s pk installation_id (vs_algorithm_version summary) now
            in
            if vb_last_session_id baseline = Some session_id
               \<and> vb_last_window_sequence baseline = Some (vs_window_sequence summary)
            then (Inr (DuplicateWindow (map_option vc_state (find_condition s pk))), s)
            else
              (case summary_values summary of
                 Inl e \<Rightarrow> (Inl e, s)
               | Inr values \<Rightarrow>
                   (case observe_baseline fl baseline summary values session_id observed_at of
                      Inl e \<Rightarrow> (Inl e, s)
                    | Inr observed \<Rightarrow>
                        commit_window cfg s pk installation_id summary session_id observed_at uuid now values observed)))"

section \<open>Relearning a baseline\<close>

record relearn_start =
  rs_created_at :: time
  rs_algorithm_version :: int
  rs_installation_id :: "string option"
  rs_condition_state :: string

text \<open>\<open>rr_started\<close> holds the keys only a relearn that was carried out returns (\<open>established_at\<close> is always null).\<close>

record relearn_result =
  rr_status :: string
  rr_baseline_version :: int
  rr_sample_count :: int
  rr_minimum_samples :: int
  rr_reason :: "string option"
  rr_duplicate :: bool
  rr_started :: "relearn_start option"

definition newest_baseline :: "db \<Rightarrow> int \<Rightarrow> vibration_baseline option" where
  "newest_baseline s device_pk =
     (case sort_key (\<lambda>b. (- vb_updated_at b, - vb_id b))
             (filter (\<lambda>b. vb_registered_device_id b = device_pk) (vibration_baselines s)) of
        [] \<Rightarrow> None | b # _ \<Rightarrow> Some b)"

definition relearn_target :: "db \<Rightarrow> int \<Rightarrow> vibration_baseline option" where
  "relearn_target s device_pk =
     (let linked = (case find_condition s device_pk of
            None \<Rightarrow> None
          | Some c \<Rightarrow> (case vc_baseline_id c of
                         None \<Rightarrow> None
                       | Some i \<Rightarrow> if i = 0 then None else find_row (\<lambda>b. vb_id b = i) (vibration_baselines s)))
      in case linked of Some b \<Rightarrow> Some b | None \<Rightarrow> newest_baseline s device_pk)"

definition history_row :: "int \<Rightarrow> vibration_baseline \<Rightarrow> time \<Rightarrow> string option \<Rightarrow> vibration_baseline_history" where
  "history_row i b now reason =
     \<lparr>vh_id = i, vh_registered_device_id = vb_registered_device_id b, vh_installation_id = vb_installation_id b,
      vh_baseline_version = vb_baseline_version b, vh_algorithm_version = vb_algorithm_version b,
      vh_status = ''superseded'', vh_sample_count = vb_sample_count b, vh_minimum_samples = vb_minimum_samples b,
      vh_statistics_json = vb_statistics_json b, vh_created_at = vb_created_at b,
      vh_established_at = vb_established_at b, vh_superseded_at = now, vh_reason = reason\<rparr>"

definition history_conflict :: "db \<Rightarrow> vibration_baseline \<Rightarrow> bool" where
  "history_conflict s b =
     (\<exists>h \<in> set (vibration_baseline_histories s). vh_registered_device_id h = vb_registered_device_id b
        \<and> vh_installation_id h \<noteq> None \<and> vh_installation_id h = vb_installation_id b
        \<and> vh_algorithm_version h = vb_algorithm_version b \<and> vh_baseline_version h = vb_baseline_version b)"

definition restarted_baseline :: "vibration_baseline \<Rightarrow> time \<Rightarrow> string option \<Rightarrow> string option \<Rightarrow> vibration_baseline" where
  "restarted_baseline b now reason request_id =
     b\<lparr>vb_baseline_version := vb_baseline_version b + 1, vb_status := ''building'', vb_sample_count := 0,
       vb_statistics_json := [], vb_last_session_id := None, vb_last_window_sequence := None,
       vb_created_at := now, vb_established_at := None, vb_reason := reason,
       vb_last_relearn_request_id := request_id, vb_updated_at := now\<rparr>"

text \<open>The device unless it is archived: the query filters on \<open>archived\<close>.\<close>

definition get_device_active :: "db \<Rightarrow> string \<Rightarrow> registered_device option" where
  "get_device_active s k =
     find_row (\<lambda>d. rd_device_id d = k \<and> \<not> rd_archived d) (registered_devices s)"

definition relearn_baseline ::
  "db \<Rightarrow> string \<Rightarrow> string option \<Rightarrow> string option \<Rightarrow> time \<Rightarrow> relearn_result result \<times> db" where
  "relearn_baseline s node_id reason request_id now =
     (case get_device_active s node_id of
        None \<Rightarrow> (Inl (ValueError ''device not found''), s)
      | Some device \<Rightarrow>
          (case relearn_target s (rd_id device) of
             None \<Rightarrow> (Inl (ValueError ''vibration baseline is unavailable until a vibration summary is received''), s)
           | Some b \<Rightarrow>
               if truthy request_id \<and> vb_last_relearn_request_id b = request_id
               then (Inr \<lparr>rr_status = vb_status b, rr_baseline_version = vb_baseline_version b,
                          rr_sample_count = vb_sample_count b, rr_minimum_samples = vb_minimum_samples b,
                          rr_reason = vb_reason b, rr_duplicate = True, rr_started = None\<rparr>, s)
               else if history_conflict s b
               then (Inl (IntegrityError ''uq_vibration_baseline_history_version''), s)
               else
                 let b' = restarted_baseline b now reason request_id;
                     condition = (case find_condition s (rd_id device) of
                         Some c \<Rightarrow> c | None \<Rightarrow> new_condition (next_id vc_id (vibration_conditions s)) (rd_id device) now);
                     c' = condition\<lparr>vc_baseline_id := Some (vb_id b), vc_installation_id := vb_installation_id b,
                            vc_state := ''BASELINE_PENDING'', vc_baseline_similarity_score := None,
                            vc_factors_json := [], vc_pending_state := None, vc_pending_count := 0,
                            vc_latest_window_sequence := None, vc_evaluated_at := Some now, vc_updated_at := now\<rparr>
                 in (Inr \<lparr>rr_status = vb_status b', rr_baseline_version = vb_baseline_version b',
                          rr_sample_count = 0, rr_minimum_samples = vb_minimum_samples b',
                          rr_reason = vb_reason b', rr_duplicate = False,
                          rr_started = Some \<lparr>rs_created_at = vb_created_at b', rs_algorithm_version = vb_algorithm_version b',
                            rs_installation_id = vb_installation_id b', rs_condition_state = vc_state c'\<rparr>\<rparr>,
                     s\<lparr>vibration_baseline_histories := vibration_baseline_histories s
                         @ [history_row (next_id vh_id (vibration_baseline_histories s)) b now reason],
                       vibration_baselines := store_row vb_id b' (vibration_baselines s),
                       vibration_conditions := store_row vc_id c' (vibration_conditions s)\<rparr>)))"

definition reset_baseline :: "db \<Rightarrow> string \<Rightarrow> time \<Rightarrow> unit result \<times> db" where
  "reset_baseline s node_id now =
     (case relearn_baseline s node_id (Some ''Baseline reset through compatibility endpoint'') None now of
        (Inl e, s') \<Rightarrow> (Inl e, s') | (Inr _, s') \<Rightarrow> (Inr (), s'))"

section \<open>The handlers\<close>

text \<open>The path operations share \<open>_device\<close>. The declared bounds of \<open>limit\<close> are checked before a handler runs.\<close>

definition vibration_device :: "db \<Rightarrow> string \<Rightarrow> registered_device result" where
  "vibration_device s k =
     (case get_device s k of
        None \<Rightarrow> Inl (HTTPException 404 '''' ''device not found'')
      | Some d \<Rightarrow> if rd_archived d then Inl (HTTPException 404 '''' ''device not found'') else Inr d)"

text \<open>The window with its age in microseconds and whether it is stale.\<close>

definition vibration_latest :: "db \<Rightarrow> string \<Rightarrow> int \<Rightarrow> time \<Rightarrow> (vibration_window \<times> int \<times> bool) result" where
  "vibration_latest s k stale_after now =
     bind_result (vibration_device s k) (\<lambda>d.
       case latest_window s (rd_id d) of
         None \<Rightarrow> Inl (HTTPException 404 '''' ''no vibration history'')
       | Some w \<Rightarrow> let age = max 0 (now - vw_observed_at w) in Inr (w, age, age > stale_after))"

definition day :: int where
  "day = 86400 * 1000000"

definition vibration_history ::
  "db \<Rightarrow> string \<Rightarrow> nat \<Rightarrow> int \<Rightarrow> nat \<Rightarrow> time option \<Rightarrow> time option \<Rightarrow> time \<Rightarrow> (vibration_window list \<times> nat) result" where
  "vibration_history s k page_size_max max_days limit start end_time now =
     (if limit < 1 then Inl (ValidationError ''limit'')
      else if limit > page_size_max
      then Inl (HTTPException 422 '''' (''limit must not exceed '' @ nat_str page_size_max))
      else bind_result (vibration_device s k) (\<lambda>d.
        let e = (case end_time of None \<Rightarrow> now | Some t \<Rightarrow> t);
            b = (case start of None \<Rightarrow> e - day | Some t \<Rightarrow> t) in
        if e \<le> b \<or> e - b > max_days * day
        then Inl (HTTPException 422 '''' ''invalid or excessive history range'')
        else Inr (take limit (sort_key (\<lambda>w. (- vw_observed_at w, - vw_id w))
                    (filter (\<lambda>w. vw_registered_device_id w = rd_id d \<and> b \<le> vw_observed_at w \<and> vw_observed_at w \<le> e)
                      (vibration_windows s))), limit)))"

text \<open>\<open>None\<close> is the \<open>not_started\<close> answer.\<close>

definition vibration_baseline_view ::
  "(real \<Rightarrow> real) \<Rightarrow> db \<Rightarrow> string \<Rightarrow> (vibration_baseline \<times> (string \<times> public_item) list) option result" where
  "vibration_baseline_view fl s k =
     bind_result (vibration_device s k) (\<lambda>d.
       Inr (map_option (\<lambda>b. (b, public_statistics fl (vb_statistics_json b))) (newest_baseline s (rd_id d))))"

record baseline_entry =
  be_baseline_version :: int
  be_algorithm_version :: int
  be_status :: string
  be_sample_count :: int
  be_minimum_samples :: int
  be_installation_id :: "string option"
  be_created_at :: time
  be_established_at :: "time option"
  be_superseded_at :: "time option"
  be_reason :: "string option"

definition active_entry :: "vibration_baseline \<Rightarrow> baseline_entry" where
  "active_entry b =
     \<lparr>be_baseline_version = vb_baseline_version b, be_algorithm_version = vb_algorithm_version b,
      be_status = vb_status b, be_sample_count = vb_sample_count b, be_minimum_samples = vb_minimum_samples b,
      be_installation_id = vb_installation_id b, be_created_at = vb_created_at b,
      be_established_at = vb_established_at b, be_superseded_at = None, be_reason = vb_reason b\<rparr>"

definition prior_entry :: "vibration_baseline_history \<Rightarrow> baseline_entry" where
  "prior_entry h =
     \<lparr>be_baseline_version = vh_baseline_version h, be_algorithm_version = vh_algorithm_version h,
      be_status = vh_status h, be_sample_count = vh_sample_count h, be_minimum_samples = vh_minimum_samples h,
      be_installation_id = vh_installation_id h, be_created_at = vh_created_at h,
      be_established_at = vh_established_at h, be_superseded_at = Some (vh_superseded_at h), be_reason = vh_reason h\<rparr>"

definition baseline_history_handler :: "db \<Rightarrow> string \<Rightarrow> nat \<Rightarrow> (baseline_entry list \<times> nat) result" where
  "baseline_history_handler s k limit =
     (if limit < 1 \<or> limit > 100 then Inl (ValidationError ''limit'') else
      bind_result (vibration_device s k) (\<lambda>d.
       let prior = take limit (sort_key (\<lambda>h. (- vh_baseline_version h, - vh_id h))
             (filter (\<lambda>h. vh_registered_device_id h = rd_id d) (vibration_baseline_histories s)));
           items = (case newest_baseline s (rd_id d) of None \<Rightarrow> [] | Some b \<Rightarrow> [active_entry b])
       in Inr (items @ map prior_entry (take (limit - length items) prior), limit)))"

text \<open>\<open>None\<close> is the \<open>INSUFFICIENT_DATA\<close> answer.\<close>

definition vibration_condition_view :: "db \<Rightarrow> string \<Rightarrow> vibration_condition option result" where
  "vibration_condition_view s k =
     bind_result (vibration_device s k) (\<lambda>d. Inr (find_condition s (rd_id d)))"

definition conflict_on_value_error :: "'a result \<Rightarrow> 'a result" where
  "conflict_on_value_error r =
     (case r of Inl e \<Rightarrow> if is_value_error e then Inl (HTTPException 409 '''' (exn_str e)) else Inl e | Inr x \<Rightarrow> Inr x)"

definition reset_handler :: "db \<Rightarrow> string \<Rightarrow> string \<Rightarrow> time \<Rightarrow> unit result \<times> db" where
  "reset_handler s k confirmation now =
     (if confirmation \<noteq> ''RESET BASELINE'' then (Inl (ValidationError ''confirmation''), s)
      else case vibration_device s k of
        Inl e \<Rightarrow> (Inl e, s)
      | Inr _ \<Rightarrow> (case reset_baseline s k now of (r, s') \<Rightarrow> (conflict_on_value_error r, s')))"

definition valid_request_id :: "string \<Rightarrow> bool" where
  "valid_request_id r =
     (8 \<le> length r \<and> length r \<le> 64
      \<and> list_all (\<lambda>c. is_upper_digit c \<or> is_lower_alnum c \<or> c = CHR ''_'' \<or> c = CHR ''-'') r)"

definition relearn_handler ::
  "db \<Rightarrow> string \<Rightarrow> string \<Rightarrow> string option \<Rightarrow> string \<Rightarrow> time \<Rightarrow> relearn_result result \<times> db" where
  "relearn_handler s k confirmation reason request_id now =
     (if confirmation \<noteq> ''RELEARN BASELINE'' then (Inl (ValidationError ''confirmation''), s)
      else if (case reason of None \<Rightarrow> False | Some r \<Rightarrow> length r > 240) then (Inl (ValidationError ''reason''), s)
      else if \<not> valid_request_id request_id then (Inl (ValidationError ''request_id''), s)
      else case vibration_device s k of
        Inl e \<Rightarrow> (Inl e, s)
      | Inr _ \<Rightarrow>
          let stripped = (case reason of None \<Rightarrow> None | Some r \<Rightarrow> if py_strip r = '''' then None else Some (py_strip r)) in
          (case relearn_baseline s k stripped (Some request_id) now of (r, s') \<Rightarrow> (conflict_on_value_error r, s')))"

section \<open>The invariant of the baselines\<close>

definition baseline_key :: "vibration_baseline \<Rightarrow> int \<times> string option \<times> int" where
  "baseline_key b = (vb_registered_device_id b, vb_installation_id b, vb_algorithm_version b)"

definition history_key :: "vibration_baseline_history \<Rightarrow> int \<times> string option \<times> int" where
  "history_key h = (vh_registered_device_id h, vh_installation_id h, vh_algorithm_version h)"

text \<open>A baseline is building with fewer samples than it needs, or frozen with enough; every feature's
  statistics hold as many samples as the baseline counts.\<close>

definition baseline_ok :: "vibration_baseline \<Rightarrow> bool" where
  "baseline_ok b =
     (0 \<le> vb_sample_count b \<and> 1 \<le> vb_minimum_samples b
      \<and> (vb_status b = ''building'' \<and> vb_sample_count b < vb_minimum_samples b
         \<or> vb_status b = ''frozen'' \<and> vb_minimum_samples b \<le> vb_sample_count b \<and> vb_established_at b \<noteq> None)
      \<and> (\<forall>n \<in> set FEATURES. if vb_sample_count b = 0 then map_of (vb_statistics_json b) n = None
           else map_option fs_count (map_of (vb_statistics_json b) n) = Some (vb_sample_count b)))"

definition vibration_inv :: "db \<Rightarrow> bool" where
  "vibration_inv s =
     (distinct (map vb_id (vibration_baselines s)) \<and> distinct (map baseline_key (vibration_baselines s))
      \<and> distinct (map vc_id (vibration_conditions s))
      \<and> (\<forall>b \<in> set (vibration_baselines s). baseline_ok b \<and> 0 < vb_id b)
      \<and> (\<forall>h \<in> set (vibration_baseline_histories s). \<exists>b \<in> set (vibration_baselines s).
            baseline_key b = history_key h \<and> vh_baseline_version h < vb_baseline_version b))"

lemma store_row_old:
  assumes "distinct (map key rows)" "x \<in> set rows" "key x = key r"
  shows "set (store_row key r rows) = insert r (set rows - {x})"
    and "f x = f r \<Longrightarrow> map f (store_row key r rows) = map f rows"
proof -
  have ex: "\<exists>y \<in> set rows. key y = key r" using assms by blast
  have only: "(key y = key r) = (y = x)" if "y \<in> set rows" for y
    using inj_onD[of key "set rows" y x] assms that by (metis distinct_map)
  have eq: "store_row key r rows = map (\<lambda>y. if y = x then r else y) rows"
    using ex unfolding store_row_def upd_rows_def by (simp cong: map_cong add: only)
  show "set (store_row key r rows) = insert r (set rows - {x})"
    using assms(2) unfolding eq by auto
  show "map f (store_row key r rows) = map f rows" if "f x = f r"
    unfolding eq using that by auto
qed

lemma store_row_distinct: "distinct (map key rows) \<Longrightarrow> distinct (map key (store_row key r rows))"
proof (cases "\<exists>x \<in> set rows. key x = key r")
  case True
  assume d: "distinct (map key rows)"
  from True obtain x where "x \<in> set rows" "key x = key r" by blast
  with d show ?thesis using store_row_old(2)[OF d, of x r key] by simp
next
  case False
  assume "distinct (map key rows)"
  with False show ?thesis by (auto simp: store_row_def)
qed

lemma find_store_row:
  assumes "distinct (map key rows)" "find_row p rows = Some x" "key r = key x" "p r"
  shows "find_row p (store_row key r rows) = Some r"
proof -
  have x: "x \<in> set rows" using assms(2) by (auto dest: find_row_SomeD)
  have ex: "\<exists>y \<in> set rows. key y = key r" using x assms(3) by auto
  have "find_row p (upd_rows (\<lambda>y. key y = key r) (\<lambda>_. r) rows) = Some r"
    using assms(1,2,4) unfolding assms(3)
  proof (induction rows)
    case (Cons y ys)
    show ?case
    proof (cases "y = x")
      case True
      with Cons.prems show ?thesis by simp
    next
      case False
      with Cons.prems have "find_row p ys = Some x" "\<not> p y" by (auto split: if_splits)
      moreover from this have "key y \<noteq> key x" using Cons.prems(1) find_row_SomeD[of p ys x] by auto
      ultimately show ?thesis using Cons by simp
    qed
  qed simp
  with ex show ?thesis by (simp add: store_row_def)
qed

lemma store_row_new: "\<forall>x \<in> set rows. key x \<noteq> key r \<Longrightarrow> store_row key r rows = rows @ [r]"
  by (simp add: store_row_def)

text \<open>Replacing a baseline by a later version of itself, or adding the first one for its key, keeps
  the invariant, together with history rows of earlier versions.\<close>

lemma vibration_inv_replace:
  assumes inv: "vibration_inv s" and b: "b \<in> set (vibration_baselines s)"
    and b': "vb_id b' = vb_id b" "baseline_key b' = baseline_key b" "vb_baseline_version b \<le> vb_baseline_version b'"
      "baseline_ok b'"
    and conds: "distinct (map vc_id (vibration_conditions s'))"
    and hs: "\<forall>h \<in> set hs. history_key h = baseline_key b' \<and> vh_baseline_version h < vb_baseline_version b'"
    and s': "vibration_baselines s' = store_row vb_id b' (vibration_baselines s)"
      "vibration_baseline_histories s' = vibration_baseline_histories s @ hs"
  shows "vibration_inv s'"
proof -
  have ids: "distinct (map vb_id (vibration_baselines s))" using inv by (simp add: vibration_inv_def)
  note st = store_row_old[OF ids b, of b', OF b'(1)[symmetric]]
  have hist: "\<exists>c \<in> set (vibration_baselines s'). baseline_key c = history_key h \<and> vh_baseline_version h < vb_baseline_version c"
    if h: "h \<in> set (vibration_baseline_histories s')" for h
  proof (cases "h \<in> set hs")
    case True
    with hs st(1) s' show ?thesis by force
  next
    case False
    then obtain c where c: "c \<in> set (vibration_baselines s)" "baseline_key c = history_key h"
      "vh_baseline_version h < vb_baseline_version c"
      using inv h s'(2) unfolding vibration_inv_def by auto
    show ?thesis
    proof (cases "c = b")
      case True
      with c b' st(1) s'(1) show ?thesis by force
    next
      case False
      with c st(1) s'(1) show ?thesis by auto
    qed
  qed
  have "map vb_id (vibration_baselines s') = map vb_id (vibration_baselines s)"
    "map baseline_key (vibration_baselines s') = map baseline_key (vibration_baselines s)"
    using st(2)[of vb_id] st(2)[of baseline_key] b' s'(1) by simp_all
  with inv hist st(1) s'(1) b b' conds show ?thesis
    unfolding vibration_inv_def by auto
qed

lemma vibration_inv_new:
  assumes inv: "vibration_inv s" and "\<forall>b \<in> set (vibration_baselines s). vb_id b \<noteq> vb_id b' \<and> baseline_key b \<noteq> baseline_key b'"
    and "baseline_ok b'" "0 < vb_id b'" "distinct (map vc_id (vibration_conditions s'))"
    and s': "vibration_baselines s' = store_row vb_id b' (vibration_baselines s)"
      "vibration_baseline_histories s' = vibration_baseline_histories s"
  shows "vibration_inv s'"
proof -
  have "vibration_baselines s' = vibration_baselines s @ [b']"
    using assms(2) s'(1) by (simp add: store_row_new)
  then show ?thesis using inv assms(2-5) s'(2) unfolding vibration_inv_def by auto
qed

section \<open>One window against its baseline\<close>

lemma update_item_count [simp]: "fs_count (update_item fl item v) = fs_count item + 1"
  by (simp add: update_item_def Let_def)

text \<open>What a window adds to a statistics dictionary that holds \<open>n\<close> samples of every feature.\<close>

definition holds_samples :: "statistics \<Rightarrow> int \<Rightarrow> bool" where
  "holds_samples st n =
     (\<forall>f \<in> set FEATURES. if n = 0 then map_of st f = None else map_option fs_count (map_of st f) = Some n)"

lemma update_statistics_holds:
  assumes "holds_samples st n" "0 \<le> n" "\<forall>f \<in> set FEATURES. map_of vs f \<noteq> None"
  shows "\<exists>st'. update_statistics fl st vs = Inr st' \<and> holds_samples st' (n + 1)"
proof -
  obtain st' where st': "update_features fl FEATURES st vs = Inr st'"
    and m: "\<forall>f. map_of st' f = (if f \<in> set FEATURES then Some (stepped fl st f (the (map_of vs f))) else map_of st f)"
    using update_features_map_of[OF FEATURES_distinct assms(3), of fl st] by blast
  have "fs_count (stepped fl st f v) = n + 1" if "f \<in> set FEATURES" for f v
    using assms(1) that by (auto simp: holds_samples_def stepped_def new_item_def split: if_splits option.splits)
  with m assms(2) have "holds_samples st' (n + 1)" by (simp add: holds_samples_def)
  with st' show ?thesis by (auto simp: update_statistics_def)
qed

lemma baseline_ok_alt:
  "baseline_ok b \<longleftrightarrow> 0 \<le> vb_sample_count b \<and> 1 \<le> vb_minimum_samples b
      \<and> (vb_status b = ''building'' \<and> vb_sample_count b < vb_minimum_samples b
         \<or> vb_status b = ''frozen'' \<and> vb_minimum_samples b \<le> vb_sample_count b \<and> vb_established_at b \<noteq> None)
      \<and> holds_samples (vb_statistics_json b) (vb_sample_count b)"
  by (simp add: baseline_ok_def holds_samples_def)

lemma holds_samples_lookup:
  "holds_samples st n \<Longrightarrow> n \<noteq> 0 \<Longrightarrow> f \<in> set FEATURES \<Longrightarrow> map_of st f \<noteq> None"
  by (auto simp: holds_samples_def)

text \<open>The three cases of \<open>observe_baseline\<close> on a baseline that satisfies the invariant: each succeeds.\<close>

lemma observe_building:
  assumes "baseline_ok b" "vb_status b = ''building''" "vs_validity summary = ''valid''"
    "\<forall>f \<in> set FEATURES. map_of vs f \<noteq> None"
  shows "\<exists>st' est state score. observe_baseline fl b summary vs session_id t
      = Inr (b\<lparr>vb_last_session_id := Some session_id, vb_last_window_sequence := Some (vs_window_sequence summary),
               vb_statistics_json := st', vb_sample_count := vb_sample_count b + 1,
               vb_status := (if vb_sample_count b + 1 = vb_minimum_samples b then ''frozen'' else ''building''),
               vb_established_at := est\<rparr>, state, score, [])
     \<and> holds_samples st' (vb_sample_count b + 1)
     \<and> est = (if vb_sample_count b + 1 = vb_minimum_samples b then Some t else vb_established_at b)
     \<and> state = (if vb_sample_count b + 1 = vb_minimum_samples b then ''NORMAL'' else ''BASELINE_PENDING'')"
proof -
  have n: "0 \<le> vb_sample_count b" "vb_sample_count b < vb_minimum_samples b"
    "holds_samples (vb_statistics_json b) (vb_sample_count b)"
    using assms(1,2) by (auto simp: baseline_ok_alt)
  from update_statistics_holds[OF n(3,1) assms(4), of fl] obtain st'
    where st': "update_statistics fl (vb_statistics_json b) vs = Inr st'" "holds_samples st' (vb_sample_count b + 1)"
    by blast
  show ?thesis
  proof (cases "vb_sample_count b + 1 = vb_minimum_samples b")
    case True
    then show ?thesis using st' assms(2,3) by (intro exI[of _ st']) (simp add: observe_baseline_def Let_def)
  next
    case False
    then show ?thesis using st' assms(2,3) n(2)
      by (intro exI[of _ st']) (simp add: observe_baseline_def Let_def)
  qed
qed

lemma observe_frozen:
  assumes "baseline_ok b" "vb_status b = ''frozen''" "vs_validity summary = ''valid''"
    "\<forall>f \<in> set FEATURES. map_of vs f \<noteq> None"
  shows "\<exists>state score factors. observe_baseline fl b summary vs session_id t
      = Inr (b\<lparr>vb_last_session_id := Some session_id, vb_last_window_sequence := Some (vs_window_sequence summary)\<rparr>,
             state, Some score, factors)
     \<and> evaluate_condition fl vs (vb_statistics_json b) (fl (vs_effective_sample_rate_hz summary / 256))
        = Inr (state, score, factors)"
proof -
  have "vb_sample_count b \<noteq> 0" "holds_samples (vb_statistics_json b) (vb_sample_count b)"
    using assms(1,2) by (auto simp: baseline_ok_alt)
  then have all: "\<forall>f \<in> set FEATURES. map_of (vb_statistics_json b) f \<noteq> None \<and> map_of vs f \<noteq> None"
    using assms(4) holds_samples_lookup by blast
  obtain sev fs where "evaluate_features fl FEATURES vs (vb_statistics_json b)
      (fl (vs_effective_sample_rate_hz summary / 256)) 0 [] = Inr (sev, fs)"
    using evaluate_features_total[OF all, of fl _ 0 "[]"] by blast
  then have "evaluate_condition fl vs (vb_statistics_json b) (fl (vs_effective_sample_rate_hz summary / 256))
      = Inr (severity_state sev, severity_score fl sev, take 5 (sort_factors fs))"
    by (simp add: evaluate_condition_def)
  then show ?thesis
    using assms(2,3) by (simp add: observe_baseline_def Let_def)
qed

lemma observe_invalid:
  assumes "vs_validity summary \<noteq> ''valid''"
  shows "observe_baseline fl b summary vs session_id t
      = Inr (b\<lparr>vb_last_session_id := Some session_id, vb_last_window_sequence := Some (vs_window_sequence summary)\<rparr>,
             if vb_sample_count b = 0 then ''INSUFFICIENT_DATA'' else ''INVALID'', None, [])"
  using assms by (simp add: observe_baseline_def Let_def)

text \<open>In every case the observation succeeds and keeps the invariant, the row's identity and its version.\<close>

lemma observe_total:
  assumes "baseline_ok b" "\<forall>f \<in> set FEATURES. map_of vs f \<noteq> None"
  shows "\<exists>b' state score factors. observe_baseline fl b summary vs session_id t = Inr (b', state, score, factors)
     \<and> baseline_ok b' \<and> vb_id b' = vb_id b \<and> baseline_key b' = baseline_key b
     \<and> vb_baseline_version b' = vb_baseline_version b"
proof -
  consider "vs_validity summary \<noteq> ''valid''" | "vs_validity summary = ''valid''" "vb_status b = ''building''"
    | "vs_validity summary = ''valid''" "vb_status b = ''frozen''"
    using assms(1) by (auto simp: baseline_ok_def)
  then show ?thesis
  proof cases
    case 1
    then show ?thesis
      using assms(1) by (simp add: observe_invalid baseline_ok_alt baseline_key_def)
  next
    case 2
    from observe_building[OF assms(1) 2(2,1) assms(2), of fl session_id t] assms(1) 2(2)
    show ?thesis by (auto simp: baseline_ok_alt baseline_key_def)
  next
    case 3
    from observe_frozen[OF assms(1) 3(2,1) assms(2), of fl session_id t] assms(1)
    show ?thesis by (auto simp: baseline_ok_alt baseline_key_def)
  qed
qed

section \<open>The effect of a window on the database\<close>

text \<open>A summary with three values per group, as the parser produces it.\<close>

definition summary_shaped :: "vibration_summary \<Rightarrow> bool" where
  "summary_shaped summary = list_all (\<lambda>(names, xs). length xs = length names) (summary_groups summary)"

lemma summary_values_total:
  assumes "summary_shaped summary"
  shows "\<exists>vs. summary_values summary = Inr vs \<and> (\<forall>f \<in> set FEATURES. map_of vs f \<noteq> None)"
proof -
  let ?vs = "concat (map (\<lambda>(names, xs). zip names xs) (summary_groups summary))"
  have "summary_values summary = Inr ?vs"
    using assms by (auto simp: summary_values_def summary_shaped_def list_ex_iff list_all_iff)
  moreover have "fst ` set ?vs = set FEATURES"
    using assms by (simp add: summary_shaped_def summary_groups_def FEATURES_def image_Un map_fst_zip flip: set_map)
  ultimately show ?thesis by (metis map_of_eq_None_iff)
qed

lemma new_baseline_ok: "1 \<le> minimum \<Longrightarrow> baseline_ok (new_baseline i pk inst algorithm minimum now)"
  by (simp add: baseline_ok_def new_baseline_def)

lemma current_baseline_ok:
  "vibration_inv s \<Longrightarrow> 1 \<le> vq_minimum_windows cfg \<Longrightarrow> baseline_ok (current_baseline cfg s pk inst algorithm now)"
  by (auto simp: current_baseline_def vibration_inv_def find_baseline_def new_baseline_ok
      dest!: find_row_SomeD split: option.splits)

abbreviation device_available :: "db \<Rightarrow> string \<Rightarrow> registered_device \<Rightarrow> bool" where
  "device_available s node_id d \<equiv> get_device s node_id = Some d \<and> \<not> rd_archived d \<and> rd_enabled d"

lemma commit_window_effect:
  assumes "commit_window cfg s pk inst summary session_id t uuid now vs (b, state, score, factors) = (r, s')"
  shows "(s' = s \<and> (\<exists>m. r = Inl (IntegrityError m)))
    \<or> ((\<exists>x. r = Inr (Processed x) \<and> px_baseline_status x = vb_status b \<and> px_score x = score)
       \<and> vibration_baselines s' = store_row vb_id (b\<lparr>vb_updated_at := now\<rparr>) (vibration_baselines s)
       \<and> vibration_baseline_histories s' = vibration_baseline_histories s
       \<and> (distinct (map vc_id (vibration_conditions s)) \<longrightarrow> distinct (map vc_id (vibration_conditions s'))))"
  using assms by (auto simp: commit_window_def Let_def intro: store_row_distinct split: prod.splits if_splits)

text \<open>A window either changes nothing or stores the observed baseline, and then it is not a duplicate.\<close>

lemma process_effect:
  assumes "vibration_process fl cfg s node_id summary session_id t uuid now = (r, s')"
    and "device_available s node_id d"
    and "b = current_baseline cfg s (rd_id d) (window_installation s node_id) (vs_algorithm_version summary) now"
  shows "s' = s \<and> \<not> (\<exists>x. r = Inr (Processed x))
    \<or> (\<exists>vs b' state score factors x. summary_values summary = Inr vs
         \<and> observe_baseline fl b summary vs session_id t = Inr (b', state, score, factors)
         \<and> r = Inr (Processed x)
         \<and> vibration_baselines s' = store_row vb_id (b'\<lparr>vb_updated_at := now\<rparr>) (vibration_baselines s)
         \<and> vibration_baseline_histories s' = vibration_baseline_histories s
         \<and> (distinct (map vc_id (vibration_conditions s)) \<longrightarrow> distinct (map vc_id (vibration_conditions s'))))"
proof (cases "summary_values summary")
  case (Inl e)
  with assms show ?thesis by (auto simp: vibration_process_def Let_def split: if_splits)
next
  case vs: (Inr vs)
  show ?thesis
  proof (cases "observe_baseline fl b summary vs session_id t")
    case (Inl e)
    with vs assms show ?thesis by (auto simp: vibration_process_def Let_def split: if_splits)
  next
    case (Inr out)
    obtain b' state score factors where out: "out = (b', state, score, factors)" by (cases out)
    consider "s' = s" "\<not> (\<exists>x. r = Inr (Processed x))"
      | "commit_window cfg s (rd_id d) (window_installation s node_id) summary session_id t uuid now vs out = (r, s')"
      using vs Inr assms by (auto simp: vibration_process_def Let_def split: if_splits)
    then show ?thesis
    proof cases
      case 2
      from commit_window_effect[OF this[unfolded out]] vs Inr out show ?thesis by auto
    qed simp
  qed
qed

section \<open>Preservation of the invariant\<close>

lemma find_baseline_cases:
  "find_baseline s pk inst algorithm = Some b \<Longrightarrow> b \<in> set (vibration_baselines s) \<and> baseline_key b = (pk, inst, algorithm)"
  "find_baseline s pk inst algorithm = None \<Longrightarrow> \<forall>b \<in> set (vibration_baselines s). baseline_key b \<noteq> (pk, inst, algorithm)"
  by (auto simp: find_baseline_def find_row_None_iff baseline_key_def dest!: find_row_SomeD)

lemma baseline_ok_updated [simp]:
  "baseline_ok (b\<lparr>vb_updated_at := t\<rparr>) = baseline_ok b" "baseline_key (b\<lparr>vb_updated_at := t\<rparr>) = baseline_key b"
  by (simp_all add: baseline_ok_def baseline_key_def)

lemma vibration_process_inv:
  assumes inv: "vibration_inv s" and min1: "1 \<le> vq_minimum_windows cfg"
    and run: "vibration_process fl cfg s node_id summary session_id t uuid now = (r, s')"
    and shaped: "summary_shaped summary"
  shows "vibration_inv s'"
proof (cases "\<exists>d. device_available s node_id d")
  case False
  with run have "s' = s" by (auto simp: vibration_process_def split: option.splits if_splits)
  with inv show ?thesis by simp
next
  case True
  then obtain d where d: "device_available s node_id d" by blast
  define inst where "inst = window_installation s node_id"
  define b where "b = current_baseline cfg s (rd_id d) inst (vs_algorithm_version summary) now"
  have ok: "baseline_ok b" using current_baseline_ok[OF inv min1] by (simp add: b_def)
  consider "s' = s" | vs b' state score factors where "summary_values summary = Inr vs"
      "observe_baseline fl b summary vs session_id t = Inr (b', state, score, factors)"
      "vibration_baselines s' = store_row vb_id (b'\<lparr>vb_updated_at := now\<rparr>) (vibration_baselines s)"
      "vibration_baseline_histories s' = vibration_baseline_histories s"
      "distinct (map vc_id (vibration_conditions s'))"
    using process_effect[OF run d, of b] inv by (auto simp: b_def inst_def vibration_inv_def)
  then show ?thesis
  proof cases
    case 1
    with inv show ?thesis by simp
  next
    case 2
    have "\<forall>f \<in> set FEATURES. map_of vs f \<noteq> None" using summary_values_total[OF shaped] 2(1) by simp
    from observe_total[OF ok this, of fl summary session_id t] 2(2)
    have b': "baseline_ok b'" "vb_id b' = vb_id b" "baseline_key b' = baseline_key b"
      "vb_baseline_version b' = vb_baseline_version b" by auto
    show ?thesis
    proof (cases "find_baseline s (rd_id d) inst (vs_algorithm_version summary)")
      case (Some c)
      then have "b \<in> set (vibration_baselines s)"
        using find_baseline_cases(1) by (simp add: b_def current_baseline_def)
      from vibration_inv_replace[OF inv this, where b' = "b'\<lparr>vb_updated_at := now\<rparr>" and hs = "[]" and s' = s'] b' 2 show ?thesis by simp
    next
      case None
      then have "baseline_key b = (rd_id d, inst, vs_algorithm_version summary)"
        "vb_id b = next_id vb_id (vibration_baselines s)"
        by (simp_all add: b_def current_baseline_def new_baseline_def baseline_key_def)
      then have "\<forall>c \<in> set (vibration_baselines s). vb_id c \<noteq> vb_id b \<and> baseline_key c \<noteq> baseline_key b"
        using find_baseline_cases(2)[OF None] next_id_fresh[of _ "vibration_baselines s" vb_id] by fastforce
      then show ?thesis
        using vibration_inv_new[OF inv, of "b'\<lparr>vb_updated_at := now\<rparr>" s'] b' 2
          next_id_pos[of vb_id "vibration_baselines s"] \<open>vb_id b = _\<close> by simp
    qed
  qed
qed

lemma relearn_target_mem: "relearn_target s pk = Some b \<Longrightarrow> b \<in> set (vibration_baselines s)"
proof -
  have newest: "newest_baseline s pk = Some c \<Longrightarrow> c \<in> set (vibration_baselines s)" for c
  proof -
    assume "newest_baseline s pk = Some c"
    then obtain cs where "sort_key (\<lambda>b. (- vb_updated_at b, - vb_id b))
        (filter (\<lambda>b. vb_registered_device_id b = pk) (vibration_baselines s)) = c # cs"
      by (auto simp: newest_baseline_def split: list.splits)
    from arg_cong[OF this, of set] show ?thesis by auto
  qed
  assume "relearn_target s pk = Some b"
  then show ?thesis
    by (auto simp: relearn_target_def Let_def newest split: option.splits if_splits dest: find_row_SomeD)
qed

lemma history_conflict_never:
  assumes inv: "vibration_inv s" and b: "b \<in> set (vibration_baselines s)"
  shows "\<not> history_conflict s b"
proof
  assume "history_conflict s b"
  then obtain h where h: "h \<in> set (vibration_baseline_histories s)" "history_key h = baseline_key b"
    "vh_baseline_version h = vb_baseline_version b"
    by (auto simp: history_conflict_def history_key_def baseline_key_def)
  with inv obtain c where c: "c \<in> set (vibration_baselines s)" "baseline_key c = history_key h"
    "vh_baseline_version h < vb_baseline_version c"
    unfolding vibration_inv_def by blast
  have "c = b" using inv c h b unfolding vibration_inv_def by (metis distinct_map inj_onD)
  with c h show False by simp
qed

lemma restarted_baseline_ok:
  "baseline_ok b \<Longrightarrow> baseline_ok (restarted_baseline b now reason request_id)"
  by (auto simp: baseline_ok_def restarted_baseline_def)

lemma restarted_baseline_frame [simp]:
  "vb_id (restarted_baseline b now reason request_id) = vb_id b"
  "baseline_key (restarted_baseline b now reason request_id) = baseline_key b"
  "vb_baseline_version (restarted_baseline b now reason request_id) = vb_baseline_version b + 1"
  by (simp_all add: restarted_baseline_def baseline_key_def)

lemma history_row_frame [simp]:
  "history_key (history_row i b now reason) = baseline_key b"
  "vh_baseline_version (history_row i b now reason) = vb_baseline_version b"
  by (simp_all add: history_row_def history_key_def baseline_key_def)

text \<open>A relearn that is not answered from an earlier one with the same request id.\<close>

lemma relearn_effect:
  assumes "vibration_inv s" "get_device_active s node_id = Some d" "relearn_target s (rd_id d) = Some b"
    "\<not> (truthy request_id \<and> vb_last_relearn_request_id b = request_id)"
    "relearn_baseline s node_id reason request_id now = (r, s')"
  shows "(\<exists>x. r = Inr x \<and> rr_status x = ''building'' \<and> rr_sample_count x = 0 \<and> \<not> rr_duplicate x
      \<and> rr_baseline_version x = vb_baseline_version b + 1)
    \<and> vibration_baselines s' = store_row vb_id (restarted_baseline b now reason request_id) (vibration_baselines s)
    \<and> vibration_baseline_histories s' = vibration_baseline_histories s
        @ [history_row (next_id vh_id (vibration_baseline_histories s)) b now reason]
    \<and> distinct (map vc_id (vibration_conditions s'))
    \<and> registered_devices s' = registered_devices s
    \<and> (\<exists>c. find_condition s' (rd_id d) = Some c \<and> vc_baseline_id c = Some (vb_id b))"
proof -
  have ids: "distinct (map vc_id (vibration_conditions s))" using assms(1) by (simp add: vibration_inv_def)
  define old where "old = (case find_condition s (rd_id d) of
      Some c \<Rightarrow> c | None \<Rightarrow> new_condition (next_id vc_id (vibration_conditions s)) (rd_id d) now)"
  define c' where "c' = old\<lparr>vc_baseline_id := Some (vb_id b), vc_installation_id := vb_installation_id b,
       vc_state := ''BASELINE_PENDING'', vc_baseline_similarity_score := None,
       vc_factors_json := [], vc_pending_state := None, vc_pending_count := 0,
       vc_latest_window_sequence := None, vc_evaluated_at := Some now, vc_updated_at := now\<rparr>"
  have run: "relearn_baseline s node_id reason request_id now = (r, s')" by (fact assms(5))
  have s': "vibration_conditions s' = store_row vc_id c' (vibration_conditions s)"
    using run assms(2-4) history_conflict_never[OF assms(1) relearn_target_mem[OF assms(3)]]
    by (auto simp: relearn_baseline_def Let_def c'_def old_def)
  have "find_row (\<lambda>c. vc_registered_device_id c = rd_id d) (vibration_conditions s') = Some c'"
  proof (cases "find_condition s (rd_id d)")
    case (Some c)
    then show ?thesis unfolding s' find_condition_def
      by (intro find_store_row[OF ids]) (auto simp: c'_def old_def find_condition_def dest: find_row_SomeD)
  next
    case None
    then have "\<forall>x \<in> set (vibration_conditions s). vc_id x \<noteq> vc_id c'"
      using next_id_fresh[of _ "vibration_conditions s" vc_id] by (fastforce simp: c'_def old_def new_condition_def)
    with None show ?thesis unfolding s'
      by (simp add: store_row_new find_row_append find_condition_def c'_def old_def new_condition_def)
  qed
  then have "\<exists>c. find_condition s' (rd_id d) = Some c \<and> vc_baseline_id c = Some (vb_id b)"
    by (simp add: find_condition_def c'_def)
  moreover have "distinct (map vc_id (vibration_conditions s'))" unfolding s' by (rule store_row_distinct[OF ids])
  ultimately show ?thesis
    using run assms(2-4) history_conflict_never[OF assms(1) relearn_target_mem[OF assms(3)]]
    by (auto simp: relearn_baseline_def Let_def restarted_baseline_def)
qed

lemma relearn_baseline_inv:
  assumes inv: "vibration_inv s" and run: "relearn_baseline s node_id reason request_id now = (r, s')"
  shows "vibration_inv s'"
proof (cases "\<exists>d b. get_device_active s node_id = Some d \<and> relearn_target s (rd_id d) = Some b
    \<and> \<not> (truthy request_id \<and> vb_last_relearn_request_id b = request_id)")
  case True
  then obtain d b where a: "get_device_active s node_id = Some d" "relearn_target s (rd_id d) = Some b"
    "\<not> (truthy request_id \<and> vb_last_relearn_request_id b = request_id)" by blast
  note eff = relearn_effect[OF inv a run] and b = relearn_target_mem[OF a(2)]
  have "baseline_ok b" using inv b by (simp add: vibration_inv_def)
  then show ?thesis
    using vibration_inv_replace[OF inv b, where b' = "restarted_baseline b now reason request_id"
        and hs = "[history_row (next_id vh_id (vibration_baseline_histories s)) b now reason]" and s' = s'] eff
    by (simp add: restarted_baseline_ok)
next
  case False
  then have "s' = s" using run by (auto simp: relearn_baseline_def split: option.splits if_splits)
  with inv show ?thesis by simp
qed

section \<open>Sequences of windows and relearn requests\<close>

datatype vibration_call =
    Window string vibration_summary string time string time
  | Relearn string "string option" "string option" time

fun vibration_step :: "(real \<Rightarrow> real) \<Rightarrow> vibration_settings \<Rightarrow> vibration_call \<Rightarrow> db \<Rightarrow> db" where
  "vibration_step fl cfg (Window node_id summary session_id t uuid now) s =
     snd (vibration_process fl cfg s node_id summary session_id t uuid now)"
| "vibration_step fl cfg (Relearn node_id reason request_id now) s =
     snd (relearn_baseline s node_id reason request_id now)"

fun call_shaped :: "vibration_call \<Rightarrow> bool" where
  "call_shaped (Window _ summary _ _ _ _) = summary_shaped summary"
| "call_shaped (Relearn _ _ _ _) = True"

lemma vibration_step_inv:
  "vibration_inv s \<Longrightarrow> 1 \<le> vq_minimum_windows cfg \<Longrightarrow> call_shaped call \<Longrightarrow> vibration_inv (vibration_step fl cfg call s)"
  by (cases call) (auto intro: vibration_process_inv relearn_baseline_inv simp: prod_eq_iff)

lemma vibration_calls_inv:
  "vibration_inv s \<Longrightarrow> 1 \<le> vq_minimum_windows cfg \<Longrightarrow> list_all call_shaped calls \<Longrightarrow>
   vibration_inv (fold (vibration_step fl cfg) calls s)"
  by (induction calls arbitrary: s) (simp_all add: vibration_step_inv)

text \<open>C33. Starting without baselines, after any sequence of windows and relearn requests every baseline
  is either building with fewer samples than its minimum or frozen with at least that many, each
  feature's statistics count exactly the baseline's samples, there is one baseline per device,
  installation and algorithm, and every superseded version in the history is older than the
  current baseline with the same key.\<close>

theorem vibration_baselines_invariant:
  assumes "1 \<le> vq_minimum_windows cfg" "vibration_baselines s = []" "vibration_baseline_histories s = []"
    and "list_all call_shaped calls"
    and "vibration_conditions s = []"
  shows "vibration_inv (fold (vibration_step fl cfg) calls s)"
  using assms by (intro vibration_calls_inv) (simp_all add: vibration_inv_def)

definition sample_summary :: "string \<Rightarrow> int \<Rightarrow> vibration_summary" where
  "sample_summary validity sequence =
     \<lparr>vs_schema_version = 1, vs_algorithm_version = 1, vs_window_sequence = sequence, vs_device_uptime_ms = 10,
      vs_effective_sample_rate_hz = 416, vs_validity = validity, vs_accel_rms_g = [1, 1, 1], vs_accel_peak_g = [1, 1, 1],
      vs_crest_factor = [1, 1, 1], vs_kurtosis = [1, 1, 1], vs_dominant_frequency_hz = [1, 1, 1],
      vs_dominant_amplitude_g = [1, 1, 1], vs_gyro_rms_dps = [1, 1, 1]\<rparr>"

lemma sample_summary_shaped: "summary_shaped (sample_summary v n)"
  by (simp add: summary_shaped_def summary_groups_def sample_summary_def axes3_def)

definition sample_vibration_db :: db where
  "sample_vibration_db = empty_db\<lparr>registered_devices := [(device_defaults 1 0)\<lparr>rd_device_id := ''NODE-1''\<rparr>]\<rparr>"

definition sample_vibration_settings :: vibration_settings where
  "sample_vibration_settings = \<lparr>vq_gateway_id = ''GW'', vq_minimum_windows = 20, vq_persistence_windows = 3,
     vq_persistence_interval = 5000000\<rparr>"

definition sample_window :: "int \<Rightarrow> vibration_call" where
  "sample_window n = Window ''NODE-1'' (sample_summary ''valid'' n) ''boot-1'' (1000 * n) ''u'' (1000 * n)"

theorem vibration_baselines_invariant_witness:
  "vibration_inv (fold (vibration_step fl64 sample_vibration_settings)
     [sample_window 1, Relearn ''NODE-1'' None None 5, sample_window 2] sample_vibration_db)"
  by (rule vibration_baselines_invariant)
    (simp_all add: sample_vibration_settings_def sample_vibration_db_def empty_db_def sample_window_def
      sample_summary_shaped)

text \<open>The part of a baseline that evaluations are made against.\<close>

definition learned :: "vibration_baseline \<Rightarrow> int \<times> int \<times> string \<times> int \<times> int \<times> statistics \<times> time option" where
  "learned b = (vb_id b, vb_baseline_version b, vb_status b, vb_sample_count b, vb_minimum_samples b,
     vb_statistics_json b, vb_established_at b)"

lemma observe_frozen_learned:
  assumes "observe_baseline fl b summary vs session_id t = Inr (b', state, score, factors)" "vb_status b = ''frozen''"
  shows "learned b' = learned b"
  using assms by (auto simp: observe_baseline_def Let_def learned_def bind_result_Inr_iff split: if_splits)

lemma learned_id: "learned b' = learned b \<Longrightarrow> vb_id b' = vb_id b"
  by (simp add: learned_def)

lemma process_keeps_frozen:
  assumes inv: "vibration_inv s" and b: "b \<in> set (vibration_baselines s)" "vb_status b = ''frozen''"
    and run: "vibration_process fl cfg s node_id summary session_id t uuid now = (r, s')"
  shows "\<exists>b' \<in> set (vibration_baselines s'). learned b' = learned b"
proof (cases "\<exists>d. device_available s node_id d")
  case False
  with run have "s' = s" by (auto simp: vibration_process_def split: option.splits if_splits)
  with b show ?thesis by blast
next
  case True
  then obtain d where d: "device_available s node_id d" by blast
  define c where "c = current_baseline cfg s (rd_id d) (window_installation s node_id) (vs_algorithm_version summary) now"
  consider "s' = s" | vs c' state score factors where
      "observe_baseline fl c summary vs session_id t = Inr (c', state, score, factors)"
      "vibration_baselines s' = store_row vb_id (c'\<lparr>vb_updated_at := now\<rparr>) (vibration_baselines s)"
    using process_effect[OF run d, of c] by (auto simp: c_def)
  then show ?thesis
  proof cases
    case 1
    with b show ?thesis by blast
  next
    case 2
    have id': "vb_id c' = vb_id c"
      using 2(1) by (auto simp: observe_baseline_def Let_def bind_result_Inr_iff split: if_splits)
    show ?thesis
    proof (cases "find_baseline s (rd_id d) (window_installation s node_id) (vs_algorithm_version summary)")
      case None
      then have "\<forall>x \<in> set (vibration_baselines s). vb_id x \<noteq> vb_id (c'\<lparr>vb_updated_at := now\<rparr>)"
        using id' next_id_fresh[of _ "vibration_baselines s" vb_id]
        by (fastforce simp: c_def current_baseline_def new_baseline_def)
      with b 2(2) show ?thesis by (auto simp: store_row_new)
    next
      case (Some x)
      then have c: "c \<in> set (vibration_baselines s)"
        using find_baseline_cases(1) by (simp add: c_def current_baseline_def)
      have ids: "distinct (map vb_id (vibration_baselines s))" using inv by (simp add: vibration_inv_def)
      note st = store_row_old(1)[OF ids c, of "c'\<lparr>vb_updated_at := now\<rparr>"]
      show ?thesis
      proof (cases "c = b")
        case True
        with observe_frozen_learned[OF 2(1)] b(2) have "learned (c'\<lparr>vb_updated_at := now\<rparr>) = learned b"
          by (simp add: learned_def)
        with st id' 2(2) show ?thesis by auto
      next
        case False
        with b(1) st id' 2(2) show ?thesis by auto
      qed
    qed
  qed
qed

fun is_window :: "vibration_call \<Rightarrow> bool" where
  "is_window (Window _ _ _ _ _ _) = True"
| "is_window (Relearn _ _ _ _) = False"

lemma windows_keep_frozen:
  assumes "vibration_inv s" "1 \<le> vq_minimum_windows cfg" "list_all (\<lambda>c. is_window c \<and> call_shaped c) calls"
    "b \<in> set (vibration_baselines s)" "vb_status b = ''frozen''"
  shows "\<exists>b' \<in> set (vibration_baselines (fold (vibration_step fl cfg) calls s)). learned b' = learned b"
  using assms
proof (induction calls arbitrary: s b)
  case Nil
  then show ?case by auto
next
  case (Cons call calls)
  let ?s = "vibration_step fl cfg call s"
  obtain b1 where b1: "b1 \<in> set (vibration_baselines ?s)" "learned b1 = learned b"
  proof (cases call)
    case (Window node summary session t uuid now)
    from process_keeps_frozen[OF Cons.prems(1,4,5) surjective_pairing, of fl cfg node summary session t uuid now]
    show ?thesis using that Window by auto
  qed (use Cons.prems in simp)
  have "vb_status b1 = ''frozen''" using b1(2) Cons.prems(5) by (simp add: learned_def)
  from Cons.IH[OF _ Cons.prems(2) _ b1(1) this] Cons.prems show ?case
    by (simp add: vibration_step_inv b1(2))
qed

text \<open>A frozen baseline is never altered by telemetry: after any number of further windows, of any
  device and valid or not, its row still exists with the same version, status, sample count,
  statistics and time of establishment, so every evaluation between two relearn requests is made
  against the same data.\<close>

theorem frozen_baseline_immutable:
  assumes "vibration_inv s" "1 \<le> vq_minimum_windows cfg" "list_all (\<lambda>c. is_window c \<and> call_shaped c) calls"
    "b \<in> set (vibration_baselines s)" "vb_status b = ''frozen''"
  shows "\<exists>b' \<in> set (vibration_baselines (fold (vibration_step fl cfg) calls s)).
    vb_id b' = vb_id b \<and> vb_baseline_version b' = vb_baseline_version b \<and> vb_status b' = ''frozen''
    \<and> vb_sample_count b' = vb_sample_count b \<and> vb_statistics_json b' = vb_statistics_json b
    \<and> vb_established_at b' = vb_established_at b"
  using windows_keep_frozen[OF assms, of fl] assms(5) by (auto simp: learned_def)

definition sample_frozen :: vibration_baseline where
  "sample_frozen = (new_baseline 1 1 None 1 20 0)\<lparr>vb_status := ''frozen'', vb_sample_count := 20,
     vb_statistics_json := map (\<lambda>n. (n, \<lparr>fs_count = 20, fs_mean = 1, fs_m2 = 0, fs_min = 1, fs_max = 1\<rparr>)) FEATURES,
     vb_established_at := Some 7\<rparr>"

definition sample_frozen_db :: db where
  "sample_frozen_db = sample_vibration_db\<lparr>vibration_baselines := [sample_frozen]\<rparr>"

lemma sample_frozen_inv: "vibration_inv sample_frozen_db"
  by (simp add: vibration_inv_def sample_frozen_db_def sample_vibration_db_def empty_db_def baseline_ok_def
      sample_frozen_def new_baseline_def map_of_map_keys)

theorem frozen_baseline_immutable_witness:
  "\<exists>b' \<in> set (vibration_baselines (fold (vibration_step fl64 sample_vibration_settings)
       [sample_window 1, sample_window 2] sample_frozen_db)).
     vb_id b' = 1 \<and> vb_sample_count b' = 20 \<and> vb_established_at b' = Some 7"
proof -
  have "sample_frozen \<in> set (vibration_baselines sample_frozen_db)" by (simp add: sample_frozen_db_def)
  moreover have "list_all (\<lambda>c. is_window c \<and> call_shaped c) [sample_window 1, sample_window 2]"
    by (simp add: sample_window_def sample_summary_shaped)
  moreover have "1 \<le> vq_minimum_windows sample_vibration_settings" by (simp add: sample_vibration_settings_def)
  moreover have "vb_status sample_frozen = ''frozen''" by (simp add: sample_frozen_def)
  ultimately have "\<exists>b' \<in> set (vibration_baselines (fold (vibration_step fl64 sample_vibration_settings)
       [sample_window 1, sample_window 2] sample_frozen_db)).
    vb_id b' = vb_id sample_frozen \<and> vb_baseline_version b' = vb_baseline_version sample_frozen
    \<and> vb_status b' = ''frozen'' \<and> vb_sample_count b' = vb_sample_count sample_frozen
    \<and> vb_statistics_json b' = vb_statistics_json sample_frozen
    \<and> vb_established_at b' = vb_established_at sample_frozen"
    using frozen_baseline_immutable[OF sample_frozen_inv] by blast
  then show ?thesis by (auto simp: sample_frozen_def new_baseline_def)
qed

lemma relearn_again:
  assumes "vibration_inv s" "get_device_active s node_id = Some d" "relearn_target s (rd_id d) = Some b"
    "\<not> (truthy request_id \<and> vb_last_relearn_request_id b = request_id)" "truthy request_id"
    "relearn_baseline s node_id reason request_id now = (r, s')"
  shows "\<exists>x. relearn_baseline s' node_id reason' request_id now' = (Inr x, s') \<and> rr_duplicate x
    \<and> rr_baseline_version x = vb_baseline_version b + 1"
proof -
  let ?b' = "restarted_baseline b now reason request_id"
  note eff = relearn_effect[OF assms(1-4,6)] and b = relearn_target_mem[OF assms(3)]
  have ids: "distinct (map vb_id (vibration_baselines s))" and pos: "0 < vb_id b"
    using assms(1) b by (simp_all add: vibration_inv_def)
  have "find_row (\<lambda>c. vb_id c = vb_id b) (vibration_baselines s) = Some b"
    using b ids by (intro find_row_unique) auto
  then have "find_row (\<lambda>c. vb_id c = vb_id b) (vibration_baselines s') = Some ?b'"
    using eff find_store_row[OF ids, of "\<lambda>c. vb_id c = vb_id b" b ?b'] by simp
  then have "relearn_target s' (rd_id d) = Some ?b'" using eff pos by (auto simp: relearn_target_def)
  moreover have "get_device_active s' node_id = Some d" using assms(2) eff by (simp add: get_device_active_def)
  ultimately show ?thesis
    using assms(5) by (simp add: relearn_baseline_def restarted_baseline_def)
qed

text \<open>A relearn request loses nothing and is idempotent: it succeeds, puts the superseded baseline
  with its statistics into the history, starts the next version with no samples, and repeating it
  with the same request id is answered as a duplicate and leaves the database as it is.\<close>

theorem relearn_preserves_history:
  assumes "vibration_inv s" "get_device_active s node_id = Some d" "relearn_target s (rd_id d) = Some b"
    "request_id \<noteq> ''''" "vb_last_relearn_request_id b \<noteq> Some request_id"
    "relearn_baseline s node_id reason (Some request_id) now = (r, s')"
  shows "(\<exists>x. r = Inr x \<and> rr_baseline_version x = vb_baseline_version b + 1 \<and> rr_sample_count x = 0)
    \<and> (\<exists>h. vibration_baseline_histories s' = vibration_baseline_histories s @ [h]
          \<and> vh_statistics_json h = vb_statistics_json b \<and> vh_sample_count h = vb_sample_count b
          \<and> vh_baseline_version h = vb_baseline_version b \<and> vh_status h = ''superseded'')
    \<and> (\<exists>x. relearn_baseline s' node_id reason' (Some request_id) now' = (Inr x, s') \<and> rr_duplicate x
          \<and> rr_baseline_version x = vb_baseline_version b + 1)"
proof -
  have fresh: "\<not> (truthy (Some request_id) \<and> vb_last_relearn_request_id b = Some request_id)" using assms(5) by simp
  have "truthy (Some request_id)" using assms(4) by simp
  from relearn_effect[OF assms(1-3) fresh assms(6)] relearn_again[OF assms(1-3) fresh this assms(6)]
  show ?thesis by (auto simp: history_row_def)
qed

theorem relearn_preserves_history_witness:
  "\<exists>x s'. relearn_baseline sample_frozen_db ''NODE-1'' None (Some ''request-1'') 9 = (Inr x, s')
     \<and> rr_baseline_version x = 2
     \<and> (\<exists>y. relearn_baseline s' ''NODE-1'' None (Some ''request-1'') 10 = (Inr y, s') \<and> rr_duplicate y)"
proof -
  let ?d = "(device_defaults 1 0)\<lparr>rd_device_id := ''NODE-1''\<rparr>"
  have "get_device_active sample_frozen_db ''NODE-1'' = Some ?d"
    by (simp add: get_device_active_def sample_frozen_db_def sample_vibration_db_def empty_db_def device_defaults_def)
  moreover have "relearn_target sample_frozen_db (rd_id ?d) = Some sample_frozen"
    by (simp add: relearn_target_def find_condition_def newest_baseline_def sample_frozen_db_def sample_vibration_db_def
        empty_db_def device_defaults_def sample_frozen_def new_baseline_def)
  moreover have "vb_last_relearn_request_id sample_frozen \<noteq> Some ''request-1''"
    "vb_baseline_version sample_frozen = 1"
    by (simp_all add: sample_frozen_def new_baseline_def)
  ultimately show ?thesis
    using relearn_preserves_history[OF sample_frozen_inv, of "''NODE-1''" ?d sample_frozen "''request-1''" None 9 _ _ None 10,
        OF _ _ _ _ surjective_pairing]
    by (cases "relearn_baseline sample_frozen_db ''NODE-1'' None (Some ''request-1'') 9") auto
qed

end
