(* ===== verification/Telemetry_Service.thy ===== *)
theory Telemetry_Service
  imports Telemetry_Parser Vibration_Service Capabilities
begin

text \<open>
  Telemetry ingestion: \<open>gateway/app/services/telemetry_service.py\<close>, the transaction of
  \<open>telemetry_persistence.py\<close>, the retention batches of \<open>telemetry_retention.py\<close> and the handlers of
  \<open>gateway/app/api/telemetry.py\<close>. Python's \<open>json.loads\<close> and \<open>json.dumps\<close> and the digest of
  \<open>hashlib.blake2s\<close> are arguments, as are fresh identifiers and the clock. One call of \<open>ingest\<close> is one
  step: the gateway awaits a packet's transaction before it handles the next packet of the device.
\<close>

section \<open>Persistence of one packet\<close>

text \<open>The channels a packet stores: its own, or one empty channel named after the event or the record type.\<close>

definition stored_channels :: "normalized_telemetry \<Rightarrow> (string \<times> channel_value option) list" where
  "stored_channels payload =
     (if nt_channels payload \<noteq> [] then map (\<lambda>(name, c). (name, Some c)) (nt_channels payload)
      else [(case nt_event payload of
               Some e \<Rightarrow> if e = '''' then nt_record_type payload else e
             | None \<Rightarrow> nt_record_type payload, None)])"

text \<open>\<open>float(value)\<close> for numbers and booleans, nothing for other values.\<close>

fun numeric_value :: "(real \<Rightarrow> real) \<Rightarrow> json \<Rightarrow> pyfloat option result" where
  "numeric_value fl (JInt n) =
     (if \<bar>n\<bar> \<ge> float_overflow_bound then Inl (OverflowError ''int too large to convert to float'')
      else Inr (Some (Fin (fl (of_int n)))))"
| "numeric_value fl (JFloat x) = Inr (Some x)"
| "numeric_value fl (JBool b) = Inr (Some (Fin (if b then 1 else 0)))"
| "numeric_value fl _ = Inr None"

text \<open>A dictionary built from all pairs in order: the last entry for a key wins.\<close>

definition channel_interface :: "node_capabilities \<Rightarrow> string \<Rightarrow> string option" where
  "channel_interface caps channel =
     map_of (rev (concat (map (\<lambda>i. map (\<lambda>c. (c, ni_interface_id i)) (ni_telemetry_channels i)) (nc_interfaces caps))))
       channel"

definition active_installations :: "db \<Rightarrow> string \<Rightarrow> sensor_installation list" where
  "active_installations s node_id =
     filter (\<lambda>r. si_node_id r = node_id \<and> si_enabled r \<and> \<not> si_archived r) (sensor_installations s)"

definition installation_on :: "sensor_installation list \<Rightarrow> string option \<Rightarrow> sensor_installation option" where
  "installation_on active interface_id =
     (case interface_id of None \<Rightarrow> None | Some i \<Rightarrow> map_of (rev (map (\<lambda>r. (si_interface_id r, r)) active)) i)"

record packet_context =
  pk_gateway_id :: string
  pk_session_id :: string
  pk_measured_at :: "time option"

definition reading_row ::
  "(real \<Rightarrow> real) \<Rightarrow> packet_context \<Rightarrow> registered_device \<Rightarrow> node_capabilities \<Rightarrow> sensor_installation list
     \<Rightarrow> normalized_telemetry \<Rightarrow> int \<Rightarrow> string \<Rightarrow> string \<Rightarrow> channel_value option \<Rightarrow> reading result" where
  "reading_row fl ctx device caps active payload i uuid name channel =
     bind_result (case channel of None \<Rightarrow> Inr None | Some c \<Rightarrow> numeric_value fl (cv_value c)) (\<lambda>numeric.
     bind_result (case channel of None \<Rightarrow> Inr None | Some c \<Rightarrow> numeric_value fl (cv_raw_value c)) (\<lambda>raw.
       let interface_id = channel_interface caps name in
       Inr \<lparr>rg_id = i, rg_reading_uuid = uuid, rg_gateway_id = pk_gateway_id ctx,
            rg_registered_device_id = rd_id device, rg_received_at = nt_received_at payload,
            rg_measured_at = pk_measured_at ctx, rg_measured_at_device_uptime = nt_device_uptime_ms payload,
            rg_device_uptime_ms = nt_device_uptime_ms payload, rg_sequence_number = nt_sequence_number payload,
            rg_session_id = pk_session_id ctx, rg_record_type = nt_record_type payload, rg_channel = name,
            rg_raw_value = raw, rg_normalized_value = numeric,
            rg_unit = (case channel of None \<Rightarrow> None | Some c \<Rightarrow> cv_unit c),
            rg_quality = (case channel of None \<Rightarrow> ''good'' | Some c \<Rightarrow> cv_quality c),
            rg_payload_json = nt_original_payload payload, rg_delayed = nt_delayed payload,
            rg_installation_id = map_option si_installation_id (installation_on active interface_id),
            rg_interface_id = interface_id\<rparr>))"

fun reading_rows ::
  "(real \<Rightarrow> real) \<Rightarrow> packet_context \<Rightarrow> registered_device \<Rightarrow> node_capabilities \<Rightarrow> sensor_installation list
     \<Rightarrow> normalized_telemetry \<Rightarrow> int \<Rightarrow> (nat \<Rightarrow> string) \<Rightarrow> nat \<Rightarrow> (string \<times> channel_value option) list \<Rightarrow> reading list result" where
  "reading_rows fl ctx device caps active payload first uuid k [] = Inr []"
| "reading_rows fl ctx device caps active payload first uuid k ((name, channel) # rest) =
     bind_result (reading_row fl ctx device caps active payload (first + int k) (uuid k) name channel) (\<lambda>row.
     bind_result (reading_rows fl ctx device caps active payload first uuid (Suc k) rest) (\<lambda>rows. Inr (row # rows)))"

text \<open>The unique constraints of the table \<open>readings\<close>; a null sequence number never conflicts.\<close>

definition readings_conflict :: "reading \<Rightarrow> reading \<Rightarrow> bool" where
  "readings_conflict a b =
     (rg_reading_uuid a = rg_reading_uuid b
      \<or> (rg_registered_device_id a = rg_registered_device_id b \<and> rg_session_id a = rg_session_id b
         \<and> rg_sequence_number a \<noteq> None \<and> rg_sequence_number a = rg_sequence_number b
         \<and> rg_channel a = rg_channel b))"

fun insert_conflicts :: "reading list \<Rightarrow> reading list \<Rightarrow> bool" where
  "insert_conflicts stored [] = False"
| "insert_conflicts stored (r # rs) =
     ((\<exists>a \<in> set stored. readings_conflict a r) \<or> insert_conflicts (stored @ [r]) rs)"

definition touch_installation :: "reading list \<Rightarrow> time \<Rightarrow> time \<Rightarrow> sensor_installation \<Rightarrow> sensor_installation" where
  "touch_installation rows received_at now r =
     (let relevant = filter (\<lambda>g. rg_installation_id g = Some (si_installation_id r)) rows in
      if relevant = [] then r
      else
        let r1 = r\<lparr>si_last_seen_at := Some received_at, si_updated_at := now\<rparr> in
        if list_ex (\<lambda>g. rg_quality g \<notin> {''invalid'', ''sensor_fault'', ''stale''}) relevant
        then r1\<lparr>si_last_valid_reading_at := Some received_at\<rparr> else r1)"

definition persist ::
  "(real \<Rightarrow> real) \<Rightarrow> db \<Rightarrow> string \<Rightarrow> normalized_telemetry \<Rightarrow> packet_context \<Rightarrow> (nat \<Rightarrow> string) \<Rightarrow> time
     \<Rightarrow> reading list result \<times> db" where
  "persist fl s node_id payload ctx uuid now =
     (case get_device s node_id of
        None \<Rightarrow> (Inl (ValueError ''registered device no longer exists''), s)
      | Some device \<Rightarrow>
          if rd_archived device \<or> \<not> rd_enabled device \<or> rd_lifecycle_state device = ''removed''
          then (Inl (ValueError ''registered device is removed or disabled''), s)
          else
            (case capability_get s node_id of
               Inl e \<Rightarrow> (Inl e, s)
             | Inr caps \<Rightarrow>
                 let active = active_installations s node_id in
                 (case reading_rows fl ctx device caps active payload (next_id rg_id (readings s)) uuid 0
                         (stored_channels payload) of
                    Inl e \<Rightarrow> (Inl e, s)
                  | Inr rows \<Rightarrow>
                      if insert_conflicts (readings s) rows
                      then (Inl (TelemetryPersistenceError ''UNIQUE constraint failed''), s)
                      else (Inr rows,
                        (upd_device s node_id (\<lambda>d. d\<lparr>rd_connection_status := ''connected'',
                           rd_last_seen_at := Some (nt_received_at payload), rd_updated_at := now\<rparr>))
                        \<lparr>readings := readings s @ rows,
                         sensor_installations :=
                           upd_rows (\<lambda>r. r \<in> set active) (touch_installation rows (nt_received_at payload) now)
                             (sensor_installations s)\<rparr>))))"

section \<open>The ingestion service\<close>

record device_session =
  ds_session_id :: string
  ds_uptime :: "int option"
  ds_boot_time :: "time option"

record vibration_counters =
  vn_received :: nat
  vn_duplicates :: nat
  vn_rejected :: nat
  vn_baseline_eligible :: nat
  vn_baseline_excluded :: nat
  vn_database_writes :: nat

record telemetry_service =
  ts_sessions :: "string \<rightharpoonup> device_session"
  ts_dedupe :: "string \<rightharpoonup> string list"
  ts_counters :: vibration_counters

definition session_for ::
  "telemetry_service \<Rightarrow> string \<Rightarrow> int option \<Rightarrow> time \<Rightarrow> string \<Rightarrow> (string \<times> time option) \<times> telemetry_service" where
  "session_for svc device_id uptime received_at fresh =
     (let boot = map_option (\<lambda>u. received_at - u * 1000) uptime;
          started = \<lparr>ds_session_id = fresh, ds_uptime = uptime, ds_boot_time = boot\<rparr>;
          current = (case ts_sessions svc device_id of
              None \<Rightarrow> started
            | Some c \<Rightarrow>
                (case (uptime, ds_uptime c) of
                   (Some u, Some old) \<Rightarrow> if u < old then started else c\<lparr>ds_uptime := Some u\<rparr>
                 | (Some u, None) \<Rightarrow> c\<lparr>ds_uptime := Some u\<rparr>
                 | (None, _) \<Rightarrow> c));
          measured = (case (uptime, ds_boot_time current) of
              (Some u, Some b) \<Rightarrow> Some (b + u * 1000) | _ \<Rightarrow> None)
      in ((ds_session_id current, measured), svc\<lparr>ts_sessions := (ts_sessions svc)(device_id \<mapsto> current)\<rparr>))"

definition int_str :: "int \<Rightarrow> string" where
  "int_str n = (if n < 0 then CHR ''-'' # nat_str (nat (- n)) else nat_str (nat n))"

definition dedupe_key :: "(string \<Rightarrow> string) \<Rightarrow> normalized_telemetry \<Rightarrow> string \<Rightarrow> string" where
  "dedupe_key digest payload raw =
     (case nt_sequence_number payload of
        Some q \<Rightarrow> nt_record_type payload @ '':s:'' @ int_str q
      | None \<Rightarrow> ''u:'' @ (case nt_device_uptime_ms payload of None \<Rightarrow> ''None'' | Some u \<Rightarrow> int_str u) @ '':'' @ digest raw)"

definition dedupe_cache :: "telemetry_service \<Rightarrow> string \<Rightarrow> string list" where
  "dedupe_cache svc device_id = (case ts_dedupe svc device_id of None \<Rightarrow> [] | Some c \<Rightarrow> c)"

definition is_duplicate :: "telemetry_service \<Rightarrow> string \<Rightarrow> string \<Rightarrow> bool" where
  "is_duplicate svc device_id key = (key \<in> set (dedupe_cache svc device_id))"

text \<open>\<open>cache[key] = None\<close> keeps the position of a key that is present; the loop evicts the oldest keys.\<close>

fun evict :: "nat \<Rightarrow> string list \<Rightarrow> string list" where
  "evict bound [] = []"
| "evict bound (k # ks) = (if length (k # ks) > bound then evict bound ks else k # ks)"

definition remember :: "telemetry_service \<Rightarrow> string \<Rightarrow> string \<Rightarrow> telemetry_service" where
  "remember svc device_id key =
     (let cache = dedupe_cache svc device_id;
          cache' = (if key \<in> set cache then cache else cache @ [key])
      in svc\<lparr>ts_dedupe := (ts_dedupe svc)(device_id \<mapsto> evict 256 cache')\<rparr>)"

definition bump :: "(vibration_counters \<Rightarrow> vibration_counters) \<Rightarrow> telemetry_service \<Rightarrow> telemetry_service" where
  "bump f svc = svc\<lparr>ts_counters := f (ts_counters svc)\<rparr>"

text \<open>What the service broadcasts to the connected clients.\<close>

datatype telemetry_message =
    VibrationMessage string int vibration_summary process_outcome
  | ChannelMessage string normalized_telemetry

record ingest_environment =
  ie_loads :: "string \<Rightarrow> json option"
  ie_dumps :: "dict \<Rightarrow> string result"
  ie_digest :: "string \<Rightarrow> string"
  ie_gateway_id :: string
  ie_max_payload_bytes :: nat
  ie_max_payload_json_bytes :: nat
  ie_vibration :: vibration_settings

definition ingest_vibration ::
  "(real \<Rightarrow> real) \<Rightarrow> ingest_environment \<Rightarrow> telemetry_service \<Rightarrow> db \<Rightarrow> string \<Rightarrow> normalized_telemetry \<Rightarrow> string \<Rightarrow> string
     \<Rightarrow> string \<Rightarrow> time \<Rightarrow> reading list result \<times> telemetry_service \<times> db \<times> telemetry_message list" where
  "ingest_vibration fl env svc s node_id payload session_id key uuid now =
     (let svc1 = bump (\<lambda>n. n\<lparr>vn_received := vn_received n + 1\<rparr>) svc;
          rejected = bump (\<lambda>n. n\<lparr>vn_rejected := vn_rejected n + 1\<rparr>) svc1 in
      case nt_vibration payload of
        None \<Rightarrow> (Inl (ValueError ''vibration message has no validated summary''), rejected, s, [])
      | Some summary \<Rightarrow>
          (case vibration_process fl (ie_vibration env) s node_id summary session_id (nt_received_at payload) uuid now of
             (Inl e, s') \<Rightarrow> (Inl e, rejected, s', [])
           | (Inr out, s') \<Rightarrow>
               let svc2 = bump (\<lambda>n. if vs_validity summary = ''valid''
                     then n\<lparr>vn_baseline_eligible := vn_baseline_eligible n + 1\<rparr>
                     else n\<lparr>vn_baseline_excluded := vn_baseline_excluded n + 1\<rparr>) svc1;
                   written = (case out of Processed x \<Rightarrow> px_persisted x | DuplicateWindow _ \<Rightarrow> False);
                   svc3 = (if written then bump (\<lambda>n. n\<lparr>vn_database_writes := vn_database_writes n + 1\<rparr>) svc2 else svc2)
               in (Inr [], remember svc3 node_id key, s',
                   [VibrationMessage node_id (nt_schema_version payload) summary out])))"

definition ingest ::
  "(real \<Rightarrow> real) \<Rightarrow> ingest_environment \<Rightarrow> telemetry_service \<Rightarrow> db \<Rightarrow> string \<Rightarrow> string \<Rightarrow> string \<Rightarrow> (nat \<Rightarrow> string)
     \<Rightarrow> time \<Rightarrow> reading list result \<times> telemetry_service \<times> db \<times> telemetry_message list" where
  "ingest fl env svc s node_id raw fresh uuid now =
     (case parse_telemetry fl (ie_loads env) (ie_max_payload_bytes env) raw now of
        Inl e \<Rightarrow> (Inl e, svc, s, [])
      | Inr payload \<Rightarrow>
          if nt_device_id payload \<noteq> None \<and> nt_device_id payload \<noteq> Some node_id
          then (Inl (ValueError ''telemetry device_id does not match the registered device''), svc, s, [])
          else
            let key = dedupe_key (ie_digest env) payload raw in
            if is_duplicate svc node_id key
            then (Inr [], if nt_record_type payload = ''vibration''
                          then bump (\<lambda>n. n\<lparr>vn_duplicates := vn_duplicates n + 1\<rparr>) svc else svc, s, [])
            else
              (case ie_dumps env (nt_original_payload payload) of
                 Inl e \<Rightarrow> (Inl e, svc, s, [])
               | Inr encoded \<Rightarrow>
                   if length encoded > ie_max_payload_json_bytes env
                   then (Inl (ValueError ''validated diagnostic payload exceeds storage maximum''), svc, s, [])
                   else
                     let ((session_id, measured_at), svc1) =
                           session_for svc node_id (nt_device_uptime_ms payload) (nt_received_at payload) fresh in
                     if nt_record_type payload = ''vibration''
                     then ingest_vibration fl env svc1 s node_id payload session_id key (uuid 0) now
                     else
                       (case persist fl s node_id payload
                               \<lparr>pk_gateway_id = ie_gateway_id env, pk_session_id = session_id,
                                pk_measured_at = measured_at\<rparr> uuid now of
                          (Inl e, s') \<Rightarrow> (Inl e, svc1, s', [])
                        | (Inr rows, s') \<Rightarrow>
                            (Inr rows, remember svc1 node_id key, s', [ChannelMessage node_id payload]))))"

section \<open>Retention\<close>

definition vibration_ids :: "db \<Rightarrow> time \<Rightarrow> nat \<Rightarrow> int list" where
  "vibration_ids s cutoff batch = take batch (sort (map vw_id (filter (\<lambda>w. vw_observed_at w < cutoff) (vibration_windows s))))"

definition reading_ids :: "db \<Rightarrow> time \<Rightarrow> nat \<Rightarrow> int list" where
  "reading_ids s cutoff batch = take batch (sort (map rg_id (filter (\<lambda>r. rg_received_at r < cutoff) (readings s))))"

definition cleanup_batch :: "int option \<Rightarrow> nat \<Rightarrow> db \<Rightarrow> time \<Rightarrow> nat \<times> db" where
  "cleanup_batch retention_days batch s now =
     (case retention_days of
        None \<Rightarrow> (0, s)
      | Some days \<Rightarrow>
          let cutoff = now - days * day; vids = vibration_ids s cutoff batch in
          if vids \<noteq> []
          then (length vids, s\<lparr>vibration_windows := filter (\<lambda>w. vw_id w \<notin> set vids) (vibration_windows s)\<rparr>)
          else
            let ids = reading_ids s cutoff batch in
            if ids = [] then (0, s)
            else (length ids, s\<lparr>readings := filter (\<lambda>r. rg_id r \<notin> set ids) (readings s)\<rparr>))"

section \<open>The handlers\<close>

definition latest_handler :: "db \<Rightarrow> string \<Rightarrow> reading list result" where
  "latest_handler s k = bind_result (get_device_handler s k) (\<lambda>d. Inr (latest_readings s (rd_id d)))"

record history_request =
  hr_offset :: nat
  hr_limit :: nat
  hr_start :: "time option"
  hr_end :: "time option"
  hr_channel :: "string option"
  hr_installation_id :: "string option"
  hr_interface_id :: "string option"
  hr_cursor :: "string option"
  hr_include_total :: bool

record reading_page =
  rp_items :: "reading list"
  rp_total :: "nat option"
  rp_offset :: nat
  rp_limit :: nat
  rp_next_cursor :: "string option"

text \<open>\<open>decode\<close> is the base64 and ISO 8601 decoding of a cursor (\<open>None\<close> when it raises), \<open>encode\<close> its inverse.\<close>

definition history_handler ::
  "(string \<Rightarrow> (time \<times> int) option) \<Rightarrow> (time \<times> int \<Rightarrow> string) \<Rightarrow> db \<Rightarrow> string \<Rightarrow> nat \<Rightarrow> int \<Rightarrow> history_request \<Rightarrow> time
     \<Rightarrow> reading_page result" where
  "history_handler decode encode s k page_size_max max_days q now =
     (if hr_limit q < 1 then Inl (ValidationError ''limit'')
      else if (case hr_channel q of None \<Rightarrow> False | Some c \<Rightarrow> length c > 96) then Inl (ValidationError ''channel'')
      else if (case hr_installation_id q of None \<Rightarrow> False | Some c \<Rightarrow> length c > 64) then Inl (ValidationError ''installation_id'')
      else if (case hr_interface_id q of None \<Rightarrow> False | Some c \<Rightarrow> length c > 64) then Inl (ValidationError ''interface_id'')
      else if (case hr_cursor q of None \<Rightarrow> False | Some c \<Rightarrow> length c > 256) then Inl (ValidationError ''cursor'')
      else if hr_limit q > page_size_max
      then Inl (HTTPException 422 '''' (''limit must not exceed '' @ nat_str page_size_max))
      else
        let e = (case hr_end q of None \<Rightarrow> now | Some t \<Rightarrow> t);
            b = (case hr_start q of None \<Rightarrow> e - day | Some t \<Rightarrow> t) in
        if e < b then Inl (HTTPException 422 '''' ''end must not precede start'')
        else if e - b > max_days * day then Inl (HTTPException 422 '''' ''requested history range is too large'')
        else
          bind_result
            (case hr_cursor q of
               None \<Rightarrow> Inr None
             | Some c \<Rightarrow> if c = '''' then Inr None
                        else case decode c of
                          None \<Rightarrow> Inl (HTTPException 422 '''' ''cursor is invalid'')
                        | Some m \<Rightarrow> Inr (Some m)) (\<lambda>before.
          bind_result (get_device_handler s k) (\<lambda>d.
            let (items, total) = reading_history s (rd_id d)
                  \<lparr>hq_offset = hr_offset q, hq_limit = hr_limit q, hq_start = Some b, hq_end = Some e,
                   hq_channel = hr_channel q, hq_installation_id = hr_installation_id q,
                   hq_interface_id = hr_interface_id q, hq_before = before, hq_include_total = hr_include_total q\<rparr>
            in Inr \<lparr>rp_items = items, rp_total = total, rp_offset = hr_offset q, rp_limit = hr_limit q,
                    rp_next_cursor = map_option encode (next_cursor items (hr_limit q))\<rparr>)))"

section \<open>The deduplication cache\<close>

lemma evict_drop: "evict bound ks = drop (length ks - bound) ks"
  by (induction bound ks rule: evict.induct) (auto simp: Suc_diff_le not_less)

lemma length_evict: "length (evict bound ks) \<le> bound"
  by (simp add: evict_drop)

lemma dedupe_cache_remember:
  "dedupe_cache (remember svc d key) d' =
     (if d' = d then evict 256 (if key \<in> set (dedupe_cache svc d) then dedupe_cache svc d else dedupe_cache svc d @ [key])
      else dedupe_cache svc d')"
  unfolding remember_def Let_def by (simp add: dedupe_cache_def[of "_\<lparr>ts_dedupe := _\<rparr>"]) (simp add: dedupe_cache_def)

lemma dedupe_cache_cong: "ts_dedupe svc' = ts_dedupe svc \<Longrightarrow> dedupe_cache svc' = dedupe_cache svc"
  by (simp add: dedupe_cache_def fun_eq_iff)

text \<open>The caches are bounded and hold no key twice.\<close>

definition cache_inv :: "telemetry_service \<Rightarrow> bool" where
  "cache_inv svc = (\<forall>d. length (dedupe_cache svc d) \<le> 256 \<and> distinct (dedupe_cache svc d))"

lemma cache_inv_remember: "cache_inv svc \<Longrightarrow> cache_inv (remember svc d key)"
  by (auto simp: cache_inv_def dedupe_cache_remember evict_drop dest: in_set_dropD)

text \<open>A key that was just remembered is the newest of the cache; \<open>recent n\<close> says that at most \<open>n\<close> keys are newer.\<close>

definition recent :: "telemetry_service \<Rightarrow> string \<Rightarrow> string \<Rightarrow> nat \<Rightarrow> bool" where
  "recent svc d key n =
     (\<exists>older newer. dedupe_cache svc d = older @ key # newer \<and> length newer \<le> n)"

lemma evict_keeps:
  assumes "length newer < bound"
  shows "\<exists>older'. evict bound (older @ key # newer) = older' @ key # newer"
proof -
  have "length (older @ key # newer) - bound \<le> length older" using assms by simp
  then show ?thesis by (simp add: evict_drop)
qed

lemma recent_remember_new:
  assumes "\<not> is_duplicate svc d key"
  shows "recent (remember svc d key) d key 0"
  using assms evict_keeps[of "[]" 256 "dedupe_cache svc d" key]
  by (auto simp: recent_def dedupe_cache_remember is_duplicate_def)

lemma recent_remember_other:
  assumes "recent svc d key n" "n < 255"
  shows "recent (remember svc d' key') d key (Suc n)"
proof -
  obtain older newer where c: "dedupe_cache svc d = older @ key # newer" "length newer \<le> n"
    using assms(1) by (auto simp: recent_def)
  show ?thesis
  proof (cases "d' = d \<and> key' \<notin> set (dedupe_cache svc d)")
    case True
    obtain older' where "evict 256 (older @ key # (newer @ [key'])) = older' @ key # (newer @ [key'])"
      using evict_keeps[of "newer @ [key']" 256 older key] c(2) assms(2) by auto
    with True c show ?thesis unfolding recent_def dedupe_cache_remember
      by (intro exI[of _ older'] exI[of _ "newer @ [key']"]) simp
  next
    case False
    obtain older' where o: "evict 256 (older @ key # newer) = older' @ key # newer"
      using evict_keeps[of newer 256 older key] c(2) assms(2) by auto
    with False c have "\<exists>older''. dedupe_cache (remember svc d' key') d = older'' @ key # newer"
      by (auto simp: dedupe_cache_remember)
    with c(2) show ?thesis unfolding recent_def by force
  qed
qed

lemma recent_mono: "recent svc d key n \<Longrightarrow> n \<le> m \<Longrightarrow> recent svc d key m"
  by (auto simp: recent_def intro: le_trans)

lemma recent_duplicate: "recent svc d key n \<Longrightarrow> is_duplicate svc d key"
  by (auto simp: recent_def is_duplicate_def)

section \<open>The outcomes of a packet\<close>

lemma bump_dedupe [simp]: "ts_dedupe (bump f svc) = ts_dedupe svc"
  by (simp add: bump_def)

lemma remember_dedupe_cong: "ts_dedupe svc' = ts_dedupe svc \<Longrightarrow> ts_dedupe (remember svc' d key) = ts_dedupe (remember svc d key)"
  by (simp add: remember_def dedupe_cache_def Let_def)

lemma session_for_dedupe: "session_for svc d u t fresh = (x, svc') \<Longrightarrow> ts_dedupe svc' = ts_dedupe svc"
  by (auto simp: session_for_def Let_def)

lemma process_error_unchanged:
  assumes "vibration_process fl cfg s node_id summary session_id t uuid now = (Inl e, s')"
  shows "s' = s"
proof (cases "\<exists>d. device_available s node_id d")
  case True
  then obtain d where "device_available s node_id d" by blast
  from process_effect[OF assms this refl] show ?thesis by auto
next
  case False
  with assms show ?thesis by (auto simp: vibration_process_def split: option.splits if_splits)
qed

lemma persist_error_unchanged: "persist fl s node_id payload ctx uuid now = (Inl e, s') \<Longrightarrow> s' = s"
  by (auto simp: persist_def Let_def split: option.splits if_splits sum.splits)

lemma process_readings:
  "vibration_process fl cfg s node_id summary session_id t uuid now = (r, s') \<Longrightarrow> readings s' = readings s"
  by (auto simp: vibration_process_def commit_window_def Let_def
      split: option.splits if_splits sum.splits prod.splits)

text \<open>The three outcomes: an error that leaves the database and the caches alone, a duplicate that does the
  same, or an accepted packet whose new key is remembered.\<close>

lemma ingest_vibration_cases:
  assumes "ingest_vibration fl env svc s node_id payload session_id key uuid now = (r, svc', s', ms)"
  shows "(\<exists>e. r = Inl e) \<and> s' = s \<and> ts_dedupe svc' = ts_dedupe svc \<and> ms = []
    \<or> r = Inr [] \<and> ts_dedupe svc' = ts_dedupe (remember svc node_id key) \<and> readings s' = readings s"
proof (cases "nt_vibration payload")
  case None
  with assms show ?thesis by (auto simp: ingest_vibration_def Let_def)
next
  case (Some summary)
  obtain q s1 where run: "vibration_process fl (ie_vibration env) s node_id summary session_id (nt_received_at payload) uuid now = (q, s1)"
    by (cases "vibration_process fl (ie_vibration env) s node_id summary session_id (nt_received_at payload) uuid now")
  show ?thesis
  proof (cases q)
    case (Inl e)
    with assms Some run process_error_unchanged show ?thesis
      by (auto simp: ingest_vibration_def Let_def)
  next
    case (Inr out)
    have "readings s1 = readings s" using process_readings[OF run] .
    with assms Some run Inr show ?thesis
      by (auto simp: ingest_vibration_def Let_def intro!: remember_dedupe_cong split: if_splits)
  qed
qed

lemma ingest_cases:
  assumes "ingest fl env svc s node_id raw fresh uuid now = (r, svc', s', ms)"
  obtains (failed) e where "r = Inl e" "s' = s" "ts_dedupe svc' = ts_dedupe svc" "ms = []"
  | (duplicate) payload where "parse_telemetry fl (ie_loads env) (ie_max_payload_bytes env) raw now = Inr payload"
      "is_duplicate svc node_id (dedupe_key (ie_digest env) payload raw)" "r = Inr []" "s' = s" "ms = []"
      "ts_dedupe svc' = ts_dedupe svc"
  | (accepted) payload rows where "parse_telemetry fl (ie_loads env) (ie_max_payload_bytes env) raw now = Inr payload"
      "\<not> is_duplicate svc node_id (dedupe_key (ie_digest env) payload raw)" "r = Inr rows"
      "ts_dedupe svc' = ts_dedupe (remember svc node_id (dedupe_key (ie_digest env) payload raw))"
      "nt_device_id payload = None \<or> nt_device_id payload = Some node_id"
proof (cases "parse_telemetry fl (ie_loads env) (ie_max_payload_bytes env) raw now")
  case (Inl e)
  with assms failed show ?thesis by (auto simp: ingest_def)
next
  case (Inr payload)
  let ?key = "dedupe_key (ie_digest env) payload raw"
  show ?thesis
  proof (cases "nt_device_id payload \<noteq> None \<and> nt_device_id payload \<noteq> Some node_id")
    case True
    with assms failed Inr show ?thesis by (auto simp: ingest_def)
  next
    case own: False
    show ?thesis
    proof (cases "is_duplicate svc node_id ?key")
      case True
      with assms duplicate[OF Inr] Inr own show ?thesis by (auto simp: ingest_def Let_def split: if_splits)
    next
      case fresh_key: False
      obtain session_id measured svc1 where ses:
        "session_for svc node_id (nt_device_uptime_ms payload) (nt_received_at payload) fresh = ((session_id, measured), svc1)"
        by (metis prod_cases3 surj_pair)
      note keep = session_for_dedupe[OF ses]
      consider e where "r = Inl e" "s' = s" "ts_dedupe svc' = ts_dedupe svc" "ms = []"
        | "ingest_vibration fl env svc1 s node_id payload session_id ?key (uuid 0) now = (r, svc', s', ms)"
        | rows where "r = Inr rows" "svc' = remember svc1 node_id ?key"
        using assms Inr own fresh_key ses keep
        by (auto simp: ingest_def Let_def split: sum.splits if_splits prod.splits dest: persist_error_unchanged)
      then show ?thesis
      proof cases
        case 1
        with failed show ?thesis by blast
      next
        case 2
        from ingest_vibration_cases[OF this] keep failed accepted[OF Inr fresh_key] own remember_dedupe_cong[OF keep]
        show ?thesis by auto
      next
        case 3
        with accepted[OF Inr fresh_key] own remember_dedupe_cong[OF keep] show ?thesis by auto
      qed
    qed
  qed
qed

text \<open>The reception time is copied, nothing else of a parsed packet depends on it.\<close>

lemma bind_result_follow:
  "bind_result r f = Inr p \<Longrightarrow> (\<And>x. f x = Inr p \<Longrightarrow> g x = Inr p') \<Longrightarrow> bind_result r g = Inr p'"
  by (cases r) auto

lemma parse_vibration_time:
  assumes "parse_vibration fl payload t = Inr p"
  shows "parse_vibration fl payload t' = Inr (p\<lparr>nt_received_at := t'\<rparr>)"
proof -
  have ok: "set (map fst payload) = set vibration_keys"
    "json_eq_int (dget payload ''v'') 1" "json_eq_int (dget payload ''a'') 1"
    using assms by (auto simp: parse_vibration_def split: if_splits)
  have "bind_result (in_int_set (dget payload ''q'') [0, 1]) (\<lambda>known.
        if \<not> known then Inl (TelemetryParseError ''vibration validity is invalid'')
        else bind_result (parse_summary fl payload (json_eq_int (dget payload ''q'') 1)) (\<lambda>summary.
          if vs_window_sequence summary = 0
          then Inl (TelemetryParseError ''vibration window sequence must be positive'')
          else Inr ((telemetry_record payload ''vibration'' t)\<lparr>
                 nt_device_uptime_ms := Some (vs_device_uptime_ms summary),
                 nt_sequence_number := Some (vs_window_sequence summary),
                 nt_vibration := Some summary\<rparr>))) = Inr p"
    using assms ok by (simp add: parse_vibration_def)
  then show ?thesis
    unfolding parse_vibration_def using ok
    by (auto simp: telemetry_record_def elim!: bind_result_follow split: if_splits)
qed

lemma parse_legacy_time:
  "parse_legacy payload t = Inr p \<Longrightarrow> parse_legacy payload t' = Inr (p\<lparr>nt_received_at := t'\<rparr>)"
  unfolding parse_legacy_def Let_def
  by (erule bind_result_follow)+ (auto simp: telemetry_record_def)

lemma parse_versioned_time:
  "parse_versioned payload t = Inr p \<Longrightarrow> parse_versioned payload t' = Inr (p\<lparr>nt_received_at := t'\<rparr>)"
  unfolding parse_versioned_def Let_def
  by (elim bind_result_follow) (auto simp: telemetry_record_def split: if_splits elim!: bind_result_follow)

lemma parse_payload_time:
  "parse_payload fl payload t = Inr p \<Longrightarrow> parse_payload fl payload t' = Inr (p\<lparr>nt_received_at := t'\<rparr>)"
  unfolding parse_payload_def
  by (elim bind_result_follow) (auto split: if_splits intro: parse_vibration_time parse_legacy_time parse_versioned_time)

lemma parse_telemetry_time:
  assumes "parse_telemetry fl loads m raw t = Inr p"
  shows "parse_telemetry fl loads m raw t' = Inr (p\<lparr>nt_received_at := t'\<rparr>)"
proof -
  obtain payload where "loads raw = Some (JObj payload)" "parse_payload fl payload t = Inr p" "length raw \<le> m"
    using assms by (auto simp: parse_telemetry_def split: if_splits option.splits json.splits)
  then show ?thesis by (simp add: parse_telemetry_def parse_payload_time)
qed

lemma dedupe_key_time: "dedupe_key digest (p\<lparr>nt_received_at := t\<rparr>) raw = dedupe_key digest p raw"
  by (simp add: dedupe_key_def split: option.split)

section \<open>Sequences of packets\<close>

record packet =
  pt_node_id :: string
  pt_raw :: string
  pt_fresh :: string
  pt_uuid :: "nat \<Rightarrow> string"
  pt_now :: time

definition ingest_step :: "(real \<Rightarrow> real) \<Rightarrow> ingest_environment \<Rightarrow> packet \<Rightarrow> telemetry_service \<times> db \<Rightarrow> telemetry_service \<times> db" where
  "ingest_step fl env p st =
     (case ingest fl env (fst st) (snd st) (pt_node_id p) (pt_raw p) (pt_fresh p) (pt_uuid p) (pt_now p) of
        (r, svc', s', ms) \<Rightarrow> (svc', s'))"

lemma ingest_step_dedupe:
  "ts_dedupe (fst (ingest_step fl env p st)) = ts_dedupe (fst st)
   \<or> (\<exists>key. ts_dedupe (fst (ingest_step fl env p st)) = ts_dedupe (remember (fst st) (pt_node_id p) key))"
proof -
  obtain r svc' s' ms where run:
    "ingest fl env (fst st) (snd st) (pt_node_id p) (pt_raw p) (pt_fresh p) (pt_uuid p) (pt_now p) = (r, svc', s', ms)"
    by (metis prod_cases4)
  show ?thesis by (cases rule: ingest_cases[OF run]) (auto simp: ingest_step_def run)
qed

lemma recent_cong: "ts_dedupe svc' = ts_dedupe svc \<Longrightarrow> recent svc' d key n = recent svc d key n"
  by (simp add: recent_def dedupe_cache_def)

lemma recent_ingest_step:
  assumes "recent (fst st) d key n" "n < 255"
  shows "recent (fst (ingest_step fl env p st)) d key (Suc n)"
  using ingest_step_dedupe[of fl env p st]
proof
  assume "ts_dedupe (fst (ingest_step fl env p st)) = ts_dedupe (fst st)"
  from recent_cong[OF this] assms(1) show ?thesis by (auto intro: recent_mono)
next
  assume "\<exists>key'. ts_dedupe (fst (ingest_step fl env p st)) = ts_dedupe (remember (fst st) (pt_node_id p) key')"
  then obtain key' where "ts_dedupe (fst (ingest_step fl env p st)) = ts_dedupe (remember (fst st) (pt_node_id p) key')" ..
  from recent_cong[OF this] recent_remember_other[OF assms] show ?thesis by simp
qed

lemma recent_ingest_steps:
  "recent (fst st) d key n \<Longrightarrow> n + length ps \<le> 255 \<Longrightarrow>
   recent (fst (fold (ingest_step fl env) ps st)) d key (n + length ps)"
proof (induction ps arbitrary: st n)
  case Nil
  then show ?case by simp
next
  case (Cons p ps)
  have "recent (fst (ingest_step fl env p st)) d key (Suc n)"
    using Cons.prems by (intro recent_ingest_step) auto
  from Cons.IH[OF this] Cons.prems show ?case by simp
qed

lemma ingest_duplicate:
  assumes "parse_telemetry fl (ie_loads env) (ie_max_payload_bytes env) raw t = Inr payload"
    and "nt_device_id payload = None \<or> nt_device_id payload = Some node_id"
    and "is_duplicate svc node_id (dedupe_key (ie_digest env) payload raw)"
  shows "\<exists>svc'. ingest fl env svc s node_id raw fresh uuid now = (Inr [], svc', s, [])"
  using parse_telemetry_time[OF assms(1), of now] assms(2,3)
  by (auto simp: ingest_def Let_def dedupe_key_time)


text \<open>C26. Rejecting a packet has no effect beyond the counters and the boot session: when \<open>ingest\<close> raises, for
  whatever reason, the database is unchanged, nothing is broadcast, and the packet is not remembered,
  so that a retry is processed again.\<close>

theorem ingest_failure_atomic:
  assumes "ingest fl env svc s node_id raw fresh uuid now = (Inl e, svc', s', ms)"
  shows "s' = s \<and> ms = [] \<and> (\<forall>d. dedupe_cache svc' d = dedupe_cache svc d)"
  using assms by (cases rule: ingest_cases) (auto simp: dedupe_cache_def)

lemma ingest_cache_inv:
  assumes "cache_inv (fst st)"
  shows "cache_inv (fst (ingest_step fl env p st))"
  using ingest_step_dedupe[of fl env p st]
proof
  assume "ts_dedupe (fst (ingest_step fl env p st)) = ts_dedupe (fst st)"
  then show ?thesis using assms by (simp add: cache_inv_def dedupe_cache_def)
next
  assume "\<exists>key. ts_dedupe (fst (ingest_step fl env p st)) = ts_dedupe (remember (fst st) (pt_node_id p) key)"
  then obtain key where "ts_dedupe (fst (ingest_step fl env p st)) = ts_dedupe (remember (fst st) (pt_node_id p) key)" ..
  then show ?thesis using cache_inv_remember[OF assms, of "pt_node_id p" key] by (simp add: cache_inv_def dedupe_cache_def)
qed

lemma ingest_cache_inv_fold: "cache_inv (fst st) \<Longrightarrow> cache_inv (fst (fold (ingest_step fl env) ps st))"
  by (induction ps arbitrary: st) (simp_all add: ingest_cache_inv)

section \<open>What a stored packet looks like\<close>

lemma reading_rows_all2:
  "reading_rows fl ctx device caps active payload first uuid k chs = Inr rows \<Longrightarrow>
   list_all2 (\<lambda>(name, channel) g. rg_channel g = name \<and> rg_registered_device_id g = rd_id device
       \<and> rg_session_id g = pk_session_id ctx \<and> rg_sequence_number g = nt_sequence_number payload
       \<and> rg_received_at g = nt_received_at payload
       \<and> rg_quality g = (case channel of None \<Rightarrow> ''good'' | Some c \<Rightarrow> cv_quality c)
       \<and> Inr (rg_normalized_value g) = (case channel of None \<Rightarrow> Inr None | Some c \<Rightarrow> numeric_value fl (cv_value c))
       \<and> rg_interface_id g = channel_interface caps name
       \<and> rg_installation_id g = map_option si_installation_id (installation_on active (channel_interface caps name))) chs rows
   \<and> map rg_id rows = map (\<lambda>i. first + int i) [k..<k + length chs]"
proof (induction chs arbitrary: k rows)
  case Nil
  then show ?case by simp
next
  case (Cons ch chs)
  obtain name channel where ch: "ch = (name, channel)" by (cases ch)
  obtain row rest where row: "reading_row fl ctx device caps active payload (first + int k) (uuid k) name channel = Inr row"
    and rest: "reading_rows fl ctx device caps active payload first uuid (Suc k) chs = Inr rest" and rows: "rows = row # rest"
    using Cons.prems by (auto simp: ch bind_result_Inr_iff)
  have id: "rg_id row = first + int k"
    using row by (auto simp: reading_row_def bind_result_Inr_iff Let_def)
  have r: "rg_channel row = name \<and> rg_registered_device_id row = rd_id device
       \<and> rg_session_id row = pk_session_id ctx \<and> rg_sequence_number row = nt_sequence_number payload
       \<and> rg_received_at row = nt_received_at payload
       \<and> rg_quality row = (case channel of None \<Rightarrow> ''good'' | Some c \<Rightarrow> cv_quality c)
       \<and> Inr (rg_normalized_value row) = (case channel of None \<Rightarrow> Inr None | Some c \<Rightarrow> numeric_value fl (cv_value c))
       \<and> rg_interface_id row = channel_interface caps name
       \<and> rg_installation_id row = map_option si_installation_id (installation_on active (channel_interface caps name))"
    using row by (auto simp: reading_row_def bind_result_Inr_iff Let_def)
  have "[k..<k + length (ch # chs)] = k # [Suc k..<Suc k + length chs]" by (subst upt_conv_Cons) simp_all
  with Cons.IH[OF rest] r id rows ch show ?case by simp
qed

lemma insert_conflicts_append:
  "\<not> insert_conflicts stored rows \<Longrightarrow> sorted_wrt (\<lambda>a b. \<not> readings_conflict a b) stored \<Longrightarrow>
   sorted_wrt (\<lambda>a b. \<not> readings_conflict a b) (stored @ rows)"
proof (induction rows arbitrary: stored)
  case Nil
  then show ?case by simp
next
  case (Cons r rows)
  have "sorted_wrt (\<lambda>a b. \<not> readings_conflict a b) (stored @ [r])"
    using Cons.prems by (auto simp: sorted_wrt_append)
  from Cons.IH[OF _ this] Cons.prems show ?case by simp
qed

text \<open>The constraints of the table: distinct keys and no conflicting pair.\<close>

definition readings_unique :: "db \<Rightarrow> bool" where
  "readings_unique s =
     (distinct (map rg_id (readings s)) \<and> sorted_wrt (\<lambda>a b. \<not> readings_conflict a b) (readings s))"

lemma next_ids_fresh:
  assumes "distinct (map key rows)"
    and "map key new = map (\<lambda>i. next_id key rows + int i) [0..<n]"
  shows "distinct (map key (rows @ new))"
proof -
  have "distinct (map key new)" unfolding assms(2) by (simp add: distinct_map inj_on_def)
  moreover have "k \<ge> next_id key rows" if "k \<in> set (map key new)" for k
    using that unfolding assms(2) by auto
  moreover have "k < next_id key rows" if "k \<in> set (map key rows)" for k
    using that next_id_fresh[of _ rows key] by auto
  ultimately show ?thesis using assms(1) by fastforce
qed

lemma persist_unique:
  assumes "readings_unique s" "persist fl s node_id payload ctx uuid now = (r, s')"
  shows "readings_unique s'"
proof (cases r)
  case (Inl e)
  with assms(2) have "s' = s" by (auto dest: persist_error_unchanged)
  with assms(1) show ?thesis by simp
next
  case (Inr rows)
  obtain device caps active where
    rows: "reading_rows fl ctx device caps active payload (next_id rg_id (readings s)) uuid 0 (stored_channels payload) = Inr rows"
    and new: "\<not> insert_conflicts (readings s) rows" "readings s' = readings s @ rows"
    using assms(2) Inr by (auto simp: persist_def Let_def split: option.splits if_splits sum.splits)
  have "map rg_id rows = map (\<lambda>i. next_id rg_id (readings s) + int i) [0..<length (stored_channels payload)]"
    using reading_rows_all2[OF rows] by simp
  from next_ids_fresh[OF _ this] insert_conflicts_append[OF new(1)] assms(1) new(2) show ?thesis
    by (simp add: readings_unique_def)
qed

lemma ingest_vibration_readings:
  "ingest_vibration fl env svc s node_id payload session_id key uuid now = (r, svc', s', ms) \<Longrightarrow> readings s' = readings s"
  using ingest_vibration_cases by fastforce

lemma ingest_unique:
  assumes "readings_unique s" "ingest fl env svc s node_id raw fresh uuid now = (r, svc', s', ms)"
  shows "readings_unique s'"
proof -
  consider "readings s' = readings s" | payload ctx q where "persist fl s node_id payload ctx uuid now = (q, s')"
    using assms(2)
    by (auto simp: ingest_def Let_def split: sum.splits if_splits prod.splits dest: ingest_vibration_readings)
  then show ?thesis
  proof cases
    case 1
    with assms(1) show ?thesis by (simp add: readings_unique_def)
  next
    case 2
    from persist_unique[OF assms(1) this] show ?thesis .
  qed
qed

text \<open>C27. Whatever packets arrive, in whatever order and repeated however often, the table of readings never
  holds two rows for the same device, boot session, sequence number and channel, nor two rows with the
  same identifier, and no node's deduplication cache holds more than 256 keys or a key twice.\<close>

theorem ingest_invariant:
  assumes "readings_unique s" "cache_inv svc"
  shows "readings_unique (snd (fold (ingest_step fl env) packets (svc, s)))
    \<and> cache_inv (fst (fold (ingest_step fl env) packets (svc, s)))"
proof -
  have "readings_unique (snd (ingest_step fl env p st))" if "readings_unique (snd st)" for p st
    using that ingest_unique[OF that] by (auto simp: ingest_step_def split: prod.splits)
  then have "readings_unique (snd st) \<Longrightarrow> readings_unique (snd (fold (ingest_step fl env) packets st))" for st
    by (induction packets arbitrary: st) simp_all
  with assms ingest_cache_inv_fold[of "(svc, s)"] show ?thesis by simp
qed

text \<open>A measurement packet that is stored yields exactly one reading per channel of the packet (one for the
  event when it has none), in order, each with the channel's converted value and quality and with the
  installation that is active on the channel's interface; the readings are appended to the table, and the
  device is marked connected at the packet's time.\<close>

theorem persist_stores_packet:
  assumes "persist fl s node_id payload ctx uuid now = (Inr rows, s')"
  shows "readings s' = readings s @ rows
    \<and> (\<exists>d. get_device s node_id = Some d \<and> rd_enabled d \<and> \<not> rd_archived d \<and> rd_lifecycle_state d \<noteq> ''removed''
        \<and> get_device s' node_id = Some (d\<lparr>rd_connection_status := ''connected'',
             rd_last_seen_at := Some (nt_received_at payload), rd_updated_at := now\<rparr>)
        \<and> list_all2 (\<lambda>(name, channel) g. rg_channel g = name \<and> rg_registered_device_id g = rd_id d
             \<and> rg_session_id g = pk_session_id ctx \<and> rg_sequence_number g = nt_sequence_number payload
             \<and> rg_received_at g = nt_received_at payload
             \<and> rg_quality g = (case channel of None \<Rightarrow> ''good'' | Some c \<Rightarrow> cv_quality c)
             \<and> Inr (rg_normalized_value g) = (case channel of None \<Rightarrow> Inr None | Some c \<Rightarrow> numeric_value fl (cv_value c))
             \<and> rg_interface_id g = channel_interface (capabilities_for d) name
             \<and> rg_installation_id g = map_option si_installation_id
                  (installation_on (active_installations s node_id) (channel_interface (capabilities_for d) name)))
            (stored_channels payload) rows)"
proof -
  obtain d where d: "get_device s node_id = Some d" "rd_enabled d" "\<not> rd_archived d" "rd_lifecycle_state d \<noteq> ''removed''"
    using assms by (auto simp: persist_def split: option.splits if_splits)
  let ?f = "\<lambda>d. d\<lparr>rd_connection_status := ''connected'', rd_last_seen_at := Some (nt_received_at payload), rd_updated_at := now\<rparr>"
  have caps: "capability_get s node_id = Inr (capabilities_for d)" using d by (simp add: capability_get_def)
  have rows: "reading_rows fl ctx d (capabilities_for d) (active_installations s node_id) payload
      (next_id rg_id (readings s)) uuid 0 (stored_channels payload) = Inr rows"
    and s': "readings s' = readings s @ rows" "registered_devices s' = registered_devices (upd_device s node_id ?f)"
    using assms d caps by (auto simp: persist_def Let_def split: if_splits sum.splits)
  have "get_device (upd_device s node_id ?f) node_id = Some (?f d)"
    using devices.get_upd_same[of ?f, OF _ d(1)] by simp
  with s'(2) have "get_device s' node_id = Some (?f d)" by (simp add: get_device_def)
  with d s'(1) reading_rows_all2[OF rows] show ?thesis by blast
qed

section \<open>Sample packets\<close>

definition sample_environment :: ingest_environment where
  "sample_environment = \<lparr>ie_loads = (\<lambda>raw. if raw = ''boot event'' then
       Some (JObj [(''t'', JStr ''e''), (''v'', JInt 1), (''s'', JInt 5), (''e'', JStr ''boot'')]) else None),
     ie_dumps = (\<lambda>_. Inr ''{}''), ie_digest = (\<lambda>_. ''''), ie_gateway_id = ''GW'', ie_max_payload_bytes = 2048,
     ie_max_payload_json_bytes = 4096, ie_vibration = sample_vibration_settings\<rparr>"

definition sample_service :: telemetry_service where
  "sample_service = \<lparr>ts_sessions = Map.empty, ts_dedupe = Map.empty,
     ts_counters = \<lparr>vn_received = 0, vn_duplicates = 0, vn_rejected = 0, vn_baseline_eligible = 0,
       vn_baseline_excluded = 0, vn_database_writes = 0\<rparr>\<rparr>"

definition sample_event :: normalized_telemetry where
  "sample_event = (telemetry_record [(''t'', JStr ''e''), (''v'', JInt 1), (''s'', JInt 5), (''e'', JStr ''boot'')]
     ''event'' 100)\<lparr>nt_sequence_number := Some 5, nt_event := Some ''boot''\<rparr>"

lemma sample_parse:
  "parse_telemetry id (ie_loads sample_environment) 2048 ''boot event'' 100 = Inr sample_event"
  unfolding sample_environment_def sample_event_def
  by code_simp

lemma sample_persist:
  "\<exists>rows s'. persist id sample_vibration_db ''NODE-1'' sample_event
      \<lparr>pk_gateway_id = ''GW'', pk_session_id = ''boot-1'', pk_measured_at = None\<rparr> (\<lambda>_. ''u'') 100 = (Inr rows, s')"
  by (simp add: persist_def sample_vibration_db_def empty_db_def get_device_def device_defaults_def capability_get_def
      sample_event_def telemetry_record_def stored_channels_def reading_row_def Let_def)

lemma sample_ingest:
  "\<exists>rows svc' s'. ingest id sample_environment sample_service sample_vibration_db ''NODE-1'' ''boot event'' ''boot-1'' (\<lambda>_. ''u'') 100
     = (Inr rows, svc', s', [ChannelMessage ''NODE-1'' sample_event])"
proof -
  have e: "nt_device_id sample_event = None" "nt_record_type sample_event = ''event''" "nt_device_uptime_ms sample_event = None"
    by (simp_all add: sample_event_def telemetry_record_def)
  have env: "ie_dumps sample_environment d = Inr ''{}''" "ie_max_payload_json_bytes sample_environment = 4096"
    "ie_max_payload_bytes sample_environment = 2048" "ie_gateway_id sample_environment = ''GW''" for d
    by (simp_all add: sample_environment_def)
  have "\<not> is_duplicate sample_service ''NODE-1'' key" for key
    by (simp add: is_duplicate_def dedupe_cache_def sample_service_def)
  moreover obtain rows s' where "persist id sample_vibration_db ''NODE-1'' sample_event
      \<lparr>pk_gateway_id = ''GW'', pk_session_id = ''boot-1'', pk_measured_at = None\<rparr> (\<lambda>_. ''u'') 100 = (Inr rows, s')"
    using sample_persist by blast
  ultimately show ?thesis
    by (simp add: ingest_def env sample_parse e session_for_def sample_service_def Let_def)
qed


theorem ingest_failure_atomic_witness:
  "\<exists>e svc'. ingest id sample_environment sample_service sample_vibration_db ''NODE-1'' ''garbage'' ''boot-1'' (\<lambda>_. ''u'') 100
     = (Inl e, svc', sample_vibration_db, []) \<and> dedupe_cache svc' ''NODE-1'' = []"
proof -
  have run: "ingest id sample_environment sample_service sample_vibration_db ''NODE-1'' ''garbage'' ''boot-1'' (\<lambda>_. ''u'') 100
     = (Inl (TelemetryParseError ''payload is not valid UTF-8 JSON''), sample_service, sample_vibration_db, [])"
    by (simp add: ingest_def parse_telemetry_def sample_environment_def)
  from ingest_failure_atomic[OF run] run show ?thesis by (simp add: dedupe_cache_def sample_service_def)
qed

theorem ingest_invariant_witness:
  "readings_unique (snd (fold (ingest_step id sample_environment)
     [\<lparr>pt_node_id = ''NODE-1'', pt_raw = ''boot event'', pt_fresh = ''boot-1'', pt_uuid = \<lambda>_. ''u'', pt_now = 100\<rparr>,
      \<lparr>pt_node_id = ''NODE-1'', pt_raw = ''boot event'', pt_fresh = ''boot-2'', pt_uuid = \<lambda>_. ''v'', pt_now = 200\<rparr>]
     (sample_service, sample_vibration_db)))"
proof -
  have "readings_unique sample_vibration_db" by (simp add: readings_unique_def sample_vibration_db_def empty_db_def)
  moreover have "cache_inv sample_service" by (simp add: cache_inv_def dedupe_cache_def sample_service_def)
  ultimately show ?thesis using ingest_invariant by blast
qed

theorem persist_stores_packet_witness:
  "\<exists>g s'. persist id sample_vibration_db ''NODE-1'' sample_event
      \<lparr>pk_gateway_id = ''GW'', pk_session_id = ''boot-1'', pk_measured_at = None\<rparr> (\<lambda>_. ''u'') 100 = (Inr [g], s')
     \<and> readings s' = [g] \<and> rg_channel g = ''boot'' \<and> rg_sequence_number g = Some 5"
proof -
  obtain rows s' where run: "persist id sample_vibration_db ''NODE-1'' sample_event
      \<lparr>pk_gateway_id = ''GW'', pk_session_id = ''boot-1'', pk_measured_at = None\<rparr> (\<lambda>_. ''u'') 100 = (Inr rows, s')"
    using sample_persist by blast
  have ch: "stored_channels sample_event = [(''boot'', None)]"
    by (simp add: stored_channels_def sample_event_def telemetry_record_def)
  have sequence: "nt_sequence_number sample_event = Some 5" by (simp add: sample_event_def)
  have "readings sample_vibration_db = []" by (simp add: sample_vibration_db_def empty_db_def)
  with persist_stores_packet[OF run] run show ?thesis
    by (auto simp: ch list_all2_Cons1 sequence)
qed

section \<open>Retention\<close>

text \<open>Deleting the oldest batch of expired rows by key removes only expired rows, as many as the batch holds.\<close>

definition expired_keys :: "('r \<Rightarrow> int) \<Rightarrow> ('r \<Rightarrow> bool) \<Rightarrow> nat \<Rightarrow> 'r list \<Rightarrow> int list" where
  "expired_keys key old batch rows = take batch (sort (map key (filter old rows)))"

lemma expired_keys_set: "k \<in> set (expired_keys key old batch rows) \<Longrightarrow> \<exists>r \<in> set rows. old r \<and> key r = k"
  unfolding expired_keys_def by (drule in_set_takeD) auto

lemma expired_keys_Nil: "1 \<le> batch \<Longrightarrow> expired_keys key old batch rows = [] \<longleftrightarrow> filter old rows = []"
proof -
  assume "1 \<le> batch"
  moreover have "length (sort (map key (filter old rows))) = length (filter old rows)" by simp
  ultimately show ?thesis unfolding expired_keys_def by (metis One_nat_def Suc_le_eq length_0_conv not_less0 take_eq_Nil)
qed

lemma delete_expired_shrinks:
  assumes "expired_keys key old batch rows \<noteq> []"
  shows "length (filter (\<lambda>r. key r \<notin> set (expired_keys key old batch rows)) rows) < length rows"
proof -
  obtain k where "k \<in> set (expired_keys key old batch rows)" using assms by (meson last_in_set)
  with expired_keys_set[of k key old batch rows] show ?thesis by (auto intro!: length_filter_less)
qed

lemma delete_expired_keeps_fresh:
  assumes "distinct (map key rows)"
  shows "filter (\<lambda>r. \<not> old r) (filter (\<lambda>r. key r \<notin> set (expired_keys key old batch rows)) rows) = filter (\<lambda>r. \<not> old r) rows"
proof -
  have "key r \<notin> set (expired_keys key old batch rows)" if r: "r \<in> set rows" "\<not> old r" for r
  proof
    assume "key r \<in> set (expired_keys key old batch rows)"
    then obtain q where "q \<in> set rows" "old q" "key q = key r" using expired_keys_set by blast
    with r assms have "q = r" by (metis distinct_map inj_onD)
    with \<open>old q\<close> r show False by simp
  qed
  then show ?thesis by (auto simp: intro!: filter_cong)
qed

lemma cleanup_batch_expired:
  "cleanup_batch (Some days) batch s now =
     (let vids = expired_keys vw_id (\<lambda>w. vw_observed_at w < now - days * day) batch (vibration_windows s);
          ids = expired_keys rg_id (\<lambda>r. rg_received_at r < now - days * day) batch (readings s) in
      if vids \<noteq> [] then (length vids, s\<lparr>vibration_windows := filter (\<lambda>w. vw_id w \<notin> set vids) (vibration_windows s)\<rparr>)
      else if ids \<noteq> [] then (length ids, s\<lparr>readings := filter (\<lambda>r. rg_id r \<notin> set ids) (readings s)\<rparr>)
      else (0, s))"
  by (simp add: cleanup_batch_def vibration_ids_def reading_ids_def expired_keys_def Let_def)

text \<open>The batches of the retention task at one reading of the clock, repeated until one deletes nothing.\<close>

function retention_rounds :: "int \<Rightarrow> nat \<Rightarrow> time \<Rightarrow> db \<Rightarrow> db" where
  "retention_rounds days batch now s =
     (case cleanup_batch (Some days) batch s now of
        (deleted, s') \<Rightarrow> if deleted = 0 then s else retention_rounds days batch now s')"
  by pat_completeness auto
termination
proof (relation "measure (\<lambda>(days, batch, now, s). length (vibration_windows s) + length (readings s))", goal_cases)
  case 1
  show ?case by simp
next
  case (2 days batch now s deleted s')
  then show ?case
    using delete_expired_shrinks[of vw_id "\<lambda>w. vw_observed_at w < now - days * day" batch "vibration_windows s"]
      delete_expired_shrinks[of rg_id "\<lambda>r. rg_received_at r < now - days * day" batch "readings s"]
    by (auto simp: cleanup_batch_expired Let_def split: if_splits)
qed

declare retention_rounds.simps [simp del]

definition expired_apart :: "db \<Rightarrow> db \<Rightarrow> time \<Rightarrow> bool" where
  "expired_apart s s' cutoff =
     (filter (\<lambda>w. \<not> vw_observed_at w < cutoff) (vibration_windows s') = filter (\<lambda>w. \<not> vw_observed_at w < cutoff) (vibration_windows s)
      \<and> filter (\<lambda>r. \<not> rg_received_at r < cutoff) (readings s') = filter (\<lambda>r. \<not> rg_received_at r < cutoff) (readings s))"

lemma cleanup_batch_keeps:
  assumes "distinct (map vw_id (vibration_windows s))" "distinct (map rg_id (readings s))"
    and "cleanup_batch (Some days) batch s now = (deleted, s')"
  shows "expired_apart s s' (now - days * day) \<and> deleted \<le> batch
    \<and> distinct (map vw_id (vibration_windows s')) \<and> distinct (map rg_id (readings s'))"
  using assms delete_expired_keeps_fresh[OF assms(1)] delete_expired_keeps_fresh[OF assms(2)]
  by (auto simp: cleanup_batch_expired expired_apart_def Let_def expired_keys_def distinct_map_filter split: if_splits)

lemma cleanup_batch_zero:
  assumes "1 \<le> batch" "cleanup_batch (Some days) batch s now = (0, s')"
  shows "s' = s \<and> filter (\<lambda>w. vw_observed_at w < now - days * day) (vibration_windows s) = []
    \<and> filter (\<lambda>r. rg_received_at r < now - days * day) (readings s) = []"
  using assms by (auto simp: cleanup_batch_expired Let_def expired_keys_Nil split: if_splits)

lemma retention_rounds_result:
  assumes "1 \<le> batch" "distinct (map vw_id (vibration_windows s))" "distinct (map rg_id (readings s))"
  shows "expired_apart s (retention_rounds days batch now s) (now - days * day)
    \<and> fst (cleanup_batch (Some days) batch (retention_rounds days batch now s) now) = 0"
  using assms(2,3)
proof (induction days batch now s rule: retention_rounds.induct)
  case (1 days batch now s)
  obtain deleted s' where run: "cleanup_batch (Some days) batch s now = (deleted, s')" by fastforce
  note keep = cleanup_batch_keeps[OF 1(2,3) run]
  show ?case
  proof (cases "deleted = 0")
    case True
    then show ?thesis using run by (simp add: retention_rounds.simps[of days batch now s] expired_apart_def)
  next
    case False
    with 1(1)[OF run[symmetric]] keep run
    show ?thesis by (simp add: retention_rounds.simps[of days batch now s] expired_apart_def)
  qed
qed

text \<open>C29. Retention converges and is exact: with any positive batch size the repeated batches end, and they end
  with precisely the windows and readings that are not older than the cutoff, in their order; no single
  batch deletes more rows than its size.\<close>

theorem retention_converges:
  assumes "1 \<le> batch" "distinct (map vw_id (vibration_windows s))" "distinct (map rg_id (readings s))"
  shows "vibration_windows (retention_rounds days batch now s)
        = filter (\<lambda>w. now - days * day \<le> vw_observed_at w) (vibration_windows s)
    \<and> readings (retention_rounds days batch now s) = filter (\<lambda>r. now - days * day \<le> rg_received_at r) (readings s)
    \<and> fst (cleanup_batch (Some days) batch s now) \<le> batch"
proof -
  let ?t = "retention_rounds days batch now s"
  have apart: "expired_apart s ?t (now - days * day)"
    and "fst (cleanup_batch (Some days) batch ?t now) = 0"
    using retention_rounds_result[OF assms] by blast+
  then obtain t' where "cleanup_batch (Some days) batch ?t now = (0, t')" by (metis prod.collapse)
  from cleanup_batch_zero[OF assms(1) this] have none:
    "\<forall>w \<in> set (vibration_windows ?t). \<not> vw_observed_at w < now - days * day"
    "\<forall>r \<in> set (readings ?t). \<not> rg_received_at r < now - days * day"
    by (auto simp: filter_empty_conv)
  then have "filter (\<lambda>w. \<not> vw_observed_at w < now - days * day) (vibration_windows ?t) = vibration_windows ?t"
    "filter (\<lambda>r. \<not> rg_received_at r < now - days * day) (readings ?t) = readings ?t"
    by (simp_all add: filter_id_conv)
  with apart have "vibration_windows ?t = filter (\<lambda>w. \<not> vw_observed_at w < now - days * day) (vibration_windows s)"
    "readings ?t = filter (\<lambda>r. \<not> rg_received_at r < now - days * day) (readings s)"
    by (simp_all add: expired_apart_def)
  then show ?thesis
    using cleanup_batch_keeps[OF assms(2,3), of days batch now] by (simp add: not_less) (metis prod.collapse)
qed

theorem retention_converges_witness:
  "map rg_id (readings (retention_rounds 1 1 (3 * day)
      (empty_db\<lparr>readings := [sample_reading 1 0, sample_reading 2 (2 * day), sample_reading 3 day]\<rparr>))) = [2]"
proof -
  let ?s = "empty_db\<lparr>readings := [sample_reading 1 0, sample_reading 2 (2 * day), sample_reading 3 day]\<rparr>"
  have "distinct (map vw_id (vibration_windows ?s))" "distinct (map rg_id (readings ?s))"
    by (simp_all add: empty_db_def sample_reading_def)
  from retention_converges[OF _ this, of 1 1 "3 * day"] show ?thesis
    by (simp add: sample_reading_def day_def)
qed

end
