(* ===== verification/Bootstrap.thy ===== *)
theory Bootstrap
  imports Json
begin

text \<open>
  The USB bootstrap protocol: framing, correlation and validation of \<open>sensor_package/tools/bootstrap/protocol.py\<close>
  and the request loop of \<open>serial_client.py\<close>. The bytes of a line are a text of byte characters; \<open>json.loads\<close>
  (\<open>loads\<close>), the canonical encoding (\<open>canonical\<close>), the digest (\<open>sha256\<close>) and \<open>str\<close> of a decoded value are
  arguments. The serial port is the list of lines it delivers after the request was written; an empty line
  is a read that timed out.
\<close>

section \<open>Framing\<close>

definition PREFIX :: string where
  "PREFIX = ''MG24BOOT1 ''"

definition MAX_LINE_BYTES :: nat where
  "MAX_LINE_BYTES = 768"

definition ALLOWED_ACTIONS :: "string list" where
  "ALLOWED_ACTIONS = [''read_node_state'', ''read_identity'', ''provision_identity'', ''read_configuration'', ''backup_state'',
     ''verify_state'', ''restore_configuration'', ''prepare_factory_reset'', ''confirm_factory_reset'', ''cancel_factory_reset'']"

definition is_token_char :: "char \<Rightarrow> bool" where
  "is_token_char c = (is_upper_digit c \<or> is_lower_alnum c \<or> c = CHR ''_'' \<or> c = CHR ''-'')"

definition valid_bootstrap_id :: "string \<Rightarrow> bool" where
  "valid_bootstrap_id i = (i \<noteq> '''' \<and> length i \<le> 40 \<and> list_all is_token_char i)"

definition confirm_alias :: "string \<Rightarrow> string" where
  "confirm_alias k =
     (case map_of [(''reset_protocol_version'', ''rv''), (''scope'', ''s''), (''expected_hardware_id'', ''h''),
                   (''operation_id'', ''op''), (''challenge'', ''c'')] k of None \<Rightarrow> k | Some a \<Rightarrow> a)"

text \<open>\<open>body.update\<close> and the unpacking of \<open>**fields\<close> overwrite keys in place.\<close>

definition request_body :: "string \<Rightarrow> string \<Rightarrow> dict \<Rightarrow> dict" where
  "request_body request_id action fields =
     (if action = ''confirm_factory_reset''
      then fold (\<lambda>(k, v) b. dput b (confirm_alias k) v) fields
             [(''t'', JStr ''bootstrap_request''), (''v'', JInt 1), (''id'', JStr request_id), (''a'', JStr action)]
      else fold (\<lambda>(k, v) b. dput b k v) fields
             [(''type'', JStr ''bootstrap_request''), (''schema_version'', JInt 1), (''request_id'', JStr request_id),
              (''action'', JStr action)])"

definition encode_request :: "(dict \<Rightarrow> string) \<Rightarrow> string \<Rightarrow> string \<Rightarrow> dict \<Rightarrow> string result" where
  "encode_request canonical request_id action fields =
     (if \<not> valid_bootstrap_id request_id then Inl (ProtocolError ''invalid request_id'')
      else if action \<notin> set ALLOWED_ACTIONS then Inl (ProtocolError ''unknown action'')
      else
        let line = PREFIX @ canonical (request_body request_id action fields) @ [char_of (10 :: nat)] in
        if length line > MAX_LINE_BYTES then Inl (ProtocolError ''request exceeds line limit'') else Inr line)"

definition required_keys :: "string list" where
  "required_keys = [''type'', ''schema_version'', ''request_id'', ''action'', ''status'']"

definition decode_response :: "(string \<Rightarrow> json option) \<Rightarrow> string \<Rightarrow> string \<Rightarrow> string \<Rightarrow> dict result" where
  "decode_response loads line request_id action =
     (if length line > MAX_LINE_BYTES \<or> \<not> starts_with PREFIX line then Inl (ProtocolError ''invalid response framing'')
      else case loads (drop (length PREFIX) line) of
        None \<Rightarrow> Inl (ProtocolError ''malformed response'')
      | Some (JObj body) \<Rightarrow>
          if \<not> list_all (has_key body) required_keys then Inl (ProtocolError ''incomplete response'')
          else if dget body ''type'' \<noteq> JStr ''bootstrap_response'' \<or> \<not> json_eq_int (dget body ''schema_version'') 1
          then Inl (ProtocolError ''unsupported response'')
          else if dget body ''request_id'' \<noteq> JStr request_id \<or> dget body ''action'' \<noteq> JStr action
          then Inl (ProtocolError ''response correlation mismatch'')
          else bind_result (in_str_set (dget body ''status'') [''success'', ''error'']) (\<lambda>known.
                 if known then Inr body else Inl (ProtocolError ''invalid response status''))
      | Some _ \<Rightarrow> Inl (ProtocolError ''incomplete response''))"

section \<open>Backups\<close>

definition drop_key :: "string \<Rightarrow> dict \<Rightarrow> dict" where
  "drop_key k d = filter (\<lambda>(k', _). k' \<noteq> k) d"

definition content_hash :: "(dict \<Rightarrow> string) \<Rightarrow> (string \<Rightarrow> string) \<Rightarrow> dict \<Rightarrow> string" where
  "content_hash canonical sha256 d = sha256 (canonical (drop_key ''canonical_content_hash'' d))"

definition node_id_text :: "string \<Rightarrow> bool" where
  "node_id_text s = list_all (\<lambda>part. part \<noteq> '''' \<and> list_all is_upper_digit part) (split_on (CHR ''-'') s)"

definition validate_backup :: "(dict \<Rightarrow> string) \<Rightarrow> (string \<Rightarrow> string) \<Rightarrow> dict \<Rightarrow> unit result" where
  "validate_backup canonical sha256 backup =
     (if \<not> json_eq_int (dget backup ''backup_schema_version'') 1
         \<or> \<not> list_all (has_key backup) [''backup_schema_version'', ''created_at_utc'', ''source_node_id'', ''identity_included'',
              ''state'', ''canonical_content_hash'']
      then Inl (ProtocolError ''invalid backup schema'')
      else case dget backup ''source_node_id'' of
        JNull \<Rightarrow> if dget backup ''canonical_content_hash'' \<noteq> JStr (content_hash canonical sha256 backup)
                then Inl (ProtocolError ''backup hash mismatch'') else Inr ()
      | JStr i \<Rightarrow> if \<not> node_id_text i then Inl (ProtocolError ''invalid backup node_id'')
                 else if dget backup ''canonical_content_hash'' \<noteq> JStr (content_hash canonical sha256 backup)
                 then Inl (ProtocolError ''backup hash mismatch'') else Inr ()
      | _ \<Rightarrow> Inl (TypeError ''expected string or bytes-like object''))"

section \<open>The request loop\<close>

text \<open>At most 64 lines are read; lines without the prefix and answers to earlier requests are skipped.\<close>

fun read_response ::
  "(string \<Rightarrow> json option) \<Rightarrow> (json \<Rightarrow> string) \<Rightarrow> nat \<Rightarrow> string list \<Rightarrow> string \<Rightarrow> string \<Rightarrow> dict result" where
  "read_response loads str 0 lines request_id action = Inl (ProtocolError ''bootstrap response timeout'')"
| "read_response loads str (Suc n) [] request_id action = Inl (ProtocolError ''bootstrap response timeout'')"
| "read_response loads str (Suc n) (line # lines) request_id action =
     (if line = '''' then Inl (ProtocolError ''bootstrap response timeout'')
      else if \<not> starts_with PREFIX line then read_response loads str n lines request_id action
      else case decode_response loads line request_id action of
        Inl e \<Rightarrow> if e = ProtocolError ''response correlation mismatch''
                then read_response loads str n lines request_id action else Inl e
      | Inr response \<Rightarrow>
          if dget response ''status'' = JStr ''error''
          then Inl (ProtocolError (str (dget_default response ''error_code'' (JStr ''device_error''))))
          else Inr response)"

definition client_request ::
  "(dict \<Rightarrow> string) \<Rightarrow> (string \<Rightarrow> json option) \<Rightarrow> (json \<Rightarrow> string) \<Rightarrow> string \<Rightarrow> string \<Rightarrow> dict \<Rightarrow> string list \<Rightarrow> dict result" where
  "client_request canonical loads str request_id action fields lines =
     bind_result (encode_request canonical request_id action fields) (\<lambda>_.
       read_response loads str 64 lines request_id action)"

section \<open>Backing up and restoring a node\<close>

text \<open>The backup of the command line tool: without \<open>--include-identity\<close> the node identifier is blanked in the state.\<close>

definition make_backup :: "(dict \<Rightarrow> string) \<Rightarrow> (string \<Rightarrow> string) \<Rightarrow> dict \<Rightarrow> string \<Rightarrow> bool \<Rightarrow> dict" where
  "make_backup canonical sha256 node_state created include_identity =
     (let backup = [(''backup_schema_version'', JInt 1), (''created_at_utc'', JStr created),
            (''source_node_id'', dget node_state ''node_id''), (''identity_included'', JBool include_identity),
            (''state'', JObj (if include_identity then node_state else dput node_state ''node_id'' JNull))]
      in dput backup ''canonical_content_hash'' (JStr (content_hash canonical sha256 backup)))"

definition restore_keys :: "string list" where
  "restore_keys = [''sample_interval_ms'', ''processing_interval_ms'', ''report_interval_ms'', ''heartbeat_interval_ms'',
     ''filter_type'', ''filter_window'', ''enabled'']"

text \<open>The fields a confirmed restore sends; the state and the configuration are objects.\<close>

definition restore_fields :: "dict \<Rightarrow> dict result" where
  "restore_fields backup =
     (case dget backup ''state'' of
        JObj st \<Rightarrow>
          (let cfg = (if json_truthy (dget st ''configuration'') then dget st ''configuration'' else JObj st) in
           case cfg of
             JObj c \<Rightarrow>
               let allowed = map (\<lambda>k. (k, dget c k)) (filter (has_key c) restore_keys) in
               if length allowed \<noteq> 7 then Inl (ProtocolError ''backup has no restorable configuration'') else Inr allowed
           | _ \<Rightarrow> Inl (TypeError ''configuration is not an object''))
      | _ \<Rightarrow> Inl (AttributeError ''get''))"

section \<open>Correlation of answers\<close>

lemma decode_response_correlated:
  assumes "decode_response loads line request_id action = Inr body"
  shows "dget body ''request_id'' = JStr request_id \<and> dget body ''action'' = JStr action
    \<and> dget body ''type'' = JStr ''bootstrap_response'' \<and> json_eq_int (dget body ''schema_version'') 1
    \<and> starts_with PREFIX line \<and> length line \<le> MAX_LINE_BYTES
    \<and> dget body ''status'' \<in> {JStr ''success'', JStr ''error''}"
  using assms unfolding decode_response_def
  by (auto simp: bind_result_Inr_iff in_str_set_def split: if_splits option.splits json.splits)

lemma read_response_Inr:
  "read_response loads str n lines request_id action = Inr r \<Longrightarrow>
   \<exists>i < length lines. i < n \<and> decode_response loads (lines ! i) request_id action = Inr r
     \<and> dget r ''status'' \<noteq> JStr ''error''
     \<and> (\<forall>j < i. \<not> starts_with PREFIX (lines ! j)
          \<or> decode_response loads (lines ! j) request_id action = Inl (ProtocolError ''response correlation mismatch''))"
proof (induction loads str n lines request_id action rule: read_response.induct)
  case (3 loads str n line lines request_id action)
  show ?case
  proof (cases "read_response loads str n lines request_id action = Inr r
      \<and> (\<not> starts_with PREFIX line
         \<or> decode_response loads line request_id action = Inl (ProtocolError ''response correlation mismatch''))")
    case True
    with 3 obtain i where i: "i < length lines" "i < n" "decode_response loads (lines ! i) request_id action = Inr r"
      "dget r ''status'' \<noteq> JStr ''error''"
      "\<forall>j < i. \<not> starts_with PREFIX (lines ! j)
          \<or> decode_response loads (lines ! j) request_id action = Inl (ProtocolError ''response correlation mismatch'')"
      by (auto split: if_splits sum.splits)
    then show ?thesis
      using True by (intro exI[of _ "Suc i"]) (auto simp: less_Suc_eq_0_disj)
  next
    case False
    with "3.prems" have "decode_response loads line request_id action = Inr r" "dget r ''status'' \<noteq> JStr ''error''"
      by (auto split: if_splits sum.splits)
    then show ?thesis by (intro exI[of _ 0]) simp
  qed
qed simp_all

text \<open>A bootstrap request never takes another request's answer for its own: what it returns was decoded from
  one of the first 64 lines, carries the request's own identifier and action and the status success,
  and everything read before it was either no protocol line or an answer to a different request.\<close>

theorem client_request_correlated:
  assumes "client_request canonical loads str request_id action fields lines = Inr r"
  shows "dget r ''request_id'' = JStr request_id \<and> dget r ''action'' = JStr action \<and> dget r ''status'' = JStr ''success''
    \<and> action \<in> set ALLOWED_ACTIONS
    \<and> (\<exists>i < length lines. i < 64 \<and> decode_response loads (lines ! i) request_id action = Inr r
        \<and> (\<forall>j < i. \<not> starts_with PREFIX (lines ! j)
              \<or> decode_response loads (lines ! j) request_id action = Inl (ProtocolError ''response correlation mismatch'')))"
proof -
  have run: "read_response loads str 64 lines request_id action = Inr r" and "action \<in> set ALLOWED_ACTIONS"
    using assms by (auto simp: client_request_def encode_request_def bind_result_Inr_iff Let_def split: if_splits)
  with read_response_Inr[OF run] decode_response_correlated show ?thesis by blast
qed

definition sample_loads :: "string \<Rightarrow> json option" where
  "sample_loads text =
     (if text = ''late'' then Some (JObj [(''type'', JStr ''bootstrap_response''), (''schema_version'', JInt 1),
          (''request_id'', JStr ''r0''), (''action'', JStr ''read_identity''), (''status'', JStr ''success'')])
      else if text = ''mine'' then Some (JObj [(''type'', JStr ''bootstrap_response''), (''schema_version'', JInt 1),
          (''request_id'', JStr ''r1''), (''action'', JStr ''read_identity''), (''status'', JStr ''success''),
          (''result'', JObj [])])
      else None)"

lemma sample_client_request:
  "client_request (\<lambda>_. ''{}'') sample_loads (\<lambda>_. '''') ''r1'' ''read_identity'' [] [''boot log'', PREFIX @ ''late'', PREFIX @ ''mine'']
     = Inr [(''type'', JStr ''bootstrap_response''), (''schema_version'', JInt 1), (''request_id'', JStr ''r1''),
            (''action'', JStr ''read_identity''), (''status'', JStr ''success''), (''result'', JObj [])]"
  by code_simp

theorem client_request_correlated_witness:
  "\<exists>r. client_request (\<lambda>_. ''{}'') sample_loads (\<lambda>_. '''') ''r1'' ''read_identity'' []
         [''boot log'', PREFIX @ ''late'', PREFIX @ ''mine''] = Inr r
     \<and> dget r ''request_id'' = JStr ''r1''"
  using client_request_correlated[OF sample_client_request] sample_client_request by blast

section \<open>Backups round trip\<close>

lemma drop_key_dput: "drop_key k (dput d k v) = drop_key k d"
  unfolding drop_key_def by (induction d k v rule: dput.induct) auto

lemma content_hash_dput:
  "content_hash canonical sha256 (dput d ''canonical_content_hash'' v) = content_hash canonical sha256 d"
  by (simp add: content_hash_def drop_key_dput)

text \<open>A backup written by the tool passes its own validation, whatever the digest, provided the node reports no
  identifier or a well-formed one; with identity excluded the state of the backup holds no identifier; and
  changing any other key of a backup without changing the digest of its content is the only way an
  altered backup validates.\<close>

theorem backup_roundtrip:
  assumes "dget node_state ''node_id'' = JNull \<or> (\<exists>i. dget node_state ''node_id'' = JStr i \<and> node_id_text i)"
  shows "validate_backup canonical sha256 (make_backup canonical sha256 node_state created include_identity) = Inr ()
    \<and> (\<not> include_identity \<longrightarrow> (\<exists>st. dget (make_backup canonical sha256 node_state created include_identity) ''state'' = JObj st
          \<and> dget st ''node_id'' = JNull))
    \<and> (\<forall>k v. k \<noteq> ''canonical_content_hash'' \<longrightarrow>
         is_ok (validate_backup canonical sha256 (dput (make_backup canonical sha256 node_state created include_identity) k v)) \<longrightarrow>
         content_hash canonical sha256 (dput (make_backup canonical sha256 node_state created include_identity) k v)
           = content_hash canonical sha256 (make_backup canonical sha256 node_state created include_identity))"
proof -
  let ?b = "make_backup canonical sha256 node_state created include_identity"
  have hash: "dget ?b ''canonical_content_hash'' = JStr (content_hash canonical sha256 ?b)"
    by (simp add: make_backup_def Let_def content_hash_dput dget_dput del: dput.simps)
  have keys: "list_all (has_key ?b) [''backup_schema_version'', ''created_at_utc'', ''source_node_id'', ''identity_included'',
              ''state'', ''canonical_content_hash'']" "json_eq_int (dget ?b ''backup_schema_version'') 1"
    "dget ?b ''source_node_id'' = dget node_state ''node_id''"
    "dget ?b ''state'' = JObj (if include_identity then node_state else dput node_state ''node_id'' JNull)"
    by (simp_all add: make_backup_def Let_def has_key_def dget_def)
  have ok: "validate_backup canonical sha256 ?b = Inr ()"
    using assms keys hash by (auto simp: validate_backup_def)
  have state: "\<not> include_identity \<longrightarrow> (\<exists>st. dget ?b ''state'' = JObj st \<and> dget st ''node_id'' = JNull)"
    using keys(4) by (auto simp: dget_dput)
  have "content_hash canonical sha256 (dput ?b k v) = content_hash canonical sha256 ?b"
    if "k \<noteq> ''canonical_content_hash''" "is_ok (validate_backup canonical sha256 (dput ?b k v))" for k v
    using that hash by (auto simp: validate_backup_def dget_dput split: if_splits json.splits)
  with ok state show ?thesis by blast
qed

theorem backup_roundtrip_witness:
  "validate_backup (\<lambda>d. concat (map fst d)) (\<lambda>t. t)
     (make_backup (\<lambda>d. concat (map fst d)) (\<lambda>t. t) [(''node_id'', JStr ''NODE-1''), (''enabled'', JBool True)] ''now'' False) = Inr ()"
proof -
  have "dget [(''node_id'', JStr ''NODE-1''), (''enabled'', JBool True)] ''node_id'' = JStr ''NODE-1''" "node_id_text ''NODE-1''"
    by code_simp+
  then show ?thesis using backup_roundtrip by blast
qed

end
