(* ===== verification/Factory_Reset.thy ===== *)
theory Factory_Reset
  imports Lifecycle Bootstrap
begin

text \<open>
  The USB factory reset: \<open>gateway/app/services/usb_factory_reset.py\<close> and the handlers of \<open>api/factory_reset.py\<close>. What
  the gateway meets on USB is a world that answers each enumeration of the ports, each opening of a port
  and each request in turn; a reset operation is run to its end over such a world. The number of polls
  before the reboot deadline is an argument.
\<close>

section \<open>The USB side\<close>

record usb_port =
  up_device :: string
  up_serial :: "string option"
  up_vid :: int
  up_pid :: int

record usb_world =
  uw_canonical :: "dict \<Rightarrow> string"
  uw_loads :: "string \<Rightarrow> json option"
  uw_str :: "json \<Rightarrow> string"
  uw_comports :: "nat \<Rightarrow> usb_port list"
  uw_open :: "nat \<Rightarrow> unit result"
  uw_reply :: "nat \<Rightarrow> string \<times> string list"
  uw_clock :: nat

definition tick :: "usb_world \<Rightarrow> usb_world" where
  "tick w = w\<lparr>uw_clock := Suc (uw_clock w)\<rparr>"

definition supported_ports :: "usb_world \<Rightarrow> usb_port list \<times> usb_world" where
  "supported_ports w = (filter (\<lambda>p. up_vid p = 0x2886 \<and> up_pid p = 0x0062) (uw_comports w (uw_clock w)), tick w)"

definition port_entry :: "usb_port \<Rightarrow> dict" where
  "port_entry p = [(''port'', JStr (up_device p)),
     (''usb_serial'', case up_serial p of None \<Rightarrow> JNull | Some v \<Rightarrow> JStr v), (''usb_vid_pid'', JStr ''2886:0062'')]"

definition open_client :: "usb_world \<Rightarrow> unit result \<times> usb_world" where
  "open_client w = (uw_open w (uw_clock w), tick w)"

text \<open>\<open>client.request(action, ...)["result"]\<close>.\<close>

definition usb_request :: "usb_world \<Rightarrow> string \<Rightarrow> dict \<Rightarrow> json result \<times> usb_world" where
  "usb_request w action args =
     (case uw_reply w (uw_clock w) of (request_id, lines) \<Rightarrow>
        (bind_result (client_request (uw_canonical w) (uw_loads w) (uw_str w) request_id action args lines) (\<lambda>r.
           if has_key r ''result'' then Inr (dget r ''result'') else Inl (KeyError ''result'')), tick w))"

fun as_object :: "json \<Rightarrow> dict result" where
  "as_object (JObj d) = Inr d"
| "as_object _ = Inl (AttributeError ''get'')"

text \<open>\<open>except (OSError, ProtocolError, RuntimeError, ValueError)\<close>: connection and timeout errors are \<open>OSError\<close>s.\<close>

definition read_failure :: "exn \<Rightarrow> bool" where
  "read_failure e =
     (is_value_error e
      \<or> (case e of OSError _ \<Rightarrow> True | ConnectionError _ \<Rightarrow> True | TimeoutError \<Rightarrow> True | ProtocolError _ \<Rightarrow> True
          | TelemetryPersistenceError _ \<Rightarrow> True | _ \<Rightarrow> False))"

text \<open>The attempts of \<open>inspect\<close>: the state read, or the last error; other exceptions propagate.\<close>

fun inspect_attempts :: "nat \<Rightarrow> usb_world \<Rightarrow> exn option \<Rightarrow> (json option \<times> exn option) result \<times> usb_world" where
  "inspect_attempts 0 w last_error = (Inr (None, last_error), w)"
| "inspect_attempts (Suc n) w last_error =
     (case open_client w of
        (Inl e, w1) \<Rightarrow> if read_failure e then inspect_attempts n w1 (Some e) else (Inl e, w1)
      | (Inr _, w1) \<Rightarrow>
          (case usb_request w1 ''read_node_state'' [] of
             (Inl e, w2) \<Rightarrow> if read_failure e then inspect_attempts n w2 (Some e) else (Inl e, w2)
           | (Inr JNull, w2) \<Rightarrow> (Inr (None, last_error), w2)
           | (Inr v, w2) \<Rightarrow> (Inr (Some v, last_error), w2)))"

definition usb_inspect :: "usb_world \<Rightarrow> string \<Rightarrow> dict result \<times> usb_world" where
  "usb_inspect w port =
     (case supported_ports w of (ports, w1) \<Rightarrow>
        let matches = filter (\<lambda>p. up_device p = port) ports in
        if length matches \<noteq> 1
        then (Inl (UsbResetError ''exactly one supported board on the explicit port is required''), w1)
        else
          (case inspect_attempts 2 w1 None of
             (Inl e, w2) \<Rightarrow> (Inl e, w2)
           | (Inr (None, last_error), w2) \<Rightarrow>
               (Inl (UsbResetError (''sensor USB identity read failed after retry: ''
                       @ (case last_error of None \<Rightarrow> ''None'' | Some e \<Rightarrow> exn_str e))), w2)
           | (Inr (Some v, _), w2) \<Rightarrow>
               (bind_result (as_object v) (\<lambda>node_state.
                  case dget node_state ''hardware_id'' of
                    JStr h \<Rightarrow> if hardware_id_pattern h
                              then Inr (fold (\<lambda>(k, x) d. dput d k x) node_state (port_entry (hd matches)))
                              else Inl (UsbResetError ''sensor did not report a valid immutable hardware identity'')
                  | _ \<Rightarrow> Inl (UsbResetError ''sensor did not report a valid immutable hardware identity'')), w2)))"

section \<open>Confirmations\<close>

record reset_target =
  tg_record_id :: int
  tg_device_id :: string
  tg_hardware_id :: string
  tg_port :: string

type_synonym reset_confirmations = "string \<rightharpoonup> reset_target \<times> time"

definition reset_ttl :: int where
  "reset_ttl = 120 * 1000000"

definition reset_issue :: "reset_confirmations \<Rightarrow> string \<Rightarrow> reset_target \<Rightarrow> time \<Rightarrow> reset_confirmations" where
  "reset_issue st token target now = st(token \<mapsto> (target, now + reset_ttl))"

definition reset_prepare ::
  "usb_world \<Rightarrow> reset_confirmations \<Rightarrow> reset_target \<Rightarrow> string \<Rightarrow> time \<Rightarrow> (string \<times> dict) result \<times> usb_world \<times> reset_confirmations" where
  "reset_prepare w st target token now =
     (case usb_inspect w (tg_port target) of
        (Inl e, w') \<Rightarrow> (Inl e, w', st)
      | (Inr node_state, w') \<Rightarrow>
          if dget node_state ''hardware_id'' \<noteq> JStr (tg_hardware_id target)
             \<or> dget node_state ''node_id'' \<noteq> JStr (tg_device_id target)
          then (Inl (UsbResetError ''connected physical sensor does not match the selected gateway sensor''), w', st)
          else (Inr (token, node_state), w', reset_issue st token target now))"

definition confirmation_error :: exn where
  "confirmation_error = UsbResetError ''factory-reset confirmation is missing, expired, reused, or mismatched''"

definition reset_cancel :: "reset_confirmations \<Rightarrow> string \<Rightarrow> reset_target \<Rightarrow> unit result \<times> reset_confirmations" where
  "reset_cancel st token target =
     (case st token of
        None \<Rightarrow> (Inl confirmation_error, st)
      | Some (t, _) \<Rightarrow> (if t \<noteq> target then Inl confirmation_error else Inr (), st(token := None)))"

definition reset_authorize :: "reset_confirmations \<Rightarrow> string \<Rightarrow> reset_target \<Rightarrow> time \<Rightarrow> unit result \<times> reset_confirmations" where
  "reset_authorize st token target now =
     (case st token of
        None \<Rightarrow> (Inl confirmation_error, st)
      | Some (t, expires) \<Rightarrow>
          (if t \<noteq> target \<or> expires \<le> now then Inl confirmation_error else Inr (), st(token := None)))"

interpretation resets: token_store reset_issue reset_authorize "\<lambda>st token. st token" reset_ttl
proof
  show "fst (reset_authorize s token k t) = Inr () \<longleftrightarrow> (\<exists>e. s token = Some (k, e) \<and> t < e)" for s token k t
    by (auto simp: reset_authorize_def split: option.splits)
  show "(\<lambda>token. snd (reset_authorize s token' k t) token) = (\<lambda>token. s token)(token' := None)" for s token' k t
    by (auto simp: reset_authorize_def fun_eq_iff split: option.splits)
  show "reset_issue s token k t token = Some (k, t + reset_ttl)" for s token k t
    by (simp add: reset_issue_def)
  show "token' \<noteq> token \<Longrightarrow> reset_issue s token k t token' \<in> {None, s token'}" for s token token' k t
    by (simp add: reset_issue_def)
qed

section \<open>Running one operation\<close>

record usb_operation =
  uo_record_id :: int
  uo_operation_id :: string
  uo_device_id :: string
  uo_hardware_id :: string
  uo_port :: string
  uo_state :: string
  uo_progress :: "string list"
  uo_error :: "string option"
  uo_physical_reset_complete :: bool
  uo_gateway_cleanup_complete :: bool
  uo_post_reset :: "dict option"
  uo_reset_command_accepted :: bool

definition new_operation :: "reset_target \<Rightarrow> string \<Rightarrow> usb_operation" where
  "new_operation target operation_id =
     \<lparr>uo_record_id = tg_record_id target, uo_operation_id = operation_id, uo_device_id = tg_device_id target,
      uo_hardware_id = tg_hardware_id target, uo_port = tg_port target, uo_state = ''queued'', uo_progress = [],
      uo_error = None, uo_physical_reset_complete = False, uo_gateway_cleanup_complete = False, uo_post_reset = None,
      uo_reset_command_accepted = False\<rparr>"

definition progress :: "string \<Rightarrow> usb_operation \<Rightarrow> usb_operation" where
  "progress p op = op\<lparr>uo_progress := uo_progress op @ [p]\<rparr>"

definition op_failed :: "exn \<Rightarrow> usb_operation \<Rightarrow> usb_operation" where
  "op_failed e op = op\<lparr>uo_state := ''failed'', uo_error := Some (take 500 (exn_str e))\<rparr>"

text \<open>Two attempts that retry after a \<open>ProtocolError\<close> only; the flag says that the first one failed.\<close>

fun retry_request :: "nat \<Rightarrow> usb_world \<Rightarrow> string \<Rightarrow> dict \<Rightarrow> bool \<Rightarrow> (json option \<times> bool) result \<times> usb_world" where
  "retry_request 0 w action args retried = (Inr (None, retried), w)"
| "retry_request (Suc n) w action args retried =
     (case usb_request w action args of
        (Inl (ProtocolError _), w') \<Rightarrow> retry_request n w' action args True
      | (Inl e, w') \<Rightarrow> (Inl e, w')
      | (Inr JNull, w') \<Rightarrow> (Inr (None, retried), w')
      | (Inr v, w') \<Rightarrow> (Inr (Some v, retried), w'))"

definition reset_fields :: "string \<Rightarrow> dict" where
  "reset_fields hardware_id = [(''reset_protocol_version'', JInt 2), (''scope'', JStr ''application_factory''),
     (''expected_hardware_id'', JStr hardware_id)]"

text \<open>The part of \<open>_run\<close> up to the accepted confirmation, in its three stages: reading the identity, obtaining
  the challenge and confirming it. Each returns its value or the exception.\<close>

definition exchange_identify :: "usb_world \<Rightarrow> usb_operation \<Rightarrow> dict result \<times> usb_world" where
  "exchange_identify w op =
     (case supported_ports w of (ports, w1) \<Rightarrow>
      if length (filter (\<lambda>p. up_device p = uo_port op) ports) \<noteq> 1
      then (Inl (UsbResetError ''exactly one supported board on the explicit port is required''), w1)
      else (case open_client w1 of
        (Inl e, w2) \<Rightarrow> (Inl e, w2)
      | (Inr _, w2) \<Rightarrow>
        (case retry_request 2 w2 ''read_node_state'' [] False of
           (Inl e, w3) \<Rightarrow> (Inl e, w3)
         | (Inr (None, _), w3) \<Rightarrow> (Inl (UsbResetError ''sensor USB identity read failed after retry''), w3)
         | (Inr (Some v, _), w3) \<Rightarrow>
           (bind_result (as_object v) (\<lambda>before.
              if dget before ''hardware_id'' \<noteq> JStr (uo_hardware_id op) \<or> dget before ''node_id'' \<noteq> JStr (uo_device_id op)
              then Inl (UsbResetError ''connected physical sensor does not match the selected gateway sensor'')
              else Inr before), w3))))"

definition exchange_challenge :: "usb_world \<Rightarrow> usb_operation \<Rightarrow> dict result \<times> usb_operation \<times> usb_world" where
  "exchange_challenge w op =
     (case retry_request 2 w ''prepare_factory_reset'' (reset_fields (uo_hardware_id op)) False of
        (Inl e, w1) \<Rightarrow> (Inl e, op, w1)
      | (Inr (None, retried), w1) \<Rightarrow>
          (Inl (UsbResetError ''device reset challenge timed out after retry''),
           if retried then progress ''retrying_device_reset_challenge'' op else op, w1)
      | (Inr (Some p, retried), w1) \<Rightarrow>
          (bind_result (as_object p) (\<lambda>prepared.
             if dget prepared ''hardware_id'' \<noteq> JStr (uo_hardware_id op)
             then Inl (UsbResetError ''device reset challenge identity mismatch'') else Inr prepared),
           progress ''device_challenge_received''
             (if retried then progress ''retrying_device_reset_challenge'' op else op), w1))"

definition exchange_confirm :: "usb_world \<Rightarrow> usb_operation \<Rightarrow> dict \<Rightarrow> unit result \<times> usb_world" where
  "exchange_confirm w op prepared =
     (if \<not> has_key prepared ''operation_id'' then (Inl (KeyError ''operation_id''), w)
      else if \<not> has_key prepared ''challenge'' then (Inl (KeyError ''challenge''), w)
      else
        (case usb_request w ''confirm_factory_reset''
                (reset_fields (uo_hardware_id op) @ [(''operation_id'', dget prepared ''operation_id''),
                   (''challenge'', dget prepared ''challenge'')]) of
           (Inl e, w1) \<Rightarrow> (Inl e, w1)
         | (Inr a, w1) \<Rightarrow>
             (bind_result (as_object a) (\<lambda>accepted.
                if dget accepted ''operation_id'' \<noteq> dget prepared ''operation_id''
                then Inl (UsbResetError ''reset operation correlation mismatch'') else Inr ()), w1)))"

definition run_exchange :: "usb_world \<Rightarrow> usb_operation \<Rightarrow> dict result \<times> usb_operation \<times> usb_world" where
  "run_exchange w op0 =
     (let op = op0\<lparr>uo_state := ''preparing''\<rparr> in
      case exchange_identify w op of
        (Inl e, w1) \<Rightarrow> (Inl e, op, w1)
      | (Inr before, w1) \<Rightarrow>
          (case exchange_challenge w1 (progress ''requesting_device_reset_challenge'' (progress ''physical_identity_verified'' op)) of
             (Inl e, op1, w2) \<Rightarrow> (Inl e, op1, w2)
           | (Inr prepared, op1, w2) \<Rightarrow>
               let op2 = progress ''confirming_device_bound_reset'' op1 in
               (case exchange_confirm w2 op2 prepared of
                  (Inl e, w3) \<Rightarrow> (Inl e, op2, w3)
                | (Inr _, w3) \<Rightarrow> (Inr before, op2, w3))))"

text \<open>Scanning the supported ports for the same hardware; unreadable ports are skipped.\<close>

fun scan_ports :: "usb_world \<Rightarrow> string \<Rightarrow> usb_port list \<Rightarrow> dict option result \<times> usb_world" where
  "scan_ports w hardware_id [] = (Inr None, w)"
| "scan_ports w hardware_id (p # ps) =
     (case usb_inspect w (up_device p) of
        (Inl e, w') \<Rightarrow> if read_failure e then scan_ports w' hardware_id ps else (Inl e, w')
      | (Inr node_state, w') \<Rightarrow>
          if dget node_state ''hardware_id'' = JStr hardware_id then (Inr (Some node_state), w')
          else scan_ports w' hardware_id ps)"

fun wait_reboot :: "nat \<Rightarrow> usb_world \<Rightarrow> string \<Rightarrow> dict option result \<times> usb_world" where
  "wait_reboot 0 w hardware_id = (Inr None, w)"
| "wait_reboot (Suc polls) w hardware_id =
     (case supported_ports w of (ports, w1) \<Rightarrow>
        (case scan_ports w1 hardware_id ports of
           (Inr None, w2) \<Rightarrow> wait_reboot polls w2 hardware_id
         | r \<Rightarrow> r))"

definition run_verify :: "dict \<Rightarrow> dict option \<Rightarrow> dict result" where
  "run_verify before found =
     (case found of
        None \<Rightarrow> Inl (UsbResetError (''reset was accepted, but the same physical sensor did not become readable over USB; ''
                  @ ''unplug and reconnect it, then use read-only USB reconciliation''))
      | Some verified \<Rightarrow>
          if dget verified ''node_id'' \<noteq> JNull \<or> dget verified ''identity_status'' \<noteq> JStr ''unprovisioned''
          then Inl (UsbResetError ''post-reset sensor is not unprovisioned'')
          else if \<not> json_truthy (dget before ''firmware_version'')
                  \<or> dget verified ''firmware_version'' \<noteq> dget before ''firmware_version''
          then Inl (UsbResetError ''installed firmware changed during reset'')
          else Inr verified)"

definition usb_run :: "nat \<Rightarrow> usb_world \<Rightarrow> usb_operation \<Rightarrow> usb_operation \<times> usb_world" where
  "usb_run polls w op =
     (case run_exchange w op of
        (Inl e, op1, w1) \<Rightarrow> (op_failed e op1, w1)
      | (Inr before, op1, w1) \<Rightarrow>
          let op2 = progress ''pre_reboot_key_deletion_verified''
                (op1\<lparr>uo_reset_command_accepted := True, uo_state := ''rebooting''\<rparr>) in
          (case wait_reboot polls w1 (uo_hardware_id op) of
             (Inl e, w2) \<Rightarrow> (op_failed e op2, w2)
           | (Inr found, w2) \<Rightarrow>
               (case run_verify before found of
                  Inl e \<Rightarrow> (op_failed e op2, w2)
                | Inr verified \<Rightarrow>
                    (progress ''post_reset_unprovisioned_verified'' (progress ''same_hardware_reenumerated''
                       (op2\<lparr>uo_post_reset := Some verified, uo_physical_reset_complete := True,
                            uo_state := ''physical_complete''\<rparr>)), w2))))"

section \<open>The handlers\<close>

record reset_app =
  ra_confirmations :: reset_confirmations
  ra_operations :: "usb_operation list"
  ra_running :: "string list"  \<comment> \<open>hardware identities whose lock is held\<close>

definition protect ::
  "(string \<Rightarrow> split_url result) \<Rightarrow> (string \<Rightarrow> bool option) \<Rightarrow> http_request \<Rightarrow> unit result" where
  "protect urlsplit is_loopback r =
     bind_result (require_loopback is_loopback r) (\<lambda>_.
       if rq_method r = ''POST'' then require_bounded_same_origin_json urlsplit r else Inr ())"

definition get_operation :: "reset_app \<Rightarrow> string \<Rightarrow> usb_operation option" where
  "get_operation app i = find_row (\<lambda>x. uo_operation_id x = i) (ra_operations app)"

definition set_operation :: "usb_operation \<Rightarrow> reset_app \<Rightarrow> reset_app" where
  "set_operation x app =
     app\<lparr>ra_operations := upd_rows (\<lambda>y. uo_operation_id y = uo_operation_id x) (\<lambda>_. x) (ra_operations app)\<rparr>"

text \<open>A board that cannot be read is listed with its error; an exception of another class propagates.\<close>

fun inspect_boards :: "usb_world \<Rightarrow> usb_port list \<Rightarrow> dict list result \<times> usb_world" where
  "inspect_boards w [] = (Inr [], w)"
| "inspect_boards w (p # ps) =
     (case usb_inspect w (up_device p) of
        (Inl e, w') \<Rightarrow>
          if read_failure e
          then (case inspect_boards w' ps of
                  (Inl e', w'') \<Rightarrow> (Inl e', w'')
                | (Inr rows, w'') \<Rightarrow>
                    (Inr ((port_entry p @ [(''status'', JStr ''unreadable''), (''error'', JStr (exn_str e))]) # rows), w''))
          else (Inl e, w')
      | (Inr row, w') \<Rightarrow>
          (case inspect_boards w' ps of (Inl e', w'') \<Rightarrow> (Inl e', w'') | (Inr rows, w'') \<Rightarrow> (Inr (row # rows), w'')))"

definition boards_handler ::
  "(string \<Rightarrow> split_url result) \<Rightarrow> (string \<Rightarrow> bool option) \<Rightarrow> http_request \<Rightarrow> usb_world \<Rightarrow> dict list result \<times> usb_world" where
  "boards_handler urlsplit is_loopback r w =
     (case protect urlsplit is_loopback r of
        Inl e \<Rightarrow> (Inl e, w)
      | Inr _ \<Rightarrow> (case supported_ports w of (ports, w1) \<Rightarrow> inspect_boards w1 ports))"

definition target_of :: "registered_device \<Rightarrow> string \<Rightarrow> string \<Rightarrow> string \<Rightarrow> reset_target" where
  "target_of device device_id hardware_id port =
     \<lparr>tg_record_id = rd_id device, tg_device_id = device_id, tg_hardware_id = hardware_id, tg_port = port\<rparr>"

definition usb_http :: "string \<Rightarrow> exn \<Rightarrow> exn" where
  "usb_http code e = (case e of UsbResetError m \<Rightarrow> HTTPException 409 code m | _ \<Rightarrow> e)"

definition confirm_handler ::
  "(string \<Rightarrow> split_url result) \<Rightarrow> (string \<Rightarrow> bool option) \<Rightarrow> http_request \<Rightarrow> usb_world \<Rightarrow> db \<Rightarrow> reset_app
     \<Rightarrow> string \<Rightarrow> string \<Rightarrow> string \<Rightarrow> string \<Rightarrow> time \<Rightarrow> time
     \<Rightarrow> (string \<times> dict) result \<times> usb_world \<times> db \<times> reset_app" where
  "confirm_handler urlsplit is_loopback r w s app device_id hardware_id port token clock now =
     (case protect urlsplit is_loopback r of
        Inl e \<Rightarrow> (Inl e, w, s, app)
      | Inr _ \<Rightarrow>
        (case get_device s device_id of
           None \<Rightarrow> (Inl (HTTPException 404 ''device_not_found'' ''Active sensor not found.''), w, s, app)
         | Some device \<Rightarrow>
             if rd_archived device
             then (Inl (HTTPException 404 ''device_not_found'' ''Active sensor not found.''), w, s, app)
             else if truthy (rd_hardware_id device) \<and> rd_hardware_id device \<noteq> Some hardware_id
             then (Inl (HTTPException 409 ''hardware_identity_mismatch'' ''Hardware identity mismatch.''), w, s, app)
             else
               (case reset_prepare w (ra_confirmations app) (target_of device device_id hardware_id port) token clock of
                  (Inl e, w', st) \<Rightarrow> (Inl (usb_http ''physical_identity_mismatch'' e), w', s, app\<lparr>ra_confirmations := st\<rparr>)
                | (Inr (tok, node_state), w', st) \<Rightarrow>
                    if truthy (rd_hardware_id device) then (Inr (tok, node_state), w', s, app\<lparr>ra_confirmations := st\<rparr>)
                    else
                      let named = device\<lparr>rd_hardware_id := Some hardware_id, rd_updated_at := now\<rparr> in
                      if hardware_trigger_fires (registered_devices s) named
                      then (Inl (HTTPException 409 ''hardware_identity_conflict'' ''Hardware identity belongs to another record.''),
                            w', s, app\<lparr>ra_confirmations := snd (reset_cancel st tok (target_of device device_id hardware_id port))\<rparr>)
                      else (Inr (tok, node_state), w',
                            upd_device s device_id (\<lambda>d. d\<lparr>rd_hardware_id := Some hardware_id, rd_updated_at := now\<rparr>),
                            app\<lparr>ra_confirmations := st\<rparr>))))"

definition reset_status :: "string \<Rightarrow> time \<Rightarrow> registered_device \<Rightarrow> registered_device" where
  "reset_status status now d = d\<lparr>rd_factory_reset_status := status, rd_updated_at := now\<rparr>"

definition reset_launch :: "reset_app \<Rightarrow> reset_target \<Rightarrow> string \<Rightarrow> usb_operation result \<times> reset_app" where
  "reset_launch app target operation_id =
     (if tg_hardware_id target \<in> set (ra_running app)
      then (Inl (UsbResetError ''a reset operation is already active for this physical sensor''), app)
      else (Inr (new_operation target operation_id),
            app\<lparr>ra_operations := ra_operations app @ [new_operation target operation_id],
                ra_running := tg_hardware_id target # ra_running app\<rparr>))"

definition execute_reset ::
  "(string \<Rightarrow> split_url result) \<Rightarrow> (string \<Rightarrow> bool option) \<Rightarrow> http_request \<Rightarrow> db \<Rightarrow> reset_app
     \<Rightarrow> string \<Rightarrow> string \<Rightarrow> string \<Rightarrow> string \<Rightarrow> string \<Rightarrow> time \<Rightarrow> time \<Rightarrow> usb_operation result \<times> db \<times> reset_app" where
  "execute_reset urlsplit is_loopback r s app device_id hardware_id port token operation_id clock now =
     (case protect urlsplit is_loopback r of
        Inl e \<Rightarrow> (Inl e, s, app)
      | Inr _ \<Rightarrow>
        (case get_device s device_id of
           None \<Rightarrow> (Inl (HTTPException 409 ''target_changed'' ''Reset target changed after confirmation.''), s, app)
         | Some device \<Rightarrow>
             if rd_archived device
             then (Inl (HTTPException 409 ''target_changed'' ''Reset target changed after confirmation.''), s, app)
             else
               let target = target_of device device_id hardware_id port;
                   (authorized, st) = reset_authorize (ra_confirmations app) token target clock;
                   app1 = app\<lparr>ra_confirmations := st\<rparr> in
               (case authorized of
                  Inl e \<Rightarrow> (Inl (usb_http ''invalid_confirmation'' e), s, app1)
                | Inr _ \<Rightarrow>
                    (case reset_launch app1 target operation_id of
                       (Inr x, app2) \<Rightarrow> (Inr x, upd_device s device_id (reset_status ''reset_pending'' now), app2)
                     | (Inl e, app2) \<Rightarrow>
                         (Inl (usb_http ''invalid_confirmation'' e),
                          upd_device s device_id (reset_status ''reset_failed'' now), app2)))))"

definition cancel_reset ::
  "(string \<Rightarrow> split_url result) \<Rightarrow> (string \<Rightarrow> bool option) \<Rightarrow> http_request \<Rightarrow> db \<Rightarrow> reset_app
     \<Rightarrow> string \<Rightarrow> string \<Rightarrow> string \<Rightarrow> string \<Rightarrow> unit result \<times> reset_app" where
  "cancel_reset urlsplit is_loopback r s app device_id hardware_id port token =
     (case protect urlsplit is_loopback r of
        Inl e \<Rightarrow> (Inl e, app)
      | Inr _ \<Rightarrow>
        (case get_device s device_id of
           None \<Rightarrow> (Inl (HTTPException 404 ''device_not_found'' ''Sensor not found.''), app)
         | Some device \<Rightarrow>
             (case reset_cancel (ra_confirmations app) token (target_of device device_id hardware_id port) of
                (Inl e, st) \<Rightarrow> (Inl (usb_http ''invalid_confirmation'' e), app\<lparr>ra_confirmations := st\<rparr>)
              | (Inr _, st) \<Rightarrow> (Inr (), app\<lparr>ra_confirmations := st\<rparr>))))"

definition cleanup_failed :: "exn \<Rightarrow> usb_operation \<Rightarrow> usb_operation" where
  "cleanup_failed e x = x\<lparr>uo_state := ''partial_failure'',
     uo_error := Some (''Physical reset verified; gateway cleanup requires retry: '' @ take 300 (exn_str e))\<rparr>"

definition cleanup_done :: "usb_operation \<Rightarrow> usb_operation" where
  "cleanup_done x =
     (let y = x\<lparr>uo_gateway_cleanup_complete := True, uo_state := ''complete'', uo_error := None\<rparr> in
      if ''gateway_registration_removed_history_preserved'' \<in> set (uo_progress y) then y
      else progress ''gateway_registration_removed_history_preserved'' y)"

definition cleanup_gateway :: "db \<Rightarrow> usb_operation \<Rightarrow> string \<Rightarrow> time \<Rightarrow> db \<times> usb_operation \<times> manager_call list" where
  "cleanup_gateway s item operation_id now =
     (case get_device s (uo_device_id item) of
        None \<Rightarrow> (s, cleanup_failed (UsbResetError ''gateway sensor record changed during physical reset'') item, [])
      | Some device \<Rightarrow>
          if rd_id device \<noteq> uo_record_id item \<or> rd_hardware_id device \<noteq> Some (uo_hardware_id item)
          then (s, cleanup_failed (UsbResetError ''gateway sensor record changed during physical reset'') item, [])
          else
            (case lifecycle_remove s (uo_device_id item) (Some ''physical_factory_reset_verified'') ''resetting''
                    ''usb_factory_reset'' True operation_id now of
               (Inl e, s') \<Rightarrow> (s', cleanup_failed e item, [])
             | (Inr _, s') \<Rightarrow>
                 (upd_device s' (uo_device_id item) (reset_status ''complete'' now), cleanup_done item,
                  [ManagerRemove (uo_device_id item)])))"

text \<open>The task started by \<open>execute\<close>, once the operation has ended one way or the other.\<close>

definition finalize_when_ready ::
  "db \<Rightarrow> reset_app \<Rightarrow> usb_operation \<Rightarrow> string \<Rightarrow> time \<Rightarrow> db \<times> reset_app \<times> manager_call list" where
  "finalize_when_ready s app item operation_id now =
     (if uo_physical_reset_complete item
      then (case cleanup_gateway s item operation_id now of (s', item', calls) \<Rightarrow> (s', set_operation item' app, calls))
      else
        (case get_device s (uo_device_id item) of
           Some device \<Rightarrow>
             (if rd_id device = uo_record_id item
              then upd_device s (uo_device_id item) (reset_status ''reset_failed'' now) else s, app, [])
         | None \<Rightarrow> (s, app, [])))"

definition operation_handler ::
  "(string \<Rightarrow> split_url result) \<Rightarrow> (string \<Rightarrow> bool option) \<Rightarrow> http_request \<Rightarrow> reset_app \<Rightarrow> string \<Rightarrow> usb_operation result" where
  "operation_handler urlsplit is_loopback r app operation_id =
     bind_result (protect urlsplit is_loopback r) (\<lambda>_.
       case get_operation app operation_id of
         None \<Rightarrow> Inl (HTTPException 404 ''operation_not_found'' ''Reset operation not found.'')
       | Some x \<Rightarrow> Inr x)"

definition retry_cleanup ::
  "(string \<Rightarrow> split_url result) \<Rightarrow> (string \<Rightarrow> bool option) \<Rightarrow> http_request \<Rightarrow> db \<Rightarrow> reset_app \<Rightarrow> string
     \<Rightarrow> string \<times> string \<times> string \<times> string \<Rightarrow> string \<Rightarrow> time \<Rightarrow> usb_operation result \<times> db \<times> reset_app \<times> manager_call list" where
  "retry_cleanup urlsplit is_loopback r s app operation_id body event_id now =
     (case protect urlsplit is_loopback r of
        Inl e \<Rightarrow> (Inl e, s, app, [])
      | Inr _ \<Rightarrow>
        (case (get_operation app operation_id, body) of
           (Some item, body_operation, device_id, hardware_id, port) \<Rightarrow>
             if body_operation \<noteq> operation_id \<or> device_id \<noteq> uo_device_id item \<or> hardware_id \<noteq> uo_hardware_id item
                \<or> port \<noteq> uo_port item \<or> \<not> uo_physical_reset_complete item
             then (Inl (HTTPException 409 ''operation_mismatch'' ''Cleanup target mismatch.''), s, app, [])
             else if uo_gateway_cleanup_complete item then (Inr item, s, app, [])
             else (case cleanup_gateway s item event_id now of
                     (s', item', calls) \<Rightarrow> (Inr item', s', set_operation item' app, calls))
         | (None, _) \<Rightarrow> (Inl (HTTPException 409 ''operation_mismatch'' ''Cleanup target mismatch.''), s, app, [])))"

text \<open>The task that runs an operation under the lock of its hardware identity.\<close>

definition run_task :: "nat \<Rightarrow> usb_world \<Rightarrow> reset_app \<Rightarrow> usb_operation \<Rightarrow> usb_operation \<times> usb_world \<times> reset_app" where
  "run_task polls w app op =
     (case usb_run polls w op of (op', w') \<Rightarrow>
        (op', w', (set_operation op' app)\<lparr>ra_running := removeAll (uo_hardware_id op) (ra_running app)\<rparr>))"

section \<open>What a completed reset proves\<close>

definition same_target :: "usb_operation \<Rightarrow> usb_operation \<Rightarrow> bool" where
  "same_target a b = (uo_record_id a = uo_record_id b \<and> uo_operation_id a = uo_operation_id b \<and> uo_device_id a = uo_device_id b
     \<and> uo_hardware_id a = uo_hardware_id b \<and> uo_port a = uo_port b)"

lemma same_target_refl [simp]: "same_target a a"
  by (simp add: same_target_def)

lemma same_target_upd [simp]:
  "same_target (progress p a) b = same_target a b" "same_target (op_failed e a) b = same_target a b"
  "same_target (a\<lparr>uo_state := v\<rparr>) b = same_target a b"
  by (simp_all add: same_target_def progress_def op_failed_def)

lemma progress_flags [simp]:
  "uo_physical_reset_complete (progress p a) = uo_physical_reset_complete a" "uo_state (progress p a) = uo_state a"
  "uo_post_reset (progress p a) = uo_post_reset a"
  "uo_physical_reset_complete (op_failed e a) = uo_physical_reset_complete a" "uo_state (op_failed e a) = ''failed''"
  "uo_hardware_id (progress p a) = uo_hardware_id a" "uo_device_id (progress p a) = uo_device_id a"
  by (simp_all add: progress_def op_failed_def)

lemma as_object_Inr_iff: "as_object v = Inr d \<longleftrightarrow> v = JObj d"
  by (cases v) auto

text \<open>Every branch of the exchange keeps the target and the completion flag; a successful one saw the right sensor.\<close>

lemma exchange_identify_Inr:
  "exchange_identify w op = (Inr before, w1) \<Longrightarrow> dget before ''hardware_id'' = JStr (uo_hardware_id op)
     \<and> dget before ''node_id'' = JStr (uo_device_id op)"
  by (auto simp: exchange_identify_def bind_result_Inr_iff split: prod.splits sum.splits if_splits option.splits)

lemma exchange_challenge_frame:
  "exchange_challenge w op = (r, op1, w1) \<Longrightarrow>
     same_target op1 op \<and> uo_physical_reset_complete op1 = uo_physical_reset_complete op"
  by (auto simp: exchange_challenge_def split: prod.splits sum.splits if_splits option.splits)

lemma run_exchange_frame:
  assumes "run_exchange w op = (r, op1, w1)"
  shows "same_target op1 op \<and> uo_physical_reset_complete op1 = uo_physical_reset_complete op
    \<and> (\<forall>before. r = Inr before \<longrightarrow> dget before ''hardware_id'' = JStr (uo_hardware_id op)
         \<and> dget before ''node_id'' = JStr (uo_device_id op))"
  using assms unfolding run_exchange_def Let_def
  by (auto split: prod.splits sum.splits dest!: exchange_identify_Inr exchange_challenge_frame
      simp: same_target_def progress_def)

lemma scan_ports_found:
  "scan_ports w hardware_id ps = (Inr (Some node_state), w') \<Longrightarrow> dget node_state ''hardware_id'' = JStr hardware_id"
  by (induction w hardware_id ps rule: scan_ports.induct) (auto split: prod.splits sum.splits if_splits)

lemma wait_reboot_found:
  "wait_reboot polls w hardware_id = (Inr (Some node_state), w') \<Longrightarrow> dget node_state ''hardware_id'' = JStr hardware_id"
  by (induction polls w hardware_id rule: wait_reboot.induct)
    (auto split: prod.splits sum.splits option.splits dest: scan_ports_found)

lemma run_verify_Inr:
  "run_verify before found = Inr verified \<Longrightarrow> found = Some verified \<and> dget verified ''node_id'' = JNull
     \<and> dget verified ''identity_status'' = JStr ''unprovisioned'' \<and> json_truthy (dget before ''firmware_version'')
     \<and> dget verified ''firmware_version'' = dget before ''firmware_version''"
  by (auto simp: run_verify_def split: option.splits if_splits)

definition reset_evidence :: "string \<Rightarrow> string \<Rightarrow> dict \<Rightarrow> dict \<Rightarrow> bool" where
  "reset_evidence hardware_id device_id before verified =
     (dget before ''hardware_id'' = JStr hardware_id \<and> dget before ''node_id'' = JStr device_id
      \<and> dget verified ''hardware_id'' = JStr hardware_id \<and> dget verified ''node_id'' = JNull
      \<and> dget verified ''identity_status'' = JStr ''unprovisioned''
      \<and> json_truthy (dget before ''firmware_version'')
      \<and> dget verified ''firmware_version'' = dget before ''firmware_version'')"

lemma usb_run_evidence:
  assumes "usb_run polls w op = (op', w')" "\<not> uo_physical_reset_complete op"
  shows "same_target op' op \<and> uo_state op' \<in> {''failed'', ''physical_complete''}
    \<and> (uo_state op' = ''physical_complete'' \<longleftrightarrow> uo_physical_reset_complete op')
    \<and> (uo_physical_reset_complete op' \<longrightarrow> (\<exists>before verified. uo_post_reset op' = Some verified
          \<and> reset_evidence (uo_hardware_id op) (uo_device_id op) before verified))"
proof -
  obtain r op1 w1 where ex: "run_exchange w op = (r, op1, w1)" by (cases "run_exchange w op")
  note frame = run_exchange_frame[OF ex]
  show ?thesis
  proof (cases r)
    case (Inl e)
    with assms ex frame show ?thesis by (auto simp: usb_run_def)
  next
    case (Inr before)
    obtain q w2 where wait: "wait_reboot polls w1 (uo_hardware_id op) = (q, w2)" by fastforce
    define op2 where "op2 = progress ''pre_reboot_key_deletion_verified'' (op1\<lparr>uo_reset_command_accepted := True, uo_state := ''rebooting''\<rparr>)"
    have op2: "same_target op2 op" "\<not> uo_physical_reset_complete op2"
      using frame assms(2) by (auto simp: op2_def same_target_def progress_def)
    show ?thesis
    proof (cases q)
      case (Inl e)
      with assms(1) ex Inr wait op2 show ?thesis by (auto simp: usb_run_def Let_def op2_def)
    next
      case found: (Inr found)
      show ?thesis
      proof (cases "run_verify before found")
        case (Inl e)
        with assms(1) ex Inr wait found op2 show ?thesis by (auto simp: usb_run_def Let_def op2_def)
      next
        case ok: (Inr verified)
        note v = run_verify_Inr[OF ok]
        have op': "op' = progress ''post_reset_unprovisioned_verified'' (progress ''same_hardware_reenumerated''
             (op2\<lparr>uo_post_reset := Some verified, uo_physical_reset_complete := True, uo_state := ''physical_complete''\<rparr>))"
          using assms(1) ex Inr wait found ok by (simp add: usb_run_def Let_def op2_def)
        have "dget verified ''hardware_id'' = JStr (uo_hardware_id op)" using wait found v wait_reboot_found by blast
        with v frame Inr have "reset_evidence (uo_hardware_id op) (uo_device_id op) before verified"
          by (simp add: reset_evidence_def)
        moreover have "same_target op' op" using op2(1) by (simp add: op' same_target_def progress_def)
        ultimately show ?thesis by (auto simp: op')
      qed
    qed
  qed
qed

section \<open>Removal after a reset\<close>

lemma finalize_archives:
  assumes "finalize_when_ready s app item event_id now = (s', app', calls)"
    and "get_device s k = Some d" "\<not> rd_archived d" "get_device s' k = Some d'" "rd_archived d'"
  shows "uo_physical_reset_complete item \<and> k = uo_device_id item \<and> rd_id d = uo_record_id item
    \<and> rd_hardware_id d = Some (uo_hardware_id item) \<and> readings s' = readings s \<and> vibration_windows s' = vibration_windows s
    \<and> rd_factory_reset_status d' = ''complete'' \<and> calls = [ManagerRemove k]"
proof (cases "uo_physical_reset_complete item")
  case False
  have status: "rd_archived (reset_status v t x) = rd_archived x" "rd_device_id (reset_status v t x) = rd_device_id x" for v t x
    by (simp_all add: reset_status_def)
  have "get_device (upd_device s j (reset_status v t)) k = Some d' \<Longrightarrow> rd_archived d' = rd_archived d" for j v t
    using assms(2) devices.get_upd_same[of "reset_status v t" s k d] devices.get_upd_other[of "reset_status v t" k j s] status
    by (cases "j = k") auto
  with False assms show ?thesis
    by (auto simp: finalize_when_ready_def split: option.splits if_splits)
next
  case True
  obtain t item' cs where cl: "cleanup_gateway s item event_id now = (t, item', cs)" by (cases "cleanup_gateway s item event_id now")
  have out: "s' = t" "calls = cs" using assms(1) True cl by (simp_all add: finalize_when_ready_def)
  have "t \<noteq> s" using assms(2-5) out by auto
  with cl obtain device where dev: "get_device s (uo_device_id item) = Some device" "rd_id device = uo_record_id item"
    "rd_hardware_id device = Some (uo_hardware_id item)"
    by (auto simp: cleanup_gateway_def split: option.splits if_splits)
  obtain q u where rem: "lifecycle_remove s (uo_device_id item) (Some ''physical_factory_reset_verified'') ''resetting''
      ''usb_factory_reset'' True event_id now = (q, u)" by fastforce
  obtain x where q: "q = Inr x" using rem dev(1) by (auto simp: lifecycle_remove_def Let_def split: if_splits)
  have t: "t = upd_device u (uo_device_id item) (reset_status ''complete'' now)" "cs = [ManagerRemove (uo_device_id item)]"
    using cl dev rem q by (simp_all add: cleanup_gateway_def)
  have rows: "readings u = readings s" "vibration_windows u = vibration_windows s"
    and other: "j \<noteq> uo_device_id item \<Longrightarrow> get_device u j = get_device s j" for j
    using rem dev(1) devices.get_upd_other[of "removed_values (Some ''physical_factory_reset_verified'') now" j "uo_device_id item" s]
    by (auto simp: lifecycle_remove_def Let_def get_device_def removed_values_def split: if_splits)
  have frame: "rd_device_id (reset_status v t x) = rd_device_id x" "rd_archived (reset_status v t x) = rd_archived x" for v t x
    by (simp_all add: reset_status_def)
  have k: "k = uo_device_id item"
  proof (rule ccontr)
    assume "k \<noteq> uo_device_id item"
    then have "get_device t k = get_device s k"
      using other devices.get_upd_other[of "reset_status ''complete'' now" k "uo_device_id item" u] frame by (simp add: t)
    with assms out show False by simp
  qed
  obtain y where y: "get_device u k = Some y"
    using assms(4) out t devices.get_upd_None[of "reset_status ''complete'' now" u k k] frame k by (cases "get_device u k") auto
  have "d' = reset_status ''complete'' now y"
    using assms(4) out t y devices.get_upd_same[of "reset_status ''complete'' now" u k y] frame k by simp
  with True dev k assms(2) out t rows show ?thesis by (simp add: reset_status_def)
qed


text \<open>Launching a reset needs a confirmation of exactly that target that is fresh and unused.\<close>

lemma execute_reset_authorised:
  assumes "ra_confirmations app = fold resets.apply_op opers Map.empty"
    and "execute_reset urlsplit is_loopback r s app device_id hardware_id port token operation_id clock now = (Inr x, s', app')"
  shows "\<exists>d before t after. get_device s device_id = Some d
    \<and> opers = before @ Put token (target_of d device_id hardware_id port) t # after \<and> clock < t + reset_ttl
    \<and> (\<forall>k' t'. Take token k' t' \<notin> set after)"
proof -
  obtain d where d: "get_device s device_id = Some d"
    "fst (reset_authorize (ra_confirmations app) token (target_of d device_id hardware_id port) clock) = Inr ()"
    using assms(2) by (auto simp: execute_reset_def Let_def split: sum.splits option.splits if_splits prod.splits)
  from resets.take_authorised[of Map.empty opers token "target_of d device_id hardware_id port" clock] d assms(1)
  show ?thesis by auto
qed

section \<open>A sample reset\<close>

definition sample_answer :: "string \<Rightarrow> dict \<Rightarrow> json option" where
  "sample_answer action answer = Some (JObj [(''type'', JStr ''bootstrap_response''), (''schema_version'', JInt 1),
     (''request_id'', JStr ''r''), (''action'', JStr action), (''status'', JStr ''success''), (''result'', JObj answer)])"

definition sample_hardware :: string where
  "sample_hardware = ''0x0123456789ABCDEF''"

definition sample_world :: usb_world where
  "sample_world = \<lparr>uw_canonical = (\<lambda>_. ''{}''),
     uw_loads = (\<lambda>text.
        if text = ''A'' then sample_answer ''read_node_state'' [(''hardware_id'', JStr sample_hardware), (''node_id'', JStr ''S-1''),
          (''firmware_version'', JStr ''1.2.0'')]
        else if text = ''B'' then sample_answer ''prepare_factory_reset'' [(''hardware_id'', JStr sample_hardware),
          (''operation_id'', JStr ''o1''), (''challenge'', JStr ''c1'')]
        else if text = ''C'' then sample_answer ''confirm_factory_reset'' [(''operation_id'', JStr ''o1'')]
        else if text = ''D'' then sample_answer ''read_node_state'' [(''hardware_id'', JStr sample_hardware), (''node_id'', JNull),
          (''identity_status'', JStr ''unprovisioned''), (''firmware_version'', JStr ''1.2.0'')]
        else None),
     uw_str = (\<lambda>_. ''''), uw_comports = (\<lambda>_. [\<lparr>up_device = ''COM3'', up_serial = None, up_vid = 0x2886, up_pid = 0x0062\<rparr>]),
     uw_open = (\<lambda>_. Inr ()),
     uw_reply = (\<lambda>k. (''r'', [PREFIX @ (if k = 2 then ''A'' else if k = 3 then ''B'' else if k = 4 then ''C'' else ''D'')])),
     uw_clock = 0\<rparr>"

definition sample_target :: reset_target where
  "sample_target = \<lparr>tg_record_id = 1, tg_device_id = ''S-1'', tg_hardware_id = sample_hardware, tg_port = ''COM3''\<rparr>"

definition sample_reset_db :: db where
  "sample_reset_db = empty_db\<lparr>registered_devices := [(sample_sensor 1 ''S-1'')\<lparr>rd_hardware_id := Some sample_hardware\<rparr>]\<rparr>"

lemma sample_run:
  "uo_state (fst (usb_run 1 sample_world (new_operation sample_target ''op''))) = ''physical_complete''"
  by code_simp


end
