(* ===== verification/Ble_Provisioning.thy ===== *)
theory Ble_Provisioning
  imports Onboarding Provisioning Telemetry_Service Factory_Reset
begin

text \<open>
  The BLE provisioning client (\<open>services/ble_provisioning.py\<close>). What the client meets is a world that answers every connection,
  read and write in turn and lets notifications arrive; every \<open>await\<close> advances its clock. \<open>patience\<close> is the
  number of queue turns a wait takes at most before the enclosing \<open>wait_for\<close> ends it.
\<close>

section \<open>The BLE side\<close>

record ble_world =
  bw_loads :: "string \<Rightarrow> json option"
  bw_str :: "json \<Rightarrow> string"
  bw_open :: "nat \<Rightarrow> unit result"
  bw_read :: "nat \<Rightarrow> string \<Rightarrow> string result"
  bw_write :: "nat \<Rightarrow> unit result"
  bw_arrive :: "nat \<Rightarrow> string list"
  bw_clock :: nat
  bw_subscription :: "(nat \<times> string option) option"
  bw_queue :: "dict list"
  bw_written :: "string list"

type_synonym 'a ble = "ble_world \<Rightarrow> 'a result \<times> ble_world"

definition bind_ble :: "'a ble \<Rightarrow> ('a \<Rightarrow> 'b ble) \<Rightarrow> 'b ble" where
  "bind_ble m f w = (case m w of (Inl e, w') \<Rightarrow> (Inl e, w') | (Inr x, w') \<Rightarrow> f x w')"

definition lift_ble :: "'a result \<Rightarrow> 'a ble" where
  "lift_ble r w = (r, w)"

text \<open>The notification callback. The queue takes acknowledgements and rejections while there is room; \<open>read_state\<close> only those of
  its transaction. A payload that is no object, or an unhashable type, raises in the callback and is lost.\<close>

definition notified :: "string \<Rightarrow> ble_world \<Rightarrow> ble_world" where
  "notified raw w = (case (bw_subscription w, bw_loads w raw) of
     (Some (limit, own), Some (JObj payload)) \<Rightarrow>
       if dget payload ''t'' \<in> {JStr ''ca'', JStr ''ce''} \<and> (case own of None \<Rightarrow> True | Some tx \<Rightarrow> dget payload ''tx'' = JStr tx)
          \<and> length (bw_queue w) < limit
       then w\<lparr>bw_queue := bw_queue w @ [payload]\<rparr> else w
   | _ \<Rightarrow> w)"

definition ble_tick :: "ble_world \<Rightarrow> ble_world" where
  "ble_tick w = fold notified (bw_arrive w (bw_clock w)) (w\<lparr>bw_clock := Suc (bw_clock w)\<rparr>)"

definition open_ble :: "unit ble" where
  "open_ble w = (bw_open w (bw_clock w), ble_tick w)"

definition read_gatt :: "string \<Rightarrow> string ble" where
  "read_gatt uuid w = (bw_read w (bw_clock w) uuid, ble_tick w)"

definition strip_nul :: "string \<Rightarrow> string" where
  "strip_nul raw = rstrip_nul (dropWhile (\<lambda>c. c = CHR 0x00) raw)"

definition read_json :: "(string \<Rightarrow> string) \<Rightarrow> string \<Rightarrow> json ble" where
  "read_json clean uuid = bind_ble (read_gatt uuid) (\<lambda>raw w.
     (case bw_loads w (clean raw) of None \<Rightarrow> Inl (ValueError ''not UTF-8 JSON'') | Some v \<Rightarrow> Inr v, w))"

definition write_command :: "string \<Rightarrow> unit ble" where
  "write_command command w = (bw_write w (bw_clock w), ble_tick (w\<lparr>bw_written := bw_written w @ [command]\<rparr>))"

definition start_notify :: "nat \<Rightarrow> string option \<Rightarrow> unit ble" where
  "start_notify limit own w = (Inr (), w\<lparr>bw_subscription := Some (limit, own), bw_queue := []\<rparr>)"

definition stop_notify :: "unit ble" where
  "stop_notify w = (Inr (), w\<lparr>bw_subscription := None\<rparr>)"

fun wait_for :: "nat \<Rightarrow> string \<Rightarrow> string list \<Rightarrow> dict ble" where
  "wait_for 0 tx codes w = (Inl TimeoutError, w)"
| "wait_for (Suc n) tx codes w = (case bw_queue w of
     [] \<Rightarrow> if bw_queue (ble_tick w) = [] then (Inl TimeoutError, ble_tick w) else wait_for n tx codes (ble_tick w)
   | payload # rest \<Rightarrow>
       let w' = w\<lparr>bw_queue := rest\<rparr> in
       if dget payload ''tx'' \<noteq> JStr tx then wait_for n tx codes w'
       else if dget payload ''t'' = JStr ''ce''
       then (Inl (BleProvisioningError (bw_str w (dget_default payload ''code'' (JStr ''device_rejected'')))), w')
       else case in_str_set (dget payload ''code'') codes of
         Inl e \<Rightarrow> (Inl e, w') | Inr True \<Rightarrow> (Inr payload, w') | Inr False \<Rightarrow> wait_for n tx codes w')"

section \<open>Commands\<close>

definition filter_codes :: "(string \<times> int) list" where
  "filter_codes = [(''none'', 0), (''moving_average'', 1), (''ema'', 2), (''median'', 3)]"

text \<open>A configuration has no key \<open>enabled\<close>, so the last value is always 1.\<close>

definition configuration_values :: "installation_configuration \<Rightarrow> int list result" where
  "configuration_values c = (case map_of filter_codes (ic_filter_type c) of
     None \<Rightarrow> Inl (BleProvisioningError ''unsupported filter type'')
   | Some code \<Rightarrow> Inr [ic_sample_interval_ms c, ic_processing_interval_ms c, ic_report_interval_ms c,
       ic_heartbeat_interval_ms c, code, ic_filter_window c, 1])"

definition value_names :: "string list" where
  "value_names = [''sample'', ''process'', ''report'', ''heartbeat'', ''filter'', ''window'', ''enabled'']"

definition readback_matches :: "dict \<Rightarrow> int list \<Rightarrow> bool" where
  "readback_matches readback vs = list_all (\<lambda>(k, v). json_eq_int (dget readback k) v) (zip value_names vs)"

fun spaced :: "int list \<Rightarrow> string" where
  "spaced [] = []"
| "spaced [v] = int_str v"
| "spaced (v # vs) = int_str v @ '' '' @ spaced vs"

definition transaction_pattern :: "string \<Rightarrow> bool" where
  "transaction_pattern t = (16 \<le> length t \<and> length t \<le> 24 \<and> list_all is_lower_hex t)"

definition provget :: "string \<Rightarrow> string" where
  "provget tx = ''PROVGET 1 '' @ tx"

section \<open>Reading\<close>

definition inspect :: "(json \<times> json) ble" where
  "inspect =
     bind_ble open_ble (\<lambda>_.
     bind_ble (read_json id ''metadata'') (\<lambda>metadata.
     bind_ble (read_json id ''capabilities'') (\<lambda>capabilities. lift_ble (Inr (metadata, capabilities)))))"

text \<open>The exceptions of \<open>read_onboarding_identity\<close>.\<close>

fun read_identity_error :: "exn \<Rightarrow> exn" where
  "read_identity_error (OnboardingIdentityError m) = OnboardingIdentityError m"
| "read_identity_error e = BleProvisioningError (''onboarding identity read failed: '' @ exn_str e)"

definition read_onboarding_identity :: "dict ble" where
  "read_onboarding_identity w =
     (case bind_ble open_ble (\<lambda>_. bind_ble (read_gatt ''onboarding'') (\<lambda>raw w'.
         (parse_onboarding_payload (bw_loads w') raw, w'))) w of
        (Inl e, w') \<Rightarrow> (Inl (read_identity_error e), w')
      | (Inr p, w') \<Rightarrow> (Inr p, w'))"

record ble_state =
  bs_metadata :: json
  bs_capabilities :: json
  bs_readback :: dict

definition read_state :: "bool \<Rightarrow> string \<Rightarrow> ble_state ble" where
  "read_state locked tx =
     (if locked then lift_ble (Inl (BleProvisioningError ''a provisioning operation is already active for this node''))
      else
        bind_ble open_ble (\<lambda>_.
        bind_ble (read_json strip_nul ''metadata'') (\<lambda>metadata.
        bind_ble (read_json strip_nul ''capabilities'') (\<lambda>capabilities.
        bind_ble (start_notify 4 (Some tx)) (\<lambda>_.
        bind_ble (write_command (provget tx)) (\<lambda>_ w.
          (let w1 = (if bw_queue w = [] then ble_tick w else w) in
           case bw_queue w1 of
             [] \<Rightarrow> (Inl TimeoutError, w1)
           | readback # rest \<Rightarrow>
               bind_ble stop_notify (\<lambda>_. lift_ble
                 (if dget readback ''code'' \<noteq> JStr ''readback'' \<or> json_str (dget readback ''id'') = None
                  then Inl (BleProvisioningError ''device returned an invalid provisioning state'')
                  else Inr \<lparr>bs_metadata = metadata, bs_capabilities = capabilities, bs_readback = readback\<rparr>))
                 (w1\<lparr>bw_queue := rest\<rparr>))))))))"

section \<open>Provisioning\<close>

text \<open>\<open>except OnboardingIdentityError as exc: raise BleProvisioningError(str(exc))\<close>.\<close>

fun as_provisioning_error :: "exn \<Rightarrow> exn" where
  "as_provisioning_error (OnboardingIdentityError m) = BleProvisioningError m"
| "as_provisioning_error e = e"

definition read_onboarding :: "dict ble" where
  "read_onboarding = bind_ble (read_gatt ''onboarding'') (\<lambda>raw w.
     (case parse_onboarding_payload (bw_loads w) raw of Inl e \<Rightarrow> Inl (as_provisioning_error e) | Inr p \<Rightarrow> Inr p, w))"

definition expect_onboarding :: "string option \<Rightarrow> unit ble" where
  "expect_onboarding expected = (case expected of
     None \<Rightarrow> lift_ble (Inr ())
   | Some i \<Rightarrow> bind_ble read_onboarding (\<lambda>before. lift_ble
       (if dget before ''onboarding_identity'' \<noteq> JStr i
        then Inl (BleProvisioningError ''BLE candidate no longer matches the USB-verified physical sensor'') else Inr ())))"

definition onboarding_after :: "string option \<Rightarrow> dict option ble" where
  "onboarding_after expected = (case expected of
     None \<Rightarrow> lift_ble (Inr None)
   | Some _ \<Rightarrow> bind_ble read_onboarding (\<lambda>after. lift_ble (Inr (Some after))))"

definition node_supported :: "json \<Rightarrow> json \<Rightarrow> (dict \<times> dict) result" where
  "node_supported metadata capabilities =
     bind_result (as_object metadata) (\<lambda>m.
     bind_result (in_str_set (dget m ''protocol_version'') [''1.0.0'', ''1.1.0'']) (\<lambda>known.
       if \<not> known then Inl (BleProvisioningError ''node protocol version is unsupported'')
       else bind_result (as_object capabilities) (\<lambda>c.
         bind_result (as_object (dget_default c ''configuration'' (JObj []))) (\<lambda>configuration.
         if \<not> json_truthy (dget configuration ''readback'')
         then Inl (BleProvisioningError ''node does not support persistent configuration readback'') else Inr (m, c)))))"

text \<open>The acknowledgement: a node that already has the identity is only read back.\<close>

definition assign_identity :: "nat \<Rightarrow> dict \<Rightarrow> string \<Rightarrow> string \<Rightarrow> string \<Rightarrow> dict ble" where
  "assign_identity patience metadata node_id tx command =
     (if dget metadata ''node_id'' = JStr ''UNASSIGNED-MG24''
      then bind_ble (write_command command) (\<lambda>_. wait_for patience tx [''provisioned'', ''already_committed''])
      else if dget metadata ''node_id'' = JStr node_id
      then lift_ble (Inr [(''t'', JStr ''ca''), (''v'', JInt 1), (''id'', JStr node_id), (''tx'', JStr tx), (''code'', JStr ''resume_readback'')])
      else lift_ble (Inl (BleProvisioningError ''node is already assigned to a different identity'')))"

record provisioned =
  pv_acknowledgement :: dict
  pv_readback :: dict
  pv_metadata :: dict
  pv_capabilities :: dict
  pv_onboarding_after :: "dict option"

definition provision_checked :: "string \<Rightarrow> int list \<Rightarrow> provisioned \<Rightarrow> provisioned result" where
  "provision_checked node_id vs p =
     (if dget (pv_readback p) ''id'' \<noteq> JStr node_id \<or> \<not> readback_matches (pv_readback p) vs
      then Inl (BleProvisioningError ''device readback does not match requested identity and configuration'')
      else if (case pv_onboarding_after p of None \<Rightarrow> False
               | Some after \<Rightarrow> dget after ''provisioning_state'' \<noteq> JStr ''provisioned'' \<or> has_key after ''onboarding_identity'')
      then Inl (BleProvisioningError ''bootstrap identity remained exposed after provisioning'')
      else Inr p)"

text \<open>Up to the subscription nothing is written.\<close>

definition prepare_node :: "string option \<Rightarrow> (dict \<times> dict) ble" where
  "prepare_node expected =
     bind_ble open_ble (\<lambda>_.
     bind_ble (expect_onboarding expected) (\<lambda>_.
     bind_ble (read_json id ''metadata'') (\<lambda>metadata.
     bind_ble (read_json id ''capabilities'') (\<lambda>capabilities.
     bind_ble (lift_ble (node_supported metadata capabilities)) (\<lambda>node.
     bind_ble (start_notify 16 None) (\<lambda>_. lift_ble (Inr node)))))))"

definition provision_exchange ::
  "nat \<Rightarrow> string \<Rightarrow> string \<Rightarrow> installation_configuration \<Rightarrow> string option \<Rightarrow> provisioned ble" where
  "provision_exchange patience node_id tx configuration expected =
     bind_ble (lift_ble (configuration_values configuration)) (\<lambda>vs.
     let command = ''PROV 1 '' @ tx @ '' '' @ node_id @ '' '' @ spaced vs in
     if length command > 191 then lift_ble (Inl (BleProvisioningError ''provisioning command exceeds firmware limit''))
     else
       bind_ble (prepare_node expected) (\<lambda>(metadata, capabilities).
       bind_ble (assign_identity patience metadata node_id tx command) (\<lambda>acknowledgement.
       bind_ble (write_command (provget tx)) (\<lambda>_.
       bind_ble (wait_for patience tx [''readback'']) (\<lambda>readback.
       bind_ble (onboarding_after expected) (\<lambda>after.
       bind_ble stop_notify (\<lambda>_.
         lift_ble (provision_checked node_id vs
           \<lparr>pv_acknowledgement = acknowledgement, pv_readback = readback, pv_metadata = metadata,
            pv_capabilities = capabilities, pv_onboarding_after = after\<rparr>))))))))"

text \<open>\<open>locked\<close>: another operation holds the lock of the address.\<close>

definition provision ::
  "nat \<Rightarrow> bool \<Rightarrow> string \<Rightarrow> string \<Rightarrow> installation_configuration \<Rightarrow> string option \<Rightarrow> provisioned ble" where
  "provision patience locked node_id transaction_id configuration expected =
     (if \<not> node_id_text node_id \<or> length node_id > 31 then lift_ble (Inl (BleProvisioningError ''node_id is invalid''))
      else if \<not> transaction_pattern transaction_id then lift_ble (Inl (BleProvisioningError ''transaction_id is invalid''))
      else if locked then lift_ble (Inl (BleProvisioningError ''a provisioning operation is already active for this node''))
      else provision_exchange patience node_id (map ascii_upper_char transaction_id) configuration expected)"

section \<open>Reconfiguration\<close>

definition configure_exchange :: "nat \<Rightarrow> string \<Rightarrow> string \<Rightarrow> string \<Rightarrow> int list \<Rightarrow> (dict \<times> dict) ble" where
  "configure_exchange patience node_id tx command vs =
     bind_ble open_ble (\<lambda>_.
     bind_ble (start_notify 16 None) (\<lambda>_.
     bind_ble (write_command (provget tx)) (\<lambda>_.
     bind_ble (wait_for patience tx [''readback'']) (\<lambda>before.
     if dget before ''id'' \<noteq> JStr node_id
     then lift_ble (Inl (BleProvisioningError ''authoritative identity changed; no configuration was written''))
     else if readback_matches before vs
     then bind_ble stop_notify (\<lambda>_. lift_ble (Inr ([(''code'', JStr ''already_applied''), (''tx'', JStr tx)], before)))
     else
       bind_ble (write_command command) (\<lambda>_.
       bind_ble (wait_for patience tx [''configured'']) (\<lambda>acknowledgement.
       bind_ble (write_command (provget tx)) (\<lambda>_.
       bind_ble (wait_for patience tx [''readback'']) (\<lambda>readback.
       bind_ble stop_notify (\<lambda>_. lift_ble
         (if \<not> readback_matches readback vs
          then Inl (BleProvisioningError ''device configuration readback does not match the requested values'')
          else Inr (acknowledgement, readback)))))))))))"

definition configure :: "nat \<Rightarrow> bool \<Rightarrow> string \<Rightarrow> string \<Rightarrow> installation_configuration \<Rightarrow> (dict \<times> dict) ble" where
  "configure patience locked node_id transaction_id configuration =
     (if \<not> transaction_pattern transaction_id then lift_ble (Inl (BleProvisioningError ''transaction_id is invalid''))
      else let tx = map ascii_upper_char transaction_id in
        bind_ble (lift_ble (configuration_values configuration)) (\<lambda>vs.
        let command = ''CFGSET 1 '' @ tx @ '' '' @ spaced vs in
        if length command > 191 then lift_ble (Inl (BleProvisioningError ''configuration command exceeds firmware limit''))
        else if locked then lift_ble (Inl (BleProvisioningError ''another dashboard operation is already using this sensor''))
        else configure_exchange patience node_id tx command vs))"

section \<open>Reasoning about exchanges\<close>

lemma bind_ble_Inr_iff:
  "bind_ble m f w = (Inr y, w') \<longleftrightarrow> (\<exists>x w1. m w = (Inr x, w1) \<and> f x w1 = (Inr y, w'))"
  by (auto simp: bind_ble_def split: prod.splits sum.splits)

lemma lift_ble_iff [simp]: "lift_ble r w = (r', w') \<longleftrightarrow> r = r' \<and> w = w'"
  by (auto simp: lift_ble_def)

text \<open>Steps that write no command, and leave the node as it is.\<close>

definition same_node_answers :: "ble_world \<Rightarrow> ble_world \<Rightarrow> bool" where
  "same_node_answers w w' = (bw_loads w' = bw_loads w \<and> bw_read w' = bw_read w)"

definition quiet :: "'a ble \<Rightarrow> bool" where
  "quiet m = (\<forall>w. same_node_answers w (snd (m w)) \<and> bw_written (snd (m w)) = bw_written w)"

lemma quietD: "quiet m \<Longrightarrow> m w = (r, w') \<Longrightarrow> same_node_answers w w' \<and> bw_written w' = bw_written w"
  unfolding quiet_def by (metis snd_conv)

lemma quiet_bind [intro]: "quiet m \<Longrightarrow> (\<And>x. quiet (f x)) \<Longrightarrow> quiet (bind_ble m f)"
proof -
  assume m: "quiet m" and f: "\<And>x. quiet (f x)"
  have "same_node_answers w (snd (bind_ble m f w)) \<and> bw_written (snd (bind_ble m f w)) = bw_written w" for w
  proof (cases "m w")
    case (Pair r w1)
    then show ?thesis
      using quietD[OF m Pair] f by (cases r) (auto simp: bind_ble_def quiet_def same_node_answers_def)
  qed
  then show ?thesis by (simp add: quiet_def)
qed

lemma notified_frame: "same_node_answers w (notified raw w) \<and> bw_written (notified raw w) = bw_written w"
  by (auto simp: notified_def same_node_answers_def split: option.splits json.splits)

lemma ble_tick_frame [simp]:
  "bw_loads (ble_tick w) = bw_loads w" "bw_read (ble_tick w) = bw_read w" "bw_written (ble_tick w) = bw_written w"
proof -
  have "same_node_answers v (fold notified raws v) \<and> bw_written (fold notified raws v) = bw_written v" for raws v
    by (induction raws arbitrary: v) (use notified_frame in \<open>auto simp: same_node_answers_def\<close>)
  from this[of "w\<lparr>bw_clock := Suc (bw_clock w)\<rparr>"]
  show "bw_loads (ble_tick w) = bw_loads w" "bw_read (ble_tick w) = bw_read w" "bw_written (ble_tick w) = bw_written w"
    by (simp_all add: ble_tick_def same_node_answers_def)
qed

lemma wait_for_quiet [intro]: "quiet (wait_for n tx codes)"
proof -
  have "same_node_answers w (snd (wait_for n tx codes w)) \<and> bw_written (snd (wait_for n tx codes w)) = bw_written w" for w
    by (induction n tx codes w rule: wait_for.induct)
      (auto simp: same_node_answers_def Let_def split: list.splits sum.splits bool.splits)
  then show ?thesis by (simp add: quiet_def)
qed

lemma quiet_steps [intro]:
  "quiet open_ble" "quiet (read_gatt uuid)" "quiet (start_notify limit own)" "quiet stop_notify" "quiet (lift_ble r)"
  by (simp_all add: quiet_def same_node_answers_def open_ble_def read_gatt_def start_notify_def stop_notify_def lift_ble_def)

lemma quiet_pure [intro]: "quiet (\<lambda>w. (g w, w))"
  by (simp add: quiet_def same_node_answers_def)

lemma quiet_reads [intro]:
  "quiet (read_json clean uuid)" "quiet read_onboarding" "quiet (expect_onboarding expected)" "quiet (onboarding_after expected)"
proof -
  show r: "quiet read_onboarding" "quiet (read_json clean uuid)" by (auto simp: read_json_def read_onboarding_def)
  show "quiet (expect_onboarding expected)" "quiet (onboarding_after expected)"
    using r by (auto simp: expect_onboarding_def onboarding_after_def split: option.split)
qed

lemma prepare_node_quiet [intro]: "quiet (prepare_node expected)"
  unfolding prepare_node_def by (intro quiet_bind quiet_steps quiet_reads)

lemma wait_for_Inr:
  "wait_for n tx codes w = (Inr p, w') \<Longrightarrow>
     dget p ''tx'' = JStr tx \<and> dget p ''t'' \<noteq> JStr ''ce'' \<and> (\<exists>c \<in> set codes. dget p ''code'' = JStr c)"
  by (induction n tx codes w rule: wait_for.induct)
    (auto simp: Let_def in_str_set_def split: list.splits if_splits sum.splits bool.splits json.splits)

section \<open>A provisioned node\<close>

definition holds_configuration :: "dict \<Rightarrow> installation_configuration \<Rightarrow> bool" where
  "holds_configuration readback c = (json_eq_int (dget readback ''sample'') (ic_sample_interval_ms c)
     \<and> json_eq_int (dget readback ''process'') (ic_processing_interval_ms c)
     \<and> json_eq_int (dget readback ''report'') (ic_report_interval_ms c)
     \<and> json_eq_int (dget readback ''heartbeat'') (ic_heartbeat_interval_ms c)
     \<and> (\<exists>code. map_of filter_codes (ic_filter_type c) = Some code \<and> json_eq_int (dget readback ''filter'') code)
     \<and> json_eq_int (dget readback ''window'') (ic_filter_window c) \<and> json_eq_int (dget readback ''enabled'') 1)"

lemma readback_matches_iff:
  "configuration_values c = Inr vs \<Longrightarrow> readback_matches r vs \<longleftrightarrow> holds_configuration r c"
  by (auto simp: configuration_values_def readback_matches_def value_names_def holds_configuration_def split: option.splits)

lemma provision_checked_Inr:
  "provision_checked node_id vs p = Inr q \<Longrightarrow> q = p \<and> dget (pv_readback p) ''id'' = JStr node_id
     \<and> readback_matches (pv_readback p) vs
     \<and> (\<forall>after. pv_onboarding_after p = Some after \<longrightarrow>
          dget after ''provisioning_state'' = JStr ''provisioned'' \<and> \<not> has_key after ''onboarding_identity'')"
  by (auto simp: provision_checked_def split: if_splits option.splits)

lemma onboarding_after_Inr: "onboarding_after expected w = (Inr r, w') \<Longrightarrow> r = None \<longleftrightarrow> expected = None"
  by (cases expected) (auto simp: onboarding_after_def bind_ble_Inr_iff)

lemma assign_identity_Inr:
  "assign_identity n metadata node_id tx command w = (Inr r, w') \<Longrightarrow>
     dget metadata ''node_id'' \<in> {JStr ''UNASSIGNED-MG24'', JStr node_id}"
  by (auto simp: assign_identity_def split: if_splits)

text \<open>Every queued payload is a notification the node has sent.\<close>

definition sent_by_node :: "ble_world \<Rightarrow> dict \<Rightarrow> bool" where
  "sent_by_node w payload = (\<exists>k raw. raw \<in> set (bw_arrive w k) \<and> bw_loads w raw = Some (JObj payload))"

definition hears :: "'a ble \<Rightarrow> bool" where
  "hears m = (\<forall>w. sent_by_node (snd (m w)) = sent_by_node w \<and>
     (list_all (sent_by_node w) (bw_queue w) \<longrightarrow> list_all (sent_by_node w) (bw_queue (snd (m w)))))"

lemma hearsD:
  "hears m \<Longrightarrow> m w = (r, w') \<Longrightarrow>
     sent_by_node w' = sent_by_node w \<and> (list_all (sent_by_node w) (bw_queue w) \<longrightarrow> list_all (sent_by_node w) (bw_queue w'))"
  unfolding hears_def by (metis snd_conv)

lemma hears_bind [intro]: "hears m \<Longrightarrow> (\<And>x. hears (f x)) \<Longrightarrow> hears (bind_ble m f)"
proof -
  assume m: "hears m" and f: "\<And>x. hears (f x)"
  have "sent_by_node (snd (bind_ble m f w)) = sent_by_node w \<and>
     (list_all (sent_by_node w) (bw_queue w) \<longrightarrow> list_all (sent_by_node w) (bw_queue (snd (bind_ble m f w))))" for w
  proof (cases "m w")
    case (Pair r w1)
    obtain r2 w2 where next_step: "f (projr r) w1 = (r2, w2)" by fastforce
    show ?thesis
      using Pair next_step hearsD[OF m Pair] hearsD[OF f next_step] by (cases r) (simp_all add: bind_ble_def)
  qed
  then show ?thesis by (simp add: hears_def)
qed

lemma notified_sent: "sent_by_node (notified raw w) = sent_by_node w"
  by (auto simp: notified_def sent_by_node_def fun_eq_iff split: option.splits json.splits)

lemma notified_heard:
  "raw \<in> set (bw_arrive w k) \<Longrightarrow> list_all (sent_by_node w) (bw_queue w) \<Longrightarrow> list_all (sent_by_node w) (bw_queue (notified raw w))"
  by (auto simp: notified_def sent_by_node_def split: option.splits json.splits)

lemma ble_tick_heard:
  "sent_by_node (ble_tick w) = sent_by_node w"
  "list_all (sent_by_node w) (bw_queue w) \<Longrightarrow> list_all (sent_by_node w) (bw_queue (ble_tick w))"
proof -
  have arrive: "bw_arrive (notified raw v) = bw_arrive v" for raw v
    by (auto simp: notified_def split: option.splits json.splits)
  have run: "sent_by_node (fold notified raws v) = sent_by_node v \<and>
      (set raws \<subseteq> set (bw_arrive v k) \<longrightarrow> list_all (sent_by_node v) (bw_queue v) \<longrightarrow> list_all (sent_by_node v) (bw_queue (fold notified raws v)))" for raws v k
  proof (induction raws arbitrary: v)
    case (Cons raw raws)
    then show ?case using Cons.IH[of "notified raw v"] notified_heard[of raw v k] by (simp add: notified_sent arrive)
  qed simp
  let ?v = "w\<lparr>bw_clock := Suc (bw_clock w)\<rparr>"
  have same: "sent_by_node ?v = sent_by_node w" by (auto simp: sent_by_node_def fun_eq_iff)
  show "sent_by_node (ble_tick w) = sent_by_node w"
    using run[of "bw_arrive w (bw_clock w)" ?v "bw_clock w"] same by (simp add: ble_tick_def)
  show "list_all (sent_by_node w) (bw_queue w) \<Longrightarrow> list_all (sent_by_node w) (bw_queue (ble_tick w))"
    using run[of "bw_arrive w (bw_clock w)" ?v "bw_clock w"] same by (simp add: ble_tick_def)
qed

lemma sent_by_node_update [simp]:
  "sent_by_node (w\<lparr>bw_queue := q\<rparr>) = sent_by_node w" "sent_by_node (w\<lparr>bw_written := c\<rparr>) = sent_by_node w"
  "sent_by_node (w\<lparr>bw_subscription := u\<rparr>) = sent_by_node w"
  by (auto simp: sent_by_node_def fun_eq_iff)

lemma hears_steps [intro]:
  "hears open_ble" "hears (read_gatt uuid)" "hears (start_notify limit own)" "hears stop_notify" "hears (lift_ble r)"
  "hears (write_command command)" "hears (\<lambda>w. (g w, w))"
  using ble_tick_heard(2)[of "w\<lparr>bw_written := c\<rparr>" for w c]
  by (simp_all add: hears_def ble_tick_heard open_ble_def read_gatt_def start_notify_def stop_notify_def lift_ble_def write_command_def)

lemma wait_for_sent: "sent_by_node (snd (wait_for n tx codes w)) = sent_by_node w"
  by (induction n tx codes w rule: wait_for.induct)
    (simp_all add: Let_def ble_tick_heard(1) split: list.splits sum.splits bool.splits)

lemma wait_for_heard:
  "list_all (sent_by_node w) (bw_queue w) \<Longrightarrow> list_all (sent_by_node w) (bw_queue (snd (wait_for n tx codes w)))
     \<and> (\<forall>p. fst (wait_for n tx codes w) = Inr p \<longrightarrow> sent_by_node w p)"
proof (induction n tx codes w rule: wait_for.induct)
  case (2 n tx codes w)
  show ?case
  proof (cases "bw_queue w")
    case Nil
    then show ?thesis using 2 ble_tick_heard[of w] by (cases "bw_queue (ble_tick w) = []") simp_all
  next
    case (Cons payload rest)
    then show ?thesis using 2 by (auto simp: Let_def split: sum.splits bool.splits)
  qed
qed simp

lemma hears_assign [intro]: "hears (wait_for n tx codes)" "hears (assign_identity n metadata node_id tx command)"
proof -
  show "hears (wait_for n tx codes)" for n tx codes using wait_for_heard wait_for_sent by (simp add: hears_def)
  then show "hears (assign_identity n metadata node_id tx command)" by (auto simp: assign_identity_def)
qed

lemma hears_reads [intro]: "hears read_onboarding" "hears (read_json clean uuid)" "hears (expect_onboarding expected)"
proof -
  show r: "hears read_onboarding" "hears (read_json clean uuid)"
    unfolding read_onboarding_def read_json_def by (intro hears_bind hears_steps)+
  show "hears (expect_onboarding expected)"
    using r(1) by (auto simp: expect_onboarding_def split: option.split)
qed

lemma prepare_node_hears:
  assumes "prepare_node expected w = (Inr r, w')"
  shows "sent_by_node w' = sent_by_node w" "bw_queue w' = []"
proof -
  have "hears (prepare_node expected)" unfolding prepare_node_def by (intro hears_bind hears_reads hears_steps)
  from hearsD[OF this assms] show "sent_by_node w' = sent_by_node w" by simp
  show "bw_queue w' = []" using assms by (auto simp: prepare_node_def bind_ble_Inr_iff start_notify_def)
qed

definition reads_back :: "ble_world \<Rightarrow> string \<Rightarrow> string \<Rightarrow> installation_configuration \<Rightarrow> dict \<Rightarrow> bool" where
  "reads_back w node_id transaction_id configuration readback = (sent_by_node w readback
     \<and> dget readback ''code'' = JStr ''readback'' \<and> dget readback ''tx'' = JStr (map ascii_upper_char transaction_id)
     \<and> dget readback ''id'' = JStr node_id \<and> holds_configuration readback configuration)"

lemma provision_Inr:
  assumes "Ble_Provisioning.provision patience locked node_id transaction_id configuration expected w = (Inr p, w')"
  shows "reads_back w node_id transaction_id configuration (pv_readback p)
    \<and> dget (pv_metadata p) ''node_id'' \<in> {JStr ''UNASSIGNED-MG24'', JStr node_id}
    \<and> (expected \<noteq> None \<longrightarrow> (\<exists>after. pv_onboarding_after p = Some after
         \<and> dget after ''provisioning_state'' = JStr ''provisioned'' \<and> \<not> has_key after ''onboarding_identity''))"
proof -
  let ?tx = "map ascii_upper_char transaction_id"
  have run: "provision_exchange patience node_id ?tx configuration expected w = (Inr p, w')"
    using assms by (simp add: Ble_Provisioning.provision_def split: if_splits)
  obtain vs metadata caps ack readback after command w1 w2 w3 w4 w5 u where
    vs: "configuration_values configuration = Inr vs"
    and prepared: "prepare_node expected w = (Inr (metadata, caps), w1)"
    and assign: "assign_identity patience metadata node_id ?tx command w1 = (Inr ack, w2)"
    and get: "write_command (provget ?tx) w2 = (Inr u, w3)"
    and wait: "wait_for patience ?tx [''readback''] w3 = (Inr readback, w4)"
    and after: "onboarding_after expected w4 = (Inr after, w5)"
    and check: "provision_checked node_id vs \<lparr>pv_acknowledgement = ack, pv_readback = readback, pv_metadata = metadata,
      pv_capabilities = caps, pv_onboarding_after = after\<rparr> = Inr p"
    using run unfolding provision_exchange_def Let_def bind_ble_Inr_iff
    by (elim exE conjE) (simp split: if_splits add: bind_ble_Inr_iff, metis)
  have "sent_by_node w3 = sent_by_node w \<and> list_all (sent_by_node w) (bw_queue w3)"
    using prepare_node_hears[OF prepared] hearsD[OF hears_assign(2) assign] hearsD[OF hears_steps(6) get] by simp
  then have "sent_by_node w readback"
    using wait_for_heard[of w3 patience ?tx "[''readback'']"] wait by simp
  with provision_checked_Inr[OF check] show ?thesis
    using wait_for_Inr[OF wait] assign_identity_Inr[OF assign] onboarding_after_Inr[OF after] readback_matches_iff[OF vs]
    by (auto simp: reads_back_def)
qed


section \<open>What is written, and when\<close>

lemma quiet_then:
  assumes "bind_ble m f w = (r, w')" "quiet m"
  obtains (failed) e where "m w = (Inl e, w')" "r = Inl e" "same_node_answers w w'" "bw_written w' = bw_written w"
  | (went) x w1 where "m w = (Inr x, w1)" "f x w1 = (r, w')" "same_node_answers w w1" "bw_written w1 = bw_written w"
proof (cases "m w")
  case (Pair q w1)
  then show thesis
    using assms(1) quietD[OF assms(2) Pair] failed went by (cases q) (auto simp: bind_ble_def)
qed

lemma write_command_frame:
  "write_command command w = (r, w') \<Longrightarrow> same_node_answers w w' \<and> bw_written w' = bw_written w @ [command]"
  by (auto simp: write_command_def same_node_answers_def)

lemma same_node_answers_trans: "same_node_answers a b \<Longrightarrow> same_node_answers b c \<Longrightarrow> same_node_answers a c"
  by (simp add: same_node_answers_def)

text \<open>The tail of the exchange asks once for a read-back.\<close>

lemma provget_tail:
  assumes "bind_ble (write_command (provget tx)) (\<lambda>_. m) w = (r, w')" and "quiet m"
  shows "bw_written w' = bw_written w @ [provget tx]"
proof -
  obtain q w1 where "write_command (provget tx) w = (q, w1)" by fastforce
  then show ?thesis
    using assms(1) write_command_frame[of "provget tx" w q w1] quietD[OF assms(2), of w1]
    by (cases q) (auto simp: bind_ble_def)
qed

lemma assign_identity_writes:
  assumes "bind_ble (assign_identity n metadata node_id tx command) (\<lambda>a. bind_ble (write_command (provget tx)) (\<lambda>_. m a)) w = (r, w')"
    and "\<And>a. quiet (m a)"
  shows "bw_written w' \<in> {bw_written w, bw_written w @ [provget tx]}
    \<or> dget metadata ''node_id'' = JStr ''UNASSIGNED-MG24''
      \<and> bw_written w' \<in> {bw_written w @ [command], bw_written w @ [command, provget tx]}"
proof (cases "dget metadata ''node_id'' = JStr ''UNASSIGNED-MG24''")
  case True
  obtain q w1 where w1: "write_command command w = (q, w1)" by fastforce
  note written = write_command_frame[OF w1]
  show ?thesis
  proof (cases q)
    case (Inl e)
    then show ?thesis using assms(1) True w1 written by (simp add: assign_identity_def bind_ble_def)
  next
    case (Inr u)
    obtain q2 w2 where w2: "wait_for n tx [''provisioned'', ''already_committed''] w1 = (q2, w2)" by fastforce
    have "bw_written w2 = bw_written w1" using quietD[OF wait_for_quiet w2] by simp
    moreover have "bw_written w' = bw_written w2 @ [provget tx]" if "q2 = Inr a" for a
      using assms(1) True w1 w2 Inr that by (intro provget_tail[OF _ assms(2)[of a], of tx w2 r]) (simp add: assign_identity_def bind_ble_def)
    moreover have "w' = w2" if "q2 = Inl e" for e
      using assms(1) True w1 w2 Inr that by (simp add: assign_identity_def bind_ble_def)
    ultimately show ?thesis using written True by (cases q2) auto
  qed
next
  case False
  show ?thesis
  proof (cases "dget metadata ''node_id'' = JStr node_id")
    case True
    let ?a = "[(''t'', JStr ''ca''), (''v'', JInt 1), (''id'', JStr node_id), (''tx'', JStr tx), (''code'', JStr ''resume_readback'')]"
    have "bind_ble (write_command (provget tx)) (\<lambda>_. m ?a) w = (r, w')"
      using assms(1) False True by (simp add: assign_identity_def bind_ble_def lift_ble_def)
    from provget_tail[OF this assms(2)] show ?thesis by simp
  qed (use assms(1) False in \<open>simp add: assign_identity_def bind_ble_def lift_ble_def\<close>)
qed

lemma read_onboarding_Inr:
  assumes "read_onboarding w = (Inr p, w')"
  shows "\<exists>k raw. bw_read w k ''onboarding'' = Inr raw \<and> parse_onboarding_payload (bw_loads w) raw = Inr p"
proof -
  obtain raw where read: "bw_read w (bw_clock w) ''onboarding'' = Inr raw"
    and ok: "(case parse_onboarding_payload (bw_loads w) raw of Inl e \<Rightarrow> Inl (as_provisioning_error e) | Inr p \<Rightarrow> Inr p) = Inr p"
    using assms unfolding read_onboarding_def by (auto simp only: bind_ble_Inr_iff read_gatt_def prod.inject ble_tick_frame)
  from ok have "parse_onboarding_payload (bw_loads w) raw = Inr p"
    by (cases "parse_onboarding_payload (bw_loads w) raw") auto
  with read show ?thesis by blast
qed

lemma read_json_Inr:
  assumes "read_json clean uuid w = (Inr v, w')"
  shows "\<exists>k raw. bw_read w k uuid = Inr raw \<and> bw_loads w (clean raw) = Some v"
proof -
  obtain raw where read: "bw_read w (bw_clock w) uuid = Inr raw"
    and ok: "(case bw_loads w (clean raw) of None \<Rightarrow> Inl (ValueError ''not UTF-8 JSON'') | Some v \<Rightarrow> Inr v) = Inr v"
    using assms unfolding read_json_def by (auto simp only: bind_ble_Inr_iff read_gatt_def prod.inject ble_tick_frame)
  from ok have "bw_loads w (clean raw) = Some v" by (cases "bw_loads w (clean raw)") auto
  with read show ?thesis by blast
qed

lemma node_supported_Inr:
  "node_supported metadata capabilities = Inr (m, c) \<Longrightarrow> metadata = JObj m \<and> capabilities = JObj c"
  by (auto simp: node_supported_def bind_result_Inr_iff as_object_Inr_iff split: if_splits)

definition shows_identity :: "ble_world \<Rightarrow> string \<Rightarrow> bool" where
  "shows_identity w i = (\<exists>k raw payload. bw_read w k ''onboarding'' = Inr raw
     \<and> parse_onboarding_payload (bw_loads w) raw = Inr payload \<and> dget payload ''onboarding_identity'' = JStr i)"

lemma prepare_node_Inr:
  assumes "prepare_node expected w = (Inr (metadata, capabilities), w')"
  shows "\<exists>k raw. bw_read w k ''metadata'' = Inr raw \<and> bw_loads w raw = Some (JObj metadata)"
    and "expected = Some i \<Longrightarrow> shows_identity w i"
proof -
  obtain w1 w2 w3 v where o: "open_ble w = (Inr (), w1)" and x: "expect_onboarding expected w1 = (Inr (), w2)"
    and m: "read_json id ''metadata'' w2 = (Inr v, w3)" and v: "v = JObj metadata"
    using assms unfolding prepare_node_def
    by (auto simp: bind_ble_Inr_iff start_notify_def dest!: node_supported_Inr)
  have e: "same_node_answers w w1" "same_node_answers w w2"
    using quietD[OF quiet_steps(1) o] quietD[OF quiet_reads(3) x] same_node_answers_trans by blast+
  show "\<exists>k raw. bw_read w k ''metadata'' = Inr raw \<and> bw_loads w raw = Some (JObj metadata)"
    using read_json_Inr[OF m] e(2) v by (simp add: same_node_answers_def)
  show "shows_identity w i" if some: "expected = Some i"
  proof -
    obtain p w4 where "read_onboarding w1 = (Inr p, w4)" "dget p ''onboarding_identity'' = JStr i"
      using x some by (auto simp: expect_onboarding_def bind_ble_Inr_iff split: if_splits)
    with read_onboarding_Inr[of w1 p w4] e(1) show ?thesis by (auto simp: same_node_answers_def shows_identity_def)
  qed
qed

text \<open>C19. Whatever the node answers, an exchange writes at most one assignment and one request for the read-back, in this
  order; the assignment is written only to a node that reports no identifier, and where a physical
  sensor is expected only after the node has shown the onboarding identity of that sensor.\<close>

theorem provision_writes_guarded:
  assumes "Ble_Provisioning.provision patience locked node_id transaction_id configuration expected w = (r, w')"
  defines "get \<equiv> provget (map ascii_upper_char transaction_id)"
  shows "bw_written w' \<in> {bw_written w, bw_written w @ [get]}
    \<or> (\<exists>command. bw_written w' \<in> {bw_written w @ [command], bw_written w @ [command, get]})
      \<and> (\<exists>k raw metadata. bw_read w k ''metadata'' = Inr raw \<and> bw_loads w raw = Some (JObj metadata)
           \<and> dget metadata ''node_id'' = JStr ''UNASSIGNED-MG24'')
      \<and> (\<forall>i. expected = Some i \<longrightarrow> shows_identity w i)"
proof (cases "provision_exchange patience node_id (map ascii_upper_char transaction_id) configuration expected w = (r, w')")
  case False
  then have "w' = w" using assms(1) by (auto simp: Ble_Provisioning.provision_def split: if_splits)
  then show ?thesis by simp
next
  case True
  let ?tx = "map ascii_upper_char transaction_id"
  show ?thesis
  proof (cases "configuration_values configuration")
    case (Inl e)
    with True have "w' = w" by (simp add: provision_exchange_def bind_ble_def lift_ble_def)
    then show ?thesis by simp
  next
    case (Inr vs)
    define command where "command = ''PROV 1 '' @ ?tx @ '' '' @ node_id @ '' '' @ spaced vs"
    show ?thesis
    proof (cases "length command > 191")
      case True
      with \<open>provision_exchange _ _ _ _ _ _ = _\<close> Inr have "w' = w"
        by (simp add: provision_exchange_def bind_ble_def lift_ble_def command_def Let_def)
      then show ?thesis by simp
    next
      case False
      define tail where "tail = (\<lambda>(metadata, capabilities).
        bind_ble (assign_identity patience metadata node_id ?tx command) (\<lambda>acknowledgement.
        bind_ble (write_command (provget ?tx)) (\<lambda>_.
        bind_ble (wait_for patience ?tx [''readback'']) (\<lambda>readback.
        bind_ble (onboarding_after expected) (\<lambda>after.
        bind_ble stop_notify (\<lambda>_.
          lift_ble (provision_checked node_id vs
            \<lparr>pv_acknowledgement = acknowledgement, pv_readback = readback, pv_metadata = metadata,
             pv_capabilities = capabilities, pv_onboarding_after = after\<rparr>)))))))"
      have "provision_exchange patience node_id ?tx configuration expected w = bind_ble (prepare_node expected) tail w"
        using False Inr by (simp add: provision_exchange_def bind_ble_def lift_ble_def command_def Let_def tail_def)
      with True have run: "bind_ble (prepare_node expected) tail w = (r, w')" by simp
      then show ?thesis
      proof (cases rule: quiet_then[OF _ prepare_node_quiet, consumes 1])
        case (2 x w1)
        obtain metadata capabilities where x: "x = (metadata, capabilities)" by (cases x)
        from 2(2) have "bw_written w' \<in> {bw_written w1, bw_written w1 @ [get]}
          \<or> dget metadata ''node_id'' = JStr ''UNASSIGNED-MG24'' \<and> bw_written w' \<in> {bw_written w1 @ [command], bw_written w1 @ [command, get]}"
          unfolding x tail_def prod.case get_def by (rule assign_identity_writes) blast
        then show ?thesis
          using 2(4) prepare_node_Inr[OF 2(1)[unfolded x]] by auto
      qed simp
    qed
  qed
qed

text \<open>The same for a reconfiguration: success means that the node reads back the requested values.\<close>

theorem configure_verified:
  assumes "configure patience locked node_id transaction_id configuration w = (Inr (ack, readback), w')"
  shows "holds_configuration readback configuration
    \<and> dget readback ''tx'' = JStr (map ascii_upper_char transaction_id) \<and> dget readback ''code'' = JStr ''readback''"
proof -
  let ?tx = "map ascii_upper_char transaction_id"
  obtain vs command where vs: "configuration_values configuration = Inr vs"
    and run: "configure_exchange patience node_id ?tx command vs w = (Inr (ack, readback), w')"
    using assms by (auto simp: configure_def Let_def bind_ble_Inr_iff split: if_splits)
  obtain w1 w2 where "wait_for patience ?tx [''readback''] w1 = (Inr readback, w2)" "readback_matches readback vs"
    using run unfolding configure_exchange_def
    by (auto simp: bind_ble_Inr_iff split: if_splits)
  with wait_for_Inr[of patience ?tx "[''readback'']" w1 readback w2] readback_matches_iff[OF vs] show ?thesis by auto
qed

section \<open>The provisioner behind the configurator\<close>

text \<open>What the configurator of the provisioning component sees of an exchange.\<close>

definition provision_outcome ::
  "nat \<Rightarrow> (string \<Rightarrow> bool) \<Rightarrow> (string \<Rightarrow> ble_world) \<Rightarrow> string \<Rightarrow> string \<Rightarrow> string \<Rightarrow> installation_configuration \<Rightarrow> unit result" where
  "provision_outcome patience locked world address node_id tx configuration =
     bind_result (fst (Ble_Provisioning.provision patience (locked address) node_id tx configuration None (world address))) (\<lambda>_. Inr ())"

text \<open>The composition with the configurator: when an installation's configuration is applied over BLE, the node at the
  registered address has itself read the configuration back, under the node's identity and the transaction of this attempt.\<close>

theorem ble_apply_is_read_back:
  assumes "ble_apply (provision_outcome patience locked world) c s node_id interface_id transaction_id configuration = (Inr applied, c')"
  shows "applied = configuration \<and> (\<exists>device address readback. get_device s node_id = Some device \<and> rd_ble_address device = Some address
    \<and> reads_back (world address) node_id (take 16 transaction_id) configuration readback)"
proof -
  obtain device where d: "get_device s node_id = Some device" "truthy (rd_ble_address device)" "applied = configuration"
    and ok: "provision_outcome patience locked world (the (rd_ble_address device)) node_id (take 16 transaction_id) configuration = Inr ()"
    using assms by (auto simp: ble_apply_def Let_def split: if_splits option.splits sum.splits)
  let ?w = "world (the (rd_ble_address device))"
  obtain p w' where run: "Ble_Provisioning.provision patience (locked (the (rd_ble_address device))) node_id (take 16 transaction_id)
      configuration None ?w = (Inr p, w')"
    using ok by (auto simp: provision_outcome_def bind_result_Inr_iff fst_def split: prod.splits)
  obtain address where "rd_ble_address device = Some address" using d(2) by (auto simp: truthy_def split: option.splits)
  with d provision_Inr[OF run] show ?thesis by auto
qed

section \<open>Examples\<close>

definition sample_answers :: "(string \<times> json) list" where
  "sample_answers = [
     (''M'', JObj [(''protocol_version'', JStr ''1.1.0''), (''node_id'', JStr ''UNASSIGNED-MG24'')]),
     (''C'', JObj [(''configuration'', JObj [(''readback'', JBool True)])]),
     (''O'', JObj [(''schema_version'', JInt 1), (''provisioning_state'', JStr ''unprovisioned''),
        (''onboarding_identity'', JStr (replicate 32 (CHR ''a''))), (''protocol_version'', JStr ''1.1.0''), (''firmware_version'', JStr ''1.2.3'')]),
     (''P'', JObj [(''schema_version'', JInt 1), (''provisioning_state'', JStr ''provisioned'')]),
     (''A'', JObj [(''t'', JStr ''ca''), (''tx'', JStr ''0000111122223333''), (''code'', JStr ''provisioned'')]),
     (''R'', JObj [(''t'', JStr ''ca''), (''tx'', JStr ''0000111122223333''), (''code'', JStr ''readback''), (''id'', JStr ''N-1''),
        (''sample'', JInt 100), (''process'', JInt 100), (''report'', JInt 100), (''heartbeat'', JInt 30000), (''filter'', JInt 0),
        (''window'', JInt 1), (''enabled'', JInt 1)])]"

definition sample_ble :: ble_world where
  "sample_ble = \<lparr>bw_loads = map_of sample_answers, bw_str = (\<lambda>_. ''''), bw_open = (\<lambda>_. Inr ()),
     bw_read = (\<lambda>k uuid. Inr (if uuid = ''metadata'' then ''M'' else if uuid = ''capabilities'' then ''C'' else if k = 1 then ''O'' else ''P'')),
     bw_write = (\<lambda>_. Inr ()), bw_arrive = (\<lambda>k. if k = 4 then [''A''] else if k = 5 then [''R''] else []),
     bw_clock = 0, bw_subscription = None, bw_queue = [], bw_written = []\<rparr>"

definition sample_identity :: string where
  "sample_identity = replicate 32 (CHR ''a'')"

definition sample_at :: "nat \<Rightarrow> (nat \<times> string option) option \<Rightarrow> dict list \<Rightarrow> string list \<Rightarrow> ble_world" where
  "sample_at k sub q wr = sample_ble\<lparr>bw_clock := k, bw_subscription := sub, bw_queue := q, bw_written := wr\<rparr>"

fun object_of :: "json option \<Rightarrow> dict" where
  "object_of (Some (JObj d)) = d"
| "object_of _ = []"

lemma sample_fields [simp]:
  "bw_clock (sample_at k sub q wr) = k" "bw_queue (sample_at k sub q wr) = q" "bw_written (sample_at k sub q wr) = wr"
  "bw_loads (sample_at k sub q wr) = map_of sample_answers" "bw_open (sample_at k sub q wr) n = Inr ()"
  "bw_write (sample_at k sub q wr) n = Inr ()" "bw_subscription (sample_at k sub q wr) = sub"
  "bw_read (sample_at k sub q wr) n uuid =
     Inr (if uuid = ''metadata'' then ''M'' else if uuid = ''capabilities'' then ''C'' else if n = 1 then ''O'' else ''P'')"
  "sample_at k sub q wr\<lparr>bw_queue := q'\<rparr> = sample_at k sub q' wr" "sample_at k sub q wr\<lparr>bw_subscription := sub'\<rparr> = sample_at k sub' q wr"
  "sample_at k sub q wr\<lparr>bw_written := wr'\<rparr> = sample_at k sub q wr'"
  by (simp_all add: sample_at_def sample_ble_def)

lemma sample_tick:
  "ble_tick (sample_at k None q wr) = sample_at (Suc k) None q wr"
  "k \<noteq> 4 \<Longrightarrow> k \<noteq> 5 \<Longrightarrow> ble_tick (sample_at k sub q wr) = sample_at (Suc k) sub q wr"
  "ble_tick (sample_at 4 (Some (16, None)) [] wr) = sample_at 5 (Some (16, None)) [object_of (map_of sample_answers ''A'')] wr"
  "ble_tick (sample_at 5 (Some (16, None)) [] wr) = sample_at 6 (Some (16, None)) [object_of (map_of sample_answers ''R'')] wr"
  by (simp_all add: ble_tick_def sample_at_def sample_ble_def notified_def sample_answers_def dget_def)

lemma sample_identity_pattern: "identity_pattern (replicate 32 CHR ''a'')"
  by (simp add: identity_pattern_def list_all_iff is_lower_hex_def)

lemma sample_onboarding:
  "parse_onboarding_payload (map_of sample_answers) ''O'' = Inr (object_of (map_of sample_answers ''O''))"
  "parse_onboarding_payload (map_of sample_answers) ''P'' = Inr (object_of (map_of sample_answers ''P''))"
  by (simp_all add: parse_onboarding_payload_def rstrip_nul_def sample_answers_def onboarding_payload_def dget_def has_key_def
      sample_identity_pattern)

lemma sample_objects:
  "dget (object_of (map_of sample_answers ''O'')) ''onboarding_identity'' = JStr sample_identity"
  "dget (object_of (map_of sample_answers ''M'')) ''node_id'' = JStr ''UNASSIGNED-MG24''"
  "node_supported (the (map_of sample_answers ''M'')) (the (map_of sample_answers ''C'')) =
     Inr (object_of (map_of sample_answers ''M''), object_of (map_of sample_answers ''C''))"
  by (simp_all add: sample_answers_def dget_def sample_identity_def node_supported_def in_str_set_def dget_default_def)

lemma sample_reads:
  "expect_onboarding (Some sample_identity) (sample_at (Suc 0) None [] []) = (Inr (), sample_at 2 None [] [])"
  "read_json id ''metadata'' (sample_at 2 None [] []) = (Inr (the (map_of sample_answers ''M'')), sample_at 3 None [] [])"
  "read_json id ''capabilities'' (sample_at 3 None [] []) = (Inr (the (map_of sample_answers ''C'')), sample_at 4 None [] [])"
  "onboarding_after (Some sample_identity) (sample_at 6 (Some (16, None)) [] wr) =
     (Inr (Some (object_of (map_of sample_answers ''P''))), sample_at 7 (Some (16, None)) [] wr)"
proof -
  have objects: "(case map_of sample_answers ''M'' of None \<Rightarrow> Inl (ValueError ''not UTF-8 JSON'') | Some x \<Rightarrow> Inr x) =
      Inr (the (map_of sample_answers ''M''))"
    "(case map_of sample_answers ''C'' of None \<Rightarrow> Inl (ValueError ''not UTF-8 JSON'') | Some x \<Rightarrow> Inr x) =
      Inr (the (map_of sample_answers ''C''))"
    by (simp_all add: sample_answers_def)
  show "expect_onboarding (Some sample_identity) (sample_at (Suc 0) None [] []) = (Inr (), sample_at 2 None [] [])"
    by (simp add: expect_onboarding_def read_onboarding_def bind_ble_def read_gatt_def lift_ble_def sample_tick sample_onboarding
        sample_objects(1) numeral_2_eq_2)
  show "read_json id ''metadata'' (sample_at 2 None [] []) = (Inr (the (map_of sample_answers ''M'')), sample_at 3 None [] [])"
    "read_json id ''capabilities'' (sample_at 3 None [] []) = (Inr (the (map_of sample_answers ''C'')), sample_at 4 None [] [])"
    "onboarding_after (Some sample_identity) (sample_at 6 (Some (16, None)) [] wr) =
       (Inr (Some (object_of (map_of sample_answers ''P''))), sample_at 7 (Some (16, None)) [] wr)"
    by (simp_all add: onboarding_after_def read_onboarding_def read_json_def bind_ble_def read_gatt_def lift_ble_def
        sample_tick sample_onboarding objects)
qed

lemma sample_prepare:
  "prepare_node (Some sample_identity) (sample_at 0 None [] []) =
     (Inr (object_of (map_of sample_answers ''M''), object_of (map_of sample_answers ''C'')), sample_at 4 (Some (16, None)) [] [])"
proof -
  have "open_ble (sample_at 0 None [] []) = (Inr (), sample_at (Suc 0) None [] [])" by (simp add: open_ble_def sample_tick)
  then show ?thesis
    by (simp add: prepare_node_def bind_ble_def sample_reads sample_objects(3) lift_ble_def start_notify_def)
qed

lemma sample_waits:
  "wait_for 3 ''0000111122223333'' [''provisioned'', ''already_committed''] (sample_at 5 (Some (16, None)) [object_of (map_of sample_answers ''A'')] wr)
     = (Inr (object_of (map_of sample_answers ''A'')), sample_at 5 (Some (16, None)) [] wr)"
  "wait_for 3 ''0000111122223333'' [''readback''] (sample_at 6 (Some (16, None)) [object_of (map_of sample_answers ''R'')] wr)
     = (Inr (object_of (map_of sample_answers ''R'')), sample_at 6 (Some (16, None)) [] wr)"
  by (simp_all add: numeral_3_eq_3 sample_answers_def dget_def in_str_set_def)

lemma sample_values: "configuration_values default_installation_configuration = Inr [100, 100, 100, 30000, 0, 1, 1]"
  by (simp add: configuration_values_def default_installation_configuration_def filter_codes_def)

lemma sample_checked:
  "is_ok (provision_checked ''N-1'' [100, 100, 100, 30000, 0, 1, 1]
     \<lparr>pv_acknowledgement = a, pv_readback = object_of (map_of sample_answers ''R''), pv_metadata = m, pv_capabilities = c,
      pv_onboarding_after = Some (object_of (map_of sample_answers ''P''))\<rparr>)"
  by (simp add: provision_checked_def readback_matches_def value_names_def sample_answers_def dget_def has_key_def)

lemma sample_command_short:
  "length (''PROV 1 '' @ ''0000111122223333'' @ '' '' @ ''N-1'' @ '' '' @ spaced [100, 100, 100, 30000, 0, 1, 1]) \<le> 191"
  by (simp add: int_str_def nat_str.simps)

lemma sample_provision:
  "is_ok (fst (Ble_Provisioning.provision 3 False ''N-1'' ''0000111122223333'' default_installation_configuration
     (Some sample_identity) (sample_at 0 None [] [])))"
proof -
  have upper: "map ascii_upper_char ''0000111122223333'' = ''0000111122223333''"
    by (simp add: ascii_upper_char_def)
  have names: "node_id_text ''N-1''" "transaction_pattern ''0000111122223333''"
    by (simp_all add: node_id_text_def is_upper_digit_def transaction_pattern_def is_lower_hex_def is_digit_def)
  have "is_ok (fst (provision_exchange 3 ''N-1'' ''0000111122223333'' default_installation_configuration (Some sample_identity) (sample_at 0 None [] [])))"
    using sample_command_short sample_checked
    by (simp add: provision_exchange_def bind_ble_def lift_ble_def sample_values Let_def sample_prepare assign_identity_def sample_objects(2)
        write_command_def sample_tick sample_waits sample_reads stop_notify_def del: spaced.simps)
  then show ?thesis using names upper by (simp add: Ble_Provisioning.provision_def)
qed

lemma sample_provision_plain:
  "is_ok (fst (Ble_Provisioning.provision 3 False ''N-1'' ''0000111122223333'' default_installation_configuration None (sample_at (Suc 0) None [] [])))"
proof -
  have upper: "map ascii_upper_char ''0000111122223333'' = ''0000111122223333''"
    by (simp add: ascii_upper_char_def)
  have names: "node_id_text ''N-1''" "transaction_pattern ''0000111122223333''"
    by (simp_all add: node_id_text_def is_upper_digit_def transaction_pattern_def is_lower_hex_def is_digit_def)
  have "open_ble (sample_at (Suc 0) None [] []) = (Inr (), sample_at 2 None [] [])"
    by (simp add: open_ble_def sample_tick numeral_2_eq_2)
  then have prepared: "prepare_node None (sample_at (Suc 0) None [] []) =
      (Inr (object_of (map_of sample_answers ''M''), object_of (map_of sample_answers ''C'')), sample_at 4 (Some (16, None)) [] [])"
    by (simp add: prepare_node_def bind_ble_def expect_onboarding_def sample_reads sample_objects(3) lift_ble_def start_notify_def)
  have "is_ok (provision_checked ''N-1'' [100, 100, 100, 30000, 0, 1, 1]
     \<lparr>pv_acknowledgement = a, pv_readback = object_of (map_of sample_answers ''R''), pv_metadata = m, pv_capabilities = c,
      pv_onboarding_after = None\<rparr>)" for a m c
    by (simp add: provision_checked_def readback_matches_def value_names_def sample_answers_def dget_def)
  then have "is_ok (fst (provision_exchange 3 ''N-1'' ''0000111122223333'' default_installation_configuration None (sample_at (Suc 0) None [] [])))"
    using sample_command_short
    by (simp add: provision_exchange_def bind_ble_def lift_ble_def sample_values Let_def prepared assign_identity_def sample_objects(2)
        write_command_def sample_tick sample_waits onboarding_after_def stop_notify_def del: spaced.simps)
  then show ?thesis using names upper by (simp add: Ble_Provisioning.provision_def)
qed

lemma is_ok_fst: "is_ok (fst x) \<Longrightarrow> \<exists>p w. x = (Inr p, w)"
  by (cases x; cases "fst x") auto


theorem provision_writes_guarded_witness:
  "\<exists>w'. snd (Ble_Provisioning.provision 3 False ''N-1'' ''0000111122223333'' default_installation_configuration (Some sample_identity)
       (sample_at 0 None [] [])) = w' \<and> length (bw_written w') \<le> 2"
proof -
  obtain r w' where run: "Ble_Provisioning.provision 3 False ''N-1'' ''0000111122223333'' default_installation_configuration
      (Some sample_identity) (sample_at 0 None [] []) = (r, w')" by fastforce
  then show ?thesis using provision_writes_guarded[OF run] by auto
qed

theorem ble_apply_is_read_back_witness:
  "\<exists>c'. ble_apply (provision_outcome 3 (\<lambda>_. False) (\<lambda>_. sample_at (Suc 0) None [] []))
      \<lparr>bc_verified = Map.empty, bc_has_manager = True, bc_manager_calls = []\<rparr>
      (empty_db\<lparr>registered_devices := [(device_defaults 1 0)\<lparr>rd_device_id := ''N-1'', rd_ble_address := Some ''AA:BB''\<rparr>]\<rparr>)
      ''N-1'' ''MIC'' ''0000111122223333aa'' default_installation_configuration = (Inr default_installation_configuration, c')
    \<and> (\<exists>readback. reads_back (sample_at (Suc 0) None [] []) ''N-1'' (take 16 ''0000111122223333aa'') default_installation_configuration readback)"
proof -
  let ?s = "empty_db\<lparr>registered_devices := [(device_defaults 1 0)\<lparr>rd_device_id := ''N-1'', rd_ble_address := Some ''AA:BB''\<rparr>]\<rparr>"
  have "provision_outcome 3 (\<lambda>_. False) (\<lambda>_. sample_at (Suc 0) None [] []) ''AA:BB'' ''N-1'' ''0000111122223333''
      default_installation_configuration = Inr ()"
    using is_ok_fst[OF sample_provision_plain] by (auto simp: provision_outcome_def)
  then have "\<exists>c'. ble_apply (provision_outcome 3 (\<lambda>_. False) (\<lambda>_. sample_at (Suc 0) None [] []))
      \<lparr>bc_verified = Map.empty, bc_has_manager = True, bc_manager_calls = []\<rparr> ?s
      ''N-1'' ''MIC'' ''0000111122223333aa'' default_installation_configuration = (Inr default_installation_configuration, c')"
    by (simp add: ble_apply_def supports_interface_def get_device_def find_row_def truthy_def Let_def)
  then obtain c' where run: "ble_apply (provision_outcome 3 (\<lambda>_. False) (\<lambda>_. sample_at (Suc 0) None [] []))
      \<lparr>bc_verified = Map.empty, bc_has_manager = True, bc_manager_calls = []\<rparr> ?s
      ''N-1'' ''MIC'' ''0000111122223333aa'' default_installation_configuration = (Inr default_installation_configuration, c')" by blast
  from ble_apply_is_read_back[OF run] run show ?thesis by blast
qed

end
