(* ===== verification/Simulation.thy ===== *)
theory Simulation
  imports Main
begin

text \<open>
  Refinement of transition systems: an abstraction function maps every step of the concrete system to
  a step of the abstract one or to no step at all. The laws of a refinement are the locale
  \<open>refinement_map\<close>; what it gives is that abstract invariants hold of the concrete system.
\<close>

inductive reachable_from :: "('s \<Rightarrow> bool) \<Rightarrow> ('s \<Rightarrow> 's \<Rightarrow> bool) \<Rightarrow> 's \<Rightarrow> bool"
  for init :: "'s \<Rightarrow> bool" and move :: "'s \<Rightarrow> 's \<Rightarrow> bool" where
  begin_at: "init s \<Longrightarrow> reachable_from init move s"
| move_to: "reachable_from init move s \<Longrightarrow> move s t \<Longrightarrow> reachable_from init move t"

locale refinement_map =
  fixes cinit :: "'c \<Rightarrow> bool" and cmove :: "'c \<Rightarrow> 'c \<Rightarrow> bool"
    and ainit :: "'a \<Rightarrow> bool" and amove :: "'a \<Rightarrow> 'a \<Rightarrow> bool"
    and abs :: "'c \<Rightarrow> 'a"
  assumes init_refined: "cinit c \<Longrightarrow> ainit (abs c)"
    and move_refined: "cmove c c' \<Longrightarrow> abs c' = abs c \<or> amove (abs c) (abs c')"
begin

lemma abs_reachable:
  "reachable_from cinit cmove c \<Longrightarrow> reachable_from ainit amove (abs c)"
proof (induction rule: reachable_from.induct)
  case (begin_at c)
  then show ?case by (intro reachable_from.begin_at init_refined)
next
  case (move_to c c')
  then show ?case using move_refined[of c c'] by (auto intro: reachable_from.move_to)
qed

lemma abstract_invariant:
  assumes "\<And>a. ainit a \<Longrightarrow> P a" and "\<And>a b. P a \<Longrightarrow> amove a b \<Longrightarrow> P b"
    and "reachable_from cinit cmove c"
  shows "P (abs c)"
proof -
  from assms(3) have "reachable_from ainit amove (abs c)" by (rule abs_reachable)
  then show ?thesis by induction (auto intro: assms(1,2))
qed

end

end
