(* ===== verification/Connection.thy ===== *)
theory Connection
  imports Json Simulation
begin

text \<open>
  The connection of one sensor node (\<open>ble/connection.py\<close>). \<open>DeviceConnection.run\<close> and the coroutines it
  calls are cut at their \<open>await\<close> points: \<open>run_pc\<close> names the point at which the task is suspended,
  \<open>resume\<close> runs it from there to the next one, given the outcome of what it awaited. The other
  coroutines of the event loop (\<open>start\<close>, \<open>stop\<close>, \<open>disconnect\<close>, \<open>send_command\<close>, the callbacks of the BLE library
  and the time-out of a waiting caller) run between two such points; \<open>conn_step\<close> interleaves them.

  Outcomes of the BLE library, of the status callback and of the clock are arguments, and so is
  \<open>loads\<close>, the decoding of a characteristic (\<open>json.loads\<close> of its UTF-8 text).
\<close>

section \<open>Back-off\<close>

text \<open>\<open>initial * 2 ** n\<close> converts the integer to a float first, which raises beyond the float range.\<close>

definition reconnect_delay :: "(real \<Rightarrow> real) \<Rightarrow> real \<Rightarrow> real \<Rightarrow> int \<Rightarrow> real result" where
  "reconnect_delay fl initial maximum failure_count =
     (let factor = 2 ^ nat (max 0 failure_count) :: int in
      if factor \<ge> float_overflow_bound then Inl (OverflowError ''int too large to convert to float'')
      else Inr (min (fl (initial * of_int factor)) maximum))"

text \<open>\<open>random.uniform(a, b)\<close> is \<open>a + (b - a) * random()\<close>; \<open>u\<close> is the value of \<open>random()\<close>.\<close>

definition random_uniform :: "(real \<Rightarrow> real) \<Rightarrow> real \<Rightarrow> real \<Rightarrow> real \<Rightarrow> real" where
  "random_uniform fl u a b = fl (a + fl (fl (b - a) * u))"

definition jittered :: "(real \<Rightarrow> real) \<Rightarrow> real \<Rightarrow> real \<Rightarrow> real" where
  "jittered fl u delay = fl (delay + random_uniform fl u 0 (fl (delay * fl (1 / 5))))"

section \<open>State of a connection\<close>

text \<open>The future a caller of \<open>send_command\<close> waits for; \<open>wait_for\<close> cancels it when its time is over.\<close>

datatype future = Pending | Succeeded | Rejected exn | Abandoned

datatype raised = Raised exn | Cancelled

datatype run_pc =
    No_task
  | Created
  | Announcing_connecting
  | Connecting
  | Reading_metadata
  | Reading_capabilities
  | Subscribing
  | Subscribing_vibration
  | Announcing_connected
  | Writing string nat
  | Polling
  | Handling
  | Waiting
  | Closing "raised option"
  | Announcing_error real
  | Announcing_backoff real
  | Sleeping real
  | Finished "exn option"

text \<open>
  \<open>cx_requests\<close> lists the commands accepted by \<open>send_command\<close> with their futures, a future is its index;
  \<open>cx_commands\<close> is the queue, \<open>cx_written\<close> what was handed to \<open>write_gatt_char\<close>, \<open>cx_statuses\<close> the calls of the
  status callback and \<open>cx_telemetry\<close> those of the telemetry callback. \<open>cx_is_connected\<close> and
  \<open>cx_disconnected\<close> belong to the client of the current attempt, \<open>cx_cancel\<close> says that \<open>task.cancel()\<close> was
  called and not yet delivered, \<open>cx_stopping\<close> counts the calls of \<open>stop\<close> that wait for the task.
\<close>

record connection =
  cx_device_id :: string
  cx_address :: string
  cx_initial_backoff :: real
  cx_max_backoff :: real
  cx_stable_seconds :: real
  cx_state :: string
  cx_last_error :: "string option"
  cx_metadata :: dict
  cx_capabilities :: dict
  cx_commands :: "(string \<times> nat) list"
  cx_stop :: bool
  cx_force_disconnect :: bool
  cx_pc :: run_pc
  cx_failure_count :: int
  cx_client :: bool
  cx_notification_active :: bool
  cx_connected_since :: "real option"
  cx_is_connected :: bool
  cx_disconnected :: bool
  cx_cancel :: bool
  cx_stopping :: nat
  cx_requests :: "(string \<times> future) list"
  cx_written :: "(string \<times> nat) list"
  cx_statuses :: "(string \<times> string option) list"
  cx_telemetry :: "string list"

definition new_connection :: "string \<Rightarrow> string \<Rightarrow> real \<Rightarrow> real \<Rightarrow> real \<Rightarrow> connection" where
  "new_connection device_id address initial maximum stable_seconds =
     \<lparr>cx_device_id = device_id, cx_address = address, cx_initial_backoff = initial,
      cx_max_backoff = maximum, cx_stable_seconds = stable_seconds, cx_state = ''disconnected'',
      cx_last_error = None, cx_metadata = [], cx_capabilities = [], cx_commands = [],
      cx_stop = False, cx_force_disconnect = False, cx_pc = No_task, cx_failure_count = 0,
      cx_client = False, cx_notification_active = False, cx_connected_since = None,
      cx_is_connected = False, cx_disconnected = False, cx_cancel = False, cx_stopping = 0,
      cx_requests = [], cx_written = [], cx_statuses = [], cx_telemetry = []\<rparr>"

definition set_state :: "string \<Rightarrow> string option \<Rightarrow> connection \<Rightarrow> connection" where
  "set_state st err c = c\<lparr>cx_state := st, cx_last_error := err, cx_statuses := cx_statuses c @ [(st, err)]\<rparr>"

text \<open>\<open>self._task.done()\<close>, or there is no task yet.\<close>

definition idle_pc :: "run_pc \<Rightarrow> bool" where
  "idle_pc pc = (case pc of No_task \<Rightarrow> True | Finished _ \<Rightarrow> True | _ \<Rightarrow> False)"

section \<open>Operations of the other coroutines\<close>

definition start :: "connection \<Rightarrow> connection" where
  "start c = (if idle_pc (cx_pc c)
     then c\<lparr>cx_stop := False, cx_force_disconnect := False, cx_pc := Created, cx_failure_count := 0, cx_cancel := False\<rparr>
     else c)"

text \<open>\<open>future.set_result\<close> and \<open>future.set_exception\<close> under \<open>if not future.done()\<close>.\<close>

definition resolve :: "nat \<Rightarrow> future \<Rightarrow> connection \<Rightarrow> connection" where
  "resolve f r c = c\<lparr>cx_requests :=
     (if f < length (cx_requests c) \<and> snd (cx_requests c ! f) = Pending
      then (cx_requests c)[f := (fst (cx_requests c ! f), r)] else cx_requests c)\<rparr>"

text \<open>\<open>stop\<close> up to its \<open>await asyncio.gather\<close>, and what it does when the task has ended.\<close>

definition stop_request :: "connection \<Rightarrow> connection" where
  "stop_request c = c\<lparr>cx_stop := True, cx_force_disconnect := True,
     cx_cancel := \<not> idle_pc (cx_pc c), cx_stopping := Suc (cx_stopping c)\<rparr>"

definition stopped_error :: exn where
  "stopped_error = ConnectionError ''device management stopped; pending command cancelled''"

definition stop_finish :: "connection \<Rightarrow> connection" where
  "stop_finish c =
     set_state ''disconnected'' None
       (fold (\<lambda>(command, f). resolve f (Rejected stopped_error)) (cx_commands c) c)
         \<lparr>cx_commands := [], cx_stopping := cx_stopping c - 1\<rparr>"

text \<open>\<open>disconnect\<close>; the second component says whether \<open>client.disconnect()\<close> is called.\<close>

definition request_disconnect :: "connection \<Rightarrow> connection \<times> bool" where
  "request_disconnect c = (c\<lparr>cx_force_disconnect := True\<rparr>, cx_client c \<and> cx_is_connected c)"

definition command_queue_size :: nat where
  "command_queue_size = 32"

text \<open>\<open>send_command\<close> up to its \<open>await\<close>; on success the caller waits for the future with the returned index.\<close>

definition send_command :: "connection \<Rightarrow> string \<Rightarrow> (connection \<times> nat) result" where
  "send_command c command =
     (if cx_state c \<noteq> ''connected'' then Inl (ConnectionError ''device is not connected'')
      else if length (cx_commands c) \<ge> command_queue_size then Inl QueueFull
      else Inr (c\<lparr>cx_requests := cx_requests c @ [(command, Pending)],
                  cx_commands := cx_commands c @ [(command, length (cx_requests c))]\<rparr>,
                length (cx_requests c)))"

text \<open>What \<open>wait_for\<close> gives the caller once the future is done.\<close>

definition command_result :: "connection \<Rightarrow> nat \<Rightarrow> unit result option" where
  "command_result c f = (case snd (cx_requests c ! f) of
     Pending \<Rightarrow> None | Succeeded \<Rightarrow> Some (Inr ()) | Rejected e \<Rightarrow> Some (Inl e) | Abandoned \<Rightarrow> Some (Inl TimeoutError))"

section \<open>Reading the characteristics of a node\<close>

definition metadata_keys :: "string list" where
  "metadata_keys = [''node_id'', ''sensor_package_version'', ''firmware_version'', ''protocol_version'',
     ''configuration_schema_version'', ''build_identifier'', ''git_commit'', ''id'', ''fw'', ''v'', ''dt'']"

definition pick_keys :: "string list \<Rightarrow> dict \<Rightarrow> dict" where
  "pick_keys ks d = List.map_filter (\<lambda>k. map_option (Pair k) (map_of d k)) ks"

definition unassigned :: json where
  "unassigned = JStr ''UNASSIGNED-MG24''"

definition parse_metadata :: "(string \<Rightarrow> json result) \<Rightarrow> string \<Rightarrow> string \<Rightarrow> dict result" where
  "parse_metadata loads device_id raw =
     (if length raw > 512 then Inl (ValueError ''metadata too large'')
      else bind_result (loads raw) (\<lambda>v. case v of
        JObj metadata \<Rightarrow>
          (let identity = dget_default metadata ''node_id'' (dget metadata ''id'') in
           if identity \<notin> {JNull, JStr device_id, unassigned} then Inl (ValueError ''stable firmware identity mismatch'')
           else Inr (pick_keys metadata_keys
             (if identity = unassigned then dput metadata ''node_id'' (JStr device_id) else metadata)))
      | _ \<Rightarrow> Inl (ValueError ''metadata is not an object'')))"

definition parse_capabilities :: "(string \<Rightarrow> json result) \<Rightarrow> string \<Rightarrow> string \<Rightarrow> dict result" where
  "parse_capabilities loads device_id raw =
     (if length raw > 2048 then Inl (ValueError ''capability response too large'')
      else bind_result (loads raw) (\<lambda>v. case v of
        JObj capabilities \<Rightarrow>
          (if \<not> json_eq_int (dget capabilities ''schema_version'') 1 then Inl (ValueError ''unsupported capability response'')
           else bind_result (in_str_set (dget capabilities ''node_id'') [device_id, ''UNASSIGNED-MG24'']) (\<lambda>known.
             if \<not> known then Inl (ValueError ''capability node identity mismatch'')
             else Inr (if dget capabilities ''node_id'' = unassigned
                       then dput capabilities ''node_id'' (JStr device_id) else capabilities)))
      | _ \<Rightarrow> Inl (ValueError ''unsupported capability response'')))"

text \<open>\<open>except ValueError: raise\<close>, \<open>except Exception\<close>: the attribute becomes empty.\<close>

definition tolerate :: "dict result \<Rightarrow> dict result" where
  "tolerate r = (case r of Inl e \<Rightarrow> if is_value_error e then Inl e else Inr [] | Inr d \<Rightarrow> Inr d)"

section \<open>The task\<close>

text \<open>The head of the \<open>while\<close> loop of \<open>run\<close>, up to the announcement of the attempt.\<close>

definition loop_head :: "connection \<Rightarrow> connection" where
  "loop_head c = (if cx_stop c then c\<lparr>cx_pc := Finished None\<rparr>
     else set_state ''connecting'' None (c\<lparr>cx_force_disconnect := False, cx_pc := Announcing_connecting\<rparr>))"

definition failed_attempt :: "(real \<Rightarrow> real) \<Rightarrow> real \<Rightarrow> exn \<Rightarrow> connection \<Rightarrow> connection" where
  "failed_attempt fl now e c =
     (let connected_duration = (case cx_connected_since c of None \<Rightarrow> 0 | Some t \<Rightarrow> fl (now - t)) in
      set_state ''error'' (Some (exn_name e)) (c\<lparr>cx_pc := Announcing_error connected_duration\<rparr>))"

definition raise_in_run :: "(real \<Rightarrow> real) \<Rightarrow> real \<Rightarrow> raised \<Rightarrow> connection \<Rightarrow> connection" where
  "raise_in_run fl now r c = (case r of Cancelled \<Rightarrow> c\<lparr>cx_pc := Finished None\<rparr> | Raised e \<Rightarrow> failed_attempt fl now e c)"

definition back_off :: "(real \<Rightarrow> real) \<Rightarrow> real \<Rightarrow> real \<Rightarrow> connection \<Rightarrow> connection" where
  "back_off fl u connected_duration c =
     (let n = (if connected_duration \<ge> cx_stable_seconds c then 0 else cx_failure_count c);
          c' = c\<lparr>cx_connected_since := None, cx_failure_count := n\<rparr> in
      case reconnect_delay fl (cx_initial_backoff c) (cx_max_backoff c) n of
        Inl e \<Rightarrow> c'\<lparr>cx_pc := Finished (Some e)\<rparr>
      | Inr delay \<Rightarrow> set_state ''backoff'' (cx_last_error c) (c'\<lparr>cx_pc := Announcing_backoff (jittered fl u delay)\<rparr>))"

text \<open>The end of \<open>_connected_loop\<close>: its \<open>finally\<close> block, then what follows the \<open>with\<close>. \<open>None\<close> is the regular
  exit of the loop; the duration it returns is not used, because \<open>run\<close> breaks out of its loop then.\<close>

definition close_done :: "(real \<Rightarrow> real) \<Rightarrow> real \<Rightarrow> raised option \<Rightarrow> connection \<Rightarrow> connection" where
  "close_done fl now ex c = (case ex of
     Some r \<Rightarrow> raise_in_run fl now r c
   | None \<Rightarrow> if \<not> cx_stop c \<and> \<not> cx_force_disconnect c
            then failed_attempt fl now (ConnectionError ''BLE connection closed'') c
            else c\<lparr>cx_pc := Finished None\<rparr>)"

definition leave :: "(real \<Rightarrow> real) \<Rightarrow> real \<Rightarrow> raised option \<Rightarrow> connection \<Rightarrow> connection" where
  "leave fl now ex c =
     (let c' = c\<lparr>cx_client := False, cx_notification_active := False\<rparr> in
      if cx_is_connected c then c'\<lparr>cx_pc := Closing ex\<rparr> else close_done fl now ex c')"

definition drain_commands :: "connection \<Rightarrow> connection" where
  "drain_commands c = (case cx_commands c of
     (command, f) # rest \<Rightarrow>
       c\<lparr>cx_commands := rest, cx_written := cx_written c @ [(command, f)], cx_pc := Writing command f\<rparr>
   | [] \<Rightarrow> c\<lparr>cx_pc := (if cx_notification_active c then Waiting else Polling)\<rparr>)"

definition serve :: "(real \<Rightarrow> real) \<Rightarrow> real \<Rightarrow> connection \<Rightarrow> connection" where
  "serve fl now c =
     (if cx_stop c \<or> cx_force_disconnect c \<or> cx_disconnected c then leave fl now None c
      else drain_commands c)"

definition active_error :: exn where
  "active_error = ConnectionError ''device management stopped; active command cancelled''"

definition metadata_read :: "(real \<Rightarrow> real) \<Rightarrow> real \<Rightarrow> dict result \<Rightarrow> connection \<Rightarrow> connection" where
  "metadata_read fl now r c = (case tolerate r of
     Inl e \<Rightarrow> leave fl now (Some (Raised e)) c
   | Inr d \<Rightarrow> c\<lparr>cx_metadata := d, cx_pc := Reading_capabilities\<rparr>)"

definition capabilities_read :: "(real \<Rightarrow> real) \<Rightarrow> real \<Rightarrow> dict result \<Rightarrow> connection \<Rightarrow> connection" where
  "capabilities_read fl now r c = (case tolerate r of
     Inl e \<Rightarrow> leave fl now (Some (Raised e)) c
   | Inr d \<Rightarrow> c\<lparr>cx_capabilities := d, cx_notification_active := False, cx_pc := Subscribing\<rparr>)"

definition announce_connected :: "connection \<Rightarrow> connection" where
  "announce_connected c = set_state ''connected'' None (c\<lparr>cx_pc := Announcing_connected\<rparr>)"

definition task_ends :: "raised \<Rightarrow> connection \<Rightarrow> connection" where
  "task_ends r c = c\<lparr>cx_pc := Finished (case r of Raised e \<Rightarrow> Some e | Cancelled \<Rightarrow> None)\<rparr>"

text \<open>How the awaited operation ended: \<open>Returned\<close> with the bytes it read, if any.\<close>

datatype outcome = Returned string | Threw raised

fun resume ::
  "(real \<Rightarrow> real) \<Rightarrow> (string \<Rightarrow> json result) \<Rightarrow> real \<Rightarrow> real \<Rightarrow> run_pc \<Rightarrow> outcome \<Rightarrow> connection \<Rightarrow> connection" where
  "resume fl loads now u No_task out c = c"
| "resume fl loads now u (Finished ex) out c = c"
| "resume fl loads now u Created (Returned _) c = loop_head c"
| "resume fl loads now u Created (Threw r) c = task_ends r c"
| "resume fl loads now u Announcing_connecting (Returned _) c =
     c\<lparr>cx_is_connected := False, cx_disconnected := False, cx_pc := Connecting\<rparr>"
| "resume fl loads now u Announcing_connecting (Threw r) c = raise_in_run fl now r c"
| "resume fl loads now u Connecting (Returned _) c =
     c\<lparr>cx_client := True, cx_connected_since := Some now, cx_pc := Reading_metadata\<rparr>"
| "resume fl loads now u Connecting (Threw r) c = leave fl now (Some r) c"
| "resume fl loads now u Reading_metadata (Returned raw) c =
     metadata_read fl now (parse_metadata loads (cx_device_id c) raw) c"
| "resume fl loads now u Reading_metadata (Threw (Raised e)) c = metadata_read fl now (Inl e) c"
| "resume fl loads now u Reading_metadata (Threw Cancelled) c = leave fl now (Some Cancelled) c"
| "resume fl loads now u Reading_capabilities (Returned raw) c =
     capabilities_read fl now (parse_capabilities loads (cx_device_id c) raw) c"
| "resume fl loads now u Reading_capabilities (Threw (Raised e)) c = capabilities_read fl now (Inl e) c"
| "resume fl loads now u Reading_capabilities (Threw Cancelled) c = leave fl now (Some Cancelled) c"
| "resume fl loads now u Subscribing (Returned _) c =
     c\<lparr>cx_notification_active := True, cx_pc := Subscribing_vibration\<rparr>"
| "resume fl loads now u Subscribing (Threw (Raised e)) c = c\<lparr>cx_pc := Subscribing_vibration\<rparr>"
| "resume fl loads now u Subscribing (Threw Cancelled) c = leave fl now (Some Cancelled) c"
| "resume fl loads now u Subscribing_vibration (Returned _) c = announce_connected c"
| "resume fl loads now u Subscribing_vibration (Threw (Raised e)) c = announce_connected c"
| "resume fl loads now u Subscribing_vibration (Threw Cancelled) c = leave fl now (Some Cancelled) c"
| "resume fl loads now u Announcing_connected (Returned _) c = serve fl now c"
| "resume fl loads now u Announcing_connected (Threw r) c = leave fl now (Some r) c"
| "resume fl loads now u (Writing command f) (Returned _) c = drain_commands (resolve f Succeeded c)"
| "resume fl loads now u (Writing command f) (Threw (Raised e)) c =
     leave fl now (Some (Raised e)) (resolve f (Rejected e) c)"
| "resume fl loads now u (Writing command f) (Threw Cancelled) c =
     leave fl now (Some Cancelled) (resolve f (Rejected active_error) c)"
| "resume fl loads now u Polling (Returned data) c = c\<lparr>cx_telemetry := cx_telemetry c @ [data], cx_pc := Handling\<rparr>"
| "resume fl loads now u Polling (Threw (Raised e)) c = c\<lparr>cx_pc := Waiting\<rparr>"
| "resume fl loads now u Polling (Threw Cancelled) c = leave fl now (Some Cancelled) c"
| "resume fl loads now u Handling (Returned _) c = c\<lparr>cx_pc := Waiting\<rparr>"
| "resume fl loads now u Handling (Threw (Raised e)) c = c\<lparr>cx_pc := Waiting\<rparr>"
| "resume fl loads now u Handling (Threw Cancelled) c = leave fl now (Some Cancelled) c"
| "resume fl loads now u Waiting (Returned _) c = serve fl now c"
| "resume fl loads now u Waiting (Threw r) c =
     (if r = Raised TimeoutError then serve fl now c else leave fl now (Some r) c)"
| "resume fl loads now u (Closing ex) (Returned _) c = close_done fl now ex c"
| "resume fl loads now u (Closing ex) (Threw r) c = raise_in_run fl now r c"
| "resume fl loads now u (Announcing_error d) (Returned _) c = back_off fl u d c"
| "resume fl loads now u (Announcing_error d) (Threw r) c = task_ends r c"
| "resume fl loads now u (Announcing_backoff d) (Returned _) c = c\<lparr>cx_pc := Sleeping d\<rparr>"
| "resume fl loads now u (Announcing_backoff d) (Threw r) c = task_ends r c"
| "resume fl loads now u (Sleeping d) (Returned _) c = loop_head (c\<lparr>cx_failure_count := cx_failure_count c + 1\<rparr>)"
| "resume fl loads now u (Sleeping d) (Threw r) c =
     (if r = Raised TimeoutError then loop_head (c\<lparr>cx_failure_count := cx_failure_count c + 1\<rparr>) else task_ends r c)"

section \<open>Interleaving\<close>

text \<open>
  One turn of the task: a pending cancellation is delivered at the \<open>await\<close> at which the task is
  suspended, and nothing else cancels it.
\<close>

definition task_turn ::
  "(real \<Rightarrow> real) \<Rightarrow> (string \<Rightarrow> json result) \<Rightarrow> real \<times> real \<times> outcome \<Rightarrow> connection \<Rightarrow> connection" where
  "task_turn fl loads t c = (case t of (now, u, out) \<Rightarrow>
     resume fl loads now u (cx_pc c) (if cx_cancel c then Threw Cancelled else out) (c\<lparr>cx_cancel := False\<rparr>))"

text \<open>
  The steps of the event loop. \<open>start\<close> is not called while a \<open>stop\<close> waits for the task: the manager takes
  a connection out of its table before it stops it. The BLE library changes \<open>is_connected\<close> and
  calls the disconnection and notification callbacks at any time.
\<close>

inductive conn_step :: "(real \<Rightarrow> real) \<Rightarrow> (string \<Rightarrow> json result) \<Rightarrow> connection \<Rightarrow> connection \<Rightarrow> bool"
  for fl :: "real \<Rightarrow> real" and loads :: "string \<Rightarrow> json result" where
  turn: "out \<noteq> Threw Cancelled \<Longrightarrow> conn_step fl loads c (task_turn fl loads (now, u, out) c)"
| start: "cx_stopping c = 0 \<Longrightarrow> conn_step fl loads c (Connection.start c)"
| stop_request: "conn_step fl loads c (Connection.stop_request c)"
| stop_finish: "0 < cx_stopping c \<Longrightarrow> idle_pc (cx_pc c) \<Longrightarrow> conn_step fl loads c (Connection.stop_finish c)"
| disconnect: "conn_step fl loads c (fst (request_disconnect c))"
| send: "send_command c command = Inr (c', f) \<Longrightarrow> conn_step fl loads c c'"
| give_up: "conn_step fl loads c (resolve f Abandoned c)"
| link: "conn_step fl loads c (c\<lparr>cx_is_connected := b\<rparr>)"
| disconnected: "conn_step fl loads c (c\<lparr>cx_disconnected := True\<rparr>)"
| notification: "conn_step fl loads c (c\<lparr>cx_telemetry := cx_telemetry c @ [data]\<rparr>)"

definition fresh_connection :: "connection \<Rightarrow> bool" where
  "fresh_connection c = (c = new_connection (cx_device_id c) (cx_address c) (cx_initial_backoff c) (cx_max_backoff c)
     (cx_stable_seconds c))"

abbreviation conn_reachable :: "(real \<Rightarrow> real) \<Rightarrow> (string \<Rightarrow> json result) \<Rightarrow> connection \<Rightarrow> bool" where
  "conn_reachable fl loads \<equiv> reachable_from fresh_connection (conn_step fl loads)"

lemma fresh_new_connection [intro, simp]: "fresh_connection (new_connection device_id address initial maximum stable_seconds)"
  by (simp add: fresh_connection_def new_connection_def)

section \<open>The invariant of a connection\<close>

text \<open>The phase of the supervision the task is in.\<close>

datatype phase = Idle | Starting | Trying | Up | Hanging_up | Broken | Resting

fun phase_of :: "run_pc \<Rightarrow> phase" where
  "phase_of No_task = Idle"
| "phase_of (Finished _) = Idle"
| "phase_of Created = Starting"
| "phase_of (Closing _) = Hanging_up"
| "phase_of (Announcing_error _) = Broken"
| "phase_of (Announcing_backoff _) = Resting"
| "phase_of (Sleeping _) = Resting"
| "phase_of Announcing_connecting = Trying"
| "phase_of Connecting = Trying"
| "phase_of Reading_metadata = Trying"
| "phase_of Reading_capabilities = Trying"
| "phase_of Subscribing = Trying"
| "phase_of Subscribing_vibration = Trying"
| "phase_of _ = Up"

fun reported :: "phase \<Rightarrow> string \<Rightarrow> bool" where
  "reported Trying st = (st = ''connecting'')"
| "reported Up st = (st = ''connected'')"
| "reported Hanging_up st = (st = ''connecting'' \<or> st = ''connected'')"
| "reported Broken st = (st = ''error'')"
| "reported Resting st = (st = ''backoff'')"
| "reported _ st = True"

text \<open>The points at which \<open>self._client\<close> is set.\<close>

definition joined :: "run_pc \<Rightarrow> bool" where
  "joined pc = (phase_of pc = Up
     \<or> pc \<in> {Reading_metadata, Reading_capabilities, Subscribing, Subscribing_vibration})"

lemma joined_simps [simp]:
  "joined Reading_metadata" "joined Reading_capabilities" "joined Subscribing" "joined Subscribing_vibration"
  "joined Announcing_connected" "joined (Writing command f)" "joined Polling" "joined Handling" "joined Waiting"
  "\<not> joined No_task" "\<not> joined Created" "\<not> joined Announcing_connecting" "\<not> joined Connecting"
  "\<not> joined (Closing ex)" "\<not> joined (Announcing_error d)" "\<not> joined (Announcing_backoff d)"
  "\<not> joined (Sleeping d)" "\<not> joined (Finished e)"
  by (simp_all add: joined_def)

definition in_flight :: "run_pc \<Rightarrow> nat \<Rightarrow> bool" where
  "in_flight pc f = (case pc of Writing _ g \<Rightarrow> f = g | _ \<Rightarrow> False)"

definition accounted :: "connection \<Rightarrow> bool" where
  "accounted c = (\<forall>f < length (cx_requests c). snd (cx_requests c ! f) = Pending \<longrightarrow>
     f \<in> snd ` set (cx_commands c) \<or> in_flight (cx_pc c) f)"

definition genuine :: "connection \<Rightarrow> string \<times> nat \<Rightarrow> bool" where
  "genuine c w = (snd w < length (cx_requests c) \<and> fst (cx_requests c ! snd w) = fst w)"

definition conn_inv :: "connection \<Rightarrow> bool" where
  "conn_inv c = (length (cx_commands c) \<le> command_queue_size
     \<and> sorted_wrt (<) (map snd (cx_written c @ cx_commands c))
     \<and> list_all (genuine c) (cx_written c @ cx_commands c)
     \<and> accounted c
     \<and> reported (phase_of (cx_pc c)) (cx_state c)
     \<and> (cx_notification_active c \<longrightarrow> cx_client c)
     \<and> (cx_client c \<longleftrightarrow> joined (cx_pc c))
     \<and> (0 < cx_stopping c \<longrightarrow> cx_stop c)
     \<and> (cx_cancel c \<longrightarrow> cx_stop c \<and> \<not> idle_pc (cx_pc c)))"

text \<open>What the segments of the task leave alone.\<close>

lemma set_state_frame [simp]:
  "cx_commands (set_state st err c) = cx_commands c" "cx_written (set_state st err c) = cx_written c"
  "cx_requests (set_state st err c) = cx_requests c" "cx_stop (set_state st err c) = cx_stop c"
  "cx_stopping (set_state st err c) = cx_stopping c" "cx_cancel (set_state st err c) = cx_cancel c"
  "cx_client (set_state st err c) = cx_client c" "cx_pc (set_state st err c) = cx_pc c"
  "cx_notification_active (set_state st err c) = cx_notification_active c"
  "cx_state (set_state st err c) = st" "cx_failure_count (set_state st err c) = cx_failure_count c"
  by (simp_all add: set_state_def)

definition same_queue :: "connection \<Rightarrow> connection \<Rightarrow> bool" where
  "same_queue c c' = (cx_commands c' = cx_commands c \<and> cx_written c' = cx_written c
     \<and> cx_requests c' = cx_requests c \<and> cx_stop c' = cx_stop c \<and> cx_stopping c' = cx_stopping c
     \<and> cx_cancel c' = cx_cancel c)"

lemma same_queue_refl [intro, simp]: "same_queue c c"
  by (simp add: same_queue_def)

lemma same_queue_trans: "same_queue a b \<Longrightarrow> same_queue b c \<Longrightarrow> same_queue a c"
  by (simp add: same_queue_def)

lemma loop_head_queue [intro, simp]: "same_queue c (loop_head c)"
  by (simp add: same_queue_def loop_head_def)

lemma failed_attempt_queue [intro, simp]: "same_queue c (failed_attempt fl now e c)"
  by (simp add: same_queue_def failed_attempt_def Let_def)

lemma raise_in_run_queue [intro, simp]: "same_queue c (raise_in_run fl now r c)"
  using failed_attempt_queue[of c fl now] by (cases r) (simp_all add: raise_in_run_def same_queue_def)

lemma back_off_queue [intro, simp]: "same_queue c (back_off fl u d c)"
  by (simp add: same_queue_def back_off_def Let_def split: sum.split)

lemma close_done_queue [intro, simp]: "same_queue c (close_done fl now ex c)"
  using failed_attempt_queue[of c fl now] raise_in_run_queue[of c fl now]
  by (cases ex) (simp_all add: close_done_def same_queue_def)

lemma leave_queue [intro, simp]: "same_queue c (leave fl now ex c)"
  using close_done_queue[of "c\<lparr>cx_client := False, cx_notification_active := False\<rparr>" fl now ex]
  by (simp add: leave_def same_queue_def Let_def)

lemma task_ends_queue [intro, simp]: "same_queue c (task_ends r c)"
  by (simp add: task_ends_def same_queue_def)

text \<open>The segments that leave the phases \<open>Trying\<close> and \<open>Up\<close>.\<close>

definition off_line :: "connection \<Rightarrow> bool" where
  "off_line c = (phase_of (cx_pc c) \<notin> {Trying, Up} \<and> reported (phase_of (cx_pc c)) (cx_state c)
     \<and> \<not> cx_client c \<and> \<not> cx_notification_active c)"

lemma failed_attempt_off:
  "\<not> cx_client c \<Longrightarrow> \<not> cx_notification_active c \<Longrightarrow> off_line (failed_attempt fl now e c)"
  by (simp add: off_line_def failed_attempt_def Let_def)

lemma raise_in_run_off:
  "\<not> cx_client c \<Longrightarrow> \<not> cx_notification_active c \<Longrightarrow> off_line (raise_in_run fl now r c)"
  by (cases r) (simp_all add: raise_in_run_def failed_attempt_off, simp add: off_line_def)

lemma close_done_off:
  "\<not> cx_client c \<Longrightarrow> \<not> cx_notification_active c \<Longrightarrow> off_line (close_done fl now ex c)"
  by (cases ex) (simp_all add: close_done_def failed_attempt_off raise_in_run_off, simp add: off_line_def)

lemma leave_off: "cx_state c = ''connecting'' \<or> cx_state c = ''connected'' \<Longrightarrow> off_line (leave fl now ex c)"
  by (auto simp: leave_def Let_def close_done_off) (auto simp: off_line_def)

lemma back_off_off:
  "\<not> cx_client c \<Longrightarrow> \<not> cx_notification_active c \<Longrightarrow> off_line (back_off fl u d c)"
  by (simp add: off_line_def back_off_def Let_def split: sum.split)

lemma task_ends_off:
  "\<not> cx_client c \<Longrightarrow> \<not> cx_notification_active c \<Longrightarrow> off_line (task_ends r c)"
  by (simp add: off_line_def task_ends_def)

lemma off_line_not_in_flight: "off_line c \<Longrightarrow> \<not> in_flight (cx_pc c) f"
  by (cases "cx_pc c") (simp_all add: off_line_def in_flight_def)

definition settled :: "connection \<Rightarrow> bool" where
  "settled c = (\<forall>f < length (cx_requests c). snd (cx_requests c ! f) = Pending \<longrightarrow> f \<in> snd ` set (cx_commands c))"

lemma accounted_settled: "accounted c \<Longrightarrow> (\<And>f. \<not> in_flight (cx_pc c) f) \<Longrightarrow> settled c"
  by (auto simp: accounted_def settled_def)

lemma joined_phase: "joined pc \<Longrightarrow> phase_of pc \<in> {Trying, Up}"
  by (auto simp: joined_def)

lemma off_line_inv:
  assumes "conn_inv c" "settled c" "\<not> cx_cancel c" "same_queue c c'" "off_line c'"
  shows "conn_inv c'"
proof -
  have "list_all (genuine c') (cx_written c @ cx_commands c)"
    using assms(1,4) by (auto simp: conn_inv_def genuine_def same_queue_def list_all_iff)
  moreover have "accounted c'"
    using assms(2,4) by (auto simp: settled_def accounted_def same_queue_def)
  ultimately show ?thesis
    using assms joined_phase[of "cx_pc c'"] by (auto simp: conn_inv_def same_queue_def off_line_def)
qed

lemma resolve_frame [simp]:
  "cx_commands (resolve f r c) = cx_commands c" "cx_written (resolve f r c) = cx_written c"
  "length (cx_requests (resolve f r c)) = length (cx_requests c)" "cx_stop (resolve f r c) = cx_stop c"
  "cx_stopping (resolve f r c) = cx_stopping c" "cx_cancel (resolve f r c) = cx_cancel c"
  "cx_client (resolve f r c) = cx_client c" "cx_pc (resolve f r c) = cx_pc c" "cx_state (resolve f r c) = cx_state c"
  "cx_notification_active (resolve f r c) = cx_notification_active c"
  "cx_failure_count (resolve f r c) = cx_failure_count c"
  by (simp_all add: resolve_def)

lemma resolve_request:
  "g < length (cx_requests c) \<Longrightarrow> cx_requests (resolve f r c) ! g =
     (if g = f \<and> snd (cx_requests c ! g) = Pending then (fst (cx_requests c ! g), r) else cx_requests c ! g)"
  by (auto simp: resolve_def)

lemma genuine_resolve [simp]: "genuine (resolve f r c) = genuine c"
  by (auto simp: genuine_def fun_eq_iff resolve_request)

lemma resolve_inv: "conn_inv c \<Longrightarrow> r \<noteq> Pending \<Longrightarrow> conn_inv (resolve f r c)"
  by (auto simp: conn_inv_def accounted_def resolve_request split: if_splits)

lemma resolve_settled:
  "conn_inv c \<Longrightarrow> cx_pc c = Writing command f \<Longrightarrow> r \<noteq> Pending \<Longrightarrow> settled (resolve f r c)"
  by (auto simp: conn_inv_def accounted_def settled_def resolve_request in_flight_def split: if_splits)

lemma drain_inv:
  assumes inv: "conn_inv c" and "settled c" "\<not> cx_cancel c" "phase_of (cx_pc c) = Up"
  shows "conn_inv (drain_commands c)"
proof (cases "cx_commands c")
  case Nil
  then show ?thesis
    using assms by (auto simp: conn_inv_def drain_commands_def accounted_def settled_def genuine_def list_all_iff joined_def)
next
  case (Cons w ws)
  have "accounted (drain_commands c)"
    using assms(2) Cons by (auto simp: settled_def accounted_def drain_commands_def in_flight_def split: prod.split)
  then show ?thesis
    using assms Cons by (auto simp: conn_inv_def drain_commands_def genuine_def list_all_iff joined_def split: prod.split)
qed

lemma leave_inv:
  assumes "conn_inv c" "settled c" "\<not> cx_cancel c" "phase_of (cx_pc c) \<in> {Trying, Up}"
  shows "conn_inv (leave fl now ex c)"
proof (rule off_line_inv[OF assms(1-3)])
  have "reported (phase_of (cx_pc c)) (cx_state c)" using assms(1) by (simp add: conn_inv_def)
  then show "off_line (leave fl now ex c)" using assms(4) by (intro leave_off) auto
qed simp

lemma serve_inv:
  assumes "conn_inv c" "settled c" "\<not> cx_cancel c" "phase_of (cx_pc c) = Up"
  shows "conn_inv (serve fl now c)"
  using assms leave_inv[OF assms(1-3)] drain_inv[OF assms] by (simp add: serve_def)

text \<open>A segment that stays in the phase \<open>Trying\<close> or goes from it to \<open>Up\<close>.\<close>

lemma on_line_inv:
  assumes "conn_inv c" "settled c" "\<not> cx_cancel c" "same_queue c c'" "reported (phase_of (cx_pc c')) (cx_state c')"
    and "phase_of (cx_pc c') \<in> {Trying, Up}" "cx_client c' \<longleftrightarrow> joined (cx_pc c')"
    and "cx_notification_active c' \<longrightarrow> cx_client c'"
  shows "conn_inv c'"
proof -
  have "list_all (genuine c') (cx_written c @ cx_commands c)"
    using assms(1,4) by (auto simp: conn_inv_def genuine_def same_queue_def list_all_iff)
  moreover have "accounted c'"
    using assms(2,4) by (auto simp: settled_def accounted_def same_queue_def)
  ultimately show ?thesis
    using assms by (auto simp: conn_inv_def same_queue_def)
qed

lemma inv_settled: "conn_inv c \<Longrightarrow> (\<And>command f. cx_pc c \<noteq> Writing command f) \<Longrightarrow> settled c"
  by (rule accounted_settled) (auto simp: conn_inv_def in_flight_def split: run_pc.splits)

lemma inv_off_line: "conn_inv c \<Longrightarrow> phase_of (cx_pc c) \<notin> {Trying, Up} \<Longrightarrow> \<not> cx_client c \<and> \<not> cx_notification_active c"
  using joined_phase[of "cx_pc c"] by (auto simp: conn_inv_def)

lemma loop_head_inv:
  assumes "conn_inv c" "settled c" "\<not> cx_cancel c" "\<not> cx_client c" "\<not> cx_notification_active c"
  shows "conn_inv (loop_head c)"
proof (cases "cx_stop c")
  case True
  show ?thesis by (rule off_line_inv[OF assms(1-3)]) (use True assms in \<open>simp_all add: loop_head_def off_line_def same_queue_def\<close>)
next
  case False
  show ?thesis by (rule on_line_inv[OF assms(1-3)]) (use False assms in \<open>simp_all add: loop_head_def joined_def same_queue_def\<close>)
qed

lemma announce_connected_inv:
  assumes "conn_inv c" "settled c" "\<not> cx_cancel c" "cx_client c"
  shows "conn_inv (announce_connected c)"
  by (rule on_line_inv[OF assms(1-3)]) (use assms in \<open>simp_all add: announce_connected_def same_queue_def\<close>)

lemma characteristic_read_inv:
  assumes "conn_inv c" "settled c" "\<not> cx_cancel c" "cx_client c" "phase_of (cx_pc c) = Trying"
  shows "conn_inv (metadata_read fl now r c)" and "conn_inv (capabilities_read fl now r c)"
proof -
  have state: "cx_state c = ''connecting''" using assms(1,5) by (simp add: conn_inv_def)
  have "conn_inv (c\<lparr>cx_metadata := d, cx_pc := Reading_capabilities\<rparr>)"
    and "conn_inv (c\<lparr>cx_capabilities := d, cx_notification_active := False, cx_pc := Subscribing\<rparr>)" for d
    by (rule on_line_inv[OF assms(1-3)]; use assms state in \<open>simp add: same_queue_def conn_inv_def\<close>)+
  then show "conn_inv (metadata_read fl now r c)" and "conn_inv (capabilities_read fl now r c)"
    using leave_inv[OF assms(1-3)] assms(5)
    by (auto simp: metadata_read_def capabilities_read_def split: sum.split)
qed

text \<open>Moving on inside the phases \<open>Trying\<close> and \<open>Up\<close>.\<close>

lemma move_inv:
  assumes "conn_inv c" "settled c" "\<not> cx_cancel c" "phase_of pc = phase_of (cx_pc c)" "phase_of pc \<in> {Trying, Up}"
    and "cx_client c \<longleftrightarrow> joined pc"
  shows "conn_inv (c\<lparr>cx_pc := pc\<rparr>)"
  by (rule on_line_inv[OF assms(1-3)]) (use assms in \<open>auto simp: same_queue_def conn_inv_def\<close>)

lemma outcome_cases [case_names Returned Raised Cancelled]:
  assumes "\<And>raw. out = Returned raw \<Longrightarrow> P" "\<And>e. out = Threw (Raised e) \<Longrightarrow> P" "out = Threw Cancelled \<Longrightarrow> P"
  shows P
  using assms by (metis outcome.exhaust raised.exhaust)

lemma resume_trying_inv:
  assumes inv: "conn_inv c" and "\<not> cx_cancel c" and "phase_of (cx_pc c) = Trying"
  shows "conn_inv (resume fl loads now u (cx_pc c) out c)"
proof -
  have s: "settled c" by (rule inv_settled[OF inv]) (use assms in auto)
  have st: "cx_state c = ''connecting''" using assms by (simp add: conn_inv_def)
  show ?thesis
  proof (cases "cx_pc c")
    case Announcing_connecting
    then have off: "\<not> cx_client c" "\<not> cx_notification_active c" using inv by (auto simp: conn_inv_def joined_def)
    have "conn_inv (raise_in_run fl now r c)" for r
      by (rule off_line_inv[OF inv s assms(2)]) (simp_all add: raise_in_run_off off)
    moreover have "conn_inv (c\<lparr>cx_is_connected := False, cx_disconnected := False, cx_pc := Connecting\<rparr>)"
      by (rule on_line_inv[OF inv s assms(2)]) (use st off in \<open>simp_all add: same_queue_def joined_def\<close>)
    ultimately show ?thesis using Announcing_connecting by (cases out) simp_all
  next
    case Connecting
    have "conn_inv (c\<lparr>cx_client := True, cx_connected_since := Some now, cx_pc := Reading_metadata\<rparr>)"
      by (rule on_line_inv[OF inv s assms(2)]) (use st in \<open>simp_all add: same_queue_def joined_def\<close>)
    then show ?thesis using Connecting leave_inv[OF inv s assms(2)] by (cases out) simp_all
  next
    case Subscribing
    then have on: "cx_client c" using inv by (simp add: conn_inv_def joined_def)
    have "conn_inv (c\<lparr>cx_notification_active := b, cx_pc := Subscribing_vibration\<rparr>)" for b
      by (rule on_line_inv[OF inv s assms(2)]) (use st on in \<open>simp_all add: same_queue_def joined_def\<close>)
    from this[of True] this[of "cx_notification_active c"] show ?thesis
      using Subscribing leave_inv[OF inv s assms(2)] by (cases out rule: outcome_cases) simp_all
  qed (use assms leave_inv[OF inv s assms(2)] characteristic_read_inv[OF inv s assms(2)]
      announce_connected_inv[OF inv s assms(2)] inv in
      \<open>cases out rule: outcome_cases; simp add: conn_inv_def joined_def\<close>)+
qed

lemma resume_up_inv:
  assumes inv: "conn_inv c" and cancel: "\<not> cx_cancel c" and up: "phase_of (cx_pc c) = Up"
  shows "conn_inv (resume fl loads now u (cx_pc c) out c)"
proof (cases "\<exists>command f. cx_pc c = Writing command f")
  case True
  then obtain command f where pc: "cx_pc c = Writing command f" by blast
  have "conn_inv (resolve f r c)" and "settled (resolve f r c)" if "r \<noteq> Pending" for r
    using that resolve_inv[OF inv] resolve_settled[OF inv pc] by auto
  then have "conn_inv (drain_commands (resolve f Succeeded c))"
    and "r \<noteq> Pending \<Longrightarrow> conn_inv (leave fl now ex (resolve f r c))" for r ex
    using up cancel by (simp_all add: drain_inv leave_inv)
  then show ?thesis unfolding pc by (cases out rule: outcome_cases) simp_all
next
  case False
  then have s: "settled c" using inv by (blast intro: inv_settled)
  have on: "cx_client c" "cx_state c = ''connected''" using inv up by (auto simp: conn_inv_def joined_def)
  have "conn_inv (c\<lparr>cx_telemetry := cx_telemetry c @ [raw], cx_pc := Handling\<rparr>)" for raw
    by (rule on_line_inv[OF inv s cancel]) (simp_all add: same_queue_def on)
  then show ?thesis
    using False up on move_inv[OF inv s cancel, of Waiting] leave_inv[OF inv s cancel] serve_inv[OF inv s cancel]
    by (cases "cx_pc c"; cases out rule: outcome_cases) simp_all
qed

lemma resume_off_inv:
  assumes inv: "conn_inv c" and cancel: "\<not> cx_cancel c" and off: "phase_of (cx_pc c) \<notin> {Trying, Up}"
  shows "conn_inv (resume fl loads now u (cx_pc c) out c)"
proof -
  have s: "settled c" by (rule inv_settled[OF inv]) (use off in auto)
  note nc = inv_off_line[OF inv off]
  note ends = off_line_inv[OF inv s cancel]
  have "conn_inv (task_ends r c)" "conn_inv (back_off fl u d c)" "conn_inv (close_done fl now ex c)"
    "conn_inv (raise_in_run fl now r c)" for r d ex
    using nc by (simp_all add: ends task_ends_off back_off_off close_done_off raise_in_run_off)
  moreover have "conn_inv (loop_head c)"
    using nc by (simp add: loop_head_inv[OF inv s cancel])
  moreover have "conn_inv (loop_head (c\<lparr>cx_failure_count := n\<rparr>))" for n
    by (rule loop_head_inv)
      (use inv s cancel nc in \<open>simp_all add: conn_inv_def settled_def accounted_def genuine_def [abs_def]\<close>)
  moreover have "conn_inv (c\<lparr>cx_pc := Sleeping d\<rparr>)" if "cx_pc c = Announcing_backoff d" for d
    by (rule ends) (use that inv nc in \<open>simp_all add: same_queue_def off_line_def conn_inv_def\<close>)
  ultimately show ?thesis
    using off inv by (cases "cx_pc c"; cases out) simp_all
qed

lemma task_turn_inv:
  assumes "conn_inv c"
  shows "conn_inv (task_turn fl loads t c)"
proof -
  let ?c = "c\<lparr>cx_cancel := False\<rparr>"
  have inv: "conn_inv ?c"
    using assms by (auto simp: conn_inv_def accounted_def genuine_def list_all_iff)
  have "conn_inv (resume fl loads now u (cx_pc ?c) out ?c)" for now u out
    using resume_trying_inv[OF inv] resume_up_inv[OF inv] resume_off_inv[OF inv] by fastforce
  then show ?thesis by (simp add: task_turn_def split: prod.split)
qed

lemma inv_frame:
  assumes "conn_inv c" "cx_commands c' = cx_commands c" "cx_written c' = cx_written c" "cx_requests c' = cx_requests c"
    "cx_pc c' = cx_pc c" "cx_state c' = cx_state c" "cx_client c' = cx_client c"
    "cx_notification_active c' = cx_notification_active c" "cx_stop c \<longrightarrow> cx_stop c'" "cx_stopping c' = cx_stopping c"
    "cx_cancel c' = cx_cancel c"
  shows "conn_inv c'"
  using assms by (auto simp: conn_inv_def accounted_def genuine_def list_all_iff)

lemma start_inv:
  assumes inv: "conn_inv c" and "cx_stopping c = 0"
  shows "conn_inv (Connection.start c)"
proof (cases "idle_pc (cx_pc c)")
  case True
  then have "settled c" and off: "phase_of (cx_pc c) \<notin> {Trying, Up}"
    using inv by (auto intro!: inv_settled simp: idle_pc_def split: run_pc.splits)
  then show ?thesis
    using True inv inv_off_line[OF inv off] assms(2)
    by (auto simp: Connection.start_def conn_inv_def settled_def accounted_def genuine_def list_all_iff)
qed (use inv in \<open>simp add: Connection.start_def\<close>)

lemma send_command_inv:
  assumes inv: "conn_inv c" and sent: "send_command c command = Inr (c', f)"
  shows "conn_inv c'"
proof -
  let ?n = "length (cx_requests c)"
  have c': "c' = c\<lparr>cx_requests := cx_requests c @ [(command, Pending)], cx_commands := cx_commands c @ [(command, ?n)]\<rparr>"
    and room: "length (cx_commands c) < command_queue_size"
    using sent by (auto simp: send_command_def split: if_splits)
  have "\<forall>w \<in> set (cx_written c @ cx_commands c). snd w < ?n"
    using inv by (auto simp: conn_inv_def genuine_def list_all_iff)
  then have "sorted_wrt (<) (map snd (cx_written c' @ cx_commands c'))"
    using inv by (auto simp: c' conn_inv_def sorted_wrt_append)
  moreover have "list_all (genuine c') (cx_written c' @ cx_commands c')"
  proof -
    have "genuine c w \<Longrightarrow> genuine c' w" for w by (auto simp: c' genuine_def nth_append)
    moreover have "genuine c' (command, ?n)" by (simp add: c' genuine_def)
    moreover have "cx_written c' = cx_written c" "cx_commands c' = cx_commands c @ [(command, ?n)]" by (simp_all add: c')
    ultimately show ?thesis using inv by (auto simp: conn_inv_def list_all_iff)
  qed
  moreover have "accounted c'"
    using inv by (auto simp: c' conn_inv_def accounted_def nth_append less_Suc_eq)
  ultimately show ?thesis using inv room by (auto simp: conn_inv_def c')
qed

text \<open>\<open>stop\<close> rejects everything that is still queued.\<close>

lemma fold_resolve_frame:
  "cx_requests (fold (\<lambda>(command, f). resolve f r) ws c) ! g =
     (if g < length (cx_requests c) \<and> g \<in> snd ` set ws \<and> snd (cx_requests c ! g) = Pending
      then (fst (cx_requests c ! g), r) else cx_requests c ! g)"
  if "r \<noteq> Pending" "g < length (cx_requests c)"
  using that
proof (induction ws arbitrary: c)
  case (Cons w ws)
  then show ?case by (auto simp: split_def resolve_request)
qed simp

lemma fold_resolve_keeps [simp]:
  "cx_pc (fold (\<lambda>(command, f). resolve f r) ws c) = cx_pc c"
  "cx_written (fold (\<lambda>(command, f). resolve f r) ws c) = cx_written c"
  "cx_stop (fold (\<lambda>(command, f). resolve f r) ws c) = cx_stop c"
  "cx_stopping (fold (\<lambda>(command, f). resolve f r) ws c) = cx_stopping c"
  "cx_client (fold (\<lambda>(command, f). resolve f r) ws c) = cx_client c"
  "cx_notification_active (fold (\<lambda>(command, f). resolve f r) ws c) = cx_notification_active c"
  "cx_cancel (fold (\<lambda>(command, f). resolve f r) ws c) = cx_cancel c"
  "cx_failure_count (fold (\<lambda>(command, f). resolve f r) ws c) = cx_failure_count c"
  by (induction ws arbitrary: c; simp add: split_def)+

lemma fold_resolve_length [simp]:
  "length (cx_requests (fold (\<lambda>(command, f). resolve f r) ws c)) = length (cx_requests c)"
  by (induction ws arbitrary: c) (auto simp: split_def)

lemma fold_resolve_inv: "conn_inv c \<Longrightarrow> r \<noteq> Pending \<Longrightarrow> conn_inv (fold (\<lambda>(command, f). resolve f r) ws c)"
  by (induction ws arbitrary: c) (auto simp: split_def resolve_inv)

lemma stop_finish_requests:
  assumes "conn_inv c" "idle_pc (cx_pc c)" "f < length (cx_requests c)"
  shows "cx_requests (stop_finish c) ! f =
    (if snd (cx_requests c ! f) = Pending then (fst (cx_requests c ! f), Rejected stopped_error) else cx_requests c ! f)"
proof -
  have "settled c" using assms(1,2) by (auto intro!: inv_settled simp: idle_pc_def split: run_pc.splits)
  then have "snd (cx_requests c ! f) = Pending \<Longrightarrow> f \<in> snd ` set (cx_commands c)"
    using assms(3) by (simp add: settled_def)
  then show ?thesis
    using assms(3) fold_resolve_frame[of "Rejected stopped_error" f c "cx_commands c"]
    by (auto simp: stop_finish_def)
qed

lemma stop_finish_inv:
  assumes inv: "conn_inv c" and idle: "idle_pc (cx_pc c)"
  shows "conn_inv (Connection.stop_finish c)"
proof -
  let ?d = "fold (\<lambda>(command, f). resolve f (Rejected stopped_error)) (cx_commands c) c"
  have d: "conn_inv ?d" using inv by (simp add: fold_resolve_inv)
  have phase: "phase_of (cx_pc c) = Idle" using idle by (auto simp: idle_pc_def split: run_pc.splits)
  have "accounted (stop_finish c)"
    using stop_finish_requests[OF inv idle] by (auto simp: accounted_def) (auto simp: stop_finish_def split: if_splits)
  moreover have "list_all (genuine (stop_finish c)) (cx_written c)" "sorted_wrt (<) (map snd (cx_written c))"
    using d by (auto simp: conn_inv_def genuine_def list_all_iff stop_finish_def sorted_wrt_append)
  ultimately show ?thesis
    using inv phase by (auto simp: conn_inv_def stop_finish_def)
qed

lemma conn_step_inv:
  assumes "conn_step fl loads c c'" and inv: "conn_inv c"
  shows "conn_inv c'"
  using assms(1)
proof cases
  case stop_request
  then show ?thesis
    using inv by (auto simp: stop_request_def conn_inv_def accounted_def genuine_def list_all_iff)
qed (use inv in \<open>auto simp: task_turn_inv start_inv stop_finish_inv resolve_inv send_command_inv
    request_disconnect_def intro: inv_frame[OF inv]\<close>)

lemma new_connection_inv: "conn_inv (new_connection device_id address initial maximum stable_seconds)"
  by (simp add: conn_inv_def new_connection_def accounted_def)

lemma fresh_inv: "fresh_connection c \<Longrightarrow> conn_inv c"
  by (subst (asm) fresh_connection_def) (metis new_connection_inv)

lemma reachable_inv: "conn_reachable fl loads c \<Longrightarrow> conn_inv c"
  by (induction rule: reachable_from.induct) (auto intro: conn_step_inv fresh_inv)

section \<open>The supervision a connection implements\<close>

text \<open>
  The specification of the reconnect loop: attempts follow each other, separated by a failure and a rest,
  and the number of failures grows by one per round unless a stable connection resets it.
\<close>

inductive supervise :: "phase \<times> int \<Rightarrow> phase \<times> int \<Rightarrow> bool" where
  begin_task: "supervise (Idle, n) (Starting, 0)"
| attempt: "supervise (Starting, n) (Trying, n)"
| never_ran: "supervise (Starting, n) (Idle, n)"
| connected: "supervise (Trying, n) (Up, n)"
| hang_up: "p \<in> {Trying, Up} \<Longrightarrow> supervise (p, n) (Hanging_up, n)"
| fall: "p \<in> {Trying, Up, Hanging_up} \<Longrightarrow> supervise (p, n) (Broken, n)"
| stand_down: "p \<in> {Trying, Up, Hanging_up} \<Longrightarrow> supervise (p, n) (Idle, n)"
| rest: "m \<in> {0, n} \<Longrightarrow> supervise (Broken, n) (Resting, m)"
| collapse: "m \<in> {0, n} \<Longrightarrow> supervise (Broken, n) (Idle, m)"
| retry: "supervise (Resting, n) (Trying, n + 1)"
| stop_resting: "m \<in> {n, n + 1} \<Longrightarrow> supervise (Resting, n) (Idle, m)"

inductive_simps supervise_simps [simp]:
  "supervise (Idle, n) q" "supervise (Starting, n) q" "supervise (Trying, n) q" "supervise (Up, n) q"
  "supervise (Hanging_up, n) q" "supervise (Broken, n) q" "supervise (Resting, n) q"

definition supervision :: "connection \<Rightarrow> phase \<times> int" where
  "supervision c = (phase_of (cx_pc c), cx_failure_count c)"

lemma supervision_simps [simp]:
  "supervision (set_state st err c) = supervision c" "supervision (resolve f r c) = supervision c"
  "supervision (task_ends ex c) = (Idle, cx_failure_count c)"
  by (simp_all add: supervision_def task_ends_def)

lemma raise_in_run_refines:
  "phase_of (cx_pc c) \<in> {Trying, Up, Hanging_up} \<Longrightarrow> supervise (supervision c) (supervision (raise_in_run fl now r c))"
  by (cases r) (auto simp: supervision_def raise_in_run_def failed_attempt_def Let_def)

lemma close_done_refines:
  "phase_of (cx_pc c) \<in> {Trying, Up, Hanging_up} \<Longrightarrow> supervise (supervision c) (supervision (close_done fl now ex c))"
  using raise_in_run_refines[of c]
  by (cases ex) (auto simp: close_done_def, auto simp: supervision_def failed_attempt_def Let_def)

lemma leave_refines:
  "phase_of (cx_pc c) \<in> {Trying, Up} \<Longrightarrow> supervise (supervision c) (supervision (leave fl now ex c))"
  using close_done_refines[of "c\<lparr>cx_client := False, cx_notification_active := False\<rparr>"]
  by (auto simp: leave_def Let_def) (auto simp: supervision_def)

lemma drain_refines: "phase_of (cx_pc c) = Up \<Longrightarrow> supervision (drain_commands c) = supervision c"
  by (auto simp: supervision_def drain_commands_def split: list.split)

lemma back_off_refines:
  "phase_of (cx_pc c) = Broken \<Longrightarrow> supervise (supervision c) (supervision (back_off fl u d c))"
  by (auto simp: supervision_def back_off_def Let_def split: sum.split)

lemma loop_head_supervision: "supervision (loop_head c) = (if cx_stop c then Idle else Trying, cx_failure_count c)"
  by (simp add: loop_head_def) (simp add: supervision_def)

lemma serve_refines:
  "phase_of (cx_pc c) = Up \<Longrightarrow> supervision (serve fl now c) = supervision c \<or> supervise (supervision c) (supervision (serve fl now c))"
  using leave_refines[of c] by (simp add: serve_def drain_refines)

lemma characteristic_refines:
  assumes "phase_of (cx_pc c) = Trying"
  shows "supervision (metadata_read fl now r c) = supervision c \<or> supervise (supervision c) (supervision (metadata_read fl now r c))"
    and "supervision (capabilities_read fl now r c) = supervision c
      \<or> supervise (supervision c) (supervision (capabilities_read fl now r c))"
  using leave_refines[of c] assms
  by (auto simp: metadata_read_def capabilities_read_def split: sum.split) (auto simp: supervision_def)

lemma announce_connected_refines:
  "phase_of (cx_pc c) = Trying \<Longrightarrow> supervise (supervision c) (supervision (announce_connected c))"
  by (simp add: announce_connected_def) (simp add: supervision_def)

text \<open>\<open>pc\<close> is named to keep the segments' equations apart from the state they run in.\<close>

lemma resume_refines:
  assumes pc: "cx_pc c = pc"
  shows "supervision (resume fl loads now u pc out c) = supervision c
    \<or> supervise (supervision c) (supervision (resume fl loads now u pc out c))"
proof (cases "phase_of pc \<in> {Trying, Up}")
  case True
  then have l: "supervise (supervision c) (supervision (leave fl now ex c))" for ex
    using pc by (simp add: leave_refines)
  have w: "pc = Writing command f \<Longrightarrow> supervise (supervision c) (supervision (leave fl now ex (resolve f r c)))
      \<and> supervision (drain_commands (resolve f r c)) = supervision c" for command f r ex
    using pc leave_refines[of "resolve f r c" fl now ex] drain_refines[of "resolve f r c"] by simp
  have s: "phase_of pc = Up \<Longrightarrow> supervision (serve fl now c) = supervision c \<or> supervise (supervision c) (supervision (serve fl now c))"
    using pc serve_refines[of c] by simp
  show ?thesis
    using True pc l w s characteristic_refines[of c] announce_connected_refines[of c] raise_in_run_refines[of c]
    by (cases pc; cases out rule: outcome_cases; simp; simp add: supervision_def)
next
  case False
  then show ?thesis
    using pc close_done_refines[of c] raise_in_run_refines[of c] back_off_refines[of c]
    by (cases pc; cases out; simp add: loop_head_supervision; simp add: supervision_def)
qed

lemma task_turn_refines:
  "supervision (task_turn fl loads t c) = supervision c \<or> supervise (supervision c) (supervision (task_turn fl loads t c))"
proof -
  have "supervision (c\<lparr>cx_cancel := False\<rparr>) = supervision c" by (simp add: supervision_def)
  then show ?thesis
    using resume_refines[of "c\<lparr>cx_cancel := False\<rparr>" "cx_pc c"] by (cases t) (auto simp: task_turn_def)
qed

lemma conn_step_refines:
  assumes "conn_step fl loads c c'"
  shows "supervision c' = supervision c \<or> supervise (supervision c) (supervision c')"
  using assms
proof cases
  case turn
  then show ?thesis using task_turn_refines by simp
next
  case start
  then show ?thesis by (auto simp: Connection.start_def supervision_def idle_pc_def split: run_pc.splits)
qed (auto simp: supervision_def stop_request_def stop_finish_def request_disconnect_def send_command_def split: if_splits)

interpretation supervised: refinement_map fresh_connection "conn_step fl loads" "\<lambda>s. s = (Idle, 0)" supervise supervision
  for fl loads
proof unfold_locales
  fix c
  assume "fresh_connection c"
  then show "supervision c = (Idle, 0)"
    by (subst (asm) fresh_connection_def) (metis supervision_def new_connection_def phase_of.simps(1)
        connection.select_convs(13) connection.select_convs(14))
qed (rule conn_step_refines)

lemma failures_nonneg: "conn_reachable fl loads c \<Longrightarrow> 0 \<le> cx_failure_count c"
  using supervised.abstract_invariant[of "\<lambda>(p, n). 0 \<le> n" fl loads c]
  by (force simp: supervision_def elim: supervise.cases)


text \<open>C7. Commands are written in the order in which \<open>send_command\<close> accepted them, each at most once and with the
  text it was accepted with; the queue holds at most 32, and a caller whose future is still open has its
  command in the queue or on the wire.\<close>

theorem commands_in_order:
  assumes "conn_reachable fl loads c"
  shows "sorted_wrt (<) (map snd (cx_written c @ cx_commands c)) \<and> length (cx_commands c) \<le> 32
    \<and> (\<forall>(command, f) \<in> set (cx_written c @ cx_commands c). f < length (cx_requests c) \<and> fst (cx_requests c ! f) = command)
    \<and> (\<forall>f < length (cx_requests c). snd (cx_requests c ! f) = Pending \<longrightarrow>
         f \<in> snd ` set (cx_commands c) \<or> (\<exists>command. cx_pc c = Writing command f))"
proof -
  note inv = reachable_inv[OF assms]
  have "in_flight (cx_pc c) f \<longleftrightarrow> (\<exists>command. cx_pc c = Writing command f)" for f
    by (cases "cx_pc c") (auto simp: in_flight_def)
  then have "\<forall>f < length (cx_requests c). snd (cx_requests c ! f) = Pending \<longrightarrow>
      f \<in> snd ` set (cx_commands c) \<or> (\<exists>command. cx_pc c = Writing command f)"
    using inv by (simp add: conn_inv_def accounted_def)
  moreover have "list_all (genuine c) (cx_written c @ cx_commands c)"
    using inv by (simp only: conn_inv_def)
  then have "\<forall>(command, f) \<in> set (cx_written c @ cx_commands c). f < length (cx_requests c) \<and> fst (cx_requests c ! f) = command"
    by (simp add: list_all_iff genuine_def split_def)
  ultimately show ?thesis
    using inv by (simp add: conn_inv_def command_queue_size_def)
qed

section \<open>Stopping\<close>

text \<open>How many turns of the task are left once \<open>stop\<close> has been called.\<close>

fun turns_left :: "run_pc \<Rightarrow> nat" where
  "turns_left No_task = 0"
| "turns_left (Finished _) = 0"
| "turns_left Created = 1"
| "turns_left (Sleeping _) = 1"
| "turns_left (Announcing_backoff _) = 2"
| "turns_left (Announcing_error _) = 3"
| "turns_left (Closing _) = 4"
| "turns_left _ = 5"

lemma close_done_turns: "turns_left (cx_pc (close_done fl now ex c)) \<le> 3"
  by (auto simp: close_done_def raise_in_run_def failed_attempt_def Let_def split: option.split raised.split)

lemma raise_in_run_turns: "turns_left (cx_pc (raise_in_run fl now r c)) \<le> 3"
  by (auto simp: raise_in_run_def failed_attempt_def Let_def split: raised.split)

lemma leave_turns: "turns_left (cx_pc (leave fl now ex c)) \<le> 4"
  using close_done_turns[of fl now ex "c\<lparr>cx_client := False, cx_notification_active := False\<rparr>"]
  by (simp add: leave_def Let_def)

lemma back_off_turns: "turns_left (cx_pc (back_off fl u d c)) \<le> 2"
  by (auto simp: back_off_def Let_def split: sum.split)

lemma resume_turns:
  assumes "cx_stop c" and "turns_left pc \<le> 4 \<or> out = Threw Cancelled"
  shows "turns_left (cx_pc (resume fl loads now u pc out c)) \<le> turns_left pc - 1 \<or> idle_pc pc"
  using assms leave_turns[of fl now] close_done_turns[of fl now] raise_in_run_turns[of fl now]
    le_trans[OF raise_in_run_turns[of fl now _ c], of 4] back_off_turns[of fl u]
  by (cases pc; cases out rule: outcome_cases) (auto simp: idle_pc_def loop_head_def task_ends_def intro: order_trans)

lemma resume_stop: "cx_stop (resume fl loads now u pc out c) = cx_stop c"
proof -
  have q: "cx_stop (leave fl now ex c) = cx_stop c" "cx_stop (close_done fl now ex c) = cx_stop c"
    "cx_stop (raise_in_run fl now r c) = cx_stop c" "cx_stop (back_off fl u d c) = cx_stop c"
    "cx_stop (loop_head c) = cx_stop c" "cx_stop (task_ends r c) = cx_stop c" for ex r d c
    using leave_queue[of c fl now ex] close_done_queue[of c fl now ex] raise_in_run_queue[of c fl now r]
      back_off_queue[of c fl u d] loop_head_queue[of c] task_ends_queue[of c r]
    by (simp_all add: same_queue_def)
  have "cx_stop (drain_commands c) = cx_stop c" "cx_stop (serve fl now c) = cx_stop c"
    "cx_stop (metadata_read fl now r c) = cx_stop c" "cx_stop (capabilities_read fl now r c) = cx_stop c"
    "cx_stop (announce_connected c) = cx_stop c" for c r
    by (simp_all add: drain_commands_def serve_def metadata_read_def capabilities_read_def announce_connected_def q
        split: list.split sum.split)
  with q show ?thesis by (cases pc; cases out rule: outcome_cases) simp_all
qed

lemma idle_resume: "idle_pc pc \<Longrightarrow> resume fl loads now u pc out c = c"
  by (cases pc) (simp_all add: idle_pc_def)

lemma turns_left_idle: "turns_left pc = 0 \<longleftrightarrow> idle_pc pc"
  by (cases pc) (simp_all add: idle_pc_def)

lemma task_turn_turns:
  assumes "cx_stop c" and "turns_left (cx_pc c) \<le> 4 \<or> cx_cancel c"
  shows "turns_left (cx_pc (task_turn fl loads t c)) \<le> turns_left (cx_pc c) - 1" and "cx_stop (task_turn fl loads t c)"
proof -
  obtain now u out where t: "t = (now, u, out)" by (cases t)
  let ?out = "if cx_cancel c then Threw Cancelled else out" and ?c = "c\<lparr>cx_cancel := False\<rparr>"
  have "turns_left (cx_pc (resume fl loads now u (cx_pc c) ?out ?c)) \<le> turns_left (cx_pc c) - 1"
    using resume_turns[of ?c "cx_pc c" ?out fl loads now u] idle_resume[of "cx_pc c" fl loads now u ?out ?c] assms
      turns_left_idle[of "cx_pc c"]
    by auto
  then show "turns_left (cx_pc (task_turn fl loads t c)) \<le> turns_left (cx_pc c) - 1"
    by (simp add: t task_turn_def)
  show "cx_stop (task_turn fl loads t c)"
    using assms(1) by (simp add: t task_turn_def resume_stop)
qed

lemma turns_left_bound: "turns_left pc \<le> 5"
  by (cases pc) simp_all

lemma turns_end:
  "cx_stop c \<Longrightarrow> turns_left (cx_pc c) \<le> 4 \<Longrightarrow> turns_left (cx_pc c) \<le> length ts \<Longrightarrow> idle_pc (cx_pc (fold (task_turn fl loads) ts c))"
proof (induction ts arbitrary: c)
  case (Cons t ts)
  then show ?case using task_turn_turns[of c fl loads t] by simp
qed (simp add: turns_left_idle)

text \<open>C8. Stopping a connection terminates and leaves nobody waiting: whatever the BLE library and the status callback
  answer, at most five turns after \<open>stop\<close> has cancelled the task it has ended, and \<open>stop\<close> then rejects every open command,
  empties the queue and reports the node disconnected.\<close>

theorem stop_terminates:
  assumes "conn_reachable fl loads c" and "5 \<le> length ts"
  defines "s \<equiv> fold (task_turn fl loads) ts (stop_request c)"
  shows "idle_pc (cx_pc s) \<and> \<not> cx_client s \<and> cx_commands (stop_finish s) = [] \<and> cx_state (stop_finish s) = ''disconnected''
    \<and> (\<forall>f < length (cx_requests s). snd (cx_requests (stop_finish s) ! f) =
         (if snd (cx_requests s ! f) = Pending then Rejected stopped_error else snd (cx_requests s ! f)))"
proof -
  let ?c = "stop_request c"
  obtain t ts' where ts: "ts = t # ts'" and len: "4 \<le> length ts'" using assms(2) by (cases ts) auto
  have stop: "cx_stop ?c" and cancel: "turns_left (cx_pc ?c) \<le> 4 \<or> cx_cancel ?c"
    using turns_left_idle[of "cx_pc c"] by (auto simp: stop_request_def)
  have "turns_left (cx_pc (task_turn fl loads t ?c)) \<le> 4" and "cx_stop (task_turn fl loads t ?c)"
    using task_turn_turns[OF stop cancel, of fl loads t] turns_left_bound[of "cx_pc ?c"] by simp_all
  then have idle: "idle_pc (cx_pc s)"
    unfolding s_def ts by (simp add: turns_end len order_trans[OF _ len])
  have "conn_inv (fold (task_turn fl loads) us ?c)" for us
    using conn_step_inv[OF conn_step.stop_request reachable_inv[OF assms(1)]]
    by (induction us rule: rev_induct) (auto intro: task_turn_inv)
  then have inv: "conn_inv s" by (simp add: s_def)
  have "\<not> cx_client s"
    using inv idle by (auto simp: conn_inv_def idle_pc_def split: run_pc.splits)
  then show ?thesis
    using idle stop_finish_requests[OF inv idle] by (auto simp: stop_finish_def)
qed

section \<open>Delays\<close>

lemma factor_in_range: "n \<le> 1023 \<Longrightarrow> (2::int) ^ nat (max 0 n) < float_overflow_bound"
proof -
  assume "n \<le> 1023"
  then have "(2::int) ^ nat (max 0 n) \<le> 2 ^ 1023" by (intro power_increasing) auto
  also have "(2::int) ^ 1023 < float_overflow_bound" by (simp add: float_overflow_bound_def)
  finally show ?thesis .
qed

lemma factor_overflows: "1024 \<le> n \<Longrightarrow> float_overflow_bound \<le> (2::int) ^ nat (max 0 n)"
proof -
  assume "1024 \<le> n"
  then have "(2::int) ^ 1024 \<le> 2 ^ nat (max 0 n)" by (intro power_increasing) auto
  moreover have "float_overflow_bound \<le> 2 ^ 1024" by (simp add: float_overflow_bound_def)
  ultimately show ?thesis by simp
qed

lemma reconnect_delay_in_range:
  "n \<le> 1023 \<Longrightarrow> reconnect_delay fl initial maximum n = Inr (min (fl (initial * 2 ^ nat (max 0 n))) maximum)"
  using factor_in_range[of n] by (simp add: reconnect_delay_def Let_def)

lemma reconnect_delay_overflows:
  "1024 \<le> n \<Longrightarrow> reconnect_delay fl initial maximum n = Inl (OverflowError ''int too large to convert to float'')"
  using factor_overflows[of n] by (simp add: reconnect_delay_def Let_def)

context rounding
begin

lemma random_uniform_bounds:
  assumes "0 \<le> b" "fl b = b" "0 \<le> u" "u \<le> 1"
  shows "0 \<le> random_uniform fl u 0 b" and "random_uniform fl u 0 b \<le> b"
proof -
  have "0 \<le> b * u" and "b * u \<le> b" using assms by (simp_all add: mult_left_le)
  then have "0 \<le> fl (b * u)" and "fl (b * u) \<le> b" using fl_nonneg fl_mono[of "b * u" b] assms(2) by auto
  then show "0 \<le> random_uniform fl u 0 b" and "random_uniform fl u 0 b \<le> b"
    using assms(2) by (simp_all add: random_uniform_def fl_idem)
qed

lemma jittered_bounds:
  assumes d: "0 \<le> d" "fl d = d" "d \<le> m" and u: "0 \<le> u" "u \<le> 1"
  shows "d \<le> jittered fl u d" and "jittered fl u d \<le> fl (m + fl (m * fl (1 / 5)))"
proof -
  let ?b = "fl (d * fl (1 / 5))"
  have fifth: "0 \<le> fl (1 / 5)" by (intro fl_nonneg) simp
  then have "0 \<le> ?b" using d(1) by (intro fl_nonneg) simp
  note r = random_uniform_bounds[OF this fl_idem u]
  have "fl d \<le> fl (d + random_uniform fl u 0 ?b)" using r(1) by (intro fl_mono) simp
  then show "d \<le> jittered fl u d" by (simp add: jittered_def d(2))
  have "?b \<le> fl (m * fl (1 / 5))" using d(3) fifth by (intro fl_mono mult_right_mono)
  then show "jittered fl u d \<le> fl (m + fl (m * fl (1 / 5)))"
    unfolding jittered_def using r(2) d(3) by (intro fl_mono) linarith
qed

lemma reconnect_delay_bounds:
  assumes "0 \<le> initial" "0 \<le> maximum" "fl maximum = maximum" "n \<le> 1023"
  obtains d where "reconnect_delay fl initial maximum n = Inr d" "0 \<le> d" "d \<le> maximum" "fl d = d"
proof (rule that[OF reconnect_delay_in_range[OF assms(4)]])
  have "0 \<le> fl (initial * 2 ^ nat (max 0 n))" using assms(1) by (intro fl_nonneg) simp
  then show "0 \<le> min (fl (initial * 2 ^ nat (max 0 n))) maximum" using assms(2) by simp
  show "fl (min (fl (initial * 2 ^ nat (max 0 n))) maximum) = min (fl (initial * 2 ^ nat (max 0 n))) maximum"
    using assms(3) by (simp add: min_def fl_idem)
qed simp

end

text \<open>Up to 1023 consecutive failures the wait before the next attempt lies between the exponential delay, capped at
  the configured maximum, and the maximum plus a fifth of it; from the 1024th on the delay cannot be computed.\<close>

theorem backoff_bounds:
  assumes "0 \<le> initial" "0 \<le> maximum" "fl64 maximum = maximum" "0 \<le> u" "u \<le> 1" "0 \<le> n"
  shows "if n \<le> 1023
    then \<exists>d. reconnect_delay fl64 initial maximum n = Inr d \<and> d = min (fl64 (initial * 2 ^ nat n)) maximum
      \<and> d \<le> jittered fl64 u d \<and> jittered fl64 u d \<le> fl64 (maximum + fl64 (maximum * fl64 (1 / 5)))
    else reconnect_delay fl64 initial maximum n = Inl (OverflowError ''int too large to convert to float'')"
proof (cases "n \<le> 1023")
  case True
  obtain d where d: "reconnect_delay fl64 initial maximum n = Inr d" "0 \<le> d" "d \<le> maximum" "fl64 d = d"
    using ieee.reconnect_delay_bounds[OF assms(1-3) True] by blast
  then show ?thesis
    using True assms ieee.jittered_bounds[OF d(2,4,3)] reconnect_delay_in_range[OF True, of fl64 initial maximum]
    by (auto simp: max_def)
qed (simp add: reconnect_delay_overflows)

text \<open>A round in which the connection cannot be established, and the state between two such rounds.\<close>

definition failed_round :: "exn \<Rightarrow> (real \<times> real \<times> outcome) list" where
  "failed_round e = [(0, 0, Returned ''''), (0, 0, Threw (Raised e)), (0, 0, Returned ''''), (0, 0, Returned ''''),
     (0, 0, Threw (Raised TimeoutError))]"

definition failing :: "int \<Rightarrow> connection \<Rightarrow> bool" where
  "failing n c = (cx_pc c = Announcing_connecting \<and> cx_failure_count c = n \<and> \<not> cx_stop c \<and> \<not> cx_cancel c
     \<and> cx_connected_since c = None \<and> 0 < cx_stable_seconds c)"

lemma failed_connect:
  fixes fl :: "real \<Rightarrow> real" and loads :: "string \<Rightarrow> json result" and e :: exn
  assumes "failing n c"
  defines "d \<equiv> fold (task_turn fl loads) (take 2 (failed_round e)) c"
  shows "cx_pc d = Announcing_error 0 \<and> cx_state d = ''error'' \<and> cx_failure_count d = n \<and> \<not> cx_stop d \<and> \<not> cx_cancel d
    \<and> cx_connected_since d = None \<and> cx_stable_seconds d = cx_stable_seconds c"
  using assms(1)
  by (simp add: d_def failing_def failed_round_def task_turn_def leave_def close_done_def raise_in_run_def failed_attempt_def set_state_def)

lemma failed_round_failing:
  assumes "failing n c" "n \<le> 1023"
  shows "failing (n + 1) (fold (task_turn fl loads) (failed_round e) c)"
proof -
  let ?d = "fold (task_turn fl loads) (take 2 (failed_round e)) c"
  have "fold (task_turn fl loads) (failed_round e) c = fold (task_turn fl loads) (drop 2 (failed_round e)) ?d"
    by (simp add: failed_round_def)
  moreover have "failing (n + 1) (fold (task_turn fl loads) (drop 2 (failed_round e)) ?d)"
    using failed_connect[OF assms(1), of fl loads e] assms
    by (simp add: failing_def failed_round_def task_turn_def back_off_def Let_def reconnect_delay_in_range set_state_def loop_head_def)
  ultimately show ?thesis by simp
qed

lemma failed_rounds:
  assumes "failing 0 c" "n \<le> 1024"
  shows "failing (int n) (fold (task_turn fl loads) (concat (replicate n (failed_round e))) c)"
  using assms(2)
proof (induction n)
  case (Suc n)
  then show ?case
    using failed_round_failing[of "int n" "fold (task_turn fl loads) (concat (replicate n (failed_round e))) c"]
    by (simp flip: replicate_append_same add: add.commute)
qed (use assms(1) in simp)

text \<open>A node that stays out of reach is given up: the connection survives 1024 failed attempts, but the
  delay after the next one raises outside the \<open>try\<close> of \<open>run\<close>, and the task ends although nobody stopped it.\<close>

theorem reconnect_gives_up:
  fixes fl :: "real \<Rightarrow> real" and loads :: "string \<Rightarrow> json result" and e :: exn
    and device_id address :: string and initial maximum stable_seconds :: real
  assumes "0 < stable_seconds"
  defines "c \<equiv> task_turn fl loads (0, 0, Returned '''') (Connection.start (new_connection device_id address initial maximum stable_seconds))"
  defines "after_rounds \<equiv> \<lambda>n. fold (task_turn fl loads) (concat (replicate n (failed_round e))) c"
  defines "final \<equiv> fold (task_turn fl loads) (take 3 (failed_round e)) (after_rounds 1024)"
  shows "(\<forall>n \<le> 1024. cx_pc (after_rounds n) = Announcing_connecting \<and> cx_failure_count (after_rounds n) = int n)
    \<and> cx_pc final = Finished (Some (OverflowError ''int too large to convert to float''))
    \<and> cx_state final = ''error'' \<and> \<not> cx_stop final"
proof -
  have c: "failing 0 c"
    using assms(1) by (simp add: c_def failing_def task_turn_def Connection.start_def new_connection_def idle_pc_def loop_head_def set_state_def)
  have rounds: "failing (int n) (after_rounds n)" if "n \<le> 1024" for n
    using failed_rounds[OF c that] by (simp add: after_rounds_def)
  have "final = task_turn fl loads (0, 0, Returned '''') (fold (task_turn fl loads) (take 2 (failed_round e)) (after_rounds 1024))"
    by (simp add: final_def failed_round_def)
  then have "cx_pc final = Finished (Some (OverflowError ''int too large to convert to float'')) \<and> cx_state final = ''error'' \<and> \<not> cx_stop final"
    using failed_connect[OF rounds[of 1024], of fl loads e] rounds[of 1024]
    by (simp add: task_turn_def back_off_def Let_def reconnect_delay_overflows failing_def)
  then show ?thesis using rounds by (simp add: failing_def)
qed

section \<open>Identity of the connected node\<close>

lemma map_of_pick_keys: "map_of (pick_keys ks d) k = (if k \<in> set ks then map_of d k else None)"
  by (induction ks) (auto simp: pick_keys_def List.map_filter_def split: option.splits)

definition own_metadata :: "string \<Rightarrow> dict \<Rightarrow> bool" where
  "own_metadata device_id d = (dget_default d ''node_id'' (dget d ''id'') \<in> {JNull, JStr device_id})"

definition own_capabilities :: "string \<Rightarrow> dict \<Rightarrow> bool" where
  "own_capabilities device_id d = (d = [] \<or> (dget d ''node_id'' = JStr device_id \<and> json_eq_int (dget d ''schema_version'') 1))"

lemma parse_metadata_own: "parse_metadata loads device_id raw = Inr d \<Longrightarrow> own_metadata device_id d"
  by (auto simp: parse_metadata_def own_metadata_def bind_result_def Let_def dget_default_def dget_def map_of_pick_keys
      metadata_keys_def unassigned_def split: if_splits sum.splits json.splits option.splits)

lemma parse_capabilities_own: "parse_capabilities loads device_id raw = Inr d \<Longrightarrow> own_capabilities device_id d"
  by (auto simp: parse_capabilities_def own_capabilities_def bind_result_def in_str_set_def unassigned_def dget_dput
      split: if_splits sum.splits json.splits)

lemma tolerate_own:
  "(\<And>d. r = Inr d \<Longrightarrow> own_metadata i d) \<Longrightarrow> tolerate r = Inr d \<Longrightarrow> own_metadata i d"
  "(\<And>d. r = Inr d \<Longrightarrow> own_capabilities i d) \<Longrightarrow> tolerate r = Inr d \<Longrightarrow> own_capabilities i d"
  by (auto simp: tolerate_def own_metadata_def own_capabilities_def dget_default_def dget_def split: sum.splits if_splits)

definition own_node :: "connection \<Rightarrow> bool" where
  "own_node c = (own_metadata (cx_device_id c) (cx_metadata c) \<and> own_capabilities (cx_device_id c) (cx_capabilities c))"

definition same_node :: "connection \<Rightarrow> connection \<Rightarrow> bool" where
  "same_node c c' = (cx_device_id c' = cx_device_id c \<and> cx_metadata c' = cx_metadata c \<and> cx_capabilities c' = cx_capabilities c)"

lemma segments_same_node [simp]:
  "same_node c (loop_head c)" "same_node c (task_ends r c)" "same_node c (raise_in_run fl now r c)"
  "same_node c (close_done fl now ex c)" "same_node c (leave fl now ex c)" "same_node c (back_off fl u d c)"
  "same_node c (drain_commands c)" "same_node c (serve fl now c)" "same_node c (announce_connected c)"
  "same_node c (resolve f q c)" "same_node c (set_state st err c)"
  by (auto simp: same_node_def loop_head_def task_ends_def raise_in_run_def close_done_def leave_def back_off_def drain_commands_def
      serve_def announce_connected_def failed_attempt_def set_state_def resolve_def Let_def
      split: raised.split option.split sum.split list.split)

lemma same_node_own: "same_node c c' \<Longrightarrow> own_node c \<Longrightarrow> own_node c'"
  by (simp add: same_node_def own_node_def)

lemma same_node_trans: "same_node a b \<Longrightarrow> same_node b c \<Longrightarrow> same_node a c"
  by (simp add: same_node_def)

lemma characteristic_own:
  assumes "own_node c"
  shows "(\<And>d. r = Inr d \<Longrightarrow> own_metadata (cx_device_id c) d) \<Longrightarrow> own_node (metadata_read fl now r c)"
    and "(\<And>d. r = Inr d \<Longrightarrow> own_capabilities (cx_device_id c) d) \<Longrightarrow> own_node (capabilities_read fl now r c)"
proof -
  have l: "own_node (leave fl now ex c)" for ex using same_node_own[OF segments_same_node(5) assms] .
  show "own_node (metadata_read fl now r c)" if "\<And>d. r = Inr d \<Longrightarrow> own_metadata (cx_device_id c) d"
    using tolerate_own(1)[OF that] assms l by (simp add: metadata_read_def split: sum.split) (simp add: own_node_def)
  show "own_node (capabilities_read fl now r c)" if "\<And>d. r = Inr d \<Longrightarrow> own_capabilities (cx_device_id c) d"
    using tolerate_own(2)[OF that] assms l by (simp add: capabilities_read_def split: sum.split) (simp add: own_node_def)
qed

lemma resume_own:
  assumes own: "own_node c"
  shows "own_node (resume fl loads now u pc out c)"
proof -
  have w: "same_node c (drain_commands (resolve f q c))" "same_node c (leave fl now ex (resolve f q c))"
    "same_node c (loop_head (c\<lparr>cx_failure_count := n\<rparr>))" for f q ex n
    using segments_same_node(7)[of "resolve f q c"] segments_same_node(5)[of "resolve f q c" fl now ex]
      segments_same_node(1)[of "c\<lparr>cx_failure_count := n\<rparr>"] segments_same_node(10)[of c f q]
    by (auto simp: same_node_def)
  have r: "own_node (metadata_read fl now (parse_metadata loads (cx_device_id c) raw) c)"
    "own_node (capabilities_read fl now (parse_capabilities loads (cx_device_id c) raw) c)"
    "own_node (metadata_read fl now (Inl e) c)" "own_node (capabilities_read fl now (Inl e) c)" for raw e
    by (rule characteristic_own[OF own]; auto intro: parse_metadata_own parse_capabilities_own)+
  have s: "own_node c'" if "same_node c c'" for c' using same_node_own[OF that own] .
  show ?thesis
    using own by (cases pc; cases out rule: outcome_cases) (simp_all add: r s w, simp_all add: own_node_def)
qed

lemma fold_resolve_node: "same_node c (fold (\<lambda>(command, f). resolve f r) ws c)"
proof (induction ws arbitrary: c)
  case (Cons w ws)
  then show ?case by (cases w) (auto intro: same_node_trans[OF segments_same_node(10)])
qed (simp add: same_node_def)

lemma conn_step_own:
  assumes "conn_step fl loads c c'" and own: "own_node c"
  shows "own_node c'"
  using assms(1)
proof cases
  case turn
  then show ?thesis
    using resume_own[of "c\<lparr>cx_cancel := False\<rparr>"] own by (simp add: task_turn_def own_node_def)
next
  case stop_finish
  then show ?thesis
    using same_node_own[OF fold_resolve_node own] by (simp add: stop_finish_def own_node_def set_state_def)
qed (use own same_node_own[OF segments_same_node(10) own] in
    \<open>auto simp: own_node_def Connection.start_def stop_request_def request_disconnect_def send_command_def split: if_splits\<close>)

text \<open>A connection never takes a node for another one: whatever the characteristics contain, the metadata it keeps
  name no identity or its own, and the capabilities it keeps are empty or carry its own identity and schema version 1.\<close>

theorem connected_identity:
  assumes "conn_reachable fl loads c"
  shows "dget_default (cx_metadata c) ''node_id'' (dget (cx_metadata c) ''id'') \<in> {JNull, JStr (cx_device_id c)}
    \<and> (cx_capabilities c = [] \<or> dget (cx_capabilities c) ''node_id'' = JStr (cx_device_id c)
         \<and> json_eq_int (dget (cx_capabilities c) ''schema_version'') 1)"
proof -
  from assms have "own_node c"
  proof induction
    case (begin_at c)
    then have "cx_metadata c = [] \<and> cx_capabilities c = []"
      by (subst (asm) fresh_connection_def) (metis new_connection_def connection.select_convs(8,9))
    then show ?case by (simp add: own_node_def own_metadata_def own_capabilities_def dget_default_def dget_def)
  qed (blast intro: conn_step_own)
  then show ?thesis by (simp add: own_node_def own_metadata_def own_capabilities_def)
qed

section \<open>Examples\<close>

definition node_loads :: "string \<Rightarrow> json result" where
  "node_loads raw = Inr (JObj [(''node_id'', JStr ''N-1''), (''schema_version'', JInt 1)])"

definition sample_connection :: connection where
  "sample_connection = new_connection ''N-1'' ''AA:BB'' 1 60 30"

definition sample_turns :: "(real \<times> real \<times> outcome) list" where
  "sample_turns = replicate 8 (0, 0, Returned ''x'')"

definition sample_connected :: connection where
  "sample_connected = fold (task_turn fl64 node_loads) sample_turns (Connection.start sample_connection)"

lemma reachable_turns:
  assumes "conn_reachable fl loads c" and "\<forall>t \<in> set ts. snd (snd t) \<noteq> Threw Cancelled"
  shows "conn_reachable fl loads (fold (task_turn fl loads) ts c)"
  using assms
proof (induction ts arbitrary: c)
  case (Cons t ts)
  have "conn_step fl loads c (task_turn fl loads t c)"
    using Cons.prems(2) conn_step.turn[of "snd (snd t)" fl loads c "fst t" "fst (snd t)"] by simp
  then have "conn_reachable fl loads (task_turn fl loads t c)"
    using Cons.prems(1) by (blast intro: reachable_from.move_to)
  then show ?case using Cons by simp
qed simp

lemma sample_reachable: "conn_reachable fl64 node_loads sample_connection"
  by (auto simp: sample_connection_def intro: reachable_from.begin_at)

lemma sample_connected_reachable: "conn_reachable fl64 node_loads sample_connected"
proof -
  have "conn_step fl64 node_loads sample_connection (Connection.start sample_connection)"
    by (rule conn_step.start) (simp add: sample_connection_def new_connection_def)
  then show ?thesis
    unfolding sample_connected_def
    by (intro reachable_turns reachable_from.move_to[OF sample_reachable]) (simp_all add: sample_turns_def)
qed

lemmas task_defs = task_turn_def loop_head_def set_state_def metadata_read_def capabilities_read_def tolerate_def
  announce_connected_def serve_def drain_commands_def leave_def close_done_def raise_in_run_def

lemma sample_connected_fields:
  "cx_pc sample_connected = Waiting" "cx_state sample_connected = ''connected''" "cx_commands sample_connected = []"
  "cx_requests sample_connected = []" "cx_cancel sample_connected = False" "cx_is_connected sample_connected = False"
  "cx_metadata sample_connected = [(''node_id'', JStr ''N-1'')]" "cx_device_id sample_connected = ''N-1''"
  by (simp_all add: sample_connected_def sample_turns_def eval_nat_numeral task_defs Connection.start_def sample_connection_def
      new_connection_def idle_pc_def node_loads_def parse_metadata_def parse_capabilities_def Let_def dget_default_def dget_def
      unassigned_def pick_keys_def metadata_keys_def List.map_filter_def in_str_set_def json_eq_int.simps)

definition sample_sent :: connection where
  "sample_sent = sample_connected\<lparr>cx_requests := [(''PING'', Pending)], cx_commands := [(''PING'', 0)]\<rparr>"

lemma sample_sent: "send_command sample_connected ''PING'' = Inr (sample_sent, 0)"
  by (simp add: send_command_def sample_connected_fields sample_sent_def command_queue_size_def)

lemma sample_sent_reachable: "conn_reachable fl64 node_loads sample_sent"
  using sample_connected_reachable conn_step.send[OF sample_sent] by (rule reachable_from.move_to)


theorem commands_in_order_witness:
  "conn_reachable fl64 node_loads sample_sent \<and> cx_commands sample_sent = [(''PING'', 0)]
   \<and> fst (cx_requests sample_sent ! 0) = ''PING''"
  using commands_in_order[OF sample_sent_reachable] sample_sent_reachable by (simp add: sample_sent_def)

theorem stop_terminates_witness:
  "snd (cx_requests (stop_finish (fold (task_turn fl64 node_loads) (replicate 5 (0, 0, Returned ''''))
     (stop_request sample_sent))) ! 0) = Rejected stopped_error"
proof -
  have "cx_requests (fold (task_turn fl64 node_loads) (replicate 5 (0, 0, Returned '''')) (stop_request sample_sent)) = [(''PING'', Pending)]"
    by (simp add: eval_nat_numeral stop_request_def sample_sent_def sample_connected_fields task_defs idle_pc_def Let_def)
  then show ?thesis
    using stop_terminates[OF sample_sent_reachable, of "replicate 5 (0, 0, Returned '''')"] by simp
qed

theorem backoff_bounds_witness:
  "reconnect_delay fl64 1 60 1024 = Inl (OverflowError ''int too large to convert to float'') \<and> fl64 60 = 60"
proof -
  have "fl64 60 = 60" using ieee.fl_numeral by simp
  then show ?thesis using backoff_bounds[of 1 60 0 1024] by simp
qed

theorem reconnect_gives_up_witness:
  "cx_pc (fold (task_turn fl64 node_loads) (take 3 (failed_round (BleakError ''unreachable'')))
     (fold (task_turn fl64 node_loads) (concat (replicate 1024 (failed_round (BleakError ''unreachable''))))
       (task_turn fl64 node_loads (0, 0, Returned '''') (Connection.start (new_connection ''N-1'' ''AA:BB'' 1 60 30)))))
   = Finished (Some (OverflowError ''int too large to convert to float''))"
  using reconnect_gives_up[where stable_seconds = 30 and fl = fl64 and loads = node_loads and e = "BleakError ''unreachable''"
      and device_id = "''N-1''" and address = "''AA:BB''" and initial = 1 and maximum = 60]
  by (blast intro: zero_less_numeral)

theorem connected_identity_witness:
  "conn_reachable fl64 node_loads sample_connected
   \<and> dget_default (cx_metadata sample_connected) ''node_id'' (dget (cx_metadata sample_connected) ''id'') = JStr ''N-1''"
  using connected_identity[OF sample_connected_reachable] sample_connected_reachable
  by (simp add: sample_connected_fields dget_default_def)

text \<open>\<open>disconnect\<close> ends the task without a report: the connection is still shown as connected, and it accepts commands that nobody writes.\<close>

lemma disconnect_keeps_status:
  "\<exists>c c' f. conn_reachable fl64 node_loads c \<and> idle_pc (cx_pc c) \<and> cx_state c = ''connected''
     \<and> send_command c ''PING'' = Inr (c', f)"
proof -
  let ?c = "fst (request_disconnect sample_connected)"
  let ?d = "task_turn fl64 node_loads (0, 0, Threw (Raised TimeoutError)) ?c"
  have "conn_reachable fl64 node_loads ?c"
    using sample_connected_reachable conn_step.disconnect by (rule reachable_from.move_to)
  then have "conn_reachable fl64 node_loads ?d"
    by (rule reachable_from.move_to) (rule conn_step.turn, simp)
  moreover have "idle_pc (cx_pc ?d)" "cx_state ?d = ''connected''" "cx_commands ?d = []"
    by (simp_all add: request_disconnect_def task_defs sample_connected_fields idle_pc_def)
  ultimately show ?thesis
    by (intro exI[of _ ?d] exI conjI) (auto simp: send_command_def command_queue_size_def)
qed

end
