(* ===== verification/Manager.thy ===== *)
theory Manager
  imports Connection Devices
begin

text \<open>
  The table of managed connections (\<open>ble/manager.py\<close>) and the command endpoint (\<open>api/commands.py\<close>). The table is an
  association list in insertion order, as a Python dictionary keeps it. \<open>stop\<close> is awaited; the
  turns its task takes until it has ended are an argument (five are enough, see \<open>Connection\<close>).
  \<open>str.upper\<close> is the argument \<open>upper\<close>; white space is that of \<open>is_space\<close>.
\<close>

section \<open>The command allowlist\<close>

text \<open>\<open>str.split()\<close>: maximal runs of characters that are not white space.\<close>

fun split_ws :: "string \<Rightarrow> string \<Rightarrow> string list" where
  "split_ws [] w = (if w = [] then [] else [w])"
| "split_ws (ch # s) w = (if is_space ch then (if w = [] then [] else [w]) @ split_ws s [] else split_ws s (w @ [ch]))"

fun join_space :: "string list \<Rightarrow> string" where
  "join_space [] = []"
| "join_space [w] = w"
| "join_space (w # ws) = w @ '' '' @ join_space ws"

definition normalize_command :: "(string \<Rightarrow> string) \<Rightarrow> string \<Rightarrow> string" where
  "normalize_command upper command = join_space (split_ws (upper (py_strip command)) [])"

definition between :: "nat \<Rightarrow> char \<Rightarrow> nat \<Rightarrow> bool" where
  "between lo ch hi = (48 + lo \<le> of_char ch \<and> of_char ch \<le> 48 + hi)"

text \<open>The alternatives of the two regular expressions, by length.\<close>

definition led_level :: "string \<Rightarrow> bool" where
  "led_level s = (case s of
     [a] \<Rightarrow> between 0 a 9
   | [a, b] \<Rightarrow> between 1 a 9 \<and> between 0 b 9
   | [a, b, d] \<Rightarrow> between 1 a 1 \<and> between 0 b 9 \<and> between 0 d 9
       \<or> between 2 a 2 \<and> between 0 b 4 \<and> between 0 d 9
       \<or> between 2 a 2 \<and> between 5 b 5 \<and> between 0 d 5
   | _ \<Rightarrow> False)"

definition led_command :: "string \<Rightarrow> bool" where
  "led_command command = (take 4 command = ''LED '' \<and> (drop 4 command = ''ON'' \<or> drop 4 command = ''OFF'' \<or> led_level (drop 4 command)))"

definition rate_value :: "string \<Rightarrow> bool" where
  "rate_value s = (case s of
     [a, b] \<Rightarrow> between 5 a 9 \<and> between 0 b 9
   | [a, b, d] \<Rightarrow> between 1 a 9 \<and> between 0 b 9 \<and> between 0 d 9
   | [a, b, d, e] \<Rightarrow> between 1 a 4 \<and> between 0 b 9 \<and> between 0 d 9 \<and> between 0 e 9 \<or> s = ''5000''
   | _ \<Rightarrow> False)"

definition rate_command :: "string \<Rightarrow> bool" where
  "rate_command command = (take 5 command = ''RATE '' \<and> rate_value (drop 5 command))"

definition validate_command :: "(string \<Rightarrow> string) \<Rightarrow> string \<Rightarrow> string result" where
  "validate_command upper raw =
     (let command = normalize_command upper raw in
      if command = ''PING'' \<or> led_command command \<or> rate_command command then Inr command
      else Inl (ValueError ''command is not in the supported allowlist''))"

section \<open>Managed connections\<close>

record manager_settings =
  ms_reconnect_initial_seconds :: real
  ms_reconnect_max_seconds :: real
  ms_reconnect_stable_seconds :: real

type_synonym connections = "(string \<times> connection) list"

definition put_connection :: "string \<Rightarrow> connection \<Rightarrow> connections \<Rightarrow> connections" where
  "put_connection device_id c m =
     (if map_of m device_id = None then m @ [(device_id, c)]
      else map (\<lambda>(k, v). if k = device_id then (k, c) else (k, v)) m)"

definition schedule :: "manager_settings \<Rightarrow> connections \<Rightarrow> string \<Rightarrow> string \<Rightarrow> connections" where
  "schedule cfg m device_id address = (case map_of m device_id of
     Some existing \<Rightarrow> put_connection device_id (start (existing\<lparr>cx_address := address\<rparr>)) m
   | None \<Rightarrow> put_connection device_id
       (start (new_connection device_id address (ms_reconnect_initial_seconds cfg) (ms_reconnect_max_seconds cfg)
          (ms_reconnect_stable_seconds cfg))) m)"

definition manager_disconnect :: "connections \<Rightarrow> string \<Rightarrow> connections" where
  "manager_disconnect m device_id = (case map_of m device_id of
     None \<Rightarrow> m | Some c \<Rightarrow> put_connection device_id (fst (request_disconnect c)) m)"

text \<open>\<open>stop\<close> as its caller sees it.\<close>

type_synonym turns = "(real \<times> real \<times> outcome) list"

definition stop :: "(real \<Rightarrow> real) \<Rightarrow> (string \<Rightarrow> json result) \<Rightarrow> turns \<Rightarrow> connection \<Rightarrow> connection" where
  "stop fl loads ts c = stop_finish (fold (task_turn fl loads) ts (stop_request c))"

definition remove_connection ::
  "(real \<Rightarrow> real) \<Rightarrow> (string \<Rightarrow> json result) \<Rightarrow> turns \<Rightarrow> connections \<Rightarrow> string \<Rightarrow> connections \<times> connection option" where
  "remove_connection fl loads ts m device_id =
     (filter (\<lambda>(k, _). k \<noteq> device_id) m, map_option (stop fl loads ts) (map_of m device_id))"

text \<open>\<open>paused_connections\<close>: what happens before and after the body of the \<open>with\<close> statement.\<close>

definition managed :: "connections \<Rightarrow> (string \<times> string) list" where
  "managed m = map (\<lambda>(device_id, c). (device_id, cx_address c)) m"

definition pause :: "(real \<Rightarrow> real) \<Rightarrow> (string \<Rightarrow> json result) \<Rightarrow> turns \<Rightarrow> connections \<Rightarrow> (string \<times> string) list \<times> connections" where
  "pause fl loads ts m = (managed m, fold (\<lambda>(device_id, _) m. fst (remove_connection fl loads ts m device_id)) (managed m) m)"

definition unpause :: "manager_settings \<Rightarrow> (string \<times> string) list \<Rightarrow> connections \<Rightarrow> connections" where
  "unpause cfg scheduled m = fold (\<lambda>(device_id, address) m. schedule cfg m device_id address) scheduled m"

definition manager_command :: "(string \<Rightarrow> string) \<Rightarrow> connections \<Rightarrow> string \<Rightarrow> string \<Rightarrow> (connections \<times> string \<times> nat) result" where
  "manager_command upper m device_id raw =
     bind_result (validate_command upper raw) (\<lambda>normalized.
       case map_of m device_id of
         None \<Rightarrow> Inl (ConnectionError ''device is not managed'')
       | Some c \<Rightarrow> bind_result (send_command c normalized) (\<lambda>(c', f). Inr (put_connection device_id c' m, normalized, f)))"

definition runtime :: "connections \<Rightarrow> string \<Rightarrow> string \<times> string option" where
  "runtime m device_id = (case map_of m device_id of
     Some c \<Rightarrow> (cx_state c, cx_last_error c) | None \<Rightarrow> (''disconnected'', None))"

definition shutdown :: "(real \<Rightarrow> real) \<Rightarrow> (string \<Rightarrow> json result) \<Rightarrow> turns \<Rightarrow> connections \<Rightarrow> connections \<times> connection list" where
  "shutdown fl loads ts m = ([], map (stop fl loads ts \<circ> snd) m)"

text \<open>The calls the handlers make, in order.\<close>

fun manager_apply :: "(real \<Rightarrow> real) \<Rightarrow> (string \<Rightarrow> json result) \<Rightarrow> turns \<Rightarrow> manager_settings \<Rightarrow> manager_call list \<Rightarrow> connections \<Rightarrow> connections" where
  "manager_apply fl loads ts cfg [] m = m"
| "manager_apply fl loads ts cfg (ManagerSchedule device_id address # calls) m =
     manager_apply fl loads ts cfg calls (schedule cfg m device_id address)"
| "manager_apply fl loads ts cfg (ManagerRemove device_id # calls) m =
     manager_apply fl loads ts cfg calls (fst (remove_connection fl loads ts m device_id))"

section \<open>The command endpoint\<close>

text \<open>The \<open>except\<close> clauses; \<open>asyncio.QueueFull\<close> is not among them.\<close>

fun command_http :: "exn \<Rightarrow> exn" where
  "command_http (ConnectionError t) = HTTPException 409 '''' t"
| "command_http TimeoutError = HTTPException 504 '''' ''device command timed out''"
| "command_http e = (if is_value_error e then HTTPException 422 '''' (exn_str e) else e)"

text \<open>\<open>reply\<close> is what the \<open>await\<close> of the future gives.\<close>

definition send_command_handler ::
  "(string \<Rightarrow> string) \<Rightarrow> db \<Rightarrow> connections \<Rightarrow> string \<Rightarrow> string \<Rightarrow> unit result \<Rightarrow> string result \<times> connections" where
  "send_command_handler upper s m device_id raw reply =
     (case get_device_handler s device_id of
        Inl e \<Rightarrow> (Inl e, m)
      | Inr _ \<Rightarrow>
          (case bind_result (validate_command upper raw) (\<lambda>command.
              bind_result (manager_command upper m device_id command) (\<lambda>(m', _, f). Inr (command, m'))) of
            Inl e \<Rightarrow> (Inl (command_http e), m)
          | Inr (command, m') \<Rightarrow> (case reply of Inr () \<Rightarrow> Inr command | Inl e \<Rightarrow> Inl (command_http e), m')))"

section \<open>What the allowlist accepts\<close>

definition digit_char :: "nat \<Rightarrow> char" where
  "digit_char k = char_of (48 + k)"

lemma of_digit_char [simp]: "k < 10 \<Longrightarrow> of_char (digit_char k) = 48 + k"
  by (simp add: digit_char_def)

lemma digit_char_literals: "digit_char 0 = CHR ''0''" "digit_char 5 = CHR ''5''"
  by (rule of_char_eq_iff[where 'a = nat, THEN iffD1]; simp)+

lemma between_iff: "hi < 10 \<Longrightarrow> between lo ch hi \<longleftrightarrow> (\<exists>k. lo \<le> k \<and> k \<le> hi \<and> ch = digit_char k)"
proof
  assume hi: "hi < 10" and b: "between lo ch hi"
  have "ch = digit_char (of_char ch - 48)" using b by (simp add: between_def digit_char_def)
  moreover have "lo \<le> of_char ch - 48" and "of_char ch - 48 \<le> hi" using b by (auto simp: between_def)
  ultimately show "\<exists>k. lo \<le> k \<and> k \<le> hi \<and> ch = digit_char k" by blast
qed (auto simp: between_def)

lemma between_same: "n < 10 \<Longrightarrow> between n ch n \<longleftrightarrow> ch = digit_char n"
  unfolding between_iff by (metis le_antisym order_refl)

lemma nat_str_digits:
  "k < 10 \<Longrightarrow> nat_str k = [digit_char k]"
  "0 < j \<Longrightarrow> j < 10 \<Longrightarrow> k < 10 \<Longrightarrow> nat_str (10 * j + k) = [digit_char j, digit_char k]"
  "0 < i \<Longrightarrow> i < 10 \<Longrightarrow> j < 10 \<Longrightarrow> k < 10 \<Longrightarrow> nat_str (100 * i + 10 * j + k) = [digit_char i, digit_char j, digit_char k]"
  "0 < h \<Longrightarrow> h < 10 \<Longrightarrow> i < 10 \<Longrightarrow> j < 10 \<Longrightarrow> k < 10 \<Longrightarrow>
     nat_str (1000 * h + 100 * i + 10 * j + k) = [digit_char h, digit_char i, digit_char j, digit_char k]"
proof -
  show one: "nat_str k = [digit_char k]" if "k < 10" for k
    using that by (simp add: nat_str.simps digit_char_def)
  have more: "nat_str (10 * n + k) = nat_str n @ [digit_char k]" if "0 < n" "k < 10" for n k
    using that by (subst nat_str.simps) (simp add: digit_char_def)
  show two: "nat_str (10 * j + k) = [digit_char j, digit_char k]" if "0 < j" "j < 10" "k < 10" for j k
    using that by (simp add: more one)
  show three: "nat_str (100 * i + 10 * j + k) = [digit_char i, digit_char j, digit_char k]"
    if "0 < i" "i < 10" "j < 10" "k < 10" for i j k
    using that more[of "10 * i + j" k] two[of i j] by (simp add: algebra_simps)
  show "nat_str (1000 * h + 100 * i + 10 * j + k) = [digit_char h, digit_char i, digit_char j, digit_char k]"
    if "0 < h" "h < 10" "i < 10" "j < 10" "k < 10" for h i j k
    using that more[of "100 * h + 10 * i + j" k] three[of h i j] by (simp add: algebra_simps)
qed

lemma decimal_cases:
  assumes "n < (10000 :: nat)"
  obtains (one) k where "n = k" "k < 10"
  | (two) j k where "n = 10 * j + k" "0 < j" "j < 10" "k < 10"
  | (three) i j k where "n = 100 * i + 10 * j + k" "0 < i" "i < 10" "j < 10" "k < 10"
  | (four) h i j k where "n = 1000 * h + 100 * i + 10 * j + k" "0 < h" "h < 10" "i < 10" "j < 10" "k < 10"
proof -
  consider "n < 10" | "10 \<le> n" "n < 100" | "100 \<le> n" "n < 1000" | "1000 \<le> n" by linarith
  then show thesis
  proof cases
    case 1 then show thesis by (rule one[OF refl])
  next
    case 2
    have "n = 10 * (n div 10) + n mod 10" by simp
    then show thesis by (rule two) (use 2 in \<open>simp_all add: less_mult_imp_div_less div_greater_zero_iff\<close>)
  next
    case 3
    have "n div 10 = 10 * (n div 100) + n div 10 mod 10"
      by (simp add: div_mult2_eq[of n 10 10, simplified])
    then have "n = 100 * (n div 100) + 10 * (n div 10 mod 10) + n mod 10"
      using mod_div_mult_eq[of n 10] by linarith
    then show thesis by (rule three) (use 3 in \<open>simp_all add: less_mult_imp_div_less div_greater_zero_iff\<close>)
  next
    case 4
    have "n div 10 = 10 * (n div 100) + n div 10 mod 10" "n div 100 = 10 * (n div 1000) + n div 100 mod 10"
      by (simp_all add: div_mult2_eq[of n 10 10, simplified] div_mult2_eq[of n 100 10, simplified])
    then have "n = 1000 * (n div 1000) + 100 * (n div 100 mod 10) + 10 * (n div 10 mod 10) + n mod 10"
      using mod_div_mult_eq[of n 10] by linarith
    then show thesis by (rule four) (use 4 assms in \<open>simp_all add: less_mult_imp_div_less div_greater_zero_iff\<close>)
  qed
qed

lemma led_level_cases:
  assumes "led_level s"
  obtains (one) k where "k \<le> 9" "s = [digit_char k]"
  | (two) j k where "1 \<le> j" "j \<le> 9" "k \<le> 9" "s = [digit_char j, digit_char k]"
  | (three) i j k where "i = 1 \<and> j \<le> 9 \<and> k \<le> 9 \<or> i = 2 \<and> j \<le> 4 \<and> k \<le> 9 \<or> i = 2 \<and> j = 5 \<and> k \<le> 5"
      "s = [digit_char i, digit_char j, digit_char k]"
proof -
  have "(\<exists>a. s = [a] \<and> between 0 a 9) \<or> (\<exists>a b. s = [a, b] \<and> between 1 a 9 \<and> between 0 b 9)
      \<or> (\<exists>a b d. s = [a, b, d] \<and> (between 1 a 1 \<and> between 0 b 9 \<and> between 0 d 9
         \<or> between 2 a 2 \<and> between 0 b 4 \<and> between 0 d 9 \<or> between 2 a 2 \<and> between 5 b 5 \<and> between 0 d 5))"
    using assms unfolding led_level_def by (simp split: list.splits)
  then show thesis
  proof (elim disjE exE conjE)
    fix a assume "s = [a]" "between 0 a 9"
    then show thesis using one by (auto simp: between_iff)
  next
    fix a b assume "s = [a, b]" "between 1 a 9" "between 0 b 9"
    then show thesis using two by (auto simp: between_iff)
  next
    fix a b d assume "s = [a, b, d]" "between 1 a 1" "between 0 b 9" "between 0 d 9"
    then show thesis using three[of 1] by (auto simp: between_same) (auto simp: between_iff)
  next
    fix a b d assume "s = [a, b, d]" "between 2 a 2" "between 0 b 4" "between 0 d 9"
    then show thesis using three[of 2] by (auto simp: between_same) (auto simp: between_iff)
  next
    fix a b d assume "s = [a, b, d]" "between 2 a 2" "between 5 b 5" "between 0 d 5"
    then show thesis using three[of 2 5] by (auto simp: between_same) (auto simp: between_iff)
  qed
qed

lemma led_level_iff: "led_level s \<longleftrightarrow> (\<exists>n. n \<le> 255 \<and> s = nat_str n)"
proof
  assume "led_level s"
  then show "\<exists>n. n \<le> 255 \<and> s = nat_str n"
  proof (cases rule: led_level_cases)
    case (one k)
    then show ?thesis by (intro exI[of _ k]) (simp add: nat_str_digits)
  next
    case (two j k)
    then show ?thesis by (intro exI[of _ "10 * j + k"]) (simp add: nat_str_digits)
  next
    case (three i j k)
    then have "s = nat_str (100 * i + 10 * j + k)" using nat_str_digits(3)[of i j k] by (elim disjE) auto
    moreover have "100 * i + 10 * j + k \<le> 255" using three(1) by linarith
    ultimately show ?thesis by blast
  qed
next
  assume "\<exists>n. n \<le> 255 \<and> s = nat_str n"
  then obtain n where n: "n \<le> 255" "s = nat_str n" by blast
  have "n < 10000" using n by simp
  then show "led_level s"
  proof (cases n rule: decimal_cases)
    case (three i j k)
    then have "i = 1 \<or> i = 2 \<and> j \<le> 4 \<or> i = 2 \<and> j = 5 \<and> k \<le> 5" using n(1) by linarith
    with three n(2) show ?thesis by (auto simp: nat_str_digits led_level_def between_def)
  qed (use n in \<open>auto simp: nat_str_digits led_level_def between_def\<close>)
qed

lemma rate_value_cases:
  assumes "rate_value s"
  obtains (two) j k where "5 \<le> j" "j \<le> 9" "k \<le> 9" "s = [digit_char j, digit_char k]"
  | (three) i j k where "1 \<le> i" "i \<le> 9" "j \<le> 9" "k \<le> 9" "s = [digit_char i, digit_char j, digit_char k]"
  | (four) h i j k where "1 \<le> h" "h \<le> 4" "i \<le> 9" "j \<le> 9" "k \<le> 9" "s = [digit_char h, digit_char i, digit_char j, digit_char k]"
  | (top) "s = [digit_char 5, digit_char 0, digit_char 0, digit_char 0]"
proof -
  have "(\<exists>a b. s = [a, b] \<and> between 5 a 9 \<and> between 0 b 9)
      \<or> (\<exists>a b d. s = [a, b, d] \<and> between 1 a 9 \<and> between 0 b 9 \<and> between 0 d 9)
      \<or> (\<exists>a b d e. s = [a, b, d, e] \<and> between 1 a 4 \<and> between 0 b 9 \<and> between 0 d 9 \<and> between 0 e 9) \<or> s = ''5000''"
    using assms unfolding rate_value_def by (simp split: list.splits) blast?
  then show thesis
  proof (elim disjE exE conjE)
    fix a b assume "s = [a, b]" "between 5 a 9" "between 0 b 9"
    then show thesis using two by (auto simp: between_iff)
  next
    fix a b d assume "s = [a, b, d]" "between 1 a 9" "between 0 b 9" "between 0 d 9"
    then show thesis using three by (auto simp: between_iff)
  next
    fix a b d e assume "s = [a, b, d, e]" "between 1 a 4" "between 0 b 9" "between 0 d 9" "between 0 e 9"
    then show thesis using four by (auto simp: between_iff)
  next
    assume "s = ''5000''"
    then show thesis by (intro top) (simp add: digit_char_literals)
  qed
qed

lemma rate_value_iff: "rate_value s \<longleftrightarrow> (\<exists>n. 50 \<le> n \<and> n \<le> 5000 \<and> s = nat_str n)"
proof
  assume "rate_value s"
  then show "\<exists>n. 50 \<le> n \<and> n \<le> 5000 \<and> s = nat_str n"
  proof (cases rule: rate_value_cases)
    case (two j k)
    then show ?thesis by (intro exI[of _ "10 * j + k"]) (simp add: nat_str_digits)
  next
    case (three i j k)
    then have "s = nat_str (100 * i + 10 * j + k)" by (simp add: nat_str_digits)
    with three show ?thesis by (intro exI[of _ "100 * i + 10 * j + k"]) auto
  next
    case (four h i j k)
    then have "s = nat_str (1000 * h + 100 * i + 10 * j + k)" by (simp add: nat_str_digits)
    with four show ?thesis by (intro exI[of _ "1000 * h + 100 * i + 10 * j + k"]) auto
  next
    case top
    then have "s = nat_str 5000" using nat_str_digits(4)[of 5 0 0 0] by simp
    then show ?thesis by (intro exI[of _ 5000]) simp
  qed
next
  assume "\<exists>n. 50 \<le> n \<and> n \<le> 5000 \<and> s = nat_str n"
  then obtain n where n: "50 \<le> n" "n \<le> 5000" "s = nat_str n" by blast
  have "n < 10000" using n by simp
  then show "rate_value s"
  proof (cases n rule: decimal_cases)
    case (two j k)
    then have "5 \<le> j" using n(1) by linarith
    with two n(3) show ?thesis by (auto simp: nat_str_digits rate_value_def between_def)
  next
    case (four h i j k)
    then consider "h \<le> 4" | "h = 5" "i = 0" "j = 0" "k = 0" using n(2) by linarith
    then show ?thesis
    proof cases
      case 1
      with four n(3) show ?thesis by (auto simp: nat_str_digits rate_value_def between_def)
    next
      case 2
      then show ?thesis
        using four n(3) nat_str_digits(4)[of 5 0 0 0] by (simp add: digit_char_literals rate_value_def)
    qed
  qed (use n in \<open>auto simp: nat_str_digits rate_value_def between_def\<close>)
qed

lemma split_prefix: "length p = n \<Longrightarrow> take n s = p \<and> P (drop n s) \<longleftrightarrow> (\<exists>t. s = p @ t \<and> P t)"
  by (metis append_eq_conv_conj append_take_drop_id)

text \<open>The commands the manager sends are exactly \<open>PING\<close>, \<open>LED ON\<close>, \<open>LED OFF\<close>, \<open>LED n\<close> with n at most 255 and
  \<open>RATE n\<close> with n from 50 to 5000, the numbers written without leading zeros; a command that is accepted is
  the normalised form of what was entered.\<close>

theorem command_allowlist:
  "validate_command upper raw = Inr command \<longleftrightarrow>
     command = normalize_command upper raw
     \<and> (command \<in> {''PING'', ''LED ON'', ''LED OFF''}
        \<or> (\<exists>n. n \<le> 255 \<and> command = ''LED '' @ nat_str n)
        \<or> (\<exists>n. 50 \<le> n \<and> n \<le> 5000 \<and> command = ''RATE '' @ nat_str n))"
proof -
  have led: "led_command s \<longleftrightarrow> s = ''LED ON'' \<or> s = ''LED OFF'' \<or> (\<exists>n. n \<le> 255 \<and> s = ''LED '' @ nat_str n)" for s
    using split_prefix[of "''LED ''" 4 s "\<lambda>t. t = ''ON'' \<or> t = ''OFF'' \<or> led_level t"]
    by (auto simp: led_command_def led_level_iff)
  have rate: "rate_command s \<longleftrightarrow> (\<exists>n. 50 \<le> n \<and> n \<le> 5000 \<and> s = ''RATE '' @ nat_str n)" for s
    using split_prefix[of "''RATE ''" 5 s rate_value]
    by (auto simp: rate_command_def rate_value_iff)
  show ?thesis by (auto simp: validate_command_def Let_def led rate)
qed

section \<open>Pausing\<close>

lemma map_of_put: "map_of (put_connection k c m) k' = (if k' = k then Some c else map_of m k')"
proof -
  have "map_of (map (\<lambda>(j, v). if j = k then (j, c) else (j, v)) m) k' =
      (if k' = k \<and> map_of m k \<noteq> None then Some c else map_of m k')"
    by (induction m) auto
  then show ?thesis by (auto simp: put_connection_def map_add_def split: option.splits)
qed

lemma map_of_schedule:
  "\<exists>c. map_of (schedule cfg m d a) = (map_of m)(d \<mapsto> c) \<and> cx_address c = a"
  by (auto simp: schedule_def fun_eq_iff map_of_put new_connection_def Connection.start_def split: option.split)

lemma keys_schedule: "distinct (map fst m) \<Longrightarrow> distinct (map fst (schedule cfg m d a))"
proof -
  have "map fst (map (\<lambda>(j, v). if j = k then (j, c) else (j, v)) m) = map fst m" for k c
    by (induction m) auto
  then show "distinct (map fst m) \<Longrightarrow> ?thesis"
    by (auto simp: schedule_def put_connection_def map_of_eq_None_iff split: option.split simp del: map_map map_eq_conv)
qed

lemma pause_empties: "snd (pause fl loads ts m) = []"
proof -
  have "fold (\<lambda>(d, _) m. fst (remove_connection fl loads ts m d)) ks m = filter (\<lambda>(k, _). k \<notin> fst ` set ks) m"
    for ks :: "(string \<times> string) list"
  proof (induction ks arbitrary: m)
    case (Cons k ks)
    show ?case
      using Cons[of "fst (remove_connection fl loads ts m (fst k))"]
      by (simp add: split_def remove_connection_def)
  qed (simp add: case_prod_beta')
  moreover have "fst ` set (managed m) = fst ` set m" by (force simp: managed_def image_iff)
  ultimately show ?thesis by (simp add: pause_def filter_empty_conv split_def)
qed

lemma unpause_other: "d \<notin> fst ` set ks \<Longrightarrow> map_of (unpause cfg ks m) d = map_of m d"
proof (induction ks arbitrary: m)
  case (Cons k ks)
  then show ?case using map_of_schedule[of cfg m "fst k" "snd k"] by (auto simp: unpause_def split_def)
qed (simp add: unpause_def)

lemma unpause_lookup:
  "distinct (map fst ks) \<Longrightarrow> (d, a) \<in> set ks \<Longrightarrow> \<exists>c. map_of (unpause cfg ks m) d = Some c \<and> cx_address c = a"
proof (induction ks arbitrary: m)
  case (Cons k ks)
  have step: "unpause cfg (k # ks) m = unpause cfg ks (schedule cfg m (fst k) (snd k))"
    by (simp add: unpause_def split_def)
  show ?case
  proof (cases "k = (d, a)")
    case True
    then have "d \<notin> fst ` set ks" using Cons.prems(1) by auto
    from unpause_other[OF this] show ?thesis
      using map_of_schedule[of cfg m d a] True by (auto simp: step[unfolded True])
  qed (use Cons step in auto)
qed simp

lemma unpause_appends:
  "distinct (map fst m @ map fst ks) \<Longrightarrow> managed (unpause cfg ks m) = managed m @ ks"
proof (induction ks arbitrary: m)
  case (Cons k ks)
  let ?m = "schedule cfg m (fst k) (snd k)"
  have "fst k \<notin> fst ` set m" using Cons.prems by auto
  then have "map_of m (fst k) = None" by (simp add: map_of_eq_None_iff)
  then have new: "managed ?m = managed m @ [k]" "map fst ?m = map fst m @ [fst k]"
    by (simp_all add: schedule_def put_connection_def managed_def new_connection_def Connection.start_def idle_pc_def)
  then have "managed (unpause cfg ks ?m) = managed ?m @ ks"
    using Cons.prems by (intro Cons.IH) auto
  then show ?case using new by (simp add: unpause_def split_def)
qed (simp add: unpause_def)

text \<open>Exclusive BLE work takes every connection out of the table, and afterwards puts every one back under its
  address; one that was removed while the work was going on is put back as well.\<close>

theorem pause_restores:
  assumes "distinct (map fst m)"
  shows "snd (pause fl loads ts m) = [] \<and> managed (unpause cfg (fst (pause fl loads ts m)) []) = managed m
    \<and> (\<forall>(device_id, c) \<in> set m. \<forall>m'. \<exists>c'. map_of (unpause cfg (fst (pause fl loads ts m)) m') device_id = Some c'
         \<and> cx_address c' = cx_address c)"
proof -
  have keys: "map fst (managed m) = map fst m" by (simp add: managed_def split_def)
  then have "managed (unpause cfg (managed m) []) = managed [] @ managed m"
    using assms by (intro unpause_appends) simp
  then have "managed (unpause cfg (managed m) []) = managed m" by (simp add: managed_def)
  moreover have "\<exists>c'. map_of (unpause cfg (managed m) m') d = Some c' \<and> cx_address c' = cx_address c"
    if "(d, c) \<in> set m" for d c m'
  proof (rule unpause_lookup)
    show "distinct (map fst (managed m))" using assms keys by simp
    show "(d, cx_address c) \<in> set (managed m)" using that by (force simp: managed_def)
  qed
  ultimately show ?thesis using pause_empties by (auto simp: pause_def)
qed

theorem pause_restores_witness:
  "map_of (unpause \<lparr>ms_reconnect_initial_seconds = 1, ms_reconnect_max_seconds = 60, ms_reconnect_stable_seconds = 30\<rparr>
     (fst (pause fl64 node_loads [] [(''N-1'', sample_connected)]))
     (fst (remove_connection fl64 node_loads [] (snd (pause fl64 node_loads [] [(''N-1'', sample_connected)])) ''N-1''))) ''N-1'' \<noteq> None"
  using pause_restores[of "[(''N-1'', sample_connected)]" fl64 node_loads "[]"
      "\<lparr>ms_reconnect_initial_seconds = 1, ms_reconnect_max_seconds = 60, ms_reconnect_stable_seconds = 30\<rparr>"]
  by fastforce


end
