(* ===== verification/Workflow.thy ===== *)
theory Workflow
  imports Scanner Ble_Provisioning Manager
begin

text \<open>
  The durable record of the reset-and-re-register workflow (\<open>services/reset_reregister_workflow.py\<close>): starting, looking up,
  moving a workflow to a state, what is shown of it and the backup it keeps. The application state the handlers of the workflow
  share is the record \<open>rr_app\<close>; what they get from outside is the record \<open>rr_env\<close>. A column that is set is kept only if the session
  commits, so a handler carries the changed row along and \<open>transition\<close> stores it.
\<close>

type_synonym workflow = sensor_reregistration_workflow

section \<open>The application state\<close>

record rr_env =
  ev_urlsplit :: "string \<Rightarrow> split_url result"
  ev_is_loopback :: "string \<Rightarrow> bool option"
  ev_isoformat :: "time \<Rightarrow> string"
  ev_casefold :: "string \<Rightarrow> string"
  ev_sha256 :: "string \<Rightarrow> string"
  ev_document :: "installation_configuration \<Rightarrow> json"
  ev_device_id_pattern :: "string \<Rightarrow> bool"
  ev_protocol_versions :: "string list"
  ev_patience :: nat
  ev_manager :: manager_settings
  ev_fl :: "real \<Rightarrow> real"
  ev_loads :: "string \<Rightarrow> json result"
  ev_turns :: turns

record rr_app =
  rr_db :: db
  rr_reset :: reset_app
  rr_usb :: usb_world
  rr_confirmations :: "string \<rightharpoonup> string"
  rr_scanner :: scanner
  rr_connections :: connections
  rr_monitors :: "(string \<times> string \<times> string option) list"

type_synonym 'a rr = "rr_app \<Rightarrow> 'a result \<times> rr_app"

definition bind_rr :: "'a rr \<Rightarrow> ('a \<Rightarrow> 'b rr) \<Rightarrow> 'b rr" where
  "bind_rr m f a = (case m a of (Inl e, a') \<Rightarrow> (Inl e, a') | (Inr x, a') \<Rightarrow> f x a')"

definition lift_rr :: "'a result \<Rightarrow> 'a rr" where
  "lift_rr r a = (r, a)"

definition guard_rr :: "bool \<Rightarrow> exn \<Rightarrow> unit rr" where
  "guard_rr ok e = lift_rr (if ok then Inr () else Inl e)"

text \<open>The \<open>except\<close> clauses of a handler.\<close>

definition handled :: "(exn \<Rightarrow> exn) \<Rightarrow> 'a rr \<Rightarrow> 'a rr" where
  "handled f m a = (case m a of (Inl e, a') \<Rightarrow> (Inl (f e), a') | (Inr x, a') \<Rightarrow> (Inr x, a'))"

section \<open>The service\<close>

definition STATES :: "string list" where
  "STATES = [''sensor_selected'', ''usb_connection_required'', ''physical_identity_verified'', ''configuration_backup_ready'',
     ''reset_confirmation_required'', ''reset_in_progress'', ''waiting_for_usb_reenumeration'', ''post_reset_verification'',
     ''unprovisioned_ready_for_registration'', ''registration_details_required'', ''searching_for_reset_sensor_ble'',
     ''ble_identity_matched'', ''provisioning_in_progress'', ''gateway_registration_in_progress'',
     ''network_verification_in_progress'', ''complete'', ''recoverable_error'', ''manual_recovery_required'']"

definition find_workflow :: "db \<Rightarrow> string \<Rightarrow> workflow option" where
  "find_workflow s k = find_row (\<lambda>x. wf_operation_id x = k) (reregistration_workflows s)"

definition upd_workflow :: "db \<Rightarrow> string \<Rightarrow> (workflow \<Rightarrow> workflow) \<Rightarrow> db" where
  "upd_workflow s k f = s\<lparr>reregistration_workflows := upd_rows (\<lambda>x. wf_operation_id x = k) f (reregistration_workflows s)\<rparr>"

definition json_of_str :: "string option \<Rightarrow> json" where
  "json_of_str v = (case v of None \<Rightarrow> JNull | Some t \<Rightarrow> JStr t)"

definition new_workflow :: "(time \<Rightarrow> string) \<Rightarrow> registered_device \<Rightarrow> string \<Rightarrow> time \<Rightarrow> workflow" where
  "new_workflow isoformat device operation_id now =
     \<lparr>wf_operation_id = operation_id, wf_source_record_id = rd_id device, wf_source_device_id = rd_device_id device,
      wf_source_display_name = rd_display_name device,
      wf_hardware_id = (case rd_hardware_id device of None \<Rightarrow> '''' | Some h \<Rightarrow> h),
      wf_source_ble_address = rd_ble_address device, wf_state = ''usb_connection_required'', wf_selected_port = None,
      wf_reset_operation_id = None, wf_backup_status = ''pending'', wf_backup_json = None, wf_registration_choice = None,
      wf_target_device_id = None, wf_target_display_name = None, wf_target_location = None, wf_target_ble_address = None,
      wf_configuration_json = None, wf_progress_json = [],
      wf_result_json = [(''firmware_version'', json_of_str (rd_firmware_version device)),
        (''last_telemetry_at'', json_of_str (map_option isoformat (rd_last_seen_at device)))],
      wf_error_code = None, wf_error_message = None, wf_started_at = now, wf_updated_at = now\<rparr>"

definition finished :: "workflow \<Rightarrow> bool" where
  "finished x = (wf_state x \<in> {''complete'', ''manual_recovery_required''})"

definition start_workflow :: "(time \<Rightarrow> string) \<Rightarrow> db \<Rightarrow> registered_device \<Rightarrow> string \<Rightarrow> time \<Rightarrow> workflow result \<times> db" where
  "start_workflow isoformat s device operation_id now =
     (if \<not> truthy (rd_hardware_id device)
      then (Inl (WorkflowError ''hardware_id_required'' ''Associate the immutable MCU hardware ID before starting reset.''), s)
      else case sort_key (\<lambda>x. - wf_started_at x)
             (filter (\<lambda>x. wf_source_record_id x = rd_id device \<and> \<not> finished x) (reregistration_workflows s)) of
        active # _ \<Rightarrow> (Inr active, s)
      | [] \<Rightarrow>
          let x = new_workflow isoformat device operation_id now in
          (Inr x, s\<lparr>reregistration_workflows := reregistration_workflows s @ [x]\<rparr>))"

definition get_workflow :: "string \<Rightarrow> workflow rr" where
  "get_workflow k a = (case find_workflow (rr_db a) k of
     None \<Rightarrow> (Inl (WorkflowError ''workflow_not_found'' ''Reset and re-register operation was not found.''), a)
   | Some item \<Rightarrow> (Inr item, a))"

definition last_entries :: "nat \<Rightarrow> 'a list \<Rightarrow> 'a list" where
  "last_entries n xs = drop (length xs - n) xs"

definition transition_values :: "string \<Rightarrow> string option \<Rightarrow> string option \<Rightarrow> string option \<Rightarrow> time \<Rightarrow> workflow \<Rightarrow> workflow" where
  "transition_values state entry error_code error_message now item =
     (let entries = wf_progress_json item;
          entries' = (if truthy entry \<and> (entries = [] \<or> last entries \<noteq> the entry) then entries @ [the entry] else entries) in
      item\<lparr>wf_progress_json := last_entries 40 entries', wf_state := state, wf_error_code := error_code,
        wf_error_message := error_message, wf_updated_at := now\<rparr>)"

definition transition :: "workflow \<Rightarrow> string \<Rightarrow> string option \<Rightarrow> string option \<Rightarrow> string option \<Rightarrow> time \<Rightarrow> workflow rr" where
  "transition item state entry error_code error_message now a =
     (if state \<notin> set STATES then (Inl (WorkflowError ''invalid_state'' ''Workflow state is invalid.''), a)
      else let item' = transition_values state entry error_code error_message now item in
        (Inr item', a\<lparr>rr_db := upd_workflow (rr_db a) (wf_operation_id item) (\<lambda>_. item')\<rparr>))"

definition public :: "(time \<Rightarrow> string) \<Rightarrow> workflow \<Rightarrow> dict" where
  "public isoformat item =
     [(''operation_id'', JStr (wf_operation_id item)), (''state'', JStr (wf_state item)),
      (''source_record_id'', JInt (wf_source_record_id item)), (''source_device_id'', JStr (wf_source_device_id item)),
      (''source_display_name'', JStr (wf_source_display_name item)), (''hardware_id'', JStr (wf_hardware_id item)),
      (''source_ble_address'', json_of_str (wf_source_ble_address item)), (''selected_port'', json_of_str (wf_selected_port item)),
      (''backup_status'', JStr (wf_backup_status item)), (''registration_choice'', json_of_str (wf_registration_choice item)),
      (''target_device_id'', json_of_str (wf_target_device_id item)),
      (''target_display_name'', json_of_str (wf_target_display_name item)),
      (''target_location'', json_of_str (wf_target_location item)),
      (''target_ble_address'', json_of_str (wf_target_ble_address item)),
      (''progress'', JArr (map JStr (wf_progress_json item))), (''result'', JObj (wf_result_json item)),
      (''error'', if truthy (wf_error_code item)
         then JObj [(''code'', json_of_str (wf_error_code item)), (''message'', json_of_str (wf_error_message item))] else JNull),
      (''started_at'', JStr (isoformat (wf_started_at item))), (''updated_at'', JStr (isoformat (wf_updated_at item)))]"

definition backup_keys :: "string list" where
  "backup_keys = [''sample'', ''process'', ''report'', ''heartbeat'', ''filter'', ''window'', ''enabled'']"

definition contains_text :: "string \<Rightarrow> string \<Rightarrow> bool" where
  "contains_text t k = list_ex (\<lambda>i. take (length k) (drop i t) = k) [0..<Suc (length t)]"

text \<open>\<open>{key: readback[key] for key in ... if key in readback}\<close>: \<open>in\<close> also works on lists and texts, indexing by a key does not.\<close>

definition allowed_values :: "json \<Rightarrow> dict result" where
  "allowed_values readback = (case readback of
     JObj d \<Rightarrow> Inr (map (\<lambda>k. (k, dget d k)) (filter (has_key d) backup_keys))
   | JArr xs \<Rightarrow> if list_ex (\<lambda>k. JStr k \<in> set xs) backup_keys then Inl (TypeError ''indices'') else Inr []
   | JStr t \<Rightarrow> if list_ex (contains_text t) backup_keys then Inl (TypeError ''indices'') else Inr []
   | _ \<Rightarrow> Inl (TypeError ''not iterable''))"

definition backup_categories :: json where
  "backup_categories = JArr [JStr ''identity'', JStr ''sampling'', JStr ''filtering'', JStr ''reporting'', JStr ''installation metadata'']"

definition installation_backup :: "(installation_configuration \<Rightarrow> json) \<Rightarrow> sensor_installation \<Rightarrow> json" where
  "installation_backup document row = JObj [(''installation_id'', JStr (si_installation_id row)),
     (''display_name'', JStr (si_display_name row)), (''location'', json_of_str (si_location row)),
     (''configuration'', document (si_configuration_json row))]"

definition safe_backup :: "(installation_configuration \<Rightarrow> json) \<Rightarrow> workflow \<Rightarrow> dict \<Rightarrow> time \<Rightarrow> workflow rr" where
  "safe_backup document item sensor_state now a =
     bind_rr (lift_rr (allowed_values (dget_default sensor_state ''configuration'' (dget_default sensor_state ''readback'' (JObj [])))))
       (\<lambda>allowed.
          let installations = filter (\<lambda>r. si_node_id r = wf_source_device_id item) (sensor_installations (rr_db a));
              item' = item\<lparr>wf_backup_json := Some (JObj [(''configuration'', JObj allowed),
                  (''installations'', JArr (map (installation_backup document) installations))]),
                wf_backup_status := ''complete'', wf_result_json := dput (wf_result_json item) ''backup_categories'' backup_categories\<rparr>
          in transition item' ''configuration_backup_ready'' (Some ''Application configuration backup verified'') None None now) a"

section \<open>Reasoning about handlers\<close>

interpretation workflows: repository wf_operation_id find_workflow upd_workflow
  by unfold_locales (auto simp: find_workflow_def upd_workflow_def find_upd_rows dest: find_row_SomeD)

lemma bind_rr_Inr_iff:
  "bind_rr m f a = (Inr y, a') \<longleftrightarrow> (\<exists>x a1. m a = (Inr x, a1) \<and> f x a1 = (Inr y, a'))"
  by (auto simp: bind_rr_def split: prod.splits sum.splits)

lemma lift_rr_iff [simp]: "lift_rr r a = (r', a') \<longleftrightarrow> r = r' \<and> a = a'"
  by (auto simp: lift_rr_def)

lemma guard_rr_Inr_iff [simp]: "guard_rr ok e a = (Inr u, a') \<longleftrightarrow> ok \<and> a = a'"
  by (auto simp: guard_rr_def)

lemma handled_Inr_iff [simp]: "handled f m a = (Inr x, a') \<longleftrightarrow> m a = (Inr x, a')"
  by (auto simp: handled_def split: prod.splits sum.splits)

lemma snd_handled [simp]: "snd (handled f m a) = snd (m a)"
  by (auto simp: handled_def split: prod.splits sum.splits)

lemma get_workflow_Inr_iff:
  "get_workflow k a = (Inr item, a') \<longleftrightarrow> find_workflow (rr_db a) k = Some item \<and> a' = a"
  by (auto simp: get_workflow_def split: option.splits)

lemma find_workflow_key: "find_workflow s k = Some item \<Longrightarrow> wf_operation_id item = k"
  by (rule workflows.get_key)

lemma transition_values_frame [simp]:
  "wf_operation_id (transition_values st p c m now item) = wf_operation_id item"
  "wf_state (transition_values st p c m now item) = st"
  "wf_hardware_id (transition_values st p c m now item) = wf_hardware_id item"
  "wf_backup_status (transition_values st p c m now item) = wf_backup_status item"
  "wf_reset_operation_id (transition_values st p c m now item) = wf_reset_operation_id item"
  "wf_source_record_id (transition_values st p c m now item) = wf_source_record_id item"
  "wf_source_device_id (transition_values st p c m now item) = wf_source_device_id item"
  "wf_started_at (transition_values st p c m now item) = wf_started_at item"
  "wf_target_ble_address (transition_values st p c m now item) = wf_target_ble_address item"
  "wf_target_device_id (transition_values st p c m now item) = wf_target_device_id item"
  "wf_configuration_json (transition_values st p c m now item) = wf_configuration_json item"
  by (simp_all add: transition_values_def Let_def)

lemma transition_progress: "length (wf_progress_json (transition_values st p c m now item)) \<le> 40"
  by (simp add: transition_values_def last_entries_def Let_def)

lemma last_entries_last: "xs \<noteq> [] \<Longrightarrow> 0 < n \<Longrightarrow> last (last_entries n xs) = last xs"
  by (simp add: last_entries_def last_drop)

text \<open>Nothing shown of a workflow reveals the configuration, the backup or the reset operation.\<close>

lemma public_hides:
  "public fmt (item\<lparr>wf_configuration_json := c, wf_backup_json := b, wf_reset_operation_id := r\<rparr>) = public fmt item"
  by (simp add: public_def)

end
