(* ===== verification/Reregister.thy ===== *)
theory Reregister
  imports Workflow
begin

text \<open>
  The handlers of the reset-and-re-register workflow (\<open>api/reset_reregister.py\<close>). A handler works on the application state
  \<open>rr_app\<close> and is one step; the task that watches a reset takes a step per poll. The BLE side of a handler is a
  world per address (\<open>Ble_Provisioning\<close>), and \<open>slow\<close> says at which addresses the enclosing \<open>wait_for\<close> runs out of time.
\<close>

section \<open>Request bodies\<close>

record usb_selection =
  us_port :: string
  us_expected_hardware_id :: string

definition usb_selection_valid :: "usb_selection \<Rightarrow> bool" where
  "usb_selection_valid b = (len_between 2 128 (us_port b) \<and> hardware_id_pattern (us_expected_hardware_id b))"

record confirm_reset = usb_selection +
  us_typed_hardware_id :: string

definition confirm_reset_valid :: "confirm_reset \<Rightarrow> bool" where
  "confirm_reset_valid b = (len_between 2 128 (us_port b) \<and> hardware_id_pattern (us_expected_hardware_id b)
     \<and> hardware_id_pattern (us_typed_hardware_id b))"

record registration_choice =
  rc_choice :: string
  rc_device_id :: string
  rc_display_name :: string
  rc_location :: "string option"
  rc_configuration :: installation_configuration

definition registration_choice_valid :: "registration_choice \<Rightarrow> bool" where
  "registration_choice_valid b = (rc_choice b \<in> {''restore'', ''new''} \<and> node_id_text (rc_device_id b) \<and> length (rc_device_id b) \<le> 31
     \<and> len_between 1 160 (rc_display_name b) \<and> opt_len_between 0 240 (rc_location b)
     \<and> installation_configuration_valid (rc_configuration b))"

section \<open>Shared steps\<close>

definition rr_protect :: "rr_env \<Rightarrow> http_request \<Rightarrow> bool \<Rightarrow> unit rr" where
  "rr_protect env r usb = lift_rr
     (bind_result (require_bounded_same_origin_json (ev_urlsplit env) r) (\<lambda>_.
        if usb then require_loopback (ev_is_loopback env) r else Inr ()))"

text \<open>\<open>fail\<close>; a \<open>UsbResetError\<close> is given the code of the handler, where the handler catches it.\<close>

fun fail :: "nat \<Rightarrow> string option \<Rightarrow> exn \<Rightarrow> exn" where
  "fail status usb_code (WorkflowError code message) = HTTPException status code message"
| "fail status (Some code) (UsbResetError message) = HTTPException status code message"
| "fail status usb_code e = e"

definition inspect_rr :: "string \<Rightarrow> dict rr" where
  "inspect_rr port a = (case usb_inspect (rr_usb a) port of (r, w) \<Rightarrow> (r, a\<lparr>rr_usb := w\<rparr>))"

definition ports_rr :: "usb_port list rr" where
  "ports_rr a = (case supported_ports (rr_usb a) of (ports, w) \<Rightarrow> (Inr ports, a\<lparr>rr_usb := w\<rparr>))"

definition device_not_found :: exn where
  "device_not_found = HTTPException 404 ''device_not_found'' ''Select an active sensor record.''"

definition active_device :: "string \<Rightarrow> registered_device rr" where
  "active_device device_id a = (case get_device (rr_db a) device_id of
     None \<Rightarrow> (Inl device_not_found, a)
   | Some device \<Rightarrow> (if rd_archived device then Inl device_not_found else Inr device, a))"

definition shown :: "rr_env \<Rightarrow> workflow \<Rightarrow> dict rr" where
  "shown env item = lift_rr (Inr (public (ev_isoformat env) item))"

section \<open>Starting and looking\<close>

definition start_handler :: "rr_env \<Rightarrow> http_request \<Rightarrow> string \<Rightarrow> string \<Rightarrow> time \<Rightarrow> dict rr" where
  "start_handler env r device_id operation_id now =
     bind_rr (rr_protect env r False) (\<lambda>_.
     bind_rr (active_device device_id) (\<lambda>device.
     handled (fail 409 None) (bind_rr
       (\<lambda>a. case start_workflow (ev_isoformat env) (rr_db a) device operation_id now of (x, s) \<Rightarrow> (x, a\<lparr>rr_db := s\<rparr>))
       (shown env))))"

text \<open>\<open>except (OSError, ValueError, RuntimeError)\<close> of an inspection.\<close>

definition identity_unavailable :: "exn \<Rightarrow> exn" where
  "identity_unavailable e = (if read_failure e then HTTPException 409 ''usb_identity_unavailable'' (exn_str e) else e)"

definition hardware_conflict :: exn where
  "hardware_conflict = HTTPException 409 ''hardware_identity_conflict'' ''Hardware identity belongs to another sensor record.''"

definition associate_device :: "string \<Rightarrow> registered_device \<Rightarrow> time \<Rightarrow> registered_device rr" where
  "associate_device h device now a =
     (if rd_hardware_id device = Some h then (Inr device, a)
      else case device_update_row (rr_db a) device (\<lambda>d. d\<lparr>rd_hardware_id := Some h\<rparr>) now of
        (Inl _, _) \<Rightarrow> (Inl hardware_conflict, a)
      | (Inr d, s) \<Rightarrow> (Inr d, a\<lparr>rr_db := s\<rparr>))"

definition associate_usb :: "rr_env \<Rightarrow> http_request \<Rightarrow> string \<Rightarrow> usb_selection \<Rightarrow> time \<Rightarrow> registered_device rr" where
  "associate_usb env r device_id body now =
     bind_rr (rr_protect env r True) (\<lambda>_.
     bind_rr (active_device device_id) (\<lambda>device.
     bind_rr (handled identity_unavailable (inspect_rr (us_port body))) (\<lambda>st.
     bind_rr (guard_rr (dget st ''identity_status'' = JStr ''ok'' \<and> dget st ''node_id'' = JStr (rd_device_id device)
         \<and> dget st ''hardware_id'' = JStr (us_expected_hardware_id body))
       (HTTPException 409 ''physical_identity_mismatch'' ''The USB sensor identity does not exactly match the selected gateway sensor.'')) (\<lambda>_ a.
     if get_other_by_hardware_id (rr_db a) (us_expected_hardware_id body) (rd_id device) \<noteq> None then (Inl hardware_conflict, a)
     else if truthy (rd_hardware_id device) \<and> rd_hardware_id device \<noteq> Some (us_expected_hardware_id body)
     then (Inl (HTTPException 409 ''hardware_identity_mismatch'' ''The sensor record is associated with different hardware.''), a)
     else associate_device (us_expected_hardware_id body) device now a))))"

definition incomplete :: "rr_env \<Rightarrow> rr_app \<Rightarrow> dict list" where
  "incomplete env a = map (public (ev_isoformat env)) (filter (\<lambda>x. wf_state x \<noteq> ''complete'') (reregistration_workflows (rr_db a)))"

definition status_handler :: "rr_env \<Rightarrow> string \<Rightarrow> dict rr" where
  "status_handler env operation_id = handled (fail 404 None) (bind_rr (get_workflow operation_id) (shown env))"

section \<open>The sensor on USB\<close>

fun detect_boards :: "string \<Rightarrow> usb_port list \<Rightarrow> dict list rr" where
  "detect_boards h [] a = (Inr [], a)"
| "detect_boards h (p # ps) a =
     (case inspect_rr (up_device p) a of
        (Inl e, a1) \<Rightarrow>
          if read_failure e
          then bind_rr (detect_boards h ps) (\<lambda>rows. lift_rr (Inr
            ((port_entry p @ [(''status'', JStr ''unreadable''), (''error'', JStr (exn_str e)), (''identity_match'', JBool False)]) # rows))) a1
          else (Inl e, a1)
      | (Inr st, a1) \<Rightarrow>
          bind_rr (detect_boards h ps) (\<lambda>rows. lift_rr (Inr (dput st ''identity_match'' (JBool (dget st ''hardware_id'' = JStr h)) # rows))) a1)"

definition auto_select_port :: "dict list \<Rightarrow> json" where
  "auto_select_port boards = (case boards of
     [board] \<Rightarrow> if json_truthy (dget board ''identity_match'') then dget board ''port'' else JNull | _ \<Rightarrow> JNull)"

definition detect_usb :: "rr_env \<Rightarrow> http_request \<Rightarrow> string \<Rightarrow> (string \<times> dict list \<times> json) rr" where
  "detect_usb env r operation_id =
     bind_rr (rr_protect env r True) (\<lambda>_.
     bind_rr (handled (fail 404 None) (get_workflow operation_id)) (\<lambda>item.
     bind_rr ports_rr (\<lambda>ports.
     bind_rr (detect_boards (wf_hardware_id item) ports) (\<lambda>boards.
       lift_rr (Inr (wf_hardware_id item, boards, auto_select_port boards))))))"

definition usb_state_keys :: "string list" where
  "usb_state_keys = [''sensor_id'', ''display_name'', ''hardware_id'', ''firmware_version'', ''provisioning_state'', ''reset_state'']"

definition select_usb :: "rr_env \<Rightarrow> http_request \<Rightarrow> string \<Rightarrow> usb_selection \<Rightarrow> time \<Rightarrow> dict rr" where
  "select_usb env r operation_id body now =
     bind_rr (rr_protect env r True) (\<lambda>_.
     handled (fail 409 (Some ''usb_inspection_failed'')) (
       bind_rr (get_workflow operation_id) (\<lambda>item.
       bind_rr (guard_rr (us_expected_hardware_id body = wf_hardware_id item)
         (WorkflowError ''hardware_identity_mismatch'' ''Selected gateway and physical identities do not match.'')) (\<lambda>_.
       bind_rr (inspect_rr (us_port body)) (\<lambda>st.
       bind_rr (guard_rr (dget st ''hardware_id'' = JStr (wf_hardware_id item))
         (WorkflowError ''hardware_identity_mismatch'' ''The sensor on this USB port is not the selected sensor.'')) (\<lambda>_.
       bind_rr (transition
           (item\<lparr>wf_selected_port := Some (us_port body),
              wf_result_json := dput (dput (wf_result_json item) ''firmware_version'' (dget st ''firmware_version''))
                ''usb_state'' (JObj (map (\<lambda>k. (k, dget st k)) usb_state_keys))\<rparr>)
           ''physical_identity_verified'' (Some ''Immutable USB hardware identity verified'') None None now)
       (shown env)))))))"

definition backup_handler :: "rr_env \<Rightarrow> http_request \<Rightarrow> string \<Rightarrow> time \<Rightarrow> dict rr" where
  "backup_handler env r operation_id now =
     bind_rr (rr_protect env r True) (\<lambda>_.
     handled (fail 409 (Some ''backup_failed'')) (
       bind_rr (get_workflow operation_id) (\<lambda>item.
       bind_rr (guard_rr (truthy (wf_selected_port item))
         (WorkflowError ''usb_not_verified'' ''Verify the USB-connected sensor first.'')) (\<lambda>_.
       bind_rr (inspect_rr (the (wf_selected_port item))) (\<lambda>st.
       bind_rr (guard_rr (dget st ''hardware_id'' = JStr (wf_hardware_id item))
         (WorkflowError ''hardware_identity_mismatch'' ''USB identity changed before backup.'')) (\<lambda>_.
       bind_rr (safe_backup (ev_document env) item st now) (\<lambda>item'.
         lift_rr (Inr (dput (public (ev_isoformat env) item') ''backup_categories'' backup_categories)))))))))"

section \<open>The physical reset\<close>

definition reset_target_of :: "workflow \<Rightarrow> string \<Rightarrow> reset_target" where
  "reset_target_of item port = \<lparr>tg_record_id = wf_source_record_id item, tg_device_id = wf_source_device_id item,
     tg_hardware_id = wf_hardware_id item, tg_port = port\<rparr>"

definition prepare_rr :: "reset_target \<Rightarrow> string \<Rightarrow> time \<Rightarrow> (string \<times> dict) rr" where
  "prepare_rr target token clock a =
     (case reset_prepare (rr_usb a) (ra_confirmations (rr_reset a)) target token clock of
        (x, w, st) \<Rightarrow> (x, a\<lparr>rr_usb := w, rr_reset := (rr_reset a)\<lparr>ra_confirmations := st\<rparr>\<rparr>))"

text \<open>The \<open>except\<close> clause of \<open>prepare_reset\<close> drops the confirmation of the operation.\<close>

fun reset_error :: "exn \<Rightarrow> bool" where
  "reset_error (WorkflowError _ _) = True"
| "reset_error (UsbResetError _) = True"
| "reset_error _ = False"

definition drop_confirmation :: "string \<Rightarrow> 'a rr \<Rightarrow> 'a rr" where
  "drop_confirmation operation_id m a = (case m a of
     (Inl e, a') \<Rightarrow> (Inl e, if reset_error e then a'\<lparr>rr_confirmations := (rr_confirmations a')(operation_id := None)\<rparr> else a')
   | (Inr x, a') \<Rightarrow> (Inr x, a'))"

definition store_confirmation :: "string \<Rightarrow> string \<Rightarrow> unit rr" where
  "store_confirmation operation_id token a =
     (Inr (), a\<lparr>rr_confirmations := (rr_confirmations a)(operation_id \<mapsto> token)\<rparr>)"

definition prepare_reset :: "rr_env \<Rightarrow> http_request \<Rightarrow> string \<Rightarrow> confirm_reset \<Rightarrow> string \<Rightarrow> time \<Rightarrow> time \<Rightarrow> dict rr" where
  "prepare_reset env r operation_id body token clock now =
     bind_rr (rr_protect env r True) (\<lambda>_.
     handled (fail 409 (Some ''reset_prepare_failed'')) (drop_confirmation operation_id (
       bind_rr (get_workflow operation_id) (\<lambda>item.
       bind_rr (guard_rr (wf_backup_status item = ''complete'')
         (WorkflowError ''backup_required'' ''A verified application configuration backup is required.'')) (\<lambda>_.
       bind_rr (guard_rr (us_expected_hardware_id body = wf_hardware_id item \<and> us_typed_hardware_id body = wf_hardware_id item)
         (WorkflowError ''hardware_identity_mismatch'' ''Type the exact immutable hardware ID.'')) (\<lambda>_.
       bind_rr (guard_rr (wf_selected_port item = Some (us_port body))
         (WorkflowError ''usb_port_mismatch'' ''The confirmed USB port changed; detect the sensor again.'')) (\<lambda>_.
       bind_rr (prepare_rr (reset_target_of item (us_port body)) token clock) (\<lambda>(token, st).
       bind_rr (store_confirmation operation_id token) (\<lambda>_.
       bind_rr (transition (item\<lparr>wf_result_json := dput (wf_result_json item) ''reset_operation_id'' (dget st ''reset_operation_id'')\<rparr>)
           ''reset_confirmation_required'' (Some ''Device-bound reset confirmation prepared'') None None now) (\<lambda>item'.
         lift_rr (Inr (public (ev_isoformat env) item' @ [(''confirmation_ready'', JBool True), (''expires_in_seconds'', JInt 120)]))))))))))))"

definition pop_confirmation :: "string \<Rightarrow> string option rr" where
  "pop_confirmation operation_id a =
     (Inr (rr_confirmations a operation_id), a\<lparr>rr_confirmations := (rr_confirmations a)(operation_id := None)\<rparr>)"

definition confirmation_matches :: "string option \<Rightarrow> confirm_reset \<Rightarrow> workflow \<Rightarrow> unit rr" where
  "confirmation_matches token body item =
     guard_rr (truthy token \<and> us_expected_hardware_id body = wf_hardware_id item \<and> us_typed_hardware_id body = wf_hardware_id item
         \<and> wf_selected_port item = Some (us_port body))
       (WorkflowError ''invalid_confirmation'' ''Reset confirmation is missing, expired, used, or mismatched.'')"

definition authorize_rr :: "string \<Rightarrow> reset_target \<Rightarrow> time \<Rightarrow> unit rr" where
  "authorize_rr token target clock a =
     (case reset_authorize (ra_confirmations (rr_reset a)) token target clock of
        (x, st) \<Rightarrow> (x, a\<lparr>rr_reset := (rr_reset a)\<lparr>ra_confirmations := st\<rparr>\<rparr>))"

definition cancel_rr :: "string \<Rightarrow> reset_target \<Rightarrow> unit rr" where
  "cancel_rr token target a =
     (case reset_cancel (ra_confirmations (rr_reset a)) token target of
        (x, st) \<Rightarrow> (x, a\<lparr>rr_reset := (rr_reset a)\<lparr>ra_confirmations := st\<rparr>\<rparr>))"

definition launch_rr :: "reset_target \<Rightarrow> string \<Rightarrow> usb_operation rr" where
  "launch_rr target reset_id a = (case reset_launch (rr_reset a) target reset_id of (x, ra) \<Rightarrow> (x, a\<lparr>rr_reset := ra\<rparr>))"

definition source_record :: "workflow \<Rightarrow> registered_device rr" where
  "source_record item a = (case device_by_pk (rr_db a) (wf_source_record_id item) of
     None \<Rightarrow> (Inl (AttributeError ''NoneType''), a) | Some device \<Rightarrow> (Inr device, a))"

definition set_device :: "registered_device \<Rightarrow> (registered_device \<Rightarrow> registered_device) \<Rightarrow> unit rr" where
  "set_device device f a = (Inr (), a\<lparr>rr_db := upd_device (rr_db a) (rd_device_id device) f\<rparr>)"

definition monitor_task :: "string \<Rightarrow> string \<Rightarrow> unit rr" where
  "monitor_task operation_id reset_id a = (Inr (), a\<lparr>rr_monitors := rr_monitors a @ [(operation_id, reset_id, None)]\<rparr>)"

definition execute_reset_rr :: "rr_env \<Rightarrow> http_request \<Rightarrow> string \<Rightarrow> confirm_reset \<Rightarrow> string \<Rightarrow> time \<Rightarrow> time \<Rightarrow> dict rr" where
  "execute_reset_rr env r operation_id body reset_id clock now =
     bind_rr (rr_protect env r True) (\<lambda>_.
     bind_rr (pop_confirmation operation_id) (\<lambda>token.
     handled (fail 409 (Some ''reset_execution_failed'')) (
       bind_rr (get_workflow operation_id) (\<lambda>item.
       bind_rr (confirmation_matches token body item) (\<lambda>_.
       bind_rr (authorize_rr (the token) (reset_target_of item (us_port body)) clock) (\<lambda>_.
       bind_rr (source_record item) (\<lambda>device.
       bind_rr (launch_rr (reset_target_of item (us_port body)) reset_id) (\<lambda>reset.
       bind_rr (set_device device (reset_status ''reset_pending'' now)) (\<lambda>_.
       bind_rr (transition (item\<lparr>wf_reset_operation_id := Some (uo_operation_id reset)\<rparr>) ''reset_in_progress''
           (Some ''Factory reset accepted by the USB service'') None None now) (\<lambda>item'.
       bind_rr (monitor_task operation_id (uo_operation_id reset)) (\<lambda>_. shown env item')))))))))))"

definition cancel_reset_rr :: "rr_env \<Rightarrow> http_request \<Rightarrow> string \<Rightarrow> confirm_reset \<Rightarrow> time \<Rightarrow> dict rr" where
  "cancel_reset_rr env r operation_id body now =
     bind_rr (rr_protect env r True) (\<lambda>_.
     bind_rr (pop_confirmation operation_id) (\<lambda>token.
     handled (fail 409 (Some ''cancel_failed'')) (
       bind_rr (get_workflow operation_id) (\<lambda>item.
       bind_rr (confirmation_matches token body item) (\<lambda>_.
       bind_rr (cancel_rr (the token) (reset_target_of item (us_port body))) (\<lambda>_.
       bind_rr (transition item ''configuration_backup_ready'' (Some ''Prepared reset was cancelled safely'') None None now)
       (shown env)))))))"

section \<open>The task that watches a reset\<close>

definition catch_rr :: "'a rr \<Rightarrow> (exn \<Rightarrow> 'a rr) \<Rightarrow> 'a rr" where
  "catch_rr m h a = (case m a of (Inl e, a') \<Rightarrow> h e a' | (Inr x, a') \<Rightarrow> (Inr x, a'))"

definition remove_rr :: "string \<Rightarrow> string option \<Rightarrow> string \<Rightarrow> string \<Rightarrow> bool \<Rightarrow> string \<Rightarrow> time \<Rightarrow> unit rr" where
  "remove_rr device_id reason connectivity method requested event_id now a =
     (case lifecycle_remove (rr_db a) device_id reason connectivity method requested event_id now of
        (Inl e, s) \<Rightarrow> (Inl e, a\<lparr>rr_db := s\<rparr>) | (Inr _, s) \<Rightarrow> (Inr (), a\<lparr>rr_db := s\<rparr>))"

definition disconnect_rr :: "rr_env \<Rightarrow> string \<Rightarrow> unit rr" where
  "disconnect_rr env device_id a =
     (Inr (), a\<lparr>rr_connections := fst (remove_connection (ev_fl env) (ev_loads env) (ev_turns env) (rr_connections a) device_id)\<rparr>)"

definition reported_progress :: "string \<Rightarrow> string" where
  "reported_progress state = (if state = ''queued'' then ''Preparing reset''
     else if state = ''preparing'' then ''Writing recovery marker and clearing application configuration''
     else if state = ''rebooting'' then ''Waiting for USB reboot and re-enumeration''
     else ''Factory reset is in progress'')"

definition workflow_state :: "usb_operation \<Rightarrow> string" where
  "workflow_state reset = (if uo_state reset = ''rebooting'' then ''waiting_for_usb_reenumeration'' else ''reset_in_progress'')"

definition monitor_report :: "usb_operation \<Rightarrow> string \<Rightarrow> string option \<Rightarrow> time \<Rightarrow> string option rr" where
  "monitor_report reset operation_id told now =
     (if told = Some (workflow_state reset) then lift_rr (Inr told)
      else bind_rr (get_workflow operation_id) (\<lambda>item.
        bind_rr (transition item (workflow_state reset) (Some (reported_progress (uo_state reset))) None None now) (\<lambda>_.
          lift_rr (Inr (Some (workflow_state reset))))))"

definition post_reset :: "json \<Rightarrow> json \<Rightarrow> bool \<Rightarrow> json" where
  "post_reset hardware_id firmware_version bootstrap = JObj [(''hardware_id'', hardware_id), (''firmware_version'', firmware_version),
     (''unprovisioned'', JBool True), (''reset_marker_complete'', JBool True), (''telemetry_disabled'', JBool True),
     (''bootstrap_available'', JBool bootstrap)]"

definition monitor_cleanup :: "rr_env \<Rightarrow> usb_operation \<Rightarrow> workflow \<Rightarrow> string \<Rightarrow> time \<Rightarrow> unit rr" where
  "monitor_cleanup env reset item event_id now =
     catch_rr (
       bind_rr (source_record item) (\<lambda>device.
       bind_rr (remove_rr (rd_device_id device) (Some ''physical_factory_reset_verified'') ''resetting''
         ''reset_reregister_workflow'' True event_id now) (\<lambda>_.
       bind_rr (set_device device (reset_status ''complete'' now)) (\<lambda>_.
       bind_rr (disconnect_rr env (wf_source_device_id item)) (\<lambda>_.
       bind_rr (transition
           (item\<lparr>wf_result_json := dput (wf_result_json item) ''post_reset'' (post_reset (JStr (uo_hardware_id reset))
              (dget (case uo_post_reset reset of None \<Rightarrow> [] | Some d \<Rightarrow> d) ''firmware_version'') True)\<rparr>)
           ''unprovisioned_ready_for_registration'' (Some ''Post-reboot unprovisioned state verified'') None None now) (\<lambda>_.
         lift_rr (Inr ())))))))
     (\<lambda>e. bind_rr (transition item ''recoverable_error'' (Some ''Physical reset verified; gateway cleanup failed'')
         (Some ''gateway_cleanup_failed'') (Some (take 500 (exn_str e))) now) (\<lambda>_. lift_rr (Inr ())))"

definition monitor_end :: "rr_env \<Rightarrow> usb_operation \<Rightarrow> string \<Rightarrow> string \<Rightarrow> time \<Rightarrow> unit rr" where
  "monitor_end env reset operation_id event_id now =
     bind_rr (get_workflow operation_id) (\<lambda>item.
       if \<not> uo_physical_reset_complete reset
       then bind_rr (transition item ''recoverable_error''
           (Some (if uo_reset_command_accepted reset then ''Reset accepted; reconnect USB and reconcile read-only'' else ''Factory reset failed''))
           (Some (if uo_reset_command_accepted reset then ''usb_reenumeration_timeout'' else ''reset_failed''))
           (if truthy (uo_error reset) then uo_error reset else Some ''Physical reset did not complete.'') now) (\<lambda>_. lift_rr (Inr ()))
       else bind_rr (transition item ''post_reset_verification'' (Some ''Verifying factory-default state after reboot'') None None now) (\<lambda>item'.
         monitor_cleanup env reset item' event_id now))"

text \<open>One turn of \<open>_monitor_reset\<close>: a poll that goes on (\<open>Some\<close> of what it has told) or the end of the task.\<close>

definition monitor_turn :: "rr_env \<Rightarrow> string \<Rightarrow> string \<Rightarrow> string option \<Rightarrow> string \<Rightarrow> time \<Rightarrow> string option option rr" where
  "monitor_turn env operation_id reset_id told event_id now a =
     (case get_operation (rr_reset a) reset_id of
        None \<Rightarrow> (Inl (KeyError reset_id), a)
      | Some reset \<Rightarrow>
          if uo_state reset \<notin> {''failed'', ''physical_complete''}
          then bind_rr (monitor_report reset operation_id told now) (\<lambda>rep. lift_rr (Inr (Some rep))) a
          else bind_rr (monitor_end env reset operation_id event_id now) (\<lambda>_. lift_rr (Inr None)) a)"

section \<open>Reconciliation after a restart\<close>

fun matching_states :: "string \<Rightarrow> usb_port list \<Rightarrow> dict list rr" where
  "matching_states h [] a = (Inr [], a)"
| "matching_states h (p # ps) a =
     (case inspect_rr (up_device p) a of
        (Inl e, a1) \<Rightarrow> if read_failure e then matching_states h ps a1 else (Inl e, a1)
      | (Inr st, a1) \<Rightarrow>
          if dget st ''hardware_id'' = JStr h
          then bind_rr (matching_states h ps) (\<lambda>rows. lift_rr (Inr (st # rows))) a1
          else matching_states h ps a1)"

definition reset_not_applied :: "workflow \<Rightarrow> dict \<Rightarrow> bool" where
  "reset_not_applied item st = (dget st ''node_id'' = JStr (wf_source_device_id item) \<and> dget st ''identity_status'' = JStr ''ok''
     \<and> dget st ''provisioning_state'' = JStr ''provisioned'')"

definition reset_verified :: "dict \<Rightarrow> bool result" where
  "reset_verified st =
     (if dget st ''node_id'' \<noteq> JNull \<or> dget st ''identity_status'' \<noteq> JStr ''unprovisioned'' then Inr False
      else if \<not> hashable (dget st ''reset_marker_state'') then Inl (TypeError ''unhashable type'')
      else Inr (dget st ''reset_marker_state'' \<in> {JNull, JStr ''complete'', JStr ''absent''} \<and> dget st ''telemetry_enabled'' \<noteq> JBool True))"

definition reconcile_unapplied :: "rr_env \<Rightarrow> workflow \<Rightarrow> dict \<Rightarrow> time \<Rightarrow> dict rr" where
  "reconcile_unapplied env item st now a =
     (case device_by_pk (rr_db a) (wf_source_record_id item) of
        None \<Rightarrow> (Inl (WorkflowError ''gateway_identity_changed'' ''Gateway identity changed during reset reconciliation.''), a)
      | Some device \<Rightarrow>
          if rd_archived device \<or> rd_hardware_id device \<noteq> Some (wf_hardware_id item)
          then (Inl (WorkflowError ''gateway_identity_changed'' ''Gateway identity changed during reset reconciliation.''), a)
          else
            bind_rr (set_device device (reset_status ''not_requested'' now)) (\<lambda>_.
            bind_rr (transition
                (item\<lparr>wf_reset_operation_id := None, wf_result_json := dput (wf_result_json item) ''reconciliation''
                   (JObj [(''physical_reset_applied'', JBool False), (''node_id'', dget st ''node_id''), (''hardware_id'', dget st ''hardware_id''),
                      (''configuration_status'', dget st ''configuration_status'')])\<rparr>)
                ''configuration_backup_ready'' (Some ''Read-back verified that reset was not applied; explicit retry is safe'') None None now)
            (shown env)) a)"

definition reconcile_applied :: "rr_env \<Rightarrow> workflow \<Rightarrow> dict \<Rightarrow> string \<Rightarrow> time \<Rightarrow> dict rr" where
  "reconcile_applied env item st event_id now =
     bind_rr (source_record item) (\<lambda>device.
     bind_rr (if rd_archived device then lift_rr (Inr ())
              else remove_rr (wf_source_device_id item) (Some ''physical_factory_reset_verified'') ''resetting''
                ''reset_reregister_recovery'' True event_id now) (\<lambda>_.
     bind_rr (set_device device (reset_status ''complete'' now)) (\<lambda>_.
     bind_rr (transition
         (item\<lparr>wf_result_json := dput (wf_result_json item) ''post_reset'' (post_reset (dget st ''hardware_id'') (dget st ''firmware_version'')
            (json_truthy (dget_default st ''bootstrap_available'' (JBool True))))\<rparr>)
         ''unprovisioned_ready_for_registration'' (Some ''Gateway restart recovery verified from physical read-back'') None None now) (\<lambda>item'.
     bind_rr (disconnect_rr env (wf_source_device_id item)) (\<lambda>_. shown env item')))))"

definition reconcile_reset :: "rr_env \<Rightarrow> http_request \<Rightarrow> string \<Rightarrow> string \<Rightarrow> string \<Rightarrow> time \<Rightarrow> dict rr" where
  "reconcile_reset env r operation_id expected_hardware_id event_id now =
     bind_rr (rr_protect env r True) (\<lambda>_.
     handled (fail 409 None) (
       bind_rr (get_workflow operation_id) (\<lambda>item.
       bind_rr (guard_rr (expected_hardware_id = wf_hardware_id item)
         (WorkflowError ''hardware_identity_mismatch'' ''Recovery identity does not match this operation.'')) (\<lambda>_.
       bind_rr ports_rr (\<lambda>ports.
       bind_rr (matching_states (wf_hardware_id item) ports) (\<lambda>matches.
       bind_rr (guard_rr (length matches = 1)
         (WorkflowError ''usb_recovery_ambiguous'' ''Connect exactly one USB sensor matching this operation.'')) (\<lambda>_.
       if reset_not_applied item (hd matches) then reconcile_unapplied env item (hd matches) now
       else
         bind_rr (lift_rr (reset_verified (hd matches))) (\<lambda>verified.
         bind_rr (guard_rr verified
           (WorkflowError ''post_reset_unverified'' ''Sensor is not yet in the verified out-of-box state.'')) (\<lambda>_.
         reconcile_applied env item (hd matches) event_id now)))))))))"

section \<open>Registration details\<close>

definition rr_event ::
  "db \<Rightarrow> string \<Rightarrow> string \<Rightarrow> string \<Rightarrow> string \<Rightarrow> string \<Rightarrow> string option \<Rightarrow> string \<Rightarrow> string \<Rightarrow> dict \<Rightarrow> time \<Rightarrow> device_lifecycle_event" where
  "rr_event s event_id event_type device_id display_name hardware_id ble_address connectivity outcome detail now =
     \<lparr>le_id = next_id le_id (device_lifecycle_events s), le_operation_id = event_id, le_event_type = event_type, le_device_id = device_id,
      le_display_name = display_name, le_hardware_id = Some hardware_id, le_ble_address = ble_address,
      le_connectivity_state = connectivity, le_method = ''reset_reregister_workflow'', le_factory_reset_requested = True,
      le_result = outcome, le_detail_json = detail, le_created_at = now\<rparr>"

text \<open>The identifier of an event is unique; the commit that violates this fails.\<close>

definition add_event :: "device_lifecycle_event \<Rightarrow> unit rr" where
  "add_event ev a =
     (if \<exists>x \<in> set (device_lifecycle_events (rr_db a)). le_operation_id x = le_operation_id ev
      then (Inl (IntegrityError ''UNIQUE constraint failed''), a)
      else (Inr (), a\<lparr>rr_db := (rr_db a)\<lparr>device_lifecycle_events := device_lifecycle_events (rr_db a) @ [ev]\<rparr>\<rparr>))"

definition registration_check :: "db \<Rightarrow> workflow \<Rightarrow> registration_choice \<Rightarrow> unit result" where
  "registration_check s item body =
     (if wf_state item \<notin> {''unprovisioned_ready_for_registration'', ''registration_details_required'', ''recoverable_error''}
      then Inl (WorkflowError ''invalid_workflow_state'' ''Physical reset verification must complete first.'')
      else if rc_choice body = ''restore''
              \<and> (rc_device_id body \<noteq> wf_source_device_id item \<or> rc_display_name body \<noteq> wf_source_display_name item)
      then Inl (WorkflowError ''restore_identity_mismatch'' ''Restore must use the explicitly confirmed prior identity.'')
      else if rc_choice body \<noteq> ''restore''
              \<and> (case get_device s (rc_device_id body) of None \<Rightarrow> False | Some d \<Rightarrow> rd_id d \<noteq> wf_source_record_id item)
      then Inl (WorkflowError ''duplicate_sensor_id'' ''That sensor ID already belongs to another record.'')
      else if rc_choice body = ''new'' \<and> get_device s (rc_device_id body) \<noteq> None
      then Inl (WorkflowError ''new_identity_requires_new_id'' ''A new registration must use a new unused sensor ID.'')
      else if find_row (\<lambda>d. rd_hardware_id d = Some (wf_hardware_id item) \<and> \<not> rd_archived d \<and> rd_id d \<noteq> wf_source_record_id item)
                (registered_devices s) \<noteq> None
      then Inl (WorkflowError ''hardware_identity_collision'' ''This hardware identity is already active.'')
      else Inr ())"

definition chosen :: "registration_choice \<Rightarrow> workflow \<Rightarrow> workflow" where
  "chosen body item = item\<lparr>wf_registration_choice := Some (rc_choice body), wf_target_device_id := Some (rc_device_id body),
     wf_target_display_name := Some (py_strip (rc_display_name body)), wf_target_location := rc_location body,
     wf_configuration_json := Some (rc_configuration body)\<rparr>"

definition registration :: "rr_env \<Rightarrow> http_request \<Rightarrow> string \<Rightarrow> registration_choice \<Rightarrow> string \<Rightarrow> time \<Rightarrow> dict rr" where
  "registration env r operation_id body suffix now =
     bind_rr (rr_protect env r False) (\<lambda>_.
     handled (fail 409 None) (
       bind_rr (get_workflow operation_id) (\<lambda>item a.
       bind_rr (lift_rr (registration_check (rr_db a) item body)) (\<lambda>_.
       bind_rr (add_event (rr_event (rr_db a) (wf_operation_id item @ ''-choice-'' @ suffix) ''registration_choice'' (rc_device_id body)
           (rc_display_name body) (wf_hardware_id item) None ''unprovisioned'' ''accepted''
           [(''registration_choice'', JStr (rc_choice body))] now)) (\<lambda>_.
       bind_rr (transition (chosen body item) ''searching_for_reset_sensor_ble'' (Some ''Registration choice validated'') None None now)
       (shown env))) a)))"

definition edit_registration :: "rr_env \<Rightarrow> http_request \<Rightarrow> string \<Rightarrow> time \<Rightarrow> dict rr" where
  "edit_registration env r operation_id now =
     bind_rr (rr_protect env r False) (\<lambda>_.
     handled (fail 409 None) (
       bind_rr (get_workflow operation_id) (\<lambda>item.
       bind_rr (guard_rr (wf_state item \<in> {''searching_for_reset_sensor_ble'', ''ble_identity_matched''})
         (WorkflowError ''registration_edit_not_allowed'' ''Registration details can change only before provisioning starts.'')) (\<lambda>_.
       bind_rr (transition
           (item\<lparr>wf_registration_choice := None, wf_target_device_id := None, wf_target_display_name := None,
              wf_target_location := None, wf_target_ble_address := None, wf_configuration_json := None\<rparr>)
           ''registration_details_required'' (Some ''Registration details reopened for editing'') None None now)
       (shown env)))))"

section \<open>Finding the sensor over BLE\<close>

record candidate =
  cd_address :: string
  cd_name :: "string option"
  cd_rssi :: "int option"
  cd_verification_status :: string
  cd_label :: string
  cd_reason :: string
  cd_provisioning_allowed :: bool
  cd_versions :: "(json \<times> json \<times> json) option"  \<comment> \<open>firmware, protocol and provisioning state, once read\<close>

definition read_identity :: "(string \<Rightarrow> bool) \<Rightarrow> (string \<Rightarrow> ble_world) \<Rightarrow> string \<Rightarrow> dict result" where
  "read_identity slow world address = (if slow address then Inl TimeoutError else fst (read_onboarding_identity (world address)))"

definition protocol_supported :: "rr_env \<Rightarrow> dict \<Rightarrow> bool" where
  "protocol_supported env identity = (dget identity ''protocol_version'' \<in> JStr ` set (ev_protocol_versions env))"

definition unread_candidate :: "discovery \<Rightarrow> candidate" where
  "unread_candidate d = \<lparr>cd_address = dc_address d, cd_name = dc_name d, cd_rssi = dc_rssi d,
     cd_verification_status = ''identity_unavailable'', cd_label = ''Unable to verify identity'',
     cd_reason = ''Onboarding identity was not read.'', cd_provisioning_allowed = False, cd_versions = None\<rparr>"

fun read_failed :: "exn \<Rightarrow> candidate \<Rightarrow> candidate result" where
  "read_failed TimeoutError c = Inr (c\<lparr>cd_verification_status := ''read_failure'', cd_reason := ''BLE identity read timed out.''\<rparr>)"
| "read_failed (OnboardingIdentityError m) c = Inr (c\<lparr>cd_verification_status := ''identity_unavailable'', cd_reason := m\<rparr>)"
| "read_failed (BleProvisioningError m) c = Inr (c\<lparr>cd_verification_status := ''read_failure'', cd_reason := m\<rparr>)"
| "read_failed (ConnectionError m) c = Inr (c\<lparr>cd_verification_status := ''read_failure'', cd_reason := m\<rparr>)"
| "read_failed e c = Inl e"

definition identified :: "rr_env \<Rightarrow> string \<Rightarrow> dict \<Rightarrow> candidate \<Rightarrow> candidate" where
  "identified env expected identity c =
     (let c' = c\<lparr>cd_versions := Some (dget identity ''firmware_version'', dget identity ''protocol_version'', dget identity ''provisioning_state'')\<rparr> in
      if \<not> protocol_supported env identity
      then c'\<lparr>cd_verification_status := ''incompatible_protocol'', cd_label := ''Incompatible firmware'',
             cd_reason := ''The onboarding identity protocol is not supported.''\<rparr>
      else if dget identity ''onboarding_identity'' = JStr expected
      then c'\<lparr>cd_verification_status := ''verified_match'', cd_label := ''Verified physical sensor'',
             cd_reason := ''BLE identity exactly matches the USB-verified sensor.'', cd_provisioning_allowed := True\<rparr>
      else c'\<lparr>cd_verification_status := ''non_match'', cd_label := ''Different sensor'',
             cd_reason := ''BLE identity does not match the USB-verified sensor.''\<rparr>)"

definition classify_candidate :: "rr_env \<Rightarrow> string \<Rightarrow> (string \<Rightarrow> bool) \<Rightarrow> (string \<Rightarrow> ble_world) \<Rightarrow> discovery \<Rightarrow> candidate result" where
  "classify_candidate env expected slow world d =
     (let c = unread_candidate d in
      if \<not> dc_compatible d
      then Inr (c\<lparr>cd_verification_status := ''incompatible_protocol'', cd_label := ''Incompatible firmware'', cd_reason := dc_compatibility_reason d\<rparr>)
      else case read_identity slow world (dc_address d) of
        Inl e \<Rightarrow> read_failed e c
      | Inr identity \<Rightarrow> Inr (identified env expected identity c))"

definition is_match :: "candidate \<Rightarrow> bool" where
  "is_match c = (cd_verification_status c = ''verified_match'')"

definition block_duplicate :: "candidate \<Rightarrow> candidate" where
  "block_duplicate c = (if is_match c
     then c\<lparr>cd_verification_status := ''duplicate_identity'', cd_label := ''Unable to verify identity'',
            cd_reason := ''Multiple BLE candidates claimed the expected identity.'', cd_provisioning_allowed := False\<rparr>
     else c)"

text \<open>The scan, with the connections paused around it; they are scheduled again also when the body raises.\<close>

definition scan_candidates ::
  "rr_env \<Rightarrow> workflow \<Rightarrow> (advertisement \<times> time \<times> time) list \<Rightarrow> time \<Rightarrow> (string \<Rightarrow> bool) \<Rightarrow> (string \<Rightarrow> ble_world) \<Rightarrow> (string \<times> candidate list) rr" where
  "scan_candidates env item detections clock slow world a =
     (let (scheduled, m) = pause (ev_fl env) (ev_loads env) (ev_turns env) (rr_connections a);
          scanned = scan_ends (snd (start_scan (rr_scanner a))) detections clock;
          (found, sc) = discoveries scanned clock;
          outcome = bind_result (derive_onboarding_identity (ev_sha256 env) (wf_hardware_id item)) (\<lambda>expected.
            bind_result (map_result (classify_candidate env expected slow world) found) (\<lambda>cs. Inr (expected, cs)))
      in (outcome, a\<lparr>rr_scanner := (if is_ok (derive_onboarding_identity (ev_sha256 env) (wf_hardware_id item)) then sc else scanned),
            rr_connections := unpause (ev_manager env) scheduled m\<rparr>))"

definition scan_ble ::
  "rr_env \<Rightarrow> http_request \<Rightarrow> string \<Rightarrow> (advertisement \<times> time \<times> time) list \<Rightarrow> time \<Rightarrow> (string \<Rightarrow> bool) \<Rightarrow> (string \<Rightarrow> ble_world) \<Rightarrow> time
     \<Rightarrow> (dict \<times> candidate list \<times> string \<times> string) rr" where
  "scan_ble env r operation_id detections clock slow world now =
     bind_rr (rr_protect env r False) (\<lambda>_.
     handled (fail 404 None) (
       bind_rr (get_workflow operation_id) (\<lambda>item.
       bind_rr (scan_candidates env item detections clock slow world) (\<lambda>(expected, candidates).
       let matches = filter is_match candidates in
       bind_rr (if length matches > 1
           then transition item ''searching_for_reset_sensor_ble'' (Some ''Duplicate BLE identity claims blocked'') None None now
           else if length matches = 1
           then transition (item\<lparr>wf_target_ble_address := Some (cd_address (hd matches))\<rparr>) ''ble_identity_matched''
             (Some ''BLE identity matched the USB-verified sensor'') None None now
           else lift_rr (Inr item)) (\<lambda>item'.
         lift_rr (Inr (public (ev_isoformat env) item', if length matches > 1 then map block_duplicate candidates else candidates,
           take 8 expected, last_entries 4 expected)))))))"

fun identity_unread :: "exn \<Rightarrow> bool" where
  "identity_unread (OnboardingIdentityError _) = True"
| "identity_unread (BleProvisioningError _) = True"
| "identity_unread TimeoutError = True"
| "identity_unread (ConnectionError _) = True"
| "identity_unread _ = False"

definition read_selected :: "(string \<Rightarrow> bool) \<Rightarrow> (string \<Rightarrow> ble_world) \<Rightarrow> string \<Rightarrow> dict result" where
  "read_selected slow world address = (case read_identity slow world address of
     Inl e \<Rightarrow> Inl (if identity_unread e then WorkflowError ''ble_identity_unavailable''
       ''This sensor cannot be safely matched to the device verified over USB. Provisioning is blocked.'' else e)
   | Inr identity \<Rightarrow> Inr identity)"

definition look_up :: "string \<Rightarrow> time \<Rightarrow> discovery option rr" where
  "look_up address clock a = (case get_discovery (rr_scanner a) address clock of (d, sc) \<Rightarrow> (Inr d, a\<lparr>rr_scanner := sc\<rparr>))"

definition select_ble ::
  "rr_env \<Rightarrow> http_request \<Rightarrow> string \<Rightarrow> string \<Rightarrow> time \<Rightarrow> (string \<Rightarrow> bool) \<Rightarrow> (string \<Rightarrow> ble_world) \<Rightarrow> time \<Rightarrow> dict rr" where
  "select_ble env r operation_id address clock slow world now =
     bind_rr (rr_protect env r False) (\<lambda>_.
     handled (fail 409 None) (
       bind_rr (get_workflow operation_id) (\<lambda>item.
       bind_rr (look_up address clock) (\<lambda>found.
       bind_rr (guard_rr (case found of None \<Rightarrow> False | Some d \<Rightarrow> dc_compatible d)
         (WorkflowError ''ble_candidate_expired'' ''Selected BLE candidate expired; scan again.'')) (\<lambda>_.
       bind_rr (lift_rr (derive_onboarding_identity (ev_sha256 env) (wf_hardware_id item))) (\<lambda>expected.
       bind_rr (lift_rr (read_selected slow world address)) (\<lambda>identity.
       bind_rr (guard_rr (protocol_supported env identity)
         (WorkflowError ''ble_protocol_incompatible'' ''The sensor onboarding identity protocol is incompatible.'')) (\<lambda>_.
       bind_rr (guard_rr (dget identity ''onboarding_identity'' = JStr expected)
         (WorkflowError ''ble_identity_mismatch'' ''Manual selection cannot bypass physical identity mismatch.'')) (\<lambda>_.
       bind_rr (transition (item\<lparr>wf_target_ble_address := Some address\<rparr>) ''ble_identity_matched''
         (Some ''BLE identity matched the USB-verified sensor'') None None now)
       (shown env))))))))))"

section \<open>Provisioning and registration\<close>

definition ble_readback ::
  "rr_env \<Rightarrow> (string \<Rightarrow> bool) \<Rightarrow> (string \<Rightarrow> ble_world) \<Rightarrow> string \<Rightarrow> bool \<Rightarrow> workflow \<Rightarrow> string \<Rightarrow> string \<Rightarrow> installation_configuration \<Rightarrow> dict result" where
  "ble_readback env locked world tx already item address target configuration =
     (if already then bind_result (fst (read_state (locked address) tx (world address))) (\<lambda>st. Inr (bs_readback st))
      else bind_result (derive_onboarding_identity (ev_sha256 env) (wf_hardware_id item)) (\<lambda>expected.
        bind_result (fst (Ble_Provisioning.provision (ev_patience env) (locked address) target (take 16 (wf_operation_id item))
          configuration (Some expected) (world address))) (\<lambda>p. Inr (pv_readback p))))"

definition restored_installation :: "time \<Rightarrow> sensor_installation \<Rightarrow> sensor_installation" where
  "restored_installation now x = x\<lparr>si_archived := False, si_enabled := True, si_provisioning_state := ''active'', si_updated_at := now\<rparr>"

text \<open>The restoration commits by itself; the attributes set afterwards are stored by the commit of \<open>finish_registration\<close>.\<close>

definition restore_rr :: "rr_env \<Rightarrow> workflow \<Rightarrow> string \<Rightarrow> string \<Rightarrow> time \<Rightarrow> unit rr" where
  "restore_rr env item address event_id now a =
     (case lifecycle_restore (ev_casefold env) (rr_db a) (wf_source_device_id item) (Some (wf_hardware_id item)) (Some address) event_id now of
        (Inl e, s) \<Rightarrow> (Inl e, a\<lparr>rr_db := s\<rparr>) | (Inr _, s) \<Rightarrow> (Inr (), a\<lparr>rr_db := s\<rparr>))"

definition restored_source :: "workflow \<Rightarrow> time \<Rightarrow> registered_device \<Rightarrow> registered_device" where
  "restored_source item now d = d\<lparr>rd_display_name := (case wf_target_display_name item of None \<Rightarrow> '''' | Some n \<Rightarrow> n),
     rd_location := wf_target_location item, rd_factory_reset_status := ''complete'', rd_updated_at := now\<rparr>"

definition restore_registration :: "rr_env \<Rightarrow> workflow \<Rightarrow> string \<Rightarrow> string \<Rightarrow> time \<Rightarrow> registered_device rr" where
  "restore_registration env item address event_id now =
     bind_rr (restore_rr env item address event_id now) (\<lambda>_.
     bind_rr (source_record item) (\<lambda>source a.
       (Inr (restored_source item now source),
        a\<lparr>rr_db := (upd_device (rr_db a) (rd_device_id source) (restored_source item now))
            \<lparr>sensor_installations := upd_rows (\<lambda>x. si_node_id x = rd_device_id source) (restored_installation now)
               (sensor_installations (rr_db a))\<rparr>\<rparr>)))"

definition readback_discovery :: "string \<Rightarrow> string \<Rightarrow> time \<Rightarrow> discovery" where
  "readback_discovery address target now = \<lparr>dc_address = address, dc_name = None, dc_rssi = None, dc_service_uuids = [],
     dc_compatible = True, dc_compatibility_reason = ''Authoritative provisioning read-back verified'',
     dc_stable_device_id = Some target, dc_temporary_id = None, dc_last_seen_at = now\<rparr>"

definition registration_request :: "workflow \<Rightarrow> string \<Rightarrow> string \<Rightarrow> device_create" where
  "registration_request item address target = \<lparr>cr_device_id = target,
     cr_display_name = (case wf_target_display_name item of None \<Rightarrow> '''' | Some n \<Rightarrow> n), cr_discovery_address = address,
     cr_device_type = ''xiao_mg24_sense'', cr_location = wf_target_location item, cr_description = None, cr_allow_incompatible = False\<rparr>"

definition register_rr :: "rr_env \<Rightarrow> device_create \<Rightarrow> discovery \<Rightarrow> time \<Rightarrow> registered_device rr" where
  "register_rr env request found now a =
     (if \<not> device_create_valid request then (Inl (ValidationError ''DeviceCreate''), a)
      else case device_register (ev_device_id_pattern env) (rr_db a) request found now of (x, s) \<Rightarrow> (x, a\<lparr>rr_db := s\<rparr>))"

definition identify_rr :: "workflow \<Rightarrow> registered_device \<Rightarrow> time \<Rightarrow> registered_device rr" where
  "identify_rr item device now a =
     (case device_update_row (rr_db a) device
        (\<lambda>d. d\<lparr>rd_hardware_id := Some (wf_hardware_id item), rd_factory_reset_status := ''complete''\<rparr>) now of (x, s) \<Rightarrow> (x, a\<lparr>rr_db := s\<rparr>))"

definition new_registration :: "rr_env \<Rightarrow> workflow \<Rightarrow> string \<Rightarrow> string \<Rightarrow> time \<Rightarrow> time \<Rightarrow> registered_device rr" where
  "new_registration env item address target clock now =
     bind_rr (look_up address clock) (\<lambda>found.
     bind_rr (register_rr env (registration_request item address target)
       ((case found of None \<Rightarrow> readback_discovery address target now | Some d \<Rightarrow> d)\<lparr>dc_stable_device_id := Some target\<rparr>) now) (\<lambda>device.
     identify_rr item device now))"

definition network_event :: "workflow \<Rightarrow> registered_device \<Rightarrow> time \<Rightarrow> unit rr" where
  "network_event item device now a =
     (let event_id = wf_operation_id item @ ''-network'' in
      if \<exists>x \<in> set (device_lifecycle_events (rr_db a)). le_operation_id x = event_id then (Inr (), a)
      else add_event (rr_event (rr_db a) event_id ''gateway_network_added'' (rd_device_id device) (rd_display_name device)
        (wf_hardware_id item) (wf_target_ble_address item) ''connecting'' ''success''
        [(''registration_choice'', json_of_str (wf_registration_choice item))] now) a)"

text \<open>Every registered device has an address, so the fallback of the scheduled address is not met.\<close>

definition schedule_rr :: "rr_env \<Rightarrow> registered_device \<Rightarrow> unit rr" where
  "schedule_rr env device a = (Inr (), a\<lparr>rr_connections := schedule (ev_manager env) (rr_connections a) (rd_device_id device)
     (case rd_ble_address device of None \<Rightarrow> '''' | Some x \<Rightarrow> x)\<rparr>)"

definition finish_registration :: "rr_env \<Rightarrow> workflow \<Rightarrow> registered_device \<Rightarrow> time \<Rightarrow> workflow rr" where
  "finish_registration env item device now =
     bind_rr (network_event item device now) (\<lambda>_.
     bind_rr (schedule_rr env device) (\<lambda>_.
     transition (item\<lparr>wf_result_json := dput (dput (wf_result_json item) ''registered_record_id'' (JInt (rd_id device)))
         ''gateway_registration'' (JStr ''active'')\<rparr>)
       ''network_verification_in_progress'' (Some ''Gateway registration is active'') None None now))"

definition provision_event :: "workflow \<Rightarrow> string \<Rightarrow> time \<Rightarrow> unit rr" where
  "provision_event item target now a =
     add_event (rr_event (rr_db a) (wf_operation_id item @ ''-provision'') ''ble_provisioned'' target
       (case wf_target_display_name item of None \<Rightarrow> '''' | Some n \<Rightarrow> n) (wf_hardware_id item) (wf_target_ble_address item)
       ''connecting'' ''success'' [] now) a"

definition already_provisioned :: "workflow \<Rightarrow> bool" where
  "already_provisioned item = json_truthy (dget (wf_result_json item) ''sensor_provisioned'')"

definition registered ::
  "rr_env \<Rightarrow> workflow \<Rightarrow> string \<Rightarrow> string \<Rightarrow> string \<Rightarrow> time \<Rightarrow> time \<Rightarrow> registered_device rr" where
  "registered env item address target event_id clock now =
     (if wf_registration_choice item = Some ''restore'' then restore_registration env item address event_id now
      else new_registration env item address target clock now)"

definition provision_body ::
  "rr_env \<Rightarrow> (string \<Rightarrow> bool) \<Rightarrow> (string \<Rightarrow> ble_world) \<Rightarrow> string \<Rightarrow> string \<Rightarrow> string \<Rightarrow> time \<Rightarrow> time \<Rightarrow> dict rr" where
  "provision_body env locked world operation_id tx event_id clock now =
     bind_rr (get_workflow operation_id) (\<lambda>item0.
     bind_rr (guard_rr (truthy (wf_target_ble_address item0) \<and> wf_configuration_json item0 \<noteq> None)
       (WorkflowError ''ble_target_required'' ''Select a verified unprovisioned BLE candidate first.'')) (\<lambda>_.
     bind_rr (transition item0 ''provisioning_in_progress'' (Some ''BLE provisioning started'') None None now) (\<lambda>item.
     let address = the (wf_target_ble_address item); configuration = the (wf_configuration_json item); already = already_provisioned item in
     bind_rr (lift_rr (case wf_target_device_id item of None \<Rightarrow> Inl (TypeError ''NoneType'') | Some t \<Rightarrow> Inr t)) (\<lambda>target.
     bind_rr (lift_rr (ble_readback env locked world tx already item address target configuration)) (\<lambda>readback.
     bind_rr (guard_rr (dget readback ''id'' = JStr target)
       (WorkflowError ''provisioning_readback_failed'' ''Provisioned identity did not pass read-back.'')) (\<lambda>_.
     bind_rr (if already then lift_rr (Inr ()) else provision_event item target now) (\<lambda>_.
     bind_rr (transition (item\<lparr>wf_result_json := dput (wf_result_json item) ''sensor_provisioned'' (JBool True)\<rparr>)
         ''gateway_registration_in_progress'' (Some ''BLE provisioning read-back verified'') None None now) (\<lambda>item1.
     bind_rr (registered env item1 address target event_id clock now) (\<lambda>device.
     bind_rr (finish_registration env item1 device now) (shown env))))))))))"

text \<open>The exceptions the handler catches; a \<open>LifecycleError\<close>, a timeout or a connection error is not among them.\<close>

fun provision_caught :: "exn \<Rightarrow> bool" where
  "provision_caught (WorkflowError _ _) = True"
| "provision_caught (BleProvisioningError _) = True"
| "provision_caught (DeviceValidationError _) = True"
| "provision_caught (DuplicateDeviceError _) = True"
| "provision_caught (IntegrityError _) = True"
| "provision_caught _ = False"

definition provision_recover :: "string \<Rightarrow> exn \<Rightarrow> time \<Rightarrow> rr_app \<Rightarrow> rr_app" where
  "provision_recover operation_id e now a =
     (case get_workflow operation_id a of
        (Inl _, a') \<Rightarrow> a'
      | (Inr item, a') \<Rightarrow>
          let done = already_provisioned item in
          snd (transition item ''recoverable_error''
            (Some (if done then ''Sensor provisioned; gateway registration requires retry'' else ''BLE provisioning requires retry''))
            (Some (if done then ''gateway_registration_failed'' else ''ble_provisioning_failed'')) (Some (take 500 (exn_str e))) now a'))"

fun provision_http :: "exn \<Rightarrow> exn" where
  "provision_http (WorkflowError code message) = HTTPException 409 code message"
| "provision_http e = HTTPException 409 ''provision_or_registration_failed'' (exn_str e)"

definition provision_handler ::
  "rr_env \<Rightarrow> http_request \<Rightarrow> (string \<Rightarrow> bool) \<Rightarrow> (string \<Rightarrow> ble_world) \<Rightarrow> string \<Rightarrow> string \<Rightarrow> string \<Rightarrow> time \<Rightarrow> time \<Rightarrow> dict rr" where
  "provision_handler env r locked world operation_id tx event_id clock now =
     bind_rr (rr_protect env r False) (\<lambda>_.
     catch_rr (provision_body env locked world operation_id tx event_id clock now) (\<lambda>e a.
       if provision_caught e then (Inl (provision_http e), provision_recover operation_id e now a) else (Inl e, a)))"

section \<open>The network check\<close>

text \<open>The dash in the second progress text is written as a colon.\<close>

definition network_verified :: "db \<Rightarrow> workflow \<Rightarrow> registered_device \<Rightarrow> bool" where
  "network_verified s item device = (rd_connection_status device = ''connected''
     \<and> (\<exists>x \<in> set (readings s). rg_registered_device_id x = rd_id device \<and> wf_started_at item \<le> rg_received_at x))"

definition network_result :: "db \<Rightarrow> workflow \<Rightarrow> registered_device \<Rightarrow> dict" where
  "network_result s item device = fold (\<lambda>(k, v) d. dput d k v)
     [(''gateway_registration'', JStr ''active''),
      (''ble_connection'', JStr (if rd_connection_status device = ''connected'' then ''connected'' else ''waiting'')),
      (''first_telemetry'', JStr (if \<exists>x \<in> set (readings s). rg_registered_device_id x = rd_id device \<and> wf_started_at item \<le> rg_received_at x
         then ''verified'' else ''pending'')),
      (''sensor_id'', JStr (rd_device_id device)), (''sensor_name'', JStr (rd_display_name device)),
      (''location'', json_of_str (rd_location device))] (wf_result_json item)"

definition verify_body :: "rr_env \<Rightarrow> workflow \<Rightarrow> time \<Rightarrow> db \<Rightarrow> dict rr" where
  "verify_body env item now s = (case get_device s (case wf_target_device_id item of None \<Rightarrow> '''' | Some t \<Rightarrow> t) of
     None \<Rightarrow> lift_rr (Inl (WorkflowError ''gateway_registration_unverified'' ''Active gateway identity has not been verified.''))
   | Some device \<Rightarrow>
       if rd_archived device \<or> \<not> rd_enabled device \<or> rd_hardware_id device \<noteq> Some (wf_hardware_id item)
       then lift_rr (Inl (WorkflowError ''gateway_registration_unverified'' ''Active gateway identity has not been verified.''))
       else bind_rr (transition (item\<lparr>wf_result_json := network_result s item device\<rparr>)
           (if network_verified s item device then ''complete'' else ''network_verification_in_progress'')
           (Some (if network_verified s item device then ''First telemetry verified''
                  else ''Registered: waiting for first telemetry'')) None None now)
         (shown env))"

definition verify_network :: "rr_env \<Rightarrow> http_request \<Rightarrow> string \<Rightarrow> time \<Rightarrow> dict rr" where
  "verify_network env r operation_id now =
     bind_rr (rr_protect env r False) (\<lambda>_.
     handled (fail 409 None) (
       bind_rr (get_workflow operation_id) (\<lambda>item a. verify_body env item now (rr_db a) a)))"

end
