(* ===== verification/Workflow_Machine.thy ===== *)
theory Workflow_Machine
  imports Reregister
begin

text \<open>
  The workflow as an abstract machine: a table of workflows and the reset confirmations that are ready. Every handler, and every
  turn of the watching task, takes labelled moves of the machine (\<open>wf_move\<close>), so that what the moves keep
  holds of the program. Handlers are followed by a small calculus of triples over the state monad.
\<close>

section \<open>The machine\<close>

datatype wf_label =
    Selected | BackedUp | Confirming | Launched | Cancelled | Polled | Rebooting | ResetFailed | Verifying | Ready | CleanupFailed
  | NotApplied | Chosen | Reopened | Duplicates | Matched | Provisioning | Provisioned | Registered | ProvisionFailed | Waiting | Completed

fun label_state :: "wf_label \<Rightarrow> string" where
  "label_state Selected = ''physical_identity_verified''"
| "label_state BackedUp = ''configuration_backup_ready''"
| "label_state Confirming = ''reset_confirmation_required''"
| "label_state Launched = ''reset_in_progress''"
| "label_state Cancelled = ''configuration_backup_ready''"
| "label_state Polled = ''reset_in_progress''"
| "label_state Rebooting = ''waiting_for_usb_reenumeration''"
| "label_state ResetFailed = ''recoverable_error''"
| "label_state Verifying = ''post_reset_verification''"
| "label_state Ready = ''unprovisioned_ready_for_registration''"
| "label_state CleanupFailed = ''recoverable_error''"
| "label_state NotApplied = ''configuration_backup_ready''"
| "label_state Chosen = ''searching_for_reset_sensor_ble''"
| "label_state Reopened = ''registration_details_required''"
| "label_state Duplicates = ''searching_for_reset_sensor_ble''"
| "label_state Matched = ''ble_identity_matched''"
| "label_state Provisioning = ''provisioning_in_progress''"
| "label_state Provisioned = ''gateway_registration_in_progress''"
| "label_state Registered = ''network_verification_in_progress''"
| "label_state ProvisionFailed = ''recoverable_error''"
| "label_state Waiting = ''network_verification_in_progress''"
| "label_state Completed = ''complete''"

text \<open>When a move is allowed, and which columns it may change.\<close>

fun wf_guard :: "wf_label \<Rightarrow> workflow \<Rightarrow> bool" where
  "wf_guard BackedUp x = truthy (wf_selected_port x)"
| "wf_guard Confirming x = (wf_backup_status x = ''complete'')"
| "wf_guard Launched x = (wf_backup_status x = ''complete'')"
| "wf_guard Cancelled x = (wf_backup_status x = ''complete'')"
| "wf_guard Chosen x = (wf_state x \<in> {''unprovisioned_ready_for_registration'', ''registration_details_required'', ''recoverable_error''})"
| "wf_guard Reopened x = (wf_state x \<in> {''searching_for_reset_sensor_ble'', ''ble_identity_matched''})"
| "wf_guard Provisioning x = (truthy (wf_target_ble_address x) \<and> wf_configuration_json x \<noteq> None)"
| "wf_guard Provisioned x = (truthy (wf_target_ble_address x) \<and> wf_configuration_json x \<noteq> None)"
| "wf_guard Registered x = (truthy (wf_target_ble_address x) \<and> wf_configuration_json x \<noteq> None)"
| "wf_guard _ x = True"

fun wf_update :: "wf_label \<Rightarrow> workflow \<Rightarrow> workflow \<Rightarrow> bool" where
  "wf_update Selected x y = (\<exists>p d. y = x\<lparr>wf_selected_port := Some p, wf_result_json := d\<rparr>)"
| "wf_update BackedUp x y = (\<exists>b d. y = x\<lparr>wf_backup_json := Some b, wf_backup_status := ''complete'', wf_result_json := d\<rparr>)"
| "wf_update Launched x y = (\<exists>i. y = x\<lparr>wf_reset_operation_id := Some i\<rparr>)"
| "wf_update NotApplied x y = (\<exists>d. y = x\<lparr>wf_reset_operation_id := None, wf_result_json := d\<rparr>)"
| "wf_update Chosen x y = (\<exists>body. y = chosen body x)"
| "wf_update Reopened x y = (y = x\<lparr>wf_registration_choice := None, wf_target_device_id := None, wf_target_display_name := None,
     wf_target_location := None, wf_target_ble_address := None, wf_configuration_json := None\<rparr>)"
| "wf_update Matched x y = (\<exists>address. y = x\<lparr>wf_target_ble_address := Some address\<rparr>)"
| "wf_update _ x y = (\<exists>d. y = x\<lparr>wf_result_json := d\<rparr>)"

type_synonym wf_table = "workflow list \<times> (string \<rightharpoonup> string)"

inductive wf_move :: "wf_label set \<Rightarrow> wf_table \<Rightarrow> wf_table \<Rightarrow> bool" where
  added: "\<lbrakk>truthy (rd_hardware_id device); find_row (\<lambda>z. wf_operation_id z = k) xs = None\<rbrakk>
    \<Longrightarrow> wf_move L (xs, c) (xs @ [new_workflow fmt device k now], c)"
| moved: "\<lbrakk>l \<in> L; find_row (\<lambda>z. wf_operation_id z = k) xs = Some x; wf_guard l x; wf_update l x y\<rbrakk>
    \<Longrightarrow> wf_move L (xs, c) (upd_rows (\<lambda>z. wf_operation_id z = k) (\<lambda>_. transition_values (label_state l) entry code msg now y) xs, c)"
| confirmed: "\<lbrakk>find_row (\<lambda>z. wf_operation_id z = k) xs = Some x; wf_backup_status x = ''complete''\<rbrakk>
    \<Longrightarrow> wf_move L (xs, c) (xs, c(k \<mapsto> token))"
| dropped: "wf_move L (xs, c) (xs, c(k := None))"

definition wf_moves :: "wf_label set \<Rightarrow> wf_table \<Rightarrow> wf_table \<Rightarrow> bool" where
  "wf_moves L = (wf_move L)\<^sup>*\<^sup>*"

section \<open>What the moves keep\<close>

definition workflow_ok :: "workflow \<Rightarrow> bool" where
  "workflow_ok x = (wf_state x \<in> set STATES \<and> length (wf_progress_json x) \<le> 40 \<and> wf_hardware_id x \<noteq> ''''
     \<and> wf_backup_status x \<in> {''pending'', ''complete''}
     \<and> (wf_backup_status x = ''complete'' \<longrightarrow> wf_backup_json x \<noteq> None)
     \<and> (wf_reset_operation_id x \<noteq> None \<longrightarrow> wf_backup_status x = ''complete'')
     \<and> (wf_configuration_json x \<noteq> None \<longleftrightarrow> wf_target_device_id x \<noteq> None)
     \<and> (wf_configuration_json x \<noteq> None \<longleftrightarrow> wf_registration_choice x \<noteq> None))"

definition table_ok :: "wf_table \<Rightarrow> bool" where
  "table_ok t = (distinct (map wf_operation_id (fst t)) \<and> list_all workflow_ok (fst t)
     \<and> (\<forall>k token. snd t k = Some token \<longrightarrow>
          (\<exists>x. find_row (\<lambda>z. wf_operation_id z = k) (fst t) = Some x \<and> wf_backup_status x = ''complete'')))"

lemma label_state_in: "label_state l \<in> set STATES"
  by (cases l) (simp_all add: STATES_def)

lemma wf_update_key: "wf_update l x y \<Longrightarrow> wf_operation_id y = wf_operation_id x"
  by (cases l) (auto simp: chosen_def)

lemma wf_update_backup: "wf_update l x y \<Longrightarrow> wf_backup_status x = ''complete'' \<Longrightarrow> wf_backup_status y = ''complete''"
  by (cases l) (auto simp: chosen_def)

lemma transition_values_more [simp]:
  "wf_backup_json (transition_values st p c m now x) = wf_backup_json x"
  "wf_registration_choice (transition_values st p c m now x) = wf_registration_choice x"
  by (simp_all add: transition_values_def Let_def)

lemma wf_update_ok:
  assumes "wf_update l x y" "wf_guard l x" "workflow_ok x"
  shows "wf_hardware_id y \<noteq> ''''" "wf_backup_status y \<in> {''pending'', ''complete''}"
    "wf_backup_status y = ''complete'' \<Longrightarrow> wf_backup_json y \<noteq> None"
    "wf_reset_operation_id y \<noteq> None \<Longrightarrow> wf_backup_status y = ''complete''"
    "wf_configuration_json y \<noteq> None \<longleftrightarrow> wf_target_device_id y \<noteq> None"
    "wf_configuration_json y \<noteq> None \<longleftrightarrow> wf_registration_choice y \<noteq> None"
  using assms by (cases l; clarsimp simp: workflow_ok_def chosen_def; fail)+

lemma moved_ok:
  assumes "workflow_ok x" "wf_guard l x" "wf_update l x y"
  shows "workflow_ok (transition_values (label_state l) p c m now y)"
  using label_state_in[of l] transition_progress[of "label_state l" p c m now y] wf_update_ok[OF assms(3,2,1)]
  unfolding workflow_ok_def transition_values_frame transition_values_more by blast

lemma new_workflow_ok: "truthy (rd_hardware_id device) \<Longrightarrow> workflow_ok (new_workflow fmt device k now)"
  by (auto simp: workflow_ok_def new_workflow_def STATES_def truthy_def split: option.splits)

lemma wf_move_ok: "wf_move L t t' \<Longrightarrow> table_ok t \<Longrightarrow> table_ok t'"
proof (induction rule: wf_move.induct)
  case (added device k xs L c fmt now)
  have "wf_operation_id (new_workflow fmt device k now) = k" by (simp add: new_workflow_def)
  with added new_workflow_ok[OF added(1)] show ?case
    by (fastforce simp: table_ok_def find_row_None_iff find_row_append)
next
  case (moved l L k xs x y c entry code msg now)
  let ?y = "transition_values (label_state l) entry code msg now y"
  have key: "wf_operation_id ?y = k"
    using moved(2,4) wf_update_key find_row_SomeD[OF moved(2)] by auto
  have "map wf_operation_id (upd_rows (\<lambda>z. wf_operation_id z = k) (\<lambda>_. ?y) xs) = map wf_operation_id xs"
    using key by (induction xs) auto
  moreover have "workflow_ok x" using moved(5) find_row_SomeD[OF moved(2)] by (auto simp: table_ok_def list_all_iff)
  then have "list_all workflow_ok (upd_rows (\<lambda>z. wf_operation_id z = k) (\<lambda>_. ?y) xs)"
    using moved(3,4,5) moved_ok by (auto simp: table_ok_def list_all_iff set_upd_rows)
  moreover have "\<exists>z. find_row (\<lambda>z. wf_operation_id z = k') (upd_rows (\<lambda>z. wf_operation_id z = k) (\<lambda>_. ?y) xs) = Some z
      \<and> wf_backup_status z = ''complete''" if some: "c k' = Some token" for k' token
  proof -
    from moved(5) some obtain z where z: "find_row (\<lambda>z. wf_operation_id z = k') xs = Some z" "wf_backup_status z = ''complete''"
      by (auto simp: table_ok_def)
    have "find_row (\<lambda>z. wf_operation_id z = k') (upd_rows (\<lambda>z. wf_operation_id z = k) (\<lambda>_. ?y) xs) =
        (if k' = k then map_option (\<lambda>_. ?y) (find_row (\<lambda>z. wf_operation_id z = k) xs) else find_row (\<lambda>z. wf_operation_id z = k') xs)"
      using key by (induction xs) auto
    with z moved(2,4) wf_update_backup show ?thesis by (cases "k' = k") auto
  qed
  ultimately show ?case using moved(5) by (simp add: table_ok_def)
qed (auto simp: table_ok_def)

lemma wf_moves_ok: "wf_moves L t t' \<Longrightarrow> table_ok t \<Longrightarrow> table_ok t'"
  unfolding wf_moves_def by (induction rule: rtranclp_induct) (auto intro: wf_move_ok)

section \<open>A calculus for handlers\<close>

definition wf_abs :: "rr_app \<Rightarrow> wf_table" where
  "wf_abs a = (reregistration_workflows (rr_db a), rr_confirmations a)"

abbreviation row :: "wf_table \<Rightarrow> string \<Rightarrow> workflow option" where
  "row t k \<equiv> find_row (\<lambda>z. wf_operation_id z = k) (fst t)"

text \<open>\<open>tri L t0 P m E\<close>: from a table that satisfies \<open>P\<close>, \<open>m\<close> ends in a table reached from \<open>t0\<close> by moves in \<open>L\<close>, or raises with \<open>E\<close>.\<close>

definition tri :: "wf_label set \<Rightarrow> wf_table \<Rightarrow> (wf_table \<Rightarrow> bool) \<Rightarrow> 'a rr \<Rightarrow> (wf_table \<Rightarrow> bool) \<Rightarrow> bool" where
  "tri L t0 P m E = (\<forall>a. P (wf_abs a) \<longrightarrow> (case m a of
     (Inl _, a') \<Rightarrow> E (wf_abs a') | (Inr _, a') \<Rightarrow> wf_moves L t0 (wf_abs a')))"

definition silent :: "'a rr \<Rightarrow> bool" where
  "silent m = (\<forall>a. wf_abs (snd (m a)) = wf_abs a)"

lemma silentD: "silent m \<Longrightarrow> m a = (r, a') \<Longrightarrow> wf_abs a' = wf_abs a"
  unfolding silent_def by (metis snd_conv)

lemma silent_bind [intro]: "silent m \<Longrightarrow> (\<And>x. silent (f x)) \<Longrightarrow> silent (bind_rr m f)"
  unfolding silent_def by (auto simp: bind_rr_def split: prod.split sum.split) (metis snd_conv)+

lemma silent_handled [intro]: "silent m \<Longrightarrow> silent (handled f m)"
  by (simp add: silent_def)

lemma silent_pure [intro]: "silent (lift_rr r)" "silent (guard_rr b e)" "silent (shown env i)" "silent (rr_protect env q u)"
  by (simp_all add: silent_def lift_rr_def guard_rr_def shown_def rr_protect_def)

lemma tri_silent: "silent m \<Longrightarrow> (\<And>t. P t \<Longrightarrow> wf_moves L t0 t \<and> E t) \<Longrightarrow> tri L t0 P m E"
proof -
  assume s: "silent m" and P: "\<And>t. P t \<Longrightarrow> wf_moves L t0 t \<and> E t"
  show ?thesis
    unfolding tri_def
  proof (intro allI impI)
    fix a assume "P (wf_abs a)"
    moreover obtain r a1 where m: "m a = (r, a1)" by fastforce
    moreover have "wf_abs a1 = wf_abs a" using s m by (rule silentD)
    ultimately show "case m a of (Inl _, a') \<Rightarrow> E (wf_abs a') | (Inr _, a') \<Rightarrow> wf_moves L t0 (wf_abs a')"
      using P[of "wf_abs a"] by (cases r) simp_all
  qed
qed

lemma tri_bind_silent:
  assumes "silent m" "\<And>x. tri L t0 P (f x) E" "\<And>t. P t \<Longrightarrow> E t"
  shows "tri L t0 P (bind_rr m f) E"
  unfolding tri_def
proof (intro allI impI)
  fix a assume P: "P (wf_abs a)"
  obtain r a1 where m: "m a = (r, a1)" by fastforce
  with assms(1) have "wf_abs a1 = wf_abs a" by (rule silentD)
  with assms(2,3) P m show "case bind_rr m f a of (Inl _, a') \<Rightarrow> E (wf_abs a') | (Inr _, a') \<Rightarrow> wf_moves L t0 (wf_abs a')"
    by (cases r) (auto simp: bind_rr_def tri_def)
qed

lemma tri_bind_guard:
  assumes "b \<Longrightarrow> tri L t0 P (f ()) E" "\<And>t. P t \<Longrightarrow> E t"
  shows "tri L t0 P (bind_rr (guard_rr b e) f) E"
  using assms by (auto simp: tri_def bind_rr_def guard_rr_def lift_rr_def split: prod.splits sum.splits)

lemma tri_bind_lift:
  assumes "\<And>x. r = Inr x \<Longrightarrow> tri L t0 P (f x) E" "\<And>t. P t \<Longrightarrow> E t"
  shows "tri L t0 P (bind_rr (lift_rr r) f) E"
  using assms by (cases r) (auto simp: tri_def bind_rr_def lift_rr_def)

lemma tri_then_silent: "(\<And>x. silent (f x)) \<Longrightarrow> tri L t0 P m (wf_moves L t0) \<Longrightarrow> tri L t0 P (bind_rr m f) (wf_moves L t0)"
  unfolding tri_def bind_rr_def by (fastforce split: prod.splits sum.splits dest: silentD)

lemma tri_handled: "tri L t0 P m E \<Longrightarrow> tri L t0 P (handled f m) E"
  unfolding tri_def handled_def by (fastforce split: prod.splits sum.splits)

lemma tri_bind_handled:
  assumes "tri L t0 P (bind_rr m f) E"
  shows "tri L t0 P (bind_rr (handled g m) f) E"
  using assms unfolding tri_def bind_rr_def handled_def by (fastforce split: prod.splits sum.splits)

lemma tri_bind_get:
  assumes "\<And>x. wf_operation_id x = k \<Longrightarrow> tri L t0 (\<lambda>t. P t \<and> row t k = Some x) (f x) E" "\<And>t. P t \<Longrightarrow> E t"
  shows "tri L t0 P (bind_rr (get_workflow k) f) E"
  unfolding tri_def
proof (intro allI impI)
  fix a assume P: "P (wf_abs a)"
  show "case bind_rr (get_workflow k) f a of (Inl _, a') \<Rightarrow> E (wf_abs a') | (Inr _, a') \<Rightarrow> wf_moves L t0 (wf_abs a')"
  proof (cases "find_workflow (rr_db a) k")
    case None
    with assms(2) P show ?thesis by (simp add: bind_rr_def get_workflow_def)
  next
    case (Some x)
    then have "row (wf_abs a) k = Some x" by (simp add: wf_abs_def find_workflow_def)
    with assms(1)[OF find_workflow_key[OF Some]] P Some show ?thesis by (simp add: bind_rr_def get_workflow_def tri_def)
  qed
qed

lemma moves_step: "wf_moves L t0 t \<Longrightarrow> wf_move L t t' \<Longrightarrow> wf_moves L t0 t'"
  unfolding wf_moves_def by (rule rtranclp.rtrancl_into_rtrancl)

lemma row_moved:
  assumes "row t k = Some x" "wf_operation_id y = k"
  shows "row (upd_rows (\<lambda>z. wf_operation_id z = k) (\<lambda>_. y) (fst t), c) k = Some y"
proof -
  have "find_row (\<lambda>z. wf_operation_id z = k) (upd_rows (\<lambda>z. wf_operation_id z = k) (\<lambda>_. y) xs) =
      map_option (\<lambda>_. y) (find_row (\<lambda>z. wf_operation_id z = k) xs)" for xs
    using assms(2) by (induction xs) auto
  with assms(1) show ?thesis by simp
qed

lemma tri_bind_transition:
  assumes l: "l \<in> L" "st = label_state l" "\<And>t. P t \<Longrightarrow> wf_moves L t0 t \<and> row t k = Some x \<and> wf_guard l x"
    and u: "wf_operation_id x = k" "wf_update l x y"
    and f: "tri L t0 (\<lambda>t. wf_moves L t0 t \<and> row t k = Some (transition_values st p c m now y))
      (f (transition_values st p c m now y)) E"
  shows "tri L t0 P (bind_rr (transition y st p c m now) f) E"
  unfolding tri_def
proof (intro allI impI)
  fix a assume "P (wf_abs a)"
  with l(3) have t: "wf_moves L t0 (wf_abs a)" "row (wf_abs a) k = Some x" "wf_guard l x" by auto
  let ?y = "transition_values st p c m now y"
  have key: "wf_operation_id y = k" using wf_update_key[OF u(2)] u(1) by simp
  let ?a = "a\<lparr>rr_db := upd_workflow (rr_db a) k (\<lambda>_. ?y)\<rparr>"
  have abs: "wf_abs ?a = (upd_rows (\<lambda>z. wf_operation_id z = k) (\<lambda>_. ?y) (fst (wf_abs a)), snd (wf_abs a))"
    by (simp add: wf_abs_def upd_workflow_def)
  have "wf_move L (wf_abs a) (wf_abs ?a)"
    using wf_move.moved[OF l(1) t(2,3) u(2), of "snd (wf_abs a)" p c m now] l(2) unfolding abs by simp
  with t(1) have "wf_moves L t0 (wf_abs ?a)" by (rule moves_step)
  moreover have "row (wf_abs ?a) k = Some ?y" unfolding abs using t(2) key by (intro row_moved) simp_all
  moreover have "transition y st p c m now a = (Inr ?y, ?a)"
    using l(2) key label_state_in[of l] by (simp add: transition_def Let_def)
  ultimately show "case bind_rr (transition y st p c m now) f a of (Inl _, a') \<Rightarrow> E (wf_abs a') | (Inr _, a') \<Rightarrow> wf_moves L t0 (wf_abs a')"
    using f by (simp add: bind_rr_def tri_def)
qed

lemma tri_bind_if:
  "(b \<Longrightarrow> tri L t0 P (bind_rr m f) E) \<Longrightarrow> (\<not> b \<Longrightarrow> tri L t0 P (bind_rr n f) E) \<Longrightarrow> tri L t0 P (bind_rr (if b then m else n) f) E"
  by simp

lemma bind_rr_assoc: "bind_rr (bind_rr m f) g = bind_rr m (\<lambda>x. bind_rr (f x) g)"
  by (auto simp: bind_rr_def fun_eq_iff split: prod.split sum.split)

lemma tri_catch:
  assumes "tri L t0 P m E'" "\<And>e. tri L t0 E' (h e) E"
  shows "tri L t0 P (catch_rr m h) E"
  using assms unfolding tri_def catch_rr_def by (fastforce split: prod.splits sum.splits)

lemma tri_weaken: "tri L t0 P m E \<Longrightarrow> (\<And>t. P' t \<Longrightarrow> P t) \<Longrightarrow> (\<And>t. E t \<Longrightarrow> E' t) \<Longrightarrow> tri L t0 P' m E'"
  unfolding tri_def by (fastforce split: prod.splits sum.splits)

end
