(* ===== verification/Workflow_Refinement.thy ===== *)
theory Workflow_Refinement
  imports Workflow_Machine
begin

text \<open>
  Every handler of the reset-and-re-register workflow takes moves of the abstract machine, with the labels it may use; the
  reachable states of the program therefore keep the invariant of the machine, whatever the other components do.
\<close>

section \<open>Steps that leave the workflows alone\<close>

lemma workflows_frame [simp]:
  "reregistration_workflows (upd_device s k f) = reregistration_workflows s"
  "reregistration_workflows (snd (lifecycle_remove s d reason conn meth req i now)) = reregistration_workflows s"
  "reregistration_workflows (snd (lifecycle_restore cf s d h b i now)) = reregistration_workflows s"
  "reregistration_workflows (snd (device_update_row s device v now)) = reregistration_workflows s"
  "reregistration_workflows (snd (device_register pat s rq found now)) = reregistration_workflows s"
  by (simp_all add: upd_device_def lifecycle_remove_def lifecycle_restore_def device_update_row_def device_register_def
      device_create_row_def Let_def split: option.splits)

lemma silentI: "(\<And>a. wf_abs (snd (m a)) = wf_abs a) \<Longrightarrow> silent m"
  by (simp add: silent_def)

lemma silent_steps [intro]:
  "silent (inspect_rr port)" "silent ports_rr" "silent (active_device device_id)" "silent (source_record item)"
  "silent (prepare_rr target token clock)" "silent (authorize_rr token target clock)" "silent (cancel_rr token target)"
  "silent (launch_rr target i)" "silent (set_device device g)" "silent (monitor_task k i)" "silent (disconnect_rr env device_id)"
  "silent (look_up address clock)" "silent (schedule_rr env device)" "silent (add_event ev)"
  by (auto intro!: silentI simp: wf_abs_def inspect_rr_def ports_rr_def active_device_def source_record_def prepare_rr_def
      authorize_rr_def cancel_rr_def launch_rr_def set_device_def monitor_task_def disconnect_rr_def look_up_def schedule_rr_def
      add_event_def split: prod.split option.split)

lemma silent_database [intro]:
  "silent (remove_rr d reason conn meth req i now)" "silent (restore_rr env item address i now)"
  "silent (register_rr env rq found now)" "silent (identify_rr item device now)" "silent (associate_device h device now)"
proof -
  have frame: "reregistration_workflows s' = reregistration_workflows s"
    if "lifecycle_remove s d reason conn meth req i now = (r, s')
      \<or> lifecycle_restore cf s d h b i now = (r, s') \<or> device_update_row s device v now = (r', s')
      \<or> device_register pat s rq found now = (r', s')" for s s' d reason conn meth req i now r cf h b device v r' pat rq found
    using that workflows_frame by (metis snd_conv)
  show "silent (remove_rr d reason conn meth req i now)" "silent (restore_rr env item address i now)"
    "silent (register_rr env rq found now)" "silent (identify_rr item device now)" "silent (associate_device h device now)"
    by (auto intro!: silentI simp: wf_abs_def remove_rr_def restore_rr_def register_rr_def identify_rr_def associate_device_def
        split: prod.split sum.split intro: frame)
qed

lemma silent_scans [intro]: "silent (detect_boards h ps)" "silent (matching_states h ps)"
  "silent (scan_candidates env item detections clock slow world)"
proof -
  show "silent (detect_boards h ps)"
  proof (induction ps)
    case (Cons p ps)
    show ?case
    proof (rule silentI)
      fix a
      obtain r a1 where i: "inspect_rr (up_device p) a = (r, a1)" by fastforce
      with silentD[OF silent_steps(1) i] Cons have "wf_abs (snd (detect_boards h ps a1)) = wf_abs a" by (simp add: silent_def)
      with i silentD[OF silent_steps(1) i] show "wf_abs (snd (detect_boards h (p # ps) a)) = wf_abs a"
        by (cases r) (auto simp: bind_rr_def lift_rr_def split: prod.splits sum.splits)
    qed
  qed (simp add: silent_def)
  show "silent (matching_states h ps)"
  proof (induction ps)
    case (Cons p ps)
    show ?case
    proof (rule silentI)
      fix a
      obtain r a1 where i: "inspect_rr (up_device p) a = (r, a1)" by fastforce
      with silentD[OF silent_steps(1) i] Cons have "wf_abs (snd (matching_states h ps a1)) = wf_abs a" by (simp add: silent_def)
      with i silentD[OF silent_steps(1) i] show "wf_abs (snd (matching_states h (p # ps) a)) = wf_abs a"
        by (cases r) (auto simp: bind_rr_def lift_rr_def split: prod.splits sum.splits)
    qed
  qed (simp add: silent_def)
  show "silent (scan_candidates env item detections clock slow world)"
    by (rule silentI) (simp add: scan_candidates_def wf_abs_def Let_def split: prod.split)
qed

lemma silent_registered [intro]: "silent (registered env item address target i clock now)"
proof -
  have "silent (\<lambda>a. (Inr (x source), a\<lparr>rr_db := (upd_device (rr_db a) (rd_device_id source) g)\<lparr>sensor_installations := h source a\<rparr>\<rparr>))"
    for x source g h by (rule silentI) (simp add: wf_abs_def)
  then have "silent (restore_registration env item address i now)"
    unfolding restore_registration_def by (intro silent_bind silent_database silent_steps)
  moreover have "silent (new_registration env item address target clock now)"
    unfolding new_registration_def by (intro silent_bind silent_database silent_steps)
  ultimately show ?thesis by (simp add: registered_def)
qed

lemma silent_events [intro]: "silent (network_event item device now)" "silent (provision_event item target now)"
proof -
  have "wf_abs (snd (add_event ev a)) = wf_abs a" for ev a
    using silent_steps(14) by (simp add: silent_def)
  then show "silent (network_event item device now)" "silent (provision_event item target now)"
    by (auto intro!: silentI simp: network_event_def provision_event_def Let_def)
qed

section \<open>The handlers take moves\<close>

abbreviation follows :: "wf_label set \<Rightarrow> wf_table \<Rightarrow> 'a rr \<Rightarrow> bool" where
  "follows L t0 m \<equiv> tri L t0 (wf_moves L t0) m (wf_moves L t0)"

lemmas silent_all = silent_pure silent_steps silent_database silent_scans silent_registered silent_events

lemma tri_shown: "(\<And>t. P t \<Longrightarrow> wf_moves L t0 t) \<Longrightarrow> tri L t0 P (shown env i) (wf_moves L t0)"
  by (rule tri_silent[OF silent_pure(3)]) simp

lemma tri_lift: "(\<And>t. P t \<Longrightarrow> wf_moves L t0 t) \<Longrightarrow> tri L t0 P (lift_rr r) (wf_moves L t0)"
  by (rule tri_silent[OF silent_pure(1)]) simp

lemma select_usb_follows: "follows {Selected} t0 (select_usb env r k body now)"
  unfolding select_usb_def
  by (rule tri_bind_silent[OF silent_pure(4)], rule tri_handled, rule tri_bind_get, rule tri_bind_guard,
      rule tri_bind_silent[OF silent_steps(1)], rule tri_bind_guard, rule tri_bind_transition[where l = Selected])
    (auto intro: tri_shown)

lemma safe_backup_follows:
  assumes "BackedUp \<in> L" "wf_guard BackedUp x" "wf_operation_id x = k"
    and "\<And>y. tri L t0 (\<lambda>t. wf_moves L t0 t \<and> row t k = Some y) (f y) (wf_moves L t0)"
  shows "tri L t0 (\<lambda>t. wf_moves L t0 t \<and> row t k = Some x) (bind_rr (safe_backup document x st now) f) (wf_moves L t0)"
  unfolding tri_def
proof (intro allI impI)
  fix a assume P: "wf_moves L t0 (wf_abs a) \<and> row (wf_abs a) k = Some x"
  let ?m = "\<lambda>allowed. transition
      (x\<lparr>wf_backup_json := Some (JObj [(''configuration'', JObj allowed),
         (''installations'', JArr (map (installation_backup document)
            (filter (\<lambda>r. si_node_id r = wf_source_device_id x) (sensor_installations (rr_db a)))))]),
        wf_backup_status := ''complete'', wf_result_json := dput (wf_result_json x) ''backup_categories'' backup_categories\<rparr>)
      ''configuration_backup_ready'' (Some ''Application configuration backup verified'') None None now"
  let ?v = "allowed_values (dget_default st ''configuration'' (dget_default st ''readback'' (JObj [])))"
  have "tri L t0 (\<lambda>t. wf_moves L t0 t \<and> row t k = Some x) (bind_rr (lift_rr ?v) (\<lambda>allowed. bind_rr (?m allowed) f)) (wf_moves L t0)"
    by (rule tri_bind_lift, rule tri_bind_transition[where l = BackedUp]) (use assms in auto)
  moreover have "safe_backup document x st now a = bind_rr (lift_rr ?v) ?m a" by (simp add: safe_backup_def Let_def)
  then have "bind_rr (safe_backup document x st now) f a = bind_rr (lift_rr ?v) (\<lambda>allowed. bind_rr (?m allowed) f) a"
    unfolding bind_rr_assoc[symmetric] by (simp add: bind_rr_def[of "safe_backup document x st now"] bind_rr_def[of "bind_rr (lift_rr ?v) ?m"])
  ultimately show "case bind_rr (safe_backup document x st now) f a of
      (Inl _, a') \<Rightarrow> wf_moves L t0 (wf_abs a') | (Inr _, a') \<Rightarrow> wf_moves L t0 (wf_abs a')"
    using P unfolding tri_def by simp
qed

lemma backup_handler_follows: "follows {BackedUp} t0 (backup_handler env r k now)"
  unfolding backup_handler_def
  by (rule tri_bind_silent[OF silent_pure(4)], rule tri_handled, rule tri_bind_get, rule tri_bind_guard,
      rule tri_bind_silent[OF silent_steps(1)], rule tri_bind_guard, rule safe_backup_follows)
    (auto intro: tri_lift)

lemma tri_store:
  assumes "\<And>t. P t \<Longrightarrow> wf_moves L t0 t \<and> (\<exists>x. row t k = Some x \<and> wf_backup_status x = ''complete'')"
    and "\<And>t c. P t \<Longrightarrow> wf_moves L t0 (fst t, c) \<Longrightarrow> P (fst t, c)" and "tri L t0 P (f ()) E"
  shows "tri L t0 P (bind_rr (store_confirmation k token) f) E"
  unfolding tri_def
proof (intro allI impI)
  fix a assume P: "P (wf_abs a)"
  let ?a = "a\<lparr>rr_confirmations := (rr_confirmations a)(k \<mapsto> token)\<rparr>"
  have abs: "wf_abs ?a = (fst (wf_abs a), (snd (wf_abs a))(k \<mapsto> token))" by (simp add: wf_abs_def)
  obtain x where "wf_moves L t0 (wf_abs a)" "row (wf_abs a) k = Some x" "wf_backup_status x = ''complete''" using assms(1)[OF P] by blast
  then have "wf_moves L t0 (wf_abs ?a)"
    using wf_move.confirmed[of k "fst (wf_abs a)" x L "snd (wf_abs a)" token] unfolding abs by (metis moves_step prod.collapse)
  then have "P (wf_abs ?a)" using assms(2)[OF P] abs by simp
  with assms(3) show "case bind_rr (store_confirmation k token) f a of (Inl _, a') \<Rightarrow> E (wf_abs a') | (Inr _, a') \<Rightarrow> wf_moves L t0 (wf_abs a')"
    by (simp add: bind_rr_def store_confirmation_def tri_def)
qed

lemma wf_moves_drop: "wf_moves L t0 (xs, c) \<Longrightarrow> wf_moves L t0 (xs, c(k := None))"
  by (rule moves_step[OF _ wf_move.dropped])

lemma tri_drop: "tri L t0 P m (wf_moves L t0) \<Longrightarrow> tri L t0 P (drop_confirmation k m) (wf_moves L t0)"
  unfolding tri_def drop_confirmation_def
  by (auto simp: wf_abs_def intro: wf_moves_drop split: prod.splits sum.splits)

lemma prepare_reset_follows: "follows {Confirming} t0 (prepare_reset env r k body token clock now)"
  unfolding prepare_reset_def
  by (rule tri_bind_silent[OF silent_pure(4)], rule tri_handled, rule tri_drop, rule tri_bind_get, rule tri_bind_guard,
      rule tri_bind_guard, rule tri_bind_guard, rule tri_bind_silent[OF silent_steps(5)], clarify, rule tri_store)
    (auto intro!: tri_bind_transition[where l = Confirming] tri_lift)

lemma tri_pop:
  assumes "table_ok t0"
    and "\<And>token. tri L t0 (\<lambda>t. wf_moves L t0 t \<and> (token \<noteq> None \<longrightarrow> (\<exists>x. row t k = Some x \<and> wf_backup_status x = ''complete''))) (f token) E"
  shows "tri L t0 (wf_moves L t0) (bind_rr (pop_confirmation k) f) E"
  unfolding tri_def
proof (intro allI impI)
  fix a assume m: "wf_moves L t0 (wf_abs a)"
  let ?a = "a\<lparr>rr_confirmations := (rr_confirmations a)(k := None)\<rparr>"
  have abs: "wf_abs ?a = (fst (wf_abs a), (snd (wf_abs a))(k := None))" by (simp add: wf_abs_def)
  have "wf_moves L t0 (wf_abs ?a)" using m unfolding abs by (intro wf_moves_drop) simp
  moreover have "rr_confirmations a k \<noteq> None \<longrightarrow> (\<exists>x. row (wf_abs ?a) k = Some x \<and> wf_backup_status x = ''complete'')"
    using wf_moves_ok[OF m assms(1)] by (auto simp: table_ok_def wf_abs_def)
  ultimately show "case bind_rr (pop_confirmation k) f a of (Inl _, a') \<Rightarrow> E (wf_abs a') | (Inr _, a') \<Rightarrow> wf_moves L t0 (wf_abs a')"
    using assms(2) by (simp add: bind_rr_def pop_confirmation_def tri_def)
qed

lemma execute_reset_follows: "table_ok t0 \<Longrightarrow> follows {Launched} t0 (execute_reset_rr env r k body i clock now)"
  unfolding execute_reset_rr_def confirmation_matches_def
  by (rule tri_bind_silent[OF silent_pure(4)], rule tri_pop, assumption, rule tri_handled, rule tri_bind_get, rule tri_bind_guard,
      rule tri_bind_silent[OF silent_steps(6)], rule tri_bind_silent[OF silent_steps(4)], rule tri_bind_silent[OF silent_steps(8)],
      rule tri_bind_silent[OF silent_steps(9)], rule tri_bind_transition[where l = Launched])
    (auto intro!: tri_bind_silent[OF silent_steps(10)] tri_shown simp: truthy_def split: option.splits)

lemma same_result [simp]: "\<exists>d. x = x\<lparr>wf_result_json := d\<rparr>" for x :: workflow
  by (rule exI[of _ "wf_result_json x"]) simp

lemma cancel_reset_follows: "table_ok t0 \<Longrightarrow> follows {Cancelled} t0 (cancel_reset_rr env r k body now)"
  unfolding cancel_reset_rr_def confirmation_matches_def
  by (rule tri_bind_silent[OF silent_pure(4)], rule tri_pop, assumption, rule tri_handled, rule tri_bind_get, rule tri_bind_guard,
      rule tri_bind_silent[OF silent_steps(7)], rule tri_bind_transition[where l = Cancelled])
    (auto intro!: tri_shown simp: truthy_def split: option.splits)

text \<open>A body that looks at the state it starts from.\<close>

lemma tri_at: "(\<And>b. tri L t0 P (n b) E) \<Longrightarrow> (\<And>a. m a = n a a) \<Longrightarrow> tri L t0 P m E"
  by (simp add: tri_def)

lemma monitor_report_follows: "follows {Polled, Rebooting} t0 (monitor_report reset k told now)"
proof (cases "uo_state reset = ''rebooting''")
  case True
  then show ?thesis
    unfolding monitor_report_def
    by (auto intro!: tri_lift tri_bind_get tri_bind_transition[where l = Rebooting] simp: workflow_state_def)
next
  case False
  then show ?thesis
    unfolding monitor_report_def
    by (auto intro!: tri_lift tri_bind_get tri_bind_transition[where l = Polled] simp: workflow_state_def)
qed

lemma monitor_cleanup_follows:
  assumes "{Ready, CleanupFailed} \<subseteq> L" "wf_operation_id x = k"
  shows "tri L t0 (\<lambda>t. wf_moves L t0 t \<and> row t k = Some x) (monitor_cleanup env reset x i now) (wf_moves L t0)"
  unfolding monitor_cleanup_def
proof (rule tri_catch[where E' = "\<lambda>t. wf_moves L t0 t \<and> row t k = Some x"])
  show "tri L t0 (\<lambda>t. wf_moves L t0 t \<and> row t k = Some x)
      (bind_rr (transition x ''recoverable_error'' (Some ''Physical reset verified; gateway cleanup failed'')
         (Some ''gateway_cleanup_failed'') (Some (take 500 (exn_str e))) now) (\<lambda>_. lift_rr (Inr ()))) (wf_moves L t0)" for e
    by (rule tri_bind_transition[where l = CleanupFailed]) (use assms in \<open>auto intro: tri_lift\<close>)
qed (rule tri_bind_silent[OF silent_steps(4)], rule tri_bind_silent[OF silent_database(1)], rule tri_bind_silent[OF silent_steps(9)],
    rule tri_bind_silent[OF silent_steps(11)], rule tri_bind_transition[where l = Ready],
    use assms in \<open>auto simp: tri_def lift_rr_def\<close>)

definition monitor_labels :: "wf_label set" where
  "monitor_labels = {Polled, Rebooting, ResetFailed, Verifying, Ready, CleanupFailed}"

lemma monitor_end_follows: "follows monitor_labels t0 (monitor_end env reset k i now)"
proof (cases "uo_physical_reset_complete reset")
  case True
  show ?thesis
    unfolding monitor_end_def
    by (rule tri_bind_get)
      (auto intro!: tri_bind_transition[where l = Verifying] monitor_cleanup_follows simp: monitor_labels_def True)
next
  case False
  show ?thesis
    unfolding monitor_end_def
    by (rule tri_bind_get)
      (auto intro!: tri_bind_transition[where l = ResetFailed] tri_lift simp: monitor_labels_def False)
qed

lemma wf_moves_mono: "wf_moves L t t' \<Longrightarrow> L \<subseteq> L' \<Longrightarrow> wf_moves L' t t'"
  unfolding wf_moves_def
proof (induction rule: rtranclp_induct)
  case (step y z)
  from step(2) step(4) have "wf_move L' y z" by (induction rule: wf_move.induct) (auto intro: wf_move.intros)
  with step show ?case by (meson rtranclp.rtrancl_into_rtrancl)
qed simp

text \<open>From the table a handler starts with.\<close>

lemma follows_run: "follows L (wf_abs a) m \<Longrightarrow> wf_moves L (wf_abs a) (wf_abs (snd (m a)))"
proof -
  assume f: "follows L (wf_abs a) m"
  obtain r a1 where m: "m a = (r, a1)" by fastforce
  have "wf_moves L (wf_abs a) (wf_abs a)" by (simp add: wf_moves_def)
  with f have "case m a of (Inl _, a') \<Rightarrow> wf_moves L (wf_abs a) (wf_abs a') | (Inr _, a') \<Rightarrow> wf_moves L (wf_abs a) (wf_abs a')"
    unfolding tri_def by simp
  with m show ?thesis by (cases r) simp_all
qed

lemma monitor_turn_moves: "wf_moves monitor_labels (wf_abs a) (wf_abs (snd (monitor_turn env k i told j now a)))"
proof (cases "get_operation (rr_reset a) i")
  case None
  then show ?thesis by (simp add: monitor_turn_def wf_moves_def)
next
  case (Some reset)
  have "wf_moves {Polled, Rebooting} (wf_abs a) (wf_abs (snd (bind_rr (monitor_report reset k told now) (\<lambda>rep. lift_rr (Inr (Some rep))) a)))"
    by (rule follows_run[OF tri_then_silent[OF silent_pure(1) monitor_report_follows]])
  then have "wf_moves monitor_labels (wf_abs a) (wf_abs (snd (bind_rr (monitor_report reset k told now) (\<lambda>rep. lift_rr (Inr (Some rep))) a)))"
    by (rule wf_moves_mono) (simp add: monitor_labels_def)
  moreover have "wf_moves monitor_labels (wf_abs a) (wf_abs (snd (bind_rr (monitor_end env reset k j now) (\<lambda>_. lift_rr (Inr (None :: string option option))) a)))"
    by (rule follows_run[OF tri_then_silent[OF silent_pure(1) monitor_end_follows]])
  ultimately show ?thesis
    using Some by (simp add: monitor_turn_def)
qed

lemma reconcile_unapplied_follows:
  assumes "NotApplied \<in> L" "wf_operation_id x = k"
  shows "tri L t0 (\<lambda>t. wf_moves L t0 t \<and> row t k = Some x) (reconcile_unapplied env x st now) (wf_moves L t0)"
proof -
  let ?fail = "lift_rr (Inl (WorkflowError ''gateway_identity_changed'' ''Gateway identity changed during reset reconciliation.''))"
  let ?n = "\<lambda>b. case device_by_pk (rr_db b) (wf_source_record_id x) of
      None \<Rightarrow> ?fail
    | Some device \<Rightarrow> if rd_archived device \<or> rd_hardware_id device \<noteq> Some (wf_hardware_id x) then ?fail
        else bind_rr (set_device device (reset_status ''not_requested'' now)) (\<lambda>_.
          bind_rr (transition
              (x\<lparr>wf_reset_operation_id := None, wf_result_json := dput (wf_result_json x) ''reconciliation''
                 (JObj [(''physical_reset_applied'', JBool False), (''node_id'', dget st ''node_id''), (''hardware_id'', dget st ''hardware_id''),
                    (''configuration_status'', dget st ''configuration_status'')])\<rparr>)
              ''configuration_backup_ready'' (Some ''Read-back verified that reset was not applied; explicit retry is safe'') None None now)
          (shown env))"
  have eq: "reconcile_unapplied env x st now a = ?n a a" for a
    by (simp add: reconcile_unapplied_def lift_rr_def split: option.split)
  have "tri L t0 (\<lambda>t. wf_moves L t0 t \<and> row t k = Some x) (?n b) (wf_moves L t0)" for b
    by (cases "device_by_pk (rr_db b) (wf_source_record_id x)")
      (use assms in \<open>auto intro!: tri_lift tri_bind_silent[OF silent_steps(9)] tri_bind_transition[where l = NotApplied] tri_shown\<close>)
  then show ?thesis using eq by (rule tri_at)
qed

lemma reconcile_applied_follows:
  assumes "Ready \<in> L" "wf_operation_id x = k"
  shows "tri L t0 (\<lambda>t. wf_moves L t0 t \<and> row t k = Some x) (reconcile_applied env x st i now) (wf_moves L t0)"
proof -
  have "silent (if b then lift_rr (Inr ()) else remove_rr d reason conn meth req i now)" for b d reason conn meth req
    using silent_pure(1) silent_database(1) by (cases b) simp_all
  then show ?thesis
    unfolding reconcile_applied_def
    by (intro tri_bind_silent[OF silent_steps(4)] tri_bind_silent[OF silent_steps(9)] tri_bind_transition[where l = Ready]
        tri_bind_silent[OF silent_steps(11)] tri_bind_silent[where m = "if _ then _ else _"])
      (use assms in \<open>auto intro: tri_shown\<close>)
qed

lemma reconcile_reset_follows: "follows {NotApplied, Ready} t0 (reconcile_reset env r k h i now)"
  unfolding reconcile_reset_def
  by (rule tri_bind_silent[OF silent_pure(4)], rule tri_handled, rule tri_bind_get, rule tri_bind_guard,
      rule tri_bind_silent[OF silent_steps(2)], rule tri_bind_silent[OF silent_scans(2)], rule tri_bind_guard)
    (auto intro!: reconcile_unapplied_follows reconcile_applied_follows tri_bind_lift tri_bind_guard)

lemma registration_check_state:
  "registration_check s x body = Inr () \<Longrightarrow> wf_guard Chosen x"
  by (simp add: registration_check_def split: if_splits)

lemma registration_follows: "follows {Chosen} t0 (registration env r k body suffix now)"
proof -
  let ?n = "\<lambda>x b. bind_rr (lift_rr (registration_check (rr_db b) x body)) (\<lambda>_.
       bind_rr (add_event (rr_event (rr_db b) (wf_operation_id x @ ''-choice-'' @ suffix) ''registration_choice'' (rc_device_id body)
           (rc_display_name body) (wf_hardware_id x) None ''unprovisioned'' ''accepted''
           [(''registration_choice'', JStr (rc_choice body))] now)) (\<lambda>_.
       bind_rr (transition (chosen body x) ''searching_for_reset_sensor_ble'' (Some ''Registration choice validated'') None None now)
       (shown env)))"
  have body: "tri {Chosen} t0 (\<lambda>t. wf_moves {Chosen} t0 t \<and> row t k = Some x) (?n x b) (wf_moves {Chosen} t0)"
    if "wf_operation_id x = k" for x b
  proof (rule tri_bind_lift)
    fix u assume "registration_check (rr_db b) x body = Inr u"
    then have g: "wf_guard Chosen x" using registration_check_state by simp
    show "tri {Chosen} t0 (\<lambda>t. wf_moves {Chosen} t0 t \<and> row t k = Some x)
      (bind_rr (add_event (rr_event (rr_db b) (wf_operation_id x @ ''-choice-'' @ suffix) ''registration_choice'' (rc_device_id body)
           (rc_display_name body) (wf_hardware_id x) None ''unprovisioned'' ''accepted''
           [(''registration_choice'', JStr (rc_choice body))] now)) (\<lambda>_.
       bind_rr (transition (chosen body x) ''searching_for_reset_sensor_ble'' (Some ''Registration choice validated'') None None now)
       (shown env))) (wf_moves {Chosen} t0)"
      by (rule tri_bind_silent[OF silent_steps(14)], rule tri_bind_transition[where l = Chosen and x = x and k = k])
        (use that g in \<open>auto intro: tri_shown simp del: wf_guard.simps\<close>)
  qed simp
  have main: "tri {Chosen} t0 (\<lambda>t. wf_moves {Chosen} t0 t \<and> row t k = Some x) (\<lambda>a. ?n x a a) (wf_moves {Chosen} t0)"
    if "wf_operation_id x = k" for x by (rule tri_at[where n = "?n x", OF body[OF that]]) (rule refl)
  show ?thesis
    unfolding registration_def
    by (rule tri_bind_silent[OF silent_pure(4)], rule tri_handled, rule tri_bind_get, rule main) simp_all
qed

lemma edit_registration_follows: "follows {Reopened} t0 (edit_registration env r k now)"
  unfolding edit_registration_def
  by (rule tri_bind_silent[OF silent_pure(4)], rule tri_handled, rule tri_bind_get, rule tri_bind_guard,
      rule tri_bind_transition[where l = Reopened])
    (auto intro: tri_shown)

lemma scan_ble_follows: "follows {Duplicates, Matched} t0 (scan_ble env r k detections clock slow world now)"
proof -
  let ?L = "{Duplicates, Matched}"
  have main: "tri ?L t0 (\<lambda>t. wf_moves ?L t0 t \<and> row t k = Some x)
      (bind_rr (if length matches > 1
           then transition x ''searching_for_reset_sensor_ble'' (Some ''Duplicate BLE identity claims blocked'') None None now
           else if length matches = 1
           then transition (x\<lparr>wf_target_ble_address := Some (cd_address (hd matches))\<rparr>) ''ble_identity_matched''
             (Some ''BLE identity matched the USB-verified sensor'') None None now
           else lift_rr (Inr x)) (\<lambda>y. lift_rr (g y))) (wf_moves ?L t0)" if "wf_operation_id x = k" for x matches g
  proof (intro tri_bind_if)
    show "tri ?L t0 (\<lambda>t. wf_moves ?L t0 t \<and> row t k = Some x)
      (bind_rr (transition x ''searching_for_reset_sensor_ble'' (Some ''Duplicate BLE identity claims blocked'') None None now)
        (\<lambda>y. lift_rr (g y))) (wf_moves ?L t0)"
      by (rule tri_bind_transition[where l = Duplicates]) (use that in \<open>auto intro: tri_lift\<close>)
    show "tri ?L t0 (\<lambda>t. wf_moves ?L t0 t \<and> row t k = Some x)
      (bind_rr (transition (x\<lparr>wf_target_ble_address := Some (cd_address (hd matches))\<rparr>) ''ble_identity_matched''
             (Some ''BLE identity matched the USB-verified sensor'') None None now) (\<lambda>y. lift_rr (g y))) (wf_moves ?L t0)"
      by (rule tri_bind_transition[where l = Matched]) (use that in \<open>auto intro: tri_lift\<close>)
  qed (auto intro: tri_bind_lift tri_lift)
  show ?thesis
    unfolding scan_ble_def Let_def case_prod_beta
    by (rule tri_bind_silent[OF silent_pure(4)], rule tri_handled, rule tri_bind_get, rule tri_bind_silent[OF silent_scans(3)],
        rule main) simp_all
qed

lemma select_ble_follows: "follows {Matched} t0 (select_ble env r k address clock slow world now)"
  unfolding select_ble_def
  by (rule tri_bind_silent[OF silent_pure(4)], rule tri_handled, rule tri_bind_get, rule tri_bind_silent[OF silent_steps(12)],
      rule tri_bind_guard, rule tri_bind_lift, rule tri_bind_lift, rule tri_bind_guard, rule tri_bind_guard,
      rule tri_bind_transition[where l = Matched])
    (auto intro: tri_shown)

definition provision_labels :: "wf_label set" where
  "provision_labels = {Provisioning, Provisioned, Registered, ProvisionFailed}"

lemma finish_registration_follows:
  assumes "Registered \<in> L" "wf_operation_id x = k" "wf_guard Registered x"
  shows "tri L t0 (\<lambda>t. wf_moves L t0 t \<and> row t k = Some x) (bind_rr (finish_registration env x device now) (shown env)) (wf_moves L t0)"
  unfolding finish_registration_def bind_rr_assoc
  by (rule tri_bind_silent[OF silent_events(1)], rule tri_bind_silent[OF silent_steps(13)], rule tri_bind_transition[where l = Registered])
    (use assms in \<open>auto intro: tri_shown\<close>)

lemma provision_body_follows: "follows provision_labels t0 (provision_body env locked world k tx i clock now)"
proof -
  have event: "silent (if b then lift_rr (Inr ()) else provision_event item target now)" for b item target
    using silent_pure(1) silent_events(2) by (cases b) simp_all
  show ?thesis
    unfolding provision_body_def Let_def
    by (rule tri_bind_get, rule tri_bind_guard, rule tri_bind_transition[where l = Provisioning])
      (auto intro!: tri_bind_lift tri_bind_guard tri_bind_silent[OF event] tri_bind_transition[where l = Provisioned]
        tri_bind_silent[OF silent_registered] finish_registration_follows simp: provision_labels_def)
qed

lemma provision_recover_moves:
  "wf_moves L t0 (wf_abs a) \<Longrightarrow> ProvisionFailed \<in> L \<Longrightarrow> wf_moves L t0 (wf_abs (provision_recover k e now a))"
proof (cases "find_workflow (rr_db a) k")
  case None
  then show "wf_moves L t0 (wf_abs a) \<Longrightarrow> ?thesis" by (simp add: provision_recover_def get_workflow_def)
next
  case (Some x)
  assume m: "wf_moves L t0 (wf_abs a)" and l: "ProvisionFailed \<in> L"
  have "tri L t0 (\<lambda>t. wf_moves L t0 t \<and> row t k = Some x)
      (bind_rr (transition x ''recoverable_error'' p c msg now) (\<lambda>_. lift_rr (Inr ()))) (wf_moves L t0)" for p c msg
    by (rule tri_bind_transition[where l = ProvisionFailed]) (use l find_workflow_key[OF Some] in \<open>auto intro: tri_lift\<close>)
  moreover have "row (wf_abs a) k = Some x" using Some by (simp add: wf_abs_def find_workflow_def)
  ultimately have "wf_moves L t0 (wf_abs (snd (transition x ''recoverable_error'' p c msg now a)))" for p c msg
    using m by (fastforce simp: tri_def bind_rr_def lift_rr_def transition_def STATES_def Let_def)
  then show ?thesis using Some by (simp add: provision_recover_def get_workflow_def Let_def)
qed

lemma provision_handler_follows: "follows provision_labels t0 (provision_handler env r locked world k tx i clock now)"
  unfolding provision_handler_def
proof (rule tri_bind_silent[OF silent_pure(4)])
  let ?h = "\<lambda>e a. if provision_caught e then (Inl (provision_http e), provision_recover k e now a) else (Inl e, a)"
  have "tri provision_labels t0 (wf_moves provision_labels t0) (?h e) (wf_moves provision_labels t0)" for e
    using provision_recover_moves[of provision_labels t0] by (simp add: tri_def provision_labels_def)
  then show "tri provision_labels t0 (wf_moves provision_labels t0)
      (catch_rr (provision_body env locked world k tx i clock now) ?h) (wf_moves provision_labels t0)"
    by (rule tri_catch[OF provision_body_follows])
qed simp

lemma verify_network_follows: "follows {Waiting, Completed} t0 (verify_network env r k now)"
proof -
  let ?L = "{Waiting, Completed}"
  have body: "tri ?L t0 (\<lambda>t. wf_moves ?L t0 t \<and> row t k = Some x) (verify_body env x now s) (wf_moves ?L t0)"
    if key: "wf_operation_id x = k" for x s
  proof (cases "get_device s (case wf_target_device_id x of None \<Rightarrow> '''' | Some t \<Rightarrow> t)")
    case None
    then show ?thesis by (auto simp: verify_body_def intro: tri_lift)
  next
    case (Some device)
    show ?thesis
    proof (cases "network_verified s x device")
      case True
      show ?thesis unfolding verify_body_def Some option.case
        by (auto simp: True key intro!: tri_lift tri_bind_transition[where l = Completed] tri_shown)
    next
      case False
      show ?thesis unfolding verify_body_def Some option.case
        by (auto simp: False key intro!: tri_lift tri_bind_transition[where l = Waiting] tri_shown)
    qed
  qed
  have main: "tri ?L t0 (\<lambda>t. wf_moves ?L t0 t \<and> row t k = Some x) (\<lambda>a. verify_body env x now (rr_db a) a) (wf_moves ?L t0)"
    if "wf_operation_id x = k" for x
    by (rule tri_at[where n = "\<lambda>a. verify_body env x now (rr_db a)", OF body[OF that]]) (rule refl)
  show ?thesis
    unfolding verify_network_def
    by (rule tri_bind_silent[OF silent_pure(4)], rule tri_handled, rule tri_bind_get, rule main) simp_all
qed

section \<open>The program as a transition system\<close>

lemma start_handler_moves:
  assumes "find_workflow (rr_db a) i = None"
  shows "wf_moves {} (wf_abs a) (wf_abs (snd (start_handler env r d i now a)))"
proof -
  have "wf_abs (snd (start_handler env r d i now a)) = wf_abs a
    \<or> (\<exists>device. truthy (rd_hardware_id device)
         \<and> wf_abs (snd (start_handler env r d i now a)) = (fst (wf_abs a) @ [new_workflow (ev_isoformat env) device i now], snd (wf_abs a)))"
    by (auto simp: start_handler_def bind_rr_def handled_def rr_protect_def lift_rr_def active_device_def start_workflow_def shown_def
        wf_abs_def Let_def split: prod.splits sum.splits option.splits list.splits if_splits)
  moreover have "row (wf_abs a) i = None" using assms by (simp add: wf_abs_def find_workflow_def)
  ultimately show ?thesis
    unfolding wf_moves_def by (metis prod.collapse r_into_rtranclp rtranclp.rtrancl_refl wf_move.added)
qed

lemma quiet_handlers:
  "silent (associate_usb env r d body now)" "silent (detect_usb env r k)" "silent (status_handler env k)"
proof -
  have get: "silent (get_workflow k)" for k
    by (rule silentI) (simp add: get_workflow_def split: option.split)
  have assoc: "silent (\<lambda>a. if p a then (Inl e1, a) else if q a then (Inl e2, a) else associate_device h device now a)" for p q e1 e2 h device
    using silent_database(5)[of h device now] by (auto intro!: silentI simp: silent_def)
  show "silent (associate_usb env r d body now)"
    unfolding associate_usb_def
    by (intro silent_bind silent_pure silent_steps silent_handled assoc)
  show "silent (detect_usb env r k)"
    unfolding detect_usb_def by (intro silent_bind silent_pure silent_steps silent_handled silent_scans get)
  show "silent (status_handler env k)"
    unfolding status_handler_def by (intro silent_handled silent_bind get silent_pure)
qed

text \<open>One request, one turn of a watching task, or anything the other components do: they share the rest of the state, but not the
  workflows and the confirmations of the workflow.\<close>

inductive rr_step :: "rr_env \<Rightarrow> rr_app \<Rightarrow> rr_app \<Rightarrow> bool" for env where
  "find_workflow (rr_db a) i = None \<Longrightarrow> rr_step env a (snd (start_handler env r d i now a))"
| "rr_step env a (snd (associate_usb env r d selection now a))"
| "rr_step env a (snd (detect_usb env r k a))"
| "rr_step env a (snd (select_usb env r k selection now a))"
| "rr_step env a (snd (backup_handler env r k now a))"
| "rr_step env a (snd (prepare_reset env r k body token clock now a))"
| "rr_step env a (snd (execute_reset_rr env r k body i clock now a))"
| "rr_step env a (snd (cancel_reset_rr env r k body now a))"
| "rr_step env a (snd (monitor_turn env k i told j now a))"
| "rr_step env a (snd (reconcile_reset env r k h i now a))"
| "rr_step env a (snd (registration env r k choice suffix now a))"
| "rr_step env a (snd (edit_registration env r k now a))"
| "rr_step env a (snd (scan_ble env r k detections clock slow world now a))"
| "rr_step env a (snd (select_ble env r k address clock slow world now a))"
| "rr_step env a (snd (provision_handler env r locked world k tx i clock now a))"
| "rr_step env a (snd (verify_network env r k now a))"
| elsewhere: "wf_abs a' = wf_abs a \<Longrightarrow> rr_step env a a'"

definition unfinished_labels :: "wf_label set" where
  "unfinished_labels = - {Completed}"

lemma rr_step_moves:
  assumes "rr_step env a a'" "table_ok (wf_abs a)"
  shows "wf_moves unfinished_labels (wf_abs a) (wf_abs a')
    \<or> (\<exists>r k now. a' = snd (verify_network env r k now a))"
proof -
  have labels: "{} \<subseteq> unfinished_labels" "{Selected} \<subseteq> unfinished_labels" "{BackedUp} \<subseteq> unfinished_labels"
    "{Confirming} \<subseteq> unfinished_labels" "{Launched} \<subseteq> unfinished_labels" "{Cancelled} \<subseteq> unfinished_labels"
    "monitor_labels \<subseteq> unfinished_labels" "{NotApplied, Ready} \<subseteq> unfinished_labels" "{Chosen} \<subseteq> unfinished_labels"
    "{Reopened} \<subseteq> unfinished_labels" "{Duplicates, Matched} \<subseteq> unfinished_labels" "{Matched} \<subseteq> unfinished_labels"
    "provision_labels \<subseteq> unfinished_labels"
    by (auto simp: unfinished_labels_def monitor_labels_def provision_labels_def)
  note up = wf_moves_mono[OF follows_run]
  note moves = wf_moves_mono[OF start_handler_moves labels(1)] up[OF select_usb_follows labels(2)] up[OF backup_handler_follows labels(3)]
    up[OF prepare_reset_follows labels(4)] up[OF execute_reset_follows[OF assms(2)] labels(5)]
    up[OF cancel_reset_follows[OF assms(2)] labels(6)] wf_moves_mono[OF monitor_turn_moves labels(7)]
    up[OF reconcile_reset_follows labels(8)] up[OF registration_follows labels(9)] up[OF edit_registration_follows labels(10)]
    up[OF scan_ble_follows labels(11)] up[OF select_ble_follows labels(12)] up[OF provision_handler_follows labels(13)]
  have refl: "wf_moves unfinished_labels t t" for t by (simp add: wf_moves_def)
  from assms(1) show ?thesis
    by cases (auto simp: moves refl quiet_handlers[unfolded silent_def])
qed

lemma verify_network_cases:
  assumes "verify_network env r k now a = (res, a')"
  shows "wf_abs a' = wf_abs a \<or> (\<exists>x device p. find_workflow (rr_db a) k = Some x
    \<and> get_device (rr_db a) (case wf_target_device_id x of None \<Rightarrow> '''' | Some t \<Rightarrow> t) = Some device
    \<and> \<not> rd_archived device \<and> rd_enabled device \<and> rd_hardware_id device = Some (wf_hardware_id x)
    \<and> wf_abs a' = (upd_rows (\<lambda>z. wf_operation_id z = k) (\<lambda>_. transition_values
        (if network_verified (rr_db a) x device then ''complete'' else ''network_verification_in_progress'') p None None now
        (x\<lparr>wf_result_json := network_result (rr_db a) x device\<rparr>)) (fst (wf_abs a)), snd (wf_abs a)))"
proof (cases "\<exists>x. rr_protect env r False a = (Inr (), a) \<and> find_workflow (rr_db a) k = Some x")
  case False
  then have "a' = a"
    using assms by (auto simp: verify_network_def bind_rr_def handled_def rr_protect_def lift_rr_def get_workflow_def
        split: sum.splits option.splits)
  then show ?thesis by simp
next
  case True
  then obtain x where x: "rr_protect env r False a = (Inr (), a)" "find_workflow (rr_db a) k = Some x" by blast
  then have run: "a' = snd (verify_body env x now (rr_db a) a)"
    using assms by (auto simp: verify_network_def bind_rr_def handled_def get_workflow_def split: prod.splits sum.splits)
  have key: "wf_operation_id x = k" by (rule find_workflow_key[OF x(2)])
  show ?thesis
  proof (cases "\<exists>device. get_device (rr_db a) (case wf_target_device_id x of None \<Rightarrow> '''' | Some t \<Rightarrow> t) = Some device
      \<and> \<not> rd_archived device \<and> rd_enabled device \<and> rd_hardware_id device = Some (wf_hardware_id x)")
    case False
    then have "a' = a" using run by (auto simp: verify_body_def lift_rr_def split: option.splits)
    then show ?thesis by simp
  next
    case True
    then obtain device where d: "get_device (rr_db a) (case wf_target_device_id x of None \<Rightarrow> '''' | Some t \<Rightarrow> t) = Some device"
      "\<not> rd_archived device" "rd_enabled device" "rd_hardware_id device = Some (wf_hardware_id x)" by blast
    have "wf_abs (snd (bind_rr (transition y st p None None now) (shown env) a)) =
        (upd_rows (\<lambda>z. wf_operation_id z = k) (\<lambda>_. transition_values st p None None now y) (fst (wf_abs a)), snd (wf_abs a))"
      if "st \<in> set STATES" "wf_operation_id y = k" for y st p
      using that by (simp add: bind_rr_def transition_def Let_def shown_def lift_rr_def wf_abs_def upd_workflow_def)
    from this[of "if network_verified (rr_db a) x device then ''complete'' else ''network_verification_in_progress''"
        "x\<lparr>wf_result_json := network_result (rr_db a) x device\<rparr>"] key
    have "\<exists>p. wf_abs a' = (upd_rows (\<lambda>z. wf_operation_id z = k) (\<lambda>_. transition_values
        (if network_verified (rr_db a) x device then ''complete'' else ''network_verification_in_progress'') p None None now
        (x\<lparr>wf_result_json := network_result (rr_db a) x device\<rparr>)) (fst (wf_abs a)), snd (wf_abs a))"
      unfolding run verify_body_def d(1) option.case using d(2-4) by (auto simp: STATES_def)
    with x(2) d show ?thesis by blast
  qed
qed

lemma step_table_ok: "rr_step env a a' \<Longrightarrow> table_ok (wf_abs a) \<Longrightarrow> table_ok (wf_abs a')"
  using rr_step_moves[of env a a'] wf_moves_ok wf_moves_ok[OF follows_run[OF verify_network_follows]] by blast

definition no_workflows :: "rr_app \<Rightarrow> bool" where
  "no_workflows a = (reregistration_workflows (rr_db a) = [] \<and> rr_confirmations a = Map.empty)"

text \<open>C9. However requests, watching tasks and the other components are interleaved, the workflows stay consistent: their identifiers are
  unique and each is in a declared state with at most 40 progress entries; one whose reset was launched has a complete backup,
  one with a configuration knows its target; and a reset confirmation is ready only for a workflow with a complete backup.\<close>

theorem workflows_consistent:
  assumes "reachable_from no_workflows (rr_step env) a"
  shows "distinct (map wf_operation_id (reregistration_workflows (rr_db a)))
    \<and> (\<forall>x \<in> set (reregistration_workflows (rr_db a)). wf_state x \<in> set STATES \<and> length (wf_progress_json x) \<le> 40
         \<and> (wf_reset_operation_id x \<noteq> None \<longrightarrow> wf_backup_status x = ''complete'' \<and> wf_backup_json x \<noteq> None)
         \<and> (wf_configuration_json x \<noteq> None \<longleftrightarrow> wf_target_device_id x \<noteq> None))
    \<and> (\<forall>k token. rr_confirmations a k = Some token \<longrightarrow>
         (\<exists>x. find_workflow (rr_db a) k = Some x \<and> wf_backup_status x = ''complete'' \<and> wf_backup_json x \<noteq> None))"
proof -
  from assms have "table_ok (wf_abs a)"
  proof (induction rule: reachable_from.induct)
    case (begin_at a)
    then show ?case by (simp add: no_workflows_def wf_abs_def table_ok_def)
  next
    case (move_to a b)
    then show ?case by (blast intro: step_table_ok)
  qed
  then show ?thesis
    by (fastforce simp: table_ok_def wf_abs_def list_all_iff workflow_ok_def find_workflow_def dest: find_row_SomeD)
qed

section \<open>When a workflow is complete\<close>

lemma label_state_complete [simp]: "label_state l = ''complete'' \<longleftrightarrow> l = Completed"
  by (cases l) simp_all

lemma find_row_other:
  assumes "wf_operation_id y = k" "k' \<noteq> k"
  shows "find_row (\<lambda>z. wf_operation_id z = k') (upd_rows (\<lambda>z. wf_operation_id z = k) (\<lambda>_. y) xs) = find_row (\<lambda>z. wf_operation_id z = k') xs"
  using assms by (induction xs) auto

lemma wf_move_complete:
  assumes "wf_move L t t'" "Completed \<notin> L" "row t' k = Some y" "wf_state y = ''complete''"
  shows "\<exists>x. row t k = Some x \<and> wf_state x = ''complete''"
  using assms
proof (induction rule: wf_move.induct)
  case (added device i xs L c fmt now)
  then show ?case by (auto simp: find_row_append new_workflow_def split: option.splits if_splits)
next
  case (moved l L i xs x z c entry code msg now)
  let ?z = "transition_values (label_state l) entry code msg now z"
  have key: "wf_operation_id ?z = i" using find_row_SomeD[OF moved(2)] wf_update_key[OF moved(4)] by simp
  show ?case
  proof (cases "k = i")
    case True
    with moved(6) row_moved[OF _ key, of "(xs, c)" x c] moved(2) have "y = ?z" by simp
    with moved(1,5,7) show ?thesis by auto
  next
    case False
    with moved(6,7) find_row_other[OF key False, of xs] show ?thesis by auto
  qed
qed auto

lemma wf_moves_complete:
  assumes "wf_moves L t t'" "Completed \<notin> L" "row t' k = Some y" "wf_state y = ''complete''"
  shows "\<exists>x. row t k = Some x \<and> wf_state x = ''complete''"
  using assms(1,3,4) unfolding wf_moves_def
proof (induction arbitrary: y rule: rtranclp_induct)
  case (step t1 t2)
  from wf_move_complete[OF step(2) assms(2) step(4,5)] step(3) show ?case by blast
qed blast

text \<open>C12. A workflow becomes complete only on evidence: at that moment its target is registered, active and enabled under the hardware identity
  the workflow verified over USB, its node is connected, and a reading of it has been stored since the workflow started.\<close>

theorem complete_on_evidence:
  assumes "table_ok (wf_abs a)" and "rr_step env a a'"
    and "find_workflow (rr_db a') k = Some y" and "wf_state y = ''complete''"
  shows "(\<exists>x. find_workflow (rr_db a) k = Some x \<and> wf_state x = ''complete'')
    \<or> (\<exists>x device reading. find_workflow (rr_db a) k = Some x
         \<and> get_device (rr_db a) (case wf_target_device_id x of None \<Rightarrow> '''' | Some t \<Rightarrow> t) = Some device
         \<and> \<not> rd_archived device \<and> rd_enabled device \<and> rd_hardware_id device = Some (wf_hardware_id x)
         \<and> rd_connection_status device = ''connected'' \<and> reading \<in> set (readings (rr_db a))
         \<and> rg_registered_device_id reading = rd_id device \<and> wf_started_at x \<le> rg_received_at reading)"
proof -
  have row: "row (wf_abs b) i = find_workflow (rr_db b) i" for b i by (simp add: wf_abs_def find_workflow_def)
  consider "wf_moves unfinished_labels (wf_abs a) (wf_abs a')" | (verify) r i now where "a' = snd (verify_network env r i now a)"
    using rr_step_moves[OF assms(2,1)] by blast
  then show ?thesis
  proof cases
    case 1
    from wf_moves_complete[OF this, of k y] assms(3,4) show ?thesis by (simp add: row unfinished_labels_def)
  next
    case verify
    obtain res where "verify_network env r i now a = (res, a')" using verify by (metis prod.collapse)
    from verify_network_cases[OF this] show ?thesis
    proof (elim disjE exE conjE)
      assume "wf_abs a' = wf_abs a"
      with assms(3,4) show ?thesis by (metis row)
    next
      fix x device p
      let ?z = "transition_values (if network_verified (rr_db a) x device then ''complete'' else ''network_verification_in_progress'') p None None now
        (x\<lparr>wf_result_json := network_result (rr_db a) x device\<rparr>)"
      assume x: "find_workflow (rr_db a) i = Some x" and d: "get_device (rr_db a) (case wf_target_device_id x of None \<Rightarrow> '''' | Some t \<Rightarrow> t) = Some device"
        "\<not> rd_archived device" "rd_enabled device" "rd_hardware_id device = Some (wf_hardware_id x)"
        and t: "wf_abs a' = (upd_rows (\<lambda>z. wf_operation_id z = i) (\<lambda>_. ?z) (fst (wf_abs a)), snd (wf_abs a))"
      have key: "wf_operation_id ?z = i" using find_workflow_key[OF x] by simp
      show ?thesis
      proof (cases "k = i")
        case True
        with row_moved[OF _ key, of "wf_abs a" x "snd (wf_abs a)"] x assms(3) have "y = ?z" unfolding row[symmetric] t by simp
        with assms(4) have "network_verified (rr_db a) x device" by (auto split: if_splits)
        with x d True show ?thesis by (auto simp: network_verified_def)
      next
        case False
        have "find_workflow (rr_db a') k = find_workflow (rr_db a) k"
          unfolding row[symmetric] t fst_conv by (rule find_row_other[OF key False])
        with assms(3,4) show ?thesis by simp
      qed
    qed
  qed
qed

section \<open>When a reset is launched\<close>

lemma transition_Inr_iff:
  "transition x st p c m now a = (Inr y, a') \<longleftrightarrow> st \<in> set STATES \<and> y = transition_values st p c m now x
     \<and> a' = a\<lparr>rr_db := upd_workflow (rr_db a) (wf_operation_id x) (\<lambda>_. y)\<rparr>"
  by (auto simp: transition_def Let_def)

lemma authorize_rr_Inr:
  "authorize_rr token target clock a = (Inr u, a') \<longleftrightarrow> (\<exists>expires. ra_confirmations (rr_reset a) token = Some (target, expires) \<and> clock < expires)
     \<and> a' = a\<lparr>rr_reset := (rr_reset a)\<lparr>ra_confirmations := (ra_confirmations (rr_reset a))(token := None)\<rparr>\<rparr>"
  by (auto simp: authorize_rr_def reset_authorize_def split: option.splits if_splits)

lemma launch_rr_Inr:
  "launch_rr target i a = (Inr op, a') \<longleftrightarrow> tg_hardware_id target \<notin> set (ra_running (rr_reset a)) \<and> op = new_operation target i
     \<and> a' = a\<lparr>rr_reset := (rr_reset a)\<lparr>ra_operations := ra_operations (rr_reset a) @ [op],
           ra_running := tg_hardware_id target # ra_running (rr_reset a)\<rparr>\<rparr>"
  by (auto simp: launch_rr_def reset_launch_def)

text \<open>C11. A reset is launched only on a fresh, matching confirmation: the workflow has a complete backup, the operator has typed the hardware
  identity on the port that was verified, and the reset service holds an unexpired token for exactly this record, sensor, hardware and port.
  What is launched has this target, and the token cannot be used again.\<close>

theorem reset_launched_only_confirmed:
  assumes "table_ok (wf_abs a)" and "execute_reset_rr env r k body i clock now a = (Inr d, a')"
  shows "\<exists>x token expires. find_workflow (rr_db a) k = Some x \<and> wf_backup_status x = ''complete'' \<and> wf_backup_json x \<noteq> None
    \<and> us_typed_hardware_id body = wf_hardware_id x \<and> wf_selected_port x = Some (us_port body)
    \<and> rr_confirmations a k = Some token
    \<and> ra_confirmations (rr_reset a) token = Some (reset_target_of x (us_port body), expires) \<and> clock < expires
    \<and> ra_operations (rr_reset a') = ra_operations (rr_reset a) @ [new_operation (reset_target_of x (us_port body)) i]
    \<and> rr_confirmations a' k = None \<and> ra_confirmations (rr_reset a') token = None
    \<and> (\<exists>y. find_workflow (rr_db a') k = Some y \<and> wf_reset_operation_id y = Some i \<and> wf_state y = ''reset_in_progress'')"
proof -
  let ?y = "\<lambda>x. transition_values ''reset_in_progress'' (Some ''Factory reset accepted by the USB service'') None None now
    (x\<lparr>wf_reset_operation_id := Some i\<rparr>)"
  have op_id: "uo_operation_id (new_operation target i) = i" for target by (simp add: new_operation_def)
  have "\<exists>x token expires (device :: registered_device). find_workflow (rr_db a) k = Some x \<and> rr_confirmations a k = Some token
    \<and> us_typed_hardware_id body = wf_hardware_id x \<and> wf_selected_port x = Some (us_port body)
    \<and> ra_confirmations (rr_reset a) token = Some (reset_target_of x (us_port body), expires) \<and> clock < expires
    \<and> ra_operations (rr_reset a') = ra_operations (rr_reset a) @ [new_operation (reset_target_of x (us_port body)) i]
    \<and> rr_confirmations a' k = None \<and> ra_confirmations (rr_reset a') token = None
    \<and> rr_db a' = upd_workflow (upd_device (rr_db a) (rd_device_id device) (reset_status ''reset_pending'' now)) (wf_operation_id x) (\<lambda>_. ?y x)"
    using assms(2)
    by (clarsimp simp: execute_reset_rr_def bind_rr_Inr_iff rr_protect_def pop_confirmation_def get_workflow_Inr_iff confirmation_matches_def
        authorize_rr_Inr launch_rr_Inr transition_Inr_iff source_record_def set_device_def monitor_task_def shown_def op_id truthy_def
        split: option.splits) blast
  then obtain x token expires and device :: registered_device where x: "find_workflow (rr_db a) k = Some x" and t: "rr_confirmations a k = Some token"
    and m: "us_typed_hardware_id body = wf_hardware_id x" "wf_selected_port x = Some (us_port body)"
    and c: "ra_confirmations (rr_reset a) token = Some (reset_target_of x (us_port body), expires)" "clock < expires"
    and a': "ra_operations (rr_reset a') = ra_operations (rr_reset a) @ [new_operation (reset_target_of x (us_port body)) i]"
      "rr_confirmations a' k = None" "ra_confirmations (rr_reset a') token = None"
    and y: "rr_db a' = upd_workflow (upd_device (rr_db a) (rd_device_id device) (reset_status ''reset_pending'' now)) (wf_operation_id x) (\<lambda>_. ?y x)"
    by blast
  have key: "wf_operation_id x = k" by (rule find_workflow_key[OF x])
  from assms(1) t x have b: "wf_backup_status x = ''complete''" by (auto simp: table_ok_def wf_abs_def find_workflow_def)
  have "x \<in> set (reregistration_workflows (rr_db a))" using x by (auto simp: find_workflow_def dest: find_row_SomeD)
  with assms(1) b have "wf_backup_json x \<noteq> None" by (auto simp: table_ok_def wf_abs_def list_all_iff workflow_ok_def)
  moreover have "find_workflow (rr_db a') k = Some (?y x)"
    using row_moved[where t = "(reregistration_workflows (rr_db a), Map.empty)" and k = k and x = x and y = "?y x"] x key unfolding y
    by (simp add: find_workflow_def upd_workflow_def)
  ultimately show ?thesis using x t m c a' b by (intro exI[of _ x] exI[of _ token] exI[of _ expires]) simp
qed

section \<open>What a registered sensor has shown\<close>

lemma provision_shows_identity:
  assumes "Ble_Provisioning.provision n locked node_id tx configuration (Some i) w = (Inr p, w')"
  shows "shows_identity w i"
proof -
  have "provision_exchange n node_id (map ascii_upper_char tx) configuration (Some i) w = (Inr p, w')"
    using assms by (simp add: Ble_Provisioning.provision_def split: if_splits)
  then obtain metadata capabilities w1 where "prepare_node (Some i) w = (Inr (metadata, capabilities), w1)"
    unfolding provision_exchange_def Let_def bind_ble_Inr_iff
    by (elim exE conjE) (simp split: if_splits add: bind_ble_Inr_iff, blast)
  from prepare_node_Inr(2)[OF this refl] show ?thesis .
qed

lemma ble_readback_Inr:
  assumes "ble_readback env locked world tx False x address target configuration = Inr readback"
  shows "\<exists>i. derive_onboarding_identity (ev_sha256 env) (wf_hardware_id x) = Inr i \<and> shows_identity (world address) i
    \<and> reads_back (world address) target (take 16 (wf_operation_id x)) configuration readback"
proof -
  obtain i p where i: "derive_onboarding_identity (ev_sha256 env) (wf_hardware_id x) = Inr i" "readback = pv_readback p"
    and p: "fst (Ble_Provisioning.provision (ev_patience env) (locked address) target (take 16 (wf_operation_id x)) configuration (Some i) (world address)) = Inr p"
    using assms by (auto simp: ble_readback_def bind_result_Inr_iff)
  then obtain w' where run: "Ble_Provisioning.provision (ev_patience env) (locked address) target (take 16 (wf_operation_id x)) configuration (Some i) (world address) = (Inr p, w')"
    by (metis prod.collapse)
  with i provision_shows_identity[OF run] provision_Inr[OF run] show ?thesis by blast
qed

lemma get_device_devices: "registered_devices s = registered_devices s' \<Longrightarrow> get_device s k = get_device s' k"
  by (simp add: get_device_def)

lemma new_registration_Inr:
  assumes "new_registration env x address target clock now a = (Inr device, a')"
  shows "get_device (rr_db a) target = None \<and> get_device (rr_db a') target = Some device \<and> rd_device_id device = target
    \<and> rd_hardware_id device = Some (wf_hardware_id x) \<and> rd_ble_address device = Some address \<and> \<not> rd_archived device"
proof -
  obtain found a1 d a2 where l: "look_up address clock a = (Inr found, a1)"
    and reg: "register_rr env (registration_request x address target)
      ((case found of None \<Rightarrow> readback_discovery address target now | Some d \<Rightarrow> d)\<lparr>dc_stable_device_id := Some target\<rparr>) now a1 = (Inr d, a2)"
    and i: "identify_rr x d now a2 = (Inr device, a')"
    using assms by (auto simp: new_registration_def bind_rr_Inr_iff)
  let ?r = "registration_request x address target"
  let ?f = "(case found of None \<Rightarrow> readback_discovery address target now | Some d \<Rightarrow> d)\<lparr>dc_stable_device_id := Some target\<rparr>"
  have db: "rr_db a1 = rr_db a" using l by (auto simp: look_up_def split: prod.splits)
  have created: "device_register (ev_device_id_pattern env) (rr_db a) ?r ?f now = (Inr d, rr_db a2)"
    using reg db by (auto simp: register_rr_def split: if_splits prod.splits)
  have addr: "dc_address ?f = address"
    using created by (auto simp: device_register_def registration_request_def split: if_splits)
  note row = register_creates(4)[OF created]
  obtain j where d: "d = registration_values ?r ?f (device_defaults j now)" using device_create_row_value[OF row] by blast
  have id: "rd_device_id d = target" "rd_ble_address d = Some address" "\<not> rd_archived d"
    using addr by (simp_all add: d registration_request_def device_defaults_def)
  have before: "get_device (rr_db a) target = None" using device_create_row_Inr(2)[OF row] id by simp
  have now: "get_device (rr_db a2) target = Some d"
    using device_create_row_Inr(1)[OF row] before id by (simp add: get_device_def find_row_append)
  obtain s where upd: "device_update_row (rr_db a2) d (\<lambda>d. d\<lparr>rd_hardware_id := Some (wf_hardware_id x), rd_factory_reset_status := ''complete''\<rparr>) now = (Inr device, s)"
    "rr_db a' = s" using i by (auto simp: identify_rr_def split: prod.splits)
  then have device: "device = d\<lparr>rd_hardware_id := Some (wf_hardware_id x), rd_factory_reset_status := ''complete'', rd_updated_at := now\<rparr>"
    and s: "s = upd_device (rr_db a2) (rd_device_id d) (\<lambda>_. device)"
    by (auto simp: device_update_row_def Let_def split: if_splits)
  have "get_device s target = Some device"
  proof -
    have same: "rd_device_id device = target" using device id by simp
    have "find_row (\<lambda>d. rd_device_id d = target) (upd_rows (\<lambda>d. rd_device_id d = target) (\<lambda>_. device) rows) =
        map_option (\<lambda>_. device) (find_row (\<lambda>d. rd_device_id d = target) rows)" for rows
      using same by (induction rows) auto
    then show ?thesis using now id unfolding s by (simp add: get_device_def upd_device_def)
  qed
  with before device id upd(2) show ?thesis by simp
qed

lemma devices_frame:
  "transition x st p c m now a = (u, a') \<Longrightarrow> registered_devices (rr_db a') = registered_devices (rr_db a)"
  "add_event ev a = (v, a') \<Longrightarrow> registered_devices (rr_db a') = registered_devices (rr_db a)"
  by (auto simp: transition_def upd_workflow_def Let_def add_event_def split: if_splits)

lemma network_event_devices:
  "network_event x device now a = (v, a') \<Longrightarrow> registered_devices (rr_db a') = registered_devices (rr_db a)"
  by (auto simp: network_event_def Let_def dest: devices_frame(2) split: if_splits)

lemma finish_registration_Inr:
  assumes "finish_registration env x device now a = (Inr y, a')" and "row (wf_abs a) (wf_operation_id x) = Some x"
  shows "registered_devices (rr_db a') = registered_devices (rr_db a) \<and> find_workflow (rr_db a') (wf_operation_id x) = Some y
    \<and> wf_state y = ''network_verification_in_progress'' \<and> map_of (rr_connections a') (rd_device_id device) \<noteq> None"
proof -
  let ?x = "x\<lparr>wf_result_json := dput (dput (wf_result_json x) ''registered_record_id'' (JInt (rd_id device)))
         ''gateway_registration'' (JStr ''active'')\<rparr>"
  obtain u a1 v a2 where e: "network_event x device now a = (Inr u, a1)" and s: "schedule_rr env device a1 = (Inr v, a2)"
    and t: "transition ?x ''network_verification_in_progress'' (Some ''Gateway registration is active'') None None now a2 = (Inr y, a')"
    using assms(1) by (auto simp: finish_registration_def bind_rr_Inr_iff)
  have "wf_abs a2 = wf_abs a" using silentD[OF silent_events(1) e] silentD[OF silent_steps(13) s] by simp
  with t assms(2) have "find_workflow (rr_db a') (wf_operation_id x) = Some y"
    using row_moved[where t = "wf_abs a2" and k = "wf_operation_id x" and x = x and y = y]
    by (auto simp: transition_Inr_iff wf_abs_def find_workflow_def upd_workflow_def)
  moreover have "registered_devices (rr_db a') = registered_devices (rr_db a)"
    using network_event_devices[OF e] s devices_frame(1)[OF t] by (auto simp: schedule_rr_def)
  moreover have "map_of (rr_connections a') (rd_device_id device) \<noteq> None"
  proof -
    have "map_of (put_connection k c m) k \<noteq> None" for k c m
    proof (cases "map_of m k")
      case None
      then show ?thesis by (simp add: put_connection_def map_add_def)
    next
      case (Some z)
      then have "k \<in> fst ` set m" by (metis domI dom_map_of_conv_image_fst)
      then have "k \<in> fst ` set (put_connection k c m)" using Some by (force simp: put_connection_def)
      then show ?thesis by (simp add: map_of_eq_None_iff)
    qed
    then have "map_of (schedule cfg m k address) k \<noteq> None" for cfg m k address by (simp add: schedule_def split: option.split)
    then show ?thesis using s t by (auto simp: schedule_rr_def transition_Inr_iff)
  qed
  ultimately show ?thesis using t by (simp add: transition_Inr_iff)
qed

lemma provision_body_Inr:
  assumes "provision_body env locked world k tx i clock now a = (Inr d, a')"
  shows "\<exists>x address target configuration readback x1 a3 device a4 y. find_workflow (rr_db a) k = Some x
    \<and> wf_target_ble_address x = Some address \<and> wf_target_device_id x = Some target \<and> wf_configuration_json x = Some configuration
    \<and> ble_readback env locked world tx (already_provisioned x) x address target configuration = Inr readback
    \<and> registered_devices (rr_db a3) = registered_devices (rr_db a) \<and> row (wf_abs a3) k = Some x1
    \<and> wf_operation_id x1 = k \<and> wf_registration_choice x1 = wf_registration_choice x \<and> wf_hardware_id x1 = wf_hardware_id x
    \<and> registered env x1 address target i clock now a3 = (Inr device, a4) \<and> finish_registration env x1 device now a4 = (Inr y, a')"
proof -
  obtain x where x: "find_workflow (rr_db a) k = Some x" and g: "truthy (wf_target_ble_address x)" "wf_configuration_json x \<noteq> None"
    and run: "bind_rr (transition x ''provisioning_in_progress'' (Some ''BLE provisioning started'') None None now) (\<lambda>item.
     let address = the (wf_target_ble_address item); configuration = the (wf_configuration_json item); already = already_provisioned item in
     bind_rr (lift_rr (case wf_target_device_id item of None \<Rightarrow> Inl (TypeError ''NoneType'') | Some t \<Rightarrow> Inr t)) (\<lambda>target.
     bind_rr (lift_rr (ble_readback env locked world tx already item address target configuration)) (\<lambda>readback.
     bind_rr (guard_rr (dget readback ''id'' = JStr target)
       (WorkflowError ''provisioning_readback_failed'' ''Provisioned identity did not pass read-back.'')) (\<lambda>_.
     bind_rr (if already then lift_rr (Inr ()) else provision_event item target now) (\<lambda>_.
     bind_rr (transition (item\<lparr>wf_result_json := dput (wf_result_json item) ''sensor_provisioned'' (JBool True)\<rparr>)
         ''gateway_registration_in_progress'' (Some ''BLE provisioning read-back verified'') None None now) (\<lambda>item1.
     bind_rr (registered env item1 address target i clock now) (\<lambda>device.
     bind_rr (finish_registration env item1 device now) (shown env)))))))) a = (Inr d, a')"
    using assms by (auto simp: provision_body_def bind_rr_Inr_iff get_workflow_Inr_iff)
  let ?x = "transition_values ''provisioning_in_progress'' (Some ''BLE provisioning started'') None None now x"
  let ?a = "a\<lparr>rr_db := upd_workflow (rr_db a) (wf_operation_id x) (\<lambda>_. ?x)\<rparr>"
  have key: "wf_operation_id x = k" by (rule find_workflow_key[OF x])
  have same: "already_provisioned ?x = already_provisioned x" by (simp add: already_provisioned_def transition_values_def Let_def)
  have read: "ble_readback env locked world tx b ?x address target configuration = ble_readback env locked world tx b x address target configuration"
    for b address target configuration by (simp add: ble_readback_def)
  obtain target readback u a2 x1 a3 device a4 y where t: "wf_target_device_id x = Some target"
    and rb: "ble_readback env locked world tx (already_provisioned x) x (the (wf_target_ble_address x)) target (the (wf_configuration_json x)) = Inr readback"
    and ev: "(if already_provisioned x then lift_rr (Inr ()) else provision_event ?x target now) ?a = (Inr u, a2)"
    and tr: "transition (?x\<lparr>wf_result_json := dput (wf_result_json ?x) ''sensor_provisioned'' (JBool True)\<rparr>)
         ''gateway_registration_in_progress'' (Some ''BLE provisioning read-back verified'') None None now a2 = (Inr x1, a3)"
    and reg: "registered env x1 (the (wf_target_ble_address x)) target i clock now a3 = (Inr device, a4)"
    and fin: "finish_registration env x1 device now a4 = (Inr y, a')"
    using run by (auto simp: bind_rr_Inr_iff transition_Inr_iff[of x] Let_def shown_def same read split: option.splits)
  have "silent (if already_provisioned x then lift_rr (Inr ()) else provision_event ?x target now)"
    by (simp add: silent_pure(1) silent_events(2))
  then have abs: "wf_abs a2 = wf_abs ?a" using ev by (rule silentD)
  have "registered_devices (rr_db a2) = registered_devices (rr_db ?a)"
    using ev by (auto simp: provision_event_def dest: devices_frame(2) split: if_splits)
  then have dev: "registered_devices (rr_db a3) = registered_devices (rr_db a)" using devices_frame(1)[OF tr] by (simp add: upd_workflow_def)
  have "row (wf_abs a2) k = Some ?x"
    unfolding abs using x key row_moved[where t = "wf_abs a" and k = k and x = x and y = ?x]
    by (simp add: wf_abs_def find_workflow_def upd_workflow_def)
  then have row3: "row (wf_abs a3) k = Some x1"
    using tr key row_moved[where t = "wf_abs a2" and k = k and x = ?x and y = x1]
    by (auto simp: transition_Inr_iff wf_abs_def upd_workflow_def)
  obtain address configuration where "wf_target_ble_address x = Some address" "wf_configuration_json x = Some configuration"
    using g by (auto simp: truthy_def split: option.splits)
  moreover have "wf_operation_id x1 = k" "wf_registration_choice x1 = wf_registration_choice x" "wf_hardware_id x1 = wf_hardware_id x"
    using tr key by (auto simp: transition_Inr_iff)
  ultimately show ?thesis using x t rb dev row3 reg fin by (metis option.sel)
qed


section \<open>Examples\<close>

definition sample_env :: rr_env where
  "sample_env = \<lparr>ev_urlsplit = sample_urlsplit, ev_is_loopback = (\<lambda>_. Some True), ev_isoformat = (\<lambda>_. ''''), ev_casefold = id,
     ev_sha256 = (\<lambda>_. replicate 64 (CHR ''a'')), ev_document = (\<lambda>_. JNull), ev_device_id_pattern = (\<lambda>_. True),
     ev_protocol_versions = [''1.1.0''], ev_patience = 3,
     ev_manager = \<lparr>ms_reconnect_initial_seconds = 1, ms_reconnect_max_seconds = 1, ms_reconnect_stable_seconds = 1\<rparr>, ev_fl = id,
     ev_loads = (\<lambda>_. Inl (ValueError '''')), ev_turns = []\<rparr>"

definition sample_hardware :: string where
  "sample_hardware = ''0x0123456789ABCDEF''"

definition sample_source :: registered_device where
  "sample_source = (device_defaults 1 0)\<lparr>rd_device_id := ''S-1'', rd_display_name := ''Pump'', rd_ble_address := Some ''AA'',
     rd_hardware_id := Some sample_hardware, rd_connection_status := ''connected''\<rparr>"

definition sample_workflow :: workflow where
  "sample_workflow = new_workflow (\<lambda>_. '''') sample_source ''0000111122223333aa'' 5"

definition sample_world :: usb_world where
  "sample_world = \<lparr>uw_canonical = (\<lambda>_. ''''), uw_loads = (\<lambda>_. None), uw_str = (\<lambda>_. ''''), uw_comports = (\<lambda>_. []),
     uw_open = (\<lambda>_. Inr ()), uw_reply = (\<lambda>_. ('''', [])), uw_clock = 0\<rparr>"

definition sample_app :: "workflow list \<Rightarrow> rr_app" where
  "sample_app xs = \<lparr>rr_db = empty_db\<lparr>registered_devices := [sample_source], readings := [sample_reading 1 10], reregistration_workflows := xs\<rparr>,
     rr_reset = \<lparr>ra_confirmations = Map.empty, ra_operations = [], ra_running = []\<rparr>, rr_usb = sample_world, rr_confirmations = Map.empty,
     rr_scanner = new_scanner 5, rr_connections = [], rr_monitors = []\<rparr>"

lemma sample_protect: "rr_protect sample_env sample_request u a = (Inr (), a)"
  by (simp add: rr_protect_def lift_rr_def sample_env_def sample_request_ok require_loopback_def sample_request_def)
    (simp add: sample_request_ok[unfolded sample_request_def])

lemma sample_app_fields:
  "rr_db (sample_app xs) = empty_db\<lparr>registered_devices := [sample_source], readings := [sample_reading 1 10], reregistration_workflows := xs\<rparr>"
  "rr_confirmations (sample_app xs) = Map.empty" "rd_device_id sample_source = ''S-1''" "rd_id sample_source = 1"
  "\<not> rd_archived sample_source" "rd_enabled sample_source" "rd_hardware_id sample_source = Some sample_hardware"
  "rd_connection_status sample_source = ''connected''" "wf_operation_id sample_workflow = ''0000111122223333aa''"
  "wf_source_record_id sample_workflow = 1" "wf_source_device_id sample_workflow = ''S-1''" "wf_hardware_id sample_workflow = sample_hardware"
  "wf_started_at sample_workflow = 5" "wf_state sample_workflow = ''usb_connection_required''"
  by (simp_all add: sample_app_def sample_source_def device_defaults_def sample_workflow_def new_workflow_def)

lemma sample_workflow_ok: "workflow_ok sample_workflow"
  unfolding sample_workflow_def by (rule new_workflow_ok) (simp add: sample_app_fields sample_hardware_def)

theorem workflows_consistent_witness:
  "\<exists>a x. reachable_from no_workflows (rr_step sample_env) a \<and> reregistration_workflows (rr_db a) = [x] \<and> wf_state x \<in> set STATES"
proof -
  let ?a = "snd (start_handler sample_env sample_request ''S-1'' ''0000111122223333aa'' 5 (sample_app []))"
  have "no_workflows (sample_app [])" by (simp add: no_workflows_def sample_app_fields)
  moreover have "rr_step sample_env (sample_app []) ?a"
    by (rule rr_step.intros(1)) (simp add: find_workflow_def sample_app_fields)
  ultimately have r: "reachable_from no_workflows (rr_step sample_env) ?a" by (blast intro: reachable_from.intros)
  have "reregistration_workflows (rr_db ?a) = [new_workflow (ev_isoformat sample_env) sample_source ''0000111122223333aa'' 5]"
    by (simp add: start_handler_def bind_rr_def sample_protect active_device_def get_device_def sample_app_fields handled_def start_workflow_def
        sample_hardware_def Let_def shown_def lift_rr_def empty_db_def)
  with workflows_consistent[OF r] r show ?thesis by auto
qed

theorem complete_on_evidence_witness:
  "\<exists>a a' y device reading. rr_step sample_env a a' \<and> find_workflow (rr_db a') ''0000111122223333aa'' = Some y \<and> wf_state y = ''complete''
     \<and> get_device (rr_db a) ''S-1'' = Some device \<and> rd_connection_status device = ''connected''
     \<and> reading \<in> set (readings (rr_db a)) \<and> rg_registered_device_id reading = rd_id device"
proof -
  let ?x = "sample_workflow\<lparr>wf_target_device_id := Some ''S-1'', wf_configuration_json := Some default_installation_configuration,
    wf_registration_choice := Some ''restore''\<rparr>"
  let ?a = "sample_app [?x]"
  let ?a' = "snd (verify_network sample_env sample_request ''0000111122223333aa'' 9 ?a)"
  have "workflow_ok ?x" using sample_workflow_ok by (simp add: workflow_ok_def)
  then have ok: "table_ok (wf_abs ?a)" by (simp add: table_ok_def wf_abs_def sample_app_fields)
  have step: "rr_step sample_env ?a ?a'" by (rule rr_step.intros)
  have f: "find_workflow (rr_db ?a) ''0000111122223333aa'' = Some ?x" by (simp add: find_workflow_def sample_app_fields)
  have d: "get_device (rr_db ?a) ''S-1'' = Some sample_source" by (simp add: get_device_def sample_app_fields)
  have v: "network_verified (rr_db ?a) ?x sample_source" by (simp add: network_verified_def sample_app_fields sample_reading_def)
  have "\<exists>y. find_workflow (rr_db ?a') ''0000111122223333aa'' = Some y \<and> wf_state y = ''complete''"
    using f d v
    by (simp add: verify_network_def bind_rr_def sample_protect handled_def get_workflow_def verify_body_def transition_def STATES_def Let_def
        shown_def lift_rr_def sample_app_fields upd_workflow_def) (simp add: find_workflow_def sample_app_fields upd_rows_def)
  then obtain y where y: "find_workflow (rr_db ?a') ''0000111122223333aa'' = Some y" "wf_state y = ''complete''" by blast
  have "wf_state ?x \<noteq> ''complete''" by (simp add: sample_app_fields)
  with complete_on_evidence[OF ok step y] f d obtain reading where "reading \<in> set (readings (rr_db ?a))"
    "rg_registered_device_id reading = rd_id sample_source" by (auto simp del: sample_app_fields)
  with step y d sample_app_fields(8) show ?thesis by blast
qed

definition sample_confirmation :: confirm_reset where
  "sample_confirmation = \<lparr>us_port = ''COM3'', us_expected_hardware_id = sample_hardware, us_typed_hardware_id = sample_hardware\<rparr>"

theorem reset_launched_only_confirmed_witness:
  "\<exists>a d a' x. execute_reset_rr sample_env sample_request ''0000111122223333aa'' sample_confirmation ''reset-1'' 7 9 a = (Inr d, a')
     \<and> ra_operations (rr_reset a') = [new_operation (reset_target_of x ''COM3'') ''reset-1''] \<and> wf_backup_status x = ''complete''"
proof -
  let ?x = "sample_workflow\<lparr>wf_selected_port := Some ''COM3'', wf_backup_status := ''complete'', wf_backup_json := Some JNull\<rparr>"
  let ?t = "\<lparr>tg_record_id = 1, tg_device_id = ''S-1'', tg_hardware_id = sample_hardware, tg_port = ''COM3''\<rparr>"
  let ?a = "(sample_app [?x])\<lparr>rr_confirmations := [''0000111122223333aa'' \<mapsto> ''token''],
    rr_reset := \<lparr>ra_confirmations = [''token'' \<mapsto> (?t, 120)], ra_operations = [], ra_running = []\<rparr>\<rparr>"
  have "workflow_ok ?x" using sample_workflow_ok by (simp add: workflow_ok_def sample_workflow_def new_workflow_def)
  then have ok: "table_ok (wf_abs ?a)" by (simp add: table_ok_def wf_abs_def sample_app_fields)
  have "is_ok (fst (execute_reset_rr sample_env sample_request ''0000111122223333aa'' sample_confirmation ''reset-1'' 7 9 ?a))"
    by (simp add: execute_reset_rr_def bind_rr_def sample_protect pop_confirmation_def handled_def get_workflow_def find_workflow_def sample_app_fields
        confirmation_matches_def guard_rr_def lift_rr_def sample_confirmation_def authorize_rr_def reset_authorize_def reset_target_of_def
        source_record_def device_by_pk_def launch_rr_def reset_launch_def set_device_def transition_def STATES_def Let_def monitor_task_def shown_def)
  from is_ok_fst[OF this] obtain d a' where
    run: "execute_reset_rr sample_env sample_request ''0000111122223333aa'' sample_confirmation ''reset-1'' 7 9 ?a = (Inr d, a')" by blast
  from reset_launched_only_confirmed[OF ok run] obtain x where "wf_backup_status x = ''complete''"
    "ra_operations (rr_reset a') = ra_operations (rr_reset ?a) @ [new_operation (reset_target_of x (us_port sample_confirmation)) ''reset-1'']" by blast
  then have "ra_operations (rr_reset a') = [new_operation (reset_target_of x ''COM3'') ''reset-1'']" by (simp add: sample_confirmation_def)
  with run \<open>wf_backup_status x = ''complete''\<close> show ?thesis by blast
qed

lemma sample_derive: "derive_onboarding_identity (ev_sha256 sample_env) sample_hardware = Inr Ble_Provisioning.sample_identity"
proof -
  have "hardware_id_pattern sample_hardware" by (simp add: hardware_id_pattern_def sample_hardware_def is_upper_hex_def is_digit_def)
  from canonical_hardware_id_fixed[OF this] show ?thesis
    by (simp add: derive_onboarding_identity_def sample_env_def Ble_Provisioning.sample_identity_def)
qed

lemma finish_registration_ok: "is_ok (fst (finish_registration env x device now a))"
  by (simp add: finish_registration_def bind_rr_def network_event_def add_event_def rr_event_def schedule_rr_def transition_def STATES_def Let_def)

lemma sample_new_registration:
  assumes "registered_devices (rr_db a) = []" "sc_discoveries (rr_scanner a) = []"
    "wf_target_display_name x = Some ''Pump''" "wf_target_location x = None"
  shows "is_ok (fst (new_registration sample_env x ''BB'' ''N-1'' 7 9 a))"
proof -
  have valid: "device_create_valid (registration_request x ''BB'' ''N-1'')"
    using assms by (simp add: device_create_valid_def registration_request_def not_blank_def py_strip_def is_space_def len_between_def opt_len_between_def)
  have created: "\<exists>d s. device_register (ev_device_id_pattern sample_env) (rr_db a) (registration_request x ''BB'' ''N-1'')
      (readback_discovery ''BB'' ''N-1'' 9\<lparr>dc_stable_device_id := Some ''N-1''\<rparr>) 9 = (Inr d, s) \<and> registered_devices s = [d] \<and> rd_device_id d = ''N-1''"
    using assms
    by (simp add: device_register_def registration_request_def readback_discovery_def sample_env_def get_by_ble_address_def get_device_def
        device_create_row_def hardware_trigger_fires_def Let_def registration_values_def)
  then obtain d s where d: "device_register (ev_device_id_pattern sample_env) (rr_db a) (registration_request x ''BB'' ''N-1'')
      (readback_discovery ''BB'' ''N-1'' 9\<lparr>dc_stable_device_id := Some ''N-1''\<rparr>) 9 = (Inr d, s)" "registered_devices s = [d]" by blast
  have "is_ok (fst (device_update_row s d (\<lambda>d. d\<lparr>rd_hardware_id := Some (wf_hardware_id x), rd_factory_reset_status := ''complete''\<rparr>) 9))"
    using d(2) by (simp add: device_update_row_def device_update_aborts_def hardware_trigger_fires_def Let_def)
  from is_ok_fst[OF this] obtain d2 s2 where
    "device_update_row s d (\<lambda>d. d\<lparr>rd_hardware_id := Some (wf_hardware_id x), rd_factory_reset_status := ''complete''\<rparr>) 9 = (Inr d2, s2)" by blast
  then show ?thesis
    using assms d valid
    by (simp add: new_registration_def bind_rr_def look_up_def get_discovery_def expire_def Let_def register_rr_def identify_rr_def split: prod.split)
qed


end
