(* ===== verification/Firmware.thy ===== *)
theory Firmware
  imports Factory_Reset Telemetry_Service
begin

text \<open>
  Local firmware installation: \<open>services/firmware_installation.py\<close> (inspection of Intel HEX images, the catalog of
  approved packages with its developer approvals, the USB installer) and the handlers of \<open>api/firmware.py\<close>. The file system,
  the digest, the serial ports and the uploader are a world that answers the calls in turn. A file is the text of its
  bytes, one character per byte; a path is the list of its components. Package identifiers are compared as JSON values.
\<close>

unbundle bit_operations_syntax

section \<open>Intel HEX images\<close>

definition hex_val :: "char \<Rightarrow> nat option" where
  "hex_val c =
     (let n = of_char c in
      if 48 \<le> n \<and> n \<le> 57 then Some (n - 48)
      else if 65 \<le> n \<and> n \<le> 70 then Some (n - 55)
      else if 97 \<le> n \<and> n \<le> 102 then Some (n - 87) else None)"

definition hex_error :: exn where
  "hex_error = ValueError ''non-hexadecimal number found in fromhex() arg''"

text \<open>\<open>bytes.fromhex\<close> skips ASCII white space between the bytes.\<close>

fun fromhex :: "string \<Rightarrow> nat list result" where
  "fromhex [] = Inr []"
| "fromhex (c # cs) =
     (if of_char c = (32::nat) \<or> (9 \<le> (of_char c :: nat) \<and> (of_char c :: nat) \<le> 13) then fromhex cs
      else case cs of
        [] \<Rightarrow> Inl hex_error
      | d # ds \<Rightarrow>
          (case (hex_val c, hex_val d) of
             (Some h, Some l) \<Rightarrow> bind_result (fromhex ds) (\<lambda>bs. Inr ((16 * h + l) # bs))
           | _ \<Rightarrow> Inl hex_error))"

text \<open>\<open>str.splitlines()\<close> on characters below 256. Reading in text mode turns \<open>\r\n\<close> and \<open>\r\<close> into \<open>\n\<close> first, which
  gives the same lines.\<close>

definition is_line_break :: "char \<Rightarrow> bool" where
  "is_line_break c =
     (let n = of_char c :: nat in (10 \<le> n \<and> n \<le> 13) \<or> (28 \<le> n \<and> n \<le> 30) \<or> n = 133)"

fun lines_of :: "string \<Rightarrow> string \<Rightarrow> string list" where
  "lines_of cur [] = (if cur = [] then [] else [rev cur])"
| "lines_of cur (c # cs) =
     (if is_line_break c
      then rev cur # lines_of [] (if of_char c = (13::nat) \<and> cs \<noteq> [] \<and> of_char (hd cs) = (10::nat) then tl cs else cs)
      else lines_of (c # cur) cs)"

definition splitlines :: "string \<Rightarrow> string list" where
  "splitlines s = lines_of [] s"

definition decode_ascii :: "string \<Rightarrow> string result" where
  "decode_ascii s =
     (if list_all (\<lambda>c. (of_char c :: nat) < 128) s then Inr s
      else Inl (ValueError ''ordinal not in range(128)''))"

text \<open>\<open>int.from_bytes(bs, "big")\<close>.\<close>

definition from_bytes :: "nat list \<Rightarrow> nat" where
  "from_bytes bs = foldl (\<lambda>n b. 256 * n + b) 0 bs"

definition fw_invalid :: "string \<Rightarrow> exn" where
  "fw_invalid message = FirmwareValidationError message ''invalid''"

definition hex_record :: "nat \<Rightarrow> string \<Rightarrow> nat list result" where
  "hex_record number line =
     (if \<not> starts_with '':'' line then Inl (fw_invalid (''invalid Intel HEX record at line '' @ nat_str number))
      else bind_result (fromhex (drop 1 line)) (\<lambda>raw.
        if length raw < 5 \<or> sum_list raw AND 0xFF \<noteq> 0
        then Inl (fw_invalid (''invalid Intel HEX checksum at line '' @ nat_str number))
        else if raw ! 0 \<noteq> length raw - 5
        then Inl (fw_invalid (''invalid Intel HEX length at line '' @ nat_str number))
        else Inr raw))"

text \<open>The loop over the lines, with the current base address and the address ranges found so far.\<close>

fun inspect_lines :: "nat \<Rightarrow> int \<Rightarrow> (int \<times> int) list \<Rightarrow> string list \<Rightarrow> (int \<times> int) list result" where
  "inspect_lines number base addresses [] = Inr addresses"
| "inspect_lines number base addresses (line # rest) =
     bind_result (hex_record number line) (\<lambda>raw.
       let count = int (raw ! 0); offset = int (from_bytes (take 2 (drop 1 raw))); kind = raw ! 3 in
       if kind = 0
       then inspect_lines (Suc number) base (addresses @ [(base + offset, base + offset + count - 1)]) rest
       else if kind = 4
       then inspect_lines (Suc number) (push_bit 16 (int (from_bytes (take 2 (drop 4 raw))))) addresses rest
       else if kind \<notin> {1, 2, 3, 5}
       then Inl (fw_invalid (''unsupported Intel HEX record type '' @ nat_str kind))
       else inspect_lines (Suc number) base addresses rest)"

definition range_of :: "(int \<times> int) list \<Rightarrow> int \<times> int \<times> int" where
  "range_of addresses =
     (fold (\<lambda>r m. min (fst r) m) (tl addresses) (fst (hd addresses)),
      fold (\<lambda>r m. max (snd r) m) (tl addresses) (snd (hd addresses)),
      sum_list (map (\<lambda>r. snd r - fst r + 1) addresses))"

definition inspect_intel_hex :: "string \<Rightarrow> (int \<times> int \<times> int) result" where
  "inspect_intel_hex content =
     bind_result (decode_ascii content) (\<lambda>text.
       bind_result (inspect_lines 1 0 [] (splitlines text)) (\<lambda>addresses.
         if addresses = [] then Inl (fw_invalid ''firmware image contains no programmed data'')
         else Inr (range_of addresses)))"

section \<open>Python text helpers of the catalog\<close>

text \<open>\<open>int(text, 16)\<close> with its optional sign, prefix and single underscores; \<open>f"0x{n:08X}"\<close>.\<close>

fun hex_digits :: "nat \<Rightarrow> string \<Rightarrow> nat option" where
  "hex_digits n [] = Some n"
| "hex_digits n [c] = (case hex_val c of None \<Rightarrow> None | Some v \<Rightarrow> Some (16 * n + v))"
| "hex_digits n (c # d # cs) =
     (if c = CHR ''_''
      then (case hex_val d of None \<Rightarrow> None | Some v \<Rightarrow> hex_digits (16 * n + v) cs)
      else (case hex_val c of None \<Rightarrow> None | Some v \<Rightarrow> hex_digits (16 * n + v) (d # cs)))"

definition hex_magnitude :: "string \<Rightarrow> nat option" where
  "hex_magnitude s =
     (if starts_with ''0x'' s \<or> starts_with ''0X'' s
      then (if drop 2 s = [] then None else hex_digits 0 (drop 2 s))
      else if s = [] \<or> starts_with ''_'' s then None else hex_digits 0 s)"

definition int16_text :: "string \<Rightarrow> int result" where
  "int16_text text =
     (let s = py_strip text;
          signed = starts_with ''-'' s \<or> starts_with ''+'' s
      in case hex_magnitude (if signed then tl s else s) of
           None \<Rightarrow> Inl (ValueError ''invalid literal for int() with base 16'')
         | Some n \<Rightarrow> Inr (if starts_with ''-'' s then - int n else int n))"

definition int16 :: "json \<Rightarrow> int result" where
  "int16 v = bind_result (json_text (TypeError ''int() cannot convert non-string with explicit base'') v) int16_text"

definition hex_char :: "nat \<Rightarrow> char" where
  "hex_char n = (if n < 10 then char_of (48 + n) else char_of (55 + n))"

fun hex_str :: "nat \<Rightarrow> string" where
  "hex_str n = (if n < 16 then [hex_char n] else hex_str (n div 16) @ [hex_char (n mod 16)])"

declare hex_str.simps [simp del]

definition zfill :: "nat \<Rightarrow> string \<Rightarrow> string" where
  "zfill w s = replicate (w - length s) (CHR ''0'') @ s"

definition format_0x08X :: "int \<Rightarrow> string" where
  "format_0x08X n = ''0x'' @ (if n < 0 then ''-'' @ zfill 7 (hex_str (nat (- n))) else zfill 8 (hex_str (nat n)))"

section \<open>The world of the installer\<close>

datatype file_read = NoFile | NoAccess string | Bytes string

record fw_world =
  fw_root :: "string list"
  fw_resolve :: "string \<Rightarrow> string list"
  fw_sha256 :: "string \<Rightarrow> string"
  fw_read :: "nat \<Rightarrow> string list \<Rightarrow> file_read"
  fw_comports :: "nat \<Rightarrow> usb_port list"
  fw_which :: "nat \<Rightarrow> string \<Rightarrow> string option"
  fw_exec :: "nat \<Rightarrow> string list \<Rightarrow> (int \<times> string) result"
  fw_str :: "string list \<Rightarrow> string"
  fw_clock :: nat

definition fw_tick :: "fw_world \<Rightarrow> fw_world" where
  "fw_tick w = w\<lparr>fw_clock := Suc (fw_clock w)\<rparr>"

definition read_file :: "fw_world \<Rightarrow> string list \<Rightarrow> file_read \<times> fw_world" where
  "read_file w path = (fw_read w (fw_clock w) path, fw_tick w)"

text \<open>\<open>inspect_intel_hex(path)\<close> reads the file again; the errors of this read are not caught by the catalog.\<close>

definition inspect_file :: "fw_world \<Rightarrow> string list \<Rightarrow> (int \<times> int \<times> int) result \<times> fw_world" where
  "inspect_file w path =
     (case read_file w path of (r, w) \<Rightarrow>
        (case r of
           NoFile \<Rightarrow> Inl (OSError ''No such file or directory'')
         | NoAccess m \<Rightarrow> Inl (OSError m)
         | Bytes content \<Rightarrow> inspect_intel_hex content, w))"

section \<open>The catalog of approved firmware\<close>

record fw_catalog =
  cat_packages :: "(json \<times> dict) list"
  cat_developer_enabled :: bool
  cat_approvals :: "(json \<times> dict) list"

fun kput :: "(json \<times> dict) list \<Rightarrow> json \<Rightarrow> dict \<Rightarrow> (json \<times> dict) list" where
  "kput [] k v = [(k, v)]"
| "kput ((k', w) # d) k v = (if k' = k then (k', v) # d else (k', w) # kput d k v)"

lemma map_of_kput [simp]: "map_of (kput d k v) = (map_of d)(k \<mapsto> v)"
  by (induction d) auto

text \<open>\<open>{item["package_id"]: item for item in json.loads(...)["packages"]}\<close> over the objects of the manifest.\<close>

fun load_packages :: "dict list \<Rightarrow> (json \<times> dict) list \<Rightarrow> (json \<times> dict) list result" where
  "load_packages [] acc = Inr acc"
| "load_packages (item # rest) acc =
     bind_result (item_at item ''package_id'') (\<lambda>key.
       if \<not> hashable key then Inl (TypeError ''unhashable type'')
       else load_packages rest (kput acc key item))"

definition catalog_init :: "dict list \<Rightarrow> bool \<Rightarrow> fw_catalog result" where
  "catalog_init packages developer_approval_enabled =
     bind_result (load_packages packages []) (\<lambda>table.
       Inr \<lparr>cat_packages = table, cat_developer_enabled = developer_approval_enabled, cat_approvals = []\<rparr>)"

definition approved_fqbn :: string where
  "approved_fqbn = ''SiliconLabs:silabs:xiao_mg24:protocol_stack=ble_silabs''"

definition required_package_keys :: "string list" where
  "required_package_keys =
     [''package_id'', ''firmware_version'', ''protocol_version'', ''fqbn'', ''artifact_path'', ''artifact_filename'',
      ''artifact_size'', ''sha256'', ''application_start'', ''application_end'', ''bootloader_end'', ''nvm3_start'',
      ''build_provenance'', ''application_only'']"

definition inside_root :: "string list \<Rightarrow> string list \<Rightarrow> bool" where
  "inside_root dir path = (length dir < length path \<and> take (length dir) path = dir)"

definition path_name :: "string list \<Rightarrow> string" where
  "path_name path = (if path = [] then '''' else last path)"

text \<open>\<open>(root / item["artifact_path"]).resolve()\<close> and the test that the artifact is inside the repository.\<close>

definition artifact_of :: "fw_world \<Rightarrow> dict \<Rightarrow> string list result" where
  "artifact_of w item =
     bind_result (item_at item ''artifact_path'') (\<lambda>v.
     bind_result (json_text (TypeError ''unsupported operand type(s) for /'') v) (\<lambda>text.
       let path = fw_resolve w text in
       if \<not> inside_root (fw_root w) path \<or> JStr (path_name path) \<noteq> dget item ''artifact_filename''
       then Inl (fw_invalid ''firmware artifact path is outside the approved catalog'') else Inr path))"

text \<open>\<open>start <= int(item["bootloader_end"], 16) or end >= int(item["nvm3_start"], 16)\<close>; the second number is read only
  when the first test fails.\<close>

definition protected_overlap :: "dict \<Rightarrow> int \<Rightarrow> int \<Rightarrow> bool result" where
  "protected_overlap item start stop =
     bind_result (bind_result (item_at item ''bootloader_end'') int16) (\<lambda>b.
       if start \<le> b then Inr True
       else bind_result (bind_result (item_at item ''nvm3_start'') int16) (\<lambda>n. Inr (stop \<ge> n)))"

text \<open>\<open>start != int(expected["application_start"], 16) or end != int(expected["application_end"], 16)\<close>.\<close>

definition range_mismatch :: "dict \<Rightarrow> int \<Rightarrow> int \<Rightarrow> bool result" where
  "range_mismatch expected start stop =
     bind_result (bind_result (item_at expected ''application_start'') int16) (\<lambda>s.
       if start \<noteq> s then Inr True
       else bind_result (bind_result (item_at expected ''application_end'') int16) (\<lambda>e. Inr (stop \<noteq> e)))"

text \<open>\<open>len(data) != expected["artifact_size"] or sha256(data).hexdigest().upper() != expected["sha256"].upper()\<close>.\<close>

definition content_mismatch :: "fw_world \<Rightarrow> dict \<Rightarrow> string \<Rightarrow> bool result" where
  "content_mismatch w expected data =
     bind_result (item_at expected ''artifact_size'') (\<lambda>size.
       if \<not> json_eq_int size (int (length data)) then Inr True
       else bind_result (item_at expected ''sha256'') (\<lambda>v.
         bind_result (json_text (AttributeError ''upper'') v) (\<lambda>sha.
           Inr (map ascii_upper_char (fw_sha256 w data) \<noteq> map ascii_upper_char sha))))"

definition raise_if :: "bool result \<Rightarrow> exn \<Rightarrow> unit result" where
  "raise_if b e = bind_result b (\<lambda>b. if b then Inl e else Inr ())"

lemma raise_if_Inr_iff: "raise_if b e = Inr () \<longleftrightarrow> b = Inr False"
  by (cases b) (auto simp: raise_if_def)

text \<open>The checks of \<open>validate\<close> on the manifest entry, before any file is read.\<close>

definition package_guard :: "dict \<Rightarrow> unit result" where
  "package_guard item =
     (if \<not> list_all (has_key item) required_package_keys \<or> \<not> json_truthy (dget item ''build_provenance'')
      then Inl (fw_invalid ''firmware package provenance is incomplete'')
      else if \<not> json_truthy (dget item ''application_only'')
      then Inl (fw_invalid ''bootloader-containing firmware is not approved'')
      else bind_result (json_text (AttributeError ''lower'') (dget item ''artifact_filename'')) (\<lambda>name.
        if contains_sub ''with_bootloader'' (map ascii_lower_char name)
        then Inl (fw_invalid ''bootloader-containing firmware is not approved'')
        else if dget item ''fqbn'' \<noteq> JStr approved_fqbn
        then Inl (fw_invalid ''firmware package targets an unsupported board'') else Inr ()))"

definition read_artifact :: "string \<Rightarrow> fw_world \<Rightarrow> string list \<Rightarrow> string result \<times> fw_world" where
  "read_artifact label w path =
     (case read_file w path of (r, w) \<Rightarrow>
        (case r of
           NoFile \<Rightarrow> Inl (FirmwareValidationError (label @ '' firmware artifact is missing'') ''missing'')
         | NoAccess _ \<Rightarrow> Inl (FirmwareValidationError (label @ '' firmware artifact cannot be read'') ''unreadable'')
         | Bytes data \<Rightarrow> Inr data, w))"

definition validate :: "fw_catalog \<Rightarrow> fw_world \<Rightarrow> json \<Rightarrow> (dict \<times> string list) result \<times> fw_world" where
  "validate cat w package_id =
     (case map_of (cat_packages cat) package_id of
        None \<Rightarrow> (Inl (fw_invalid ''unknown firmware package''), w)
      | Some item \<Rightarrow>
          (case bind_result (package_guard item) (\<lambda>_. artifact_of w item) of
             Inl e \<Rightarrow> (Inl e, w)
           | Inr path \<Rightarrow>
               (case read_artifact ''approved'' w path of
                  (Inl e, w) \<Rightarrow> (Inl e, w)
                | (Inr data, w) \<Rightarrow>
                    let expected = (case map_of (cat_approvals cat) package_id of None \<Rightarrow> item | Some a \<Rightarrow> a) in
                    (case raise_if (content_mismatch w expected data)
                            (FirmwareValidationError ''firmware artifact hash or size mismatch'' ''hash_mismatch'') of
                       Inl e \<Rightarrow> (Inl e, w)
                     | Inr _ \<Rightarrow>
                         (case inspect_file w path of (r, w) \<Rightarrow>
                            (bind_result r (\<lambda>(start, stop, _).
                               bind_result (raise_if (range_mismatch expected start stop)
                                 (fw_invalid ''firmware programmed range does not match the approved manifest'')) (\<lambda>_.
                               bind_result (raise_if (protected_overlap item start stop)
                                 (fw_invalid ''firmware overlaps a protected region'')) (\<lambda>_. Inr (item, path)))), w))))))"

text \<open>One row of \<open>list\<close>: the outcome of the validation is shown as the status; errors other than
  \<open>FirmwareValidationError\<close> leave the loop.\<close>

fun validation_status :: "exn \<Rightarrow> (string \<times> string) option" where
  "validation_status (FirmwareValidationError m c) = Some (c, m)"
| "validation_status _ = None"

definition with_status :: "dict \<Rightarrow> string \<Rightarrow> string \<Rightarrow> dict" where
  "with_status d status message = dupdate d [(''status'', JStr status), (''status_message'', JStr message)]"

definition ready_row :: "fw_catalog \<Rightarrow> json \<Rightarrow> dict \<Rightarrow> dict" where
  "ready_row cat package_id public =
     (case map_of (cat_approvals cat) package_id of
        Some a \<Rightarrow> dupdate (with_status public ''developer_ready'' ''Development firmware approved for this server session'') a
      | None \<Rightarrow> with_status public ''ready'' ''Approved firmware artifact verified'')"

definition package_row :: "fw_catalog \<Rightarrow> fw_world \<Rightarrow> dict \<Rightarrow> dict result \<times> fw_world" where
  "package_row cat w item =
     (let public = filter (\<lambda>kv. fst kv \<noteq> ''artifact_path'') item;
          package_id = dget item ''package_id'';
          offer = (\<lambda>p. dput p ''developer_approval_available''
                     (JBool (cat_developer_enabled cat
                        \<and> dget p ''status'' \<in> {JStr ''hash_mismatch'', JStr ''missing'', JStr ''unreadable''})))
      in case validate cat w package_id of
           (Inr _, w) \<Rightarrow> (Inr (offer (ready_row cat package_id public)), w)
         | (Inl e, w) \<Rightarrow>
             (case validation_status e of
                None \<Rightarrow> (Inl e, w)
              | Some (code, message) \<Rightarrow> (Inr (offer (with_status public code message)), w)))"

fun package_rows :: "fw_catalog \<Rightarrow> fw_world \<Rightarrow> dict list \<Rightarrow> dict list result \<times> fw_world" where
  "package_rows cat w [] = (Inr [], w)"
| "package_rows cat w (item # rest) =
     (case package_row cat w item of
        (Inl e, w) \<Rightarrow> (Inl e, w)
      | (Inr row, w) \<Rightarrow>
          (case package_rows cat w rest of (r, w) \<Rightarrow> (bind_result r (\<lambda>rows. Inr (row # rows)), w)))"

definition catalog_list :: "fw_catalog \<Rightarrow> fw_world \<Rightarrow> dict list result \<times> fw_world" where
  "catalog_list cat w = package_rows cat w (map snd (cat_packages cat))"

definition approval_of :: "fw_world \<Rightarrow> string \<Rightarrow> int \<Rightarrow> int \<Rightarrow> dict" where
  "approval_of w data start stop =
     [(''artifact_size'', JInt (int (length data))),
      (''sha256'', JStr (map ascii_upper_char (fw_sha256 w data))),
      (''application_start'', JStr (format_0x08X start)),
      (''application_end'', JStr (format_0x08X stop))]"

text \<open>What \<open>approve_development\<close> does before it stores the approval.\<close>

definition development_approval :: "fw_catalog \<Rightarrow> fw_world \<Rightarrow> json \<Rightarrow> dict result \<times> fw_world" where
  "development_approval cat w package_id =
     (if \<not> cat_developer_enabled cat
      then (Inl (FirmwareValidationError ''developer firmware approval is disabled'' ''disabled''), w)
      else case map_of (cat_packages cat) package_id of
        None \<Rightarrow> (Inl (fw_invalid ''unknown firmware package''), w)
      | Some item \<Rightarrow>
          if \<not> json_truthy (dget item ''application_only'') \<or> dget item ''fqbn'' \<noteq> JStr approved_fqbn
          then (Inl (fw_invalid ''firmware package is not eligible for development approval''), w)
          else (case artifact_of w item of
             Inl e \<Rightarrow> (Inl e, w)
           | Inr path \<Rightarrow>
               (case read_artifact ''development'' w path of
                  (Inl e, w) \<Rightarrow> (Inl e, w)
                | (Inr data, w) \<Rightarrow>
                    (case inspect_file w path of (r, w) \<Rightarrow>
                       (bind_result r (\<lambda>(start, stop, _).
                          bind_result (raise_if (protected_overlap item start stop)
                            (fw_invalid ''development firmware overlaps a protected region'')) (\<lambda>_.
                          Inr (approval_of w data start stop))), w)))))"

text \<open>\<open>next(item for item in self.list() if item["package_id"] == package_id)\<close> ends the method.\<close>

definition approve_development :: "fw_catalog \<Rightarrow> fw_world \<Rightarrow> json \<Rightarrow> dict result \<times> fw_catalog \<times> fw_world" where
  "approve_development cat w package_id =
     (case development_approval cat w package_id of
        (Inl e, w) \<Rightarrow> (Inl e, cat, w)
      | (Inr a, w) \<Rightarrow>
          let cat = cat\<lparr>cat_approvals := kput (cat_approvals cat) package_id a\<rparr> in
          (case catalog_list cat w of (r, w) \<Rightarrow>
             (bind_result r (\<lambda>rows.
                case find (\<lambda>row. dget row ''package_id'' = package_id) rows of
                  None \<Rightarrow> Inl StopIteration | Some row \<Rightarrow> Inr row), cat, w)))"

section \<open>The USB installer\<close>

record fw_operation =
  fo_id :: string
  fo_serial :: string
  fo_package :: string
  fo_state :: string
  fo_progress :: "string list"
  fo_error :: "string option"
  fo_started :: time

text \<open>
  A task is one call of \<open>_run\<close> between two of its suspension points: it waits for the lock of its device, for the uploader
  process, or for the next of its remaining looks at the ports. The lock of a device is held while a task of the device
  is past the first point.
\<close>

datatype fw_phase = Waiting | Uploading "string list" | Polling nat

record fw_task =
  tk_id :: string
  tk_serial :: string
  tk_port :: string
  tk_phase :: fw_phase

record fw_installer =
  in_catalog :: fw_catalog
  in_cli :: string
  in_operations :: "fw_operation list"
  in_tasks :: "fw_task list"

definition fw_supported :: "usb_port \<Rightarrow> bool" where
  "fw_supported p = (up_vid p = 0x2886 \<and> up_pid p = 0x0062)"

definition board_row :: "json list \<Rightarrow> usb_port \<Rightarrow> dict" where
  "board_row compatible p =
     [(''hardware_serial'', case up_serial p of None \<Rightarrow> JNull | Some v \<Rightarrow> JStr v),
      (''board_type'', JStr ''Seeed Studio XIAO MG24 Sense''), (''usb_vid_pid'', JStr ''2886:0062''),
      (''com_port'', JStr (up_device p)), (''cmsis_dap'', JBool True), (''application_state'', JStr ''unknown''),
      (''busy'', JBool False), (''compatible_packages'', JArr compatible)]"

definition fw_boards :: "fw_catalog \<Rightarrow> fw_world \<Rightarrow> dict list result \<times> fw_world" where
  "fw_boards cat w =
     (case catalog_list cat w of
        (Inl e, w) \<Rightarrow> (Inl e, w)
      | (Inr rows, w) \<Rightarrow>
          let compatible = map (\<lambda>r. dget r ''package_id'')
                (filter (\<lambda>r. dget r ''status'' \<in> {JStr ''ready'', JStr ''developer_ready''}) rows)
          in (Inr (map (board_row compatible) (filter fw_supported (fw_comports w (fw_clock w)))), fw_tick w))"

definition serial_pattern :: "string \<Rightarrow> bool" where
  "serial_pattern s = (8 \<le> length s \<and> length s \<le> 32 \<and> list_all is_upper_hex s)"

definition lock_held :: "fw_installer \<Rightarrow> string \<Rightarrow> bool" where
  "lock_held inst serial = list_ex (\<lambda>t. tk_serial t = serial \<and> tk_phase t \<noteq> Waiting) (in_tasks inst)"

definition new_fw_operation :: "string \<Rightarrow> string \<Rightarrow> string \<Rightarrow> time \<Rightarrow> fw_operation" where
  "new_fw_operation operation_id serial package_id now =
     \<lparr>fo_id = operation_id, fo_serial = serial, fo_package = package_id, fo_state = ''queued'', fo_progress = [],
      fo_error = None, fo_started = now\<rparr>"

text \<open>\<open>start\<close>; the fresh identifier and the monotonic clock are arguments.\<close>

definition fw_start ::
  "fw_installer \<Rightarrow> fw_world \<Rightarrow> string \<Rightarrow> string \<Rightarrow> string \<Rightarrow> time \<Rightarrow> fw_operation result \<times> fw_installer \<times> fw_world" where
  "fw_start inst w serial package_id operation_id now =
     (if \<not> serial_pattern serial then (Inl (fw_invalid ''hardware serial is invalid''), inst, w)
      else case validate (in_catalog inst) w (JStr package_id) of
        (Inl e, w) \<Rightarrow> (Inl e, inst, w)
      | (Inr _, w) \<Rightarrow>
          (case fw_boards (in_catalog inst) w of
             (Inl e, w) \<Rightarrow> (Inl e, inst, w)
           | (Inr rows, w) \<Rightarrow>
               (case filter (\<lambda>r. dget r ''hardware_serial'' = JStr serial) rows of
                  [match] \<Rightarrow>
                    if lock_held inst serial then (Inl (fw_invalid ''device is busy''), inst, w)
                    else let operation = new_fw_operation operation_id serial package_id now;
                             port = (case dget match ''com_port'' of JStr p \<Rightarrow> p | _ \<Rightarrow> '''')
                         in (Inr operation,
                             inst\<lparr>in_operations := in_operations inst @ [operation],
                                  in_tasks := in_tasks inst @
                                    [\<lparr>tk_id = operation_id, tk_serial = serial, tk_port = port, tk_phase = Waiting\<rparr>]\<rparr>, w)
                | _ \<Rightarrow> (Inl (fw_invalid ''exactly one matching supported board is required''), inst, w))))"

text \<open>The pieces of \<open>_run\<close> between its suspension points. A failure is caught, recorded and releases the lock.\<close>

definition last_n :: "nat \<Rightarrow> 'a list \<Rightarrow> 'a list" where
  "last_n n xs = drop (length xs - n) xs"

definition fw_note :: "string \<Rightarrow> string list \<Rightarrow> fw_operation \<Rightarrow> fw_operation" where
  "fw_note state lines op = op\<lparr>fo_state := state, fo_progress := fo_progress op @ lines\<rparr>"

definition fw_failed :: "exn \<Rightarrow> fw_operation \<Rightarrow> fw_operation" where
  "fw_failed e op = op\<lparr>fo_state := ''failed'', fo_error := Some (take 500 (exn_str e))\<rparr>"

definition upload_command :: "fw_world \<Rightarrow> string \<Rightarrow> string \<Rightarrow> dict \<Rightarrow> string list \<Rightarrow> string list" where
  "upload_command w executable port item artifact =
     [executable, ''upload'', ''--port'', port, ''--fqbn'', (case dget item ''fqbn'' of JStr s \<Rightarrow> s | _ \<Rightarrow> ''''),
      ''--input-dir'', fw_str w (butlast artifact),
      fw_str w (fw_root w @ [''sensor_package'', ''firmware'', ''xiao_mg24_sensor_node''])]"

text \<open>Each piece gives the changed operation and the next phase, or \<open>None\<close> when \<open>_run\<close> is over.\<close>

definition run_begin :: "fw_catalog \<Rightarrow> string \<Rightarrow> string \<Rightarrow> fw_operation \<Rightarrow> fw_world \<Rightarrow> fw_operation \<times> fw_phase option \<times> fw_world" where
  "run_begin cat cli port op w =
     (case validate cat w (JStr (fo_package op)) of
        (Inl e, w) \<Rightarrow> (fw_failed e op, None, w)
      | (Inr (item, artifact), w) \<Rightarrow>
          let op = fw_note ''uploading'' [''package_validated''] op in
          (case fw_which w (fw_clock w) cli of
             None \<Rightarrow> (fw_failed (fw_invalid ''arduino-cli is unavailable'') op, None, fw_tick w)
           | Some executable \<Rightarrow>
               if executable = '''' then (fw_failed (fw_invalid ''arduino-cli is unavailable'') op, None, fw_tick w)
               else (op, Some (Uploading (upload_command w executable port item artifact)), fw_tick w)))"

definition upload_succeeded :: "int \<Rightarrow> string \<Rightarrow> bool" where
  "upload_succeeded code output = (code = 0 \<and> contains_sub ''Programming Finished'' (last_n 12000 output))"

definition run_upload :: "string list \<Rightarrow> fw_operation \<Rightarrow> fw_world \<Rightarrow> fw_operation \<times> fw_phase option \<times> fw_world" where
  "run_upload command op w =
     (case fw_exec w (fw_clock w) command of
        Inl e \<Rightarrow> (fw_failed e op, None, fw_tick w)
      | Inr (code, output) \<Rightarrow>
          let op = fw_note (fo_state op) (map (take 300) (last_n 40 (splitlines (last_n 12000 output)))) op in
          if upload_succeeded code output
          then (fw_note ''reenumerating'' [''programming_verified''] op, Some (Polling 30), fw_tick w)
          else (fw_failed (fw_invalid (''uploader failed with exit code '' @ int_str code)) op, None, fw_tick w))"

definition run_poll :: "fw_catalog \<Rightarrow> nat \<Rightarrow> fw_operation \<Rightarrow> fw_world \<Rightarrow> fw_operation \<times> fw_phase option \<times> fw_world" where
  "run_poll cat n op w =
     (case fw_boards cat w of
        (Inl e, w) \<Rightarrow> (fw_failed e op, None, w)
      | (Inr rows, w) \<Rightarrow>
          if list_ex (\<lambda>r. dget r ''hardware_serial'' = JStr (fo_serial op)) rows
          then (fw_note ''complete'' [''same_device_reenumerated''] op, None, w)
          else if n \<le> 1 then (fw_failed (fw_invalid ''the same hardware serial did not re-enumerate'') op, None, w)
          else (op, Some (Polling (n - 1)), w))"

definition run_piece :: "fw_installer \<Rightarrow> fw_task \<Rightarrow> fw_operation \<Rightarrow> fw_world \<Rightarrow> fw_operation \<times> fw_phase option \<times> fw_world" where
  "run_piece inst t op w =
     (case tk_phase t of
        Waiting \<Rightarrow> run_begin (in_catalog inst) (in_cli inst) (tk_port t) op w
      | Uploading command \<Rightarrow> run_upload command op w
      | Polling n \<Rightarrow> run_poll (in_catalog inst) n op w)"

definition find_task :: "fw_installer \<Rightarrow> string \<Rightarrow> fw_task option" where
  "find_task inst k = find_row (\<lambda>t. tk_id t = k) (in_tasks inst)"

definition find_operation :: "fw_installer \<Rightarrow> string \<Rightarrow> fw_operation option" where
  "find_operation inst k = find_row (\<lambda>op. fo_id op = k) (in_operations inst)"

text \<open>A task takes the lock only when it is free; its turn is skipped otherwise.\<close>

definition fw_turn :: "fw_installer \<Rightarrow> string \<Rightarrow> fw_world \<Rightarrow> fw_installer \<times> fw_world" where
  "fw_turn inst k w =
     (case (find_task inst k, find_operation inst k) of
        (Some t, Some op) \<Rightarrow>
          if tk_phase t = Waiting \<and> lock_held inst (tk_serial t) then (inst, w)
          else (case run_piece inst t op w of (op', phase, w) \<Rightarrow>
                  (inst\<lparr>in_operations := upd_rows (\<lambda>o'. fo_id o' = k) (\<lambda>_. op') (in_operations inst),
                        in_tasks := (case phase of
                            None \<Rightarrow> filter (\<lambda>t. tk_id t \<noteq> k) (in_tasks inst)
                          | Some p \<Rightarrow> upd_rows (\<lambda>t. tk_id t = k) (\<lambda>t. t\<lparr>tk_phase := p\<rparr>) (in_tasks inst))\<rparr>, w))
      | _ \<Rightarrow> (inst, w))"

section \<open>The firmware endpoints\<close>

definition firmware_loopback :: "(string \<Rightarrow> split_url result) \<Rightarrow> http_request \<Rightarrow> unit result" where
  "firmware_loopback urlsplit r =
     (if (case rq_peer r of None \<Rightarrow> '''' | Some h \<Rightarrow> h) \<notin> {''127.0.0.1'', ''::1'', ''localhost'', ''testclient''}
      then Inl (HTTPException 403 '''' ''firmware management is available only from the local dashboard host'')
      else if truthy (rq_origin r)
      then bind_result (urlsplit (the (rq_origin r))) (\<lambda>p.
             if su_hostname p \<noteq> rq_hostname r
             then Inl (HTTPException 403 '''' ''cross-origin firmware management is not permitted'') else Inr ())
      else Inr ())"

record install_request =
  ir_hardware_serial :: string
  ir_package_id :: string

record developer_approval_request = install_request +
  ir_confirmation :: string

definition package_id_pattern :: "string \<Rightarrow> bool" where
  "package_id_pattern s =
     (2 \<le> length s \<and> length s \<le> 64 \<and> is_lower_alnum (hd s)
      \<and> list_all (\<lambda>c. is_lower_alnum c \<or> c \<in> {CHR ''.'', CHR ''_'', CHR ''-''}) (tl s))"

definition install_request_valid :: "'a install_request_scheme \<Rightarrow> bool" where
  "install_request_valid b = (serial_pattern (ir_hardware_serial b) \<and> package_id_pattern (ir_package_id b))"

fun fw_http :: "exn \<Rightarrow> exn" where
  "fw_http (FirmwareValidationError m _) = HTTPException 409 '''' m"
| "fw_http e = e"

definition fw_http_result :: "'a result \<Rightarrow> 'a result" where
  "fw_http_result r = (case r of Inl e \<Rightarrow> Inl (fw_http e) | Inr x \<Rightarrow> Inr x)"

definition packages_handler ::
  "(string \<Rightarrow> split_url result) \<Rightarrow> http_request \<Rightarrow> fw_installer \<Rightarrow> fw_world \<Rightarrow> dict list result \<times> fw_world" where
  "packages_handler urlsplit r inst w =
     (case firmware_loopback urlsplit r of Inl e \<Rightarrow> (Inl e, w) | Inr _ \<Rightarrow> catalog_list (in_catalog inst) w)"

definition fw_boards_handler ::
  "(string \<Rightarrow> split_url result) \<Rightarrow> http_request \<Rightarrow> fw_installer \<Rightarrow> fw_world \<Rightarrow> dict list result \<times> fw_world" where
  "fw_boards_handler urlsplit r inst w =
     (case firmware_loopback urlsplit r of Inl e \<Rightarrow> (Inl e, w) | Inr _ \<Rightarrow> fw_boards (in_catalog inst) w)"

definition developer_approve ::
  "(string \<Rightarrow> split_url result) \<Rightarrow> http_request \<Rightarrow> developer_approval_request \<Rightarrow> fw_installer \<Rightarrow> fw_world
   \<Rightarrow> dict result \<times> fw_installer \<times> fw_world" where
  "developer_approve urlsplit r body inst w =
     (if \<not> install_request_valid body then (Inl (HTTPException 422 '''' ''''), inst, w)
      else case firmware_loopback urlsplit r of
        Inl e \<Rightarrow> (Inl e, inst, w)
      | Inr _ \<Rightarrow>
          if ir_confirmation body \<noteq> ''APPROVE DEVELOPMENT FIRMWARE''
          then (Inl (HTTPException 422 '''' ''explicit development firmware confirmation is required''), inst, w)
          else (case fw_boards (in_catalog inst) w of
             (Inl e, w) \<Rightarrow> (Inl e, inst, w)
           | (Inr rows, w) \<Rightarrow>
               if length (filter (\<lambda>b. dget b ''hardware_serial'' = JStr (ir_hardware_serial body)) rows) \<noteq> 1
               then (Inl (HTTPException 409 '''' ''exactly one matching supported board is required''), inst, w)
               else (case approve_development (in_catalog inst) w (JStr (ir_package_id body)) of
                  (res, cat, w) \<Rightarrow> (fw_http_result res, inst\<lparr>in_catalog := cat\<rparr>, w))))"

definition install_handler ::
  "(string \<Rightarrow> split_url result) \<Rightarrow> http_request \<Rightarrow> install_request \<Rightarrow> string \<Rightarrow> time \<Rightarrow> fw_installer \<Rightarrow> fw_world
   \<Rightarrow> fw_operation result \<times> fw_installer \<times> fw_world" where
  "install_handler urlsplit r body operation_id now inst w =
     (if \<not> install_request_valid body then (Inl (HTTPException 422 '''' ''''), inst, w)
      else case firmware_loopback urlsplit r of
        Inl e \<Rightarrow> (Inl e, inst, w)
      | Inr _ \<Rightarrow>
          (case fw_start inst w (ir_hardware_serial body) (ir_package_id body) operation_id now of
             (res, inst, w) \<Rightarrow> (fw_http_result res, inst, w)))"

definition fw_operation_handler ::
  "(string \<Rightarrow> split_url result) \<Rightarrow> http_request \<Rightarrow> string \<Rightarrow> fw_installer \<Rightarrow> fw_operation result" where
  "fw_operation_handler urlsplit r operation_id inst =
     bind_result (firmware_loopback urlsplit r) (\<lambda>_.
       case find_operation inst operation_id of
         None \<Rightarrow> Inl (HTTPException 404 '''' ''firmware operation not found'') | Some op \<Rightarrow> Inr op)"

text \<open>The turns of the event loop: a request is handled, or a task runs to its next suspension point.\<close>

inductive fw_step :: "fw_installer \<times> fw_world \<Rightarrow> fw_installer \<times> fw_world \<Rightarrow> bool" where
  Install: "install_handler urlsplit r body k now inst w = (res, inst', w') \<Longrightarrow>
      k \<notin> fo_id ` set (in_operations inst) \<Longrightarrow> fw_step (inst, w) (inst', w')"
| Approve: "developer_approve urlsplit r body' inst w = (res', inst', w') \<Longrightarrow> fw_step (inst, w) (inst', w')"
| Turn: "fw_turn inst k w = (inst', w') \<Longrightarrow> fw_step (inst, w) (inst', w')"

section \<open>What the inspection of an image establishes\<close>

text \<open>
  The reference is a loader of the Intel HEX format: it gives the bytes an image programs with their addresses. Record
  type 2 sets a segment base, which \<open>inspect_intel_hex\<close> passes over.
\<close>

definition hex_records :: "string \<Rightarrow> nat list list result" where
  "hex_records content = map_result (\<lambda>line. fromhex (drop 1 line)) (splitlines content)"

fun loader :: "int \<Rightarrow> nat list list \<Rightarrow> (int \<times> nat) list" where
  "loader base [] = []"
| "loader base (raw # rest) =
     (if raw ! 3 = 0
      then zip (map (\<lambda>i. base + int (256 * raw ! 1 + raw ! 2) + int i) [0..<raw ! 0]) (drop 4 raw) @ loader base rest
      else if raw ! 3 = 4 then loader (int (256 * raw ! 4 + raw ! 5) * 65536) rest
      else if raw ! 3 = 2 then loader (int (256 * raw ! 4 + raw ! 5) * 16) rest
      else loader base rest)"

definition plain_records :: "nat list list \<Rightarrow> bool" where
  "plain_records recs = list_all (\<lambda>raw. raw ! 3 \<noteq> 2 \<and> (raw ! 3 = 4 \<longrightarrow> raw ! 0 = 2)) recs"

fun ranges :: "int \<Rightarrow> nat list list \<Rightarrow> (int \<times> int) list" where
  "ranges base [] = []"
| "ranges base (raw # rest) =
     (if raw ! 3 = 0
      then (base + int (from_bytes (take 2 (drop 1 raw))), base + int (from_bytes (take 2 (drop 1 raw))) + int (raw ! 0) - 1)
           # ranges base rest
      else if raw ! 3 = 4 then ranges (push_bit 16 (int (from_bytes (take 2 (drop 4 raw))))) rest
      else ranges base rest)"

lemma hex_recordD:
  assumes "hex_record n line = Inr raw"
  shows "fromhex (drop 1 line) = Inr raw" "length raw = raw ! 0 + 5" "sum_list raw mod 256 = 0"
proof -
  have "sum_list raw AND 0xFF = 0"
    using assms by (auto simp: hex_record_def bind_result_Inr_iff split: if_splits)
  moreover have "(0xFF :: nat) = mask 8" by (simp add: mask_eq_exp_minus_1)
  ultimately show "sum_list raw mod 256 = 0" by (simp add: take_bit_eq_mask [symmetric] take_bit_eq_mod)
qed (use assms in \<open>auto simp: hex_record_def bind_result_Inr_iff split: if_splits\<close>)

lemma inspect_lines_ranges:
  "inspect_lines n base acc lines = Inr addresses \<Longrightarrow>
     \<exists>recs. map_result (\<lambda>line. fromhex (drop 1 line)) lines = Inr recs \<and> addresses = acc @ ranges base recs
       \<and> (\<forall>raw \<in> set recs. length raw = raw ! 0 + 5 \<and> sum_list raw mod 256 = 0)"
proof (induction n base acc lines arbitrary: addresses rule: inspect_lines.induct)
  case (1 number base acc)
  then show ?case by simp
next
  case (2 number base acc line rest)
  obtain raw where raw: "hex_record number line = Inr raw"
    using "2.prems" by (auto simp: bind_result_Inr_iff)
  note facts = hex_recordD [OF raw]
  show ?case
  proof (cases "raw ! 3 = 0")
    case True
    with "2.prems" raw "2.IH"(1) [OF refl refl refl True] facts show ?thesis
      by (fastforce simp: Let_def)
  next
    case data: False
    show ?thesis
    proof (cases "raw ! 3 = 4")
      case True
      with "2.prems" raw "2.IH"(2) [OF refl refl refl data True] data facts show ?thesis
        by (fastforce simp: Let_def)
    next
      case False
      with "2.prems" raw data have known: "\<not> raw ! 3 \<notin> {1, 2, 3, 5}"
        by (auto simp: Let_def split: if_splits)
      have "inspect_lines (Suc number) base acc rest = Inr addresses"
        using "2.prems" raw data False known by (auto simp: Let_def split: if_splits)
      from "2.IH"(3) [OF refl refl refl data False known this] data False facts show ?thesis
        by fastforce
    qed
  qed
qed

lemma from_bytes_two: "Suc i < length raw \<Longrightarrow> from_bytes (take 2 (drop i raw)) = 256 * raw ! i + raw ! Suc i"
  by (simp add: from_bytes_def numeral_2_eq_2 Cons_nth_drop_Suc [symmetric] Suc_lessD)

lemma length_loader:
  "\<forall>raw \<in> set recs. length raw = raw ! 0 + 5 \<Longrightarrow>
     sum_list (map (\<lambda>r. snd r - fst r + 1) (ranges base' recs)) = int (length (loader base recs))"
  by (induction recs arbitrary: base base') auto

lemma loader_bounded:
  assumes "\<forall>raw \<in> set recs. length raw = raw ! 0 + 5" "plain_records recs" "(a, b) \<in> set (loader base recs)"
  shows "\<exists>r \<in> set (ranges base recs). fst r \<le> a \<and> a \<le> snd r"
  using assms
proof (induction recs arbitrary: base)
  case (Cons raw recs)
  have len: "length raw = raw ! 0 + 5" using Cons.prems by simp
  have two: "from_bytes (take 2 (drop (Suc 0) raw)) = 256 * raw ! 1 + raw ! 2"
    using from_bytes_two [of "Suc 0" raw] len by (simp add: numeral_2_eq_2)
  have four: "raw ! 0 = 2 \<Longrightarrow> from_bytes (take 2 (drop 4 raw)) = 256 * raw ! 4 + raw ! 5"
    using from_bytes_two [of 4 raw] len by simp
  show ?case
  proof (cases "raw ! 3 = 0 \<and> (a, b) \<notin> set (loader base recs)")
    case True
    with Cons.prems(3) obtain i where "i < raw ! 0" "a = base + int (256 * raw ! 1 + raw ! 2) + int i"
      by (auto dest!: set_zip_leftD)
    with True two show ?thesis by auto
  next
    case False
    with Cons four two show ?thesis by (fastforce simp: plain_records_def push_bit_eq_mult split: if_splits)
  qed
qed simp

lemma fst_set_zip: "length xs \<le> length ys \<Longrightarrow> fst ` set (zip xs ys) = set xs"
proof -
  assume "length xs \<le> length ys"
  then have "map fst (zip xs ys) = xs" by (simp add: map_fst_zip_take)
  then show ?thesis by (metis list.set_map)
qed

lemma data_addresses:
  assumes "length raw = raw ! 0 + 5"
  shows "fst ` set (zip (map f [0..<raw ! 0]) (drop 4 raw)) = f ` {..<raw ! 0}"
  using assms by (subst fst_set_zip) (auto simp: atLeast0LessThan)

lemma ranges_reached:
  assumes "\<forall>raw \<in> set recs. length raw = raw ! 0 + 5" "plain_records recs"
    and "\<forall>raw \<in> set recs. raw ! 3 = 0 \<longrightarrow> 0 < raw ! 0" and "r \<in> set (ranges base recs)"
  shows "{fst r, snd r} \<subseteq> fst ` set (loader base recs)"
  using assms
proof (induction recs arbitrary: base)
  case (Cons raw recs)
  have len: "length raw = raw ! 0 + 5" using Cons.prems by simp
  have two: "from_bytes (take 2 (drop (Suc 0) raw)) = 256 * raw ! 1 + raw ! 2"
    using from_bytes_two [of "Suc 0" raw] len by (simp add: numeral_2_eq_2)
  have four: "raw ! 0 = 2 \<Longrightarrow> from_bytes (take 2 (drop 4 raw)) = 256 * raw ! 4 + raw ! 5"
    using from_bytes_two [of 4 raw] len by simp
  have IH: "r \<in> set (ranges b recs) \<Longrightarrow> {fst r, snd r} \<subseteq> fst ` set (loader b recs)" for b
    using Cons by (simp add: plain_records_def)
  show ?case
  proof (cases "raw ! 3 = 0")
    case True
    define origin where "origin = base + int (256 * raw ! 1 + raw ! 2)"
    have all: "fst ` set (loader base (raw # recs)) = (\<lambda>i. origin + int i) ` {..<raw ! 0} \<union> fst ` set (loader base recs)"
      using True data_addresses [OF len, of "\<lambda>i. origin + int i"] by (simp add: origin_def image_Un)
    have pos: "0 < raw ! 0" using Cons.prems(3) True by simp
    have "r = (origin, origin + int (raw ! 0) - 1) \<or> r \<in> set (ranges base recs)"
      using Cons.prems(4) True two by (auto simp: origin_def)
    then show ?thesis
    proof
      assume r: "r = (origin, origin + int (raw ! 0) - 1)"
      have "origin \<in> (\<lambda>i. origin + int i) ` {..<raw ! 0}" using pos by force
      moreover have "origin + int (raw ! 0) - 1 \<in> (\<lambda>i. origin + int i) ` {..<raw ! 0}"
        using pos by (intro image_eqI [of _ _ "raw ! 0 - 1"]) auto
      ultimately show ?thesis unfolding all using r by simp
    next
      assume "r \<in> set (ranges base recs)"
      then show ?thesis unfolding all using IH by blast
    qed
  next
    case False
    show ?thesis
    proof (cases "raw ! 3 = 4")
      case True
      with Cons.prems(2) have "raw ! 0 = 2" by (simp add: plain_records_def)
      with True Cons.prems(4) IH four show ?thesis by (simp add: push_bit_eq_mult)
    next
      case False
      with \<open>raw ! 3 \<noteq> 0\<close> Cons.prems(2,4) IH show ?thesis by (simp add: plain_records_def)
    qed
  qed
qed simp

lemma fold_minimum:
  "fold (\<lambda>r m. min (f r) m) rs m \<le> (m :: int)"
  "r \<in> set rs \<Longrightarrow> fold (\<lambda>r m. min (f r) m) rs m \<le> f r"
  "fold (\<lambda>r m. min (f r) m) rs m \<in> insert m (f ` set rs)"
proof -
  show below: "fold (\<lambda>r m. min (f r) m) rs m \<le> m" for rs m
    by (induction rs arbitrary: m) (auto intro: order_trans [OF _ min.cobounded2])
  show "fold (\<lambda>r m. min (f r) m) rs m \<le> f r" if "r \<in> set rs"
    using that
  proof (induction rs arbitrary: m)
    case (Cons a rs)
    show ?case
    proof (cases "r \<in> set rs")
      case False
      with Cons.prems have "r = a" by simp
      then show ?thesis using below [of rs "min (f a) m"] by simp
    qed (use Cons in simp)
  qed simp
  show "fold (\<lambda>r m. min (f r) m) rs m \<in> insert m (f ` set rs)"
  proof (induction rs arbitrary: m)
    case (Cons a rs)
    have "fold (\<lambda>r m. min (f r) m) rs (min (f a) m) \<in> insert (min (f a) m) (f ` set rs)" by (rule Cons.IH)
    then show ?case by (auto simp: min_def split: if_splits)
  qed simp
qed

lemma fold_max_minimum: "fold (\<lambda>r m. max (f r) m) rs m = - fold (\<lambda>r m. min (- f r) m) rs (- m :: int)"
  by (induction rs arbitrary: m) (simp_all add: minus_max_eq_min)

lemma range_of_bounds:
  assumes "addresses \<noteq> []" "range_of addresses = (lo, hi, n)"
  shows "r \<in> set addresses \<Longrightarrow> lo \<le> fst r \<and> snd r \<le> hi"
    and "lo \<in> fst ` set addresses" "hi \<in> snd ` set addresses"
proof -
  obtain a as where split: "addresses = a # as" using assms(1) by (cases addresses) auto
  have lo: "lo = fold (\<lambda>r m. min (fst r) m) as (fst a)"
    and hi: "- hi = fold (\<lambda>r m. min (- snd r) m) as (- snd a)"
    using assms(2) split by (auto simp: range_of_def fold_max_minimum)
  show "lo \<le> fst r \<and> snd r \<le> hi" if "r \<in> set addresses"
    using that split fold_minimum(1) [of fst as "fst a"] fold_minimum(2) [of r as fst "fst a"]
      fold_minimum(1) [of "\<lambda>r. - snd r" as "- snd a"] fold_minimum(2) [of r as "\<lambda>r. - snd r" "- snd a"]
    by (auto simp: lo hi [symmetric])
  show "lo \<in> fst ` set addresses" using fold_minimum(3) [of fst as "fst a"] split by (simp add: lo)
  show "hi \<in> snd ` set addresses"
    using fold_minimum(3) [of "\<lambda>r. - snd r" as "- snd a"] split unfolding hi [symmetric] by force
qed

lemma inspect_inversion:
  assumes "inspect_intel_hex content = Inr (lo, hi, n)"
  obtains recs where "hex_records content = Inr recs" "\<forall>raw \<in> set recs. length raw = raw ! 0 + 5"
    "ranges 0 recs \<noteq> []" "range_of (ranges 0 recs) = (lo, hi, n)"
proof -
  obtain addresses where lines: "inspect_lines 1 0 [] (splitlines content) = Inr addresses"
    and addresses: "addresses \<noteq> []" "range_of addresses = (lo, hi, n)"
    using assms by (auto simp: inspect_intel_hex_def decode_ascii_def bind_result_Inr_iff split: if_splits)
  from inspect_lines_ranges [OF lines] addresses show ?thesis
    by (auto simp: hex_records_def intro: that)
qed


definition sample_hex :: string where
  "sample_hex = '':020000040800F2'' @ [CHR 0x0A] @ '':04600000DEADBEEF64'' @ [CHR 0x0A] @ '':0260040001FF9A'' @ [CHR 0x0A]
     @ '':00000001FF'' @ [CHR 0x0A]"

lemma sample_hex_lines:
  "splitlines sample_hex = ['':020000040800F2'', '':04600000DEADBEEF64'', '':0260040001FF9A'', '':00000001FF'']"
  by (simp add: sample_hex_def splitlines_def is_line_break_def)

lemma sample_hex_records:
  "hex_record n '':020000040800F2'' = Inr [2, 0, 0, 4, 8, 0, 0xF2]"
  "hex_record n '':04600000DEADBEEF64'' = Inr [4, 0x60, 0, 0, 0xDE, 0xAD, 0xBE, 0xEF, 0x64]"
  "hex_record n '':0260040001FF9A'' = Inr [2, 0x60, 4, 0, 1, 0xFF, 0x9A]"
  "hex_record n '':00000001FF'' = Inr [0, 0, 0, 1, 0xFF]"
  by (simp_all add: hex_record_def hex_val_def Let_def)

lemma sample_hex_inspected: "inspect_intel_hex sample_hex = Inr (0x08006000, 0x08006005, 6)"
proof -
  have "decode_ascii sample_hex = Inr sample_hex" by (simp add: decode_ascii_def sample_hex_def)
  then show ?thesis
    by (simp add: inspect_intel_hex_def sample_hex_lines sample_hex_records from_bytes_def range_of_def
        push_bit_eq_mult numeral_2_eq_2)
qed


section \<open>What a validated package guarantees\<close>

lemma fw_tick_simps [simp]:
  "fw_root (fw_tick w) = fw_root w" "fw_resolve (fw_tick w) = fw_resolve w" "fw_sha256 (fw_tick w) = fw_sha256 w"
  "fw_read (fw_tick w) = fw_read w" "fw_comports (fw_tick w) = fw_comports w" "fw_which (fw_tick w) = fw_which w"
  "fw_exec (fw_tick w) = fw_exec w" "fw_str (fw_tick w) = fw_str w" "fw_clock (fw_tick w) = Suc (fw_clock w)"
  by (simp_all add: fw_tick_def)

lemma read_artifactD:
  "read_artifact label w path = (Inr data, w') \<Longrightarrow> fw_read w (fw_clock w) path = Bytes data \<and> w' = fw_tick w"
  by (auto simp: read_artifact_def read_file_def split: file_read.splits)

lemma inspect_fileD:
  "inspect_file w path = (Inr x, w') \<Longrightarrow>
     (\<exists>content. fw_read w (fw_clock w) path = Bytes content \<and> inspect_intel_hex content = Inr x) \<and> w' = fw_tick w"
  by (auto simp: inspect_file_def read_file_def split: file_read.splits)

lemma artifact_ofD:
  "artifact_of w item = Inr path \<Longrightarrow>
     (\<exists>text. dget item ''artifact_path'' = JStr text \<and> path = fw_resolve w text) \<and> inside_root (fw_root w) path
     \<and> JStr (path_name path) = dget item ''artifact_filename''"
  by (auto simp: artifact_of_def bind_result_Inr_iff item_at_Inr_iff dget_def Let_def split: if_splits
      elim!: json_text.elims)

lemma protected_overlapD:
  "protected_overlap item lo hi = Inr False \<Longrightarrow>
     \<exists>boot nvm. int16 (dget item ''bootloader_end'') = Inr boot \<and> int16 (dget item ''nvm3_start'') = Inr nvm
       \<and> boot < lo \<and> hi < nvm"
  by (auto simp: protected_overlap_def bind_result_Inr_iff item_at_Inr_iff dget_def split: if_splits)

lemma content_mismatchD:
  "content_mismatch w expected data = Inr False \<Longrightarrow>
     json_eq_int (dget expected ''artifact_size'') (int (length data)) \<and>
     (\<exists>sha. dget expected ''sha256'' = JStr sha
        \<and> map ascii_upper_char (fw_sha256 w data) = map ascii_upper_char sha)"
  by (auto simp: content_mismatch_def bind_result_Inr_iff item_at_Inr_iff dget_def split: if_splits
      elim!: json_text.elims)

lemma content_mismatch_tick: "content_mismatch (fw_tick w) = content_mismatch w"
  by (intro ext) (simp add: content_mismatch_def cong: if_cong)

lemma range_mismatchD:
  "range_mismatch expected lo hi = Inr False \<Longrightarrow>
     int16 (dget expected ''application_start'') = Inr lo \<and> int16 (dget expected ''application_end'') = Inr hi"
  by (auto simp: range_mismatch_def bind_result_Inr_iff item_at_Inr_iff dget_def split: if_splits)

definition expected_of :: "fw_catalog \<Rightarrow> json \<Rightarrow> dict \<Rightarrow> dict" where
  "expected_of cat package_id item = (case map_of (cat_approvals cat) package_id of None \<Rightarrow> item | Some a \<Rightarrow> a)"

lemma validate_inversion:
  assumes "validate cat w pid = (Inr (item, path), w')"
  obtains data content lo hi n where "map_of (cat_packages cat) pid = Some item" "package_guard item = Inr ()"
    "artifact_of w item = Inr path" "fw_read w (fw_clock w) path = Bytes data"
    "content_mismatch w (expected_of cat pid item) data = Inr False"
    "fw_read w (Suc (fw_clock w)) path = Bytes content" "inspect_intel_hex content = Inr (lo, hi, n)"
    "range_mismatch (expected_of cat pid item) lo hi = Inr False" "protected_overlap item lo hi = Inr False"
proof -
  obtain item' where item': "map_of (cat_packages cat) pid = Some item'"
    using assms by (auto simp: validate_def split: option.splits)
  obtain path' where path': "bind_result (package_guard item') (\<lambda>_. artifact_of w item') = Inr path'"
    using assms item' by (auto simp: validate_def split: sum.splits)
  obtain data where data: "read_artifact ''approved'' w path' = (Inr data, fw_tick w)"
    using assms item' path'
    by (auto simp: validate_def read_artifact_def read_file_def split: file_read.splits)
  have ok: "raise_if (content_mismatch (fw_tick w) (expected_of cat pid item') data)
      (FirmwareValidationError ''firmware artifact hash or size mismatch'' ''hash_mismatch'') = Inr ()"
    using assms item' path' data unfolding validate_def expected_of_def
    by (auto simp: Let_def split: sum.splits)
  obtain x where x: "inspect_file (fw_tick w) path' = (Inr x, fw_tick (fw_tick w))"
    using assms item' path' data ok unfolding validate_def expected_of_def
    by (auto simp: Let_def inspect_file_def read_file_def bind_result_Inr_iff split: prod.splits file_read.splits)
  obtain lo hi n where x_eq: "x = (lo, hi, n)" by (cases x) auto
  have rest: "raise_if (range_mismatch (expected_of cat pid item') lo hi)
       (fw_invalid ''firmware programmed range does not match the approved manifest'') = Inr ()"
     "raise_if (protected_overlap item' lo hi) (fw_invalid ''firmware overlaps a protected region'') = Inr ()"
     "item = item'" "path = path'"
    using assms item' path' data ok x x_eq unfolding validate_def expected_of_def
    by (auto simp: Let_def bind_result_Inr_iff)
  from read_artifactD [OF data] inspect_fileD [OF x] ok rest path' item' x_eq show ?thesis
    by (auto simp: raise_if_Inr_iff bind_result_Inr_iff content_mismatch_tick intro!: that)
qed

lemma validated_firmware_safe_facts:
  assumes "validate cat w pid = (Inr (item, path), w')"
    and "fw_read w (Suc (fw_clock w)) path = Bytes content" "hex_records content = Inr recs" "plain_records recs"
  shows "map_of (cat_packages cat) pid = Some item" and "inside_root (fw_root w) path"
    and "dget item ''fqbn'' = JStr approved_fqbn" and "json_truthy (dget item ''application_only'')"
    and "\<exists>data sha. fw_read w (fw_clock w) path = Bytes data
           \<and> json_eq_int (dget (expected_of cat pid item) ''artifact_size'') (int (length data))
           \<and> dget (expected_of cat pid item) ''sha256'' = JStr sha
           \<and> map ascii_upper_char (fw_sha256 w data) = map ascii_upper_char sha"
    and "\<exists>boot nvm. int16 (dget item ''bootloader_end'') = Inr boot \<and> int16 (dget item ''nvm3_start'') = Inr nvm
           \<and> (\<forall>(a, b) \<in> set (loader 0 recs). boot < a \<and> a < nvm)"
proof -
  obtain data lo hi n where inv: "map_of (cat_packages cat) pid = Some item" "package_guard item = Inr ()"
    "artifact_of w item = Inr path" "fw_read w (fw_clock w) path = Bytes data"
    "content_mismatch w (expected_of cat pid item) data = Inr False"
    "inspect_intel_hex content = Inr (lo, hi, n)" "protected_overlap item lo hi = Inr False"
    using validate_inversion [OF assms(1)] assms(2) by (metis file_read.inject(2))
  show "map_of (cat_packages cat) pid = Some item" by (rule inv(1))
  show "inside_root (fw_root w) path" using artifact_ofD [OF inv(3)] by simp
  show "dget item ''fqbn'' = JStr approved_fqbn" "json_truthy (dget item ''application_only'')"
    using inv(2) by (auto simp: package_guard_def bind_result_Inr_iff split: if_splits)
  show "\<exists>data sha. fw_read w (fw_clock w) path = Bytes data
           \<and> json_eq_int (dget (expected_of cat pid item) ''artifact_size'') (int (length data))
           \<and> dget (expected_of cat pid item) ''sha256'' = JStr sha
           \<and> map ascii_upper_char (fw_sha256 w data) = map ascii_upper_char sha"
    using content_mismatchD [OF inv(5)] inv(4) by auto
  obtain recs' where recs': "hex_records content = Inr recs'" and len: "\<forall>raw \<in> set recs'. length raw = raw ! 0 + 5"
    and range: "ranges 0 recs' \<noteq> []" "range_of (ranges 0 recs') = (lo, hi, n)"
    using inspect_inversion [OF inv(6)] .
  have "lo \<le> a \<and> a \<le> hi" if "(a, b) \<in> set (loader 0 recs)" for a b
    using loader_bounded [of recs a b 0] range_of_bounds(1) [OF range] assms(3,4) recs' len that by force
  then show "\<exists>boot nvm. int16 (dget item ''bootloader_end'') = Inr boot \<and> int16 (dget item ''nvm3_start'') = Inr nvm
           \<and> (\<forall>(a, b) \<in> set (loader 0 recs). boot < a \<and> a < nvm)"
    using protected_overlapD [OF inv(7)] by fastforce
qed


definition sample_item :: dict where
  "sample_item =
     [(''package_id'', JStr ''xiao-test''), (''firmware_version'', JStr ''0.1.0''), (''protocol_version'', JStr ''1.0.0''),
      (''fqbn'', JStr approved_fqbn), (''artifact_path'', JStr ''build/app.hex''), (''artifact_filename'', JStr ''app.hex''),
      (''artifact_size'', JInt 64), (''sha256'', JStr ''5083''), (''application_start'', JStr ''0x08006000''),
      (''application_end'', JStr ''0x08006005''), (''bootloader_end'', JStr ''0x08005FFF''), (''nvm3_start'', JStr ''0x08174000''),
      (''build_provenance'', JStr ''test bench''), (''application_only'', JBool True)]"

definition sample_serial :: string where
  "sample_serial = ''0A1B2C3D''"

definition sample_fw_world :: fw_world where
  "sample_fw_world =
     \<lparr>fw_root = [''srv''], fw_resolve = (\<lambda>_. [''srv'', ''build'', ''app.hex'']), fw_sha256 = (\<lambda>_. ''5083''),
      fw_read = (\<lambda>_ _. Bytes sample_hex),
      fw_comports = (\<lambda>_. [\<lparr>up_device = ''COM3'', up_serial = Some sample_serial, up_vid = 0x2886, up_pid = 0x0062\<rparr>]),
      fw_which = (\<lambda>_ _. Some ''arduino-cli''), fw_exec = (\<lambda>_ _. Inr (0, ''Programming Finished'')),
      fw_str = concat, fw_clock = 0\<rparr>"

definition sample_catalog :: fw_catalog where
  "sample_catalog = \<lparr>cat_packages = [(JStr ''xiao-test'', sample_item)], cat_developer_enabled = True, cat_approvals = []\<rparr>"

lemma sample_package_guard: "package_guard sample_item = Inr ()"
  by (simp add: package_guard_def required_package_keys_def sample_item_def has_key_def dget_def ascii_lower_char_def)

lemma sample_artifact: "artifact_of sample_fw_world sample_item = Inr [''srv'', ''build'', ''app.hex'']"
  by (simp add: artifact_of_def sample_item_def sample_fw_world_def item_at_def inside_root_def path_name_def dget_def Let_def)

lemma sample_int16:
  "int16 (JStr ''0x08006000'') = Inr 0x08006000" "int16 (JStr ''0x08006005'') = Inr 0x08006005"
  "int16 (JStr ''0x08005FFF'') = Inr 0x08005FFF" "int16 (JStr ''0x08174000'') = Inr 0x08174000"
  by (simp_all add: int16_def int16_text_def py_strip_def is_space_def hex_magnitude_def hex_val_def Let_def)

lemma sample_ranges:
  "range_mismatch sample_item 0x08006000 0x08006005 = Inr False"
  "protected_overlap sample_item 0x08006000 0x08006005 = Inr False"
  by (simp_all add: range_mismatch_def protected_overlap_def sample_item_def item_at_def sample_int16)

lemma sample_content: "content_mismatch w sample_item sample_hex = Inr False" if "fw_sha256 w = (\<lambda>_. ''5083'')"
  using that by (simp add: content_mismatch_def sample_item_def item_at_def sample_hex_def ascii_upper_char_def)

lemma sample_read: "fw_read sample_fw_world n path = Bytes sample_hex" "fw_sha256 sample_fw_world = (\<lambda>_. ''5083'')"
  by (simp_all add: sample_fw_world_def)

lemma sample_validated:
  assumes "fw_root w = fw_root sample_fw_world" "fw_resolve w = fw_resolve sample_fw_world"
    "fw_read w = fw_read sample_fw_world" "fw_sha256 w = fw_sha256 sample_fw_world"
  shows "validate sample_catalog w (JStr ''xiao-test'') =
    (Inr (sample_item, [''srv'', ''build'', ''app.hex'']), fw_tick (fw_tick w))"
proof -
  have "artifact_of w sample_item = Inr [''srv'', ''build'', ''app.hex'']"
    using sample_artifact assms by (simp add: artifact_of_def)
  then show ?thesis
    using assms by (simp add: validate_def sample_catalog_def sample_package_guard read_artifact_def read_file_def sample_read
        sample_content raise_if_def inspect_file_def sample_hex_inspected sample_ranges)
qed

lemma sample_hex_decoded:
  "hex_records sample_hex =
     Inr [[2, 0, 0, 4, 8, 0, 0xF2], [4, 0x60, 0, 0, 0xDE, 0xAD, 0xBE, 0xEF, 0x64], [2, 0x60, 4, 0, 1, 0xFF, 0x9A],
          [0, 0, 0, 1, 0xFF]]"
  using hex_recordD(1) [OF sample_hex_records(1)] hex_recordD(1) [OF sample_hex_records(2)]
    hex_recordD(1) [OF sample_hex_records(3)] hex_recordD(1) [OF sample_hex_records(4)]
  by (simp add: hex_records_def sample_hex_lines)


section \<open>Developer approvals\<close>

text \<open>\<open>int(f"0x{n:08X}", 16)\<close> is \<open>n\<close> for a non-negative number.\<close>

lemma hex_val_hex_char: "n < 16 \<Longrightarrow> hex_val (hex_char n) = Some n"
  by (simp add: hex_val_def hex_char_def Let_def of_char_of)

lemma hex_digits_value:
  "list_all (\<lambda>c. hex_val c \<noteq> None) s \<Longrightarrow> hex_digits acc s = Some (foldl (\<lambda>n c. 16 * n + the (hex_val c)) acc s)"
proof (induction acc s rule: hex_digits.induct)
  case (3 n c d cs)
  have "hex_val (CHR ''_'') = None" by (simp add: hex_val_def)
  with "3.prems" have "c \<noteq> CHR ''_''" by auto
  with 3 show ?case by auto
qed auto

lemma hex_str_digits:
  "list_all (\<lambda>c. hex_val c \<noteq> None) (hex_str n)" "hex_str n \<noteq> []" "foldl (\<lambda>n c. 16 * n + the (hex_val c)) 0 (hex_str n) = n"
proof -
  have "list_all (\<lambda>c. hex_val c \<noteq> None) (hex_str n) \<and> hex_str n \<noteq> []
      \<and> foldl (\<lambda>n c. 16 * n + the (hex_val c)) 0 (hex_str n) = n"
  proof (induction n rule: hex_str.induct)
    case (1 n)
    then show ?case by (subst (1 2 3) hex_str.simps) (simp add: hex_val_hex_char)
  qed
  then show "list_all (\<lambda>c. hex_val c \<noteq> None) (hex_str n)" "hex_str n \<noteq> []"
    "foldl (\<lambda>n c. 16 * n + the (hex_val c)) 0 (hex_str n) = n" by auto
qed

lemma zfill_value:
  "hex_digits 0 (zfill w (hex_str n)) = Some n" "list_all (\<lambda>c. hex_val c \<noteq> None) (zfill w (hex_str n))"
  "zfill w (hex_str n) \<noteq> []"
proof -
  have zero: "hex_val (CHR ''0'') = Some 0" by (simp add: hex_val_def)
  have zeros: "foldl (\<lambda>n c. 16 * n + the (hex_val c)) 0 (replicate k (CHR ''0'')) = 0" for k
    by (induction k) (simp_all add: zero)
  show all: "list_all (\<lambda>c. hex_val c \<noteq> None) (zfill w (hex_str n))"
    using hex_str_digits(1) by (auto simp: zfill_def list_all_iff zero)
  show "hex_digits 0 (zfill w (hex_str n)) = Some n"
    by (simp only: hex_digits_value [OF all]) (simp add: zfill_def zeros hex_str_digits)
  show "zfill w (hex_str n) \<noteq> []" by (simp add: zfill_def hex_str_digits)
qed

lemma hex_val_not_space: "hex_val c \<noteq> None \<Longrightarrow> \<not> is_space c"
  by (auto simp: hex_val_def is_space_def Let_def split: if_splits)

lemma py_strip_id: "s \<noteq> [] \<Longrightarrow> \<not> is_space (hd s) \<Longrightarrow> \<not> is_space (last s) \<Longrightarrow> py_strip s = s"
  unfolding py_strip_def by (metis dropWhile_eq_self_iff hd_rev rev_is_Nil_conv rev_rev_ident)

lemma int16_format:
  assumes "0 \<le> n"
  shows "int16 (JStr (format_0x08X n)) = Inr n"
proof -
  let ?z = "zfill 8 (hex_str (nat n))"
  have eq: "format_0x08X n = ''0x'' @ ?z" using assms by (simp add: format_0x08X_def)
  have "hex_val (last ?z) \<noteq> None" using zfill_value(2,3) [of 8 "nat n"] by (simp add: list_all_iff)
  then have "\<not> is_space (last ?z)" by (rule hex_val_not_space)
  moreover have "\<not> is_space (CHR ''0'')" by (simp add: is_space_def)
  ultimately have "py_strip (format_0x08X n) = format_0x08X n"
    unfolding eq by (intro py_strip_id) (simp_all add: zfill_value(3))
  then show ?thesis
    using assms zfill_value(1,3) [of 8 "nat n"] by (simp add: int16_def int16_text_def eq hex_magnitude_def Let_def)
qed

lemma ascii_upper_idem: "map ascii_upper_char (map ascii_upper_char s) = map ascii_upper_char s"
proof -
  have "ascii_upper_char (ascii_upper_char c) = ascii_upper_char c" for c
    by (auto simp: ascii_upper_char_def of_char_of mod_less)
  then show ?thesis by (simp add: comp_def)
qed

lemma ranges_nonneg: "0 \<le> base \<Longrightarrow> r \<in> set (ranges base recs) \<Longrightarrow> 0 \<le> fst r \<and> fst r - 1 \<le> snd r"
proof (induction recs arbitrary: base)
  case (Cons raw recs)
  note next_base = Cons.IH [of "push_bit 16 (int (from_bytes (take 2 (drop 4 raw))))"]
  show ?case using Cons.prems Cons.IH [of base] next_base by (auto split: if_splits)
qed simp

lemma inspect_nonneg:
  assumes "inspect_intel_hex content = Inr (lo, hi, n)"
  shows "0 \<le> lo" "lo - 1 \<le> hi"
proof -
  obtain recs where range: "ranges 0 recs \<noteq> []" "range_of (ranges 0 recs) = (lo, hi, n)"
    using inspect_inversion [OF assms] by blast
  note bounds = range_of_bounds [OF range]
  obtain r where r: "r \<in> set (ranges 0 recs)" "lo = fst r" using bounds(2) by auto
  with ranges_nonneg [of 0 r recs] bounds(1) [of r] show "0 \<le> lo" "lo - 1 \<le> hi" by auto
qed

lemma development_approval_inversion:
  assumes "development_approval cat w pid = (Inr a, w')"
  obtains item path data content lo hi n where "cat_developer_enabled cat" "map_of (cat_packages cat) pid = Some item"
    "artifact_of w item = Inr path" "fw_read w (fw_clock w) path = Bytes data"
    "fw_read w (Suc (fw_clock w)) path = Bytes content" "inspect_intel_hex content = Inr (lo, hi, n)"
    "protected_overlap item lo hi = Inr False" "a = approval_of w data lo hi" "w' = fw_tick (fw_tick w)"
proof -
  have enabled: "cat_developer_enabled cat" using assms by (auto simp: development_approval_def split: if_splits)
  obtain item where item: "map_of (cat_packages cat) pid = Some item"
    using assms enabled by (auto simp: development_approval_def split: option.splits)
  obtain path where path: "artifact_of w item = Inr path"
    using assms enabled item by (auto simp: development_approval_def split: if_splits sum.splits)
  obtain data where data: "read_artifact ''development'' w path = (Inr data, fw_tick w)"
    using assms enabled item path
    by (auto simp: development_approval_def read_artifact_def read_file_def split: if_splits file_read.splits)
  obtain x where x: "inspect_file (fw_tick w) path = (Inr x, fw_tick (fw_tick w))"
    using assms enabled item path data
    by (auto simp: development_approval_def inspect_file_def read_file_def bind_result_Inr_iff
        split: if_splits prod.splits file_read.splits)
  obtain lo hi n where x_eq: "x = (lo, hi, n)" by (cases x) auto
  have "raise_if (protected_overlap item lo hi) (fw_invalid ''development firmware overlaps a protected region'') = Inr ()
      \<and> a = approval_of (fw_tick (fw_tick w)) data lo hi \<and> w' = fw_tick (fw_tick w)"
    using assms enabled item path data x x_eq
    by (auto simp: development_approval_def bind_result_Inr_iff split: if_splits)
  with enabled item path read_artifactD [OF data] inspect_fileD [OF x] x_eq show ?thesis
    by (auto simp: raise_if_Inr_iff approval_of_def intro!: that)
qed

text \<open>The clock of the world is the only part of it that the operations of the catalog change.\<close>

definition same_world :: "fw_world \<Rightarrow> fw_world \<Rightarrow> bool" where
  "same_world w w' = (\<exists>n. w' = w\<lparr>fw_clock := fw_clock w + n\<rparr>)"

lemma same_world_refl [simp]: "same_world w w"
  unfolding same_world_def by (rule exI [of _ 0]) simp

lemma same_world_tick [simp]: "same_world w (fw_tick w)"
  unfolding same_world_def fw_tick_def by (rule exI [of _ 1]) simp

lemma same_world_trans [trans]: "same_world w w' \<Longrightarrow> same_world w' w'' \<Longrightarrow> same_world w w''"
  unfolding same_world_def by (auto simp: add.assoc)

lemma same_worldD:
  assumes "same_world w w'"
  shows "fw_root w' = fw_root w" "fw_resolve w' = fw_resolve w" "fw_sha256 w' = fw_sha256 w" "fw_read w' = fw_read w"
    "fw_comports w' = fw_comports w" "fw_which w' = fw_which w" "fw_exec w' = fw_exec w" "fw_str w' = fw_str w"
    "fw_clock w \<le> fw_clock w'"
  using assms by (auto simp: same_world_def)

lemma same_world_read_artifact: "read_artifact label w path = (r, w') \<Longrightarrow> same_world w w'"
  by (auto simp: read_artifact_def read_file_def)

lemma same_world_inspect: "inspect_file w path = (r, w') \<Longrightarrow> same_world w w'"
  by (auto simp: inspect_file_def read_file_def)

lemma same_world_validate: "validate cat w pid = (r, w') \<Longrightarrow> same_world w w'"
  by (auto simp: validate_def Let_def split: option.splits sum.splits prod.splits
      dest: same_world_read_artifact same_world_inspect intro: same_world_trans)

lemma same_world_package_row: "package_row cat w item = (r, w') \<Longrightarrow> same_world w w'"
  by (auto simp: package_row_def Let_def split: option.splits sum.splits prod.splits dest: same_world_validate)

lemma same_world_package_rows: "package_rows cat w items = (r, w') \<Longrightarrow> same_world w w'"
proof (induction cat w items arbitrary: r w' rule: package_rows.induct)
  case (2 cat w item rest)
  then show ?case
    by (auto split: sum.splits prod.splits dest!: same_world_package_row intro: same_world_trans)
qed simp

lemma same_world_catalog_list: "catalog_list cat w = (r, w') \<Longrightarrow> same_world w w'"
  unfolding catalog_list_def by (rule same_world_package_rows)

lemma same_world_approval: "development_approval cat w pid = (r, w') \<Longrightarrow> same_world w w'"
  by (auto simp: development_approval_def split: option.splits sum.splits prod.splits if_splits
      dest: same_world_read_artifact same_world_inspect intro: same_world_trans)

text \<open>While the artifact does not change, a package that a developer approval accepted validates from then on against the size, the
  digest and the range that the approval recorded, provided that its manifest entry is complete; the approvals of other packages do
  not change, and without a successful approval nothing does.
\<close>

theorem developer_approval_validates:
  assumes "approve_development cat w pid = (res, cat', w')"
    and "\<And>t path. fw_read w t path = fw_read w 0 path"
    and "map_of (cat_packages cat) pid = Some item" "package_guard item = Inr ()"
    and "int16 (dget item ''bootloader_end'') = Inr boot" "0 \<le> boot"
  shows "cat_packages cat' = cat_packages cat"
    and "other \<noteq> pid \<Longrightarrow> map_of (cat_approvals cat') other = map_of (cat_approvals cat) other"
    and "cat' = cat \<or> (\<exists>path. artifact_of w item = Inr path \<and> fst (validate cat' w' pid) = Inr (item, path))"
proof -
  show "cat_packages cat' = cat_packages cat"
    and "other \<noteq> pid \<Longrightarrow> map_of (cat_approvals cat') other = map_of (cat_approvals cat) other"
    using assms(1) by (auto simp: approve_development_def Let_def split: sum.splits prod.splits)
  show "cat' = cat \<or> (\<exists>path. artifact_of w item = Inr path \<and> fst (validate cat' w' pid) = Inr (item, path))"
  proof (cases "\<exists>a w\<^sub>1. development_approval cat w pid = (Inr a, w\<^sub>1)")
    case False
    then have "cat' = cat" using assms(1) by (auto simp: approve_development_def split: sum.splits prod.splits)
    then show ?thesis by simp
  next
    case True
    then obtain a w\<^sub>1 where approval: "development_approval cat w pid = (Inr a, w\<^sub>1)" by blast
    obtain path data content lo hi n where inv: "artifact_of w item = Inr path" "fw_read w (fw_clock w) path = Bytes data"
      "fw_read w (Suc (fw_clock w)) path = Bytes content" "inspect_intel_hex content = Inr (lo, hi, n)"
      "protected_overlap item lo hi = Inr False" "a = approval_of w data lo hi"
      using development_approval_inversion [OF approval] assms(3) by (metis option.inject)
    have same: "same_world w w'"
      using assms(1) approval same_world_approval [OF approval]
      by (auto simp: approve_development_def Let_def split: prod.splits dest: same_world_catalog_list intro: same_world_trans)
    note world = same_worldD [OF same]
    have cat': "map_of (cat_packages cat') pid = Some item" "expected_of cat' pid item = a"
      using assms(1,3) approval by (auto simp: approve_development_def expected_of_def Let_def split: prod.splits)
    have path': "artifact_of w' item = Inr path" using inv(1) by (simp add: artifact_of_def world)
    have read: "fw_read w' t path = Bytes content" for t
      using assms(2) [of t path] assms(2) [of "Suc (fw_clock w)" path] inv(3) by (simp add: world)
    have "data = content" using assms(2) [of "fw_clock w" path] assms(2) [of "Suc (fw_clock w)" path] inv(2,3)
      by (metis file_read.inject(2))
    then have fits: "content_mismatch w'' a content = Inr False" if "fw_sha256 w'' = fw_sha256 w" for w''
      using inv(6) that by (simp add: content_mismatch_def approval_of_def item_at_def ascii_upper_idem del: map_map)
    have "boot < lo" using protected_overlapD [OF inv(5)] assms(5) by auto
    then have "int16 (JStr (format_0x08X lo)) = Inr lo" "int16 (JStr (format_0x08X hi)) = Inr hi"
      using assms(6) inspect_nonneg [OF inv(4)] by (auto intro: int16_format)
    then have range: "range_mismatch a lo hi = Inr False"
      using inv(6) by (simp add: range_mismatch_def approval_of_def item_at_def)
    have "fst (validate cat' w' pid) = Inr (item, path)"
      using cat' assms(4) path' inv(4,5) range fits [of "fw_tick w'"] world(3)
      by (simp add: validate_def expected_of_def read_artifact_def read_file_def read inspect_file_def raise_if_def Let_def)
    with inv(1) show ?thesis by blast
  qed
qed

lemma sample_approval:
  "development_approval sample_catalog sample_fw_world (JStr ''xiao-test'') =
     (Inr (approval_of sample_fw_world sample_hex 0x08006000 0x08006005), fw_tick (fw_tick sample_fw_world))"
proof -
  have "json_truthy (dget sample_item ''application_only'')" "dget sample_item ''fqbn'' = JStr approved_fqbn"
    by (simp_all add: sample_item_def dget_def)
  moreover have "map_of (cat_packages sample_catalog) (JStr ''xiao-test'') = Some sample_item" "cat_developer_enabled sample_catalog"
    by (simp_all add: sample_catalog_def)
  ultimately show ?thesis
    by (simp add: development_approval_def sample_artifact read_artifact_def read_file_def sample_read
        inspect_file_def sample_hex_inspected sample_ranges raise_if_def approval_of_def)
qed

theorem developer_approval_validates_witness:
  "\<exists>res cat' w'. approve_development sample_catalog sample_fw_world (JStr ''xiao-test'') = (res, cat', w')
     \<and> cat' \<noteq> sample_catalog
     \<and> (cat' = sample_catalog \<or>
        (\<exists>path. artifact_of sample_fw_world sample_item = Inr path
           \<and> fst (validate cat' w' (JStr ''xiao-test'')) = Inr (sample_item, path)))"
proof -
  obtain res cat' w' where run: "approve_development sample_catalog sample_fw_world (JStr ''xiao-test'') = (res, cat', w')"
    by (metis surj_pair)
  then have "map_of (cat_approvals cat') (JStr ''xiao-test'') \<noteq> None"
    by (auto simp: approve_development_def sample_approval Let_def split: prod.splits)
  then have changed: "cat' \<noteq> sample_catalog" by (auto simp: sample_catalog_def)
  have "int16 (dget sample_item ''bootloader_end'') = Inr 0x08005FFF"
    by (simp add: sample_item_def dget_def sample_int16)
  moreover have "map_of (cat_packages sample_catalog) (JStr ''xiao-test'') = Some sample_item"
    by (simp add: sample_catalog_def)
  ultimately show ?thesis
    using run changed developer_approval_validates(3) [OF run _ _ sample_package_guard, of "0x08005FFF"] sample_read(1) by simp
qed

end
