(* ===== verification/Firmware_Installation.thy ===== *)
theory Firmware_Installation
  imports Firmware
begin

text \<open>
  The installer of \<open>services/firmware_installation.py\<close> under every interleaving of install and approval requests with the
  turns of the upload tasks: one upload at a time per device, completion only on evidence, and an end for every task.
  The world only moves its clock, so what it answered at an earlier time can be named later.
\<close>

section \<open>Evidence\<close>

definition image_checked :: "fw_catalog \<Rightarrow> fw_world \<Rightarrow> string \<Rightarrow> dict \<Rightarrow> string list \<Rightarrow> bool" where
  "image_checked cat w package_id item path =
     (map_of (cat_packages cat) (JStr package_id) = Some item \<and> inside_root (fw_root w) path
      \<and> (\<exists>t content lo hi n. t < fw_clock w \<and> fw_read w t path = Bytes content
           \<and> inspect_intel_hex content = Inr (lo, hi, n) \<and> protected_overlap item lo hi = Inr False))"

definition command_checked :: "fw_catalog \<Rightarrow> fw_world \<Rightarrow> string \<Rightarrow> string \<Rightarrow> string list \<Rightarrow> bool" where
  "command_checked cat w package_id port command =
     (\<exists>executable item path. command = upload_command w executable port item path
        \<and> image_checked cat w package_id item path)"

definition uploaded :: "fw_catalog \<Rightarrow> fw_world \<Rightarrow> string \<Rightarrow> string \<Rightarrow> nat \<Rightarrow> bool" where
  "uploaded cat w package_id port t =
     (\<exists>command output. command_checked cat w package_id port command \<and> t < fw_clock w
        \<and> fw_exec w t command = Inr (0, output) \<and> upload_succeeded 0 output)"

definition board_seen :: "fw_world \<Rightarrow> string \<Rightarrow> nat \<Rightarrow> bool" where
  "board_seen w serial t =
     (t < fw_clock w \<and> (\<exists>p \<in> set (fw_comports w t). fw_supported p \<and> up_serial p = Some serial))"

definition completed_on_evidence :: "fw_catalog \<Rightarrow> fw_world \<Rightarrow> fw_operation \<Rightarrow> bool" where
  "completed_on_evidence cat w op =
     (\<exists>port t t'. uploaded cat w (fo_package op) port t \<and> t < t' \<and> board_seen w (fo_serial op) t')"

lemma evidence_mono:
  assumes "same_world w w'" "cat_packages cat' = cat_packages cat"
  shows "image_checked cat w pid item path \<Longrightarrow> image_checked cat' w' pid item path"
    and "command_checked cat w pid port command \<Longrightarrow> command_checked cat' w' pid port command"
    and "uploaded cat w pid port t \<Longrightarrow> uploaded cat' w' pid port t"
    and "board_seen w serial t \<Longrightarrow> board_seen w' serial t"
    and "completed_on_evidence cat w op \<Longrightarrow> completed_on_evidence cat' w' op"
proof -
  note world = same_worldD [OF assms(1)]
  show image: "image_checked cat' w' pid item path" if "image_checked cat w pid item path" for pid item path
    using that assms(2) world unfolding image_checked_def by (auto intro: less_le_trans)
  show command: "command_checked cat' w' pid port command" if "command_checked cat w pid port command" for pid port command
    using that image world unfolding command_checked_def upload_command_def by fastforce
  show upload: "uploaded cat' w' pid port t" if "uploaded cat w pid port t" for pid port t
    using that command world unfolding uploaded_def by (fastforce intro: less_le_trans)
  show seen: "board_seen w' serial t" if "board_seen w serial t" for serial t
    using that world unfolding board_seen_def by (auto intro: less_le_trans)
  show "completed_on_evidence cat' w' op" if "completed_on_evidence cat w op"
    using that upload seen unfolding completed_on_evidence_def by blast
qed

lemma same_world_boards: "fw_boards cat w = (r, w') \<Longrightarrow> same_world w w'"
  by (auto simp: fw_boards_def Let_def split: sum.splits prod.splits
      dest!: same_world_catalog_list intro: same_world_trans)

lemma fw_boardsD:
  assumes "fw_boards cat w = (Inr rows, w')"
  shows "\<exists>t c. fw_clock w \<le> t \<and> t < fw_clock w' \<and> rows = map (board_row c) (filter fw_supported (fw_comports w t))"
proof -
  obtain listed w\<^sub>1 where listed: "catalog_list cat w = (Inr listed, w\<^sub>1)"
    using assms by (auto simp: fw_boards_def split: sum.splits prod.splits)
  note world = same_worldD [OF same_world_catalog_list [OF listed]]
  show ?thesis
    using assms listed world by (auto simp: fw_boards_def Let_def intro!: exI [of _ "fw_clock w\<^sub>1"])
qed

lemma board_row_serial: "dget (board_row c p) ''hardware_serial'' = JStr s \<longleftrightarrow> up_serial p = Some s"
  by (simp add: board_row_def dget_def split: option.splits)

lemma boards_seen:
  assumes "fw_boards cat w = (Inr rows, w')" "list_ex (\<lambda>r. dget r ''hardware_serial'' = JStr serial) rows"
  shows "\<exists>t. fw_clock w \<le> t \<and> board_seen w' serial t"
  using fw_boardsD [OF assms(1)] assms(2) same_worldD [OF same_world_boards [OF assms(1)]]
  by (fastforce simp: board_seen_def list_ex_iff board_row_serial)

section \<open>The pieces of a run\<close>

fun phase_state :: "fw_phase \<Rightarrow> string" where
  "phase_state Waiting = ''queued''"
| "phase_state (Uploading _) = ''uploading''"
| "phase_state (Polling _) = ''reenumerating''"

fun phase_evidence :: "fw_catalog \<Rightarrow> fw_world \<Rightarrow> string \<Rightarrow> string \<Rightarrow> fw_phase \<Rightarrow> bool" where
  "phase_evidence cat w package_id port Waiting = True"
| "phase_evidence cat w package_id port (Uploading command) = command_checked cat w package_id port command"
| "phase_evidence cat w package_id port (Polling n) =
     (1 \<le> n \<and> n \<le> 30 \<and> (\<exists>t. uploaded cat w package_id port t))"

definition op_running :: "fw_catalog \<Rightarrow> fw_world \<Rightarrow> fw_operation \<Rightarrow> string \<Rightarrow> fw_phase \<Rightarrow> bool" where
  "op_running cat w op port phase =
     (fo_state op = phase_state phase \<and> fo_error op = None \<and> phase_evidence cat w (fo_package op) port phase)"

definition op_finished :: "fw_catalog \<Rightarrow> fw_world \<Rightarrow> fw_operation \<Rightarrow> bool" where
  "op_finished cat w op =
     ((fo_state op = ''complete'' \<and> fo_error op = None \<and> completed_on_evidence cat w op)
      \<or> (fo_state op = ''failed'' \<and> fo_error op \<noteq> None))"

definition same_operation :: "fw_operation \<Rightarrow> fw_operation \<Rightarrow> bool" where
  "same_operation op op' = (fo_id op' = fo_id op \<and> fo_serial op' = fo_serial op \<and> fo_package op' = fo_package op)"

definition piece_ok :: "fw_catalog \<Rightarrow> fw_operation \<Rightarrow> string \<Rightarrow> fw_operation \<times> fw_phase option \<times> fw_world \<Rightarrow> bool" where
  "piece_ok cat op port r =
     (case r of (op', phase, w') \<Rightarrow> same_operation op op' \<and>
        (case phase of None \<Rightarrow> op_finished cat w' op'
         | Some p \<Rightarrow> p \<noteq> Waiting \<and> op_running cat w' op' port p))"

lemma failed_ok: "same_operation op op' \<Longrightarrow> piece_ok cat op port (fw_failed e op', None, w)"
  by (simp add: piece_ok_def fw_failed_def same_operation_def op_finished_def)

lemma same_operation_simps [simp]:
  "same_operation op op" "same_operation op (fw_note s ls op') = same_operation op op'"
  by (simp_all add: same_operation_def fw_note_def)

lemma note_simps:
  "completed_on_evidence cat w (fw_note s ls op) = completed_on_evidence cat w op"
  "fo_state (fw_note s ls op) = s" "fo_error (fw_note s ls op) = fo_error op"
  by (simp_all add: completed_on_evidence_def fw_note_def)

lemma validate_clock:
  assumes "validate cat w pid = (Inr x, w')"
  shows "Suc (fw_clock w) < fw_clock w'"
  using assms
  by (auto simp: validate_def read_artifact_def read_file_def inspect_file_def Let_def
      split: option.splits sum.splits prod.splits file_read.splits)

lemma validate_image_checked:
  assumes "validate cat w (JStr pid) = (Inr (item, path), w')"
  shows "image_checked cat w' pid item path"
proof -
  obtain content lo hi n where inv: "map_of (cat_packages cat) (JStr pid) = Some item"
    "artifact_of w item = Inr path" "fw_read w (Suc (fw_clock w)) path = Bytes content"
    "inspect_intel_hex content = Inr (lo, hi, n)" "protected_overlap item lo hi = Inr False"
    using validate_inversion [OF assms] by metis
  note world = same_worldD [OF same_world_validate [OF assms]]
  have "Suc (fw_clock w) < fw_clock w'"
    using assms by (rule validate_clock)
  then show ?thesis
    using inv world artifact_ofD [OF inv(2)] unfolding image_checked_def by auto
qed

lemma run_begin_ok:
  assumes "op_running cat w op port Waiting" "run_begin cat cli port op w = r"
  shows "piece_ok cat op port r" "same_world w (snd (snd r))"
proof -
  obtain v w\<^sub>1 where v: "validate cat w (JStr (fo_package op)) = (v, w\<^sub>1)" by fastforce
  note same = same_world_validate [OF v]
  show "same_world w (snd (snd r))"
    using assms(2) v same
    by (auto simp: run_begin_def Let_def split: sum.splits prod.splits option.splits intro: same_world_trans)
  show "piece_ok cat op port r"
  proof (cases v)
    case (Inl e)
    with assms(2) v show ?thesis by (auto simp: run_begin_def intro: failed_ok)
  next
    case (Inr x)
    obtain item path where x: "x = (item, path)" by fastforce
    have "command_checked cat (fw_tick w\<^sub>1) (fo_package op) port (upload_command w\<^sub>1 e port item path)" for e
      using evidence_mono(1) [OF same_world_tick refl validate_image_checked] v Inr x
      unfolding command_checked_def by (fastforce simp: upload_command_def)
    then have started: "piece_ok cat op port (fw_note ''uploading'' [''package_validated''] op,
        Some (Uploading (upload_command w\<^sub>1 e port item path)), fw_tick w\<^sub>1)" for e
      using assms(1) by (simp add: piece_ok_def op_running_def fw_note_def same_operation_def)
    show ?thesis
    proof (cases "fw_which w\<^sub>1 (fw_clock w\<^sub>1) cli")
      case None
      with assms(2) v Inr x show ?thesis by (auto simp: run_begin_def Let_def intro!: failed_ok)
    next
      case (Some e)
      with assms(2) v Inr x started [of e] show ?thesis
        by (cases "e = []") (auto simp: run_begin_def Let_def intro!: failed_ok)
    qed
  qed
qed

lemma run_upload_ok:
  assumes "op_running cat w op port (Uploading command)" "run_upload command op w = r"
  shows "piece_ok cat op port r" "same_world w (snd (snd r))"
proof -
  show "same_world w (snd (snd r))"
    using assms(2) by (auto simp: run_upload_def Let_def split: sum.splits)
  have "command_checked cat (fw_tick w) (fo_package op) port command"
    using assms(1) evidence_mono(2) [OF same_world_tick refl] by (simp add: op_running_def)
  then have "uploaded cat (fw_tick w) (fo_package op) port (fw_clock w)"
    if "fw_exec w (fw_clock w) command = Inr (0, out)" "upload_succeeded 0 out" for out
    using that unfolding uploaded_def by auto
  then have ev: "upload_succeeded code out \<Longrightarrow> fw_exec w (fw_clock w) command = Inr (code, out) \<Longrightarrow>
      \<exists>t. uploaded cat (fw_tick w) (fo_package op) port t" for code out
    by (auto simp: upload_succeeded_def)
  show "piece_ok cat op port r"
  proof (cases "fw_exec w (fw_clock w) command")
    case (Inl e)
    with assms(2) show ?thesis by (auto simp: run_upload_def intro: failed_ok)
  next
    case (Inr x)
    obtain code out where x: "x = (code, out)" by fastforce
    show ?thesis
    proof (cases "upload_succeeded code out")
      case True
      with assms Inr x ev show ?thesis
        by (auto simp: run_upload_def Let_def piece_ok_def op_running_def fw_note_def same_operation_def)
    next
      case False
      with assms Inr x show ?thesis by (auto simp: run_upload_def Let_def intro!: failed_ok)
    qed
  qed
qed

lemma run_poll_ok:
  assumes "op_running cat w op port (Polling n)" "run_poll cat n op w = r"
  shows "piece_ok cat op port r" "same_world w (snd (snd r))"
proof -
  obtain v w\<^sub>1 where v: "fw_boards cat w = (v, w\<^sub>1)" by fastforce
  note same = same_world_boards [OF v]
  show "same_world w (snd (snd r))"
    using assms(2) v same by (auto simp: run_poll_def split: sum.splits prod.splits)
  from assms(1) obtain t where t: "uploaded cat w (fo_package op) port t" "1 \<le> n" "n \<le> 30" by (auto simp: op_running_def)
  then have up: "uploaded cat w\<^sub>1 (fo_package op) port t" "t < fw_clock w"
    using evidence_mono(3) [OF same refl] by (auto simp: uploaded_def)
  show "piece_ok cat op port r"
  proof (cases v)
    case (Inl e)
    with assms(2) v show ?thesis by (auto simp: run_poll_def intro: failed_ok)
  next
    case (Inr rows)
    show ?thesis
    proof (cases "list_ex (\<lambda>r. dget r ''hardware_serial'' = JStr (fo_serial op)) rows")
      case True
      with boards_seen v Inr obtain t' where "fw_clock w \<le> t'" "board_seen w\<^sub>1 (fo_serial op) t'" by blast
      with up have "completed_on_evidence cat w\<^sub>1 op" 
        unfolding completed_on_evidence_def by (meson less_le_trans)
      with assms v Inr True show ?thesis
        by (auto simp: run_poll_def piece_ok_def op_finished_def op_running_def note_simps)
    next
      case False
      show ?thesis
      proof (cases "n \<le> 1")
        case True
        with assms(2) v Inr False show ?thesis by (auto simp: run_poll_def intro!: failed_ok)
      next
        case again: False
        have "piece_ok cat op port (op, Some (Polling (n - 1)), w\<^sub>1)"
          using assms(1) up t again by (auto simp: piece_ok_def op_running_def)
        with assms(2) v Inr False again show ?thesis by (auto simp: run_poll_def)
      qed
    qed
  qed
qed

lemma run_piece_ok:
  assumes "op_running (in_catalog inst) w op (tk_port t) (tk_phase t)"
  shows "piece_ok (in_catalog inst) op (tk_port t) (run_piece inst t op w)"
    and "same_world w (snd (snd (run_piece inst t op w)))"
  using assms run_begin_ok [OF _ refl] run_upload_ok [OF _ refl] run_poll_ok [OF _ refl]
  by (cases "tk_phase t"; simp add: run_piece_def)+

section \<open>The invariant\<close>

definition task_of :: "fw_operation list \<Rightarrow> fw_catalog \<Rightarrow> fw_world \<Rightarrow> fw_task \<Rightarrow> bool" where
  "task_of ops cat w t =
     (\<exists>op \<in> set ops. fo_id op = tk_id t \<and> fo_serial op = tk_serial t \<and> op_running cat w op (tk_port t) (tk_phase t))"

definition exclusive_tasks :: "fw_task list \<Rightarrow> bool" where
  "exclusive_tasks ts =
     (\<forall>t \<in> set ts. \<forall>t' \<in> set ts. tk_serial t = tk_serial t' \<and> tk_phase t \<noteq> Waiting \<and> tk_phase t' \<noteq> Waiting
        \<longrightarrow> tk_id t = tk_id t')"

definition fw_inv :: "fw_installer \<Rightarrow> fw_world \<Rightarrow> bool" where
  "fw_inv inst w =
     (distinct (map fo_id (in_operations inst)) \<and> distinct (map tk_id (in_tasks inst))
      \<and> exclusive_tasks (in_tasks inst)
      \<and> (\<forall>t \<in> set (in_tasks inst). task_of (in_operations inst) (in_catalog inst) w t)
      \<and> (\<forall>op \<in> set (in_operations inst). fo_id op \<in> tk_id ` set (in_tasks inst) \<or> op_finished (in_catalog inst) w op))"

lemma op_running_mono:
  "same_world w w' \<Longrightarrow> cat_packages cat' = cat_packages cat \<Longrightarrow> op_running cat w op port p \<Longrightarrow> op_running cat' w' op port p"
  using evidence_mono(2,3) [of w w' cat' cat] by (cases p) (auto simp: op_running_def, blast)

lemma op_finished_mono:
  "same_world w w' \<Longrightarrow> cat_packages cat' = cat_packages cat \<Longrightarrow> op_finished cat w op \<Longrightarrow> op_finished cat' w' op"
  using evidence_mono(5) by (auto simp: op_finished_def)

lemma fw_inv_mono:
  assumes "fw_inv inst w" "same_world w w'" "cat_packages cat' = cat_packages (in_catalog inst)"
  shows "fw_inv (inst\<lparr>in_catalog := cat'\<rparr>) w'"
  using assms op_running_mono [OF assms(2,3)] op_finished_mono [OF assms(2,3)]
  unfolding fw_inv_def task_of_def by simp blast

lemma fw_inv_world: "fw_inv inst w \<Longrightarrow> same_world w w' \<Longrightarrow> fw_inv inst w'"
  using fw_inv_mono [of inst w w' "in_catalog inst"] by simp

lemma fw_start_inversion:
  assumes "fw_start inst w serial package_id k now = (res, inst', w')"
  shows "same_world w w'"
    and "inst' = inst \<or> (\<exists>port. inst' = inst\<lparr>
            in_operations := in_operations inst @ [new_fw_operation k serial package_id now],
            in_tasks := in_tasks inst @ [\<lparr>tk_id = k, tk_serial = serial, tk_port = port, tk_phase = Waiting\<rparr>]\<rparr>
          \<and> \<not> lock_held inst serial)"
proof -
  obtain v w\<^sub>1 where v: "validate (in_catalog inst) w (JStr package_id) = (v, w\<^sub>1)" by fastforce
  obtain b w\<^sub>2 where b: "fw_boards (in_catalog inst) w\<^sub>1 = (b, w\<^sub>2)" by fastforce
  have same: "same_world w w\<^sub>1" "same_world w\<^sub>1 w\<^sub>2"
    using same_world_validate [OF v] same_world_boards [OF b] .
  show "same_world w w'"
    using assms v b same
    by (auto simp: fw_start_def Let_def split: if_splits sum.splits list.splits intro: same_world_trans)
  show "inst' = inst \<or> (\<exists>port. inst' = inst\<lparr>
            in_operations := in_operations inst @ [new_fw_operation k serial package_id now],
            in_tasks := in_tasks inst @ [\<lparr>tk_id = k, tk_serial = serial, tk_port = port, tk_phase = Waiting\<rparr>]\<rparr>
          \<and> \<not> lock_held inst serial)"
    using assms v b by (auto simp: fw_start_def Let_def split: if_splits sum.splits list.splits)
qed

lemma fw_inv_queued:
  assumes "k \<notin> tk_id ` set (in_tasks inst)" "fw_inv inst w" "k \<notin> fo_id ` set (in_operations inst)"
  shows "fw_inv (inst\<lparr>in_operations := in_operations inst @ [new_fw_operation k serial package_id now],
            in_tasks := in_tasks inst @ [\<lparr>tk_id = k, tk_serial = serial, tk_port = port, tk_phase = Waiting\<rparr>]\<rparr>) w"
proof -
  let ?op = "new_fw_operation k serial package_id now"
  let ?t = "\<lparr>tk_id = k, tk_serial = serial, tk_port = port, tk_phase = Waiting\<rparr>"
  have old: "exclusive_tasks (in_tasks inst)" using assms(2) by (simp add: fw_inv_def)
  have "exclusive_tasks (in_tasks inst @ [?t])"
    unfolding exclusive_tasks_def
  proof (intro ballI impI)
    fix a b
    assume ab: "a \<in> set (in_tasks inst @ [?t])" "b \<in> set (in_tasks inst @ [?t])"
      and eq: "tk_serial a = tk_serial b \<and> tk_phase a \<noteq> Waiting \<and> tk_phase b \<noteq> Waiting"
    then have "a \<noteq> ?t" "b \<noteq> ?t" by auto
    with ab have "a \<in> set (in_tasks inst)" "b \<in> set (in_tasks inst)" by simp_all
    with old eq show "tk_id a = tk_id b" unfolding exclusive_tasks_def by metis
  qed
  moreover have "task_of (in_operations inst @ [?op]) (in_catalog inst) w ?t"
    by (simp add: task_of_def new_fw_operation_def op_running_def)
  moreover have "task_of (in_operations inst @ [?op]) (in_catalog inst) w t" if "t \<in> set (in_tasks inst)" for t
    using assms(2) that by (auto simp: fw_inv_def task_of_def)
  moreover have "fo_id op \<in> tk_id ` set (in_tasks inst @ [?t]) \<or> op_finished (in_catalog inst) w op"
    if "op \<in> set (in_operations inst @ [?op])" for op
  proof (cases "op = ?op")
    case True
    then show ?thesis by (simp add: new_fw_operation_def)
  next
    case False
    with that assms(2) have "fo_id op \<in> tk_id ` set (in_tasks inst) \<or> op_finished (in_catalog inst) w op"
      by (simp add: fw_inv_def)
    then show ?thesis by auto
  qed
  moreover have "distinct (map fo_id (in_operations inst @ [?op]))" "distinct (map tk_id (in_tasks inst @ [?t]))"
    using assms by (simp_all add: fw_inv_def new_fw_operation_def)
  ultimately show ?thesis unfolding fw_inv_def by simp
qed

lemma fw_inv_start:
  assumes "fw_inv inst w" "k \<notin> fo_id ` set (in_operations inst)"
    and "fw_start inst w serial package_id k now = (res, inst', w')"
  shows "fw_inv inst' w'"
proof -
  have inv: "fw_inv inst w'" using fw_inv_world [OF assms(1) fw_start_inversion(1) [OF assms(3)]] .
  from fw_start_inversion(2) [OF assms(3)] show ?thesis
  proof
    assume "inst' = inst"
    with inv show ?thesis by simp
  next
    assume "\<exists>port. inst' = inst\<lparr>
            in_operations := in_operations inst @ [new_fw_operation k serial package_id now],
            in_tasks := in_tasks inst @ [\<lparr>tk_id = k, tk_serial = serial, tk_port = port, tk_phase = Waiting\<rparr>]\<rparr>
          \<and> \<not> lock_held inst serial"
    then obtain port where inst': "inst' = inst\<lparr>
            in_operations := in_operations inst @ [new_fw_operation k serial package_id now],
            in_tasks := in_tasks inst @ [\<lparr>tk_id = k, tk_serial = serial, tk_port = port, tk_phase = Waiting\<rparr>]\<rparr>" by blast
    have "k \<notin> tk_id ` set (in_tasks inst)"
    proof
      assume "k \<in> tk_id ` set (in_tasks inst)"
      then obtain t where "t \<in> set (in_tasks inst)" "tk_id t = k" by auto
      with inv obtain op where "op \<in> set (in_operations inst)" "fo_id op = k" by (auto simp: fw_inv_def task_of_def)
      with assms(2) show False by auto
    qed
    then show ?thesis
      using inv assms(2) unfolding inst' by (rule fw_inv_queued)
  qed
qed

lemma fw_turn_inversion:
  assumes "fw_turn inst k w = (inst', w')" "fw_inv inst w"
  shows "(inst' = inst \<and> w' = w) \<or>
    (\<exists>t op op' phase. t \<in> set (in_tasks inst) \<and> tk_id t = k \<and> op \<in> set (in_operations inst) \<and> fo_id op = k
       \<and> op_running (in_catalog inst) w op (tk_port t) (tk_phase t) \<and> fo_serial op = tk_serial t
       \<and> (tk_phase t = Waiting \<longrightarrow> \<not> lock_held inst (tk_serial t)) \<and> run_piece inst t op w = (op', phase, w')
       \<and> inst' = inst\<lparr>in_operations := upd_rows (\<lambda>o'. fo_id o' = k) (\<lambda>_. op') (in_operations inst),
            in_tasks := (case phase of
                None \<Rightarrow> filter (\<lambda>t. tk_id t \<noteq> k) (in_tasks inst)
              | Some p \<Rightarrow> upd_rows (\<lambda>t. tk_id t = k) (\<lambda>t. t\<lparr>tk_phase := p\<rparr>) (in_tasks inst))\<rparr>)"
proof (cases "\<exists>t op. find_task inst k = Some t \<and> find_operation inst k = Some op
    \<and> \<not> (tk_phase t = Waiting \<and> lock_held inst (tk_serial t))")
  case False
  then show ?thesis using assms(1) by (auto simp: fw_turn_def split: option.splits if_splits)
next
  case True
  then obtain t op where found: "find_task inst k = Some t" "find_operation inst k = Some op"
    and free: "\<not> (tk_phase t = Waiting \<and> lock_held inst (tk_serial t))" by blast
  have t: "t \<in> set (in_tasks inst)" "tk_id t = k" and op: "op \<in> set (in_operations inst)" "fo_id op = k"
    using found by (auto simp: find_task_def find_operation_def dest!: find_row_SomeD)
  obtain op\<^sub>1 where op\<^sub>1: "op\<^sub>1 \<in> set (in_operations inst)" "fo_id op\<^sub>1 = k" "fo_serial op\<^sub>1 = tk_serial t"
    "op_running (in_catalog inst) w op\<^sub>1 (tk_port t) (tk_phase t)"
    using assms(2) t by (auto simp: fw_inv_def task_of_def)
  have "op\<^sub>1 = op"
    using assms(2) op op\<^sub>1(1,2) unfolding fw_inv_def by (metis distinct_map inj_onD)
  then show ?thesis
    using assms(1) found free t op op\<^sub>1 by (auto simp: fw_turn_def split: if_splits prod.splits)
qed

lemma fw_inv_turn:
  assumes "fw_inv inst w" "fw_turn inst k w = (inst', w')"
  shows "fw_inv inst' w'" and "in_catalog inst' = in_catalog inst" and "same_world w w'"
proof -
  have "fw_inv inst' w' \<and> in_catalog inst' = in_catalog inst \<and> same_world w w'"
  proof (cases "inst' = inst \<and> w' = w")
    case True
    with assms(1) show ?thesis by simp
  next
    case False
    then obtain t op op' phase where t: "t \<in> set (in_tasks inst)" "tk_id t = k"
      and op: "op \<in> set (in_operations inst)" "fo_id op = k" "fo_serial op = tk_serial t"
      and running: "op_running (in_catalog inst) w op (tk_port t) (tk_phase t)"
      and free: "tk_phase t = Waiting \<Longrightarrow> \<not> lock_held inst (tk_serial t)"
      and piece: "run_piece inst t op w = (op', phase, w')"
      and inst': "inst' = inst\<lparr>in_operations := upd_rows (\<lambda>o'. fo_id o' = k) (\<lambda>_. op') (in_operations inst),
            in_tasks := (case phase of
                None \<Rightarrow> filter (\<lambda>t. tk_id t \<noteq> k) (in_tasks inst)
              | Some p \<Rightarrow> upd_rows (\<lambda>t. tk_id t = k) (\<lambda>t. t\<lparr>tk_phase := p\<rparr>) (in_tasks inst))\<rparr>"
      using fw_turn_inversion [OF assms(2,1)] by blast
    note ok = run_piece_ok [OF running, unfolded piece piece_ok_def, simplified]
    have inv: "fw_inv inst w'" using fw_inv_world [OF assms(1) ok(2)] .
    have op': "fo_id op' = k" "fo_serial op' = tk_serial t" using ok(1) op by (auto simp: same_operation_def)
    have ids: "map fo_id (in_operations inst') = map fo_id (in_operations inst)"
      unfolding inst' by (auto simp: op' intro: map_upd_rows)
    have this_op: "op' \<in> set (in_operations inst')" unfolding inst' using op by (auto simp: set_upd_rows image_iff)
    have other_op: "o' \<in> set (in_operations inst')" if "o' \<in> set (in_operations inst)" "fo_id o' \<noteq> k" for o'
      unfolding inst' using that by (auto simp: set_upd_rows image_iff)
    have ops: "o' = op' \<or> (o' \<in> set (in_operations inst) \<and> fo_id o' \<noteq> k)" if "o' \<in> set (in_operations inst')" for o'
      using that unfolding inst' by (auto simp: set_upd_rows)
    have same_task: "t' = t" if "t' \<in> set (in_tasks inst)" "tk_id t' = k" for t'
      using inv t that unfolding fw_inv_def by (metis distinct_map inj_onD)
    have tasks: "(t' \<in> set (in_tasks inst) \<and> tk_id t' \<noteq> k) \<or> (\<exists>p. phase = Some p \<and> t' = t\<lparr>tk_phase := p\<rparr>)"
      if "t' \<in> set (in_tasks inst')" for t'
      using that same_task unfolding inst' by (auto simp: set_upd_rows split: option.splits)
    have keep: "t' \<in> set (in_tasks inst')" if "t' \<in> set (in_tasks inst)" "tk_id t' \<noteq> k" for t'
      using that unfolding inst' by (auto simp: set_upd_rows image_iff split: option.splits)
    have here: "t\<lparr>tk_phase := p\<rparr> \<in> set (in_tasks inst')" if "phase = Some p" for p
      using that t unfolding inst' by (auto simp: set_upd_rows image_iff)
    have "distinct (map tk_id (in_tasks inst'))"
      using inv unfolding inst' fw_inv_def by (auto simp: distinct_map_filter map_upd_rows split: option.splits)
    moreover have "exclusive_tasks (in_tasks inst')"
    proof -
      have lone: "tk_id t' = k" if "t' \<in> set (in_tasks inst)" "tk_serial t' = tk_serial t" "tk_phase t' \<noteq> Waiting" for t'
        using that inv t free unfolding fw_inv_def exclusive_tasks_def lock_held_def list_ex_iff by metis
      have old: "exclusive_tasks (in_tasks inst)" using inv by (simp add: fw_inv_def)
      show ?thesis
        unfolding exclusive_tasks_def
      proof (intro ballI impI)
        fix t\<^sub>1 t\<^sub>2
        assume in': "t\<^sub>1 \<in> set (in_tasks inst')" "t\<^sub>2 \<in> set (in_tasks inst')"
          and eq: "tk_serial t\<^sub>1 = tk_serial t\<^sub>2 \<and> tk_phase t\<^sub>1 \<noteq> Waiting \<and> tk_phase t\<^sub>2 \<noteq> Waiting"
        show "tk_id t\<^sub>1 = tk_id t\<^sub>2"
        proof (cases "tk_id t\<^sub>1 = k \<or> tk_id t\<^sub>2 = k")
          case False
          then have "t\<^sub>1 \<in> set (in_tasks inst)" "t\<^sub>2 \<in> set (in_tasks inst)"
            using tasks [OF in'(1)] tasks [OF in'(2)] t by auto
          with old eq show ?thesis unfolding exclusive_tasks_def by metis
        next
          case True
          moreover have k: "tk_id t' = k" if "t' \<in> set (in_tasks inst')" "tk_serial t' = tk_serial t" "tk_phase t' \<noteq> Waiting" for t'
            using tasks [OF that(1)] lone [of t'] that(2,3) t(2) by auto
          moreover have serial: "tk_serial t' = tk_serial t" if "t' \<in> set (in_tasks inst')" "tk_id t' = k" for t'
            using tasks [OF that(1)] that(2) by auto
          ultimately show ?thesis using k [OF in'(1)] k [OF in'(2)] serial [OF in'(1)] serial [OF in'(2)] eq by metis
        qed
      qed
    qed
    moreover have "task_of (in_operations inst') (in_catalog inst) w' t'" if "t' \<in> set (in_tasks inst')" for t'
      using tasks [OF that]
    proof
      assume "t' \<in> set (in_tasks inst) \<and> tk_id t' \<noteq> k"
      with inv other_op show ?thesis unfolding fw_inv_def task_of_def by metis
    next
      assume "\<exists>p. phase = Some p \<and> t' = t\<lparr>tk_phase := p\<rparr>"
      with ok(1) this_op op' t show ?thesis unfolding task_of_def by auto
    qed
    moreover have "fo_id o' \<in> tk_id ` set (in_tasks inst') \<or> op_finished (in_catalog inst) w' o'"
      if "o' \<in> set (in_operations inst')" for o'
      using ops [OF that]
    proof
      assume "o' = op'"
      show ?thesis
      proof (cases phase)
        case None
        with ok(1) \<open>o' = op'\<close> show ?thesis by simp
      next
        case (Some p)
        have "tk_id (t\<lparr>tk_phase := p\<rparr>) \<in> tk_id ` set (in_tasks inst')" using here [OF Some] by (rule imageI)
        with \<open>o' = op'\<close> op' t show ?thesis by simp
      qed
    next
      assume old: "o' \<in> set (in_operations inst) \<and> fo_id o' \<noteq> k"
      with inv keep show ?thesis unfolding fw_inv_def image_iff by metis
    qed
    moreover have "distinct (map fo_id (in_operations inst'))" using inv ids by (simp add: fw_inv_def)
    ultimately have "fw_inv inst' w'" by (simp add: fw_inv_def inst')
    with ok(2) show ?thesis by (simp add: inst')
  qed
  then show "fw_inv inst' w'" "in_catalog inst' = in_catalog inst" "same_world w w'" by auto
qed

lemma fw_turn_ids:
  assumes "fw_inv inst w" "fw_turn inst k w = (inst', w')"
  shows "map fo_id (in_operations inst') = map fo_id (in_operations inst)"
proof (cases "inst' = inst \<and> w' = w")
  case False
  then obtain t op op' phase where "fo_id op = k" "op_running (in_catalog inst) w op (tk_port t) (tk_phase t)"
    and piece: "run_piece inst t op w = (op', phase, w')"
    and ops: "in_operations inst' = upd_rows (\<lambda>o'. fo_id o' = k) (\<lambda>_. op') (in_operations inst)"
    using fw_turn_inversion [OF assms(2,1)] by auto
  then have "fo_id op' = k"
    using run_piece_ok(1) [of inst w op t] by (auto simp: piece_ok_def same_operation_def)
  then show ?thesis unfolding ops by (auto intro: map_upd_rows)
qed simp

lemma fw_inv_approve:
  assumes "fw_inv inst w" "developer_approve urlsplit r body inst w = (res, inst', w')"
  shows "fw_inv inst' w'"
proof -
  obtain b w\<^sub>1 where b: "fw_boards (in_catalog inst) w = (b, w\<^sub>1)" by fastforce
  obtain d w\<^sub>2 where d: "development_approval (in_catalog inst) w\<^sub>1 (JStr (ir_package_id body)) = (d, w\<^sub>2)" by fastforce
  have same: "same_world w w\<^sub>1" "same_world w w\<^sub>2"
    using same_world_boards [OF b] same_world_approval [OF d] by (auto intro: same_world_trans)
  obtain a cat w\<^sub>3 where approve: "approve_development (in_catalog inst) w\<^sub>1 (JStr (ir_package_id body)) = (a, cat, w\<^sub>3)"
    by (metis surj_pair)
  then have cat: "cat_packages cat = cat_packages (in_catalog inst)" "same_world w w\<^sub>3"
    using d same by (auto simp: approve_development_def Let_def split: sum.splits prod.splits
        dest!: same_world_catalog_list intro: same_world_trans)
  have "(inst' = inst \<and> same_world w w') \<or> (inst' = inst\<lparr>in_catalog := cat\<rparr> \<and> w' = w\<^sub>3)"
    using assms(2) b approve same by (auto simp: developer_approve_def split: if_splits sum.splits prod.splits)
  then show ?thesis
    using fw_inv_world [OF assms(1)] fw_inv_mono [OF assms(1) cat(2,1)] by blast
qed

lemma fw_inv_step: "fw_step s s' \<Longrightarrow> fw_inv (fst s) (snd s) \<Longrightarrow> fw_inv (fst s') (snd s')"
proof (induction rule: fw_step.induct)
  case (Install urlsplit r body k now inst w res inst' w')
  from Install(1) have "(inst' = inst \<and> w' = w) \<or>
      (\<exists>res'. fw_start inst w (ir_hardware_serial body) (ir_package_id body) k now = (res', inst', w'))"
    by (auto simp: install_handler_def split: if_splits sum.splits prod.splits)
  with Install(2,3) fw_inv_start show ?case by auto
next
  case (Approve urlsplit r body inst w res inst' w')
  then show ?case using fw_inv_approve by fastforce
next
  case (Turn inst k w inst' w')
  then show ?case using fw_inv_turn(1) by fastforce
qed

definition fresh_installer :: "fw_installer \<Rightarrow> bool" where
  "fresh_installer inst = (in_operations inst = [] \<and> in_tasks inst = [])"

lemma fw_reachable_inv:
  assumes "fw_step\<^sup>*\<^sup>* (inst\<^sub>0, w\<^sub>0) (inst, w)" "fresh_installer inst\<^sub>0"
  shows "fw_inv inst w"
proof -
  have "fw_inv (fst s) (snd s)" if "fw_step\<^sup>*\<^sup>* (inst\<^sub>0, w\<^sub>0) s" for s
    using that
  proof (induction rule: rtranclp_induct)
    case base
    then show ?case using assms(2) by (simp add: fw_inv_def fresh_installer_def exclusive_tasks_def)
  next
    case (step s s')
    then show ?case using fw_inv_step by blast
  qed
  from this [OF assms(1)] show ?thesis by simp
qed

lemma phase_state_cases: "phase_state p \<in> {''queued'', ''uploading'', ''reenumerating''}"
  by (cases p) simp_all

lemma running_task:
  assumes "fw_inv inst w" "op \<in> set (in_operations inst)" "fo_state op \<in> {''uploading'', ''reenumerating''}"
  shows "\<exists>t \<in> set (in_tasks inst). tk_id t = fo_id op \<and> tk_serial t = fo_serial op \<and> tk_phase t \<noteq> Waiting"
proof -
  have "\<not> op_finished (in_catalog inst) w op" using assms(3) by (auto simp: op_finished_def)
  with assms(1,2) obtain t where t: "t \<in> set (in_tasks inst)" "tk_id t = fo_id op" by (auto simp: fw_inv_def)
  with assms(1) obtain op' where op': "op' \<in> set (in_operations inst)" "fo_id op' = fo_id op" "fo_serial op' = tk_serial t"
    "op_running (in_catalog inst) w op' (tk_port t) (tk_phase t)"
    by (auto simp: fw_inv_def task_of_def)
  have "op' = op" using assms(1,2) op'(1,2) unfolding fw_inv_def by (metis distinct_map inj_onD)
  with op' assms(3) have "tk_phase t \<noteq> Waiting" by (auto simp: op_running_def)
  with t op' \<open>op' = op\<close> show ?thesis by auto
qed

lemma firmware_one_upload_per_device_facts:
  assumes "fw_step\<^sup>*\<^sup>* (inst\<^sub>0, w\<^sub>0) (inst, w)" "fresh_installer inst\<^sub>0"
  shows "distinct (map fo_id (in_operations inst))"
    and "\<lbrakk>op \<in> set (in_operations inst); op' \<in> set (in_operations inst); fo_serial op = fo_serial op';
          fo_state op \<in> {''uploading'', ''reenumerating''}; fo_state op' \<in> {''uploading'', ''reenumerating''}\<rbrakk> \<Longrightarrow> op = op'"
proof -
  have inv: "fw_inv inst w" by (rule fw_reachable_inv [OF assms])
  then show distinct: "distinct (map fo_id (in_operations inst))" by (simp add: fw_inv_def)
  assume op: "op \<in> set (in_operations inst)" "fo_state op \<in> {''uploading'', ''reenumerating''}"
    and op': "op' \<in> set (in_operations inst)" "fo_state op' \<in> {''uploading'', ''reenumerating''}"
    and serial: "fo_serial op = fo_serial op'"
  obtain t t' where "t \<in> set (in_tasks inst)" "tk_id t = fo_id op" "tk_serial t = fo_serial op" "tk_phase t \<noteq> Waiting"
    "t' \<in> set (in_tasks inst)" "tk_id t' = fo_id op'" "tk_serial t' = fo_serial op'" "tk_phase t' \<noteq> Waiting"
    using running_task [OF inv op] running_task [OF inv op'] by blast
  with inv serial have "fo_id op = fo_id op'" unfolding fw_inv_def exclusive_tasks_def by metis
  with distinct op(1) op'(1) show "op = op'" by (metis distinct_map inj_onD)
qed

text \<open>C14. Whatever install requests, approvals and turns of the tasks occur, in whatever order: operation identifiers stay unique and at most
  one operation per device is uploading or waiting for its device to come back.
\<close>

theorem firmware_one_upload_per_device:
  assumes "fw_step\<^sup>*\<^sup>* (inst\<^sub>0, w\<^sub>0) (inst, w)" "fresh_installer inst\<^sub>0"
  shows "distinct (map fo_id (in_operations inst)) \<and>
    (\<forall>op \<in> set (in_operations inst). \<forall>op' \<in> set (in_operations inst).
       fo_serial op = fo_serial op' \<and> fo_state op \<in> {''uploading'', ''reenumerating''} \<and> fo_state op' \<in> {''uploading'', ''reenumerating''}
       \<longrightarrow> op = op')"
  using firmware_one_upload_per_device_facts [OF assms] by blast

lemma firmware_complete_on_evidence_facts:
  assumes "fw_step\<^sup>*\<^sup>* (inst\<^sub>0, w\<^sub>0) (inst, w)" "fresh_installer inst\<^sub>0" and "op \<in> set (in_operations inst)"
  shows "fo_state op = ''complete'' \<Longrightarrow> completed_on_evidence (in_catalog inst) w op"
    and "fo_error op \<noteq> None \<longleftrightarrow> fo_state op = ''failed''"
proof -
  have inv: "fw_inv inst w" by (rule fw_reachable_inv [OF assms(1,2)])
  have "op_finished (in_catalog inst) w op \<or> (\<exists>port phase. op_running (in_catalog inst) w op port phase)"
  proof (cases "op_finished (in_catalog inst) w op")
    case False
    with inv assms(3) obtain t where "t \<in> set (in_tasks inst)" "tk_id t = fo_id op" by (auto simp: fw_inv_def)
    with inv assms(3) show ?thesis unfolding fw_inv_def task_of_def by (metis distinct_map inj_onD)
  qed simp
  then have state: "op_finished (in_catalog inst) w op \<or>
      (fo_state op \<in> {''queued'', ''uploading'', ''reenumerating''} \<and> fo_error op = None)"
    using phase_state_cases unfolding op_running_def by metis
  show "completed_on_evidence (in_catalog inst) w op" if "fo_state op = ''complete''"
    using state that by (auto simp: op_finished_def)
  show "fo_error op \<noteq> None \<longleftrightarrow> fo_state op = ''failed''"
    using state by (auto simp: op_finished_def)
qed


section \<open>Every run ends\<close>

fun phase_rank :: "fw_phase \<Rightarrow> nat" where
  "phase_rank Waiting = 32"
| "phase_rank (Uploading _) = 31"
| "phase_rank (Polling n) = n"

definition blocked :: "fw_installer \<Rightarrow> fw_task \<Rightarrow> bool" where
  "blocked inst t = (tk_phase t = Waiting \<and> lock_held inst (tk_serial t))"

primrec fw_turns :: "nat \<Rightarrow> string \<Rightarrow> fw_installer \<times> fw_world \<Rightarrow> fw_installer \<times> fw_world" where
  "fw_turns 0 k s = s"
| "fw_turns (Suc n) k s = fw_turns n k (fw_turn (fst s) k (snd s))"

lemma run_piece_rank:
  assumes "op_running cat w op port (tk_phase t)" "run_piece inst t op w = (op', Some p, w')"
  shows "phase_rank p < phase_rank (tk_phase t)" "p \<noteq> Waiting"
  using assms
  by (auto simp: run_piece_def run_begin_def run_upload_def run_poll_def op_running_def Let_def
      split: fw_phase.splits prod.splits sum.splits option.splits if_splits)

lemma find_row_upd:
  "find_row (\<lambda>r. key r = k) rows = Some r \<Longrightarrow> (\<And>r. key (f r) = key r) \<Longrightarrow>
     find_row (\<lambda>r. key r = k) (upd_rows (\<lambda>r. key r = k) f rows) = Some (f r)"
  by (induction rows) (auto split: if_splits)

lemma fw_turn_rank:
  assumes "fw_inv inst w" "find_task inst k = Some t" "\<not> blocked inst t" "fw_turn inst k w = (inst', w')"
  shows "find_task inst' k = None \<or>
    (\<exists>t'. find_task inst' k = Some t' \<and> \<not> blocked inst' t' \<and> phase_rank (tk_phase t') < phase_rank (tk_phase t))"
proof -
  have t: "t \<in> set (in_tasks inst)" "tk_id t = k"
    using assms(2) by (auto simp: find_task_def dest!: find_row_SomeD)
  with assms(1) obtain op where op: "op \<in> set (in_operations inst)" "fo_id op = k"
    "op_running (in_catalog inst) w op (tk_port t) (tk_phase t)" by (auto simp: fw_inv_def task_of_def)
  have "find_operation inst k = Some op"
    using find_row_unique [of fo_id "in_operations inst" op] assms(1) op by (simp add: fw_inv_def find_operation_def)
  moreover obtain op' phase w'' where piece: "run_piece inst t op w = (op', phase, w'')" by (metis surj_pair)
  ultimately have inst': "in_tasks inst' = (case phase of
                None \<Rightarrow> filter (\<lambda>t. tk_id t \<noteq> k) (in_tasks inst)
              | Some p \<Rightarrow> upd_rows (\<lambda>t. tk_id t = k) (\<lambda>t. t\<lparr>tk_phase := p\<rparr>) (in_tasks inst))"
    using assms(2,3,4) by (auto simp: fw_turn_def blocked_def)
  show ?thesis
  proof (cases phase)
    case None
    then show ?thesis by (auto simp: inst' find_task_def find_row_None_iff)
  next
    case (Some p)
    note rank = run_piece_rank [OF op(3) piece [unfolded Some]]
    have "find_task inst' k = Some (t\<lparr>tk_phase := p\<rparr>)"
      using assms(2) find_row_upd [of tk_id k "in_tasks inst" t "\<lambda>t. t\<lparr>tk_phase := p\<rparr>"]
      by (simp add: find_task_def inst' Some)
    with rank show ?thesis by (auto simp: blocked_def)
  qed
qed

lemma fw_turns_idle: "find_task (fst s) k = None \<Longrightarrow> fw_turns n k s = s"
  by (induction n) (simp_all add: fw_turn_def)

lemma fw_turns_end:
  assumes "fw_inv (fst s) (snd s)"
    and "\<And>t. find_task (fst s) k = Some t \<Longrightarrow> \<not> blocked (fst s) t \<and> phase_rank (tk_phase t) \<le> n"
  shows "find_task (fst (fw_turns n k s)) k = None \<and> fw_inv (fst (fw_turns n k s)) (snd (fw_turns n k s))"
  using assms
proof (induction n arbitrary: s)
  case 0
  have "find_task (fst s) k = None"
  proof (rule ccontr)
    assume "find_task (fst s) k \<noteq> None"
    then obtain t where t: "find_task (fst s) k = Some t" by auto
    then have "t \<in> set (in_tasks (fst s))" by (auto simp: find_task_def dest!: find_row_SomeD)
    with 0(1) obtain op where "op_running (in_catalog (fst s)) (snd s) op (tk_port t) (tk_phase t)"
      by (auto simp: fw_inv_def task_of_def)
    with 0(2) [OF t] show False by (cases "tk_phase t") (auto simp: op_running_def)
  qed
  with 0 show ?case by simp
next
  case (Suc n)
  obtain inst' w' where turn: "fw_turn (fst s) k (snd s) = (inst', w')" by fastforce
  have inv: "fw_inv inst' w'" using fw_inv_turn(1) [OF Suc.prems(1) turn] .
  have "\<not> blocked inst' t' \<and> phase_rank (tk_phase t') \<le> n" if t': "find_task inst' k = Some t'" for t'
  proof (cases "find_task (fst s) k")
    case None
    then have "inst' = fst s" using turn by (simp add: fw_turn_def)
    with None t' show ?thesis by simp
  next
    case (Some t)
    with fw_turn_rank [OF Suc.prems(1) Some _ turn] Suc.prems(2) [OF Some] t' show ?thesis by fastforce
  qed
  with Suc.IH [of "(inst', w')"] inv turn show ?case by simp
qed

text \<open>An operation whose task holds the lock of its device, or finds it free, ends: after 32 turns of its task (taking the lock, the
  upload, and at most 30 looks at the ports) it is complete or failed, and the lock is released.
\<close>

theorem firmware_runs_end:
  assumes "fw_step\<^sup>*\<^sup>* (inst\<^sub>0, w\<^sub>0) (inst, w)" "fresh_installer inst\<^sub>0"
    and "find_task inst k = Some t" "tk_phase t = Waiting \<Longrightarrow> \<not> lock_held inst (tk_serial t)"
    and "fw_turns 32 k (inst, w) = (inst', w')"
  shows "find_task inst' k = None"
    and "\<exists>op. find_operation inst' k = Some op \<and> fo_state op \<in> {''complete'', ''failed''}"
proof -
  have inv: "fw_inv inst w" by (rule fw_reachable_inv [OF assms(1,2)])
  have t: "t \<in> set (in_tasks inst)" "tk_id t = k"
    using assms(3) by (auto simp: find_task_def dest!: find_row_SomeD)
  with inv obtain op where op: "op \<in> set (in_operations inst)" "fo_id op = k"
    "op_running (in_catalog inst) w op (tk_port t) (tk_phase t)" by (auto simp: fw_inv_def task_of_def)
  have "phase_rank (tk_phase t) \<le> 32" using op(3) by (cases "tk_phase t") (auto simp: op_running_def)
  then have done': "find_task inst' k = None" "fw_inv inst' w'"
    using fw_turns_end [of "(inst, w)" k 32] inv assms(3-5) by (auto simp: blocked_def)
  then show "find_task inst' k = None" by simp
  have "fo_id ` set (in_operations (fst (fw_turns n k s))) = fo_id ` set (in_operations (fst s))"
    if "fw_inv (fst s) (snd s)" for n s
    using that
  proof (induction n arbitrary: s)
    case (Suc n)
    obtain i v where turn: "fw_turn (fst s) k (snd s) = (i, v)" by fastforce
    have "fo_id ` set (in_operations i) = fo_id ` set (in_operations (fst s))"
      using fw_turn_ids [OF Suc.prems turn] by (metis list.set_map)
    with Suc.IH [of "(i, v)"] fw_inv_turn(1) [OF Suc.prems turn] turn show ?case by simp
  qed simp
  from this [of "(inst, w)" 32] inv assms(5) op(1,2) have "k \<in> fo_id ` set (in_operations inst')" by auto
  then obtain op' where op': "op' \<in> set (in_operations inst')" "fo_id op' = k" by auto
  then have "find_operation inst' k = Some op'"
    using find_row_unique [of fo_id "in_operations inst'" op'] done'(2) by (simp add: fw_inv_def find_operation_def)
  moreover have "op_finished (in_catalog inst') w' op'"
  proof -
    have "fo_id op' \<notin> tk_id ` set (in_tasks inst')"
      using done'(1) op'(2) unfolding find_task_def find_row_None_iff by auto
    with done'(2) op'(1) show ?thesis unfolding fw_inv_def by blast
  qed
  ultimately show "\<exists>op. find_operation inst' k = Some op \<and> fo_state op \<in> {''complete'', ''failed''}"
    by (auto simp: op_finished_def)
qed

section \<open>A sample installation\<close>

definition sample_installer :: fw_installer where
  "sample_installer = \<lparr>in_catalog = sample_catalog, in_cli = ''arduino-cli'', in_operations = [], in_tasks = []\<rparr>"

definition sample_board :: usb_port where
  "sample_board = \<lparr>up_device = ''COM3'', up_serial = Some sample_serial, up_vid = 0x2886, up_pid = 0x0062\<rparr>"

definition sample_task :: "fw_phase \<Rightarrow> fw_task" where
  "sample_task p = \<lparr>tk_id = ''op1'', tk_serial = sample_serial, tk_port = ''COM3'', tk_phase = p\<rparr>"

definition sample_with :: "fw_operation \<Rightarrow> fw_task list \<Rightarrow> fw_installer" where
  "sample_with op ts = sample_installer\<lparr>in_operations := [op], in_tasks := ts\<rparr>"

definition sample_op :: fw_operation where
  "sample_op = new_fw_operation ''op1'' sample_serial ''xiao-test'' 0"

lemma sample_validates:
  "same_world sample_fw_world w \<Longrightarrow> validate sample_catalog w (JStr ''xiao-test'') =
    (Inr (sample_item, [''srv'', ''build'', ''app.hex'']), fw_tick (fw_tick w))"
  using same_worldD [of sample_fw_world w] by (intro sample_validated) auto

lemma sample_fw_boards:
  assumes "same_world sample_fw_world w"
  shows "fw_boards sample_catalog w = (Inr [board_row [JStr ''xiao-test''] sample_board], fw_tick (fw_tick (fw_tick w)))"
proof -
  have id: "dget sample_item ''package_id'' = JStr ''xiao-test''" by (simp add: sample_item_def dget_def)
  have fields: "map snd (cat_packages sample_catalog) = [sample_item]" "cat_approvals sample_catalog = []"
    by (simp_all add: sample_catalog_def)
  have "catalog_list sample_catalog w =
      (Inr [dput (ready_row sample_catalog (JStr ''xiao-test'') (filter (\<lambda>kv. fst kv \<noteq> ''artifact_path'') sample_item))
              ''developer_approval_available'' (JBool False)], fw_tick (fw_tick w))"
    unfolding catalog_list_def fields
    by (simp add: package_row_def id sample_validates [OF assms] Let_def ready_row_def fields with_status_def dupdate_def
        dget_dput)
  moreover have "fw_comports w = (\<lambda>_. [sample_board])"
    using same_worldD(5) [OF assms] by (simp add: sample_fw_world_def sample_board_def)
  ultimately show ?thesis
    by (simp add: fw_boards_def Let_def ready_row_def fields with_status_def dupdate_def dget_dput fw_supported_def
        sample_board_def) (simp add: sample_item_def dget_def)
qed

definition sample_request :: http_request where
  "sample_request = \<lparr>rq_method = ''POST'', rq_content_type = None, rq_content_length = None, rq_origin = None,
     rq_host = None, rq_forwarded = [], rq_peer = Some ''127.0.0.1'', rq_scheme = ''http'', rq_hostname = None,
     rq_port = Inr None\<rparr>"

definition sample_body :: install_request where
  "sample_body = \<lparr>ir_hardware_serial = sample_serial, ir_package_id = ''xiao-test''\<rparr>"

lemma sample_body_ok: "install_request_valid sample_body" "serial_pattern sample_serial"
  by (simp_all add: install_request_valid_def sample_body_def serial_pattern_def package_id_pattern_def sample_serial_def
      is_upper_hex_def is_lower_alnum_def is_digit_def)

lemma sample_body_fields: "ir_hardware_serial sample_body = sample_serial" "ir_package_id sample_body = ''xiao-test''"
  by (simp_all add: sample_body_def)

lemma sample_installed:
  "\<exists>w. same_world sample_fw_world w \<and>
     fw_step (sample_installer, sample_fw_world) (sample_with sample_op [sample_task Waiting], w)"
proof -
  have boards: "fw_boards sample_catalog (fw_tick (fw_tick sample_fw_world)) =
      (Inr [board_row [JStr ''xiao-test''] sample_board], fw_tick (fw_tick (fw_tick (fw_tick (fw_tick sample_fw_world)))))"
    by (rule sample_fw_boards) (meson same_world_tick same_world_trans)
  have row: "dget (board_row c sample_board) ''hardware_serial'' = JStr sample_serial"
    "dget (board_row c sample_board) ''com_port'' = JStr ''COM3''" for c
    by (simp_all add: board_row_def sample_board_def dget_def)
  have cat: "in_catalog sample_installer = sample_catalog" "\<not> lock_held sample_installer s" for s
    by (simp_all add: sample_installer_def lock_held_def)
  have "install_handler (\<lambda>_. Inl TimeoutError) sample_request sample_body ''op1'' 0 sample_installer sample_fw_world =
      (Inr sample_op, sample_with sample_op [sample_task Waiting],
       fw_tick (fw_tick (fw_tick (fw_tick (fw_tick sample_fw_world)))))"
    by (simp add: install_handler_def sample_body_ok firmware_loopback_def sample_request_def fw_start_def cat boards row
        sample_validates Let_def fw_http_result_def sample_body_fields)
      (simp add: sample_with_def sample_op_def sample_task_def sample_installer_def)
  then have "fw_step (sample_installer, sample_fw_world) (sample_with sample_op [sample_task Waiting],
       fw_tick (fw_tick (fw_tick (fw_tick (fw_tick sample_fw_world)))))"
    by (rule fw_step.Install) (simp add: sample_installer_def)
  moreover have "same_world sample_fw_world (fw_tick (fw_tick (fw_tick (fw_tick (fw_tick sample_fw_world)))))"
    by (meson same_world_tick same_world_trans)
  ultimately show ?thesis by blast
qed

lemma sample_turn:
  assumes "run_piece (sample_with op [sample_task p]) (sample_task p) op w = (op', phase, w')" "fo_id op = ''op1''"
  shows "fw_step (sample_with op [sample_task p], w)
    (sample_with op' (case phase of None \<Rightarrow> [] | Some q \<Rightarrow> [sample_task q]), w')"
proof (rule fw_step.Turn [where k = "''op1''"])
  have "\<not> (p = Waiting \<and> lock_held (sample_with op [sample_task p]) sample_serial)"
    by (auto simp: lock_held_def sample_with_def sample_task_def)
  moreover have "find_task (sample_with op [sample_task p]) ''op1'' = Some (sample_task p)"
    "find_operation (sample_with op [sample_task p]) ''op1'' = Some op"
    using assms(2) by (simp_all add: find_task_def find_operation_def sample_with_def sample_task_def)
  moreover have "tk_phase (sample_task p) = p" "tk_serial (sample_task p) = sample_serial"
    by (simp_all add: sample_task_def)
  ultimately show "fw_turn (sample_with op [sample_task p]) ''op1'' w =
      (sample_with op' (case phase of None \<Rightarrow> [] | Some q \<Rightarrow> [sample_task q]), w')"
    using assms by (simp add: fw_turn_def) (auto simp: sample_with_def sample_task_def split: option.splits)
qed

lemma sample_uploading:
  "\<exists>w op command. same_world sample_fw_world w \<and> fo_state op = ''uploading'' \<and> same_operation sample_op op \<and>
     fw_step\<^sup>*\<^sup>* (sample_installer, sample_fw_world) (sample_with op [sample_task (Uploading command)], w)"
proof -
  obtain w where w: "same_world sample_fw_world w"
    and start: "fw_step (sample_installer, sample_fw_world) (sample_with sample_op [sample_task Waiting], w)"
    using sample_installed by blast
  have which: "fw_which w = (\<lambda>_ _. Some ''arduino-cli'')" using same_worldD(6) [OF w] by (simp add: sample_fw_world_def)
  have parts: "in_catalog (sample_with sample_op ts) = sample_catalog" "fo_package sample_op = ''xiao-test''"
    "tk_phase (sample_task p) = p" "fo_id sample_op = ''op1''" for ts p
    by (simp_all add: sample_with_def sample_installer_def sample_op_def new_fw_operation_def sample_task_def)
  have "\<exists>command. run_piece (sample_with sample_op [sample_task Waiting]) (sample_task Waiting) sample_op w =
      (fw_note ''uploading'' [''package_validated''] sample_op, Some (Uploading command), fw_tick (fw_tick (fw_tick w)))"
    by (simp add: run_piece_def run_begin_def parts sample_validates [OF w] which Let_def)
  then obtain command where step: "fw_step (sample_with sample_op [sample_task Waiting], w)
      (sample_with (fw_note ''uploading'' [''package_validated''] sample_op) [sample_task (Uploading command)],
       fw_tick (fw_tick (fw_tick w)))"
    using sample_turn [of sample_op Waiting w] parts(4) by fastforce
  have "same_world sample_fw_world (fw_tick (fw_tick (fw_tick w)))"
    using w by (meson same_world_tick same_world_trans)
  moreover have "fo_state (fw_note ''uploading'' [''package_validated''] sample_op) = ''uploading''"
    by (simp add: fw_note_def)
  ultimately show ?thesis
    using start step by (meson r_into_rtranclp rtranclp.rtrancl_into_rtrancl same_operation_simps)
qed

lemma sample_complete:
  "\<exists>w op. fo_state op = ''complete'' \<and>
     fw_step\<^sup>*\<^sup>* (sample_installer, sample_fw_world) (sample_with op [], w)"
proof -
  obtain w op command where w: "same_world sample_fw_world w" and op: "same_operation sample_op op"
    and reach: "fw_step\<^sup>*\<^sup>* (sample_installer, sample_fw_world) (sample_with op [sample_task (Uploading command)], w)"
    using sample_uploading by blast
  have exec: "fw_exec w = (\<lambda>_ _. Inr (0, ''Programming Finished''))"
    using same_worldD(7) [OF w] by (simp add: sample_fw_world_def)
  have id: "fo_id op = ''op1''" "fo_serial op = sample_serial"
    using op by (simp_all add: same_operation_def sample_op_def new_fw_operation_def)
  have "upload_succeeded 0 ''Programming Finished''" by (simp add: upload_succeeded_def last_n_def)
  then obtain op\<^sub>1 where op\<^sub>1: "run_piece (sample_with op [sample_task (Uploading command)]) (sample_task (Uploading command)) op w =
      (op\<^sub>1, Some (Polling 30), fw_tick w)" "fo_id op\<^sub>1 = ''op1''" "fo_serial op\<^sub>1 = sample_serial"
    using id by (simp add: run_piece_def sample_task_def run_upload_def exec Let_def fw_note_def)
  have w\<^sub>1: "same_world sample_fw_world (fw_tick w)" using w by (meson same_world_tick same_world_trans)
  have "run_piece (sample_with op\<^sub>1 [sample_task (Polling 30)]) (sample_task (Polling 30)) op\<^sub>1 (fw_tick w) =
      (fw_note ''complete'' [''same_device_reenumerated''] op\<^sub>1, None, fw_tick (fw_tick (fw_tick (fw_tick w))))"
    using op\<^sub>1(3) by (simp add: run_piece_def sample_task_def run_poll_def sample_with_def sample_installer_def
        sample_fw_boards [OF w\<^sub>1]) (simp add: board_row_def sample_board_def dget_def)
  note last_turn = sample_turn [OF this op\<^sub>1(2), simplified]
  have "fw_step\<^sup>*\<^sup>* (sample_installer, sample_fw_world)
      (sample_with (fw_note ''complete'' [''same_device_reenumerated''] op\<^sub>1) [], fw_tick (fw_tick (fw_tick (fw_tick w))))"
    using reach sample_turn [OF op\<^sub>1(1) id(1), simplified] last_turn
    by (meson rtranclp.rtrancl_into_rtrancl)
  then show ?thesis using note_simps(2) by blast
qed

lemma sample_fresh: "fresh_installer sample_installer"
  by (simp add: fresh_installer_def sample_installer_def)

theorem firmware_one_upload_per_device_witness:
  "\<exists>inst w op. fw_step\<^sup>*\<^sup>* (sample_installer, sample_fw_world) (inst, w) \<and> op \<in> set (in_operations inst)
     \<and> fo_state op = ''uploading'' \<and> distinct (map fo_id (in_operations inst))
     \<and> (\<forall>op' \<in> set (in_operations inst). fo_serial op = fo_serial op' \<and> fo_state op' = ''uploading'' \<longrightarrow> op = op')"
proof -
  obtain w op command where state: "fo_state op = ''uploading''"
    and reach: "fw_step\<^sup>*\<^sup>* (sample_installer, sample_fw_world) (sample_with op [sample_task (Uploading command)], w)"
    using sample_uploading by blast
  have "op \<in> set (in_operations (sample_with op [sample_task (Uploading command)]))" by (simp add: sample_with_def)
  with reach state firmware_one_upload_per_device [OF reach sample_fresh] show ?thesis by blast
qed


theorem firmware_runs_end_witness:
  "\<exists>inst w inst' w'. fw_step\<^sup>*\<^sup>* (sample_installer, sample_fw_world) (inst, w)
     \<and> find_task inst ''op1'' = Some (sample_task Waiting) \<and> fw_turns 32 ''op1'' (inst, w) = (inst', w')
     \<and> find_task inst' ''op1'' = None
     \<and> (\<exists>op. find_operation inst' ''op1'' = Some op \<and> fo_state op \<in> {''complete'', ''failed''})"
proof -
  obtain w where "fw_step (sample_installer, sample_fw_world) (sample_with sample_op [sample_task Waiting], w)"
    using sample_installed by blast
  then have reach: "fw_step\<^sup>*\<^sup>* (sample_installer, sample_fw_world) (sample_with sample_op [sample_task Waiting], w)" by simp
  have task: "find_task (sample_with sample_op [sample_task Waiting]) ''op1'' = Some (sample_task Waiting)"
    "\<not> lock_held (sample_with sample_op [sample_task Waiting]) (tk_serial (sample_task Waiting))"
    by (simp_all add: find_task_def sample_with_def sample_task_def lock_held_def)
  obtain inst' w' where turns: "fw_turns 32 ''op1'' (sample_with sample_op [sample_task Waiting], w) = (inst', w')"
    by fastforce
  from firmware_runs_end [OF reach sample_fresh task(1) _ turns] task reach turns show ?thesis by blast
qed

end
