(* ===== verification/Commissioning.thy ===== *)
theory Commissioning
  imports Ble_Provisioning Scanner Manager
begin

text \<open>
  Commissioning of nodes over BLE (\<open>api/commissioning.py\<close>) and the node endpoints (\<open>api/nodes.py\<close>). A handler runs over the
  database, the scanner, the nodes in reach, the calls to the connection manager and the cache of configuration results.
  While it awaits a node, other requests run: \<open>ce_meanwhile\<close> is what they do to the database during its n-th wait.
  The conversion of a decoded value to a database column is an argument.
\<close>

section \<open>Handlers as computations\<close>

record cm_env =
  ce_pattern :: "string \<Rightarrow> bool"
  ce_locked :: "string \<Rightarrow> bool"
  ce_patience :: nat
  ce_text :: "json \<Rightarrow> string option result"
  ce_int :: "json \<Rightarrow> int option result"
  ce_isoformat :: "time \<Rightarrow> string"
  ce_meanwhile :: "nat \<Rightarrow> db \<Rightarrow> db"

record cm_app =
  cm_db :: db
  cm_scanner :: scanner
  cm_world :: "string \<Rightarrow> ble_world"
  cm_calls :: "manager_call list"
  cm_results :: "((string \<times> string) \<times> dict) list"
  cm_waits :: nat

type_synonym 'a cm = "cm_app \<Rightarrow> 'a result \<times> cm_app"

definition bind_cm :: "'a cm \<Rightarrow> ('a \<Rightarrow> 'b cm) \<Rightarrow> 'b cm" where
  "bind_cm m f a = (case m a of (Inl e, a') \<Rightarrow> (Inl e, a') | (Inr x, a') \<Rightarrow> f x a')"

definition lift_cm :: "'a result \<Rightarrow> 'a cm" where
  "lift_cm r a = (r, a)"

definition guard_cm :: "bool \<Rightarrow> exn \<Rightarrow> unit cm" where
  "guard_cm bad e = lift_cm (if bad then Inl e else Inr ())"

definition read_db :: "(db \<Rightarrow> 'a) \<Rightarrow> 'a cm" where
  "read_db f a = (Inr (f (cm_db a)), a)"

definition on_db :: "(db \<Rightarrow> 'a result \<times> db) \<Rightarrow> 'a cm" where
  "on_db f a = (case f (cm_db a) of (r, s) \<Rightarrow> (r, a\<lparr>cm_db := s\<rparr>))"

definition waited :: "cm_env \<Rightarrow> cm_app \<Rightarrow> cm_app" where
  "waited env a = a\<lparr>cm_db := ce_meanwhile env (cm_waits a) (cm_db a), cm_waits := Suc (cm_waits a)\<rparr>"

definition on_ble :: "cm_env \<Rightarrow> string \<Rightarrow> 'a ble \<Rightarrow> 'a cm" where
  "on_ble env address m a =
     (case m (cm_world a address) of (r, w) \<Rightarrow> (r, waited env (a\<lparr>cm_world := (cm_world a)(address := w)\<rparr>)))"

definition look_up_cm :: "string \<Rightarrow> time \<Rightarrow> discovery option cm" where
  "look_up_cm address clock a =
     (case get_discovery (cm_scanner a) address clock of (d, sc) \<Rightarrow> (Inr d, a\<lparr>cm_scanner := sc\<rparr>))"

definition call_manager :: "manager_call \<Rightarrow> unit cm" where
  "call_manager c a = (Inr (), a\<lparr>cm_calls := cm_calls a @ [c]\<rparr>)"

text \<open>\<open>await ble_manager.remove(node_id)\<close>.\<close>

definition remove_cm :: "cm_env \<Rightarrow> string \<Rightarrow> unit cm" where
  "remove_cm env node_id a = (Inr (), waited env (a\<lparr>cm_calls := cm_calls a @ [ManagerRemove node_id]\<rparr>))"

text \<open>\<open>except (BleProvisioningError, TimeoutError, ConnectionError)\<close>; \<open>try ... finally\<close>.\<close>

fun ble_caught :: "exn \<Rightarrow> bool" where
  "ble_caught (BleProvisioningError _) = True"
| "ble_caught TimeoutError = True"
| "ble_caught (ConnectionError _) = True"
| "ble_caught _ = False"

definition except_ble :: "(exn \<Rightarrow> exn) \<Rightarrow> 'a cm \<Rightarrow> 'a cm" where
  "except_ble f m a = (case m a of (Inl e, a') \<Rightarrow> (Inl (if ble_caught e then f e else e), a') | (Inr x, a') \<Rightarrow> (Inr x, a'))"

definition finally_cm :: "'a cm \<Rightarrow> unit cm \<Rightarrow> 'a cm" where
  "finally_cm m last_step a = (case m a of (r, a') \<Rightarrow> (r, snd (last_step a')))"

section \<open>Discoveries\<close>

definition assigned_message :: "string \<Rightarrow> string" where
  "assigned_message node_id =
     ''This MG24 is already assigned as '' @ node_id @ ''; application firmware installation preserves identity.''"

definition assigned_conflict :: "string \<Rightarrow> exn" where
  "assigned_conflict node_id = HTTPException 409 ''device_already_assigned'' (assigned_message node_id)"

definition text_or_null :: "string option \<Rightarrow> json" where
  "text_or_null s = (case s of None \<Rightarrow> JNull | Some v \<Rightarrow> JStr v)"

definition discovery_item :: "(time \<Rightarrow> string) \<Rightarrow> discovery \<Rightarrow> dict" where
  "discovery_item isoformat d =
     [(''address'', JStr (dc_address d)), (''name'', text_or_null (dc_name d)),
      (''rssi'', case dc_rssi d of None \<Rightarrow> JNull | Some v \<Rightarrow> JInt v), (''service_uuids'', JArr (map JStr (dc_service_uuids d))),
      (''compatible'', JBool (dc_compatible d)), (''compatibility_reason'', JStr (dc_compatibility_reason d)),
      (''stable_device_id'', text_or_null (dc_stable_device_id d)), (''temporary_id'', text_or_null (dc_temporary_id d)),
      (''last_seen_at'', JStr (isoformat (dc_last_seen_at d)))]"

definition texts :: "string list \<Rightarrow> json" where
  "texts xs = JArr (map JStr xs)"

definition incompatible_item :: "dict" where
  "incompatible_item = [(''commissioning_state'', JStr ''incompatible''), (''action'', JStr ''diagnose''),
     (''commissioning_eligible'', JBool False), (''allowed_actions'', texts [''diagnose'', ''rescan'', ''close''])]"

definition registered_item :: "string \<Rightarrow> dict" where
  "registered_item device_id =
     [(''stable_device_id'', JStr device_id), (''temporary_id'', JNull), (''reported_node_id'', JStr device_id),
      (''assigned_node_id'', JStr device_id), (''commissioning_state'', JStr ''registered_here''),
      (''commissioning_eligible'', JBool False), (''action'', JStr ''view_or_reconnect''),
      (''allowed_actions'', texts [''view'', ''reconnect'', ''rescan'', ''close'']), (''local_device_id'', JStr device_id)]"

definition unavailable_item :: "string \<Rightarrow> dict" where
  "unavailable_item message =
     [(''commissioning_state'', JStr ''state_unavailable''), (''commissioning_eligible'', JBool False),
      (''action'', JStr ''retry_scan''), (''allowed_actions'', texts [''rescan'', ''close'']), (''message'', JStr message)]"

definition unassigned_item :: dict where
  "unassigned_item =
     [(''reported_node_id'', JStr ''UNASSIGNED-MG24''), (''commissioning_state'', JStr ''unassigned''),
      (''commissioning_eligible'', JBool True), (''action'', JStr ''commission''),
      (''allowed_actions'', texts [''commission'', ''rescan'', ''close''])]"

definition assigned_item :: "string \<Rightarrow> dict" where
  "assigned_item node_id =
     [(''reported_node_id'', JStr node_id), (''stable_device_id'', JStr node_id), (''temporary_id'', JNull),
      (''assigned_node_id'', JStr node_id), (''commissioning_state'', JStr ''assigned_elsewhere''),
      (''commissioning_eligible'', JBool False), (''action'', JStr ''import''),
      (''allowed_actions'', texts [''import'', ''view_assignment'', ''recovery_instructions'', ''rescan'', ''close'']),
      (''message'', JStr (assigned_message node_id))]"

text \<open>\<open>state["readback"]["id"]\<close>; \<open>read_state\<close> has checked that it is a text.\<close>

definition readback_id :: "ble_state \<Rightarrow> string" where
  "readback_id st = (case dget (bs_readback st) ''id'' of JStr i \<Rightarrow> i | _ \<Rightarrow> '''')"

definition classify_discovery :: "cm_env \<Rightarrow> string \<Rightarrow> discovery \<Rightarrow> dict cm" where
  "classify_discovery env tx d a =
     (let item = discovery_item (ce_isoformat env) d in
      if \<not> dc_compatible d then (Inr (dupdate item incompatible_item), a)
      else case get_by_ble_address (cm_db a) (dc_address d) of
        Some local \<Rightarrow> (Inr (dupdate item (registered_item (rd_device_id local))), a)
      | None \<Rightarrow>
          (case on_ble env (dc_address d) (read_state (ce_locked env (dc_address d)) tx) a of
             (Inl e, a') \<Rightarrow>
               if ble_caught e then (Inr (dupdate item (unavailable_item (exn_str e))), a') else (Inl e, a')
           | (Inr st, a') \<Rightarrow>
               (Inr (dupdate item
                 (if readback_id st = ''UNASSIGNED-MG24'' then unassigned_item else assigned_item (readback_id st))), a')))"

fun classify_all :: "cm_env \<Rightarrow> (nat \<Rightarrow> string) \<Rightarrow> nat \<Rightarrow> discovery list \<Rightarrow> dict list cm" where
  "classify_all env tx n [] = lift_cm (Inr [])"
| "classify_all env tx n (d # ds) =
     bind_cm (classify_discovery env (tx n) d) (\<lambda>item.
     bind_cm (classify_all env tx (Suc n) ds) (\<lambda>items. lift_cm (Inr (item # items))))"

definition commissioning_discoveries :: "cm_env \<Rightarrow> (nat \<Rightarrow> string) \<Rightarrow> time \<Rightarrow> dict list cm" where
  "commissioning_discoveries env tx clock a =
     (case discoveries (cm_scanner a) clock of (ds, sc) \<Rightarrow> classify_all env tx 0 ds (a\<lparr>cm_scanner := sc\<rparr>))"

section \<open>Commissioning a node\<close>

record commission_request =
  cq_discovery_address :: string
  cq_node_id :: string
  cq_display_name :: string
  cq_location :: "string option"
  cq_configuration :: installation_configuration
  cq_idempotency_key :: string

definition commission_request_valid :: "commission_request \<Rightarrow> bool" where
  "commission_request_valid b =
     (len_between 3 128 (cq_discovery_address b) \<and> node_id_text (cq_node_id b) \<and> length (cq_node_id b) \<le> 31
      \<and> len_between 1 160 (cq_display_name b) \<and> opt_len_between 0 240 (cq_location b)
      \<and> installation_configuration_valid (cq_configuration b) \<and> transaction_pattern (cq_idempotency_key b))"

definition removed_conflict :: "string \<Rightarrow> exn" where
  "removed_conflict message = HTTPException 409 ''device_removed'' message"

definition is_removed :: "registered_device \<Rightarrow> bool" where
  "is_removed d = (rd_archived d \<or> rd_lifecycle_state d = ''removed'')"

text \<open>The first block: either an existing registration is the answer, or the request may go on.\<close>

definition commission_check :: "db \<Rightarrow> commission_request \<Rightarrow> registered_device option result" where
  "commission_check s b =
     (case get_by_ble_address s (cq_discovery_address b) of
        Some local \<Rightarrow> Inl (HTTPException 409 ''device_already_registered''
          (''This MG24 is already registered here as '' @ rd_device_id local @ ''.''))
      | None \<Rightarrow>
          (case get_device s (cq_node_id b) of
             None \<Rightarrow> Inr None
           | Some existing \<Rightarrow>
               if is_removed existing then Inl (removed_conflict ''This sensor was removed from this gateway.'')
               else if rd_ble_address existing = Some (cq_discovery_address b) then Inr (Some existing)
               else Inl (HTTPException 409 '''' ''node_id is already registered'')))"

text \<open>\<open>DeviceCreate(...)\<close>: the name is stripped and may not be blank.\<close>

definition commission_create :: "commission_request \<Rightarrow> device_create result" where
  "commission_create b =
     bind_result (case not_blank (cq_display_name b) of Inl _ \<Rightarrow> Inl (ValidationError ''DeviceCreate'') | Inr n \<Rightarrow> Inr n) (\<lambda>name.
       Inr \<lparr>cr_device_id = cq_node_id b, cr_display_name = name, cr_discovery_address = cq_discovery_address b,
            cr_device_type = ''xiao_mg24_sense'', cr_location = cq_location b, cr_description = None,
            cr_allow_incompatible = False\<rparr>)"

text \<open>The metadata columns; a value the driver cannot store raises when the row is flushed.\<close>

record metadata_columns =
  mc_firmware_version :: "string option"
  mc_sensor_package_version :: "string option"
  mc_protocol_version :: "string option"
  mc_configuration_schema_version :: "int option"
  mc_build_identifier :: "string option"
  mc_git_commit :: "string option"

definition columns_of :: "cm_env \<Rightarrow> dict \<Rightarrow> metadata_columns result" where
  "columns_of env m =
     bind_result (ce_text env (dget m ''firmware_version'')) (\<lambda>firmware.
     bind_result (ce_text env (dget m ''sensor_package_version'')) (\<lambda>package.
     bind_result (ce_text env (dget m ''protocol_version'')) (\<lambda>protocol.
     bind_result (ce_int env (dget m ''configuration_schema_version'')) (\<lambda>schema.
     bind_result (ce_text env (dget m ''build_identifier'')) (\<lambda>build.
     bind_result (ce_text env (dget m ''git_commit'')) (\<lambda>commit.
       Inr \<lparr>mc_firmware_version = firmware, mc_sensor_package_version = package, mc_protocol_version = protocol,
            mc_configuration_schema_version = schema, mc_build_identifier = build, mc_git_commit = commit\<rparr>))))))"

definition metadata_values :: "metadata_columns \<Rightarrow> string \<Rightarrow> registered_device \<Rightarrow> registered_device" where
  "metadata_values m message d = d\<lparr>
     rd_firmware_version := mc_firmware_version m, rd_sensor_package_version := mc_sensor_package_version m,
     rd_protocol_version := mc_protocol_version m, rd_configuration_schema_version := mc_configuration_schema_version m,
     rd_build_identifier := mc_build_identifier m, rd_firmware_git_commit := mc_git_commit m,
     rd_compatibility_status := ''compatible'', rd_compatibility_message := Some message\<rparr>"

definition connecting :: "registered_device \<Rightarrow> registered_device" where
  "connecting d = d\<lparr>rd_connection_status := ''connecting''\<rparr>"

definition schedule_cm :: "registered_device \<Rightarrow> registered_device cm" where
  "schedule_cm d =
     bind_cm (call_manager (ManagerSchedule (rd_device_id d) (case rd_ble_address d of None \<Rightarrow> '''' | Some x \<Rightarrow> x))) (\<lambda>_.
       lift_cm (Inr (connecting d)))"

text \<open>The registration that follows a verified provisioning.\<close>

definition commission_register ::
  "cm_env \<Rightarrow> commission_request \<Rightarrow> discovery \<Rightarrow> provisioned \<Rightarrow> time \<Rightarrow> registered_device cm" where
  "commission_register env b found p now =
     bind_cm (lift_cm (commission_create b)) (\<lambda>create.
     bind_cm (on_db (\<lambda>s. device_register (ce_pattern env) s create (found\<lparr>dc_stable_device_id := Some (cq_node_id b)\<rparr>) now)) (\<lambda>device.
     bind_cm (lift_cm (columns_of env (pv_metadata p))) (\<lambda>m.
     bind_cm (on_db (\<lambda>s. device_update_row s device (metadata_values m ''Provisioning readback verified'') now)) (\<lambda>device.
       schedule_cm device))))"

definition commission_assigned :: "db \<Rightarrow> commission_request \<Rightarrow> string \<Rightarrow> registered_device result" where
  "commission_assigned s b assigned_id =
     (case get_by_ble_address s (cq_discovery_address b) of
        Some local \<Rightarrow> if rd_device_id local = assigned_id then Inr local else Inl (assigned_conflict assigned_id)
      | None \<Rightarrow> Inl (assigned_conflict assigned_id))"

definition commission_provision ::
  "cm_env \<Rightarrow> commission_request \<Rightarrow> discovery \<Rightarrow> string \<Rightarrow> time \<Rightarrow> registered_device cm" where
  "commission_provision env b found tx now =
     (let address = cq_discovery_address b in
      bind_cm (except_ble (\<lambda>e. HTTPException 409 ''device_state_unavailable'' (exn_str e))
        (on_ble env address (read_state (ce_locked env address) tx))) (\<lambda>st.
      if readback_id st \<noteq> ''UNASSIGNED-MG24''
      then bind_cm (read_db (\<lambda>s. commission_assigned s b (readback_id st))) lift_cm
      else
        bind_cm (except_ble (\<lambda>e. HTTPException 409 '''' (exn_str e))
          (on_ble env address (Ble_Provisioning.provision (ce_patience env) (ce_locked env address) (cq_node_id b)
             (cq_idempotency_key b) (cq_configuration b) None))) (\<lambda>p.
        commission_register env b found p now)))"

definition commission_node :: "cm_env \<Rightarrow> commission_request \<Rightarrow> string \<Rightarrow> time \<Rightarrow> time \<Rightarrow> registered_device cm" where
  "commission_node env b tx clock now =
     bind_cm (guard_cm (\<not> commission_request_valid b) (HTTPException 422 '''' '''')) (\<lambda>_.
     bind_cm (look_up_cm (cq_discovery_address b) clock) (\<lambda>discovery.
     case discovery of
       None \<Rightarrow> lift_cm (Inl (HTTPException 409 '''' ''selected compatible discovery expired; scan again''))
     | Some found \<Rightarrow>
         if \<not> dc_compatible found
         then lift_cm (Inl (HTTPException 409 '''' ''selected compatible discovery expired; scan again''))
         else bind_cm (read_db (\<lambda>s. commission_check s b)) (\<lambda>check.
              bind_cm (lift_cm check) (\<lambda>existing.
              case existing of
                Some d \<Rightarrow> lift_cm (Inr d)
              | None \<Rightarrow> commission_provision env b found tx now))))"

section \<open>Importing an assigned node\<close>

record import_request =
  iq_discovery_address :: string
  iq_display_name :: "string option"
  iq_location :: "string option"

definition import_request_valid :: "import_request \<Rightarrow> bool" where
  "import_request_valid b =
     (len_between 3 128 (iq_discovery_address b) \<and> opt_len_between 1 160 (iq_display_name b)
      \<and> opt_len_between 0 240 (iq_location b))"

definition import_message :: string where
  "import_message = ''Imported from authoritative readback; device state was not changed.''"

definition import_values :: "import_request \<Rightarrow> discovery \<Rightarrow> string \<Rightarrow> metadata_columns \<Rightarrow> registered_device \<Rightarrow> registered_device" where
  "import_values b found node_id m d = metadata_values m import_message (d\<lparr>
     rd_device_id := node_id,
     rd_display_name := py_strip (case iq_display_name b of Some n \<Rightarrow> (if n = '''' then node_id else n) | None \<Rightarrow> node_id),
     rd_device_type := ''xiao_mg24_sense'', rd_ble_address := Some (iq_discovery_address b),
     rd_ble_advertised_name := dc_name found, rd_location := iq_location b, rd_enabled := True\<rparr>)"

text \<open>\<open>metadata.get\<close> raises when the node sent no object.\<close>

definition import_create :: "cm_env \<Rightarrow> import_request \<Rightarrow> discovery \<Rightarrow> ble_state \<Rightarrow> time \<Rightarrow> registered_device cm" where
  "import_create env b found st now =
     bind_cm (lift_cm (as_object (bs_metadata st))) (\<lambda>metadata.
     bind_cm (lift_cm (columns_of env metadata)) (\<lambda>m.
     on_db (\<lambda>s. device_create_row s (import_values b found (readback_id st) m) now)))"

definition import_device :: "cm_env \<Rightarrow> import_request \<Rightarrow> discovery \<Rightarrow> ble_state \<Rightarrow> time \<Rightarrow> registered_device cm" where
  "import_device env b found st now a =
     (case get_device (cm_db a) (readback_id st) of
        Some existing \<Rightarrow>
          if is_removed existing then (Inl (removed_conflict ''Use Restore/Reapprove for this removed sensor.''), a)
          else if rd_ble_address existing \<noteq> Some (iq_discovery_address b)
          then (Inl (HTTPException 409 ''identity_conflict'' ''Node identity belongs to another address.''), a)
          else (Inr existing, a)
      | None \<Rightarrow>
          if get_by_ble_address (cm_db a) (iq_discovery_address b) \<noteq> None
          then (Inl (HTTPException 409 ''address_conflict'' ''BLE address is already registered.''), a)
          else import_create env b found st now a)"

definition import_assigned_node :: "cm_env \<Rightarrow> import_request \<Rightarrow> string \<Rightarrow> time \<Rightarrow> time \<Rightarrow> registered_device cm" where
  "import_assigned_node env b tx clock now =
     bind_cm (guard_cm (\<not> import_request_valid b) (HTTPException 422 '''' '''')) (\<lambda>_.
     bind_cm (look_up_cm (iq_discovery_address b) clock) (\<lambda>discovery.
     case discovery of
       None \<Rightarrow> lift_cm (Inl (HTTPException 409 ''discovery_expired'' ''Scan again before importing.''))
     | Some found \<Rightarrow>
         if \<not> dc_compatible found
         then lift_cm (Inl (HTTPException 409 ''discovery_expired'' ''Scan again before importing.''))
         else
           bind_cm (except_ble (\<lambda>e. HTTPException 409 ''device_state_unavailable''
                ''The sensor assignment could not be verified. Nothing was imported or changed.'')
             (on_ble env (iq_discovery_address b) (read_state (ce_locked env (iq_discovery_address b)) tx))) (\<lambda>st.
           bind_cm (guard_cm (readback_id st = ''UNASSIGNED-MG24'')
             (HTTPException 409 ''device_unassigned'' ''Use Set up sensor for an unassigned device.'')) (\<lambda>_.
           bind_cm (import_device env b found st now) schedule_cm))))"

section \<open>Reasoning about handlers\<close>

lemma bind_cm_Inr_iff:
  "bind_cm m f a = (Inr y, a') \<longleftrightarrow> (\<exists>x a1. m a = (Inr x, a1) \<and> f x a1 = (Inr y, a'))"
  by (auto simp: bind_cm_def split: prod.splits sum.splits)

lemma bind_cm_cases:
  assumes "bind_cm m f a = (r, a')"
  obtains (failed) e where "m a = (Inl e, a')" "r = Inl e" | (went) x a1 where "m a = (Inr x, a1)" "f x a1 = (r, a')"
  using assms by (auto simp: bind_cm_def split: prod.splits sum.splits)

lemma lift_cm_iff [simp]: "lift_cm r a = (r', a') \<longleftrightarrow> r = r' \<and> a = a'"
  by (auto simp: lift_cm_def)

lemma guard_cm_iff [simp]: "guard_cm bad e a = (r, a') \<longleftrightarrow> r = (if bad then Inl e else Inr ()) \<and> a = a'"
  by (auto simp: guard_cm_def)

lemma read_db_iff [simp]: "read_db f a = (r, a') \<longleftrightarrow> r = Inr (f (cm_db a)) \<and> a' = a"
  by (auto simp: read_db_def)

lemma except_ble_Inr_iff [simp]: "except_ble f m a = (Inr x, a') \<longleftrightarrow> m a = (Inr x, a')"
  by (auto simp: except_ble_def split: prod.splits sum.splits)

lemma except_ble_state: "snd (except_ble f m a) = snd (m a)"
  by (simp add: except_ble_def split: prod.splits sum.splits)

lemma waited_simps [simp]:
  "cm_scanner (waited env a) = cm_scanner a" "cm_world (waited env a) = cm_world a" "cm_calls (waited env a) = cm_calls a"
  "cm_results (waited env a) = cm_results a" "cm_db (waited env a) = ce_meanwhile env (cm_waits a) (cm_db a)"
  by (simp_all add: waited_def)

lemma on_bleD:
  assumes "on_ble env address m a = (r, a')"
  shows "m (cm_world a address) = (r, cm_world a' address)" "cm_scanner a' = cm_scanner a" "cm_calls a' = cm_calls a"
    "cm_results a' = cm_results a" "cm_db a' = ce_meanwhile env (cm_waits a) (cm_db a)"
    "x \<noteq> address \<Longrightarrow> cm_world a' x = cm_world a x"
  using assms by (auto simp: on_ble_def split: prod.splits)

lemma look_up_cmD:
  assumes "look_up_cm address clock a = (r, a')"
  shows "cm_db a' = cm_db a" "cm_world a' = cm_world a" "cm_calls a' = cm_calls a" "cm_results a' = cm_results a"
  using assms by (auto simp: look_up_cm_def split: prod.splits)

section \<open>What reading the state of a node establishes\<close>

definition own_queue :: "string \<Rightarrow> ble_world \<Rightarrow> bool" where
  "own_queue tx w = (bw_subscription w = Some (4, Some tx) \<and> list_all (\<lambda>p. dget p ''tx'' = JStr tx) (bw_queue w))"

lemma own_queue_notified: "own_queue tx w \<Longrightarrow> own_queue tx (notified raw w)"
  by (auto simp: own_queue_def notified_def split: option.splits json.splits)

lemma own_queue_tick: "own_queue tx w \<Longrightarrow> own_queue tx (ble_tick w)"
proof -
  have "own_queue tx v \<Longrightarrow> own_queue tx (fold notified raws v)" for raws v
    by (induction raws arbitrary: v) (simp_all add: own_queue_notified)
  then show "own_queue tx w \<Longrightarrow> own_queue tx (ble_tick w)" by (simp add: ble_tick_def own_queue_def)
qed

lemma own_queue_write: "write_command command w = (r, w') \<Longrightarrow> own_queue tx w \<Longrightarrow> own_queue tx w'"
  by (auto simp: write_command_def own_queue_def intro!: own_queue_tick [unfolded own_queue_def])

text \<open>The prefix of \<open>read_state\<close> up to the request.\<close>

definition read_prefix :: "(json \<times> json) ble" where
  "read_prefix =
     bind_ble open_ble (\<lambda>_.
     bind_ble (read_json strip_nul ''metadata'') (\<lambda>metadata.
     bind_ble (read_json strip_nul ''capabilities'') (\<lambda>capabilities. lift_ble (Inr (metadata, capabilities)))))"

definition await_state :: "json \<Rightarrow> json \<Rightarrow> ble_state ble" where
  "await_state metadata capabilities = (\<lambda>w.
     let w1 = (if bw_queue w = [] then ble_tick w else w) in
      case bw_queue w1 of
        [] \<Rightarrow> (Inl TimeoutError, w1)
      | readback # rest \<Rightarrow>
          bind_ble stop_notify (\<lambda>_. lift_ble
            (if dget readback ''code'' \<noteq> JStr ''readback'' \<or> json_str (dget readback ''id'') = None
             then Inl (BleProvisioningError ''device returned an invalid provisioning state'')
             else Inr \<lparr>bs_metadata = metadata, bs_capabilities = capabilities, bs_readback = readback\<rparr>))
            (w1\<lparr>bw_queue := rest\<rparr>))"

lemma bind_ble_assoc: "bind_ble (bind_ble m f) g = bind_ble m (\<lambda>x. bind_ble (f x) g)"
  by (auto simp: bind_ble_def fun_eq_iff split: prod.splits sum.splits)

lemma bind_lift_ble: "bind_ble (lift_ble (Inr x)) f = f x"
  by (simp add: bind_ble_def lift_ble_def fun_eq_iff)

lemma read_state_split:
  "read_state False tx = bind_ble read_prefix (\<lambda>mc. bind_ble (start_notify 4 (Some tx)) (\<lambda>_.
     bind_ble (write_command (provget tx)) (\<lambda>_. await_state (fst mc) (snd mc))))"
  unfolding read_state_def read_prefix_def await_state_def [symmetric] by (simp add: bind_ble_assoc bind_lift_ble)

lemma read_prefix_frame: "hears read_prefix" "quiet read_prefix"
  unfolding read_prefix_def by (intro hears_bind hears_reads hears_steps quiet_bind quiet_reads quiet_steps)+

lemma await_state_Inr:
  assumes "await_state metadata capabilities w = (Inr st, w')" "own_queue tx w"
  shows "dget (bs_readback st) ''tx'' = JStr tx" "dget (bs_readback st) ''code'' = JStr ''readback''"
    "dget (bs_readback st) ''id'' = JStr (readback_id st)" "bs_metadata st = metadata"
    "list_all (sent_by_node w) (bw_queue w) \<Longrightarrow> sent_by_node w (bs_readback st)"
proof -
  let ?w = "if bw_queue w = [] then ble_tick w else w"
  obtain readback rest where queue: "bw_queue ?w = readback # rest"
    and st: "dget readback ''code'' = JStr ''readback''" "json_str (dget readback ''id'') \<noteq> None"
      "st = \<lparr>bs_metadata = metadata, bs_capabilities = capabilities, bs_readback = readback\<rparr>"
    using assms(1) unfolding await_state_def Let_def
    by (auto simp: bind_ble_Inr_iff split: list.splits if_splits)
  have "own_queue tx ?w" using assms(2) own_queue_tick by simp
  with queue have "dget readback ''tx'' = JStr tx" by (simp add: own_queue_def)
  then show "dget (bs_readback st) ''tx'' = JStr tx" "dget (bs_readback st) ''code'' = JStr ''readback''"
    "dget (bs_readback st) ''id'' = JStr (readback_id st)" "bs_metadata st = metadata"
    using st by (auto simp: readback_id_def json_str_def split: json.splits)
  show "sent_by_node w (bs_readback st)" if "list_all (sent_by_node w) (bw_queue w)"
  proof -
    have "list_all (sent_by_node w) (bw_queue ?w)" using that ble_tick_heard(2) by simp
    with queue st(3) show ?thesis by simp
  qed
qed

lemma await_state_frame: "hears (await_state metadata capabilities)" "quiet (await_state metadata capabilities)"
proof -
  have state: "\<exists>v. (v = w \<or> v = ble_tick w) \<and>
      (snd (await_state metadata capabilities w) = v
       \<or> (\<exists>p rest. bw_queue v = p # rest
            \<and> snd (await_state metadata capabilities w) = v\<lparr>bw_queue := rest, bw_subscription := None\<rparr>))" for w
    by (intro exI [of _ "if bw_queue w = [] then ble_tick w else w"])
      (simp add: await_state_def Let_def bind_ble_def stop_notify_def lift_ble_def split: list.split)
  show "hears (await_state metadata capabilities)"
    unfolding hears_def
  proof
    fix w
    show "sent_by_node (snd (await_state metadata capabilities w)) = sent_by_node w \<and>
      (list_all (sent_by_node w) (bw_queue w) \<longrightarrow> list_all (sent_by_node w) (bw_queue (snd (await_state metadata capabilities w))))"
      using state [of w] ble_tick_heard [of w] by auto
  qed
  show "quiet (await_state metadata capabilities)"
    unfolding quiet_def
  proof
    fix w
    show "same_node_answers w (snd (await_state metadata capabilities w))
      \<and> bw_written (snd (await_state metadata capabilities w)) = bw_written w"
      using state [of w] by (auto simp: same_node_answers_def)
  qed
qed

definition answers_state :: "ble_world \<Rightarrow> string \<Rightarrow> string \<Rightarrow> bool" where
  "answers_state w tx node_id =
     (\<exists>p. sent_by_node w p \<and> dget p ''code'' = JStr ''readback'' \<and> dget p ''tx'' = JStr tx \<and> dget p ''id'' = JStr node_id)"

lemma read_state_frame:
  assumes "read_state locked tx w = (r, w')"
  shows "sent_by_node w' = sent_by_node w" "bw_written w' \<in> {bw_written w, bw_written w @ [provget tx]}"
proof -
  have "sent_by_node w' = sent_by_node w \<and> bw_written w' \<in> {bw_written w, bw_written w @ [provget tx]}"
  proof (cases locked)
    case True
    with assms show ?thesis by (simp add: read_state_def)
  next
    case False
    define tail where "tail = (\<lambda>mc :: json \<times> json. bind_ble (start_notify 4 (Some tx)) (\<lambda>_.
      bind_ble (write_command (provget tx)) (\<lambda>_. await_state (fst mc) (snd mc))))"
    have run: "bind_ble read_prefix tail w = (r, w')"
      using assms False by (simp add: read_state_split tail_def)
    have "hears (bind_ble read_prefix tail)"
      unfolding tail_def by (intro hears_bind hears_steps read_prefix_frame await_state_frame)
    from hearsD [OF this run] have "sent_by_node w' = sent_by_node w" by simp
    moreover from run read_prefix_frame(2) have "bw_written w' \<in> {bw_written w, bw_written w @ [provget tx]}"
    proof (cases rule: quiet_then)
      case (went mc w1)
      obtain w2 where notify: "start_notify 4 (Some tx) w1 = (Inr (), w2)" "bw_written w2 = bw_written w1"
        by (simp add: start_notify_def)
      obtain q w3 where wrote: "write_command (provget tx) w2 = (q, w3)" by fastforce
      have "bw_written w3 = bw_written w1 @ [provget tx]"
        using write_command_frame [OF wrote] notify by simp
      moreover have "w' = (case q of Inl _ \<Rightarrow> w3 | Inr _ \<Rightarrow> snd (await_state (fst mc) (snd mc) w3))"
        using went(2) notify wrote by (auto simp: tail_def bind_ble_def split: sum.splits)
      ultimately have "bw_written w' = bw_written w1 @ [provget tx]"
        using await_state_frame(2) [unfolded quiet_def] by (simp split: sum.splits)
      with went(4) show ?thesis by simp
    qed simp
    ultimately show ?thesis by simp
  qed
  then show "sent_by_node w' = sent_by_node w" "bw_written w' \<in> {bw_written w, bw_written w @ [provget tx]}" by auto
qed

lemma read_state_Inr:
  assumes "read_state locked tx w = (Inr st, w')"
  shows "answers_state w tx (readback_id st)" "dget (bs_readback st) ''id'' = JStr (readback_id st)"
proof -
  have "\<not> locked" using assms by (auto simp: read_state_def)
  then obtain mc w1 w2 w3 u where prefix: "read_prefix w = (Inr mc, w1)" and notify: "start_notify 4 (Some tx) w1 = (Inr (), w2)"
    and wrote: "write_command (provget tx) w2 = (Inr u, w3)" and await: "await_state (fst mc) (snd mc) w3 = (Inr st, w')"
    using assms by (auto simp: read_state_split bind_ble_Inr_iff)
  have w2: "own_queue tx w2" "bw_queue w2 = []" using notify by (auto simp: start_notify_def own_queue_def)
  have sent: "sent_by_node w3 = sent_by_node w" "list_all (sent_by_node w3) (bw_queue w3)"
    using hearsD [OF read_prefix_frame(1) prefix] hearsD [OF hears_steps(3) notify] hearsD [OF hears_steps(6) wrote] w2
    by simp_all
  note st = await_state_Inr [OF await own_queue_write [OF wrote w2(1)]]
  from st sent show "answers_state w tx (readback_id st)" unfolding answers_state_def by metis
  from st show "dget (bs_readback st) ''id'' = JStr (readback_id st)" by simp
qed

lemma reads_back_sent: "sent_by_node w' = sent_by_node w \<Longrightarrow> reads_back w' = reads_back w"
  by (simp add: reads_back_def fun_eq_iff)

section \<open>Commissioned nodes\<close>

text \<open>The early return of an existing registration cannot happen: a registration of this address that is not removed is refused first.\<close>

lemma commission_check_None:
  assumes "commission_check s b = Inr x"
  shows "x = None"
proof (rule ccontr)
  assume "x \<noteq> None"
  with assms obtain d where "get_device s (cq_node_id b) = Some d" "\<not> is_removed d"
    "rd_ble_address d = Some (cq_discovery_address b)" "get_by_ble_address s (cq_discovery_address b) = None"
    by (auto simp: commission_check_def split: option.splits if_splits)
  then show False
    using get_device_SomeD [of s "cq_node_id b" d] by (auto simp: get_by_ble_address_None_iff is_removed_def)
qed

lemma map_upd_rows_on:
  "(\<And>r. r \<in> set rows \<Longrightarrow> p r \<Longrightarrow> g (f r) = g r) \<Longrightarrow> map g (upd_rows p f rows) = map g rows"
  by (induction rows) auto

lemma device_update_identity:
  assumes "device_identity_ok s" "device_update_row s d f now = (r, s')"
    and "\<And>x. rd_id (f x) = rd_id x" "\<And>x. rd_archived (f x) = rd_archived x" "\<And>x. rd_ble_address (f x) = rd_ble_address x"
      "\<And>x. rd_hardware_id (f x) = rd_hardware_id x"
    and "get_device s (rd_device_id d) = Some d"
  shows "device_identity_ok s'"
proof (cases "s' = s")
  case False
  define e where "e = (f d)\<lparr>rd_updated_at := now\<rparr>"
  have same: "rd_device_id e = rd_device_id d" and s': "s' = upd_device s (rd_device_id d) (\<lambda>_. e)"
    using assms(2) False by (auto simp: device_update_row_def Let_def e_def split: if_splits)
  have d: "x = d" if "x \<in> set (registered_devices s)" "rd_device_id x = rd_device_id d" for x
  proof -
    have "get_device s (rd_device_id x) = Some x"
      using get_device_unique [OF _ that(1)] assms(1) unfolding device_identity_ok_def by blast
    then have "Some x = Some d" unfolding that(2) assms(7) by (rule sym)
    then show ?thesis by simp
  qed
  have e: "rd_id e = rd_id d" "rd_archived e = rd_archived d" "rd_ble_address e = rd_ble_address d"
    "rd_hardware_id e = rd_hardware_id d"
    by (simp_all add: e_def assms(3-6))
  have "device_identity_ok s' = device_identity_ok s"
    unfolding s' upd_device_def
  proof (rule device_identity_cong, simp, rule map_upd_rows_on)
    fix x
    assume "x \<in> set (registered_devices s)" "rd_device_id x = rd_device_id d"
    then have "x = d" by (rule d)
    then show "(rd_id e, rd_device_id e, rd_archived e, rd_ble_address e, rd_hardware_id e) =
      (rd_id x, rd_device_id x, rd_archived x, rd_ble_address x, rd_hardware_id x)" by (simp add: e same)
  qed
  with assms(1) show ?thesis by simp
qed (use assms(1) in simp)

lemma metadata_values_frame [simp]:
  "rd_id (metadata_values m t d) = rd_id d" "rd_archived (metadata_values m t d) = rd_archived d"
  "rd_ble_address (metadata_values m t d) = rd_ble_address d" "rd_hardware_id (metadata_values m t d) = rd_hardware_id d"
  "rd_device_id (metadata_values m t d) = rd_device_id d" "rd_lifecycle_state (metadata_values m t d) = rd_lifecycle_state d"
  by (simp_all add: metadata_values_def)

lemma find_row_replace:
  "find_row (\<lambda>r. key r = k) rows = Some d \<Longrightarrow> key e = k \<Longrightarrow>
     find_row (\<lambda>r. key r = k) (upd_rows (\<lambda>r. key r = k) (\<lambda>_. e) rows) = Some e"
  by (induction rows) (auto split: if_splits)

lemma created_row:
  assumes "device_identity_ok s" "device_create_row s f now = (Inr d, s')" "\<And>r. rd_id (f r) = rd_id r"
    "\<And>r. rd_archived (f r) = rd_archived r" "\<And>r. rd_ble_address (f r) = Some address" "get_by_ble_address s address = None"
  shows "device_identity_ok s'" "get_device s' (rd_device_id d) = Some d" "rd_ble_address d = Some address"
    "registered_devices s' = registered_devices s @ [d]"
proof -
  show address: "rd_ble_address d = Some address" using device_create_row_value [OF assms(2)] assms(5) by auto
  show "device_identity_ok s'"
    using device_create_preserves_identity [OF assms(1-4) address assms(6)] .
  show "registered_devices s' = registered_devices s @ [d]" using device_create_row_Inr [OF assms(2)] by simp
  then show "get_device s' (rd_device_id d) = Some d"
    using device_create_row_Inr [OF assms(2)] by (simp add: get_device_def find_row_append)
qed

text \<open>The update that follows a registration cannot fail: it changes nothing the trigger looks at.\<close>

lemma metadata_update:
  assumes "device_identity_ok s" "get_device s (rd_device_id d) = Some d"
    and "device_update_row s d (metadata_values m t) now = (r, s')"
  shows "device_identity_ok s'"
    and "\<exists>e. r = Inr e \<and> get_device s' (rd_device_id d) = Some e \<and> rd_device_id e = rd_device_id d
           \<and> rd_ble_address e = rd_ble_address d"
proof -
  show "device_identity_ok s'"
    by (rule device_update_identity [OF assms(1,3) _ _ _ _ assms(2)]) simp_all
  define e where "e = (metadata_values m t d)\<lparr>rd_updated_at := now\<rparr>"
  have "r = Inr e \<and> s' = upd_device s (rd_device_id d) (\<lambda>_. e)"
    using assms(3) by (simp add: device_update_row_def device_update_aborts_def e_def Let_def)
  moreover have "get_device (upd_device s (rd_device_id d) (\<lambda>_. e)) (rd_device_id d) = Some e"
    using assms(2) find_row_replace [of rd_device_id "rd_device_id d" "registered_devices s" d e]
    by (simp add: get_device_def upd_device_def e_def)
  ultimately show "\<exists>e. r = Inr e \<and> get_device s' (rd_device_id d) = Some e \<and> rd_device_id e = rd_device_id d
           \<and> rd_ble_address e = rd_ble_address d"
    by (auto simp: e_def)
qed

lemma commission_register_identity:
  assumes "commission_register env b found p now a = (r, a')" "device_identity_ok (cm_db a)"
  shows "device_identity_ok (cm_db a')"
    and "r = Inr d \<Longrightarrow> \<exists>stored. get_device (cm_db a') (cq_node_id b) = Some stored \<and> d = connecting stored
      \<and> rd_device_id stored = cq_node_id b \<and> rd_ble_address stored = Some (cq_discovery_address b)
      \<and> cm_calls a' = cm_calls a @ [ManagerSchedule (cq_node_id b) (cq_discovery_address b)]"
proof -
  let ?found = "found\<lparr>dc_stable_device_id := Some (cq_node_id b)\<rparr>"
  have "device_identity_ok (cm_db a') \<and> (\<forall>d. r = Inr d \<longrightarrow> (\<exists>stored. get_device (cm_db a') (cq_node_id b) = Some stored
      \<and> d = connecting stored \<and> rd_device_id stored = cq_node_id b \<and> rd_ble_address stored = Some (cq_discovery_address b)
      \<and> cm_calls a' = cm_calls a @ [ManagerSchedule (cq_node_id b) (cq_discovery_address b)]))"
  proof (cases "\<exists>create d s. commission_create b = Inr create \<and> device_register (ce_pattern env) (cm_db a) create ?found now = (Inr d, s)")
    case False
    then have "cm_db a' = cm_db a" "\<not> is_ok r"
      using assms(1) device_register_error [of "ce_pattern env" "cm_db a" _ ?found now]
      by (auto simp: commission_register_def bind_cm_def on_db_def lift_cm_def split: sum.splits prod.splits)
    with assms(2) show ?thesis by auto
  next
    case True
    then obtain create device s where create: "commission_create b = Inr create"
      and register: "device_register (ce_pattern env) (cm_db a) create ?found now = (Inr device, s)" by blast
    note facts = register_creates [OF register]
    have fields: "cr_device_id create = cq_node_id b" "cr_discovery_address create = cq_discovery_address b"
      using create by (auto simp: commission_create_def bind_result_Inr_iff split: sum.splits)
    have address: "dc_address found = cq_discovery_address b"
      using register fields by (auto simp: device_register_def split: if_splits)
    have id: "rd_device_id device = cq_node_id b"
      using device_create_row_value [OF facts(4)] fields by auto
    have row: "device_identity_ok s" "get_device s (rd_device_id device) = Some device"
      "rd_ble_address device = Some (cq_discovery_address b)"
      using created_row [OF assms(2) facts(4) _ _ _ facts(2)] address by simp_all
    show ?thesis
    proof (cases "columns_of env (pv_metadata p)")
      case (Inl e)
      with assms(1) create register row(1) show ?thesis
        by (auto simp: commission_register_def bind_cm_def on_db_def lift_cm_def)
    next
      case (Inr m)
      obtain q s' where update: "device_update_row s device (metadata_values m ''Provisioning readback verified'') now = (q, s')"
        by fastforce
      note updated = metadata_update [OF row(1,2) update]
      show ?thesis
        using assms(1) create register Inr update updated id row(3)
        by (auto simp: commission_register_def bind_cm_def on_db_def lift_cm_def schedule_cm_def call_manager_def)
    qed
  qed
  then show "device_identity_ok (cm_db a')"
    and "r = Inr d \<Longrightarrow> \<exists>stored. get_device (cm_db a') (cq_node_id b) = Some stored \<and> d = connecting stored
      \<and> rd_device_id stored = cq_node_id b \<and> rd_ble_address stored = Some (cq_discovery_address b)
      \<and> cm_calls a' = cm_calls a @ [ManagerSchedule (cq_node_id b) (cq_discovery_address b)]"
    by blast+
qed

text \<open>Computations that keep the registered identities unique, whatever other requests do that keep them unique themselves.\<close>

definition keeps_identity :: "'a cm \<Rightarrow> bool" where
  "keeps_identity m = (\<forall>a. device_identity_ok (cm_db a) \<longrightarrow> device_identity_ok (cm_db (snd (m a))))"

lemma keeps_identityD: "keeps_identity m \<Longrightarrow> m a = (r, a') \<Longrightarrow> device_identity_ok (cm_db a) \<Longrightarrow> device_identity_ok (cm_db a')"
  unfolding keeps_identity_def by (metis snd_conv)

lemma keeps_bind [intro]: "keeps_identity m \<Longrightarrow> (\<And>x. keeps_identity (f x)) \<Longrightarrow> keeps_identity (bind_cm m f)"
  unfolding keeps_identity_def bind_cm_def by (auto split: prod.splits sum.splits)

lemma keeps_steps [intro]:
  "keeps_identity (lift_cm x)" "keeps_identity (guard_cm bad e)" "keeps_identity (read_db f)" "keeps_identity (look_up_cm address clock)"
  "keeps_identity (call_manager c)"
  by (auto simp: keeps_identity_def lift_cm_def guard_cm_def read_db_def look_up_cm_def call_manager_def split: prod.splits)

lemma keeps_except [intro]: "keeps_identity m \<Longrightarrow> keeps_identity (except_ble f m)"
  by (simp add: keeps_identity_def except_ble_state)

lemma keeps_waits [intro]:
  assumes "\<And>n s. device_identity_ok s \<Longrightarrow> device_identity_ok (ce_meanwhile env n s)"
  shows "keeps_identity (on_ble env address m)" "keeps_identity (remove_cm env node_id)"
  using assms by (auto simp: keeps_identity_def on_ble_def remove_cm_def split: prod.splits)

lemma keeps_register [intro]: "keeps_identity (commission_register env b found p now)"
  unfolding keeps_identity_def using commission_register_identity(1) by (metis surjective_pairing)

lemma commission_node_keeps:
  assumes "\<And>n s. device_identity_ok s \<Longrightarrow> device_identity_ok (ce_meanwhile env n s)"
  shows "keeps_identity (commission_node env b tx clock now)"
proof -
  have "keeps_identity (commission_provision env b found tx now)" for found
    unfolding commission_provision_def Let_def using assms
    by (auto intro!: keeps_bind keeps_except keeps_waits keeps_steps keeps_register split: if_split)
  then show ?thesis
    unfolding commission_node_def by (auto intro!: keeps_bind keeps_steps split: option.split if_split)
qed

lemma commission_provision_Inr:
  assumes "commission_provision env b found tx now a = (Inr d, a')"
    and "device_identity_ok (cm_db a)" "\<And>n s. device_identity_ok s \<Longrightarrow> device_identity_ok (ce_meanwhile env n s)"
  defines "w \<equiv> cm_world a (cq_discovery_address b)"
  shows "(\<exists>node_id. answers_state w tx node_id \<and> node_id \<noteq> ''UNASSIGNED-MG24'' \<and> rd_device_id d = node_id
         \<and> get_by_ble_address (cm_db a') (cq_discovery_address b) = Some d \<and> cm_calls a' = cm_calls a)
      \<or> (answers_state w tx ''UNASSIGNED-MG24''
         \<and> (\<exists>readback. reads_back w (cq_node_id b) (cq_idempotency_key b) (cq_configuration b) readback)
         \<and> (\<exists>stored. get_device (cm_db a') (cq_node_id b) = Some stored \<and> d = connecting stored
              \<and> rd_device_id stored = cq_node_id b \<and> rd_ble_address stored = Some (cq_discovery_address b))
         \<and> cm_calls a' = cm_calls a @ [ManagerSchedule (cq_node_id b) (cq_discovery_address b)])"
proof -
  let ?address = "cq_discovery_address b"
  obtain st a1 where read: "on_ble env ?address (read_state (ce_locked env ?address) tx) a = (Inr st, a1)"
    and rest: "(if readback_id st \<noteq> ''UNASSIGNED-MG24''
        then bind_cm (read_db (\<lambda>s. commission_assigned s b (readback_id st))) lift_cm
        else bind_cm (except_ble (\<lambda>e. HTTPException 409 '''' (exn_str e))
          (on_ble env ?address (Ble_Provisioning.provision (ce_patience env) (ce_locked env ?address) (cq_node_id b)
             (cq_idempotency_key b) (cq_configuration b) None))) (\<lambda>p. commission_register env b found p now)) a1 = (Inr d, a')"
    using assms(1) by (auto simp: commission_provision_def Let_def bind_cm_Inr_iff)
  note read_facts = on_bleD [OF read]
  have state: "answers_state w tx (readback_id st)" using read_state_Inr(1) [OF read_facts(1)] by (simp add: w_def)
  show ?thesis
  proof (cases "readback_id st = ''UNASSIGNED-MG24''")
    case False
    then have "commission_assigned (cm_db a1) b (readback_id st) = Inr d" "a' = a1"
      using rest by (auto simp: bind_cm_Inr_iff)
    with False state read_facts(3) show ?thesis
      by (auto simp: commission_assigned_def split: option.splits if_splits)
  next
    case True
    obtain p a2 where provision: "on_ble env ?address (Ble_Provisioning.provision (ce_patience env) (ce_locked env ?address) (cq_node_id b)
             (cq_idempotency_key b) (cq_configuration b) None) a1 = (Inr p, a2)"
      and register: "commission_register env b found p now a2 = (Inr d, a')"
      using rest True by (auto simp: bind_cm_Inr_iff)
    note facts = on_bleD [OF provision]
    have "reads_back w (cq_node_id b) (cq_idempotency_key b) (cq_configuration b) (pv_readback p)"
      using provision_Inr [OF facts(1)] reads_back_sent [OF read_state_frame(1) [OF read_facts(1)]] by (simp add: w_def)
    moreover have "device_identity_ok (cm_db a2)" using assms(2,3) read_facts(5) facts(5) by simp
    from commission_register_identity(2) [OF register this refl] have
      "\<exists>stored. get_device (cm_db a') (cq_node_id b) = Some stored \<and> d = connecting stored
        \<and> rd_device_id stored = cq_node_id b \<and> rd_ble_address stored = Some (cq_discovery_address b)
        \<and> cm_calls a' = cm_calls a @ [ManagerSchedule (cq_node_id b) (cq_discovery_address b)]"
      using facts(3) read_facts(3) by simp
    ultimately show ?thesis using state True by auto
  qed
qed

lemma commissioned_node_verified_facts:
  assumes "commission_node env b tx clock now a = (r, a')"
    and "device_identity_ok (cm_db a)" "\<And>n s. device_identity_ok s \<Longrightarrow> device_identity_ok (ce_meanwhile env n s)"
  defines "w \<equiv> cm_world a (cq_discovery_address b)"
  shows "device_identity_ok (cm_db a')"
    and "r = Inr d \<Longrightarrow>
      (\<exists>node_id. answers_state w tx node_id \<and> node_id \<noteq> ''UNASSIGNED-MG24'' \<and> rd_device_id d = node_id
         \<and> get_by_ble_address (cm_db a') (cq_discovery_address b) = Some d \<and> cm_calls a' = cm_calls a)
      \<or> (answers_state w tx ''UNASSIGNED-MG24''
         \<and> (\<exists>readback. reads_back w (cq_node_id b) (cq_idempotency_key b) (cq_configuration b) readback)
         \<and> (\<exists>stored. get_device (cm_db a') (cq_node_id b) = Some stored \<and> d = connecting stored
              \<and> rd_device_id stored = cq_node_id b \<and> rd_ble_address stored = Some (cq_discovery_address b))
         \<and> cm_calls a' = cm_calls a @ [ManagerSchedule (cq_node_id b) (cq_discovery_address b)])"
proof -
  show "device_identity_ok (cm_db a')"
    using keeps_identityD [OF commission_node_keeps assms(1,2)] assms(3) by blast
  assume "r = Inr d"
  then obtain found a1 where look: "look_up_cm (cq_discovery_address b) clock a = (Inr (Some found), a1)"
    and run: "commission_provision env b found tx now a1 = (Inr d, a')"
    using assms(1) unfolding commission_node_def
    by (auto simp: bind_cm_Inr_iff split: option.splits if_splits dest!: commission_check_None)
  note frame = look_up_cmD [OF look]
  from commission_provision_Inr [OF run] assms(2,3) frame show
    "(\<exists>node_id. answers_state w tx node_id \<and> node_id \<noteq> ''UNASSIGNED-MG24'' \<and> rd_device_id d = node_id
         \<and> get_by_ble_address (cm_db a') (cq_discovery_address b) = Some d \<and> cm_calls a' = cm_calls a)
      \<or> (answers_state w tx ''UNASSIGNED-MG24''
         \<and> (\<exists>readback. reads_back w (cq_node_id b) (cq_idempotency_key b) (cq_configuration b) readback)
         \<and> (\<exists>stored. get_device (cm_db a') (cq_node_id b) = Some stored \<and> d = connecting stored
              \<and> rd_device_id stored = cq_node_id b \<and> rd_ble_address stored = Some (cq_discovery_address b))
         \<and> cm_calls a' = cm_calls a @ [ManagerSchedule (cq_node_id b) (cq_discovery_address b)])"
    unfolding w_def by simp
qed


section \<open>Imported nodes\<close>

lemma import_values_frame [simp]:
  "rd_id (import_values b found node_id m d) = rd_id d" "rd_archived (import_values b found node_id m d) = rd_archived d"
  "rd_ble_address (import_values b found node_id m d) = Some (iq_discovery_address b)"
  "rd_device_id (import_values b found node_id m d) = node_id"
  "rd_lifecycle_state (import_values b found node_id m d) = rd_lifecycle_state d"
  by (simp_all add: import_values_def)

lemma import_device_frame:
  assumes "import_device env b found st now a = (r, a')" "device_identity_ok (cm_db a)"
  shows "device_identity_ok (cm_db a')" "cm_world a' = cm_world a" "cm_calls a' = cm_calls a"
    and "r = Inr d \<Longrightarrow> get_device (cm_db a') (readback_id st) = Some d \<and> rd_device_id d = readback_id st
      \<and> rd_ble_address d = Some (iq_discovery_address b) \<and> \<not> is_removed d"
proof -
  have "device_identity_ok (cm_db a') \<and> cm_world a' = cm_world a \<and> cm_calls a' = cm_calls a \<and>
    (\<forall>d. r = Inr d \<longrightarrow> get_device (cm_db a') (readback_id st) = Some d \<and> rd_device_id d = readback_id st
      \<and> rd_ble_address d = Some (iq_discovery_address b) \<and> \<not> is_removed d)"
  proof (cases "get_device (cm_db a) (readback_id st)")
    case (Some existing)
    with assms get_device_SomeD [OF Some] show ?thesis by (auto simp: import_device_def split: if_splits)
  next
    case None
    show ?thesis
    proof (cases "get_by_ble_address (cm_db a) (iq_discovery_address b)")
      case (Some d)
      with None assms show ?thesis by (auto simp: import_device_def)
    next
      case free: None
      have run: "import_create env b found st now a = (r, a')" using assms(1) None free by (simp add: import_device_def)
      show ?thesis
      proof (cases "bind_result (as_object (bs_metadata st)) (columns_of env)")
        case (Inl e)
        with run assms(2) show ?thesis
          by (auto simp: import_create_def bind_cm_def lift_cm_def bind_result_Inl_iff split: sum.splits)
      next
        case (Inr m)
        define f where "f = import_values b found (readback_id st) m"
        obtain q s where row: "device_create_row (cm_db a) f now = (q, s)" by fastforce
        have a': "a' = a\<lparr>cm_db := s\<rparr>" "r = q"
          using run Inr row by (auto simp: import_create_def bind_cm_def lift_cm_def on_db_def bind_result_Inr_iff f_def)
        show ?thesis
        proof (cases q)
          case (Inl e)
          then have "s = cm_db a" using row by (auto simp: device_create_row_def Let_def split: if_splits)
          with a' Inl assms(2) show ?thesis by simp
        next
          case new: (Inr d)
          have made: "device_create_row (cm_db a) f now = (Inr d, s)" using row new by simp
          obtain i where d: "d = f (device_defaults i now)" using device_create_row_value [OF made] by blast
          note facts = created_row [OF assms(2) made _ _ _ free]
          show ?thesis
            using facts a' new d by (simp add: f_def is_removed_def device_defaults_def)
        qed
      qed
    qed
  qed
  then show "device_identity_ok (cm_db a')" "cm_world a' = cm_world a" "cm_calls a' = cm_calls a"
    and "r = Inr d \<Longrightarrow> get_device (cm_db a') (readback_id st) = Some d \<and> rd_device_id d = readback_id st
      \<and> rd_ble_address d = Some (iq_discovery_address b) \<and> \<not> is_removed d"
    by auto
qed

lemma schedule_cmD:
  assumes "schedule_cm d a = (r, a')"
  shows "r = Inr (connecting d)" "cm_db a' = cm_db a" "cm_world a' = cm_world a"
    "rd_ble_address d = Some address \<Longrightarrow> cm_calls a' = cm_calls a @ [ManagerSchedule (rd_device_id d) address]"
  using assms by (auto simp: schedule_cm_def bind_cm_def call_manager_def lift_cm_def)

lemma import_cases:
  assumes "import_assigned_node env b tx clock now a = (r, a')"
  obtains (early) e where "r = Inl e" "cm_db a' = cm_db a" "cm_world a' = cm_world a"
  | (unread) q a1 e where "on_ble env (iq_discovery_address b) (read_state (ce_locked env (iq_discovery_address b)) tx)
        (a\<lparr>cm_scanner := cm_scanner a1\<rparr>) = (q, a1)" "r = Inl e" "a' = a1"
  | (refused) st a1 found e where "on_ble env (iq_discovery_address b) (read_state (ce_locked env (iq_discovery_address b)) tx)
        (a\<lparr>cm_scanner := cm_scanner a1\<rparr>) = (Inr st, a1)" "import_device env b found st now a1 = (Inl e, a')" "r = Inl e"
  | (imported) st a1 found d a2 where "on_ble env (iq_discovery_address b) (read_state (ce_locked env (iq_discovery_address b)) tx)
        (a\<lparr>cm_scanner := cm_scanner a1\<rparr>) = (Inr st, a1)" "readback_id st \<noteq> ''UNASSIGNED-MG24''"
      "import_device env b found st now a1 = (Inr d, a2)" "schedule_cm d a2 = (r, a')"
proof -
  obtain x sc where "get_discovery (cm_scanner a) (iq_discovery_address b) clock = (x, sc)" by fastforce
  then have look: "look_up_cm (iq_discovery_address b) clock a = (Inr x, a\<lparr>cm_scanner := sc\<rparr>)"
    by (simp add: look_up_cm_def)
  show thesis
  proof (cases "import_request_valid b \<and> (\<exists>found. x = Some found \<and> dc_compatible found)")
    case False
    then show thesis using assms look early
      by (cases x) (auto simp: import_assigned_node_def bind_cm_def lift_cm_def guard_cm_def split: if_splits)
  next
    case True
    then obtain found where x: "x = Some found" "dc_compatible found" "import_request_valid b" by blast
    obtain q a1 where read: "on_ble env (iq_discovery_address b) (read_state (ce_locked env (iq_discovery_address b)) tx)
        (a\<lparr>cm_scanner := sc\<rparr>) = (q, a1)" by fastforce
    have "cm_scanner a1 = sc" using on_bleD(2) [OF read] by simp
    note read' = read [folded this]
    show thesis
    proof (cases q)
      case (Inl e)
      have "is_ok r = False \<and> a' = a1"
        using assms look x read Inl by (auto simp: import_assigned_node_def bind_cm_def lift_cm_def guard_cm_def except_ble_def)
      then show thesis using unread [OF read'] by (cases r) auto
    next
      case (Inr st)
      show thesis
      proof (cases "readback_id st = ''UNASSIGNED-MG24''")
        case True
        then have "\<exists>e. r = Inl e" "a' = a1" using assms look x read Inr
          by (auto simp: import_assigned_node_def bind_cm_def lift_cm_def guard_cm_def except_ble_def)
        then show thesis using unread [OF read'] by blast
      next
        case False
        obtain q' a2 where device: "import_device env b found st now a1 = (q', a2)" by fastforce
        show thesis
        proof (cases q')
          case (Inl e)
          then have "r = Inl e" "a' = a2" using assms look x read Inr False device
            by (auto simp: import_assigned_node_def bind_cm_def lift_cm_def guard_cm_def except_ble_def)
          with refused [OF read' [unfolded Inr]] device Inl show thesis by blast
        next
          case some: (Inr d)
          then have "schedule_cm d a2 = (r, a')" using assms look x read Inr False device
            by (auto simp: import_assigned_node_def bind_cm_def lift_cm_def guard_cm_def except_ble_def)
          with imported [OF read' [unfolded Inr] False] device some show thesis by blast
        qed
      qed
    qed
  qed
qed

text \<open>An import only reads: whatever its outcome, the request for the state is all that is written to the node, and no other node is
  touched. When it succeeds, the node itself named the identifier under which its address is now registered, the
  registration is not a removed one, and its connection is scheduled; identifiers, active addresses and active hardware identities stay
  unique.
\<close>

theorem import_reads_only:
  assumes "import_assigned_node env b tx clock now a = (r, a')"
    and "device_identity_ok (cm_db a)" "\<And>n s. device_identity_ok s \<Longrightarrow> device_identity_ok (ce_meanwhile env n s)"
  defines "address \<equiv> iq_discovery_address b"
  shows "bw_written (cm_world a' address) \<in> {bw_written (cm_world a address), bw_written (cm_world a address) @ [provget tx]}"
    and "x \<noteq> address \<Longrightarrow> cm_world a' x = cm_world a x"
    and "device_identity_ok (cm_db a')"
    and "r = Inr d \<Longrightarrow> answers_state (cm_world a address) tx (rd_device_id d) \<and> rd_device_id d \<noteq> ''UNASSIGNED-MG24''
      \<and> (\<exists>stored. get_device (cm_db a') (rd_device_id d) = Some stored \<and> d = connecting stored \<and> \<not> is_removed stored
           \<and> rd_ble_address stored = Some address)
      \<and> cm_calls a' = cm_calls a @ [ManagerSchedule (rd_device_id d) address]"
proof -
  have "bw_written (cm_world a' address) \<in> {bw_written (cm_world a address), bw_written (cm_world a address) @ [provget tx]}
    \<and> (\<forall>x. x \<noteq> address \<longrightarrow> cm_world a' x = cm_world a x) \<and> device_identity_ok (cm_db a')
    \<and> (\<forall>d. r = Inr d \<longrightarrow> answers_state (cm_world a address) tx (rd_device_id d) \<and> rd_device_id d \<noteq> ''UNASSIGNED-MG24''
      \<and> (\<exists>stored. get_device (cm_db a') (rd_device_id d) = Some stored \<and> d = connecting stored \<and> \<not> is_removed stored
           \<and> rd_ble_address stored = Some address)
      \<and> cm_calls a' = cm_calls a @ [ManagerSchedule (rd_device_id d) address])"
    using assms(1)
  proof (cases rule: import_cases)
    case (early e)
    with assms(2) show ?thesis by simp
  next
    case (unread q a1 e)
    note read = on_bleD [OF unread(1)] read_state_frame [OF on_bleD(1) [OF unread(1)]]
    with unread(2,3) assms(2,3) show ?thesis by (simp add: address_def)
  next
    case (refused st a1 found e)
    note read = on_bleD [OF refused(1)] read_state_frame [OF on_bleD(1) [OF refused(1)]]
    have "device_identity_ok (cm_db a1)" using read(5) assms(2,3) by simp
    note frame = import_device_frame(1-3) [OF refused(2) this]
    with read refused(3) show ?thesis by (simp add: address_def)
  next
    case (imported st a1 found d a2)
    note read = on_bleD [OF imported(1)] read_state_frame [OF on_bleD(1) [OF imported(1)]]
    have "device_identity_ok (cm_db a1)" using read(5) assms(2,3) by simp
    note frame = import_device_frame(1-3) [OF imported(3) this] import_device_frame(4) [OF imported(3) this refl]
    note sched = schedule_cmD(1-3) [OF imported(4)] schedule_cmD(4) [OF imported(4), of address]
    have "answers_state (cm_world a address) tx (readback_id st)"
      using read_state_Inr(1) [OF read(1)] by (simp add: address_def)
    with read frame sched imported(2) show ?thesis by (auto simp: address_def connecting_def)
  qed
  then show "bw_written (cm_world a' address) \<in> {bw_written (cm_world a address), bw_written (cm_world a address) @ [provget tx]}"
    and "x \<noteq> address \<Longrightarrow> cm_world a' x = cm_world a x"
    and "device_identity_ok (cm_db a')"
    and "r = Inr d \<Longrightarrow> answers_state (cm_world a address) tx (rd_device_id d) \<and> rd_device_id d \<noteq> ''UNASSIGNED-MG24''
      \<and> (\<exists>stored. get_device (cm_db a') (rd_device_id d) = Some stored \<and> d = connecting stored \<and> \<not> is_removed stored
           \<and> rd_ble_address stored = Some address)
      \<and> cm_calls a' = cm_calls a @ [ManagerSchedule (rd_device_id d) address]"
    by blast+
qed

section \<open>A sample node\<close>

definition cs_answers :: "string \<Rightarrow> (string \<times> json) list" where
  "cs_answers i = [
     (''M'', JObj [(''protocol_version'', JStr ''1.1.0''), (''node_id'', JStr ''UNASSIGNED-MG24'')]),
     (''C'', JObj [(''configuration'', JObj [(''readback'', JBool True)])]),
     (''S'', JObj [(''t'', JStr ''ca''), (''tx'', JStr ''T''), (''code'', JStr ''readback''), (''id'', JStr i)]),
     (''A'', JObj [(''t'', JStr ''ca''), (''tx'', JStr ''0000111122223333''), (''code'', JStr ''provisioned'')]),
     (''R'', JObj [(''t'', JStr ''ca''), (''tx'', JStr ''0000111122223333''), (''code'', JStr ''readback''), (''id'', JStr ''N-1''),
        (''sample'', JInt 100), (''process'', JInt 100), (''report'', JInt 100), (''heartbeat'', JInt 30000), (''filter'', JInt 0),
        (''window'', JInt 1), (''enabled'', JInt 1)])]"

definition cs_arrive :: "nat \<Rightarrow> string list" where
  "cs_arrive k = (if k = 3 then [''S''] else if k = 7 then [''A''] else if k = 8 then [''R''] else [])"

definition cs_at :: "string \<Rightarrow> nat \<Rightarrow> (nat \<times> string option) option \<Rightarrow> dict list \<Rightarrow> string list \<Rightarrow> ble_world" where
  "cs_at i k sub q wr = \<lparr>bw_loads = map_of (cs_answers i), bw_str = (\<lambda>_. ''''), bw_open = (\<lambda>_. Inr ()),
     bw_read = (\<lambda>k uuid. Inr (if uuid = ''metadata'' then ''M'' else ''C'')), bw_write = (\<lambda>_. Inr ()), bw_arrive = cs_arrive,
     bw_clock = k, bw_subscription = sub, bw_queue = q, bw_written = wr\<rparr>"

definition cs_obj :: "string \<Rightarrow> string \<Rightarrow> dict" where
  "cs_obj i raw = object_of (map_of (cs_answers i) raw)"

lemma cs_fields [simp]:
  "bw_clock (cs_at i k sub q wr) = k" "bw_queue (cs_at i k sub q wr) = q" "bw_written (cs_at i k sub q wr) = wr"
  "bw_loads (cs_at i k sub q wr) = map_of (cs_answers i)" "bw_open (cs_at i k sub q wr) n = Inr ()"
  "bw_write (cs_at i k sub q wr) n = Inr ()" "bw_subscription (cs_at i k sub q wr) = sub"
  "bw_read (cs_at i k sub q wr) n uuid = Inr (if uuid = ''metadata'' then ''M'' else ''C'')"
  "cs_at i k sub q wr\<lparr>bw_queue := q'\<rparr> = cs_at i k sub q' wr" "cs_at i k sub q wr\<lparr>bw_subscription := sub'\<rparr> = cs_at i k sub' q wr"
  "cs_at i k sub q wr\<lparr>bw_written := wr'\<rparr> = cs_at i k sub q wr'"
  by (simp_all add: cs_at_def)

lemma cs_tick:
  "k \<noteq> 3 \<Longrightarrow> k \<noteq> 7 \<Longrightarrow> k \<noteq> 8 \<Longrightarrow> ble_tick (cs_at i k sub q wr) = cs_at i (Suc k) sub q wr"
  "ble_tick (cs_at i 3 (Some (4, Some ''T'')) [] wr) = cs_at i 4 (Some (4, Some ''T'')) [cs_obj i ''S''] wr"
  "ble_tick (cs_at i 7 (Some (16, None)) [] wr) = cs_at i 8 (Some (16, None)) [cs_obj i ''A''] wr"
  "ble_tick (cs_at i 8 (Some (16, None)) [] wr) = cs_at i 9 (Some (16, None)) [cs_obj i ''R''] wr"
  by (simp_all add: ble_tick_def cs_at_def cs_arrive_def notified_def cs_answers_def cs_obj_def dget_def)

lemma cs_steps:
  "k \<notin> {3, 7, 8} \<Longrightarrow> open_ble (cs_at i k sub q wr) = (Inr (), cs_at i (Suc k) sub q wr)"
  "k \<notin> {3, 7, 8} \<Longrightarrow> read_json id ''metadata'' (cs_at i k sub q wr) = (Inr (JObj (cs_obj i ''M'')), cs_at i (Suc k) sub q wr)"
  "k \<notin> {3, 7, 8} \<Longrightarrow> read_json id ''capabilities'' (cs_at i k sub q wr) = (Inr (JObj (cs_obj i ''C'')), cs_at i (Suc k) sub q wr)"
  "k \<notin> {3, 7, 8} \<Longrightarrow> read_json strip_nul ''metadata'' (cs_at i k sub q wr) = (Inr (JObj (cs_obj i ''M'')), cs_at i (Suc k) sub q wr)"
  "k \<notin> {3, 7, 8} \<Longrightarrow> read_json strip_nul ''capabilities'' (cs_at i k sub q wr) = (Inr (JObj (cs_obj i ''C'')), cs_at i (Suc k) sub q wr)"
  by (simp_all add: open_ble_def cs_tick read_json_def bind_ble_def read_gatt_def cs_obj_def strip_nul_def rstrip_nul_def)
    (simp_all add: cs_answers_def)

definition cs_state :: "string \<Rightarrow> ble_state" where
  "cs_state i = \<lparr>bs_metadata = JObj (cs_obj i ''M''), bs_capabilities = JObj (cs_obj i ''C''), bs_readback = cs_obj i ''S''\<rparr>"

lemma cs_objects:
  "dget (cs_obj i ''S'') ''code'' = JStr ''readback''" "dget (cs_obj i ''S'') ''id'' = JStr i"
  "dget (cs_obj i ''M'') ''node_id'' = JStr ''UNASSIGNED-MG24''"
  "node_supported (JObj (cs_obj i ''M'')) (JObj (cs_obj i ''C'')) = Inr (cs_obj i ''M'', cs_obj i ''C'')"
  by (simp_all add: cs_obj_def cs_answers_def dget_def node_supported_def in_str_set_def dget_default_def)

lemma cs_read_state:
  "read_state False ''T'' (cs_at i 0 None [] []) = (Inr (cs_state i), cs_at i 4 None [] [provget ''T''])"
proof -
  have prefix: "read_prefix (cs_at i 0 None [] []) = (Inr (JObj (cs_obj i ''M''), JObj (cs_obj i ''C'')), cs_at i 3 None [] [])"
    by (simp add: read_prefix_def bind_ble_def cs_steps lift_ble_def numeral_3_eq_3 numeral_2_eq_2)
  have "await_state m c (cs_at i 4 (Some (4, Some ''T'')) [cs_obj i ''S''] wr) =
      (Inr \<lparr>bs_metadata = m, bs_capabilities = c, bs_readback = cs_obj i ''S''\<rparr>, cs_at i 4 None [] wr)" for m c wr
    by (simp add: await_state_def bind_ble_def stop_notify_def lift_ble_def cs_objects)
  then show ?thesis
    by (simp add: read_state_split bind_ble_def prefix start_notify_def write_command_def cs_tick cs_state_def)
qed

lemma cs_waits:
  "wait_for 3 ''0000111122223333'' [''provisioned'', ''already_committed''] (cs_at i k sub [cs_obj i ''A''] wr)
     = (Inr (cs_obj i ''A''), cs_at i k sub [] wr)"
  "wait_for 3 ''0000111122223333'' [''readback''] (cs_at i k sub [cs_obj i ''R''] wr) = (Inr (cs_obj i ''R''), cs_at i k sub [] wr)"
  by (simp_all add: numeral_3_eq_3 cs_obj_def cs_answers_def dget_def in_str_set_def)

lemma cs_provision:
  "\<exists>p w. Ble_Provisioning.provision 3 False ''N-1'' ''0000111122223333'' default_installation_configuration None
     (cs_at i 4 None [] wr) = (Inr p, w) \<and> pv_metadata p = cs_obj i ''M''"
proof -
  have upper: "map ascii_upper_char ''0000111122223333'' = ''0000111122223333''"
    by (simp add: ascii_upper_char_def)
  have names: "node_id_text ''N-1''" "transaction_pattern ''0000111122223333''"
    by (simp_all add: node_id_text_def is_upper_digit_def transaction_pattern_def is_lower_hex_def is_digit_def)
  have prepared: "prepare_node None (cs_at i 4 None [] wr) = (Inr (cs_obj i ''M'', cs_obj i ''C''), cs_at i 7 (Some (16, None)) [] wr)"
    by (simp add: prepare_node_def bind_ble_def expect_onboarding_def cs_steps cs_objects(4) lift_ble_def start_notify_def)
  have "provision_checked ''N-1'' [100, 100, 100, 30000, 0, 1, 1]
     \<lparr>pv_acknowledgement = a, pv_readback = cs_obj i ''R'', pv_metadata = m, pv_capabilities = c, pv_onboarding_after = None\<rparr> =
     Inr \<lparr>pv_acknowledgement = a, pv_readback = cs_obj i ''R'', pv_metadata = m, pv_capabilities = c, pv_onboarding_after = None\<rparr>" for a m c
    by (simp add: provision_checked_def readback_matches_def value_names_def cs_obj_def cs_answers_def dget_def)
  then show ?thesis
    using sample_command_short names upper
    by (simp add: Ble_Provisioning.provision_def provision_exchange_def bind_ble_def lift_ble_def sample_values Let_def prepared
        assign_identity_def cs_objects(3) write_command_def cs_tick cs_waits onboarding_after_def stop_notify_def del: spaced.simps)
qed

fun text_column :: "json \<Rightarrow> string option result" where
  "text_column JNull = Inr None"
| "text_column (JStr s) = Inr (Some s)"
| "text_column _ = Inl (TypeError ''type is not supported'')"

fun int_column :: "json \<Rightarrow> int option result" where
  "int_column JNull = Inr None"
| "int_column (JInt n) = Inr (Some n)"
| "int_column _ = Inl (TypeError ''type is not supported'')"

definition cs_env :: cm_env where
  "cs_env = \<lparr>ce_pattern = default_device_id_pattern, ce_locked = (\<lambda>_. False), ce_patience = 3, ce_text = text_column,
     ce_int = int_column, ce_isoformat = (\<lambda>_. ''''), ce_meanwhile = (\<lambda>_ s. s)\<rparr>"

definition cs_discovery :: discovery where
  "cs_discovery = \<lparr>dc_address = ''AA:BB'', dc_name = Some ''XIAO'', dc_rssi = None, dc_service_uuids = [], dc_compatible = True,
     dc_compatibility_reason = '''', dc_stable_device_id = None, dc_temporary_id = None, dc_last_seen_at = 0\<rparr>"

definition cs_app :: "string \<Rightarrow> cm_app" where
  "cs_app i = \<lparr>cm_db = empty_db, cm_scanner = record_discovery (new_scanner 30) cs_discovery 0, cm_world = (\<lambda>_. cs_at i 0 None [] []),
     cm_calls = [], cm_results = [], cm_waits = 0\<rparr>"

definition cs_request :: commission_request where
  "cs_request = \<lparr>cq_discovery_address = ''AA:BB'', cq_node_id = ''N-1'', cq_display_name = ''Pump'', cq_location = None,
     cq_configuration = default_installation_configuration, cq_idempotency_key = ''0000111122223333''\<rparr>"

lemma cs_identity: "device_identity_ok (cm_db (cs_app i))"
  by (simp add: cs_app_def empty_db_def device_identity_ok_def active_hardware_unique_def active_address_unique_def active_unique_def)

lemma cs_request_valid: "commission_request_valid cs_request"
  by (simp add: commission_request_valid_def cs_request_def len_between_def node_id_text_def is_upper_digit_def opt_len_between_def
      installation_configuration_valid_def default_installation_configuration_def int_between_def filter_types_def
      transaction_pattern_def is_lower_hex_def is_digit_def)

lemma cs_look_up: "\<exists>sc. look_up_cm ''AA:BB'' 1 (cs_app i) = (Inr (Some cs_discovery), cs_app i\<lparr>cm_scanner := sc\<rparr>)"
  by (simp add: look_up_cm_def get_discovery_def cs_app_def record_discovery_def new_scanner_def expire_def Let_def cs_discovery_def)

lemma cs_registers:
  assumes "cm_db a = empty_db" "pv_metadata p = cs_obj i ''M''"
  shows "is_ok (fst (commission_register cs_env cs_request cs_discovery p 5 a))"
proof -
  have "commission_create cs_request = Inr \<lparr>cr_device_id = ''N-1'', cr_display_name = ''Pump'', cr_discovery_address = ''AA:BB'',
      cr_device_type = ''xiao_mg24_sense'', cr_location = None, cr_description = None, cr_allow_incompatible = False\<rparr>"
    by (simp add: commission_create_def cs_request_def not_blank_def py_strip_def is_space_def Let_def)
  moreover have "\<exists>m. columns_of cs_env (cs_obj i ''M'') = Inr m"
    by (simp add: columns_of_def cs_env_def cs_obj_def cs_answers_def dget_def)
  ultimately show ?thesis
    using assms
    by (auto simp: commission_register_def bind_cm_def lift_cm_def on_db_def device_register_def device_create_row_def get_device_def
        get_by_ble_address_def empty_db_def hardware_trigger_fires_def cs_request_def cs_discovery_def cs_env_def Let_def
        default_device_id_pattern_def is_upper_digit_def device_update_row_def metadata_values_frame device_update_aborts_def
        schedule_cm_def call_manager_def)
qed

lemma cs_commissioned: "is_ok (fst (commission_node cs_env cs_request ''T'' 1 5 (cs_app ''UNASSIGNED-MG24'')))"
proof -
  let ?i = "''UNASSIGNED-MG24''"
  obtain sc where look: "look_up_cm ''AA:BB'' 1 (cs_app ?i) = (Inr (Some cs_discovery), cs_app ?i\<lparr>cm_scanner := sc\<rparr>)"
    using cs_look_up by blast
  obtain p w where provision: "Ble_Provisioning.provision 3 False ''N-1'' ''0000111122223333'' default_installation_configuration None
     (cs_at ?i 4 None [] [provget ''T'']) = (Inr p, w)" "pv_metadata p = cs_obj ?i ''M''"
    using cs_provision by blast
  have fields: "cq_discovery_address cs_request = ''AA:BB''" "cq_node_id cs_request = ''N-1''"
    "cq_configuration cs_request = default_installation_configuration" "cq_idempotency_key cs_request = ''0000111122223333''"
    "ce_locked cs_env x = False" "ce_patience cs_env = 3" "ce_meanwhile cs_env n s = s" for x n s
    by (simp_all add: cs_request_def cs_env_def)
  have app: "cm_db (cs_app ?i) = empty_db" "cm_world (cs_app ?i) x = cs_at ?i 0 None [] []" for x by (simp_all add: cs_app_def)
  have check: "commission_check empty_db cs_request = Inr None"
    by (simp add: commission_check_def get_by_ble_address_def get_device_def empty_db_def)
  have "readback_id (cs_state ?i) = ?i" by (simp add: readback_id_def cs_state_def cs_objects)
  moreover have "dc_compatible cs_discovery" by (simp add: cs_discovery_def)
  ultimately show ?thesis
    using provision cs_registers [OF _ provision(2)]
    by (simp add: commission_node_def bind_cm_def guard_cm_def lift_cm_def cs_request_valid fields look read_db_def app check
        commission_provision_def Let_def except_ble_def on_ble_def cs_read_state waited_def)
qed


definition cs_import :: import_request where
  "cs_import = \<lparr>iq_discovery_address = ''AA:BB'', iq_display_name = None, iq_location = None\<rparr>"

lemma cs_imported: "is_ok (fst (import_assigned_node cs_env cs_import ''T'' 1 5 (cs_app ''N-7'')))"
proof -
  obtain sc where look: "look_up_cm ''AA:BB'' 1 (cs_app ''N-7'') = (Inr (Some cs_discovery), cs_app ''N-7''\<lparr>cm_scanner := sc\<rparr>)"
    using cs_look_up by blast
  have fields: "iq_discovery_address cs_import = ''AA:BB''" "import_request_valid cs_import" "ce_locked cs_env x = False"
    "dc_compatible cs_discovery" "ce_meanwhile cs_env n s = s" for x n s
    by (simp_all add: cs_import_def cs_env_def cs_discovery_def import_request_valid_def len_between_def opt_len_between_def)
  have app: "cm_db (cs_app ''N-7'') = empty_db" "cm_world (cs_app ''N-7'') x = cs_at ''N-7'' 0 None [] []" for x by (simp_all add: cs_app_def)
  have state: "readback_id (cs_state ''N-7'') = ''N-7''" "bs_metadata (cs_state ''N-7'') = JObj (cs_obj ''N-7'' ''M'')"
    by (simp_all add: readback_id_def cs_state_def cs_objects)
  have columns: "\<exists>m. columns_of cs_env (cs_obj ''N-7'' ''M'') = Inr m"
    by (simp add: columns_of_def cs_env_def cs_obj_def cs_answers_def dget_def)
  have "is_ok (fst (bind_cm (import_device cs_env cs_import cs_discovery (cs_state ''N-7'') 5) schedule_cm a))" if "cm_db a = empty_db" for a
    using that columns
    by (auto simp: bind_cm_def import_device_def import_create_def state lift_cm_def on_db_def device_create_row_def get_device_def
        get_by_ble_address_def empty_db_def hardware_trigger_fires_def Let_def schedule_cm_def call_manager_def)
  then show ?thesis
    by (simp add: import_assigned_node_def bind_cm_def guard_cm_def lift_cm_def fields look app except_ble_def on_ble_def
        cs_read_state waited_def state)
qed

theorem import_reads_only_witness:
  "\<exists>d a'. import_assigned_node cs_env cs_import ''T'' 1 5 (cs_app ''N-7'') = (Inr d, a')
     \<and> answers_state (cm_world (cs_app ''N-7'') ''AA:BB'') ''T'' (rd_device_id d) \<and> device_identity_ok (cm_db a')
     \<and> set (bw_written (cm_world a' ''AA:BB'')) \<subseteq> {provget ''T''}"
proof -
  obtain d a' where run: "import_assigned_node cs_env cs_import ''T'' 1 5 (cs_app ''N-7'') = (Inr d, a')"
    using cs_imported is_ok_fst by blast
  have keeps: "device_identity_ok (ce_meanwhile cs_env n s)" if "device_identity_ok s" for n s
    using that by (simp add: cs_env_def)
  have "iq_discovery_address cs_import = ''AA:BB''" "bw_written (cm_world (cs_app ''N-7'') x) = []" for x
    by (simp_all add: cs_import_def cs_app_def cs_at_def)
  with run import_reads_only(1,3,4) [OF run cs_identity keeps] show ?thesis by auto
qed

end
