(* ===== verification/Nodes.thy ===== *)
theory Nodes
  imports Commissioning
begin

text \<open>
  The node endpoints (\<open>api/nodes.py\<close>): what the gateway shows of its nodes, and reading or changing the configuration of a node
  over BLE. Both BLE operations take the managed connection away first and schedule it again whatever happens.
\<close>

section \<open>What is shown\<close>

definition runtime_item :: "connections \<Rightarrow> string \<Rightarrow> dict" where
  "runtime_item m device_id =
     (case runtime m device_id of (status, last_error) \<Rightarrow>
        [(''connection_status'', JStr status), (''last_error'', text_or_null last_error)])"

definition node_item :: "connections \<Rightarrow> registered_device \<Rightarrow> dict" where
  "node_item m d = dupdate
     [(''node_id'', JStr (rd_device_id d)), (''display_name'', JStr (rd_display_name d)),
      (''ble_address'', text_or_null (rd_ble_address d)), (''ble_advertised_name'', text_or_null (rd_ble_advertised_name d)),
      (''hardware_id'', text_or_null (rd_hardware_id d)), (''firmware_version'', text_or_null (rd_firmware_version d)),
      (''sensor_package_version'', text_or_null (rd_sensor_package_version d)),
      (''protocol_version'', text_or_null (rd_protocol_version d)),
      (''compatibility_status'', JStr (rd_compatibility_status d)),
      (''compatibility_message'', text_or_null (rd_compatibility_message d))]
     (runtime_item m (rd_device_id d))"

definition list_nodes :: "connections \<Rightarrow> db \<Rightarrow> dict list" where
  "list_nodes m s = map (node_item m) (device_list s False)"

definition firmware_history :: "db \<Rightarrow> string \<Rightarrow> node_firmware_history list result" where
  "firmware_history s node_id =
     (case get_device s node_id of
        None \<Rightarrow> Inl (HTTPException 404 '''' ''node not found'')
      | Some _ \<Rightarrow> Inr (firmware_list s node_id))"

fun node_http :: "exn \<Rightarrow> exn" where
  "node_http (NodeNotFoundError m) = HTTPException 404 '''' m"
| "node_http e = e"

text \<open>\<open>connection.capabilities if connection else None\<close>; an empty report counts as none.\<close>

definition reported_by :: "connections \<Rightarrow> string \<Rightarrow> dict" where
  "reported_by m node_id = (case map_of m node_id of None \<Rightarrow> [] | Some c \<Rightarrow> cx_capabilities c)"

definition node_capabilities_of :: "connections \<Rightarrow> db \<Rightarrow> string \<Rightarrow> (node_capabilities \<times> json) result" where
  "node_capabilities_of m s node_id =
     (case capability_get_reported s node_id (reported_by m node_id) of
        Inl e \<Rightarrow> Inl (node_http e) | Inr r \<Rightarrow> Inr r)"

text \<open>The response model checks the firmware version again.\<close>

definition capabilities_handler :: "connections \<Rightarrow> db \<Rightarrow> string \<Rightarrow> node_capabilities result" where
  "capabilities_handler m s node_id =
     bind_result (node_capabilities_of m s node_id) (\<lambda>(caps, firmware).
       case firmware of
         JNull \<Rightarrow> Inr (caps\<lparr>nc_firmware_version := None\<rparr>)
       | JStr v \<Rightarrow> Inr (caps\<lparr>nc_firmware_version := Some v\<rparr>)
       | _ \<Rightarrow> Inl (ValidationError ''response''))"

record interface_row =
  ir_interface :: node_interface
  ir_available :: bool
  ir_assigned_device_id :: "string option"

definition interface_item :: "db \<Rightarrow> string \<Rightarrow> node_interface \<Rightarrow> interface_row" where
  "interface_item s node_id i =
     (let occupied = occupied_interface s node_id (ni_interface_id i) None in
      \<lparr>ir_interface = i, ir_available = (\<not> ni_exclusive i \<or> occupied = None),
       ir_assigned_device_id = map_option si_device_id occupied\<rparr>)"

definition interfaces_handler :: "connections \<Rightarrow> db \<Rightarrow> string \<Rightarrow> interface_row list result" where
  "interfaces_handler m s node_id =
     bind_result (node_capabilities_of m s node_id) (\<lambda>(caps, _). Inr (map (interface_item s node_id) (nc_interfaces caps)))"

section \<open>Reading the configuration of a node\<close>

definition ble_node :: "string \<Rightarrow> (registered_device \<times> string) cm" where
  "ble_node node_id a =
     (case get_device (cm_db a) node_id of
        Some d \<Rightarrow>
          (case rd_ble_address d of
             Some address \<Rightarrow>
               if address = '''' then (Inl (HTTPException 404 '''' ''node or BLE address not found''), a)
               else (Inr (d, address), a)
           | None \<Rightarrow> (Inl (HTTPException 404 '''' ''node or BLE address not found''), a))
      | None \<Rightarrow> (Inl (HTTPException 404 '''' ''node or BLE address not found''), a))"

text \<open>\<open>next((name for name, value in FILTERS.items() if value == readback["filter"]), "none")\<close>.\<close>

definition filter_name :: "json \<Rightarrow> string" where
  "filter_name v = (case find (\<lambda>(_, code). json_eq_int v code) filter_codes of None \<Rightarrow> ''none'' | Some (n, _) \<Rightarrow> n)"

definition configuration_view :: "ble_state \<Rightarrow> dict result" where
  "configuration_view st =
     (let readback = bs_readback st in
      bind_result (as_object (bs_metadata st)) (\<lambda>metadata.
      bind_result (as_object (bs_capabilities st)) (\<lambda>capabilities.
      bind_result (item_at readback ''sample'') (\<lambda>sample.
      bind_result (item_at readback ''process'') (\<lambda>process.
      bind_result (item_at readback ''report'') (\<lambda>report.
      bind_result (item_at readback ''heartbeat'') (\<lambda>heartbeat.
      bind_result (item_at readback ''filter'') (\<lambda>filter_code.
      bind_result (item_at readback ''window'') (\<lambda>window.
      bind_result (item_at readback ''enabled'') (\<lambda>enabled.
        Inr [(''scope'', JStr ''device''), (''node_id'', dget readback ''id''),
          (''metadata_node_id'', dget metadata ''node_id''), (''capabilities_node_id'', dget capabilities ''node_id''),
          (''firmware_version'', dget metadata ''firmware_version''), (''protocol_version'', dget metadata ''protocol_version''),
          (''affects'', texts [''microphone processing'', ''device reporting cadence'']),
          (''telemetry_only_inputs'', texts [''IMU0'', ''VBAT'', ''D0'', ''D1'', ''D2'', ''D3'', ''D4'', ''D5'']),
          (''sample_interval_ms'', sample), (''processing_interval_ms'', process), (''report_interval_ms'', report),
          (''heartbeat_interval_ms'', heartbeat), (''filter_type'', JStr (filter_name filter_code)),
          (''filter_window'', window), (''enabled'', JBool (json_truthy enabled)),
          (''generation'', dget readback ''generation'')]))))))))))"

definition read_device_configuration :: "cm_env \<Rightarrow> string \<Rightarrow> string \<Rightarrow> dict cm" where
  "read_device_configuration env node_id tx =
     bind_cm (ble_node node_id) (\<lambda>(device, address).
     bind_cm (remove_cm env node_id) (\<lambda>_.
     bind_cm (finally_cm (on_ble env address (read_state (ce_locked env address) tx))
                (call_manager (ManagerSchedule node_id address))) (\<lambda>st.
     lift_cm (configuration_view st))))"

section \<open>Changing the configuration of a node\<close>

record configuration_request =
  cf_configuration :: installation_configuration
  cf_transaction_id :: string

definition configuration_request_valid :: "configuration_request \<Rightarrow> bool" where
  "configuration_request_valid b =
     (installation_configuration_valid (cf_configuration b) \<and> transaction_pattern (cf_transaction_id b))"

definition not_verified :: "exn \<Rightarrow> exn" where
  "not_verified e = HTTPException 409 ''configuration_not_verified''
     ''The sensor did not confirm the change. Nothing is shown as successful until readback agrees.''"

definition verified_response :: "string \<Rightarrow> dict \<Rightarrow> dict \<Rightarrow> dict" where
  "verified_response transaction_id readback acknowledgement =
     [(''status'', JStr ''verified''), (''scope'', JStr ''device''), (''transaction_id'', JStr transaction_id),
      (''readback'', JObj readback), (''acknowledgement'', JObj acknowledgement)]"

definition put_result :: "string \<times> string \<Rightarrow> dict \<Rightarrow> unit cm" where
  "put_result key response a = (Inr (), a\<lparr>cm_results := assign (cm_results a) key response\<rparr>)"

definition apply_configuration :: "cm_env \<Rightarrow> string \<Rightarrow> string \<Rightarrow> configuration_request \<Rightarrow> dict cm" where
  "apply_configuration env node_id address b =
     bind_cm (remove_cm env node_id) (\<lambda>_.
     bind_cm (finally_cm (except_ble not_verified
         (on_ble env address (configure (ce_patience env) (ce_locked env address) node_id (cf_transaction_id b) (cf_configuration b))))
       (call_manager (ManagerSchedule node_id address))) (\<lambda>(acknowledgement, readback).
     let response = verified_response (cf_transaction_id b) readback acknowledgement in
     bind_cm (put_result (node_id, cf_transaction_id b) response) (\<lambda>_. lift_cm (Inr response))))"

definition configure_device :: "cm_env \<Rightarrow> string \<Rightarrow> configuration_request \<Rightarrow> dict cm" where
  "configure_device env node_id b =
     bind_cm (guard_cm (\<not> configuration_request_valid b) (HTTPException 422 '''' '''')) (\<lambda>_.
     bind_cm (ble_node node_id) (\<lambda>(device, address) a.
       case map_of (cm_results a) (node_id, cf_transaction_id b) of
         Some cached \<Rightarrow> (Inr cached, a)
       | None \<Rightarrow> apply_configuration env node_id address b a))"

section \<open>What a configuration request establishes\<close>

lemma assign_get: "map_of (assign d k v) = (map_of d)(k \<mapsto> v)"
  by (induction d) auto

lemma ble_nodeD: "ble_node node_id a = (r, a') \<Longrightarrow> a' = a"
  by (auto simp: ble_node_def split: option.splits if_splits)

lemma ble_node_Inr:
  "ble_node node_id a = (Inr (d, address), a') \<Longrightarrow> get_device (cm_db a) node_id = Some d \<and> rd_ble_address d = Some address \<and> address \<noteq> ''''"
  by (auto simp: ble_node_def split: option.splits if_splits)

text \<open>A computation between the removal of a connection and its scheduling in the \<open>finally\<close> clause.\<close>

lemma finally_schedule:
  assumes "finally_cm m (call_manager c) a = (r, a')"
  obtains a1 where "m a = (r, a1)" "a' = a1\<lparr>cm_calls := cm_calls a1 @ [c]\<rparr>"
  using assms by (auto simp: finally_cm_def call_manager_def split: prod.splits)

lemma removed_and_scheduled:
  assumes "bind_cm (remove_cm env node_id) (\<lambda>_. bind_cm (finally_cm (g (on_ble env address m))
      (call_manager (ManagerSchedule node_id address))) f) a = (r, a')"
    and "\<And>x. snd (g (on_ble env address m) x) = snd (on_ble env address m x)"
  obtains q a1 a2 where "g (on_ble env address m) a1 = (q, a2)" "m (cm_world a address) = (fst (on_ble env address m a1), cm_world a2 address)"
    "cm_calls a2 = cm_calls a @ [ManagerRemove node_id]" "cm_results a2 = cm_results a" "\<And>x. x \<noteq> address \<Longrightarrow> cm_world a2 x = cm_world a x"
    "bind_cm (lift_cm q) f (a2\<lparr>cm_calls := cm_calls a @ [ManagerRemove node_id, ManagerSchedule node_id address]\<rparr>) = (r, a')"
proof -
  obtain a1 where a1: "remove_cm env node_id a = (Inr (), a1)" "cm_calls a1 = cm_calls a @ [ManagerRemove node_id]"
    "cm_world a1 = cm_world a" "cm_results a1 = cm_results a"
    by (simp add: remove_cm_def)
  obtain q a2 where q: "g (on_ble env address m) a1 = (q, a2)" by fastforce
  obtain q' where q': "on_ble env address m a1 = (q', a2)" using assms(2) [of a1] q by (metis snd_conv surj_pair)
  note facts = on_bleD [OF q']
  have "bind_cm (lift_cm q) f (a2\<lparr>cm_calls := cm_calls a @ [ManagerRemove node_id, ManagerSchedule node_id address]\<rparr>) = (r, a')"
    using assms(1) a1 q facts(3)
    by (simp add: bind_cm_def lift_cm_def finally_cm_def call_manager_def split: sum.splits)
  then show thesis
    using that [OF q] facts a1 q' by simp
qed

text \<open>Both BLE operations give the connection back, whatever the node answers.\<close>

definition gives_back :: "string \<Rightarrow> cm_app \<Rightarrow> cm_app \<Rightarrow> bool" where
  "gives_back node_id a a' =
     (cm_calls a' = cm_calls a \<or>
      (\<exists>d address. get_device (cm_db a) node_id = Some d \<and> rd_ble_address d = Some address
         \<and> cm_calls a' = cm_calls a @ [ManagerRemove node_id, ManagerSchedule node_id address]))"

lemma read_configuration_gives_back:
  assumes "read_device_configuration env node_id tx a = (r, a')"
  shows "gives_back node_id a a'"
proof (cases "\<exists>d address. ble_node node_id a = (Inr (d, address), a)")
  case False
  then have "a' = a" using assms ble_nodeD [of node_id a]
    by (auto simp: read_device_configuration_def bind_cm_def split: prod.splits sum.splits)
  then show ?thesis by (simp add: gives_back_def)
next
  case True
  then obtain d address where node: "ble_node node_id a = (Inr (d, address), a)" by blast
  have run: "bind_cm (remove_cm env node_id) (\<lambda>_. bind_cm (finally_cm (on_ble env address (read_state (ce_locked env address) tx))
      (call_manager (ManagerSchedule node_id address))) (\<lambda>st. lift_cm (configuration_view st))) a = (r, a')"
    using assms node by (simp add: read_device_configuration_def bind_cm_def)
  obtain q a2 where "bind_cm (lift_cm q) (\<lambda>st. lift_cm (configuration_view st))
      (a2\<lparr>cm_calls := cm_calls a @ [ManagerRemove node_id, ManagerSchedule node_id address]\<rparr>) = (r, a')"
    by (rule removed_and_scheduled [of env node_id "\<lambda>x. x", OF run refl])
  then have "cm_calls a' = cm_calls a @ [ManagerRemove node_id, ManagerSchedule node_id address]"
    by (auto simp: bind_cm_def lift_cm_def split: sum.splits)
  with ble_node_Inr [OF node] show ?thesis by (auto simp: gives_back_def)
qed

lemma apply_configuration_cases:
  assumes "apply_configuration env node_id address b a = (r, a')"
  shows "cm_calls a' = cm_calls a @ [ManagerRemove node_id, ManagerSchedule node_id address]"
    and "r = Inl e \<Longrightarrow> cm_results a' = cm_results a"
    and "r = Inr resp \<Longrightarrow> (\<exists>ack readback. resp = verified_response (cf_transaction_id b) readback ack
      \<and> holds_configuration readback (cf_configuration b) \<and> dget readback ''tx'' = JStr (map ascii_upper_char (cf_transaction_id b))
      \<and> dget readback ''code'' = JStr ''readback'' \<and> cm_results a' = assign (cm_results a) (node_id, cf_transaction_id b) resp)"
proof -
  define f where "f = (\<lambda>(acknowledgement, readback).
     let response = verified_response (cf_transaction_id b) readback acknowledgement in
     bind_cm (put_result (node_id, cf_transaction_id b) response) (\<lambda>_. lift_cm (Inr response)))"
  define m where "m = configure (ce_patience env) (ce_locked env address) node_id (cf_transaction_id b) (cf_configuration b)"
  have run: "bind_cm (remove_cm env node_id) (\<lambda>_. bind_cm (finally_cm (except_ble not_verified (on_ble env address m))
      (call_manager (ManagerSchedule node_id address))) f) a = (r, a')"
    using assms by (simp add: apply_configuration_def m_def f_def)
  obtain q a1 a2 where q: "except_ble not_verified (on_ble env address m) a1 = (q, a2)"
    and m: "m (cm_world a address) = (fst (on_ble env address m a1), cm_world a2 address)" and results: "cm_results a2 = cm_results a"
    and rest: "bind_cm (lift_cm q) f (a2\<lparr>cm_calls := cm_calls a @ [ManagerRemove node_id, ManagerSchedule node_id address]\<rparr>) = (r, a')"
    by (rule removed_and_scheduled [of env node_id "except_ble not_verified", OF run except_ble_state])
  show "cm_calls a' = cm_calls a @ [ManagerRemove node_id, ManagerSchedule node_id address]"
    and "r = Inl e \<Longrightarrow> cm_results a' = cm_results a"
    using rest results by (auto simp: bind_cm_def lift_cm_def f_def put_result_def Let_def split: sum.splits prod.splits)
  assume "r = Inr resp"
  then obtain ack readback where "q = Inr (ack, readback)" "resp = verified_response (cf_transaction_id b) readback ack"
    "cm_results a' = assign (cm_results a) (node_id, cf_transaction_id b) resp"
    using rest results by (auto simp: bind_cm_def lift_cm_def f_def put_result_def Let_def split: sum.splits prod.splits)
  moreover have "m (cm_world a address) = (q, cm_world a2 address)" if "q = Inr (ack, readback)"
    using m q that by simp
  ultimately show "\<exists>ack readback. resp = verified_response (cf_transaction_id b) readback ack
      \<and> holds_configuration readback (cf_configuration b) \<and> dget readback ''tx'' = JStr (map ascii_upper_char (cf_transaction_id b))
      \<and> dget readback ''code'' = JStr ''readback'' \<and> cm_results a' = assign (cm_results a) (node_id, cf_transaction_id b) resp"
    using configure_verified unfolding m_def by metis
qed

lemma device_configuration_verified_facts:
  assumes "configure_device env node_id b a = (r, a')"
  shows "r = Inr resp \<Longrightarrow>
      (map_of (cm_results a) (node_id, cf_transaction_id b) = Some resp \<and> a' = a)
      \<or> (\<exists>ack readback. resp = verified_response (cf_transaction_id b) readback ack
           \<and> holds_configuration readback (cf_configuration b)
           \<and> dget readback ''tx'' = JStr (map ascii_upper_char (cf_transaction_id b)) \<and> dget readback ''code'' = JStr ''readback'')"
    and "r = Inl e \<Longrightarrow> cm_results a' = cm_results a"
    and "gives_back node_id a a'"
    and "\<lbrakk>r = Inr resp; cm_results later = cm_results a'; get_device (cm_db later) node_id = Some d; truthy (rd_ble_address d)\<rbrakk>
      \<Longrightarrow> configure_device env' node_id b later = (Inr resp, later)"
proof -
  let ?key = "(node_id, cf_transaction_id b)"
  have "(r = Inr resp \<longrightarrow>
      ((map_of (cm_results a) ?key = Some resp \<and> a' = a)
      \<or> (\<exists>ack readback. resp = verified_response (cf_transaction_id b) readback ack
           \<and> holds_configuration readback (cf_configuration b)
           \<and> dget readback ''tx'' = JStr (map ascii_upper_char (cf_transaction_id b)) \<and> dget readback ''code'' = JStr ''readback''))
      \<and> map_of (cm_results a') ?key = Some resp \<and> configuration_request_valid b)
    \<and> (r = Inl e \<longrightarrow> cm_results a' = cm_results a) \<and> gives_back node_id a a'"
  proof (cases "configuration_request_valid b \<and> (\<exists>d address. ble_node node_id a = (Inr (d, address), a))")
    case False
    then have "a' = a \<and> \<not> is_ok r" using assms ble_nodeD [of node_id a]
      by (auto simp: configure_device_def bind_cm_def guard_cm_def lift_cm_def split: prod.splits sum.splits if_splits)
    then show ?thesis by (auto simp: gives_back_def)
  next
    case True
    then obtain d address where valid: "configuration_request_valid b" and node: "ble_node node_id a = (Inr (d, address), a)" by blast
    show ?thesis
    proof (cases "map_of (cm_results a) ?key")
      case (Some cached)
      then have "r = Inr cached" "a' = a"
        using assms valid node by (auto simp: configure_device_def bind_cm_def guard_cm_def lift_cm_def)
      with Some valid show ?thesis by (auto simp: gives_back_def)
    next
      case None
      then have "apply_configuration env node_id address b a = (r, a')"
        using assms valid node by (simp add: configure_device_def bind_cm_def guard_cm_def lift_cm_def)
      note facts = apply_configuration_cases [OF this]
      have "gives_back node_id a a'" using facts(1) ble_node_Inr [OF node] by (auto simp: gives_back_def)
      with facts(2,3) valid show ?thesis by (auto simp: assign_get)
    qed
  qed
  note all = this
  show "r = Inr resp \<Longrightarrow>
      (map_of (cm_results a) ?key = Some resp \<and> a' = a)
      \<or> (\<exists>ack readback. resp = verified_response (cf_transaction_id b) readback ack
           \<and> holds_configuration readback (cf_configuration b)
           \<and> dget readback ''tx'' = JStr (map ascii_upper_char (cf_transaction_id b)) \<and> dget readback ''code'' = JStr ''readback'')"
    and "r = Inl e \<Longrightarrow> cm_results a' = cm_results a" and "gives_back node_id a a'"
    using all by blast+
  assume "r = Inr resp" and later: "cm_results later = cm_results a'" "get_device (cm_db later) node_id = Some d" "truthy (rd_ble_address d)"
  with all have "map_of (cm_results later) ?key = Some resp" "configuration_request_valid b" by auto
  moreover obtain address where "rd_ble_address d = Some address" "address \<noteq> ''''" using later(3) by (auto simp: truthy_def)
  ultimately show "configure_device env' node_id b later = (Inr resp, later)"
    using later(2) by (simp add: configure_device_def bind_cm_def guard_cm_def lift_cm_def ble_node_def)
qed


section \<open>A sample request\<close>

definition nc_app :: cm_app where
  "nc_app = (cs_app ''N-1'')\<lparr>cm_world := (\<lambda>_. cs_at ''N-1'' 6 None [] []),
     cm_db := empty_db\<lparr>registered_devices := [(device_defaults 1 0)\<lparr>rd_device_id := ''N-1'', rd_ble_address := Some ''AA:BB''\<rparr>]\<rparr>\<rparr>"

definition nc_request :: configuration_request where
  "nc_request = \<lparr>cf_configuration = default_installation_configuration, cf_transaction_id = ''0000111122223333''\<rparr>"

lemma nc_request_valid: "configuration_request_valid nc_request"
  using cs_request_valid by (simp add: configuration_request_valid_def nc_request_def commission_request_valid_def cs_request_def)

lemma nc_wait:
  "wait_for 3 ''0000111122223333'' [''readback''] (cs_at i 8 (Some (16, None)) [cs_obj i ''A''] wr) =
     (Inr (cs_obj i ''R''), cs_at i 9 (Some (16, None)) [] wr)"
proof -
  have "dget (cs_obj i ''A'') ''tx'' = JStr ''0000111122223333''" "dget (cs_obj i ''A'') ''t'' = JStr ''ca''"
    "dget (cs_obj i ''A'') ''code'' = JStr ''provisioned''" "dget (cs_obj i ''R'') ''tx'' = JStr ''0000111122223333''"
    "dget (cs_obj i ''R'') ''t'' = JStr ''ca''" "dget (cs_obj i ''R'') ''code'' = JStr ''readback''"
    by (simp_all add: cs_obj_def cs_answers_def dget_def)
  then show ?thesis by (simp add: numeral_3_eq_3 cs_tick in_str_set_def)
qed

lemma nc_configured:
  "\<exists>x w. configure 3 False ''N-1'' ''0000111122223333'' default_installation_configuration (cs_at ''N-1'' 6 None [] []) = (Inr x, w)"
proof -
  have upper: "map ascii_upper_char ''0000111122223333'' = ''0000111122223333''"
    by (simp add: ascii_upper_char_def)
  have names: "transaction_pattern ''0000111122223333''"
    by (simp add: transaction_pattern_def is_lower_hex_def is_digit_def)
  have r: "dget (cs_obj ''N-1'' ''R'') ''id'' = JStr ''N-1''" "readback_matches (cs_obj ''N-1'' ''R'') [100, 100, 100, 30000, 0, 1, 1]"
    by (simp_all add: cs_obj_def cs_answers_def dget_def readback_matches_def value_names_def)
  have "length (''CFGSET 1 '' @ ''0000111122223333'' @ '' '' @ spaced [100, 100, 100, 30000, 0, 1, 1]) \<le> 191"
    by (simp add: int_str_def nat_str.simps)
  then show ?thesis
    using names upper r nc_wait
    by (simp add: configure_def configure_exchange_def bind_ble_def lift_ble_def sample_values Let_def cs_steps start_notify_def
        write_command_def cs_tick stop_notify_def del: spaced.simps)
qed


end
