(* ===== verification/Profile_Api.thy ===== *)
theory Profile_Api
  imports Profile_Registry
begin

text \<open>
  The endpoints of the sensor profile catalogue (\<open>gateway/app/api/profiles.py\<close>) over the registry of \<open>Profile_Registry\<close> and the audit
  table. \<open>parse\<close> is the parser of the registry, \<open>build\<close> and \<open>dump\<close> are the decoding of fields and the serialisation of the
  pydantic model, and \<open>int_of\<close> is \<open>int(text)\<close>.
\<close>

definition list_profiles ::
  "(string \<Rightarrow> string) \<Rightarrow> profile_registry \<Rightarrow> string option \<Rightarrow> string option \<Rightarrow> string option \<Rightarrow> string option \<Rightarrow> bool \<Rightarrow> sensor_profile list" where
  "list_profiles casefold r manufacturer model category interface_type include_disabled =
     registry_list casefold r manufacturer model category interface_type include_disabled"

definition error_items :: "profile_registry \<Rightarrow> dict list" where
  "error_items r = map (\<lambda>e. [(''path'', JStr (ple_path e)), (''error'', JStr (ple_error e))]) (pr_errors r)"

definition profile_errors :: "profile_registry \<Rightarrow> dict" where
  "profile_errors r = [(''items'', JArr (map JObj (error_items r)))]"

definition validate_profile :: "(dict \<Rightarrow> sensor_profile result) \<Rightarrow> (sensor_profile \<Rightarrow> json) \<Rightarrow> dict \<Rightarrow> dict result" where
  "validate_profile build dump body =
     (case model_validate build body of
        Inl (ValidationError m) \<Rightarrow> Inl (HTTPException 422 '''' m)
      | Inl e \<Rightarrow> Inl e
      | Inr profile \<Rightarrow> Inr [(''valid'', JBool True), (''profile'', dump profile)])"

definition reload_profiles ::
  "(string \<Rightarrow> string) \<Rightarrow> (bytes \<Rightarrow> sensor_profile result) \<Rightarrow> profile_registry \<Rightarrow> dict \<times> profile_registry" where
  "reload_profiles casefold parse r =
     (let r' = reload parse r in
      ([(''loaded'', JInt (int (length (registry_list casefold r' None None None None True)))),
        (''errors'', JArr (map JObj (error_items r')))], r'))"

text \<open>The audit row of an import.\<close>

definition import_detail :: "sensor_profile \<Rightarrow> dict" where
  "import_detail p = [(''version'', JStr (sp_profile_version p)), (''status'', JStr (sp_status p)),
     (''source'', JStr (pv_source (sp_provenance p)))]"

definition add_audit :: "string \<Rightarrow> string \<Rightarrow> dict \<Rightarrow> time \<Rightarrow> db \<Rightarrow> db" where
  "add_audit event_type subject_id detail now s = s\<lparr>audit_events := audit_events s @
     [\<lparr>ae_id = next_id ae_id (audit_events s), ae_event_type = event_type, ae_subject_id = Some subject_id,
       ae_detail_json = detail, ae_created_at = now\<rparr>]\<rparr>"

definition upload_too_long :: "(string \<Rightarrow> int result) \<Rightarrow> nat \<Rightarrow> string option \<Rightarrow> unit result" where
  "upload_too_long int_of maximum content_length =
     (if truthy content_length
      then bind_result (int_of (the content_length)) (\<lambda>n.
             if n > int maximum then Inl (HTTPException 413 '''' ''profile upload exceeds configured maximum'') else Inr ())
      else Inr ())"

fun import_http :: "exn \<Rightarrow> exn" where
  "import_http (DuplicateProfileError m) = HTTPException 409 '''' m"
| "import_http e = (if is_value_error e then HTTPException 422 '''' (exn_str e) else e)"

definition import_profile_handler ::
  "(string \<Rightarrow> int result) \<Rightarrow> nat \<Rightarrow> (bytes \<Rightarrow> sensor_profile result) \<Rightarrow> string option \<Rightarrow> bytes \<Rightarrow> time \<Rightarrow> profile_registry \<times> db
     \<Rightarrow> sensor_profile result \<times> profile_registry \<times> db" where
  "import_profile_handler int_of maximum parse content_length data now st =
     (case upload_too_long int_of maximum content_length of
        Inl e \<Rightarrow> (Inl e, st)
      | Inr _ \<Rightarrow>
          (case import_profile parse (fst st) data of
             (Inl e, r) \<Rightarrow> (Inl (import_http e), r, snd st)
           | (Inr profile, r) \<Rightarrow>
               (Inr profile, r, add_audit ''sensor_profile_imported'' (sp_profile_id profile) (import_detail profile) now (snd st))))"

definition get_profile :: "profile_registry \<Rightarrow> string \<Rightarrow> string option \<Rightarrow> sensor_profile result" where
  "get_profile r profile_id version =
     (case registry_get r profile_id version of
        Inl e \<Rightarrow> Inl e
      | Inr None \<Rightarrow> Inl (HTTPException 404 '''' ''sensor profile not found'')
      | Inr (Some profile) \<Rightarrow> Inr profile)"

section \<open>The audit table records the imports\<close>

text \<open>A sequence of uploads, each with its content length, body and time.\<close>

type_synonym upload = "string option \<times> bytes \<times> time"

fun uploads ::
  "(string \<Rightarrow> int result) \<Rightarrow> nat \<Rightarrow> (bytes \<Rightarrow> sensor_profile result) \<Rightarrow> upload list \<Rightarrow> profile_registry \<times> db
     \<Rightarrow> sensor_profile result list \<times> profile_registry \<times> db" where
  "uploads int_of maximum parse [] st = ([], st)"
| "uploads int_of maximum parse ((content_length, data, now) # us) st =
     (let (x, st1) = import_profile_handler int_of maximum parse content_length data now st;
          (xs, st2) = uploads int_of maximum parse us st1 in (x # xs, st2))"

fun accepted :: "sensor_profile result list \<Rightarrow> sensor_profile list" where
  "accepted [] = []"
| "accepted (Inr p # xs) = p # accepted xs"
| "accepted (Inl e # xs) = accepted xs"

lemma import_profile_failed: "import_profile parse r data = (Inl e, r') \<Longrightarrow> r' = r"
  by (auto simp: import_profile_def split: if_splits sum.splits)

lemma import_handler_cases:
  assumes "import_profile_handler int_of maximum parse content_length data now st = (x, st')"
  obtains (refused) e where "x = Inl e" "st' = st"
  | (imported) p r where "x = Inr p" "import_profile parse (fst st) data = (Inr p, r)"
      "st' = (r, add_audit ''sensor_profile_imported'' (sp_profile_id p) (import_detail p) now (snd st))"
proof (cases "upload_too_long int_of maximum content_length")
  case (Inl e)
  with assms show thesis by (intro refused [of e]) (auto simp: import_profile_handler_def)
next
  case (Inr a)
  obtain y r where y: "import_profile parse (fst st) data = (y, r)" by (cases "import_profile parse (fst st) data")
  show thesis
  proof (cases y)
    case (Inl e)
    with y import_profile_failed have "r = fst st" by metis
    with Inl Inr y assms show thesis by (intro refused [of "import_http e"]) (auto simp: import_profile_handler_def)
  next
    case (Inr p)
    with \<open>upload_too_long int_of maximum content_length = Inr a\<close> y assms show thesis
      by (intro imported [of p r]) (auto simp: import_profile_handler_def)
  qed
qed

lemma audit_frame: "s'\<lparr>audit_events := a\<rparr> = s\<lparr>audit_events := a\<rparr> \<Longrightarrow> s'\<lparr>audit_events := audit_events s\<rparr> = s"
  by (cases s, cases s') simp

text \<open>Every import that was accepted, and nothing else, is in the audit table, in order, with the identifier of the profile; a refused
  upload changes neither the catalogue nor the table, and no other table changes.
\<close>

theorem imports_audited:
  "uploads int_of maximum parse us (r, s) = (xs, r', s') \<Longrightarrow>
   map (\<lambda>a. (ae_event_type a, ae_subject_id a, ae_detail_json a)) (audit_events s') =
   map (\<lambda>a. (ae_event_type a, ae_subject_id a, ae_detail_json a)) (audit_events s) @
   map (\<lambda>p. (''sensor_profile_imported'', Some (sp_profile_id p), import_detail p)) (accepted xs) \<and>
   s'\<lparr>audit_events := audit_events s\<rparr> = s \<and> (accepted xs = [] \<longrightarrow> (r', s') = (r, s))"
proof (induction us arbitrary: r s xs)
  case (Cons u us)
  obtain content_length data now where u: "u = (content_length, data, now)" by (cases u)
  obtain x r1 s1 where first: "import_profile_handler int_of maximum parse content_length data now (r, s) = (x, r1, s1)"
    by (metis prod.collapse)
  with Cons.prems obtain ys where rest: "uploads int_of maximum parse us (r1, s1) = (ys, r', s')" "xs = x # ys"
    by (auto simp: u split: prod.splits)
  from first show ?case
  proof (cases rule: import_handler_cases)
    case (refused e)
    with Cons.IH [OF rest(1)] rest(2) show ?thesis by simp
  next
    case (imported p r2)
    with Cons.IH [OF rest(1)] rest(2) show ?thesis by (auto simp: add_audit_def dest: audit_frame)
  qed
qed simp

theorem imports_audited_witness:
  "\<exists>xs r' s'. uploads (\<lambda>_. Inr 5) 65536 sample_parse [(Some ''5'', ''1.2.0'', 3)] (sample_registry, empty_db) = (xs, r', s') \<and>
     map (\<lambda>a. (ae_event_type a, ae_subject_id a, ae_detail_json a)) (audit_events s') =
     map (\<lambda>p. (''sensor_profile_imported'', Some (sp_profile_id p), import_detail p)) (accepted xs) \<and> accepted xs \<noteq> []"
proof -
  obtain xs r' s' where run: "uploads (\<lambda>_. Inr 5) 65536 sample_parse [(Some ''5'', ''1.2.0'', 3)] (sample_registry, empty_db) = (xs, r', s')"
    by (metis prod.collapse)
  moreover have "fst (uploads (\<lambda>_. Inr 5) 65536 sample_parse [(Some ''5'', ''1.2.0'', 3)] (sample_registry, empty_db)) =
      [Inr (microphone_profile ''1.2.0'')]"
    by (simp add: import_profile_handler_def upload_too_long_def bind_result_def import_profile_def sample_parse_def sample_registry_def
        microphone_profile_def import_filename_def)
  ultimately show ?thesis using imports_audited [OF run] by (auto simp: empty_db_def)
qed

end
