(* ===== verification/Websockets.thy ===== *)
theory Websockets
  imports Models
begin

text \<open>
  Broadcasting to the dashboards: \<open>services/websocket_manager.py\<close> and the socket endpoint of \<open>api/telemetry.py\<close>. A broadcast awaits
  every send, so connections, disconnections and other broadcasts run between two sends; each coroutine is its local variables, and
  \<open>ws_step\<close> interleaves their pieces. The critical sections of the lock contain no \<open>await\<close> and are atomic.
\<close>

section \<open>Events\<close>

record ws_event =
  we_event :: string
  we_device_id :: "string option"
  we_timestamp :: time
  we_data :: dict

definition ws_event_new :: "string \<Rightarrow> string option \<Rightarrow> time \<Rightarrow> dict \<Rightarrow> ws_event result" where
  "ws_event_new event device_id now data =
     (if event \<in> {''telemetry'', ''device_status'', ''discovery''}
      then Inr \<lparr>we_event = event, we_device_id = device_id, we_timestamp = now, we_data = data\<rparr>
      else Inl (ValidationError ''event''))"

section \<open>The manager\<close>

type_synonym socket = nat

definition ws_connect :: "socket \<Rightarrow> socket set \<Rightarrow> socket set" where
  "ws_connect websocket clients = insert websocket clients"

definition ws_disconnect :: "socket \<Rightarrow> socket set \<Rightarrow> socket set" where
  "ws_disconnect websocket clients = clients - {websocket}"

text \<open>The local variables of a broadcast; \<open>bc_position\<close> is the place of the loop in the list it took at the start.\<close>

record broadcast =
  bc_message :: ws_event
  bc_clients :: "socket list"
  bc_position :: nat
  bc_failed :: "socket list"
  bc_finished :: bool

definition broadcast_begin :: "ws_event \<Rightarrow> socket list \<Rightarrow> broadcast" where
  "broadcast_begin message clients =
     \<lparr>bc_message = message, bc_clients = clients, bc_position = 0, bc_failed = [], bc_finished = False\<rparr>"

text \<open>One turn of the loop: \<open>delivered\<close> says whether \<open>send_text\<close> returned within the two seconds.\<close>

definition broadcast_send :: "bool \<Rightarrow> broadcast \<Rightarrow> broadcast" where
  "broadcast_send delivered b =
     b\<lparr>bc_position := Suc (bc_position b),
       bc_failed := (if delivered then bc_failed b else bc_failed b @ [bc_clients b ! bc_position b])\<rparr>"

definition broadcast_end :: "broadcast \<Rightarrow> socket set \<Rightarrow> broadcast \<times> socket set" where
  "broadcast_end b clients = (b\<lparr>bc_finished := True\<rparr>, clients - set (bc_failed b))"

section \<open>Interleavings\<close>

text \<open>
  \<open>wx_opened\<close> and \<open>wx_closed\<close> are the sockets whose endpoint has registered and unregistered them; \<open>wx_wire\<close> is what was delivered,
  by which broadcast to which socket.
\<close>

record ws_state =
  wx_clients :: "socket set"
  wx_broadcasts :: "broadcast list"
  wx_opened :: "socket list"
  wx_closed :: "socket list"
  wx_wire :: "(nat \<times> socket) list"

definition ws_initial :: ws_state where
  "ws_initial = \<lparr>wx_clients = {}, wx_broadcasts = [], wx_opened = [], wx_closed = [], wx_wire = []\<rparr>"

definition socket_open :: "socket \<Rightarrow> ws_state \<Rightarrow> ws_state" where
  "socket_open c w = w\<lparr>wx_clients := ws_connect c (wx_clients w), wx_opened := wx_opened w @ [c]\<rparr>"

text \<open>The receive loop of \<open>telemetry_socket\<close> ends with an exception, and both \<open>except\<close> clauses unregister the socket.\<close>

definition socket_close :: "socket \<Rightarrow> ws_state \<Rightarrow> ws_state" where
  "socket_close c w = w\<lparr>wx_clients := ws_disconnect c (wx_clients w), wx_closed := wx_closed w @ [c]\<rparr>"

definition start_broadcast :: "ws_event \<Rightarrow> socket list \<Rightarrow> ws_state \<Rightarrow> ws_state" where
  "start_broadcast message clients w = w\<lparr>wx_broadcasts := wx_broadcasts w @ [broadcast_begin message clients]\<rparr>"

definition deliver :: "nat \<Rightarrow> bool \<Rightarrow> ws_state \<Rightarrow> ws_state" where
  "deliver i delivered w =
     (let b = wx_broadcasts w ! i in
      w\<lparr>wx_broadcasts := (wx_broadcasts w)[i := broadcast_send delivered b],
        wx_wire := (if delivered then wx_wire w @ [(i, bc_clients b ! bc_position b)] else wx_wire w)\<rparr>)"

definition finish_broadcast :: "nat \<Rightarrow> ws_state \<Rightarrow> ws_state" where
  "finish_broadcast i w =
     (let (b, clients) = broadcast_end (wx_broadcasts w ! i) (wx_clients w) in
      w\<lparr>wx_broadcasts := (wx_broadcasts w)[i := b], wx_clients := clients\<rparr>)"

inductive ws_step :: "ws_state \<Rightarrow> ws_state \<Rightarrow> bool" where
  opened: "c \<notin> set (wx_opened w) \<Longrightarrow> ws_step w (socket_open c w)"
| closed: "c \<in> set (wx_opened w) \<Longrightarrow> c \<notin> set (wx_closed w) \<Longrightarrow> ws_step w (socket_close c w)"
| begun: "ws_event_new event device_id now data = Inr message \<Longrightarrow> distinct clients \<Longrightarrow> set clients = wx_clients w \<Longrightarrow>
    ws_step w (start_broadcast message clients w)"
| sent: "i < length (wx_broadcasts w) \<Longrightarrow> bc_position (wx_broadcasts w ! i) < length (bc_clients (wx_broadcasts w ! i)) \<Longrightarrow>
    ws_step w (deliver i delivered w)"
| ended: "i < length (wx_broadcasts w) \<Longrightarrow> bc_position (wx_broadcasts w ! i) = length (bc_clients (wx_broadcasts w ! i)) \<Longrightarrow>
    \<not> bc_finished (wx_broadcasts w ! i) \<Longrightarrow> ws_step w (finish_broadcast i w)"

inductive_cases ws_stepE: "ws_step w w'"

section \<open>What the dashboards receive\<close>

definition received :: "ws_state \<Rightarrow> nat \<Rightarrow> socket list" where
  "received w i = map snd (filter (\<lambda>e. fst e = i) (wx_wire w))"

definition dropped :: "ws_state \<Rightarrow> socket set" where
  "dropped w = (\<Union>b \<in> set (filter bc_finished (wx_broadcasts w)). set (bc_failed b))"

definition broadcast_ok :: "ws_state \<Rightarrow> nat \<Rightarrow> bool" where
  "broadcast_ok w i = (let b = wx_broadcasts w ! i in
     distinct (bc_clients b) \<and> set (bc_clients b) \<subseteq> set (wx_opened w) \<and> bc_position b \<le> length (bc_clients b) \<and>
     set (bc_failed b) \<subseteq> set (take (bc_position b) (bc_clients b)) \<and>
     received w i = filter (\<lambda>c. c \<notin> set (bc_failed b)) (take (bc_position b) (bc_clients b)) \<and>
     (bc_finished b \<longrightarrow> bc_position b = length (bc_clients b)))"

definition ws_inv :: "ws_state \<Rightarrow> bool" where
  "ws_inv w \<longleftrightarrow> wx_clients w = set (wx_opened w) - set (wx_closed w) - dropped w \<and> set (wx_closed w) \<subseteq> set (wx_opened w) \<and>
     (\<forall>i < length (wx_broadcasts w). broadcast_ok w i) \<and> (\<forall>e \<in> set (wx_wire w). fst e < length (wx_broadcasts w))"

lemma mem_dropped: "c \<in> dropped w \<longleftrightarrow> (\<exists>i < length (wx_broadcasts w). bc_finished (wx_broadcasts w ! i) \<and> c \<in> set (bc_failed (wx_broadcasts w ! i)))"
  by (auto simp: dropped_def in_set_conv_nth)

lemma dropped_opened: "ws_inv w \<Longrightarrow> dropped w \<subseteq> set (wx_opened w)"
  by (auto simp: mem_dropped ws_inv_def broadcast_ok_def Let_def) (meson in_set_takeD subsetD)

lemma ws_initial_inv: "ws_inv ws_initial"
  by (simp add: ws_inv_def ws_initial_def dropped_def)

lemma socket_open_inv: assumes "ws_inv w" "c \<notin> set (wx_opened w)" shows "ws_inv (socket_open c w)"
proof -
  have "dropped (socket_open c w) = dropped w" by (simp add: dropped_def socket_open_def)
  moreover have "broadcast_ok (socket_open c w) i" if "broadcast_ok w i" for i
    using that by (auto simp: broadcast_ok_def socket_open_def received_def Let_def)
  ultimately show ?thesis using assms dropped_opened [OF assms(1)]
    by (auto simp: ws_inv_def) (auto simp: socket_open_def ws_connect_def)
qed

lemma socket_close_inv: assumes "ws_inv w" "c \<in> set (wx_opened w)" shows "ws_inv (socket_close c w)"
proof -
  have "dropped (socket_close c w) = dropped w" by (simp add: dropped_def socket_close_def)
  moreover have "broadcast_ok (socket_close c w) i = broadcast_ok w i" for i
    by (simp add: broadcast_ok_def socket_close_def received_def)
  ultimately show ?thesis using assms by (auto simp: ws_inv_def) (auto simp: socket_close_def ws_disconnect_def)
qed

lemma start_broadcast_inv:
  assumes inv: "ws_inv w" and clients: "distinct clients" "set clients = wx_clients w"
  shows "ws_inv (start_broadcast message clients w)" (is "ws_inv ?w")
proof -
  let ?n = "length (wx_broadcasts w)"
  have dropped: "dropped ?w = dropped w" by (simp add: dropped_def start_broadcast_def broadcast_begin_def)
  have none: "received ?w ?n = []" using inv by (auto simp: received_def start_broadcast_def ws_inv_def filter_empty_conv)
  have "broadcast_ok ?w i" if "i < Suc ?n" for i
  proof (cases "i = ?n")
    case True
    with none clients inv show ?thesis
      by (auto simp: broadcast_ok_def start_broadcast_def broadcast_begin_def ws_inv_def)
  next
    case False
    with that inv have "i < ?n" "broadcast_ok w i" by (auto simp: ws_inv_def)
    then show ?thesis by (simp add: broadcast_ok_def start_broadcast_def received_def nth_append)
  qed
  with dropped inv show ?thesis by (auto simp: ws_inv_def) (auto simp: start_broadcast_def less_SucI)
qed

lemma broadcast_others:
  "i \<noteq> j \<Longrightarrow> broadcast_ok (deliver i delivered w) j = broadcast_ok w j"
  "i \<noteq> j \<Longrightarrow> broadcast_ok (finish_broadcast i w) j = broadcast_ok w j"
  by (auto simp: broadcast_ok_def deliver_def finish_broadcast_def received_def Let_def broadcast_end_def)

lemma deliver_ok:
  assumes i: "i < length (wx_broadcasts w)" and p: "bc_position (wx_broadcasts w ! i) < length (bc_clients (wx_broadcasts w ! i))"
    and ok: "broadcast_ok w i"
  shows "broadcast_ok (deliver i delivered w) i"
proof -
  let ?b = "wx_broadcasts w ! i"
  let ?c = "bc_clients ?b ! bc_position ?b"
  have new: "?c \<notin> set (take (bc_position ?b) (bc_clients ?b))"
    using ok p by (auto simp: broadcast_ok_def Let_def in_set_conv_nth nth_eq_iff_index_eq)
  then have kept: "?c \<notin> set (bc_failed ?b)" using ok by (auto simp: broadcast_ok_def Let_def)
  have next': "take (Suc (bc_position ?b)) (bc_clients ?b) = take (bc_position ?b) (bc_clients ?b) @ [?c]"
    using p by (simp add: take_Suc_conv_app_nth)
  have filter: "filter (\<lambda>c. c \<noteq> ?c \<and> c \<notin> set (bc_failed ?b)) (take (bc_position ?b) (bc_clients ?b)) =
      filter (\<lambda>c. c \<notin> set (bc_failed ?b)) (take (bc_position ?b) (bc_clients ?b))"
    using new by (auto intro: filter_cong)
  show ?thesis
    using ok p i kept filter unfolding broadcast_ok_def deliver_def broadcast_send_def Let_def received_def
    by (auto simp: next')
qed

lemma dropped_update:
  "i < length bs \<Longrightarrow> \<not> bc_finished (bs ! i) \<Longrightarrow> \<not> bc_finished b \<Longrightarrow>
   filter bc_finished (bs[i := b]) = filter bc_finished bs"
  by (induction bs arbitrary: i) (auto split: nat.splits)

lemma deliver_inv:
  assumes inv: "ws_inv w" and i: "i < length (wx_broadcasts w)"
    "bc_position (wx_broadcasts w ! i) < length (bc_clients (wx_broadcasts w ! i))"
  shows "ws_inv (deliver i delivered w)"
proof -
  have ok: "broadcast_ok w i" using inv i(1) by (simp add: ws_inv_def)
  have "\<not> bc_finished (wx_broadcasts w ! i)" using ok i(2) by (auto simp: broadcast_ok_def Let_def)
  then have "dropped (deliver i delivered w) = dropped w"
    unfolding dropped_def by (simp add: deliver_def Let_def dropped_update i(1) broadcast_send_def del: set_filter)
  moreover have "broadcast_ok (deliver i delivered w) j" if "j < length (wx_broadcasts w)" for j
    using that inv deliver_ok [OF i ok] broadcast_others(1) [of i j] by (cases "j = i") (auto simp: ws_inv_def)
  ultimately show ?thesis using inv i(1) by (auto simp: ws_inv_def) (auto simp: deliver_def Let_def split: if_splits)
qed

lemma finish_broadcast_inv:
  assumes inv: "ws_inv w" and i: "i < length (wx_broadcasts w)"
    "bc_position (wx_broadcasts w ! i) = length (bc_clients (wx_broadcasts w ! i))"
  shows "ws_inv (finish_broadcast i w)"
proof -
  let ?w = "finish_broadcast i w"
  have ok: "broadcast_ok ?w j" if "j < length (wx_broadcasts w)" for j
  proof (cases "j = i")
    case True
    from inv i(1) have "broadcast_ok w i" by (simp add: ws_inv_def)
    with True i show ?thesis
      by (auto simp: broadcast_ok_def finish_broadcast_def broadcast_end_def received_def Let_def)
  next
    case False
    with that inv broadcast_others(2) [of i j] show ?thesis by (simp add: ws_inv_def)
  qed
  have "dropped ?w = dropped w \<union> set (bc_failed (wx_broadcasts w ! i))"
  proof (rule set_eqI)
    fix c
    have nth: "wx_broadcasts ?w ! j = (if j = i then (wx_broadcasts w ! i)\<lparr>bc_finished := True\<rparr> else wx_broadcasts w ! j)" for j
      using i(1) by (simp add: finish_broadcast_def broadcast_end_def)
    have "length (wx_broadcasts ?w) = length (wx_broadcasts w)" by (simp add: finish_broadcast_def broadcast_end_def)
    then show "c \<in> dropped ?w \<longleftrightarrow> c \<in> dropped w \<union> set (bc_failed (wx_broadcasts w ! i))"
      using i(1) unfolding mem_dropped nth Un_iff by (auto split: if_splits)
  qed
  with ok inv show ?thesis by (auto simp: ws_inv_def) (auto simp: finish_broadcast_def broadcast_end_def)
qed

lemma ws_reachable_inv: "ws_step\<^sup>*\<^sup>* ws_initial w \<Longrightarrow> ws_inv w"
  by (induction rule: rtranclp_induct)
    (auto simp: ws_initial_inv elim!: ws_stepE
      intro: socket_open_inv socket_close_inv start_broadcast_inv deliver_inv finish_broadcast_inv)

text \<open>C39. However connections, disconnections and broadcasts interleave: a broadcast that has ended delivered its message exactly once,
  in order, to every dashboard it found registered except those whose send failed; those are no longer registered; and
  the registered dashboards are always exactly the opened sockets that were neither closed nor failed in an ended broadcast.
\<close>

theorem broadcast_reaches_dashboards:
  assumes reach: "ws_step\<^sup>*\<^sup>* ws_initial w" and i: "i < length (wx_broadcasts w)" and ended: "bc_finished (wx_broadcasts w ! i)"
  shows "received w i = filter (\<lambda>c. c \<notin> set (bc_failed (wx_broadcasts w ! i))) (bc_clients (wx_broadcasts w ! i)) \<and>
     distinct (received w i) \<and>
     set (bc_failed (wx_broadcasts w ! i)) \<inter> wx_clients w = {} \<and>
     wx_clients w = set (wx_opened w) - set (wx_closed w) - dropped w"
proof -
  from ws_reachable_inv [OF reach] have inv: "ws_inv w" .
  with i have ok: "broadcast_ok w i" by (simp add: ws_inv_def)
  have "set (bc_failed (wx_broadcasts w ! i)) \<subseteq> dropped w" using i ended by (auto simp: mem_dropped)
  with inv ok ended show ?thesis by (auto simp: ws_inv_def broadcast_ok_def Let_def)
qed

definition sample_ws_event :: ws_event where
  "sample_ws_event = \<lparr>we_event = ''telemetry'', we_device_id = None, we_timestamp = 0, we_data = []\<rparr>"

definition sample_ws_run :: ws_state where
  "sample_ws_run = finish_broadcast 0 (deliver 0 False (socket_open 9 (deliver 0 True
     (start_broadcast sample_ws_event [4, 7] (socket_open 7 (socket_open 4 ws_initial))))))"

lemma sample_ws_reachable: "ws_step\<^sup>*\<^sup>* ws_initial sample_ws_run"
proof -
  let ?a = "socket_open 7 (socket_open 4 ws_initial)"
  let ?b = "start_broadcast sample_ws_event [4, 7] ?a"
  let ?c = "socket_open 9 (deliver 0 True ?b)"
  note defs = socket_open_def ws_initial_def ws_connect_def start_broadcast_def broadcast_begin_def deliver_def broadcast_send_def Let_def
  have "ws_step ws_initial (socket_open 4 ws_initial)" by (rule opened) (simp add: defs)
  moreover have "ws_step (socket_open 4 ws_initial) ?a" by (rule opened) (simp add: defs)
  moreover have "ws_step ?a ?b"
    by (rule begun [of "''telemetry''" None 0 "[]"]) (auto simp: defs ws_event_new_def sample_ws_event_def)
  moreover have "ws_step ?b (deliver 0 True ?b)" by (rule sent) (simp_all add: defs)
  moreover have "ws_step (deliver 0 True ?b) ?c" by (rule opened) (simp add: defs)
  moreover have "ws_step ?c (deliver 0 False ?c)" by (rule sent) (simp_all add: defs)
  moreover have "ws_step (deliver 0 False ?c) sample_ws_run" unfolding sample_ws_run_def by (rule ended) (simp_all add: defs)
  ultimately show ?thesis by (meson converse_rtranclp_into_rtranclp rtranclp.rtrancl_refl)
qed

theorem broadcast_reaches_dashboards_witness:
  "received sample_ws_run 0 = [4] \<and> wx_clients sample_ws_run = set (wx_opened sample_ws_run) - set (wx_closed sample_ws_run) - dropped sample_ws_run"
  using broadcast_reaches_dashboards [OF sample_ws_reachable, of 0]
  by (simp add: sample_ws_run_def socket_open_def ws_initial_def ws_connect_def start_broadcast_def broadcast_begin_def deliver_def
      broadcast_send_def finish_broadcast_def broadcast_end_def)

end
