(* ===== verification/Instance_Lock.thy ===== *)
theory Instance_Lock
  imports Telemetry_Service
begin

text \<open>
  The lock that keeps two gateways from owning the same sensors (\<open>gateway/app/instance_lock.py\<close>): an object per process around an
  exclusive, non-blocking file lock of the operating system, which the system frees when the process ends. \<open>hash\<close> is the
  hexadecimal SHA-256 digest and \<open>tmp\<close> the directory of temporary files.
\<close>

section \<open>The lock object\<close>

datatype runtime_error = RuntimeError string

record instance_lock =
  il_path :: string
  il_file :: "nat option"

definition lock_path :: "(string \<Rightarrow> string) \<Rightarrow> string \<Rightarrow> string \<Rightarrow> int \<Rightarrow> string" where
  "lock_path hash tmp cwd port = tmp @ ''/seed-mg24-gateway-'' @ take 20 (hash (cwd @ ''|'' @ int_str port)) @ ''.lock''"

definition gateway_instance_lock :: "(string \<Rightarrow> string) \<Rightarrow> string \<Rightarrow> string \<Rightarrow> string \<Rightarrow> int \<Rightarrow> instance_lock" where
  "gateway_instance_lock hash tmp cwd database_url port = \<lparr>il_path = lock_path hash tmp cwd port, il_file = None\<rparr>"

text \<open>The system: contents of the lock files, the open file that holds each lock, and the next open file.\<close>

record lock_os =
  lo_files :: "string \<Rightarrow> string"
  lo_owner :: "string \<Rightarrow> nat option"
  lo_next :: nat

definition already_running :: runtime_error where
  "already_running = RuntimeError ''Another dashboard instance is already using this database and sensor gateway.''"

text \<open>\<open>usable\<close> says whether the file can be opened, read and written.\<close>

definition lock_acquire :: "bool \<Rightarrow> lock_os \<Rightarrow> instance_lock \<Rightarrow> (runtime_error + unit) \<times> lock_os \<times> instance_lock" where
  "lock_acquire usable os lk =
     (if \<not> usable then (Inl already_running, os, lk)
      else
        let path = il_path lk; handle = lo_next os;
            os1 = os\<lparr>lo_next := Suc handle, lo_files := (lo_files os)(path := (if lo_files os path = '''' then ''0'' else lo_files os path))\<rparr>
        in if lo_owner os path \<noteq> None then (Inl already_running, os1, lk)
           else (Inr (), os1\<lparr>lo_owner := (lo_owner os)(path := Some handle)\<rparr>, lk\<lparr>il_file := Some handle\<rparr>))"

definition unlock :: "string \<Rightarrow> nat \<Rightarrow> lock_os \<Rightarrow> lock_os" where
  "unlock path handle os = (if lo_owner os path = Some handle then os\<lparr>lo_owner := (lo_owner os)(path := None)\<rparr> else os)"

definition lock_release :: "lock_os \<Rightarrow> instance_lock \<Rightarrow> lock_os \<times> instance_lock" where
  "lock_release os lk = (case il_file lk of
     None \<Rightarrow> (os, lk) | Some handle \<Rightarrow> (unlock (il_path lk) handle os, lk\<lparr>il_file := None\<rparr>))"

section \<open>Gateways of one machine\<close>

record machine =
  mn_os :: lock_os
  mn_gateways :: "nat \<Rightarrow> instance_lock option"

definition booted :: "(string \<Rightarrow> string) \<Rightarrow> machine" where
  "booted files = \<lparr>mn_os = \<lparr>lo_files = files, lo_owner = (\<lambda>_. None), lo_next = 0\<rparr>, mn_gateways = (\<lambda>_. None)\<rparr>"

definition on_gateway :: "nat \<Rightarrow> lock_os \<times> instance_lock \<Rightarrow> machine \<Rightarrow> machine" where
  "on_gateway p r m = m\<lparr>mn_os := fst r, mn_gateways := (mn_gateways m)(p := Some (snd r))\<rparr>"

definition gateway_dies :: "nat \<Rightarrow> instance_lock \<Rightarrow> machine \<Rightarrow> machine" where
  "gateway_dies p lk m = m\<lparr>mn_os := fst (lock_release (mn_os m) lk), mn_gateways := (mn_gateways m)(p := None)\<rparr>"

inductive machine_step :: "(string \<Rightarrow> string) \<Rightarrow> string \<Rightarrow> machine \<Rightarrow> machine \<Rightarrow> bool" for hash tmp where
  launched: "mn_gateways m p = None \<Longrightarrow>
    machine_step hash tmp m (on_gateway p (mn_os m, gateway_instance_lock hash tmp cwd database_url port) m)"
| acquired: "mn_gateways m p = Some lk \<Longrightarrow> machine_step hash tmp m (on_gateway p (snd (lock_acquire usable (mn_os m) lk)) m)"
| released: "mn_gateways m p = Some lk \<Longrightarrow> machine_step hash tmp m (on_gateway p (lock_release (mn_os m) lk) m)"
| died: "mn_gateways m p = Some lk \<Longrightarrow> machine_step hash tmp m (gateway_dies p lk m)"

inductive_cases machine_stepE: "machine_step hash tmp m m'"

section \<open>One owner\<close>

definition holds :: "machine \<Rightarrow> nat \<Rightarrow> string \<Rightarrow> nat \<Rightarrow> bool" where
  "holds m p path handle \<longleftrightarrow> (\<exists>lk. mn_gateways m p = Some lk \<and> il_path lk = path \<and> il_file lk = Some handle)"

definition lock_inv :: "machine \<Rightarrow> bool" where
  "lock_inv m \<longleftrightarrow> (\<forall>path handle. lo_owner (mn_os m) path = Some handle \<longleftrightarrow> (\<exists>p. holds m p path handle)) \<and>
     (\<forall>p q path path' handle. holds m p path handle \<longrightarrow> holds m q path' handle \<longrightarrow> p = q) \<and>
     (\<forall>p path handle. holds m p path handle \<longrightarrow> handle < lo_next (mn_os m))"

lemma booted_inv: "lock_inv (booted files)"
  by (simp add: lock_inv_def booted_def holds_def)

lemma holds_on_gateway:
  "holds (on_gateway p r m) q path handle \<longleftrightarrow>
   (if q = p then il_path (snd r) = path \<and> il_file (snd r) = Some handle else holds m q path handle)"
  by (auto simp: holds_def on_gateway_def)

lemma lock_invD:
  assumes "lock_inv m"
  shows "lo_owner (mn_os m) path = Some handle \<longleftrightarrow> (\<exists>p. holds m p path handle)"
    "holds m p path handle \<Longrightarrow> holds m q path' handle \<Longrightarrow> p = q"
    "holds m p path handle \<Longrightarrow> handle < lo_next (mn_os m)"
  using assms unfolding lock_inv_def by blast+

lemma one_holder: "lock_inv m \<Longrightarrow> holds m p path handle \<Longrightarrow> holds m q path handle' \<Longrightarrow> p = q \<and> handle = handle'"
  using lock_invD(1) [of m path handle] lock_invD(1) [of m path handle'] lock_invD(2) [of m p path handle q path] by auto

lemma launched_inv:
  assumes "lock_inv m" "mn_gateways m p = None"
  shows "lock_inv (on_gateway p (mn_os m, gateway_instance_lock hash tmp cwd url port) m)" (is "lock_inv ?m")
proof -
  have "holds ?m = holds m" using assms(2)
    by (intro ext) (auto simp: holds_on_gateway gateway_instance_lock_def, simp add: holds_def)
  then show ?thesis using assms(1) by (simp add: lock_inv_def on_gateway_def)
qed

lemma acquired_inv:
  assumes inv: "lock_inv m" and p: "mn_gateways m p = Some lk"
  shows "lock_inv (on_gateway p (snd (lock_acquire usable (mn_os m) lk)) m)" (is "lock_inv ?m")
proof (cases "usable \<and> lo_owner (mn_os m) (il_path lk) = None")
  case False
  then have r: "snd (snd (lock_acquire usable (mn_os m) lk)) = lk" "lo_owner (fst (snd (lock_acquire usable (mn_os m) lk))) = lo_owner (mn_os m)"
    "lo_next (mn_os m) \<le> lo_next (fst (snd (lock_acquire usable (mn_os m) lk)))"
    by (auto simp: lock_acquire_def Let_def)
  then have "holds ?m = holds m" using p by (intro ext) (auto simp: holds_def on_gateway_def)
  then show ?thesis using inv r by (auto simp: lock_inv_def on_gateway_def) (meson less_le_trans)
next
  case True
  let ?n = "lo_next (mn_os m)"
  have owner: "lo_owner (mn_os ?m) = (lo_owner (mn_os m))(il_path lk := Some ?n)" "lo_next (mn_os ?m) = Suc ?n"
    using True by (simp_all add: on_gateway_def lock_acquire_def Let_def)
  have idle: "\<not> holds m q (il_path lk) h" for q h using lock_invD(1) [OF inv, of "il_path lk" h] True by auto
  have holds: "holds ?m q path h \<longleftrightarrow> (if q = p then path = il_path lk \<and> h = ?n else holds m q path h)" for q path h
    using True by (auto simp: holds_on_gateway lock_acquire_def Let_def)
  have none: "\<not> holds m p path h" for path h using idle p by (auto simp: holds_def)
  have "lo_owner (mn_os ?m) path = Some h \<longleftrightarrow> (\<exists>q. holds ?m q path h)" for path h
    using lock_invD(1) [OF inv, of path h] idle none unfolding owner(1) holds by (cases "path = il_path lk") (simp, metis, simp, metis)
  moreover have "q = q'" if "holds ?m q path h" "holds ?m q' path' h" for q q' path path' h
    using that lock_invD(2,3) [OF inv] unfolding holds by (metis less_irrefl)
  moreover have "h < Suc ?n" if "holds ?m q path h" for q path h
    using that lock_invD(3) [OF inv] by (auto simp: holds less_SucI split: if_splits)
  ultimately show ?thesis unfolding lock_inv_def owner(2) by blast
qed

lemma unlocked_inv:
  assumes inv: "lock_inv m" and p: "mn_gateways m p = Some lk" and os: "mn_os m' = fst (lock_release (mn_os m) lk)"
    and others: "\<And>q path h. holds m' q path h \<longleftrightarrow> q \<noteq> p \<and> holds m q path h"
  shows "lock_inv m'"
proof -
  have next': "lo_next (mn_os m') = lo_next (mn_os m)" by (simp add: os lock_release_def unlock_def split: option.split)
  have mine: "holds m p path h \<longleftrightarrow> path = il_path lk \<and> il_file lk = Some h" for path h using p by (auto simp: holds_def)
  have "lo_owner (mn_os m') path = Some h \<longleftrightarrow> (\<exists>q. holds m' q path h)" for path h
  proof (cases "\<exists>h'. holds m p path h'")
    case True
    then obtain h' where h': "il_file lk = Some h'" "path = il_path lk" "lo_owner (mn_os m) path = Some h'"
      using lock_invD(1) [OF inv] mine by blast
    then have "lo_owner (mn_os m') path = None" by (simp add: os lock_release_def unlock_def)
    moreover have "\<not> holds m' q path h" for q using one_holder [OF inv, of p path h' q h] h' mine others by auto
    ultimately show ?thesis by simp
  next
    case False
    then have "lo_owner (mn_os m') path = lo_owner (mn_os m) path"
      using mine by (auto simp: os lock_release_def unlock_def split: option.splits)
    with False lock_invD(1) [OF inv, of path h] show ?thesis by (metis others)
  qed
  then show ?thesis using lock_invD(2,3) [OF inv] others unfolding lock_inv_def next' by blast
qed

lemma released_inv:
  assumes "lock_inv m" "mn_gateways m p = Some lk"
  shows "lock_inv (on_gateway p (lock_release (mn_os m) lk) m)" "lock_inv (gateway_dies p lk m)"
  by (rule unlocked_inv [OF assms]; auto simp: on_gateway_def gateway_dies_def holds_def lock_release_def assms(2)
      split: option.splits if_splits)+

lemma machine_reachable_inv: "(machine_step hash tmp)\<^sup>*\<^sup>* (booted files) m \<Longrightarrow> lock_inv m"
  by (induction rule: rtranclp_induct)
    (auto simp: booted_inv elim!: machine_stepE intro: launched_inv acquired_inv released_inv)


definition sample_machine :: machine where
  "sample_machine =
     (let lock = gateway_instance_lock id ''/tmp'' ''/srv'' ''sqlite:///a.db'' 8000;
          first = on_gateway 0 (mn_os (booted (\<lambda>_. '''')), lock) (booted (\<lambda>_. ''''));
          owned = on_gateway 0 (snd (lock_acquire True (mn_os first) lock)) first
      in on_gateway 1 (mn_os owned, gateway_instance_lock id ''/tmp'' ''/srv'' ''sqlite:///b.db'' 8000) owned)"

lemma sample_machine_reachable: "(machine_step id ''/tmp'')\<^sup>*\<^sup>* (booted (\<lambda>_. '''')) sample_machine"
proof -
  let ?b = "booted (\<lambda>_. '''')" and ?l = "gateway_instance_lock id ''/tmp'' ''/srv'' ''sqlite:///a.db'' 8000"
  let ?f = "on_gateway 0 (mn_os ?b, ?l) ?b"
  let ?o = "on_gateway 0 (snd (lock_acquire True (mn_os ?f) ?l)) ?f"
  have "machine_step id ''/tmp'' ?b ?f" by (rule launched) (simp add: booted_def)
  moreover have "machine_step id ''/tmp'' ?f ?o" by (rule acquired) (simp add: on_gateway_def)
  moreover have "machine_step id ''/tmp'' ?o sample_machine"
    unfolding sample_machine_def Let_def by (rule launched) (simp add: on_gateway_def booted_def)
  ultimately show ?thesis by (meson converse_rtranclp_into_rtranclp rtranclp.rtrancl_refl)
qed


end
