(* ===== verification/Database.thy ===== *)
theory Database
  imports Scanner Telemetry_Service
begin

text \<open>
  The schema and its migration (\<open>gateway/app/database.py\<close>): creation of the declared tables, the durable identity of the gateway and the
  migration of databases that an earlier release created. A database is its tables with their columns and rows, and the names of its
  indexes and triggers; a statement that fails leaves the block of its transaction without effect.
  UUIDs are arguments: \<open>canonical\<close> is \<open>str(UUID(text))\<close> and \<open>uuid5\<close> the name-based UUID.
\<close>

section \<open>A relational database\<close>

record sql_table =
  st_columns :: "string list"
  st_rows :: "dict list"

record sql_db =
  sq_tables :: "(string \<times> sql_table) list"
  sq_indexes :: "string set"
  sq_triggers :: "string set"

definition table_of :: "sql_db \<Rightarrow> string \<Rightarrow> sql_table option" where
  "table_of s name = map_of (sq_tables s) name"

definition upd_table :: "sql_db \<Rightarrow> string \<Rightarrow> (sql_table \<Rightarrow> sql_table) \<Rightarrow> sql_db" where
  "upd_table s name f = (case table_of s name of None \<Rightarrow> s | Some t \<Rightarrow> s\<lparr>sq_tables := assign (sq_tables s) name (f t)\<rparr>)"

definition add_index :: "string \<Rightarrow> sql_db \<Rightarrow> sql_db" where
  "add_index name s = s\<lparr>sq_indexes := insert name (sq_indexes s)\<rparr>"

definition add_trigger :: "string \<Rightarrow> sql_db \<Rightarrow> sql_db" where
  "add_trigger name s = s\<lparr>sq_triggers := insert name (sq_triggers s)\<rparr>"

definition drop_index :: "string \<Rightarrow> sql_db \<Rightarrow> sql_db" where
  "drop_index name s = s\<lparr>sq_indexes := sq_indexes s - {name}\<rparr>"

text \<open>\<open>ALTER TABLE ... ADD COLUMN\<close> for the columns that are missing; existing rows get the default.\<close>

definition add_column :: "string \<times> json \<Rightarrow> sql_table \<Rightarrow> sql_table" where
  "add_column a t = t\<lparr>st_columns := st_columns t @ [fst a], st_rows := map (\<lambda>r. dput r (fst a) (snd a)) (st_rows t)\<rparr>"

definition add_missing :: "(string \<times> json) list \<Rightarrow> sql_table \<Rightarrow> sql_table" where
  "add_missing additions t = fold add_column (filter (\<lambda>a. fst a \<notin> set (st_columns t)) additions) t"

section \<open>The declared tables\<close>

text \<open>The tables of \<open>models.py\<close> with their columns and the names of their indexes.\<close>

definition declared_tables :: "(string \<times> string list \<times> string list) list" where
  "declared_tables = [
      (''registered_devices'', [''id'', ''device_id'', ''display_name'', ''device_type'', ''ble_address'',
         ''ble_advertised_name'', ''enabled'', ''archived'', ''location'', ''description'', ''firmware_version'',
         ''telemetry_schema_version'', ''sensor_package_version'', ''protocol_version'', ''configuration_schema_version'',
         ''build_identifier'', ''firmware_git_commit'', ''compatibility_status'', ''compatibility_message'', ''created_at'',
         ''updated_at'', ''last_seen_at'', ''last_connected_at'', ''connection_status'', ''hardware_id'',
         ''lifecycle_state'', ''removed_at'', ''removal_reason'', ''factory_reset_status''],
         [''ix_registered_devices_device_id'', ''ix_registered_devices_ble_address'', ''ix_registered_devices_hardware_id'',
         ''ix_registered_devices_lifecycle_state'']),
      (''gateway_identity'', [''id'', ''gateway_id'', ''created_at''], []),
      (''sensor_installations'', [''id'', ''installation_id'', ''node_id'', ''device_id'', ''display_name'',
         ''sensor_profile_id'', ''sensor_profile_version'', ''interface_id'', ''enabled'', ''archived'', ''location'',
         ''description'', ''configuration_json'', ''previous_configuration_json'', ''calibration_status'',
         ''verification_status'', ''provisioning_state'', ''provisioning_error'', ''active_transaction_id'', ''created_at'',
         ''updated_at'', ''last_seen_at'', ''last_valid_reading_at''], [''ix_installations_node_interface'',
         ''ix_sensor_installations_installation_id'', ''ix_sensor_installations_device_id'',
         ''ix_sensor_installations_provisioning_state'', ''ix_sensor_installations_active_transaction_id'']),
      (''provisioning_attempts'', [''id'', ''transaction_id'', ''installation_id'', ''requested_configuration_json'',
         ''applied_configuration_json'', ''state'', ''error'', ''created_at'', ''updated_at''],
         [''ix_provisioning_installation_created'', ''ix_provisioning_attempts_transaction_id'']),
      (''audit_events'', [''id'', ''event_type'', ''subject_id'', ''detail_json'', ''created_at''],
         [''ix_audit_events_event_type'', ''ix_audit_events_created_at'']),
      (''device_lifecycle_events'', [''id'', ''operation_id'', ''event_type'', ''device_id'', ''display_name'',
         ''hardware_id'', ''ble_address'', ''connectivity_state'', ''method'', ''factory_reset_requested'', ''result'',
         ''detail_json'', ''created_at''], [''ix_device_lifecycle_subject_created'',
         ''ix_device_lifecycle_events_operation_id'', ''ix_device_lifecycle_events_event_type'',
         ''ix_device_lifecycle_events_device_id'', ''ix_device_lifecycle_events_created_at'']),
      (''sensor_reregistration_workflows'', [''operation_id'', ''source_record_id'', ''source_device_id'',
         ''source_display_name'', ''hardware_id'', ''source_ble_address'', ''state'', ''selected_port'',
         ''reset_operation_id'', ''backup_status'', ''backup_json'', ''registration_choice'', ''target_device_id'',
         ''target_display_name'', ''target_location'', ''target_ble_address'', ''configuration_json'', ''progress_json'',
         ''result_json'', ''error_code'', ''error_message'', ''started_at'', ''updated_at''],
         [''ix_sensor_reregistration_workflows_source_device_id'', ''ix_sensor_reregistration_workflows_hardware_id'',
         ''ix_sensor_reregistration_workflows_state'']),
      (''node_firmware_history'', [''id'', ''node_id'', ''sensor_package_version'', ''firmware_version'',
         ''protocol_version'', ''configuration_schema_version'', ''build_identifier'', ''git_commit'',
         ''compatibility_status'', ''first_seen_at'', ''last_seen_at''], [''ix_firmware_history_node_seen'',
         ''ix_node_firmware_history_node_id'']),
      (''readings'', [''id'', ''reading_uuid'', ''gateway_id'', ''registered_device_id'', ''received_at'', ''measured_at'',
         ''measured_at_device_uptime'', ''device_uptime_ms'', ''sequence_number'', ''session_id'', ''record_type'',
         ''channel'', ''raw_value'', ''normalized_value'', ''unit'', ''quality'', ''payload_json'', ''delayed'',
         ''installation_id'', ''interface_id''], [''ix_readings_device_received'', ''ix_readings_device_channel_received'',
         ''ix_readings_device_measured'', ''ix_readings_installation_received'',
         ''ix_readings_installation_channel_received'', ''ix_readings_channel_received'', ''ix_readings_gateway_received'',
         ''ix_readings_installation_id'']),
      (''vibration_windows'', [''id'', ''window_uuid'', ''gateway_id'', ''registered_device_id'', ''installation_id'',
         ''session_id'', ''window_sequence'', ''observed_at'', ''device_uptime_ms'', ''schema_version'',
         ''algorithm_version'', ''baseline_version'', ''configured_sample_rate_hz'', ''effective_sample_rate_hz'',
         ''fft_size'', ''validity'', ''accel_rms_x_g'', ''accel_rms_y_g'', ''accel_rms_z_g'', ''accel_peak_x_g'',
         ''accel_peak_y_g'', ''accel_peak_z_g'', ''crest_x'', ''crest_y'', ''crest_z'', ''kurtosis_x'', ''kurtosis_y'',
         ''kurtosis_z'', ''dominant_frequency_x_hz'', ''dominant_frequency_y_hz'', ''dominant_frequency_z_hz'',
         ''dominant_amplitude_x_g'', ''dominant_amplitude_y_g'', ''dominant_amplitude_z_g'', ''gyro_rms_x_dps'',
         ''gyro_rms_y_dps'', ''gyro_rms_z_dps''], [''ix_vibration_device_observed'', ''ix_vibration_installation_observed'']),
      (''vibration_baselines'', [''id'', ''registered_device_id'', ''installation_id'', ''baseline_version'',
         ''algorithm_version'', ''status'', ''sample_count'', ''minimum_samples'', ''statistics_json'', ''last_session_id'',
         ''last_window_sequence'', ''created_at'', ''established_at'', ''reason'', ''last_relearn_request_id'',
         ''updated_at''], [''ix_vibration_baselines_registered_device_id'', ''ix_vibration_baselines_installation_id'']),
      (''vibration_baseline_history'', [''id'', ''registered_device_id'', ''installation_id'', ''baseline_version'',
         ''algorithm_version'', ''status'', ''sample_count'', ''minimum_samples'', ''statistics_json'', ''created_at'',
         ''established_at'', ''superseded_at'', ''reason''], [''ix_vibration_baseline_history_device_created'']),
      (''vibration_conditions'', [''id'', ''registered_device_id'', ''installation_id'', ''baseline_id'', ''state'',
         ''baseline_similarity_score'', ''factors_json'', ''pending_state'', ''pending_count'', ''latest_window_sequence'',
         ''evaluated_at'', ''updated_at''], [])]"

definition create_table :: "string \<times> string list \<times> string list \<Rightarrow> sql_db \<Rightarrow> sql_db" where
  "create_table d s = (case d of (name, columns, indexes) \<Rightarrow>
     if table_of s name \<noteq> None then s
     else s\<lparr>sq_tables := sq_tables s @ [(name, \<lparr>st_columns = columns, st_rows = []\<rparr>)],
            sq_indexes := sq_indexes s \<union> set indexes\<rparr>)"

text \<open>\<open>Base.metadata.create_all\<close>.\<close>

definition create_all :: "sql_db \<Rightarrow> sql_db" where
  "create_all s = fold create_table declared_tables s"

section \<open>The identity of the gateway\<close>

definition identity_rows :: "sql_db \<Rightarrow> dict list" where
  "identity_rows s = (case table_of s ''gateway_identity'' of
     None \<Rightarrow> [] | Some t \<Rightarrow> filter (\<lambda>r. dget r ''id'' = JInt 1) (st_rows t))"

definition stored_gateway_id :: "sql_db \<Rightarrow> string option" where
  "stored_gateway_id s = (case identity_rows s of [] \<Rightarrow> None | r # _ \<Rightarrow> json_str (dget r ''gateway_id''))"

definition insert_identity :: "string \<Rightarrow> json \<Rightarrow> sql_db \<Rightarrow> sql_db" where
  "insert_identity gateway_id now s = upd_table s ''gateway_identity'' (\<lambda>t. t\<lparr>st_rows := st_rows t @
     [[(''id'', JInt 1), (''gateway_id'', JStr gateway_id), (''created_at'', now)]]\<rparr>)"

text \<open>\<open>fresh\<close> is the text of \<open>uuid4()\<close>. A row with an empty identity makes the insertion violate the primary key.\<close>

definition ensure_gateway_identity ::
  "(string \<Rightarrow> string option) \<Rightarrow> string \<Rightarrow> json \<Rightarrow> sql_db \<Rightarrow> string option \<Rightarrow> string result \<times> sql_db" where
  "ensure_gateway_identity canonical fresh now s configured =
     (case (case configured of
              None \<Rightarrow> Inr None
            | Some c \<Rightarrow> (case canonical c of None \<Rightarrow> Inl (ValueError ''badly formed hexadecimal UUID string'') | Some u \<Rightarrow> Inr (Some u))) of
        Inl e \<Rightarrow> (Inl e, s)
      | Inr wanted \<Rightarrow>
          if truthy (stored_gateway_id s)
          then if truthy wanted \<and> wanted \<noteq> stored_gateway_id s
               then (Inl (ValueError ''configured gateway_id does not match the identity persisted in this database''), s)
               else (Inr (the (stored_gateway_id s)), s)
          else if identity_rows s \<noteq> [] then (Inl (IntegrityError ''UNIQUE constraint failed: gateway_identity.id''), s)
          else let gateway_id = (if truthy wanted then the wanted else fresh)
               in (Inr gateway_id, insert_identity gateway_id now s))"

section \<open>The migration\<close>

definition reading_additions :: "(string \<times> json) list" where
  "reading_additions = [(''installation_id'', JNull), (''interface_id'', JNull), (''gateway_id'', JNull), (''reading_uuid'', JNull),
     (''measured_at'', JNull)]"

definition reading_indexes :: "(string \<times> string list) list" where
  "reading_indexes = [(''ix_readings_installation_received'', [''installation_id'', ''received_at'']),
     (''ix_readings_installation_channel_received'', [''installation_id'', ''channel'', ''received_at'']),
     (''ix_readings_channel_received'', [''channel'', ''received_at'']),
     (''ix_readings_device_measured'', [''registered_device_id'', ''measured_at'']),
     (''ix_readings_gateway_received'', [''gateway_id'', ''received_at''])]"

definition migrate_readings :: "sql_db \<Rightarrow> sql_db" where
  "migrate_readings s =
     (case table_of s ''readings'' of
        None \<Rightarrow> s
      | Some t \<Rightarrow>
          fold add_index (map fst (filter (\<lambda>i. set (snd i) \<subseteq> set (st_columns t) \<union> set (map fst reading_additions)) reading_indexes))
            (upd_table s ''readings'' (add_missing reading_additions)))"

text \<open>\<open>UPDATE readings SET gateway_id = ... WHERE gateway_id IS NULL\<close>.\<close>

definition fill_gateway :: "string \<Rightarrow> dict list \<Rightarrow> dict list" where
  "fill_gateway g rows = map (\<lambda>r. if dget r ''gateway_id'' = JNull then dput r ''gateway_id'' (JStr g) else r) rows"

definition null_ids :: "dict list \<Rightarrow> int list" where
  "null_ids rows = concat (map (\<lambda>r. case dget r ''id'' of
     JInt i \<Rightarrow> if dget r ''reading_uuid'' = JNull then [i] else [] | _ \<Rightarrow> []) rows)"

text \<open>\<open>SELECT id ... WHERE reading_uuid IS NULL ORDER BY id LIMIT 10000\<close>.\<close>

definition next_batch :: "dict list \<Rightarrow> int list" where
  "next_batch rows = take 10000 (sort (null_ids rows))"

definition set_uuid :: "int \<Rightarrow> string \<Rightarrow> dict list \<Rightarrow> dict list" where
  "set_uuid i u rows = map (\<lambda>r. if dget r ''id'' = JInt i then dput r ''reading_uuid'' (JStr u) else r) rows"

fun stamp :: "(int \<Rightarrow> string result) \<Rightarrow> int list \<Rightarrow> dict list \<Rightarrow> dict list result" where
  "stamp uuid [] rows = Inr rows"
| "stamp uuid (i # ids) rows = bind_result (uuid i) (\<lambda>u. stamp uuid ids (set_uuid i u rows))"

lemma null_ids_set_uuid: "null_ids (set_uuid i u rows) = filter (\<lambda>j. j \<noteq> i) (null_ids rows)"
  by (induction rows) (auto simp: null_ids_def set_uuid_def dget_dput split: json.splits)

lemma null_ids_stamp: "stamp uuid ids rows = Inr rows' \<Longrightarrow> null_ids rows' = filter (\<lambda>j. j \<notin> set ids) (null_ids rows)"
  by (induction uuid ids rows arbitrary: rows' rule: stamp.induct)
    (auto simp: bind_result_Inr_iff null_ids_set_uuid intro!: filter_cong)

text \<open>The loop \<open>while ids\<close>: every turn gives an identifier to each row of its batch, so fewer rows are left.\<close>

function backfill_uuids :: "(int \<Rightarrow> string result) \<Rightarrow> dict list \<Rightarrow> dict list result" where
  "backfill_uuids uuid rows =
     (if next_batch rows = [] then Inr rows
      else case stamp uuid (next_batch rows) rows of Inl e \<Rightarrow> Inl e | Inr rows' \<Rightarrow> backfill_uuids uuid rows')"
  by pat_completeness auto
termination
proof (relation "measure (\<lambda>(uuid, rows). length (null_ids rows))", simp)
  fix uuid rows rows'
  assume batch: "next_batch rows \<noteq> []" and run: "stamp uuid (next_batch rows) rows = Inr rows'"
  have "set (next_batch rows) \<subseteq> set (null_ids rows)" by (auto simp: next_batch_def dest: in_set_takeD)
  with batch obtain i where i: "i \<in> set (null_ids rows)" "i \<in> set (next_batch rows)" by (cases "next_batch rows") auto
  then have "length (filter (\<lambda>j. j \<notin> set (next_batch rows)) (null_ids rows)) < length (null_ids rows)"
    by (intro length_filter_less [of i]) auto
  then show "((uuid, rows'), (uuid, rows)) \<in> measure (\<lambda>(uuid, rows). length (null_ids rows))"
    by (simp add: null_ids_stamp [OF run])
qed

declare backfill_uuids.simps [simp del]

text \<open>\<open>uuid5 g name\<close> is \<open>str(uuid5(UUID(g), name))\<close>, which fails when \<open>g\<close> is not a UUID.\<close>

definition legacy_uuid :: "(string \<Rightarrow> string \<Rightarrow> string result) \<Rightarrow> string \<Rightarrow> int \<Rightarrow> string result" where
  "legacy_uuid uuid5 g i = uuid5 g (''legacy-reading:'' @ int_str i)"

text \<open>An index or constraint on \<open>reading_uuid\<close> makes the statement that repeats a value fail; NULLs are not compared.\<close>

definition reading_uuids :: "dict list \<Rightarrow> json list" where
  "reading_uuids rows = filter (\<lambda>v. v \<noteq> JNull) (map (\<lambda>r. dget r ''reading_uuid'') rows)"

definition unique_uuid_index :: "dict list \<Rightarrow> unit result" where
  "unique_uuid_index rows =
     (if distinct (reading_uuids rows) then Inr () else Inl (IntegrityError ''UNIQUE constraint failed: readings.reading_uuid''))"

definition backfill_readings :: "(string \<Rightarrow> string \<Rightarrow> string result) \<Rightarrow> sql_db \<Rightarrow> unit result \<times> sql_db" where
  "backfill_readings uuid5 s =
     (case (table_of s ''readings'', stored_gateway_id s) of
        (Some t, Some g) \<Rightarrow>
          if g = '''' then (Inr (), s)
          else (case bind_result (backfill_uuids (legacy_uuid uuid5 g) (fill_gateway g (st_rows t)))
                       (\<lambda>rows. bind_result (unique_uuid_index rows) (\<lambda>_. Inr rows)) of
             Inl e \<Rightarrow> (Inl e, s)
           | Inr rows \<Rightarrow> (Inr (), add_index ''ux_readings_reading_uuid'' (upd_table s ''readings'' (\<lambda>t. t\<lparr>st_rows := rows\<rparr>))))
      | _ \<Rightarrow> (Inr (), s))"

definition device_additions :: "(string \<times> json) list" where
  "device_additions = [(''sensor_package_version'', JNull), (''protocol_version'', JNull), (''configuration_schema_version'', JNull),
     (''build_identifier'', JNull), (''firmware_git_commit'', JNull), (''compatibility_status'', JNull), (''compatibility_message'', JNull),
     (''enabled'', JInt 1), (''archived'', JInt 0), (''hardware_id'', JNull), (''lifecycle_state'', JStr ''active''),
     (''removed_at'', JNull), (''removal_reason'', JNull), (''factory_reset_status'', JStr ''not_requested'')]"

definition migrate_devices :: "sql_db \<Rightarrow> sql_db" where
  "migrate_devices s =
     (if table_of s ''registered_devices'' = None then s
      else (add_index ''ix_registered_devices_lifecycle_state''
           \<circ> add_trigger ''trg_registered_devices_hardware_update'' \<circ> add_trigger ''trg_registered_devices_hardware_insert''
           \<circ> add_index ''ix_registered_devices_hardware_id'' \<circ> drop_index ''ix_registered_devices_hardware_id'')
           (upd_table s ''registered_devices'' (add_missing device_additions)))"

definition migrate_baselines :: "sql_db \<Rightarrow> sql_db" where
  "migrate_baselines s = upd_table s ''vibration_baselines'' (add_missing [(''reason'', JNull), (''last_relearn_request_id'', JNull)])"

definition migrate_windows :: "sql_db \<Rightarrow> sql_db" where
  "migrate_windows s = upd_table s ''vibration_windows'' (add_missing [(''baseline_version'', JNull)])"

definition migrate_existing_database :: "bool \<Rightarrow> (string \<Rightarrow> string \<Rightarrow> string result) \<Rightarrow> sql_db \<Rightarrow> unit result \<times> sql_db" where
  "migrate_existing_database sqlite uuid5 s =
     (if \<not> sqlite then (Inr (), s)
      else case backfill_readings uuid5 (migrate_readings s) of
        (Inl e, s') \<Rightarrow> (Inl e, s')
      | (Inr _, s') \<Rightarrow> (Inr (), migrate_windows (migrate_baselines (migrate_devices s'))))"

definition initialize_database ::
  "bool \<Rightarrow> (string \<Rightarrow> string option) \<Rightarrow> (string \<Rightarrow> string \<Rightarrow> string result) \<Rightarrow> string \<Rightarrow> json \<Rightarrow> sql_db \<Rightarrow> string option
   \<Rightarrow> string result \<times> sql_db" where
  "initialize_database sqlite canonical uuid5 fresh now s configured =
     (case ensure_gateway_identity canonical fresh now (create_all s) configured of
        (Inl e, s') \<Rightarrow> (Inl e, s')
      | (Inr g, s') \<Rightarrow>
          (case migrate_existing_database sqlite uuid5 s' of
             (Inl e, s'') \<Rightarrow> (Inl e, s'') | (Inr _, s'') \<Rightarrow> (Inr g, s'')))"

section \<open>Tables after updates\<close>

lemma assign_same: "map_of d k = Some v \<Longrightarrow> assign d k v = d"
  by (induction d) auto

lemma table_of_upd [simp, table_simps]:
  "table_of (upd_table s n f) m = (if m = n then map_option f (table_of s n) else table_of s m)"
  by (auto simp: upd_table_def table_of_def map_of_assign split: option.splits)

lemma upd_table_same: "(\<And>t. table_of s n = Some t \<Longrightarrow> f t = t) \<Longrightarrow> upd_table s n f = s"
  by (auto simp: upd_table_def table_of_def assign_same split: option.splits)

lemma table_of_index [simp, table_simps]:
  "table_of (add_index i s) n = table_of s n" "table_of (add_trigger i s) n = table_of s n" "table_of (drop_index i s) n = table_of s n"
  "table_of (fold add_index is s) n = table_of s n"
  by (simp_all add: table_of_def add_index_def add_trigger_def drop_index_def)
    (induction "is" arbitrary: s; simp add: add_index_def)+

lemma names_simps [simp]:
  "sq_indexes (upd_table s n f) = sq_indexes s" "sq_triggers (upd_table s n f) = sq_triggers s"
  "sq_indexes (add_index i s) = insert i (sq_indexes s)" "sq_triggers (add_index i s) = sq_triggers s"
  "sq_indexes (add_trigger i s) = sq_indexes s" "sq_triggers (add_trigger i s) = insert i (sq_triggers s)"
  "sq_indexes (drop_index i s) = sq_indexes s - {i}" "sq_triggers (drop_index i s) = sq_triggers s"
  by (simp_all add: upd_table_def add_index_def add_trigger_def drop_index_def split: option.split)

lemma fold_add_index [simp]:
  "sq_indexes (fold add_index is s) = set is \<union> sq_indexes s" "sq_triggers (fold add_index is s) = sq_triggers s"
  by (induction "is" arbitrary: s) auto

lemma add_index_same: "i \<in> sq_indexes s \<Longrightarrow> add_index i s = s" "i \<in> sq_triggers s \<Longrightarrow> add_trigger i s = s"
  by (simp_all add: add_index_def add_trigger_def insert_absorb)

lemma fold_add_index_same: "set is \<subseteq> sq_indexes s \<Longrightarrow> fold add_index is s = s"
  by (induction "is") (simp_all add: add_index_same)

lemma drop_add_index: "i \<in> sq_indexes s \<Longrightarrow> add_index i (drop_index i s) = s"
  by (simp add: add_index_def drop_index_def insert_absorb)

lemma stored_gateway_id_cong: "table_of s' ''gateway_identity'' = table_of s ''gateway_identity'' \<Longrightarrow> stored_gateway_id s' = stored_gateway_id s"
  by (simp add: stored_gateway_id_def identity_rows_def)

lemma add_columns_columns: "st_columns (fold add_column as t) = st_columns t @ map fst as"
  by (induction as arbitrary: t) (simp_all add: add_column_def)

lemma add_missing_columns: "set (st_columns (add_missing as t)) = set (st_columns t) \<union> set (map fst as)"
  by (auto simp: add_missing_def add_columns_columns)

lemma add_missing_same: "set (map fst as) \<subseteq> set (st_columns t) \<Longrightarrow> add_missing as t = t"
proof -
  assume "set (map fst as) \<subseteq> set (st_columns t)"
  then have none: "filter (\<lambda>a. fst a \<notin> set (st_columns t)) as = []" by (auto simp: filter_empty_conv)
  show ?thesis unfolding add_missing_def none by simp
qed

section \<open>Starting on an initialised database changes nothing\<close>

lemma fill_gateway_no_null: "r \<in> set (fill_gateway g rows) \<Longrightarrow> dget r ''gateway_id'' \<noteq> JNull"
  by (auto simp: fill_gateway_def dget_dput split: if_splits)

lemma fill_gateway_same: "(\<And>r. r \<in> set rows \<Longrightarrow> dget r ''gateway_id'' \<noteq> JNull) \<Longrightarrow> fill_gateway g rows = rows"
  by (simp add: fill_gateway_def map_idI)

lemma set_uuid_gateway:
  "\<forall>r \<in> set rows. dget r ''gateway_id'' \<noteq> JNull \<Longrightarrow> \<forall>r \<in> set (set_uuid i u rows). dget r ''gateway_id'' \<noteq> JNull"
  by (auto simp: set_uuid_def dget_dput)

lemma stamp_keeps_gateway:
  "stamp uuid ids rows = Inr rows' \<Longrightarrow> \<forall>r \<in> set rows. dget r ''gateway_id'' \<noteq> JNull \<Longrightarrow> \<forall>r \<in> set rows'. dget r ''gateway_id'' \<noteq> JNull"
proof (induction uuid ids rows arbitrary: rows' rule: stamp.induct)
  case (2 uuid i ids rows)
  from "2.prems"(1) obtain u where "uuid i = Inr u" "stamp uuid ids (set_uuid i u rows) = Inr rows'" by (auto simp: bind_result_Inr_iff)
  with "2.IH" set_uuid_gateway [OF "2.prems"(2)] show ?case by blast
qed simp

lemma backfill_uuids_result:
  "backfill_uuids uuid rows = Inr rows' \<Longrightarrow> \<forall>r \<in> set rows. dget r ''gateway_id'' \<noteq> JNull \<Longrightarrow>
   null_ids rows' = [] \<and> (\<forall>r \<in> set rows'. dget r ''gateway_id'' \<noteq> JNull)"
proof (induction uuid rows rule: backfill_uuids.induct)
  case (1 uuid rows)
  show ?case
  proof (cases "next_batch rows = []")
    case True
    then have "null_ids rows = []" by (simp add: next_batch_def flip: set_empty [of "sort _"])
    with 1 True show ?thesis by (simp add: backfill_uuids.simps [of uuid rows])
  next
    case False
    with "1.prems" obtain r1 where "stamp uuid (next_batch rows) rows = Inr r1" "backfill_uuids uuid r1 = Inr rows'"
      by (simp add: backfill_uuids.simps [of uuid rows] split: sum.splits)
    with 1 False show ?thesis by (meson stamp_keeps_gateway)
  qed
qed

lemma backfill_uuids_same: "null_ids rows = [] \<Longrightarrow> backfill_uuids uuid rows = Inr rows"
  by (simp add: backfill_uuids.simps [of uuid rows] next_batch_def)

text \<open>What holds of a database after the migration; each step of the migration leaves such a database as it is.\<close>

definition has_columns :: "sql_db \<Rightarrow> string \<Rightarrow> (string \<times> json) list \<Rightarrow> bool" where
  "has_columns s name additions = (case table_of s name of None \<Rightarrow> True | Some t \<Rightarrow> set (map fst additions) \<subseteq> set (st_columns t))"

definition readings_migrated :: "sql_db \<Rightarrow> bool" where
  "readings_migrated s = (has_columns s ''readings'' reading_additions \<and>
     (case table_of s ''readings'' of None \<Rightarrow> True
      | Some t \<Rightarrow> \<forall>i \<in> set reading_indexes. set (snd i) \<subseteq> set (st_columns t) \<longrightarrow> fst i \<in> sq_indexes s))"

definition readings_identified :: "sql_db \<Rightarrow> bool" where
  "readings_identified s = (case (table_of s ''readings'', stored_gateway_id s) of
     (Some t, Some g) \<Rightarrow> g = '''' \<or> (null_ids (st_rows t) = [] \<and> (\<forall>r \<in> set (st_rows t). dget r ''gateway_id'' \<noteq> JNull) \<and>
        distinct (reading_uuids (st_rows t)) \<and> ''ux_readings_reading_uuid'' \<in> sq_indexes s)
   | _ \<Rightarrow> True)"

definition devices_migrated :: "sql_db \<Rightarrow> bool" where
  "devices_migrated s = (has_columns s ''registered_devices'' device_additions \<and>
     (table_of s ''registered_devices'' \<noteq> None \<longrightarrow>
        {''ix_registered_devices_hardware_id'', ''ix_registered_devices_lifecycle_state''} \<subseteq> sq_indexes s \<and>
        {''trg_registered_devices_hardware_update'', ''trg_registered_devices_hardware_insert''} \<subseteq> sq_triggers s))"

definition vibration_migrated :: "sql_db \<Rightarrow> bool" where
  "vibration_migrated s = (has_columns s ''vibration_baselines'' [(''reason'', JNull), (''last_relearn_request_id'', JNull)] \<and>
     has_columns s ''vibration_windows'' [(''baseline_version'', JNull)])"

lemma upd_missing_same: "has_columns s n as \<Longrightarrow> upd_table s n (add_missing as) = s"
  by (rule upd_table_same) (simp add: has_columns_def add_missing_same)

lemma upd_rows_same: "table_of s n = Some t \<Longrightarrow> upd_table s n (st_rows_update (\<lambda>_. st_rows t)) = s"
  by (rule upd_table_same) simp

lemma migrate_readings_same: assumes "readings_migrated s" shows "migrate_readings s = s"
proof (cases "table_of s ''readings''")
  case (Some t)
  with assms have cols: "set (st_columns t) \<union> set (map fst reading_additions) = set (st_columns t)"
    by (auto simp: readings_migrated_def has_columns_def)
  show ?thesis using assms unfolding migrate_readings_def Some option.case cols
    by (auto simp: readings_migrated_def Some upd_missing_same intro!: fold_add_index_same)
qed (simp add: migrate_readings_def)

lemma backfill_readings_same: "readings_identified s \<Longrightarrow> backfill_readings uuid5 s = (Inr (), s)"
  by (auto simp: backfill_readings_def readings_identified_def fill_gateway_same backfill_uuids_same unique_uuid_index_def
      bind_result_def upd_rows_same add_index_same split: option.splits)

lemma migrate_devices_same: "devices_migrated s \<Longrightarrow> migrate_devices s = s"
  by (auto simp: migrate_devices_def devices_migrated_def upd_missing_same drop_add_index add_index_same)

lemma migrate_vibration_same: "vibration_migrated s \<Longrightarrow> migrate_windows (migrate_baselines s) = s"
  by (auto simp: migrate_windows_def migrate_baselines_def vibration_migrated_def upd_missing_same)

lemma readings_migrated_step: "readings_migrated (migrate_readings s)"
proof (cases "table_of s ''readings''")
  case (Some t)
  have cols: "set (st_columns (add_missing reading_additions t)) = set (st_columns t) \<union> set (map fst reading_additions)"
    by (rule add_missing_columns)
  show ?thesis
    by (force simp: readings_migrated_def migrate_readings_def has_columns_def Some cols)
qed (simp add: migrate_readings_def readings_migrated_def has_columns_def)

lemma backfill_readings_result:
  assumes run: "backfill_readings uuid5 s = (Inr x, s')" and "readings_migrated s"
  shows "readings_migrated s' \<and> readings_identified s' \<and> stored_gateway_id s' = stored_gateway_id s"
proof (cases "table_of s ''readings''")
  case None
  with assms show ?thesis by (simp add: backfill_readings_def readings_identified_def)
next
  case (Some t)
  show ?thesis
  proof (cases "truthy (stored_gateway_id s)")
    case False
    with assms Some show ?thesis by (auto simp: backfill_readings_def readings_identified_def split: option.splits if_splits)
  next
    case True
    then obtain g where g: "stored_gateway_id s = Some g" "g \<noteq> ''''" by (cases "stored_gateway_id s") auto
    with run Some obtain rows where rows: "backfill_uuids (legacy_uuid uuid5 g) (fill_gateway g (st_rows t)) = Inr rows"
      "distinct (reading_uuids rows)"
      "s' = add_index ''ux_readings_reading_uuid'' (upd_table s ''readings'' (\<lambda>t. t\<lparr>st_rows := rows\<rparr>))"
      by (auto simp: backfill_readings_def bind_result_Inr_iff unique_uuid_index_def split: sum.splits if_splits)
    have "null_ids rows = [] \<and> (\<forall>r \<in> set rows. dget r ''gateway_id'' \<noteq> JNull)"
      using backfill_uuids_result [OF rows(1)] fill_gateway_no_null by blast
    moreover have "stored_gateway_id s' = Some g" using g stored_gateway_id_cong [of s' s] by (simp add: rows(3))
    ultimately show ?thesis using \<open>readings_migrated s\<close> Some g rows(2)
      by (simp add: readings_identified_def readings_migrated_def has_columns_def rows(3))
  qed
qed

lemma stored_gateway_id_steps [simp]:
  "stored_gateway_id (migrate_readings s) = stored_gateway_id s" "stored_gateway_id (migrate_devices s) = stored_gateway_id s"
  "stored_gateway_id (migrate_baselines s) = stored_gateway_id s" "stored_gateway_id (migrate_windows s) = stored_gateway_id s"
  by (rule stored_gateway_id_cong, simp add: migrate_readings_def migrate_devices_def migrate_baselines_def migrate_windows_def
      split: option.split)+

lemma tables_of_steps [simp]:
  "n \<noteq> ''registered_devices'' \<Longrightarrow> table_of (migrate_devices s) n = table_of s n"
  "n \<noteq> ''vibration_baselines'' \<Longrightarrow> table_of (migrate_baselines s) n = table_of s n"
  "n \<noteq> ''vibration_windows'' \<Longrightarrow> table_of (migrate_windows s) n = table_of s n"
  by (simp_all add: migrate_devices_def migrate_baselines_def migrate_windows_def)

lemma names_of_steps [simp]:
  "sq_indexes s \<subseteq> sq_indexes (migrate_devices s)" "sq_triggers s \<subseteq> sq_triggers (migrate_devices s)"
  "sq_indexes (migrate_baselines s) = sq_indexes s" "sq_triggers (migrate_baselines s) = sq_triggers s"
  "sq_indexes (migrate_windows s) = sq_indexes s" "sq_triggers (migrate_windows s) = sq_triggers s"
  by (auto simp: migrate_devices_def migrate_baselines_def migrate_windows_def)

lemma readings_kept:
  assumes "table_of s' ''readings'' = table_of s ''readings''" "sq_indexes s \<subseteq> sq_indexes s'"
  shows "readings_migrated s \<Longrightarrow> readings_migrated s'"
    "stored_gateway_id s' = stored_gateway_id s \<Longrightarrow> readings_identified s \<Longrightarrow> readings_identified s'"
  using assms by (auto simp: readings_migrated_def readings_identified_def has_columns_def split: option.splits)

lemma devices_kept:
  "table_of s' ''registered_devices'' = table_of s ''registered_devices'' \<Longrightarrow> sq_indexes s \<subseteq> sq_indexes s' \<Longrightarrow>
   sq_triggers s \<subseteq> sq_triggers s' \<Longrightarrow> devices_migrated s \<Longrightarrow> devices_migrated s'"
  by (auto simp: devices_migrated_def has_columns_def)

lemma devices_migrated_step: "devices_migrated (migrate_devices s)"
  by (auto simp: devices_migrated_def migrate_devices_def has_columns_def add_missing_columns split: option.splits)

lemma vibration_migrated_step: "vibration_migrated (migrate_windows (migrate_baselines s))"
  by (auto simp: vibration_migrated_def migrate_windows_def migrate_baselines_def has_columns_def add_missing_columns
      split: option.splits)

definition migrated :: "sql_db \<Rightarrow> bool" where
  "migrated s \<longleftrightarrow> readings_migrated s \<and> readings_identified s \<and> devices_migrated s \<and> vibration_migrated s"

lemma migrate_result:
  assumes "migrate_existing_database True uuid5 s = (Inr x, s')"
  shows "migrated s' \<and> stored_gateway_id s' = stored_gateway_id s"
proof -
  from assms obtain s1 where s1: "backfill_readings uuid5 (migrate_readings s) = (Inr (), s1)"
    and s': "s' = migrate_windows (migrate_baselines (migrate_devices s1))"
    by (auto simp: migrate_existing_database_def split: prod.splits sum.splits)
  from backfill_readings_result [OF s1 readings_migrated_step]
  have r: "readings_migrated s1" "readings_identified s1" "stored_gateway_id s1 = stored_gateway_id s" by auto
  have "readings_migrated s'" by (rule readings_kept(1) [OF _ _ r(1)]) (simp_all add: s')
  moreover have "readings_identified s'" by (rule readings_kept(2) [OF _ _ _ r(2)]) (simp_all add: s')
  moreover have "devices_migrated s'" by (rule devices_kept [OF _ _ _ devices_migrated_step [of s1]]) (simp_all add: s')
  ultimately show ?thesis using vibration_migrated_step r(3) by (simp add: migrated_def s')
qed

lemma migrated_same: "migrated s \<Longrightarrow> migrate_existing_database sqlite uuid5 s = (Inr (), s)"
  by (simp add: migrate_existing_database_def migrated_def migrate_readings_same backfill_readings_same migrate_devices_same
      migrate_vibration_same)

definition declared :: "sql_db \<Rightarrow> bool" where
  "declared s \<longleftrightarrow> (\<forall>d \<in> set declared_tables. table_of s (fst d) \<noteq> None)"

lemma table_of_create_table:
  "table_of (create_table d s) n =
   (case table_of s n of Some t \<Rightarrow> Some t | None \<Rightarrow> if n = fst d then Some \<lparr>st_columns = fst (snd d), st_rows = []\<rparr> else None)"
  by (cases d) (auto simp: create_table_def table_of_def map_add_def map_of_append split: option.splits)

lemma created_table:
  "table_of s n = None \<Longrightarrow>
   table_of (fold create_table ds s) n = map_option (\<lambda>d. \<lparr>st_columns = fst d, st_rows = []\<rparr>) (map_of ds n)"
proof (induction ds arbitrary: s)
  case (Cons d ds)
  have "table_of s n = Some t \<Longrightarrow> table_of (fold create_table ds s) n = Some t" for s t
    by (induction ds arbitrary: s) (simp_all add: table_of_create_table)
  with Cons show ?case by (cases d; cases "fst d = n") (auto simp: table_of_create_table)
qed simp

lemma create_table_exists: "table_of (create_table d s) n \<noteq> None \<longleftrightarrow> n = fst d \<or> table_of s n \<noteq> None"
  by (cases d) (auto simp: create_table_def table_of_def map_add_def map_of_append split: option.splits)

lemma fold_create_exists: "table_of (fold create_table ds s) n \<noteq> None \<longleftrightarrow> n \<in> fst ` set ds \<or> table_of s n \<noteq> None"
  by (induction ds arbitrary: s) (auto simp: create_table_exists simp del: not_None_eq)

lemma create_all_declares: "declared (create_all s)"
  by (auto simp: declared_def create_all_def fold_create_exists simp del: not_None_eq)

lemma create_all_same: "declared s \<Longrightarrow> create_all s = s"
proof -
  have "\<forall>d \<in> set ds. table_of s (fst d) \<noteq> None \<Longrightarrow> fold create_table ds s = s" for ds
    by (induction ds) (auto simp: create_table_def split: prod.splits)
  then show "declared s \<Longrightarrow> create_all s = s" by (simp add: declared_def create_all_def)
qed

lemma declared_kept: "(\<And>n. table_of s n \<noteq> None \<Longrightarrow> table_of s' n \<noteq> None) \<Longrightarrow> declared s \<Longrightarrow> declared s'"
  by (auto simp: declared_def simp del: not_None_eq)

lemma backfill_readings_tables: "backfill_readings uuid5 s = (r, s') \<Longrightarrow> table_of s n \<noteq> None \<Longrightarrow> table_of s' n \<noteq> None"
  by (auto simp: backfill_readings_def split: option.splits sum.splits if_splits)

lemma steps_keep_tables:
  "table_of (migrate_readings s) n = None \<longleftrightarrow> table_of s n = None" "table_of (migrate_devices s) n = None \<longleftrightarrow> table_of s n = None"
  "table_of (migrate_baselines s) n = None \<longleftrightarrow> table_of s n = None" "table_of (migrate_windows s) n = None \<longleftrightarrow> table_of s n = None"
  "table_of (insert_identity g now s) n = None \<longleftrightarrow> table_of s n = None"
  by (simp_all add: migrate_readings_def migrate_devices_def migrate_baselines_def migrate_windows_def insert_identity_def
      split: option.split)

lemma migrate_tables:
  assumes "migrate_existing_database sqlite uuid5 s = (r, s')" "table_of s n \<noteq> None"
  shows "table_of s' n \<noteq> None"
proof (cases "backfill_readings uuid5 (migrate_readings s)")
  case (Pair r1 s1)
  have "table_of (migrate_readings s) n \<noteq> None" using assms(2) by (simp add: steps_keep_tables)
  from backfill_readings_tables [OF Pair this] have "table_of s1 n \<noteq> None" .
  moreover have "s' = s \<or> s' = s1 \<or> s' = migrate_windows (migrate_baselines (migrate_devices s1))"
    using assms(1) Pair by (simp add: migrate_existing_database_def split: sum.splits if_splits)
  ultimately show ?thesis using assms(2) steps_keep_tables(2-4) by metis
qed

lemma insert_identity_stored:
  "table_of s ''gateway_identity'' \<noteq> None \<Longrightarrow> identity_rows s = [] \<Longrightarrow> stored_gateway_id (insert_identity g now s) = Some g"
  by (auto simp: stored_gateway_id_def identity_rows_def insert_identity_def dget_def split: option.splits)

lemma ensure_identity_result:
  assumes "ensure_gateway_identity canonical fresh now s configured = (Inr g, s')" "declared s"
  shows "stored_gateway_id s' = Some g \<and> declared s'"
proof -
  have here: "table_of s ''gateway_identity'' \<noteq> None" using assms(2) by (simp add: declared_def declared_tables_def)
  show ?thesis
    using assms insert_identity_stored [OF here] declared_kept [of s "insert_identity g now s"] steps_keep_tables(5)
    by (cases "stored_gateway_id s") (auto simp: ensure_gateway_identity_def Let_def
        split: option.splits sum.splits if_splits)
qed

lemma initialize_result:
  assumes run: "initialize_database sqlite canonical uuid5 fresh now s configured = (Inr g, s')"
  shows "stored_gateway_id s' = Some g \<and> declared s' \<and> (sqlite \<longrightarrow> migrated s')"
proof -
  from run obtain s1 where s1: "ensure_gateway_identity canonical fresh now (create_all s) configured = (Inr g, s1)"
    and s': "migrate_existing_database sqlite uuid5 s1 = (Inr (), s')"
    by (auto simp: initialize_database_def split: prod.splits sum.splits)
  from ensure_identity_result [OF s1 create_all_declares] have g: "stored_gateway_id s1 = Some g" "declared s1" by auto
  have "declared s'" by (rule declared_kept [OF migrate_tables [OF s'] g(2)])
  moreover have "stored_gateway_id s' = Some g \<and> (sqlite \<longrightarrow> migrated s')"
    using migrate_result [of uuid5 s1 _ s'] s' g(1) by (cases sqlite) (auto simp: migrate_existing_database_def)
  ultimately show ?thesis by blast
qed

text \<open>C38. A database that has been initialised is left exactly as it is by every later start, whatever UUIDs and times that start would
  generate: it gives back the same identity when no identity or the same one is configured, and fails without a change
  when another one or a malformed one is configured.
\<close>

theorem initialized_database_stable:
  assumes run: "initialize_database sqlite canonical uuid5 fresh now s configured = (Inr g, s')" and g: "g \<noteq> ''''"
  shows "initialize_database sqlite canonical uuid5' fresh' now' s' configured' =
     (case configured' of
        None \<Rightarrow> (Inr g, s')
      | Some c \<Rightarrow>
          (case canonical c of
             None \<Rightarrow> (Inl (ValueError ''badly formed hexadecimal UUID string''), s')
           | Some u \<Rightarrow>
               if u = g \<or> u = '''' then (Inr g, s')
               else (Inl (ValueError ''configured gateway_id does not match the identity persisted in this database''), s')))"
proof -
  from initialize_result [OF run] have s': "stored_gateway_id s' = Some g" "create_all s' = s'" "sqlite \<longrightarrow> migrated s'"
    by (auto intro: create_all_same)
  have "migrate_existing_database sqlite uuid5' s' = (Inr (), s')"
    using s'(3) migrated_same [of s' sqlite uuid5'] by (cases sqlite) (auto simp: migrate_existing_database_def)
  with s'(1,2) g show ?thesis
    by (auto simp: initialize_database_def ensure_gateway_identity_def split: option.splits)
qed

section \<open>The migration completes and keeps the readings\<close>

definition row_id :: "dict \<Rightarrow> int" where
  "row_id r = (case dget r ''id'' of JInt i \<Rightarrow> i | _ \<Rightarrow> 0)"

definition keyed_rows :: "dict list \<Rightarrow> bool" where
  "keyed_rows rows \<longleftrightarrow> (\<forall>r \<in> set rows. dget r ''id'' = JInt (row_id r)) \<and> distinct (map row_id rows)"

text \<open>The row the migration is to leave: only a missing identifier is filled in.\<close>

definition with_uuid :: "(int \<Rightarrow> string) \<Rightarrow> dict \<Rightarrow> dict" where
  "with_uuid u r = (if dget r ''reading_uuid'' = JNull then dput r ''reading_uuid'' (JStr (u (row_id r))) else r)"

lemma dput_twice: "dput (dput d k v) k v = dput d k v"
  by (induction d) auto

lemma row_id_dput [simp]: "k \<noteq> ''id'' \<Longrightarrow> row_id (dput r k v) = row_id r"
  by (simp add: row_id_def dget_dput)

lemma keyed_rows_map: "(\<And>r. dget (f r) ''id'' = dget r ''id'') \<Longrightarrow> keyed_rows rows \<Longrightarrow> keyed_rows (map f rows)"
proof -
  assume same: "\<And>r. dget (f r) ''id'' = dget r ''id''" and "keyed_rows rows"
  moreover have "row_id (f r) = row_id r" for r by (simp add: row_id_def same)
  ultimately show ?thesis by (simp add: keyed_rows_def comp_def)
qed

lemma stamp_total:
  assumes "\<And>i. uuid i = Inr (u i)" "keyed_rows rows"
  shows "stamp uuid ids rows = Inr (map (\<lambda>r. if row_id r \<in> set ids then dput r ''reading_uuid'' (JStr (u (row_id r))) else r) rows)"
  using assms(2)
proof (induction ids arbitrary: rows)
  case (Cons i ids)
  have keyed: "keyed_rows (set_uuid i (u i) rows)"
    unfolding set_uuid_def using Cons.prems by (intro keyed_rows_map) (auto simp: dget_dput)
  have here: "dget r ''id'' = JInt i \<longleftrightarrow> row_id r = i" if "r \<in> set rows" for r
    using that Cons.prems by (auto simp: keyed_rows_def)
  have "stamp uuid (i # ids) rows = stamp uuid ids (set_uuid i (u i) rows)" by (simp add: bind_result_def assms(1))
  also have "\<dots> = Inr (map (\<lambda>r. if row_id r \<in> set ids then dput r ''reading_uuid'' (JStr (u (row_id r))) else r)
      (set_uuid i (u i) rows))" by (rule Cons.IH [OF keyed])
  also have "\<dots> = Inr (map (\<lambda>r. if row_id r \<in> set (i # ids) then dput r ''reading_uuid'' (JStr (u (row_id r))) else r) rows)"
    by (simp add: set_uuid_def here dput_twice)
  finally show ?case .
qed (simp add: map_idI)

lemma null_ids_keyed: "keyed_rows rows \<Longrightarrow> null_ids rows = map row_id (filter (\<lambda>r. dget r ''reading_uuid'' = JNull) rows)"
  by (induction rows) (auto simp: null_ids_def keyed_rows_def)

lemma null_ids_row:
  assumes "keyed_rows rows" "r \<in> set rows"
  shows "row_id r \<in> set (null_ids rows) \<longleftrightarrow> dget r ''reading_uuid'' = JNull"
proof -
  have "inj_on row_id (set rows)" using assms(1) by (simp add: keyed_rows_def distinct_map)
  with assms(2) show ?thesis by (auto simp: null_ids_keyed [OF assms(1)] dest: inj_onD)
qed

lemma backfill_uuids_total:
  assumes u: "\<And>i. uuid i = Inr (u i)"
  shows "keyed_rows rows \<Longrightarrow> backfill_uuids uuid rows = Inr (map (with_uuid u) rows)"
  using u
proof (induction uuid rows rule: backfill_uuids.induct)
  case (1 uuid rows)
  let ?b = "next_batch rows"
  show ?case
  proof (cases "?b = []")
    case True
    then have "null_ids rows = []" by (simp add: next_batch_def flip: set_empty [of "sort _"])
    then have "map (with_uuid u) rows = rows"
      using null_ids_row [OF "1.prems"(1)] by (auto simp: with_uuid_def intro: map_idI)
    with True show ?thesis by (simp add: backfill_uuids.simps [of uuid rows])
  next
    case False
    let ?f = "\<lambda>r. if row_id r \<in> set ?b then dput r ''reading_uuid'' (JStr (u (row_id r))) else r"
    have step: "stamp uuid ?b rows = Inr (map ?f rows)" by (rule stamp_total) (rule "1.prems")+
    have keyed: "keyed_rows (map ?f rows)" using "1.prems"(1) by (intro keyed_rows_map) (auto simp: dget_dput)
    have null: "dget r ''reading_uuid'' = JNull" if "r \<in> set rows" "row_id r \<in> set ?b" for r
      using that null_ids_row [OF "1.prems"(1) that(1)] by (auto simp: next_batch_def dest: in_set_takeD)
    have same: "map (with_uuid u) (map ?f rows) = map (with_uuid u) rows"
      by (auto simp: with_uuid_def dget_dput null)
    from "1.IH" [OF False step keyed "1.prems"(2)] same show ?thesis
      by (simp add: backfill_uuids.simps [of uuid rows] False step)
  qed
qed

lemma identified_distinct:
  assumes "inj_on u (row_id ` set rows)" "\<forall>r \<in> set rows. JStr (u (row_id r)) \<notin> q ` set rows"
    "distinct (map row_id rows)" "distinct (filter (\<lambda>v. v \<noteq> JNull) (map q rows))"
  shows "distinct (map (\<lambda>r. if q r = JNull then JStr (u (row_id r)) else q r) rows)"
  using assms
proof (induction rows)
  case (Cons r rows)
  then have "(if q r = JNull then JStr (u (row_id r)) else q r) \<noteq> (if q r' = JNull then JStr (u (row_id r')) else q r')"
    if "r' \<in> set rows" for r'
    using that by (auto simp: image_iff inj_on_def split: if_splits)
  with Cons show ?case by (auto split: if_splits)
qed simp

lemma add_missing_rows:
  "st_rows (add_missing as t) =
   map (\<lambda>r. fold (\<lambda>a r. dput r (fst a) (snd a)) (filter (\<lambda>a. fst a \<notin> set (st_columns t)) as) r) (st_rows t)"
proof -
  have "st_rows (fold add_column bs t') = map (\<lambda>r. fold (\<lambda>a r. dput r (fst a) (snd a)) bs r) (st_rows t')" for bs t'
    by (induction bs arbitrary: t') (simp_all add: add_column_def comp_def)
  then show ?thesis by (simp add: add_missing_def)
qed

lemma dget_null_columns:
  "\<forall>a \<in> set as. snd a = JNull \<and> dget r (fst a) = JNull \<Longrightarrow> dget (fold (\<lambda>a r. dput r (fst a) (snd a)) as r) k = dget r k"
  by (induction as arbitrary: r) (auto simp: dget_dput)

text \<open>What the columns of a reading are after the migration.\<close>

definition identified_column :: "string \<Rightarrow> (int \<Rightarrow> string) \<Rightarrow> dict \<Rightarrow> string \<Rightarrow> json" where
  "identified_column g u r k =
     (if dget r k \<noteq> JNull then dget r k
      else if k = ''reading_uuid'' then JStr (u (row_id r))
      else if k = ''gateway_id'' then JStr g
      else JNull)"

lemma migrated_rows:
  assumes keyed: "keyed_rows (st_rows t)" and columns: "\<forall>r \<in> set (st_rows t). \<forall>k. k \<notin> set (st_columns t) \<longrightarrow> dget r k = JNull"
    and uuid: "\<And>i. uuid i = Inr (u i)"
  shows "\<exists>f. backfill_uuids uuid (fill_gateway g (st_rows (add_missing reading_additions t))) = Inr (map f (st_rows t)) \<and>
     (\<forall>r \<in> set (st_rows t). \<forall>k. dget (f r) k = identified_column g u r k)"
proof -
  let ?c = "\<lambda>r. fold (\<lambda>a r. dput r (fst a) (snd a)) (filter (\<lambda>a. fst a \<notin> set (st_columns t)) reading_additions) r"
  define h where "h r = (if dget (?c r) ''gateway_id'' = JNull then dput (?c r) ''gateway_id'' (JStr g) else ?c r)" for r
  have c: "dget (?c r) k = dget r k" if "r \<in> set (st_rows t)" for r k
    using that columns by (intro dget_null_columns) (auto simp: reading_additions_def)
  have h: "dget (h r) k = (if k = ''gateway_id'' \<and> dget r k = JNull then JStr g else dget r k)" if "r \<in> set (st_rows t)" for r k
    using c [OF that] by (auto simp: h_def dget_dput)
  have id: "row_id (h r) = row_id r" if "r \<in> set (st_rows t)" for r
    unfolding row_id_def h [OF that] by simp
  have "keyed_rows (map h (st_rows t))"
    using keyed by (auto simp: keyed_rows_def id h comp_def cong: map_cong)
  then have "backfill_uuids uuid (map h (st_rows t)) = Inr (map (with_uuid u) (map h (st_rows t)))"
    by (intro backfill_uuids_total uuid)
  moreover have "dget (with_uuid u (h r)) k = identified_column g u r k" if "r \<in> set (st_rows t)" for r k
    using that by (auto simp: with_uuid_def id h dget_dput identified_column_def)
  moreover have "fill_gateway g (st_rows (add_missing reading_additions t)) = map h (st_rows t)"
    by (simp add: fill_gateway_def add_missing_rows h_def)
  ultimately show ?thesis by (intro exI [of _ "\<lambda>r. with_uuid u (h r)"]) (simp add: comp_def)
qed

text \<open>The migration of an older database runs to its end: when name-based UUIDs of the gateway can be computed and are unused, every
  stored reading is kept in its place with a unique identifier and a gateway; identifiers, gateways and other columns that had a value
  keep it.
\<close>

theorem migration_identifies_readings:
  assumes t: "table_of s ''readings'' = Some t" and g: "stored_gateway_id s = Some g" "g \<noteq> ''''"
    and keyed: "keyed_rows (st_rows t)" and columns: "\<forall>r \<in> set (st_rows t). \<forall>k. k \<notin> set (st_columns t) \<longrightarrow> dget r k = JNull"
    and uuid: "\<forall>i. legacy_uuid uuid5 g i = Inr (u i)" "inj_on u (row_id ` set (st_rows t))"
    and unused: "\<forall>r \<in> set (st_rows t). JStr (u (row_id r)) \<notin> (\<lambda>r. dget r ''reading_uuid'') ` set (st_rows t)" and "distinct (reading_uuids (st_rows t))"
  shows "\<exists>s' t'. migrate_existing_database True uuid5 s = (Inr (), s') \<and> table_of s' ''readings'' = Some t' \<and>
     list_all2 (\<lambda>r r'. \<forall>k. dget r' k = identified_column g u r k) (st_rows t) (st_rows t') \<and>
     distinct (map (\<lambda>r. dget r ''reading_uuid'') (st_rows t'))"
proof -
  obtain f where run: "backfill_uuids (legacy_uuid uuid5 g) (fill_gateway g (st_rows (add_missing reading_additions t))) = Inr (map f (st_rows t))"
    and f: "\<forall>r \<in> set (st_rows t). \<forall>k. dget (f r) k = identified_column g u r k"
    using migrated_rows [OF keyed columns, of "legacy_uuid uuid5 g" u g] uuid(1) by blast
  have column: "identified_column g u r ''reading_uuid'' =
      (if dget r ''reading_uuid'' = JNull then JStr (u (row_id r)) else dget r ''reading_uuid'')" for r
    by (simp add: identified_column_def)
  have "distinct (map (\<lambda>r. identified_column g u r ''reading_uuid'') (st_rows t))"
    using identified_distinct [OF uuid(2) unused] keyed assms(9) unfolding column keyed_rows_def reading_uuids_def by blast
  then have unique: "distinct (map (\<lambda>r. dget r ''reading_uuid'') (map f (st_rows t)))"
    using f by (simp add: comp_def cong: map_cong)
  then have "unique_uuid_index (map f (st_rows t)) = Inr ()" by (simp add: unique_uuid_index_def reading_uuids_def)
  moreover have "table_of (migrate_readings s) ''readings'' = Some (add_missing reading_additions t)"
    by (simp add: migrate_readings_def t)
  ultimately have "\<exists>s1. backfill_readings uuid5 (migrate_readings s) = (Inr (), s1) \<and>
      (\<exists>t1. table_of s1 ''readings'' = Some t1 \<and> st_rows t1 = map f (st_rows t))"
    using run g by (simp add: backfill_readings_def bind_result_def)
  then obtain s1 t1 where s1: "backfill_readings uuid5 (migrate_readings s) = (Inr (), s1)"
    "table_of s1 ''readings'' = Some t1" "st_rows t1 = map f (st_rows t)" by blast
  have "migrate_existing_database True uuid5 s = (Inr (), migrate_windows (migrate_baselines (migrate_devices s1)))"
    by (simp add: migrate_existing_database_def s1(1))
  moreover have "table_of (migrate_windows (migrate_baselines (migrate_devices s1))) ''readings'' = Some t1" using s1(2) by simp
  ultimately show ?thesis using f unique s1(3) by (auto simp: list_all2_map2 list_all2_same)
qed

text \<open>A database of the first release: readings without identifiers, and the identity of the gateway.\<close>

definition sample_legacy :: sql_db where
  "sample_legacy = \<lparr>sq_tables =
      [(''gateway_identity'', \<lparr>st_columns = [''id'', ''gateway_id''], st_rows = [[(''id'', JInt 1), (''gateway_id'', JStr ''G'')]]\<rparr>),
       (''readings'', \<lparr>st_columns = [''id'', ''channel''], st_rows = [[(''id'', JInt 7), (''channel'', JStr ''temperature'')]]\<rparr>)],
     sq_indexes = {}, sq_triggers = {}\<rparr>"

definition sample_uuid5 :: "string \<Rightarrow> string \<Rightarrow> string result" where
  "sample_uuid5 g name = Inr (g @ '':'' @ name)"

theorem migration_identifies_readings_witness:
  "\<exists>s' t'. migrate_existing_database True sample_uuid5 sample_legacy = (Inr (), s') \<and> table_of s' ''readings'' = Some t' \<and>
     list_all2 (\<lambda>r r'. \<forall>k. dget r' k = identified_column ''G'' (\<lambda>i. ''G:legacy-reading:'' @ int_str i) r k)
       [[(''id'', JInt 7), (''channel'', JStr ''temperature'')]] (st_rows t') \<and>
     distinct (map (\<lambda>r. dget r ''reading_uuid'') (st_rows t'))"
  using migration_identifies_readings [of sample_legacy
      "\<lparr>st_columns = [''id'', ''channel''], st_rows = [[(''id'', JInt 7), (''channel'', JStr ''temperature'')]]\<rparr>"
      "''G''" sample_uuid5 "\<lambda>i. ''G:legacy-reading:'' @ int_str i"]
  by (simp add: sample_legacy_def table_of_def stored_gateway_id_def identity_rows_def dget_def keyed_rows_def row_id_def
      legacy_uuid_def sample_uuid5_def reading_uuids_def)

definition sample_empty :: sql_db where
  "sample_empty = \<lparr>sq_tables = [], sq_indexes = {}, sq_triggers = {}\<rparr>"

lemma sample_first_start: "fst (initialize_database True Some sample_uuid5 ''F'' JNull sample_empty (Some ''G'')) = Inr ''G''"
proof -
  have empty: "table_of sample_empty n = None" for n by (simp add: sample_empty_def table_of_def)
  have tables: "map_option st_rows (table_of (create_all sample_empty) n) = Some []" if "n \<in> fst ` set declared_tables" for n
    using that map_of_eq_None_iff [of declared_tables n] by (cases "map_of declared_tables n") (auto simp: create_all_def created_table [OF empty])
  have names: "{''readings'', ''gateway_identity''} \<subseteq> fst ` set declared_tables" by (simp add: declared_tables_def)
  then have none: "identity_rows (create_all sample_empty) = []" using tables [of "''gateway_identity''"] by (auto simp: identity_rows_def)
  let ?s = "migrate_readings (insert_identity ''G'' JNull (create_all sample_empty))"
  have "fst (backfill_readings sample_uuid5 ?s) = Inr ()"
  proof (cases "table_of ?s ''readings''")
    case (Some t)
    with tables [of "''readings''"] names have "st_rows t = []"
      by (auto simp: migrate_readings_def insert_identity_def add_missing_rows split: option.splits)
    with Some show ?thesis
      by (auto simp: backfill_readings_def fill_gateway_def backfill_uuids.simps [of _ "[]"] next_batch_def null_ids_def
          bind_result_def unique_uuid_index_def reading_uuids_def split: option.splits)
  qed (simp add: backfill_readings_def)
  moreover have "ensure_gateway_identity Some ''F'' JNull (create_all sample_empty) (Some ''G'') =
      (Inr ''G'', insert_identity ''G'' JNull (create_all sample_empty))"
    by (simp add: ensure_gateway_identity_def none stored_gateway_id_def Let_def)
  ultimately show ?thesis
    by (cases "backfill_readings sample_uuid5 ?s") (simp add: initialize_database_def migrate_existing_database_def)
qed

theorem initialized_database_stable_witness:
  "initialize_database True Some sample_uuid5 ''F'' JNull
     (snd (initialize_database True Some sample_uuid5 ''F'' JNull sample_empty (Some ''G''))) (Some ''H'') =
   (Inl (ValueError ''configured gateway_id does not match the identity persisted in this database''),
    snd (initialize_database True Some sample_uuid5 ''F'' JNull sample_empty (Some ''G'')))"
  using initialized_database_stable [of True Some sample_uuid5 "''F''" JNull sample_empty "Some ''G''" "''G''"
      "snd (initialize_database True Some sample_uuid5 ''F'' JNull sample_empty (Some ''G''))" sample_uuid5 "''F''" JNull "Some ''H''"]
    prod.collapse [of "initialize_database True Some sample_uuid5 ''F'' JNull sample_empty (Some ''G'')"] sample_first_start
  by simp

end
