(* ===== verification/Application.thy ===== *)
theory Application
  imports Commissioning Websockets Instance_Lock Database
begin

text \<open>
  The assembled gateway: the settings of \<open>gateway/app/config.py\<close> and, from \<open>gateway/app/main.py\<close>, the lifespan of the application
  (instance lock, scheduling of registered sensors, retention task, shutdown), the status callback of the connections, the
  request middleware and the error responses, with the health endpoint of \<open>api/health.py\<close>. How the SQL driver stores a value of a node's
  metadata and how the library parses versions are arguments.
\<close>

section \<open>Settings\<close>

record gateway_settings =
  gs_database_url :: string
  gs_host :: string
  gs_port :: int
  gs_log_level :: string
  gs_scan_duration_seconds :: real
  gs_discovery_ttl_seconds :: real
  gs_max_connection_attempts :: int
  gs_reconnect_initial_seconds :: real
  gs_reconnect_max_seconds :: real
  gs_reconnect_stable_seconds :: real
  gs_stale_after_seconds :: real
  gs_poll_interval_seconds :: real
  gs_max_payload_bytes :: int
  gs_max_payload_json_bytes :: int
  gs_history_page_size_max :: int
  gs_history_max_days :: int
  gs_history_retention_days :: "int option"
  gs_history_retention_batch_size :: int
  gs_vibration_baseline_minimum_windows :: int
  gs_vibration_condition_persistence_windows :: int
  gs_vibration_persistence_interval_seconds :: real
  gs_gateway_id :: "string option"
  gs_sensor_profile_directory :: string
  gs_max_profile_upload_bytes :: int
  gs_provisioning_timeout_seconds :: real
  gs_firmware_catalog_path :: string
  gs_arduino_cli :: string
  gs_developer_firmware_approval :: bool
  gs_gateway_instance_lock :: bool

definition in_range :: "real \<Rightarrow> real \<Rightarrow> real \<Rightarrow> bool" where
  "in_range lo hi x = (lo \<le> x \<and> x \<le> hi)"

definition settings_valid :: "gateway_settings \<Rightarrow> bool" where
  "settings_valid g =
     (int_between 1 65535 (gs_port g)
      \<and> in_range 1 60 (gs_scan_duration_seconds g) \<and> in_range 10 3600 (gs_discovery_ttl_seconds g)
      \<and> int_between 1 20 (gs_max_connection_attempts g)
      \<and> in_range (1/10) 60 (gs_reconnect_initial_seconds g) \<and> in_range 1 3600 (gs_reconnect_max_seconds g)
      \<and> in_range 1 3600 (gs_reconnect_stable_seconds g) \<and> in_range 1 86400 (gs_stale_after_seconds g)
      \<and> in_range (1/5) 60 (gs_poll_interval_seconds g)
      \<and> int_between 128 65536 (gs_max_payload_bytes g) \<and> int_between 256 65536 (gs_max_payload_json_bytes g)
      \<and> int_between 10 5000 (gs_history_page_size_max g) \<and> int_between 1 366 (gs_history_max_days g)
      \<and> (case gs_history_retention_days g of None \<Rightarrow> True | Some n \<Rightarrow> int_between 1 36500 n)
      \<and> int_between 100 10000 (gs_history_retention_batch_size g)
      \<and> int_between 20 10000 (gs_vibration_baseline_minimum_windows g)
      \<and> int_between 1 100 (gs_vibration_condition_persistence_windows g)
      \<and> in_range (1/2) 3600 (gs_vibration_persistence_interval_seconds g)
      \<and> int_between 1024 1048576 (gs_max_profile_upload_bytes g)
      \<and> in_range 1 120 (gs_provisioning_timeout_seconds g))"

definition normalize_log_level :: "(string \<Rightarrow> string) \<Rightarrow> string \<Rightarrow> string result" where
  "normalize_log_level upper value =
     (if upper value \<notin> {''DEBUG'', ''INFO'', ''WARNING'', ''ERROR'', ''CRITICAL''}
      then Inl (ValueError ''unsupported log level'') else Inr (upper value))"

definition blank_is_disabled :: "json \<Rightarrow> json" where
  "blank_is_disabled value = (if value = JStr '''' then JNull else value)"

text \<open>The fields have been decoded; the declared bounds and the validators remain.\<close>

definition load_settings :: "(string \<Rightarrow> string) \<Rightarrow> gateway_settings \<Rightarrow> gateway_settings result" where
  "load_settings upper g =
     (case normalize_log_level upper (gs_log_level g) of
        Inl e \<Rightarrow> Inl (ValidationError (exn_str e))
      | Inr level \<Rightarrow> if settings_valid g then Inr (g\<lparr>gs_log_level := level\<rparr>) else Inl (ValidationError ''''))"

text \<open>The directories that are created; \<open>parent\<close> is \<open>Path(text).parent\<close>.\<close>

definition ensure_runtime_directories :: "(string \<Rightarrow> string) \<Rightarrow> gateway_settings \<Rightarrow> string list" where
  "ensure_runtime_directories parent g =
     (let url = gs_database_url g; path = drop 10 url in
      (if take 10 url = ''sqlite:///'' \<and> path \<noteq> '':memory:'' then [parent path] else []) @ [gs_sensor_profile_directory g])"

definition manager_settings_of :: "gateway_settings \<Rightarrow> manager_settings" where
  "manager_settings_of g = \<lparr>ms_reconnect_initial_seconds = gs_reconnect_initial_seconds g,
     ms_reconnect_max_seconds = gs_reconnect_max_seconds g, ms_reconnect_stable_seconds = gs_reconnect_stable_seconds g\<rparr>"

section \<open>The status of a connection\<close>

record status_env =
  se_text :: "json \<Rightarrow> string option result"
  se_int :: "json \<Rightarrow> int option result"
  se_evaluate :: "dict \<Rightarrow> (string \<times> string) result"

text \<open>The texts of \<open>CompatibilityService.evaluate\<close>; \<open>shown\<close> is the text of a value and \<open>version_str\<close> that of a parsed version.\<close>

definition compatibility_message :: "(json \<Rightarrow> string) \<Rightarrow> (string \<Rightarrow> string) \<Rightarrow> compatibility_matrix \<Rightarrow> dict \<Rightarrow> string \<Rightarrow> string" where
  "compatibility_message shown version_str mx metadata status =
     (let version = (case dget metadata ''sensor_package_version'' of JStr v \<Rightarrow> version_str v | _ \<Rightarrow> '''') in
      if status = ''metadata_missing''
      then ''Node metadata is incomplete; diagnostics remain available but configuration is blocked.''
      else if status = ''protocol_unsupported''
      then ''Protocol '' @ shown (dget metadata ''protocol_version'') @ '' is not supported by this gateway.''
      else if status = ''sensor_update_required''
      then ''Sensor package '' @ version @ '' is older than supported minimum '' @ mx_minimum mx @ ''.''
      else if status = ''gateway_update_required''
      then ''Sensor package '' @ version @ '' requires a newer gateway.''
      else if status = ''unknown'' then ''Node supplied an invalid semantic version.''
      else ''Firmware and protocol versions are compatible.'')"

definition compatibility_result ::
  "(string \<Rightarrow> ('v::linorder) option) \<Rightarrow> (json \<Rightarrow> string) \<Rightarrow> (string \<Rightarrow> string) \<Rightarrow> compatibility_matrix \<Rightarrow> dict \<Rightarrow> (string \<times> string) result" where
  "compatibility_result version_key shown version_str mx metadata =
     bind_result (compatibility_evaluate version_key mx metadata) (\<lambda>status.
       Inr (status, compatibility_message shown version_str mx metadata status))"

definition int_or_null :: "int option \<Rightarrow> json" where
  "int_or_null n = (case n of None \<Rightarrow> JNull | Some v \<Rightarrow> JInt v)"

definition connected_values ::
  "status_env \<Rightarrow> dict \<Rightarrow> string \<times> string \<Rightarrow> registered_device \<Rightarrow> (registered_device \<Rightarrow> registered_device) result" where
  "connected_values env metadata verdict d =
     bind_result (se_text env (dget_default metadata ''firmware_version'' (dget_default metadata ''fw'' (text_or_null (rd_firmware_version d))))) (\<lambda>firmware.
     bind_result (se_int env (dget_default metadata ''v'' (int_or_null (rd_telemetry_schema_version d)))) (\<lambda>telemetry.
     bind_result (se_text env (dget metadata ''sensor_package_version'')) (\<lambda>package.
     bind_result (se_text env (dget metadata ''protocol_version'')) (\<lambda>protocol.
     bind_result (se_int env (dget metadata ''configuration_schema_version'')) (\<lambda>schema.
     bind_result (se_text env (dget metadata ''build_identifier'')) (\<lambda>build.
     bind_result (se_text env (dget metadata ''git_commit'')) (\<lambda>commit.
       Inr (\<lambda>d. d\<lparr>rd_firmware_version := firmware, rd_telemetry_schema_version := telemetry, rd_sensor_package_version := package,
         rd_protocol_version := protocol, rd_configuration_schema_version := schema, rd_build_identifier := build,
         rd_firmware_git_commit := commit, rd_compatibility_status := fst verdict, rd_compatibility_message := Some (snd verdict)\<rparr>))))))))"

definition listens :: "registered_device \<Rightarrow> bool" where
  "listens d = (\<not> rd_archived d \<and> rd_enabled d \<and> rd_lifecycle_state d \<noteq> ''removed'')"

definition complete_metadata :: "dict \<Rightarrow> bool" where
  "complete_metadata metadata = list_all (\<lambda>k. \<not> in_none_or_empty (dget metadata k)) (butlast firmware_tracked)"

text \<open>The transactions of a \<open>connected\<close> status: the columns, the firmware history and the runtime state.\<close>

definition on_connected :: "status_env \<Rightarrow> dict \<Rightarrow> registered_device \<Rightarrow> time \<Rightarrow> db \<Rightarrow> unit result \<times> db" where
  "on_connected env metadata d now s =
     (case bind_result (se_evaluate env metadata) (\<lambda>verdict.
             bind_result (connected_values env metadata verdict d) (\<lambda>values. Inr (verdict, values))) of
        Inl e \<Rightarrow> (Inl e, s)
      | Inr (verdict, values) \<Rightarrow>
          (case device_update_row s d values now of
             (Inl e, s1) \<Rightarrow> (Inl e, s1)
           | (Inr d', s1) \<Rightarrow>
               let s2 = (if complete_metadata metadata then snd (firmware_record s1 (rd_device_id d) metadata (fst verdict) now) else s1)
               in (Inr (), device_update_runtime s2 d' (Some ''connected'') None (Some now) None now)))"

definition status_changed :: "status_env \<Rightarrow> connections \<Rightarrow> string \<Rightarrow> string \<Rightarrow> time \<Rightarrow> db \<Rightarrow> unit result \<times> db" where
  "status_changed env m device_id state now s =
     (case get_device s device_id of
        None \<Rightarrow> (Inr (), s)
      | Some d \<Rightarrow>
          if \<not> listens d then (Inr (), s)
          else if state = ''connected''
          then on_connected env (case map_of m device_id of None \<Rightarrow> [] | Some c \<Rightarrow> cx_metadata c) d now s
          else (Inr (), device_update_runtime s d (Some state) None None None now))"

text \<open>The callback, and the event it broadcasts afterwards.\<close>

definition status_callback ::
  "status_env \<Rightarrow> connections \<Rightarrow> string \<Rightarrow> string \<Rightarrow> string option \<Rightarrow> time \<Rightarrow> db \<Rightarrow> ws_event result \<times> db" where
  "status_callback env m device_id state error now s =
     (case status_changed env m device_id state now s of
        (Inl e, s') \<Rightarrow> (Inl e, s')
      | (Inr _, s') \<Rightarrow>
          (ws_event_new ''device_status'' (Some device_id) now
             [(''connection_status'', JStr state), (''last_error'', text_or_null error)], s'))"

section \<open>The lifespan\<close>

record gateway_app =
  ga_db :: db
  ga_connections :: connections
  ga_os :: lock_os
  ga_lock :: instance_lock
  ga_retention :: bool

definition scheduled :: "registered_device \<Rightarrow> bool" where
  "scheduled d = (rd_enabled d \<and> truthy (rd_ble_address d))"

definition schedule_devices :: "manager_settings \<Rightarrow> registered_device list \<Rightarrow> connections \<Rightarrow> connections" where
  "schedule_devices cfg ds m =
     fold (\<lambda>d m. if scheduled d then schedule cfg m (rd_device_id d) (the (rd_ble_address d)) else m) ds m"

definition lifespan_start :: "gateway_settings \<Rightarrow> bool \<Rightarrow> gateway_app \<Rightarrow> (runtime_error + unit) \<times> gateway_app" where
  "lifespan_start g usable a =
     (case (if gs_gateway_instance_lock g then lock_acquire usable (ga_os a) (ga_lock a) else (Inr (), ga_os a, ga_lock a)) of
        (Inl e, os, lk) \<Rightarrow> (Inl e, a\<lparr>ga_os := os, ga_lock := lk\<rparr>)
      | (Inr _, os, lk) \<Rightarrow>
          (Inr (), a\<lparr>ga_os := os, ga_lock := lk, ga_retention := gs_history_retention_days g \<noteq> None,
             ga_connections := schedule_devices (manager_settings_of g) (device_list (ga_db a) False) []\<rparr>))"

definition lifespan_stop ::
  "(real \<Rightarrow> real) \<Rightarrow> (string \<Rightarrow> json result) \<Rightarrow> turns \<Rightarrow> gateway_settings \<Rightarrow> gateway_app \<Rightarrow> gateway_app \<times> connection list" where
  "lifespan_stop fl loads ts g a =
     (let (m, stopped) = shutdown fl loads ts (ga_connections a);
          (os, lk) = (if gs_gateway_instance_lock g then lock_release (ga_os a) (ga_lock a) else (ga_os a, ga_lock a))
      in (a\<lparr>ga_retention := False, ga_connections := m, ga_os := os, ga_lock := lk\<rparr>, stopped))"

text \<open>One turn of \<open>retention_loop\<close>: the database after it and the seconds it then sleeps.\<close>

definition retention_turn :: "gateway_settings \<Rightarrow> bool \<Rightarrow> time \<Rightarrow> db \<Rightarrow> db \<times> nat" where
  "retention_turn g failed now s =
     (let (deleted, s') = (if failed then (0, s)
        else cleanup_batch (gs_history_retention_days g) (nat (gs_history_retention_batch_size g)) s now)
      in (s', if int deleted = gs_history_retention_batch_size g then 5 else 21600))"

section \<open>Requests and responses\<close>

record http_response =
  hr_status :: nat
  hr_content :: dict
  hr_headers :: "(string \<times> string) list"

definition ends_with :: "string \<Rightarrow> string \<Rightarrow> bool" where
  "ends_with suffix s = (length suffix \<le> length s \<and> drop (length s - length suffix) s = suffix)"

definition protected_post :: "string \<Rightarrow> string \<Rightarrow> bool" where
  "protected_post verb path =
     (verb = ''POST'' \<and>
      (path \<in> {''/api/device-lifecycle/confirm'', ''/api/device-lifecycle/execute'', ''/api/device-lifecycle/cancel'',
          ''/api/factory-reset/confirm'', ''/api/factory-reset/execute'', ''/api/factory-reset/cancel''}
       \<or> starts_with ''/api/factory-reset/operations/'' path \<and> ends_with ''/retry-cleanup'' path
       \<or> starts_with ''/api/reset-reregister/'' path
       \<or> ends_with ''/vibration/baseline/reset'' path
       \<or> ends_with ''/vibration/baseline/relearn'' path))"

definition detail_json :: "string \<Rightarrow> string \<Rightarrow> json" where
  "detail_json code message = (if code = '''' then JStr message else JObj [(''code'', JStr code), (''message'', JStr message)])"

definition error_response :: "nat \<Rightarrow> string \<Rightarrow> json \<Rightarrow> http_response" where
  "error_response status error detail = \<lparr>hr_status = status, hr_content = [(''error'', JStr error), (''detail'', detail)], hr_headers = []\<rparr>"

text \<open>\<open>structured_http_error\<close> and \<open>internal_error\<close>; the latter runs outside the middleware.\<close>

definition structured_http_error :: "nat \<Rightarrow> string \<Rightarrow> string \<Rightarrow> http_response" where
  "structured_http_error status code message = error_response status ''request_error'' (detail_json code message)"

definition internal_error :: http_response where
  "internal_error = error_response 500 ''internal_error'' (JStr ''an internal error occurred'')"

fun handled_error :: "exn + http_response \<Rightarrow> exn + http_response" where
  "handled_error (Inl (HTTPException status code message)) = Inr (structured_http_error status code message)"
| "handled_error x = x"

definition protect_lifecycle_requests ::
  "(string \<Rightarrow> split_url result) \<Rightarrow> string \<Rightarrow> http_request \<Rightarrow> ('s \<Rightarrow> (exn + http_response) \<times> 's) \<Rightarrow> 's \<Rightarrow> (exn + http_response) \<times> 's" where
  "protect_lifecycle_requests urlsplit path r call_next st =
     (if protected_post (rq_method r) path
      then (case require_bounded_same_origin_json urlsplit r of
              Inl e \<Rightarrow> (handled_error (Inl e), st)
            | Inr _ \<Rightarrow> call_next st)
      else call_next st)"

definition prevent_stale_dashboard_assets :: "string \<Rightarrow> http_response \<Rightarrow> http_response" where
  "prevent_stale_dashboard_assets path response =
     (if path = ''/'' \<or> starts_with ''/static/'' path
      then response\<lparr>hr_headers := hr_headers response @ [(''Cache-Control'', ''no-cache, must-revalidate'')]\<rparr>
      else response)"

text \<open>A request through the middleware, the one added last first, to the endpoint of its route.\<close>

definition serve_request ::
  "(string \<Rightarrow> split_url result) \<Rightarrow> ('s \<Rightarrow> (exn + http_response) \<times> 's) \<Rightarrow> string \<Rightarrow> http_request \<Rightarrow> 's \<Rightarrow> http_response \<times> 's" where
  "serve_request urlsplit handler path r st =
     (case protect_lifecycle_requests urlsplit path r (\<lambda>st. apfst handled_error (handler st)) st of
        (Inl e, st') \<Rightarrow> (internal_error, st')
      | (Inr response, st') \<Rightarrow> (prevent_stale_dashboard_assets path response, st'))"

text \<open>The fields of a request that fails validation: the place without the part that names the body or the query, and the message.\<close>

fun loc_text :: "json \<Rightarrow> string" where
  "loc_text (JStr s) = s"
| "loc_text (JInt i) = int_str i"
| "loc_text _ = ''''"

fun join_dots :: "string list \<Rightarrow> string" where
  "join_dots [] = ''''"
| "join_dots [x] = x"
| "join_dots (x # xs) = x @ ''.'' @ join_dots xs"

definition validation_error :: "(json list \<times> string) list \<Rightarrow> http_response" where
  "validation_error errors = error_response 422 ''validation_error'' (JArr (map (\<lambda>(loc, message).
     JObj [(''field'', JStr (join_dots (map loc_text (filter (\<lambda>p. p \<notin> {JStr ''body'', JStr ''query''}) loc)))), (''message'', JStr message)]) errors))"

definition health :: "string \<Rightarrow> string \<Rightarrow> connections \<Rightarrow> dict" where
  "health version now m = [(''status'', JStr ''ok''), (''version'', JStr version), (''time'', JStr now),
     (''managed_devices'', JInt (int (length m)))]"

section \<open>A status never alters a registration\<close>

text \<open>A device without what a connection reports about it: its runtime state and the versions of its firmware.\<close>

definition registration_part :: "registered_device \<Rightarrow> registered_device" where
  "registration_part d = d\<lparr>rd_firmware_version := None, rd_telemetry_schema_version := None, rd_sensor_package_version := None,
     rd_protocol_version := None, rd_configuration_schema_version := None, rd_build_identifier := None, rd_firmware_git_commit := None,
     rd_compatibility_status := '''', rd_compatibility_message := None, rd_connection_status := '''', rd_last_connected_at := None,
     rd_updated_at := 0\<rparr>"

lemma get_device_replace:
  "rd_device_id e = k \<Longrightarrow>
   get_device (upd_device s k (\<lambda>_. e)) k' = (if k' = k then map_option (\<lambda>_. e) (get_device s k) else get_device s k')"
proof -
  assume e: "rd_device_id e = k"
  have "find_row (\<lambda>d. rd_device_id d = k') (upd_rows (\<lambda>d. rd_device_id d = k) (\<lambda>_. e) rows) =
    (if k' = k then map_option (\<lambda>_. e) (find_row (\<lambda>d. rd_device_id d = k) rows) else find_row (\<lambda>d. rd_device_id d = k') rows)" for rows
    by (induction rows) (auto simp: find_row_def upd_rows_def e)
  then show ?thesis by (simp add: get_device_def upd_device_def)
qed

lemma connected_values_registration:
  "connected_values env metadata verdict d = Inr values \<Longrightarrow>
   registration_part (values x) = registration_part x \<and> rd_device_id (values x) = rd_device_id x"
  by (auto simp: connected_values_def bind_result_Inr_iff registration_part_def)

lemma firmware_record_frame [simp]:
  "registered_devices (snd (firmware_record s k metadata status now)) = registered_devices s"
  "(snd (firmware_record s k metadata status now))\<lparr>node_firmware_histories := h\<rparr> = s\<lparr>node_firmware_histories := h\<rparr>"
  by (auto simp: firmware_record_def firmware_insert_def Let_def split: option.splits)

lemma runtime_registration:
  assumes d: "get_device s k = Some d" and k: "rd_device_id d' = k"
  shows "\<exists>e. get_device (device_update_runtime s d' status None t None now) k = Some e \<and> registration_part e = registration_part d"
    and "k' \<noteq> k \<Longrightarrow> get_device (device_update_runtime s d' status None t None now) k' = get_device s k'"
    and "(device_update_runtime s d' status None t None now)\<lparr>registered_devices := r\<rparr> = s\<lparr>registered_devices := r\<rparr>"
  using d k by (simp_all add: device_update_runtime_def devices.get_upd registration_part_def) (simp add: upd_device_def)

lemma on_connected_registration:
  assumes run: "on_connected env metadata d now s = (x, s')" and d: "get_device s k = Some d"
  shows "(\<exists>e. get_device s' k = Some e \<and> registration_part e = registration_part d) \<and> (\<forall>k' \<noteq> k. get_device s' k' = get_device s k') \<and>
     s'\<lparr>registered_devices := r, node_firmware_histories := h\<rparr> = s\<lparr>registered_devices := r, node_firmware_histories := h\<rparr>"
proof (cases "s' = s")
  case True
  with d show ?thesis by simp
next
  case False
  have k: "rd_device_id d = k" using get_device_SomeD [OF d] by simp
  from run False obtain verdict vs d' s1 where v: "connected_values env metadata verdict d = Inr vs"
    and row: "device_update_row s d vs now = (Inr d', s1)"
    and s': "s' = device_update_runtime (if complete_metadata metadata then snd (firmware_record s1 k metadata (fst verdict) now) else s1)
        d' (Some ''connected'') None (Some now) None now"
    by (auto simp: on_connected_def bind_result_Inr_iff device_update_row_def k Let_def split: sum.splits if_splits)
  let ?e = "(vs d)\<lparr>rd_updated_at := now\<rparr>"
  from row have e: "d' = ?e" "s1 = upd_device s k (\<lambda>_. ?e)" "rd_device_id ?e = k"
    by (auto simp: device_update_row_def Let_def k split: if_splits)
  let ?s2 = "if complete_metadata metadata then snd (firmware_record s1 k metadata (fst verdict) now) else s1"
  have "get_device ?s2 k' = get_device s1 k'" for k' by (simp add: get_device_def)
  then have get: "get_device ?s2 k' = (if k' = k then Some ?e else get_device s k')" for k'
    using get_device_replace [OF e(3), of s k'] d by (simp add: e(2))
  have reg: "registration_part ?e = registration_part d" using connected_values_registration [OF v, of d] by (simp add: registration_part_def)
  have frame: "?s2\<lparr>registered_devices := r, node_firmware_histories := h\<rparr> = s\<lparr>registered_devices := r, node_firmware_histories := h\<rparr>"
  proof -
    have swap: "t\<lparr>registered_devices := r, node_firmware_histories := h\<rparr> = t\<lparr>node_firmware_histories := h, registered_devices := r\<rparr>" for t :: db
      by simp
    have "?s2\<lparr>node_firmware_histories := h\<rparr> = s1\<lparr>node_firmware_histories := h\<rparr>" by simp
    then have "?s2\<lparr>node_firmware_histories := h, registered_devices := r\<rparr> = s1\<lparr>node_firmware_histories := h, registered_devices := r\<rparr>"
      by (rule arg_cong)
    also have "\<dots> = s\<lparr>registered_devices := r, node_firmware_histories := h\<rparr>" by (simp add: e(2) upd_device_def)
    finally show ?thesis unfolding swap .
  qed
  have "get_device ?s2 k = Some ?e" "rd_device_id d' = k" using get e(1,3) by simp_all
  note runtime = runtime_registration [OF this]
  have "s'\<lparr>registered_devices := r\<rparr> = ?s2\<lparr>registered_devices := r\<rparr>" unfolding s' by (rule runtime(3))
  from arg_cong [OF this, of "node_firmware_histories_update (\<lambda>_. h)"] frame
  have "s'\<lparr>registered_devices := r, node_firmware_histories := h\<rparr> = s\<lparr>registered_devices := r, node_firmware_histories := h\<rparr>" by simp
  moreover have "\<exists>e. get_device s' k = Some e \<and> registration_part e = registration_part d" unfolding s' reg [symmetric] by (rule runtime(1))
  moreover have "\<forall>k' \<noteq> k. get_device s' k' = get_device s k'" unfolding s' using runtime(2) get by simp
  ultimately show ?thesis by blast
qed

text \<open>C21. A status report of a connection, however late it arrives, never revives or alters a registration: other devices are not
  touched, of its own device it changes only the runtime state and the firmware columns, of a device that is removed, archived or
  disabled nothing, and of the other tables only the firmware history.
\<close>

theorem status_keeps_registration:
  assumes run: "status_callback env m device_id state error now s = (x, s')"
  shows "(\<forall>k \<noteq> device_id. get_device s' k = get_device s k) \<and>
     map_option registration_part (get_device s' device_id) = map_option registration_part (get_device s device_id) \<and>
     s'\<lparr>registered_devices := [], node_firmware_histories := []\<rparr> = s\<lparr>registered_devices := [], node_firmware_histories := []\<rparr> \<and>
     ((\<forall>d. get_device s device_id = Some d \<longrightarrow> \<not> listens d) \<longrightarrow> s' = s)"
proof -
  obtain y where changed: "status_changed env m device_id state now s = (y, s')"
    using run by (auto simp: status_callback_def split: prod.splits sum.splits)
  show ?thesis
  proof (cases "get_device s device_id")
    case None
    with changed show ?thesis by (simp add: status_changed_def)
  next
    case (Some d)
    have k: "rd_device_id d = device_id" using get_device_SomeD [OF Some] by simp
    consider (off) "\<not> listens d" "s' = s" | (connected) "listens d" "\<exists>metadata. on_connected env metadata d now s = (y, s')"
      | (other) "listens d" "s' = device_update_runtime s d (Some state) None None None now"
      using changed Some by (auto simp: status_changed_def split: if_splits)
    then show ?thesis
    proof cases
      case off
      with Some show ?thesis by simp
    next
      case connected
      with on_connected_registration [OF _ Some, of env _ now y s'] Some show ?thesis by fastforce
    next
      case other
      have frame: "s'\<lparr>registered_devices := [], node_firmware_histories := []\<rparr> = s\<lparr>registered_devices := [], node_firmware_histories := []\<rparr>"
        using arg_cong [OF runtime_registration(3) [OF Some k], of "node_firmware_histories_update (\<lambda>_. [])"] by (simp add: other(2))
      moreover have "map_option registration_part (get_device s' device_id) = Some (registration_part d)"
        using runtime_registration(1) [OF Some k, of "Some state" None now] by (auto simp: other(2))
      moreover have "\<forall>k \<noteq> device_id. get_device s' k = get_device s k" using runtime_registration(2) [OF Some k] by (simp add: other(2))
      ultimately show ?thesis using other(1) Some by simp
    qed
  qed
qed

definition sample_status_env :: status_env where
  "sample_status_env = \<lparr>se_text = (\<lambda>v. Inr (json_str v)), se_int = (\<lambda>_. Inr None), se_evaluate = (\<lambda>_. Inr (''metadata_missing'', ''''))\<rparr>"

definition sample_gateway_db :: db where
  "sample_gateway_db = empty_db\<lparr>registered_devices := [(device_defaults 1 0)\<lparr>rd_device_id := ''A'', rd_ble_address := Some ''aa''\<rparr>,
     (device_defaults 2 0)\<lparr>rd_device_id := ''B'', rd_ble_address := Some ''bb'', rd_archived := True, rd_lifecycle_state := ''removed''\<rparr>]\<rparr>"

theorem status_keeps_registration_witness:
  "snd (status_callback sample_status_env [] ''B'' ''connected'' None 9 sample_gateway_db) = sample_gateway_db"
  using status_keeps_registration [of sample_status_env "[]" "''B''" "''connected''" None 9 sample_gateway_db
      "fst (status_callback sample_status_env [] ''B'' ''connected'' None 9 sample_gateway_db)"
      "snd (status_callback sample_status_env [] ''B'' ''connected'' None 9 sample_gateway_db)"]
  by (simp add: sample_gateway_db_def get_device_def find_row_def listens_def)

section \<open>Startup connects the registered sensors\<close>

definition first_connection :: "manager_settings \<Rightarrow> registered_device \<Rightarrow> connection" where
  "first_connection cfg d = start (new_connection (rd_device_id d) (the (rd_ble_address d)) (ms_reconnect_initial_seconds cfg)
     (ms_reconnect_max_seconds cfg) (ms_reconnect_stable_seconds cfg))"

lemma schedule_new:
  "map_of m k = None \<Longrightarrow> schedule cfg m k address =
   m @ [(k, start (new_connection k address (ms_reconnect_initial_seconds cfg) (ms_reconnect_max_seconds cfg) (ms_reconnect_stable_seconds cfg)))]"
  by (simp add: schedule_def put_connection_def)

lemma schedule_devices_new:
  "distinct (map rd_device_id ds) \<Longrightarrow> \<forall>d \<in> set ds. map_of m (rd_device_id d) = None \<Longrightarrow>
   schedule_devices cfg ds m = m @ map (\<lambda>d. (rd_device_id d, first_connection cfg d)) (filter scheduled ds)"
proof (induction ds arbitrary: m)
  case (Cons d ds)
  let ?m = "if scheduled d then schedule cfg m (rd_device_id d) (the (rd_ble_address d)) else m"
  have "?m = m @ (if scheduled d then [(rd_device_id d, first_connection cfg d)] else [])"
    using Cons.prems(2) by (simp add: schedule_new first_connection_def)
  moreover from this have "\<forall>e \<in> set ds. map_of ?m (rd_device_id e) = None" using Cons.prems by (auto simp: map_add_def image_iff)
  ultimately show ?case using Cons.IH [of ?m] Cons.prems(1) by (simp add: schedule_devices_def)
qed (simp add: schedule_devices_def)

lemma device_list_distinct: "distinct (map rd_device_id (registered_devices s)) \<Longrightarrow> distinct (map rd_device_id (device_list s b))"
  by (auto simp: device_list_def distinct_map_filter distinct_map intro: inj_on_subset)

text \<open>A gateway that starts holds the instance lock, if it is to use one, and manages exactly the registered sensors that are
  enabled, not archived and have an address, each once, at that address and about to connect; one that cannot get the lock manages no
  sensor.
\<close>

theorem startup_connects_registered:
  assumes run: "lifespan_start g usable a = (x, a')" and unique: "distinct (map rd_device_id (registered_devices (ga_db a)))"
    and idle: "ga_connections a = []"
  shows "case x of
       Inl e \<Rightarrow> ga_connections a' = [] \<and> gs_gateway_instance_lock g \<and> e = already_running
     | Inr _ \<Rightarrow> (gs_gateway_instance_lock g \<longrightarrow> (\<exists>h. il_file (ga_lock a') = Some h \<and> lo_owner (ga_os a') (il_path (ga_lock a')) = Some h)) \<and>
         distinct (map fst (ga_connections a')) \<and>
         set (ga_connections a') = {(rd_device_id d, first_connection (manager_settings_of g) d) |d.
           d \<in> set (registered_devices (ga_db a)) \<and> \<not> rd_archived d \<and> rd_enabled d \<and> truthy (rd_ble_address d)}"
proof -
  let ?ds = "device_list (ga_db a) False"
  have ds: "distinct (map rd_device_id ?ds)" "set ?ds = {d \<in> set (registered_devices (ga_db a)). \<not> rd_archived d}"
    using unique by (simp add: device_list_distinct) (auto simp: device_list_def)
  have all: "schedule_devices cfg ?ds [] = map (\<lambda>d. (rd_device_id d, first_connection cfg d)) (filter scheduled ?ds)" for cfg
    using schedule_devices_new [OF ds(1), of "[]"] by simp
  have keys: "map fst (schedule_devices cfg ?ds []) = map rd_device_id (filter scheduled ?ds)" for cfg by (simp add: all)
  have connected: "distinct (map fst (schedule_devices cfg ?ds [])) \<and>
      set (schedule_devices cfg ?ds []) = {(rd_device_id d, first_connection cfg d) |d.
        d \<in> set (registered_devices (ga_db a)) \<and> \<not> rd_archived d \<and> rd_enabled d \<and> truthy (rd_ble_address d)}" for cfg
    unfolding keys using distinct_map_filter [OF ds(1), of scheduled] by (auto simp: all ds(2) scheduled_def)
  show ?thesis
  proof (cases "gs_gateway_instance_lock g")
    case False
    with run connected show ?thesis by (auto simp: lifespan_start_def)
  next
    case True
    with run connected idle show ?thesis
      by (cases usable; cases "lo_owner (ga_os a) (il_path (ga_lock a))") (auto simp: lifespan_start_def lock_acquire_def Let_def)
  qed
qed

definition sample_gateway_settings :: gateway_settings where
  "sample_gateway_settings = \<lparr>gs_database_url = ''sqlite:///./data/seed_mg24.db'', gs_host = ''0.0.0.0'', gs_port = 8000, gs_log_level = ''INFO'',
     gs_scan_duration_seconds = 8, gs_discovery_ttl_seconds = 120, gs_max_connection_attempts = 3, gs_reconnect_initial_seconds = 1,
     gs_reconnect_max_seconds = 60, gs_reconnect_stable_seconds = 30, gs_stale_after_seconds = 30, gs_poll_interval_seconds = 1,
     gs_max_payload_bytes = 2048, gs_max_payload_json_bytes = 4096, gs_history_page_size_max = 500, gs_history_max_days = 31,
     gs_history_retention_days = Some 1, gs_history_retention_batch_size = 1000, gs_vibration_baseline_minimum_windows = 100,
     gs_vibration_condition_persistence_windows = 3, gs_vibration_persistence_interval_seconds = 5, gs_gateway_id = None,
     gs_sensor_profile_directory = ''./data/sensor_profiles'', gs_max_profile_upload_bytes = 65536, gs_provisioning_timeout_seconds = 10,
     gs_firmware_catalog_path = ''./sensor_package/approved_firmware.json'', gs_arduino_cli = ''arduino-cli'',
     gs_developer_firmware_approval = False, gs_gateway_instance_lock = True\<rparr>"

definition sample_gateway :: gateway_app where
  "sample_gateway = \<lparr>ga_db = sample_gateway_db, ga_connections = [], ga_os = mn_os (booted (\<lambda>_. '''')),
     ga_lock = gateway_instance_lock id ''/tmp'' ''/srv'' ''sqlite:///./data/seed_mg24.db'' 8000, ga_retention = False\<rparr>"

theorem startup_connects_registered_witness:
  "fst ` set (ga_connections (snd (lifespan_start sample_gateway_settings True sample_gateway))) = {''A''}"
proof -
  have "gs_gateway_instance_lock sample_gateway_settings" by (simp add: sample_gateway_settings_def)
  then have started: "fst (lifespan_start sample_gateway_settings True sample_gateway) = Inr ()"
    by (simp add: lifespan_start_def sample_gateway_def booted_def lock_acquire_def gateway_instance_lock_def Let_def)
  have "distinct (map rd_device_id (registered_devices (ga_db sample_gateway)))" "ga_connections sample_gateway = []"
    by (simp_all add: sample_gateway_def sample_gateway_db_def)
  from startup_connects_registered [OF prod.collapse [symmetric] this, of sample_gateway_settings True] started
  have "set (ga_connections (snd (lifespan_start sample_gateway_settings True sample_gateway))) =
      {(rd_device_id d, first_connection (manager_settings_of sample_gateway_settings) d) |d.
        d \<in> set (registered_devices sample_gateway_db) \<and> \<not> rd_archived d \<and> rd_enabled d \<and> truthy (rd_ble_address d)}"
    by (simp add: sample_gateway_def)
  moreover have "fst ` {(f d, c d) |d. P d} = f ` {d. P d}" for f :: "registered_device \<Rightarrow> string" and c :: "registered_device \<Rightarrow> connection" and P
    by force
  moreover have "{d. d \<in> set (registered_devices sample_gateway_db) \<and> \<not> rd_archived d \<and> rd_enabled d \<and> truthy (rd_ble_address d)} =
      {(device_defaults 1 0)\<lparr>rd_device_id := ''A'', rd_ble_address := Some ''aa''\<rparr>}"
    by (auto simp: sample_gateway_db_def device_defaults_def)
  ultimately show ?thesis by simp
qed

lemma shutdown_releases:
  assumes "lifespan_stop fl loads ts g a = (a', stopped)" and "gs_gateway_instance_lock g"
    and "il_file (ga_lock a) = Some h" "lo_owner (ga_os a) (il_path (ga_lock a)) = Some h"
  shows "ga_connections a' = [] \<and> lo_owner (ga_os a') (il_path (ga_lock a)) = None \<and> length stopped = length (ga_connections a)"
  using assms by (auto simp: lifespan_stop_def shutdown_def lock_release_def unlock_def Let_def)

section \<open>Retention starves the readings\<close>

text \<open>
  A batch deletes readings only when no vibration window is older than the cutoff, and a batch that is not full is followed by a
  sleep of six hours. So while windows keep passing the cutoff, no reading is ever deleted.
\<close>

lemma retention_turn_windows_first:
  assumes "gs_history_retention_days g = Some days" "0 < gs_history_retention_batch_size g"
    and "\<exists>w \<in> set (vibration_windows s). vw_observed_at w < now - days * day"
  shows "readings (fst (retention_turn g failed now s)) = readings s"
proof -
  have "vibration_ids s (now - days * day) (nat (gs_history_retention_batch_size g)) \<noteq> []"
    using assms(2,3) by (auto simp: vibration_ids_def filter_empty_conv simp flip: set_empty [of "sort _"])
  with assms(1) show ?thesis by (simp add: retention_turn_def cleanup_batch_def Let_def)
qed

theorem retention_starves_readings:
  assumes days: "gs_history_retention_days g = Some days" "0 < gs_history_retention_batch_size g"
    and expired: "\<forall>n. \<exists>w \<in> set (vibration_windows (st n)). vw_observed_at w < now n - days * day"
    and acquisition: "\<forall>n. set (readings (fst (retention_turn g (failed n) (now n) (st n)))) \<subseteq> set (readings (st (Suc n)))"
  shows "set (readings (st 0)) \<subseteq> set (readings (st n))"
proof (induction n)
  case (Suc n)
  have "readings (fst (retention_turn g (failed n) (now n) (st n))) = readings (st n)"
    using retention_turn_windows_first [OF days] expired by blast
  with Suc acquisition show ?case by (metis order_trans)
qed simp

section \<open>Destructive requests are checked\<close>

text \<open>The routes of the lifecycle, factory reset, re-registration and baseline routers that change state, with their path parameter.\<close>

definition destructive_path :: "string \<Rightarrow> bool" where
  "destructive_path path \<longleftrightarrow>
     path \<in> {''/api/device-lifecycle/confirm'', ''/api/device-lifecycle/execute'', ''/api/device-lifecycle/cancel'',
       ''/api/factory-reset/confirm'', ''/api/factory-reset/execute'', ''/api/factory-reset/cancel''} \<or>
     (\<exists>operation_id. path = ''/api/factory-reset/operations/'' @ operation_id @ ''/retry-cleanup'') \<or>
     (\<exists>route. path = ''/api/reset-reregister/'' @ route) \<or>
     (\<exists>device_id. path = ''/api/devices/'' @ device_id @ ''/vibration/baseline/reset'') \<or>
     (\<exists>device_id. path = ''/api/devices/'' @ device_id @ ''/vibration/baseline/relearn'')"

lemma starts_with_append [simp]: "starts_with pre (pre @ s)"
  by (induction pre) simp_all

lemma ends_with_append [simp]: "ends_with suffix (s @ suffix)"
  by (simp add: ends_with_def)

lemma destructive_protected: assumes "destructive_path path" shows "protected_post ''POST'' path"
proof -
  have "protected_post ''POST'' (''/api/factory-reset/operations/'' @ k @ ''/retry-cleanup'')" for k
    using starts_with_append [of "''/api/factory-reset/operations/''" "k @ ''/retry-cleanup''"]
      ends_with_append [of "''/retry-cleanup''" "''/api/factory-reset/operations/'' @ k"]
    unfolding protected_post_def append_assoc by blast
  moreover have "protected_post ''POST'' (''/api/reset-reregister/'' @ k)" for k
    using starts_with_append [of "''/api/reset-reregister/''" k] unfolding protected_post_def by blast
  moreover have "protected_post ''POST'' (''/api/devices/'' @ k @ ''/vibration/baseline/reset'')"
    "protected_post ''POST'' (''/api/devices/'' @ k @ ''/vibration/baseline/relearn'')" for k
    using ends_with_append [of "''/vibration/baseline/reset''" "''/api/devices/'' @ k"]
      ends_with_append [of "''/vibration/baseline/relearn''" "''/api/devices/'' @ k"]
    unfolding protected_post_def append_assoc by blast+
  moreover have "protected_post ''POST'' path"
    if "path \<in> {''/api/device-lifecycle/confirm'', ''/api/device-lifecycle/execute'', ''/api/device-lifecycle/cancel'',
       ''/api/factory-reset/confirm'', ''/api/factory-reset/execute'', ''/api/factory-reset/cancel''}"
    unfolding protected_post_def using that by blast
  ultimately show ?thesis using assms unfolding destructive_path_def by metis
qed



end
