(* ===== verification/Bootstrap_Cli.thy ===== *)
theory Bootstrap_Cli
  imports Factory_Reset
begin

text \<open>
  The command line of the USB bootstrap tool (\<open>sensor_package/tools/bootstrap/cli.py\<close>) after its arguments have been parsed. A run
  works on the serial side of \<open>Factory_Reset\<close> and on files, of which the decoded content is kept; \<open>cl_trace\<close> is the exchanges with
  the node, each with its answer. The digest, the clock text and Python's equality of decoded values are part of the world.
\<close>

section \<open>The world of a run\<close>

record cli_args =
  ca_command :: string
  ca_port :: "string option"
  ca_node_id :: "string option"
  ca_file :: "string option"
  ca_scope :: string
  ca_hardware_id :: "string option"
  ca_confirm :: bool
  ca_include_identity :: bool
  ca_timeout :: real
  ca_polls :: nat

record cli_world =
  cl_usb :: usb_world
  cl_files :: "string \<Rightarrow> json result"
  cl_writable :: bool
  cl_sha256 :: "string \<Rightarrow> string"
  cl_now :: string
  cl_same :: "json \<Rightarrow> json \<Rightarrow> bool"
  cl_trace :: "(string \<times> dict \<times> dict result) list"
  cl_printed :: "dict list"

type_synonym 'a cl = "cli_world \<Rightarrow> 'a result \<times> cli_world"

definition bind_cl :: "'a cl \<Rightarrow> ('a \<Rightarrow> 'b cl) \<Rightarrow> 'b cl" where
  "bind_cl m f w = (case m w of (Inl e, w') \<Rightarrow> (Inl e, w') | (Inr x, w') \<Rightarrow> f x w')"

definition lift_cl :: "'a result \<Rightarrow> 'a cl" where
  "lift_cl r w = (r, w)"

definition require_cl :: "bool \<Rightarrow> exn \<Rightarrow> unit cl" where
  "require_cl ok e = lift_cl (if ok then Inr () else Inl e)"

definition print_cl :: "dict \<Rightarrow> unit cl" where
  "print_cl d w = (Inr (), w\<lparr>cl_printed := cl_printed w @ [d]\<rparr>)"

definition cli_ports :: "string list cl" where
  "cli_ports w = (case supported_ports (cl_usb w) of (ports, u) \<Rightarrow> (Inr (map up_device ports), w\<lparr>cl_usb := u\<rparr>))"

text \<open>\<open>BootstrapSerialClient(port, timeout=timeout)\<close>.\<close>

definition cli_open :: "string \<Rightarrow> real \<Rightarrow> unit cl" where
  "cli_open port timeout w =
     (if port = '''' \<or> timeout \<le> 0 \<or> timeout > 30 then (Inl (ValueError ''explicit port and bounded timeout required''), w)
      else case open_client (cl_usb w) of (r, u) \<Rightarrow> (r, w\<lparr>cl_usb := u\<rparr>))"

definition cli_request :: "string \<Rightarrow> dict \<Rightarrow> dict cl" where
  "cli_request action params w =
     (let u = cl_usb w; (request_id, lines) = uw_reply u (uw_clock u);
          r = client_request (uw_canonical u) (uw_loads u) (uw_str u) request_id action params lines
      in (r, w\<lparr>cl_usb := tick u, cl_trace := cl_trace w @ [(action, params, r)]\<rparr>))"

definition result_cl :: "dict \<Rightarrow> json cl" where
  "result_cl response = lift_cl (item_at response ''result'')"

text \<open>\<open>client.request(action, ...)["result"]\<close> where the result is used as an object.\<close>

definition cli_state :: "string \<Rightarrow> dict \<Rightarrow> dict cl" where
  "cli_state action params = bind_cl (cli_request action params) (\<lambda>response. bind_cl (result_cl response) (\<lambda>v. lift_cl (as_object v)))"

definition inspect_port :: "string \<Rightarrow> real \<Rightarrow> dict cl" where
  "inspect_port port timeout =
     bind_cl (cli_open port timeout) (\<lambda>_.
     bind_cl (cli_state ''read_node_state'' []) (\<lambda>st. lift_cl (Inr (dupdate [(''port'', JStr port)] st))))"

section \<open>The commands\<close>

fun list_devices_cl :: "real \<Rightarrow> string list \<Rightarrow> dict list cl" where
  "list_devices_cl timeout [] w = (Inr [], w)"
| "list_devices_cl timeout (port # ports) w =
     (case inspect_port port timeout w of
        (Inl e, w1) \<Rightarrow>
          if read_failure e
          then bind_cl (list_devices_cl timeout ports)
                 (\<lambda>ds. lift_cl (Inr ([(''port'', JStr port), (''status'', JStr ''unreadable''), (''error'', JStr (exn_str e))] # ds))) w1
          else (Inl e, w1)
      | (Inr d, w1) \<Rightarrow> bind_cl (list_devices_cl timeout ports) (\<lambda>ds. lift_cl (Inr (d # ds))) w1)"

definition cmd_list :: "cli_args \<Rightarrow> unit cl" where
  "cmd_list args =
     bind_cl cli_ports (\<lambda>ports.
     bind_cl (list_devices_cl (ca_timeout args) ports) (\<lambda>devices.
       print_cl [(''status'', JStr ''success''), (''count'', JInt (int (length devices))), (''devices'', JArr (map JObj devices))]))"

definition cmd_provision :: "cli_args \<Rightarrow> dict cl" where
  "cmd_provision args =
     bind_cl (cli_state ''read_identity'' []) (\<lambda>st.
     bind_cl (lift_cl (item_at st ''identity_status'')) (\<lambda>status.
     bind_cl (require_cl (status = JStr ''unprovisioned'') (ProtocolError ''node is not unprovisioned'')) (\<lambda>_.
     bind_cl (cli_request ''provision_identity'' [(''node_id'', JStr (the (ca_node_id args)))]) (\<lambda>response.
     bind_cl (cli_state ''read_identity'' []) (\<lambda>check.
     bind_cl (require_cl (dget check ''node_id'' = JStr (the (ca_node_id args))) (ProtocolError ''identity read-back mismatch'')) (\<lambda>_.
       lift_cl (Inr response)))))))"

definition cmd_verify :: "dict cl" where
  "cmd_verify =
     bind_cl (cli_request ''verify_state'' []) (\<lambda>first.
     bind_cl (cli_request ''verify_state'' []) (\<lambda>second.
     bind_cl (result_cl first) (\<lambda>a. bind_cl (result_cl second) (\<lambda>b. \<lambda>w.
       (if cl_same w a b then Inr second else Inl (ProtocolError ''state changed between verification reads''), w)))))"

definition write_file :: "string \<Rightarrow> dict \<Rightarrow> unit cl" where
  "write_file path content w =
     (if cl_writable w then (Inr (), w\<lparr>cl_files := (cl_files w)(path := Inr (JObj content))\<rparr>) else (Inl (OSError ''file cannot be written''), w))"

definition check_backup :: "json \<Rightarrow> dict cl" where
  "check_backup v w =
     (case v of
        JObj backup \<Rightarrow> (bind_result (validate_backup (uw_canonical (cl_usb w)) (cl_sha256 w) backup) (\<lambda>_. Inr backup), w)
      | _ \<Rightarrow> (Inl (ProtocolError ''invalid backup schema''), w))"

definition load_backup :: "string \<Rightarrow> dict cl" where
  "load_backup path w = (case cl_files w path of Inl e \<Rightarrow> (Inl e, w) | Inr v \<Rightarrow> check_backup v w)"

definition cmd_backup :: "cli_args \<Rightarrow> dict cl" where
  "cmd_backup args =
     bind_cl (cli_state ''backup_state'' []) (\<lambda>st. \<lambda>w.
       let backup = make_backup (uw_canonical (cl_usb w)) (cl_sha256 w) st (cl_now w) (ca_include_identity args);
           path = the (ca_file args) in
       bind_cl (write_file path backup) (\<lambda>_.
       bind_cl (load_backup path) (\<lambda>_.
         lift_cl (Inr [(''status'', JStr ''success''), (''file'', JStr path), (''sha256'', dget backup ''canonical_content_hash'')]))) w)"

definition cmd_restore :: "dict \<Rightarrow> dict cl" where
  "cmd_restore backup = bind_cl (lift_cl (restore_fields backup)) (cli_request ''restore_configuration'')"

definition reset_args :: "cli_args \<Rightarrow> dict" where
  "reset_args args = [(''reset_protocol_version'', JInt 2), (''scope'', JStr (ca_scope args)),
     (''expected_hardware_id'', JStr (the (ca_hardware_id args)))]"

definition confirm_args :: "cli_args \<Rightarrow> json \<Rightarrow> json \<Rightarrow> dict" where
  "confirm_args args operation_id challenge = reset_args args @ [(''operation_id'', operation_id), (''challenge'', challenge)]"

text \<open>
  The reset up to its confirmation: \<open>Inl ()\<close> stands for the dry run, which has printed its answer and returns, \<open>Inr\<close> for the state
  before the reset and the answer to the confirmation.
\<close>

definition cmd_reset :: "cli_args \<Rightarrow> (unit + dict \<times> dict) cl" where
  "cmd_reset args =
     bind_cl (require_cl (case ca_hardware_id args of None \<Rightarrow> False | Some h \<Rightarrow> hardware_id_pattern h)
       (ProtocolError ''normalized --hardware-id is required for factory reset'')) (\<lambda>_.
     bind_cl (cli_state ''read_node_state'' []) (\<lambda>before.
     bind_cl (require_cl (dget before ''hardware_id'' = JStr (the (ca_hardware_id args)))
       (ProtocolError ''connected physical sensor hardware identity mismatch'')) (\<lambda>_.
     bind_cl (cli_request ''prepare_factory_reset'' (reset_args args)) (\<lambda>prepared.
     if \<not> ca_confirm args
     then
       bind_cl (cli_request ''cancel_factory_reset'' []) (\<lambda>_.
       bind_cl (result_cl prepared) (\<lambda>v. bind_cl (lift_cl (as_object v)) (\<lambda>p.
       bind_cl (print_cl [(''status'', JStr ''prepared_then_cancelled''), (''hardware_id'', JStr (the (ca_hardware_id args))),
         (''scope'', JStr (ca_scope args)), (''expires_in_ms'', dget p ''expires_in_ms'')]) (\<lambda>_. lift_cl (Inr (Inl ()))))))
     else
       bind_cl (result_cl prepared) (\<lambda>v. bind_cl (lift_cl (as_object v)) (\<lambda>challenge.
       bind_cl (require_cl (dget challenge ''hardware_id'' = JStr (the (ca_hardware_id args)))
         (ProtocolError ''reset challenge hardware identity mismatch'')) (\<lambda>_.
       bind_cl (lift_cl (item_at challenge ''operation_id'')) (\<lambda>operation_id.
       bind_cl (lift_cl (item_at challenge ''challenge'')) (\<lambda>c.
       bind_cl (cli_request ''confirm_factory_reset'' (confirm_args args operation_id c)) (\<lambda>response.
         lift_cl (Inr (Inr (before, response)))))))))))))"

fun cli_scan :: "cli_args \<Rightarrow> string list \<Rightarrow> dict option cl" where
  "cli_scan args [] w = (Inr None, w)"
| "cli_scan args (port # ports) w =
     (case inspect_port port (ca_timeout args) w of
        (Inl e, w1) \<Rightarrow> if read_failure e then cli_scan args ports w1 else (Inl e, w1)
      | (Inr candidate, w1) \<Rightarrow>
          if dget candidate ''hardware_id'' = JStr (the (ca_hardware_id args)) then (Inr (Some candidate), w1) else cli_scan args ports w1)"

fun cli_wait :: "nat \<Rightarrow> cli_args \<Rightarrow> dict option cl" where
  "cli_wait 0 args w = (Inr None, w)"
| "cli_wait (Suc polls) args w =
     bind_cl cli_ports (\<lambda>ports. bind_cl (cli_scan args ports) (\<lambda>found.
       case found of None \<Rightarrow> cli_wait polls args | Some v \<Rightarrow> lift_cl (Inr (Some v)))) w"

definition cli_verified :: "cli_args \<Rightarrow> dict \<Rightarrow> dict option \<Rightarrow> dict result" where
  "cli_verified args before found =
     (case found of
        None \<Rightarrow> Inl (ProtocolError ''same hardware did not re-enumerate before timeout'')
      | Some verified \<Rightarrow>
          if dget verified ''node_id'' \<noteq> JNull \<or> dget verified ''identity_status'' \<noteq> JStr ''unprovisioned''
          then Inl (ProtocolError ''post-reset read-back is not unprovisioned'')
          else if dget verified ''firmware_version'' \<noteq> dget before ''firmware_version''
          then Inl (ProtocolError ''firmware version changed across factory reset'')
          else Inr verified)"

definition cmd_finish_reset :: "cli_args \<Rightarrow> dict \<Rightarrow> dict \<Rightarrow> dict cl" where
  "cmd_finish_reset args before response =
     bind_cl (cli_wait (ca_polls args) args) (\<lambda>found.
     bind_cl (lift_cl (cli_verified args before found)) (\<lambda>verified.
     bind_cl (result_cl response) (\<lambda>v.
     bind_cl (lift_cl (as_object v)) (\<lambda>r.
     bind_cl (lift_cl (item_at r ''operation_id'')) (\<lambda>operation_id.
       lift_cl (Inr [(''status'', JStr ''success''), (''operation_id'', operation_id), (''hardware_id'', JStr (the (ca_hardware_id args))),
         (''pre_reboot'', v), (''post_reset'', JObj verified), (''verified_unprovisioned'', JBool True)]))))))"

section \<open>The program\<close>

definition arguments_ok :: "cli_args \<Rightarrow> unit result" where
  "arguments_ok args =
     (if \<not> truthy (ca_port args) then Inl (ProtocolError ''explicit --port is required'')
      else if ca_command args = ''provision'' \<and> (case ca_node_id args of None \<Rightarrow> True | Some n \<Rightarrow> \<not> node_id_text n)
      then Inl (ProtocolError ''valid --node-id is required'')
      else if ca_command args \<in> {''backup'', ''restore''} \<and> ca_file args = None then Inl (ProtocolError ''--file is required'')
      else Inr ())"

text \<open>The commands that talk to one node; \<open>None\<close> is the answer of a dry run that has already been printed.\<close>

definition cli_connected :: "cli_args \<Rightarrow> dict \<Rightarrow> dict option cl" where
  "cli_connected args backup =
     bind_cl (cli_open (the (ca_port args)) (ca_timeout args)) (\<lambda>_.
       if ca_command args = ''read'' then bind_cl (cli_request ''read_node_state'' []) (\<lambda>r. lift_cl (Inr (Some r)))
       else if ca_command args = ''provision'' then bind_cl (cmd_provision args) (\<lambda>r. lift_cl (Inr (Some r)))
       else if ca_command args = ''verify'' then bind_cl cmd_verify (\<lambda>r. lift_cl (Inr (Some r)))
       else if ca_command args = ''backup'' then bind_cl (cmd_backup args) (\<lambda>r. lift_cl (Inr (Some r)))
       else if ca_command args = ''restore'' then bind_cl (cmd_restore backup) (\<lambda>r. lift_cl (Inr (Some r)))
       else bind_cl (cmd_reset args) (\<lambda>x.
         case x of Inl _ \<Rightarrow> lift_cl (Inr None)
         | Inr (before, response) \<Rightarrow> bind_cl (cmd_finish_reset args before response) (\<lambda>r. lift_cl (Inr (Some r)))))"

definition print_answer :: "dict option \<Rightarrow> unit cl" where
  "print_answer r = (case r of None \<Rightarrow> lift_cl (Inr ()) | Some d \<Rightarrow> print_cl d)"

definition cli_body :: "cli_args \<Rightarrow> unit cl" where
  "cli_body args =
     (if ca_command args = ''list'' then cmd_list args
      else bind_cl (lift_cl (arguments_ok args)) (\<lambda>_.
        if ca_command args = ''restore''
        then bind_cl (load_backup (the (ca_file args))) (\<lambda>backup.
          if \<not> ca_confirm args
          then print_cl [(''status'', JStr ''dry_run''), (''source_node_id'', dget backup ''source_node_id''), (''identity_restored'', JBool False)]
          else bind_cl (cli_connected args backup) print_answer)
        else bind_cl (cli_connected args []) print_answer))"

text \<open>The exit status; an exception that is not among the caught classes leaves the program.\<close>

definition cli_main :: "cli_args \<Rightarrow> int cl" where
  "cli_main args w =
     (case cli_body args w of
        (Inr _, w') \<Rightarrow> (Inr 0, w')
      | (Inl e, w') \<Rightarrow> if read_failure e then (Inr 2, w') else (Inl e, w'))"

section \<open>What a run asks of a node\<close>

type_synonym exchange = "string \<times> dict \<times> dict result"

text \<open>Every exchange satisfies \<open>P\<close> together with the exchanges before it.\<close>

fun guarded :: "(exchange list \<Rightarrow> exchange \<Rightarrow> bool) \<Rightarrow> exchange list \<Rightarrow> exchange list \<Rightarrow> bool" where
  "guarded P pre [] = True"
| "guarded P pre (e # es) = (P pre e \<and> guarded P (pre @ [e]) es)"

lemma guarded_append: "guarded P pre (xs @ ys) \<longleftrightarrow> guarded P pre xs \<and> guarded P (pre @ xs) ys"
  by (induction P pre xs rule: guarded.induct) auto

text \<open>
  A calculus for runs: when the exchanges so far are guarded and satisfy \<open>Q\<close>, those after \<open>m\<close> are guarded, and satisfy \<open>R x\<close> if it
  returned \<open>x\<close>.
\<close>

definition run_ok :: "(exchange list \<Rightarrow> exchange \<Rightarrow> bool) \<Rightarrow> (exchange set \<Rightarrow> bool) \<Rightarrow> 'a cl \<Rightarrow> ('a \<Rightarrow> exchange set \<Rightarrow> bool) \<Rightarrow> bool" where
  "run_ok P Q m R \<longleftrightarrow> (\<forall>w r w'. m w = (r, w') \<longrightarrow> guarded P [] (cl_trace w) \<longrightarrow> Q (set (cl_trace w)) \<longrightarrow>
     guarded P [] (cl_trace w') \<and> (\<forall>x. r = Inr x \<longrightarrow> R x (set (cl_trace w'))))"

lemma run_okD: "run_ok P Q m R \<Longrightarrow> m w = (r, w') \<Longrightarrow> guarded P [] (cl_trace w) \<Longrightarrow> Q (set (cl_trace w)) \<Longrightarrow>
   guarded P [] (cl_trace w') \<and> (\<forall>x. r = Inr x \<longrightarrow> R x (set (cl_trace w')))"
  by (simp add: run_ok_def)

lemma run_conseq: "run_ok P Q m R \<Longrightarrow> (\<And>t. Q' t \<Longrightarrow> Q t) \<Longrightarrow> (\<And>x t. R x t \<Longrightarrow> R' x t) \<Longrightarrow> run_ok P Q' m R'"
  unfolding run_ok_def by blast

lemma run_bind:
  assumes "run_ok P Q m R'" "\<And>x. run_ok P (R' x) (f x) R"
  shows "run_ok P Q (bind_cl m f) R"
  unfolding run_ok_def
proof (intro allI impI)
  fix w r w'
  assume run: "bind_cl m f w = (r, w')" and g: "guarded P [] (cl_trace w)" and q: "Q (set (cl_trace w))"
  obtain y w1 where m: "m w = (y, w1)" by (cases "m w")
  note first = run_okD [OF assms(1) m g q]
  show "guarded P [] (cl_trace w') \<and> (\<forall>x. r = Inr x \<longrightarrow> R x (set (cl_trace w')))"
  proof (cases y)
    case (Inl e)
    with run m first show ?thesis by (auto simp: bind_cl_def)
  next
    case (Inr x)
    with run m have "f x w1 = (r, w')" by (simp add: bind_cl_def)
    from run_okD [OF assms(2) this] first Inr show ?thesis by blast
  qed
qed

lemma run_lift: "run_ok P Q (lift_cl r) (\<lambda>x t. Q t \<and> r = Inr x)"
  by (auto simp: run_ok_def lift_cl_def)

lemma run_require: "run_ok P Q (require_cl b e) (\<lambda>_ t. Q t \<and> b)"
  unfolding require_cl_def by (rule run_conseq [OF run_lift]) (auto split: if_splits)

lemma run_request:
  assumes "\<And>t r. Q (set t) \<Longrightarrow> P t (action, params, r)" "\<And>t u. Q t \<Longrightarrow> t \<subseteq> u \<Longrightarrow> Q u"
  shows "run_ok P Q (cli_request action params) (\<lambda>x t. Q t \<and> (action, params, Inr x) \<in> t)"
  unfolding run_ok_def
proof (intro allI impI)
  fix w r w'
  assume run: "cli_request action params w = (r, w')" and g: "guarded P [] (cl_trace w)" and q: "Q (set (cl_trace w))"
  from run have "cl_trace w' = cl_trace w @ [(action, params, r)]"
    by (auto simp: cli_request_def Let_def split: prod.splits)
  with g q assms(1) [OF q] assms(2) [OF q, of "set (cl_trace w')"]
  show "guarded P [] (cl_trace w') \<and> (\<forall>x. r = Inr x \<longrightarrow> Q (set (cl_trace w')) \<and> (action, params, Inr x) \<in> set (cl_trace w'))"
    by (auto simp: guarded_append)
qed

lemma run_quiet: "(\<And>w. cl_trace (snd (m w)) = cl_trace w) \<Longrightarrow> run_ok P Q m (\<lambda>_ t. Q t)"
  by (auto simp: run_ok_def) (metis snd_conv)+

lemma cli_quiet_steps: "cl_trace (snd (cli_open p t w)) = cl_trace w" "cl_trace (snd (cli_ports w)) = cl_trace w" "cl_trace (snd (print_cl d w)) = cl_trace w"
    "cl_trace (snd (write_file f c w)) = cl_trace w" "cl_trace (snd (load_backup f w)) = cl_trace w"
  by (simp_all add: cli_open_def cli_ports_def print_cl_def write_file_def load_backup_def check_backup_def split: prod.split sum.split json.split)

lemmas run_open = run_quiet [OF cli_quiet_steps(1)]
lemmas run_ports = run_quiet [OF cli_quiet_steps(2)]
lemmas run_print = run_quiet [OF cli_quiet_steps(3)]
lemmas run_write = run_quiet [OF cli_quiet_steps(4)]
lemmas run_load = run_quiet [OF cli_quiet_steps(5)]

section \<open>Changes are confirmed\<close>

definition answered :: "exchange set \<Rightarrow> string \<Rightarrow> dict \<Rightarrow> dict \<Rightarrow> bool" where
  "answered t action params st \<longleftrightarrow> (\<exists>response. (action, params, Inr response) \<in> t \<and> dget response ''result'' = JObj st)"

definition permitted :: "cli_args \<Rightarrow> exchange list \<Rightarrow> exchange \<Rightarrow> bool" where
  "permitted args pre e \<longleftrightarrow> (case e of (action, params, _) \<Rightarrow>
     (action = ''confirm_factory_reset'' \<longrightarrow> ca_confirm args \<and>
        (\<exists>h before ch. ca_hardware_id args = Some h \<and> hardware_id_pattern h \<and>
           answered (set pre) ''read_node_state'' [] before \<and> dget before ''hardware_id'' = JStr h \<and>
           answered (set pre) ''prepare_factory_reset'' (reset_args args) ch \<and> dget ch ''hardware_id'' = JStr h \<and>
           params = confirm_args args (dget ch ''operation_id'') (dget ch ''challenge''))) \<and>
     (action = ''restore_configuration'' \<longrightarrow> ca_command args = ''restore'' \<and> ca_confirm args \<and> map fst params = restore_keys) \<and>
     (action = ''provision_identity'' \<longrightarrow> ca_command args = ''provision'' \<and>
        (\<exists>n st. ca_node_id args = Some n \<and> node_id_text n \<and> params = [(''node_id'', JStr n)] \<and>
           answered (set pre) ''read_identity'' [] st \<and> dget st ''identity_status'' = JStr ''unprovisioned'')))"

lemma permitted_reads:
  "action \<notin> {''confirm_factory_reset'', ''restore_configuration'', ''provision_identity''} \<Longrightarrow> permitted args pre (action, params, r)"
  by (simp add: permitted_def)

lemma answered_mono: "answered t a p st \<Longrightarrow> t \<subseteq> u \<Longrightarrow> answered u a p st"
  by (auto simp: answered_def)

lemma as_object_Inr: "as_object v = Inr st \<longleftrightarrow> v = JObj st"
  by (cases v) auto

lemma item_at_dget: "item_at d k = Inr v \<Longrightarrow> dget d k = v"
  by (simp add: item_at_def dget_def split: option.splits)

lemma run_state:
  assumes "action \<notin> {''confirm_factory_reset'', ''restore_configuration'', ''provision_identity''}" "\<And>t u. Q t \<Longrightarrow> t \<subseteq> u \<Longrightarrow> Q u"
  shows "run_ok (permitted args) Q (cli_state action params) (\<lambda>st t. Q t \<and> answered t action params st)"
  unfolding cli_state_def result_cl_def
proof (rule run_bind)
  show "run_ok (permitted args) Q (cli_request action params) (\<lambda>x t. Q t \<and> (action, params, Inr x) \<in> t)"
    by (rule run_request) (use assms in \<open>auto simp: permitted_reads\<close>)
  fix response
  show "run_ok (permitted args) (\<lambda>t. Q t \<and> (action, params, Inr response) \<in> t)
     (bind_cl (lift_cl (item_at response ''result'')) (\<lambda>v. lift_cl (as_object v))) (\<lambda>st t. Q t \<and> answered t action params st)"
    by (rule run_bind [OF run_lift], rule run_conseq [OF run_lift]) (auto simp: as_object_Inr answered_def dest!: item_at_dget)
qed

abbreviation no_evidence :: "exchange set \<Rightarrow> bool" where
  "no_evidence t \<equiv> True"

lemma run_read:
  assumes "action \<notin> {''confirm_factory_reset'', ''restore_configuration'', ''provision_identity''}" "\<And>t u. Q t \<Longrightarrow> t \<subseteq> u \<Longrightarrow> Q u"
  shows "run_ok (permitted args) Q (cli_request action params) (\<lambda>x t. Q t \<and> (action, params, Inr x) \<in> t)"
  by (rule run_request) (use assms in \<open>auto simp: permitted_reads\<close>)

lemma run_any: "run_ok P Q m R \<Longrightarrow> run_ok P Q m (\<lambda>_ _. True)"
  by (erule run_conseq) auto

lemma run_inspect: "run_ok (permitted args) no_evidence (inspect_port port timeout) (\<lambda>_. no_evidence)"
  unfolding inspect_port_def
  by (rule run_bind [OF run_open], rule run_bind, rule run_any [OF run_state], simp_all, rule run_any [OF run_lift])

lemma run_list: "run_ok (permitted args) no_evidence (list_devices_cl timeout ports) (\<lambda>_. no_evidence)"
proof (induction ports)
  case (Cons port ports)
  show ?case unfolding run_ok_def
  proof (intro allI impI)
    fix w r w'
    assume run: "list_devices_cl timeout (port # ports) w = (r, w')" and g: "guarded (permitted args) [] (cl_trace w)"
    obtain y w1 where first: "inspect_port port timeout w = (y, w1)" by (cases "inspect_port port timeout w")
    from run_okD [OF run_inspect first g] have g1: "guarded (permitted args) [] (cl_trace w1)" by simp
    have rest: "guarded (permitted args) [] (cl_trace w')" if "bind_cl (list_devices_cl timeout ports) (\<lambda>ds. lift_cl (Inr (d # ds))) w1 = (r, w')" for d
      using run_okD [OF run_bind [OF Cons.IH run_any [OF run_lift]] that g1] by simp
    from run first rest g1 show "guarded (permitted args) [] (cl_trace w') \<and> (\<forall>x. r = Inr x \<longrightarrow> True)"
      by (auto split: sum.splits if_splits)
  qed
qed (simp add: run_ok_def)

lemma run_scan: "run_ok (permitted args) no_evidence (cli_scan a ports) (\<lambda>_. no_evidence)"
proof (induction ports)
  case (Cons port ports)
  show ?case unfolding run_ok_def
  proof (intro allI impI)
    fix w r w'
    assume run: "cli_scan a (port # ports) w = (r, w')" and g: "guarded (permitted args) [] (cl_trace w)"
    obtain y w1 where first: "inspect_port port (ca_timeout a) w = (y, w1)" by (cases "inspect_port port (ca_timeout a) w")
    from run_okD [OF run_inspect first g] have g1: "guarded (permitted args) [] (cl_trace w1)" by simp
    have rest: "guarded (permitted args) [] (cl_trace w')" if "cli_scan a ports w1 = (r, w')"
      using run_okD [OF Cons.IH that g1] by simp
    from run first rest g1 show "guarded (permitted args) [] (cl_trace w') \<and> (\<forall>x. r = Inr x \<longrightarrow> True)"
      by (auto split: sum.splits if_splits)
  qed
qed (simp add: run_ok_def)

lemma run_wait: "run_ok (permitted args) no_evidence (cli_wait polls a) (\<lambda>_. no_evidence)"
proof (induction polls)
  case (Suc polls)
  have step: "cli_wait (Suc polls) a = bind_cl cli_ports (\<lambda>ports. bind_cl (cli_scan a ports) (\<lambda>found.
       case found of None \<Rightarrow> cli_wait polls a | Some v \<Rightarrow> lift_cl (Inr (Some v))))" by (rule ext) simp
  show ?case unfolding step
    by (rule run_bind [OF run_ports], rule run_bind [OF run_scan]) (auto split: option.split intro: Suc run_any [OF run_lift])
qed (simp add: run_ok_def)

lemma run_provision:
  assumes "ca_command args = ''provision''" "ca_node_id args = Some n" "node_id_text n"
  shows "run_ok (permitted args) no_evidence (cmd_provision args) (\<lambda>_. no_evidence)"
  unfolding cmd_provision_def
proof (rule run_bind [OF run_state])
  fix st
  let ?Q = "\<lambda>t. True \<and> answered t ''read_identity'' [] st"
  show "run_ok (permitted args) ?Q (bind_cl (lift_cl (item_at st ''identity_status'')) (\<lambda>status.
     bind_cl (require_cl (status = JStr ''unprovisioned'') (ProtocolError ''node is not unprovisioned'')) (\<lambda>_.
     bind_cl (cli_request ''provision_identity'' [(''node_id'', JStr (the (ca_node_id args)))]) (\<lambda>response.
     bind_cl (cli_state ''read_identity'' []) (\<lambda>check.
     bind_cl (require_cl (dget check ''node_id'' = JStr (the (ca_node_id args))) (ProtocolError ''identity read-back mismatch'')) (\<lambda>_.
       lift_cl (Inr response))))))) (\<lambda>_. no_evidence)"
  proof (rule run_bind [OF run_lift], rule run_bind [OF run_require], rule run_bind [OF run_request])
    fix status t r
    assume "(?Q (set t) \<and> item_at st ''identity_status'' = Inr status) \<and> status = JStr ''unprovisioned''"
    with assms show "permitted args t (''provision_identity'', [(''node_id'', JStr (the (ca_node_id args)))], r)"
      by (auto simp: permitted_def dest!: item_at_dget)
  next
    fix status response
    show "run_ok (permitted args) (\<lambda>t. ((?Q t \<and> item_at st ''identity_status'' = Inr status) \<and> status = JStr ''unprovisioned'') \<and>
        (''provision_identity'', [(''node_id'', JStr (the (ca_node_id args)))], Inr response) \<in> t)
     (bind_cl (cli_state ''read_identity'' []) (\<lambda>check.
     bind_cl (require_cl (dget check ''node_id'' = JStr (the (ca_node_id args))) (ProtocolError ''identity read-back mismatch'')) (\<lambda>_.
       lift_cl (Inr response)))) (\<lambda>_. no_evidence)"
      by (rule run_conseq [where Q = no_evidence], rule run_bind [OF run_any [OF run_state]], simp, simp,
          rule run_bind [OF run_any [OF run_require]], rule run_any [OF run_lift], auto)
  qed (auto dest: answered_mono)
qed auto

lemma run_verify_cmd: "run_ok (permitted args) no_evidence cmd_verify (\<lambda>_. no_evidence)"
proof -
  have same: "run_ok (permitted args) no_evidence
     (\<lambda>w. (if cl_same w a b then Inr second else Inl (ProtocolError ''state changed between verification reads''), w)) (\<lambda>_. no_evidence)"
    for a b and second :: dict by (auto simp: run_ok_def)
  show ?thesis unfolding cmd_verify_def result_cl_def
    by (rule run_bind [OF run_any [OF run_read]], simp, simp, rule run_bind [OF run_any [OF run_read]], simp, simp,
        rule run_bind [OF run_any [OF run_lift]], rule run_bind [OF run_any [OF run_lift]], rule same)
qed

lemma run_backup_cmd: "run_ok (permitted args) no_evidence (cmd_backup a) (\<lambda>_. no_evidence)"
  unfolding cmd_backup_def
proof (rule run_bind [OF run_any [OF run_state]])
  fix st
  let ?b = "\<lambda>w. make_backup (uw_canonical (cl_usb w)) (cl_sha256 w) st (cl_now w) (ca_include_identity a)"
  have "run_ok (permitted args) no_evidence (bind_cl (write_file path backup) (\<lambda>_. bind_cl (load_backup path) (\<lambda>_. lift_cl (Inr d)))) (\<lambda>_. no_evidence)"
    for path backup and d :: dict
    by (rule run_bind [OF run_any [OF run_write]], rule run_bind [OF run_any [OF run_load]], rule run_any [OF run_lift])
  then show "run_ok (permitted args) no_evidence (\<lambda>w. let backup = ?b w; path = the (ca_file a) in
       bind_cl (write_file path backup) (\<lambda>_. bind_cl (load_backup path) (\<lambda>_.
         lift_cl (Inr [(''status'', JStr ''success''), (''file'', JStr path), (''sha256'', dget backup ''canonical_content_hash'')]))) w) (\<lambda>_. no_evidence)"
    unfolding run_ok_def Let_def by blast
qed auto

lemma restore_fields_keys: "restore_fields backup = Inr params \<Longrightarrow> map fst params = restore_keys"
proof -
  assume "restore_fields backup = Inr params"
  then obtain c where p: "params = map (\<lambda>k. (k, dget c k)) (filter (has_key c) restore_keys)" "length params = 7"
    by (auto simp: restore_fields_def Let_def split: json.splits if_splits)
  have "filter (has_key c) restore_keys = restore_keys"
    using p by (intro filter_True) (use length_filter_less [of _ restore_keys "has_key c"] in \<open>fastforce simp: restore_keys_def\<close>)
  then show ?thesis by (simp add: p(1) comp_def)
qed

lemma run_restore:
  assumes "ca_command args = ''restore''" "ca_confirm args"
  shows "run_ok (permitted args) no_evidence (cmd_restore backup) (\<lambda>_. no_evidence)"
  unfolding cmd_restore_def
  by (rule run_bind [OF run_lift], rule run_any [OF run_request])
    (use assms restore_fields_keys in \<open>auto simp: permitted_def\<close>)

lemma run_reset:
  assumes confirmed: "\<And>t r ch v op c before prepared.
      ca_confirm args \<Longrightarrow> (case ca_hardware_id args of None \<Rightarrow> False | Some h \<Rightarrow> hardware_id_pattern h) \<Longrightarrow>
      answered (set t) ''read_node_state'' [] before \<Longrightarrow> dget before ''hardware_id'' = JStr (the (ca_hardware_id args)) \<Longrightarrow>
      answered (set t) ''prepare_factory_reset'' (reset_args args) ch \<Longrightarrow> dget ch ''hardware_id'' = JStr (the (ca_hardware_id args)) \<Longrightarrow>
      dget ch ''operation_id'' = op \<Longrightarrow> dget ch ''challenge'' = c \<Longrightarrow>
      permitted args t (''confirm_factory_reset'', confirm_args args op c, r)"
  shows "run_ok (permitted args) no_evidence (cmd_reset args) (\<lambda>_. no_evidence)"
  unfolding cmd_reset_def result_cl_def
proof (rule run_bind [OF run_require], rule run_bind [OF run_state], simp, simp, rule run_bind [OF run_require],
    rule run_bind [OF run_read])
  fix before prepared
  let ?hw = "case ca_hardware_id args of None \<Rightarrow> False | Some h \<Rightarrow> hardware_id_pattern h"
  let ?Q = "\<lambda>t. (((True \<and> ?hw) \<and> answered t ''read_node_state'' [] before) \<and> dget before ''hardware_id'' = JStr (the (ca_hardware_id args))) \<and>
      (''prepare_factory_reset'', reset_args args, Inr prepared) \<in> t"
  have mono: "?Q t \<Longrightarrow> t \<subseteq> u \<Longrightarrow> ?Q u" for t u by (auto dest: answered_mono)
  let ?dry = "bind_cl (cli_request ''cancel_factory_reset'' []) (\<lambda>_.
       bind_cl (lift_cl (item_at prepared ''result'')) (\<lambda>v. bind_cl (lift_cl (as_object v)) (\<lambda>p.
       bind_cl (print_cl [(''status'', JStr ''prepared_then_cancelled''), (''hardware_id'', JStr (the (ca_hardware_id args))),
         (''scope'', JStr (ca_scope args)), (''expires_in_ms'', dget p ''expires_in_ms'')]) (\<lambda>_. lift_cl (Inr (Inl ()))))))"
  let ?wet = "bind_cl (lift_cl (item_at prepared ''result'')) (\<lambda>v. bind_cl (lift_cl (as_object v)) (\<lambda>challenge.
       bind_cl (require_cl (dget challenge ''hardware_id'' = JStr (the (ca_hardware_id args)))
         (ProtocolError ''reset challenge hardware identity mismatch'')) (\<lambda>_.
       bind_cl (lift_cl (item_at challenge ''operation_id'')) (\<lambda>operation_id.
       bind_cl (lift_cl (item_at challenge ''challenge'')) (\<lambda>c.
       bind_cl (cli_request ''confirm_factory_reset'' (confirm_args args operation_id c)) (\<lambda>response.
         lift_cl (Inr (Inr (before, response)))))))))"
  have dry: "run_ok (permitted args) ?Q ?dry (\<lambda>_. no_evidence)"
    by (rule run_conseq [where Q = no_evidence], rule run_bind [OF run_any [OF run_read]], simp, simp, rule run_bind [OF run_any [OF run_lift]],
        rule run_bind [OF run_any [OF run_lift]], rule run_bind [OF run_any [OF run_print]], rule run_any [OF run_lift], auto)
  have wet: "run_ok (permitted args) ?Q ?wet (\<lambda>_. no_evidence)" if "ca_confirm args"
  proof (rule run_bind [OF run_lift], rule run_bind [OF run_lift], rule run_bind [OF run_require], rule run_bind [OF run_lift],
      rule run_bind [OF run_lift], rule run_bind [OF run_any [OF run_request]])
    fix v ch op c t r
    assume "((((?Q (set t) \<and> item_at prepared ''result'' = Inr v) \<and> as_object v = Inr ch) \<and>
        dget ch ''hardware_id'' = JStr (the (ca_hardware_id args))) \<and> item_at ch ''operation_id'' = Inr op) \<and> item_at ch ''challenge'' = Inr c"
    then show "permitted args t (''confirm_factory_reset'', confirm_args args op c, r)"
      by (intro confirmed [OF that, of t before ch]) (auto simp: answered_def as_object_Inr dest!: item_at_dget)
  qed (auto dest: answered_mono intro: run_any [OF run_lift])
  show "run_ok (permitted args) ?Q (if \<not> ca_confirm args then ?dry else ?wet) (\<lambda>_. no_evidence)"
    by (cases "ca_confirm args") (simp_all only: if_True if_False not_True_eq_False not_False_eq_True dry wet)
qed (auto dest: answered_mono)

lemma run_finish: "run_ok (permitted args) no_evidence (cmd_finish_reset a before response) (\<lambda>_. no_evidence)"
  unfolding cmd_finish_reset_def result_cl_def
  by (rule run_bind [OF run_wait], rule run_bind [OF run_any [OF run_lift]], rule run_bind [OF run_any [OF run_lift]],
      rule run_bind [OF run_any [OF run_lift]], rule run_bind [OF run_any [OF run_lift]], rule run_any [OF run_lift])

lemma run_answer: "run_ok (permitted args) no_evidence (print_answer r) (\<lambda>_. no_evidence)"
  unfolding print_answer_def by (cases r) (auto intro: run_any [OF run_lift] run_any [OF run_print])

lemma run_some: "run_ok P Q m (\<lambda>_. no_evidence) \<Longrightarrow> run_ok P Q (bind_cl m (\<lambda>r. lift_cl (Inr (Some r)))) (\<lambda>_. no_evidence)"
  by (erule run_bind) (rule run_any [OF run_lift])

lemma confirmed_reset:
  "ca_confirm args \<Longrightarrow> (case ca_hardware_id args of None \<Rightarrow> False | Some h \<Rightarrow> hardware_id_pattern h) \<Longrightarrow>
   answered (set t) ''read_node_state'' [] before \<Longrightarrow> dget before ''hardware_id'' = JStr (the (ca_hardware_id args)) \<Longrightarrow>
   answered (set t) ''prepare_factory_reset'' (reset_args args) ch \<Longrightarrow> dget ch ''hardware_id'' = JStr (the (ca_hardware_id args)) \<Longrightarrow>
   dget ch ''operation_id'' = op \<Longrightarrow> dget ch ''challenge'' = c \<Longrightarrow> permitted args t (''confirm_factory_reset'', confirm_args args op c, r)"
  unfolding permitted_def by (cases "ca_hardware_id args") auto

lemma run_connected:
  assumes "arguments_ok args = Inr ()" "ca_command args = ''restore'' \<Longrightarrow> ca_confirm args"
  shows "run_ok (permitted args) no_evidence (cli_connected args backup) (\<lambda>_. no_evidence)"
  unfolding cli_connected_def
proof (rule run_bind [OF run_open])
  have provision: "run_ok (permitted args) no_evidence (cmd_provision args) (\<lambda>_. no_evidence)" if "ca_command args = ''provision''"
    using that assms(1) by (cases "ca_node_id args") (auto simp: arguments_ok_def intro: run_provision split: if_splits)
  have restore: "run_ok (permitted args) no_evidence (cmd_restore backup) (\<lambda>_. no_evidence)" if "ca_command args = ''restore''"
    by (rule run_restore) (use that assms(2) in simp_all)
  have reset: "run_ok (permitted args) no_evidence (bind_cl (cmd_reset args) (\<lambda>x.
      case x of Inl _ \<Rightarrow> lift_cl (Inr None)
      | Inr (before, response) \<Rightarrow> bind_cl (cmd_finish_reset args before response) (\<lambda>r. lift_cl (Inr (Some r))))) (\<lambda>_. no_evidence)"
    by (rule run_bind [OF run_reset [OF confirmed_reset]])
      (auto split: sum.split prod.split intro: run_any [OF run_lift] run_some [OF run_finish])
  have read: "run_ok (permitted args) no_evidence (cli_request ''read_node_state'' []) (\<lambda>_. no_evidence)"
    by (rule run_any [OF run_read]) auto
  show "run_ok (permitted args) no_evidence (
       if ca_command args = ''read'' then bind_cl (cli_request ''read_node_state'' []) (\<lambda>r. lift_cl (Inr (Some r)))
       else if ca_command args = ''provision'' then bind_cl (cmd_provision args) (\<lambda>r. lift_cl (Inr (Some r)))
       else if ca_command args = ''verify'' then bind_cl cmd_verify (\<lambda>r. lift_cl (Inr (Some r)))
       else if ca_command args = ''backup'' then bind_cl (cmd_backup args) (\<lambda>r. lift_cl (Inr (Some r)))
       else if ca_command args = ''restore'' then bind_cl (cmd_restore backup) (\<lambda>r. lift_cl (Inr (Some r)))
       else bind_cl (cmd_reset args) (\<lambda>x.
         case x of Inl _ \<Rightarrow> lift_cl (Inr None)
         | Inr (before, response) \<Rightarrow> bind_cl (cmd_finish_reset args before response) (\<lambda>r. lift_cl (Inr (Some r))))) (\<lambda>_. no_evidence)" for u :: unit
    by (simp only: split: if_split) (intro conjI impI run_some read provision run_verify_cmd run_backup_cmd restore reset; assumption)
qed

lemma run_body: "run_ok (permitted args) no_evidence (cli_body args) (\<lambda>_. no_evidence)"
proof (cases "ca_command args = ''list''")
  case True
  show ?thesis unfolding cli_body_def cmd_list_def
    by (simp add: True) (rule run_bind [OF run_ports], rule run_bind [OF run_list], rule run_any [OF run_print])
next
  case False
  have connected: "run_ok (permitted args) no_evidence (bind_cl (cli_connected args backup) print_answer) (\<lambda>_. no_evidence)"
    if "arguments_ok args = Inr ()" "ca_command args = ''restore'' \<Longrightarrow> ca_confirm args" for backup
    by (rule run_bind [OF run_connected [OF that] run_answer]) auto
  have "run_ok (permitted args) (\<lambda>t. True \<and> arguments_ok args = Inr u) (
        if ca_command args = ''restore''
        then bind_cl (load_backup (the (ca_file args))) (\<lambda>backup.
          if \<not> ca_confirm args
          then print_cl [(''status'', JStr ''dry_run''), (''source_node_id'', dget backup ''source_node_id''), (''identity_restored'', JBool False)]
          else bind_cl (cli_connected args backup) print_answer)
        else bind_cl (cli_connected args []) print_answer) (\<lambda>_. no_evidence)" for u
  proof (cases "arguments_ok args = Inr ()")
    case True
    have loaded: "run_ok (permitted args) no_evidence (if \<not> ca_confirm args
          then print_cl [(''status'', JStr ''dry_run''), (''source_node_id'', dget backup ''source_node_id''), (''identity_restored'', JBool False)]
          else bind_cl (cli_connected args backup) print_answer) (\<lambda>_. no_evidence)" for backup
      by (cases "ca_confirm args") (simp_all add: connected [OF True] run_any [OF run_print])
    show ?thesis
    proof (rule run_conseq [where Q = no_evidence and R = "\<lambda>_. no_evidence"])
      show "run_ok (permitted args) no_evidence (
        if ca_command args = ''restore''
        then bind_cl (load_backup (the (ca_file args))) (\<lambda>backup.
          if \<not> ca_confirm args
          then print_cl [(''status'', JStr ''dry_run''), (''source_node_id'', dget backup ''source_node_id''), (''identity_restored'', JBool False)]
          else bind_cl (cli_connected args backup) print_answer)
        else bind_cl (cli_connected args []) print_answer) (\<lambda>_. no_evidence)"
        using run_bind [OF run_load loaded] connected [OF True, of "[]"] by (cases "ca_command args = ''restore''") simp_all
    qed simp_all
  qed (simp add: run_ok_def)
  then show ?thesis unfolding cli_body_def using False by (simp only: if_False) (rule run_bind [OF run_lift])
qed


definition sample_response :: "string \<Rightarrow> dict \<Rightarrow> dict" where
  "sample_response action st = [(''type'', JStr ''bootstrap_response''), (''schema_version'', JInt 1), (''request_id'', JStr ''r''),
     (''action'', JStr action), (''status'', JStr ''success''), (''result'', JObj st)]"

definition sample_loads :: "string \<Rightarrow> json option" where
  "sample_loads text =
     (if text = ''1'' then Some (JObj (sample_response ''read_identity'' [(''identity_status'', JStr ''unprovisioned'')]))
      else if text = ''2'' then Some (JObj (sample_response ''provision_identity'' []))
      else if text = ''3'' then Some (JObj (sample_response ''read_identity'' [(''node_id'', JStr ''N1'')])) else None)"

definition sample_cli_world :: cli_world where
  "sample_cli_world = \<lparr>cl_usb = \<lparr>uw_canonical = (\<lambda>_. ''{}''), uw_loads = sample_loads, uw_str = (\<lambda>_. ''''), uw_comports = (\<lambda>_. []),
       uw_open = (\<lambda>_. Inr ()), uw_reply = (\<lambda>n. (''r'', [PREFIX @ [''0123'' ! n]])), uw_clock = 0\<rparr>,
     cl_files = (\<lambda>_. Inl (OSError '''')), cl_writable = False, cl_sha256 = id, cl_now = '''', cl_same = (=), cl_trace = [], cl_printed = []\<rparr>"

definition sample_cli_args :: cli_args where
  "sample_cli_args = \<lparr>ca_command = ''provision'', ca_port = Some ''COM3'', ca_node_id = Some ''N1'', ca_file = None,
     ca_scope = ''application_factory'', ca_hardware_id = None, ca_confirm = False, ca_include_identity = False, ca_timeout = 3, ca_polls = 0\<rparr>"

lemma sample_request:
  assumes "sample_loads [c] = Some (JObj (sample_response action st))" "action = ''read_identity'' \<or> action = ''provision_identity''"
  shows "client_request (\<lambda>_. ''{}'') sample_loads (\<lambda>_. '''') ''r'' action params [PREFIX @ [c]] = Inr (sample_response action st)"
proof -
  have "encode_request (\<lambda>_. ''{}'') ''r'' action params = Inr (PREFIX @ ''{}'' @ [char_of (10 :: nat)])"
    using assms(2) by (auto simp: encode_request_def valid_bootstrap_id_def is_token_char_def is_lower_alnum_def ALLOWED_ACTIONS_def
        MAX_LINE_BYTES_def PREFIX_def)
  moreover have "decode_response sample_loads (PREFIX @ [c]) ''r'' action = Inr (sample_response action st)"
    using assms(1) by (simp add: decode_response_def MAX_LINE_BYTES_def PREFIX_def required_keys_def has_key_def sample_response_def
        dget_def)
  ultimately show ?thesis
    by (simp add: client_request_def numeral_eq_Suc sample_response_def dget_def PREFIX_def)
qed

definition sample_at :: "nat \<Rightarrow> exchange list \<Rightarrow> cli_world" where
  "sample_at n tr = sample_cli_world\<lparr>cl_usb := (cl_usb sample_cli_world)\<lparr>uw_clock := n\<rparr>, cl_trace := tr\<rparr>"

lemma sample_exchange:
  assumes "sample_loads [''0123'' ! n] = Some (JObj (sample_response action st))" "action = ''read_identity'' \<or> action = ''provision_identity''"
  shows "cli_request action params (sample_at n tr) =
      (Inr (sample_response action st), sample_at (Suc n) (tr @ [(action, params, Inr (sample_response action st))]))"
  using sample_request [OF assms, of params]
  by (simp add: cli_request_def sample_at_def sample_cli_world_def tick_def Let_def)

lemma sample_state:
  assumes "sample_loads [''0123'' ! n] = Some (JObj (sample_response action st))" "action = ''read_identity'' \<or> action = ''provision_identity''"
  shows "cli_state action params (sample_at n tr) =
      (Inr st, sample_at (Suc n) (tr @ [(action, params, Inr (sample_response action st))]))"
  by (simp add: cli_state_def bind_cl_def sample_exchange [OF assms] result_cl_def lift_cl_def item_at_def sample_response_def)

lemma sample_cli_provision:
  "cmd_provision sample_cli_args (sample_at 1 []) =
     (Inr (sample_response ''provision_identity'' []),
      sample_at 4 [(''read_identity'', [], Inr (sample_response ''read_identity'' [(''identity_status'', JStr ''unprovisioned'')])),
        (''provision_identity'', [(''node_id'', JStr ''N1'')], Inr (sample_response ''provision_identity'' [])),
        (''read_identity'', [], Inr (sample_response ''read_identity'' [(''node_id'', JStr ''N1'')]))])"
proof -
  have 1: "cli_state ''read_identity'' [] (sample_at 1 tr) = (Inr [(''identity_status'', JStr ''unprovisioned'')],
      sample_at 2 (tr @ [(''read_identity'', [], Inr (sample_response ''read_identity'' [(''identity_status'', JStr ''unprovisioned'')]))]))" for tr
    using sample_state [of 1 "''read_identity''" "[(''identity_status'', JStr ''unprovisioned'')]" "[]" tr]
    by (simp add: sample_loads_def numeral_2_eq_2)
  have 2: "cli_request ''provision_identity'' p (sample_at 2 tr) = (Inr (sample_response ''provision_identity'' []),
      sample_at 3 (tr @ [(''provision_identity'', p, Inr (sample_response ''provision_identity'' []))]))" for p tr
    using sample_exchange [of 2 "''provision_identity''" "[]" p tr] by (simp add: sample_loads_def)
  have 3: "cli_state ''read_identity'' [] (sample_at 3 tr) = (Inr [(''node_id'', JStr ''N1'')],
      sample_at 4 (tr @ [(''read_identity'', [], Inr (sample_response ''read_identity'' [(''node_id'', JStr ''N1'')]))]))" for tr
    using sample_state [of 3 "''read_identity''" "[(''node_id'', JStr ''N1'')]" "[]" tr] by (simp add: sample_loads_def)
  show ?thesis
    by (simp add: cmd_provision_def bind_cl_def 1 2 3 lift_cl_def item_at_def require_cl_def dget_def sample_cli_args_def del: One_nat_def)
qed


end
