(* ===== verification/Spec2Isabelle.thy ===== *)
theory Spec2Isabelle
  imports Workflow_Refinement Firmware_Installation Nodes Profile_Api Application Bootstrap_Cli
begin

text \<open>
  A verification library for the edge gateway of the repository (\<open>gateway/app\<close>) and the host side of its USB
  bootstrap tool (\<open>sensor_package/tools/bootstrap\<close>).

  \<^bold>\<open>The program.\<close> The gateway registers XIAO MG24 sensor nodes, commissions sensors on the interfaces of a
  node, writes their configuration over BLE, receives telemetry packets, stores them in SQLite, watches
  vibration against learned baselines, and removes, restores or factory-resets nodes under confirmation.
  HTTP handlers (\<open>api\<close>) call services (\<open>services\<close>), which work on rows through repositories (\<open>repositories\<close>); the
  BLE manager delivers packets to the telemetry service and is told by the handlers which nodes to connect.

  \<^bold>\<open>The model.\<close> Every component is a group of executable definitions at the top level of its theory. A table is a
  list of records in insertion order inside the record \<open>db\<close>; a function that works in a session returns its
  result together with the database after its last commit. A result is \<open>Inl\<close> of an exception (the datatype
  \<open>exn\<close> has one constructor per exception class) or \<open>Inr\<close> of a value. Strings are lists of characters, Python
  integers are \<open>int\<close>, instants are microseconds. A float is a real number; each float operation is followed by a
  rounding function \<open>fl\<close>, whose contract is the locale \<open>rounding\<close>, interpreted (\<open>ieee\<close>) on the binary64 rounding
  \<open>fl64\<close>. Fresh identifiers, tokens and clock readings are arguments. What is not in the repository is an
  argument too: the BLE and USB partners, \<open>json.loads\<close> and \<open>json.dumps\<close>, the structural checks of Pydantic,
  version comparison of the packaging library, URL splitting, digests and case folding.

  \<^bold>\<open>The theories.\<close>
  \<^item> \<open>Prelude\<close>: exceptions, results, text helpers, tables (\<open>find_row\<close>, \<open>upd_rows\<close>, \<open>next_id\<close>) and the locale
    \<open>repository\<close> of keyed tables.
  \<^item> \<open>Floats\<close>, \<open>Json\<close>: rounding and decoded JSON values.
  \<^item> \<open>Schemas\<close> (\<open>schemas.py\<close>), \<open>Models\<close> (\<open>models.py\<close>): requests, telemetry values, rows, constraints.
  \<^item> \<open>Repositories\<close> (\<open>repositories\<close>): queries and updates of devices, installations, firmware history and readings,
    interpreted as \<open>devices\<close>, \<open>installations\<close> and \<open>attempts\<close>; the paged history returns every matching reading once.
  \<^item> \<open>Profiles\<close>, \<open>Profile_Registry\<close> (\<open>profiles\<close>): validators, conversions, loading, lookup and import of sensor
    profiles; validated conversions are total, interpolation and lookup are right at the calibration points,
    reload and import are characterised completely.
  \<^item> \<open>Capabilities\<close> (\<open>node_capability_service\<close>, \<open>channel_configuration_service\<close>, \<open>compatibility_service\<close>, \<open>adapter_registry\<close>):
    a node report only narrows what the gateway offers; when a node is compatible.
  \<^item> \<open>Devices\<close> (\<open>device_service\<close>, \<open>api/devices\<close>): registration keeps identities unique.
  \<^item> \<open>Installations\<close> (\<open>installation_service\<close>, \<open>api/installations\<close>): drafts, updates, disabling, archiving, profile
    upgrades and the library of facts about exclusive interfaces.
  \<^item> \<open>Provisioning\<close> (\<open>provisioning_service\<close>): validate, apply and verify over the locale \<open>node_configurator\<close>,
    interpreted for both configurators (\<open>pi\<close>, \<open>ble\<close>); concurrent calls are interleaved steps of the relation
    \<open>prov_step\<close>, and exclusivity is an invariant of its reachable states.
  \<^item> \<open>Telemetry_Parser\<close> (\<open>ble/telemetry_parser\<close>): legacy, versioned and vibration packets; parsed packets satisfy the
    schema, vibration features are bounded, and the exceptions of malformed packets are listed.
  \<^item> \<open>Vibration\<close>, \<open>Vibration_Service\<close> (\<open>vibration_condition\<close>, \<open>api/vibration\<close>): running statistics equal the two-pass ones,
    evaluations are bounded and consistent, the shown condition has hysteresis; baselines stay consistent, a
    frozen one is never altered, relearning keeps the history.
  \<^item> \<open>Telemetry_Service\<close> (\<open>telemetry_service\<close>, \<open>telemetry_persistence\<close>, \<open>telemetry_retention\<close>, \<open>api/telemetry\<close>): packets are stored at
    most once and completely, failures change nothing, retention ends with exactly the rows it should keep.
  \<^item> \<open>Lifecycle\<close> (\<open>request_security\<close>, \<open>lifecycle_confirmation\<close>, \<open>device_lifecycle_service\<close>, \<open>api/device_lifecycle\<close>): the locale
    \<open>token_store\<close> of single-use confirmations, interpreted (\<open>confirmations\<close>) on the lifecycle store; every
    removal or restoration is confirmed, and the two are inverse up to status and archived installations.
  \<^item> \<open>Bootstrap\<close> (\<open>bootstrap/protocol\<close>, \<open>serial_client\<close>, the backups of \<open>cli\<close>): correlation of answers, backups round trip.
  \<^item> \<open>Factory_Reset\<close> (\<open>usb_factory_reset\<close>, \<open>api/factory_reset\<close>): the second interpretation (\<open>resets\<close>) of \<open>token_store\<close>, the
    reset run over a USB world, and that a registration is removed only on physical evidence.
  \<^item> \<open>Simulation\<close>: the locale \<open>refinement_map\<close> of abstraction functions between transition systems.
  \<^item> \<open>Connection\<close> (\<open>ble/connection\<close>): the task of a connection cut at its \<open>await\<close> points and interleaved with the other
    coroutines (\<open>conn_step\<close>); it refines (\<open>supervised\<close>) the supervision cycle \<open>supervise\<close>, writes commands in order,
    stops in five turns, keeps to its own node, and gives up after 1025 failed attempts.
  \<^item> \<open>Manager\<close> (\<open>ble/manager\<close>, \<open>api/commands\<close>): the command allowlist, the table of connections and pausing it.
  \<^item> \<open>Onboarding\<close>, \<open>Ble_Provisioning\<close> (\<open>ble/onboarding_identity\<close>, \<open>ble_provisioning\<close>): the exchange that writes identity and
    configuration to a node; success means that the node has read both back, and nothing is written to a node that has
    another identity or is not the expected sensor.
  \<^item> \<open>Scanner\<close> (\<open>ble/scanner\<close>): the discovery cache; it shows the last observation of every address that is not too old.
  \<^item> \<open>Workflow\<close>, \<open>Reregister\<close> (\<open>reset_reregister_workflow\<close>, \<open>api/reset_reregister\<close>): the durable record of the reset-and-re-register
    workflow, its handlers and the task that watches a reset, composed of the lifecycle, reset, scanner, manager and
    provisioning components.
  \<^item> \<open>Workflow_Machine\<close>, \<open>Workflow_Refinement\<close>: an abstract machine of labelled moves (\<open>wf_move\<close>), a calculus of triples for
    handlers (\<open>tri\<close>), and that every handler takes moves of the machine (\<open>rr_step_moves\<close>); from this the invariant of all reachable
    states, and when a reset is launched, a sensor registered and a workflow complete.
  \<^item> \<open>Firmware\<close>, \<open>Firmware_Installation\<close> (\<open>firmware_installation\<close>, \<open>api/firmware\<close>): inspection of Intel HEX images, the approved
    catalogue, developer approvals and the installer, whose tasks are turns of the relation \<open>fw_step\<close>; the inspected range is the
    one a loader programs, a validated image stays clear of the protected regions, one device is written by one task at a time,
    and an operation is complete only on evidence.
  \<^item> \<open>Commissioning\<close>, \<open>Nodes\<close> (\<open>api/commissioning\<close>, \<open>api/nodes\<close>): handlers over scanner, provisioning client, database and manager in the
    state \<open>cm_app\<close>, with \<open>ce_meanwhile\<close> for what other requests do while one waits; nodes are registered, and configurations
    reported, only after the node has read them back.
  \<^item> \<open>Database\<close> (\<open>database\<close>): table creation, gateway identity and migration over generic rows (\<open>sql_db\<close>); an initialised database is
    stable under every later start, and the migration identifies every reading.
  \<^item> \<open>Websockets\<close> (\<open>websocket_manager\<close>, the socket of \<open>api/telemetry\<close>): broadcasts cut at their sends (\<open>ws_step\<close>).
  \<^item> \<open>Instance_Lock\<close> (\<open>instance_lock\<close>): the lock of a directory and port over an operating system with crashing processes (\<open>machine_step\<close>).
  \<^item> \<open>Profile_Api\<close> (\<open>api/profiles\<close>): the endpoints over the registry and the audit rows.
  \<^item> \<open>Application\<close> (\<open>main\<close>, \<open>config\<close>, \<open>api/health\<close>): settings, the status callback, start and stop, the retention loop, the middlewares and
    error handlers; destructive requests are checked, and late status reports never alter a registration.
  \<^item> \<open>Bootstrap_Cli\<close> (\<open>bootstrap/cli\<close>): the commands in a monad over the serial world and files, with a calculus (\<open>run_ok\<close>) for the exchanges
    a run makes; a node is changed only with consent and on evidence.

  \<^bold>\<open>Bounds and fuel.\<close> \<open>follow_cursors\<close> takes fuel for the number of pages, and the theorem on it shows that one more than
  the number of rows is enough. \<open>retention_rounds\<close> has a termination proof (each batch removes a row).
  \<open>inspect_attempts\<close>, \<open>retry_request\<close> and \<open>read_response\<close> recurse over the attempt and line limits of the source (2, 2, 64);
  \<open>wait_reboot\<close> recurses over the number of polls that fit before the deadline, which is a free argument. The
  deduplication cache is bounded by 256 as in the source. The \<open>wait_for\<close> of an exchange takes a free number of queue turns,
  after which the enclosing timeout of the source ends it; the polls of \<open>cli_wait\<close> are those that fit before its deadline. The
  installer polls 30 times as in the source, and 32 turns end a task. \<open>backfill_uuids\<close> has a termination proof (each batch identifies a
  reading).

  \<^bold>\<open>Not modelled.\<close> Logging, the process entry point and argument parsing, which only call libraries; the abstract
  service contracts, which have no behaviour; the registration of routers and static pages; response types that repeat
  the attributes of a row; the engine, pragmas and sessions of SQLAlchemy; the repository scripts and the graphical legacy
  dashboard. Infinities and NaN of intermediate float results in the vibration arithmetic are outside the model, since parsed values are finite and bounded. Sessions that fail are modelled as unchanged
  databases; the interleaving of threads inside one database transaction is SQLite's business.
\<close>

end
